(* ===== verification/Prelude.thy ===== *)
theory Prelude
  imports Main
begin

text \<open>
  Shared vocabulary of the development: the result-and-state computations in which every
  service method is written, the table primitives behind the database client, and the two
  collections (\<open>op_simps\<close> for running a method forward, \<open>keeps_intros\<close> for pushing an
  invariant through it) that carry the component proofs.
\<close>

section \<open>Service computations\<close>

text \<open>
  A service method reads and changes the application state and either returns a value or
  throws. Both outcomes carry the state reached, because an exception does not undo what was
  already written outside a transaction.
\<close>

type_synonym ('s, 'e, 'a) op = "'s \<Rightarrow> ('e + 'a) \<times> 's"

definition ret :: "'a \<Rightarrow> ('s, 'e, 'a) op" where
  "ret x = (\<lambda>s. (Inr x, s))"

definition throw :: "'e \<Rightarrow> ('s, 'e, 'a) op" where
  "throw e = (\<lambda>s. (Inl e, s))"

definition bnd :: "('s, 'e, 'a) op \<Rightarrow> ('a \<Rightarrow> ('s, 'e, 'b) op) \<Rightarrow> ('s, 'e, 'b) op" where
  "bnd m f = (\<lambda>s. case m s of (Inl e, t) \<Rightarrow> (Inl e, t) | (Inr x, t) \<Rightarrow> f x t)"

definition gets :: "('s \<Rightarrow> 'a) \<Rightarrow> ('s, 'e, 'a) op" where
  "gets f = (\<lambda>s. (Inr (f s), s))"

definition modify :: "('s \<Rightarrow> 's) \<Rightarrow> ('s, 'e, unit) op" where
  "modify f = (\<lambda>s. (Inr (), f s))"

definition check :: "bool \<Rightarrow> 'e \<Rightarrow> ('s, 'e, unit) op" where
  "check b e = (if b then ret () else throw e)"

definition need :: "'a option \<Rightarrow> 'e \<Rightarrow> ('s, 'e, 'a) op" where
  "need x e = (case x of None \<Rightarrow> throw e | Some y \<Rightarrow> ret y)"

text \<open>\<open>for (const x of xs) await f(x)\<close>: stops at the first exception.\<close>

primrec for_each :: "'a list \<Rightarrow> ('a \<Rightarrow> ('s, 'e, unit) op) \<Rightarrow> ('s, 'e, unit) op" where
  "for_each [] f = ret ()"
| "for_each (x # xs) f = bnd (f x) (\<lambda>_. for_each xs f)"

named_theorems op_simps \<open>forward evaluation of service computations\<close>
named_theorems keeps_intros \<open>an invariant is kept by a service computation\<close>

lemma ret_run [op_simps]: "ret x s = (Inr x, s)"
  by (simp add: ret_def)

lemma throw_run [op_simps]: "throw e s = (Inl e, s)"
  by (simp add: throw_def)

lemma gets_run [op_simps]: "gets f s = (Inr (f s), s)"
  by (simp add: gets_def)

lemma modify_run [op_simps]: "modify f s = (Inr (), f s)"
  by (simp add: modify_def)

lemma check_run [op_simps]: "check b e s = (if b then (Inr (), s) else (Inl e, s))"
  by (simp add: check_def op_simps)

lemma need_run [op_simps]:
  "need x e s = (case x of None \<Rightarrow> (Inl e, s) | Some y \<Rightarrow> (Inr y, s))"
  by (simp add: need_def op_simps split: option.split)

lemma bnd_ret [op_simps]: "bnd (ret x) f s = f x s"
  by (simp add: bnd_def op_simps)

lemma bnd_throw [op_simps]: "bnd (throw e) f s = (Inl e, s)"
  by (simp add: bnd_def op_simps)

lemma bnd_gets [op_simps]: "bnd (gets g) f s = f (g s) s"
  by (simp add: bnd_def op_simps)

lemma bnd_modify [op_simps]: "bnd (modify g) f s = f () (g s)"
  by (simp add: bnd_def op_simps)

lemma bnd_check [op_simps]: "bnd (check b e) f s = (if b then f () s else (Inl e, s))"
  by (simp add: bnd_def op_simps)

lemma bnd_need [op_simps]:
  "bnd (need x e) f s = (case x of None \<Rightarrow> (Inl e, s) | Some y \<Rightarrow> f y s)"
  by (simp add: bnd_def op_simps split: option.split)

lemma bnd_assoc [op_simps]: "bnd (bnd m f) g s = bnd m (\<lambda>x. bnd (f x) g) s"
  by (simp add: bnd_def split: prod.split sum.split)

lemma bnd_if [op_simps]: "bnd (if b then m else n) f s = (if b then bnd m f s else bnd n f s)"
  by simp

lemma bnd_Inr_iff:
  "bnd m f s = (Inr y, t) \<longleftrightarrow> (\<exists>x u. m s = (Inr x, u) \<and> f x u = (Inr y, t))"
  by (auto simp: bnd_def split: prod.splits sum.splits)

lemma bnd_Inl_iff:
  "bnd m f s = (Inl e, t) \<longleftrightarrow>
     m s = (Inl e, t) \<or> (\<exists>x u. m s = (Inr x, u) \<and> f x u = (Inl e, t))"
  by (auto simp: bnd_def split: prod.splits sum.splits)

lemma bnd_InrE:
  assumes "bnd m f s = (Inr y, t)"
  obtains x u where "m s = (Inr x, u)" and "f x u = (Inr y, t)"
  using assms by (auto simp: bnd_Inr_iff)

lemma bnd_Inr: "m s = (Inr x, t) \<Longrightarrow> bnd m f s = f x t"
  by (simp add: bnd_def)

lemma bnd_Inl: "m s = (Inl e, t) \<Longrightarrow> bnd m f s = (Inl e, t)"
  by (simp add: bnd_def)

section \<open>Invariants of computations\<close>

text \<open>\<open>keeps P m\<close>: running \<open>m\<close> from a state with \<open>P\<close> ends in a state with \<open>P\<close>, whether
  \<open>m\<close> returns or throws.\<close>

definition keeps :: "('s \<Rightarrow> bool) \<Rightarrow> ('s, 'e, 'a) op \<Rightarrow> bool" where
  "keeps P m \<longleftrightarrow> (\<forall>s. P s \<longrightarrow> P (snd (m s)))"

lemma keepsD: "keeps P m \<Longrightarrow> P s \<Longrightarrow> m s = (r, t) \<Longrightarrow> P t"
  by (auto simp: keeps_def dest: spec [where x = s])

lemma keepsD_snd: "keeps P m \<Longrightarrow> P s \<Longrightarrow> P (snd (m s))"
  by (simp add: keeps_def)

lemma keepsI: "(\<And>s r t. P s \<Longrightarrow> m s = (r, t) \<Longrightarrow> P t) \<Longrightarrow> keeps P m"
  unfolding keeps_def by (metis prod.collapse)

lemma keeps_ret [keeps_intros]: "keeps P (ret x)"
  by (simp add: keeps_def op_simps)

lemma keeps_throw [keeps_intros]: "keeps P (throw e)"
  by (simp add: keeps_def op_simps)

lemma keeps_gets [keeps_intros]: "keeps P (gets f)"
  by (simp add: keeps_def op_simps)

lemma keeps_check [keeps_intros]: "keeps P (check b e)"
  by (simp add: keeps_def op_simps)

lemma keeps_need [keeps_intros]: "keeps P (need x e)"
  by (simp add: keeps_def op_simps split: option.split)

lemma keeps_bnd [keeps_intros]: "keeps P m \<Longrightarrow> (\<And>x. keeps P (f x)) \<Longrightarrow> keeps P (bnd m f)"
  unfolding keeps_def bnd_def by (force split: prod.splits sum.splits)

lemma keeps_if [keeps_intros]: "keeps P m \<Longrightarrow> keeps P n \<Longrightarrow> keeps P (if b then m else n)"
  by simp

lemma keeps_case_prod [keeps_intros]:
  "(\<And>x y. keeps P (f x y)) \<Longrightarrow> keeps P (case p of (x, y) \<Rightarrow> f x y)"
  by (simp add: prod.case_eq_if)

lemma keeps_case_option [keeps_intros]:
  "keeps P m \<Longrightarrow> (\<And>y. keeps P (f y)) \<Longrightarrow> keeps P (case x of None \<Rightarrow> m | Some y \<Rightarrow> f y)"
  by (cases x) auto

lemma keeps_let [keeps_intros]: "(\<And>y. keeps P (f y)) \<Longrightarrow> keeps P (Let x f)"
  by simp

lemma keeps_modify: "(\<And>s. P s \<Longrightarrow> P (f s)) \<Longrightarrow> keeps P (modify f)"
  by (simp add: keeps_def op_simps)

lemma keeps_for_each [keeps_intros]: "(\<And>x. keeps P (f x)) \<Longrightarrow> keeps P (for_each xs f)"
  by (induction xs) (auto intro: keeps_intros)

text \<open>The same from one state: for steps whose guard speaks about the state they start in.\<close>

definition holds :: "('s \<Rightarrow> bool) \<Rightarrow> ('s, 'e, 'a) op \<Rightarrow> 's \<Rightarrow> bool" where
  "holds P m s \<longleftrightarrow> P (snd (m s))"

lemma holds_keeps: "keeps P m \<Longrightarrow> P s \<Longrightarrow> holds P m s"
  by (simp add: holds_def keeps_def)

lemma holds_bnd:
  "holds P m s \<Longrightarrow> (\<And>x t. m s = (Inr x, t) \<Longrightarrow> P t \<Longrightarrow> holds P (f x) t) \<Longrightarrow> holds P (bnd m f) s"
  by (auto simp: holds_def bnd_def split: prod.splits sum.splits)

lemma holds_bnd_keeps: "holds P m s \<Longrightarrow> (\<And>x. keeps P (f x)) \<Longrightarrow> holds P (bnd m f) s"
  by (rule holds_bnd) (auto intro: holds_keeps)

lemma keepsI_holds: "(\<And>s. P s \<Longrightarrow> holds P m s) \<Longrightarrow> keeps P m"
  by (simp add: keeps_def holds_def)

lemma holds_bnd_pure:
  "keeps P m \<Longrightarrow> P s \<Longrightarrow> (\<And>x t. m s = (Inr x, t) \<Longrightarrow> P t \<Longrightarrow> holds P (f x) t) \<Longrightarrow>
   holds P (bnd m f) s"
  by (rule holds_bnd) (auto intro: holds_keeps)

lemma holds_gets: "holds P (f (g s)) s \<Longrightarrow> holds P (bnd (gets g) f) s"
  by (simp add: holds_def op_simps)

lemma holds_need: "P s \<Longrightarrow> (\<And>y. x = Some y \<Longrightarrow> holds P (f y) s) \<Longrightarrow> holds P (bnd (need x e) f) s"
  by (auto simp: holds_def op_simps split: option.split)

lemma holds_check: "P s \<Longrightarrow> (b \<Longrightarrow> holds P (f ()) s) \<Longrightarrow> holds P (bnd (check b e) f) s"
  by (simp add: holds_def op_simps)

lemmas holds_steps = holds_gets holds_need holds_check

section \<open>Tables\<close>

text \<open>\<open>updateMany({ where, data })\<close>, \<open>count({ where })\<close>, \<open>deleteMany({ where })\<close> and
  \<open>findFirst({ where, orderBy })\<close> over the rows of a table.\<close>

definition upd_where :: "('r \<Rightarrow> bool) \<Rightarrow> ('r \<Rightarrow> 'r) \<Rightarrow> 'r list \<Rightarrow> 'r list" where
  "upd_where P f rs = map (\<lambda>r. if P r then f r else r) rs"

definition count_where :: "('r \<Rightarrow> bool) \<Rightarrow> 'r list \<Rightarrow> nat" where
  "count_where P rs = length (filter P rs)"

definition del_where :: "('r \<Rightarrow> bool) \<Rightarrow> 'r list \<Rightarrow> 'r list" where
  "del_where P rs = filter (\<lambda>r. \<not> P r) rs"

definition find_first :: "('r \<Rightarrow> bool) \<Rightarrow> ('r \<Rightarrow> int) \<Rightarrow> 'r list \<Rightarrow> 'r option" where
  "find_first P k rs = (case sort_key k (filter P rs) of [] \<Rightarrow> None | r # _ \<Rightarrow> Some r)"

lemma count_where_Cons [simp]:
  "count_where P (r # rs) = (if P r then Suc (count_where P rs) else count_where P rs)"
  by (simp add: count_where_def)

lemma count_where_Nil [simp]: "count_where P [] = 0"
  by (simp add: count_where_def)

lemma count_where_append [simp]:
  "count_where P (rs @ qs) = count_where P rs + count_where P qs"
  by (simp add: count_where_def)

lemma count_where_0_iff: "count_where P rs = 0 \<longleftrightarrow> (\<forall>r \<in> set rs. \<not> P r)"
  by (simp add: count_where_def filter_empty_conv)

lemma upd_where_Nil [simp]: "upd_where P f [] = []"
  by (simp add: upd_where_def)

lemma upd_where_Cons [simp]:
  "upd_where P f (r # rs) = (if P r then f r else r) # upd_where P f rs"
  by (simp add: upd_where_def)

lemma upd_where_append [simp]: "upd_where P f (rs @ qs) = upd_where P f rs @ upd_where P f qs"
  by (simp add: upd_where_def)

lemma map_upd_where: "(\<And>r. k (f r) = k r) \<Longrightarrow> map k (upd_where P f rs) = map k rs"
  by (simp add: upd_where_def)

lemma filter_upd_where_other:
  "(\<And>r. P r \<Longrightarrow> Q (f r) = Q r) \<Longrightarrow> (\<And>r. P r \<Longrightarrow> \<not> Q r) \<Longrightarrow>
   filter Q (upd_where P f rs) = filter Q rs"
  by (induction rs) auto

lemma in_upd_where:
  "r \<in> set (upd_where P f rs) \<longleftrightarrow> (\<exists>q \<in> set rs. r = (if P q then f q else q))"
  by (auto simp: upd_where_def)

lemma ball_upd_where:
  "(\<forall>r \<in> set (upd_where P f rs). Q r) \<longleftrightarrow> (\<forall>r \<in> set rs. Q (if P r then f r else r))"
  by (auto simp: upd_where_def)

lemma image_upd_where: "(\<And>r. k (f r) = k r) \<Longrightarrow> k ` set (upd_where P f rs) = k ` set rs"
  by (induction rs) (auto simp: upd_where_def)

lemma find_SomeD: "List.find P xs = Some x \<Longrightarrow> P x \<and> x \<in> set xs"
  by (auto simp: find_Some_iff)

lemma find_upd_where:
  "(\<And>r. k (f r) = k r) \<Longrightarrow>
   List.find (\<lambda>r. k r = i) (upd_where (\<lambda>r. k r = j) f rs) =
     (if i = j then map_option f (List.find (\<lambda>r. k r = i) rs)
      else List.find (\<lambda>r. k r = i) rs)"
  by (induction rs) auto

lemma find_append:
  "List.find P (xs @ ys) = (case List.find P xs of None \<Rightarrow> List.find P ys | Some x \<Rightarrow> Some x)"
  by (induction xs) auto

lemma find_key_SomeD: "List.find (\<lambda>r. k r = i) rs = Some r \<Longrightarrow> k r = i \<and> r \<in> set rs"
  by (auto simp: find_Some_iff in_set_conv_nth)

lemma find_None_all: "List.find P rs = None \<longleftrightarrow> (\<forall>r \<in> set rs. \<not> P r)"
  by (auto simp: find_None_iff)

lemma find_distinct_key:
  "distinct (map k rs) \<Longrightarrow> r \<in> set rs \<Longrightarrow> List.find (\<lambda>q. k q = k r) rs = Some r"
  by (induction rs) (auto simp: image_iff)

lemma set_sort_filter: "set (sort_key k (filter P rs)) = {r \<in> set rs. P r}"
  by simp

lemma find_first_in:
  assumes "find_first P k rs = Some r"
  shows "r \<in> set rs \<and> P r"
proof -
  obtain qs where "sort_key k (filter P rs) = r # qs"
    using assms by (auto simp: find_first_def split: list.splits)
  then have "r \<in> set (sort_key k (filter P rs))" by simp
  then show ?thesis unfolding set_sort_filter by simp
qed

lemma find_first_least:
  assumes "find_first P k rs = Some r" and "q \<in> set rs" and "P q"
  shows "k r \<le> k q"
proof -
  obtain qs where s: "sort_key k (filter P rs) = r # qs"
    using assms(1) by (auto simp: find_first_def split: list.splits)
  have "sorted (map k (sort_key k (filter P rs)))" by simp
  then have "\<forall>x \<in> set qs. k r \<le> k x" using s by auto
  moreover have "q \<in> set (r # qs)"
    using assms(2,3) unfolding s [symmetric] set_sort_filter by simp
  ultimately show ?thesis by auto
qed

lemma find_first_None: "find_first P k rs = None \<longleftrightarrow> (\<forall>r \<in> set rs. \<not> P r)"
proof -
  have "sort_key k (filter P rs) = [] \<longleftrightarrow> filter P rs = []"
    by (metis set_empty set_sort)
  then show ?thesis by (auto simp: find_first_def filter_empty_conv split: list.split)
qed

end
