(* ===== verification/Cedar.thy ===== *)
theory Cedar
  imports Prelude
begin

text \<open>
  The Cedar vocabulary the access engine speaks: entity uids, the fragment of the policy
  language that the projector emits, and requests. The engine itself
  (\<open>@cedar-policy/cedar-wasm\<close>) is third-party code, so \<open>isAuthorized\<close> is a parameter of
  every definition that calls it; \<open>cedar_documented\<close> names what its documentation promises
  and is the hypothesis of the properties that depend on the engine's answer.
\<close>

section \<open>Entities, policies, requests\<close>

type_synonym id = nat

text \<open>Entity ids are database ids, except the two literals used for resources that do not
  exist yet (\<open>new\<close>, \<open>prospective-invitee\<close>).\<close>

datatype eid = Eid id | Prospective string

datatype entity_type =
  Organization | Invitation | User | Session | Task | Message | Attachment | Division
| Integration | Team | Role

type_synonym uid = "entity_type \<times> eid"

datatype cval = VBool bool | VEntity uid | VSet "uid list"

record entity =
  e_uid :: uid
  e_attrs :: "(string \<times> cval) list"
  e_parents :: "uid list"

datatype expr =
  Principal
| Resource
| EntLit uid
| Attr expr string
| Has expr string
| Eq expr expr
| Contains expr expr
| Not expr
| And expr expr
| Or expr expr

datatype effect = Permit | Forbid

text \<open>A policy: its annotation, effect, optional \<open>principal in Role\<close> and \<open>action ==\<close>
  scope constraints, and optional \<open>when\<close> condition.\<close>

datatype policy_id = GrantPolicy id | StaticPolicy string

record policy =
  p_id :: policy_id
  p_effect :: effect
  p_principalIn :: "uid option"
  p_action :: "string option"
  p_when :: "expr option"

record request =
  q_principal :: uid
  q_action :: string
  q_resource :: uid
  q_entities :: "entity list"

section \<open>The documented semantics of the fragment\<close>

definition entity_of :: "entity list \<Rightarrow> uid \<Rightarrow> entity option" where
  "entity_of es u = List.find (\<lambda>e. e_uid e = u) es"

text \<open>Expression values; \<open>None\<close> is an evaluation error (a missing attribute, a type
  mismatch). \<open>&&\<close> and \<open>||\<close> short-circuit from the left.\<close>

fun ceval :: "request \<Rightarrow> expr \<Rightarrow> cval option" where
  "ceval q Principal = Some (VEntity (q_principal q))"
| "ceval q Resource = Some (VEntity (q_resource q))"
| "ceval q (EntLit u) = Some (VEntity u)"
| "ceval q (Attr e a) =
     (case ceval q e of
        Some (VEntity u) \<Rightarrow>
          (case entity_of (q_entities q) u of
             None \<Rightarrow> None
           | Some en \<Rightarrow> map_of (e_attrs en) a)
      | _ \<Rightarrow> None)"
| "ceval q (Has e a) =
     (case ceval q e of
        Some (VEntity u) \<Rightarrow>
          (case entity_of (q_entities q) u of
             None \<Rightarrow> Some (VBool False)
           | Some en \<Rightarrow> Some (VBool (map_of (e_attrs en) a \<noteq> None)))
      | _ \<Rightarrow> None)"
| "ceval q (Eq e f) =
     (case (ceval q e, ceval q f) of (Some v, Some w) \<Rightarrow> Some (VBool (v = w)) | _ \<Rightarrow> None)"
| "ceval q (Contains e f) =
     (case (ceval q e, ceval q f) of
        (Some (VSet us), Some (VEntity u)) \<Rightarrow> Some (VBool (u \<in> set us))
      | _ \<Rightarrow> None)"
| "ceval q (Not e) = (case ceval q e of Some (VBool b) \<Rightarrow> Some (VBool (\<not> b)) | _ \<Rightarrow> None)"
| "ceval q (And e f) =
     (case ceval q e of
        Some (VBool False) \<Rightarrow> Some (VBool False)
      | Some (VBool True) \<Rightarrow>
          (case ceval q f of Some (VBool b) \<Rightarrow> Some (VBool b) | _ \<Rightarrow> None)
      | _ \<Rightarrow> None)"
| "ceval q (Or e f) =
     (case ceval q e of
        Some (VBool True) \<Rightarrow> Some (VBool True)
      | Some (VBool False) \<Rightarrow>
          (case ceval q f of Some (VBool b) \<Rightarrow> Some (VBool b) | _ \<Rightarrow> None)
      | _ \<Rightarrow> None)"

text \<open>\<open>principal in g\<close>: the principal itself or an ancestor; the code only builds
  hierarchies of depth one (a user and the roles it holds).\<close>

definition principal_in :: "request \<Rightarrow> uid \<Rightarrow> bool" where
  "principal_in q g \<longleftrightarrow>
     q_principal q = g \<or>
     (case entity_of (q_entities q) (q_principal q) of
        None \<Rightarrow> False
      | Some en \<Rightarrow> g \<in> set (e_parents en))"

definition satisfied :: "request \<Rightarrow> policy \<Rightarrow> bool" where
  "satisfied q p \<longleftrightarrow>
     (case p_principalIn p of None \<Rightarrow> True | Some g \<Rightarrow> principal_in q g) \<and>
     (case p_action p of None \<Rightarrow> True | Some a \<Rightarrow> q_action q = a) \<and>
     (case p_when p of None \<Rightarrow> True | Some e \<Rightarrow> ceval q e = Some (VBool True))"

text \<open>Default deny, forbid overrides permit, a policy whose condition errors is skipped.\<close>

definition cedar_allows :: "policy list \<Rightarrow> request \<Rightarrow> bool" where
  "cedar_allows ps q \<longleftrightarrow>
     (\<exists>p \<in> set ps. p_effect p = Permit \<and> satisfied q p) \<and>
     \<not> (\<exists>p \<in> set ps. p_effect p = Forbid \<and> satisfied q p)"

text \<open>\<open>isAuthorized\<close>: \<open>None\<close> is the answer \<open>{ type: 'failure' }\<close> (malformed input), \<open>Some b\<close>
  a decision. Its documentation promises a decision by the rules above whenever no two
  entities share a uid.\<close>

type_synonym cedar_engine = "policy list \<Rightarrow> request \<Rightarrow> bool option"

definition cedar_documented :: "cedar_engine \<Rightarrow> bool" where
  "cedar_documented isAuthorized \<longleftrightarrow>
     (\<forall>ps q. distinct (map e_uid (q_entities q)) \<longrightarrow>
             isAuthorized ps q = Some (cedar_allows ps q))"

text \<open>A concrete engine with the documented behaviour, for the witnesses.\<close>

definition reference_engine :: cedar_engine where
  "reference_engine ps q =
     (if distinct (map e_uid (q_entities q)) then Some (cedar_allows ps q) else None)"

lemma reference_engine_documented: "cedar_documented reference_engine"
  by (simp add: cedar_documented_def reference_engine_def)

lemma cedar_documentedD:
  "cedar_documented eng \<Longrightarrow> distinct (map e_uid (q_entities q)) \<Longrightarrow>
   eng ps q = Some (cedar_allows ps q)"
  by (simp add: cedar_documented_def)

lemma forbid_denies:
  "p \<in> set ps \<Longrightarrow> p_effect p = Forbid \<Longrightarrow> satisfied q p \<Longrightarrow> \<not> cedar_allows ps q"
  by (auto simp: cedar_allows_def)

lemma permit_needed: "cedar_allows ps q \<Longrightarrow> \<exists>p \<in> set ps. p_effect p = Permit \<and> satisfied q p"
  by (auto simp: cedar_allows_def)

end
