(* ===== verification/Schema.thy ===== *)
theory Schema
  imports Complex_Main Cedar
begin

text \<open>
  The application state: the rows of \<open>api/prisma/schema.prisma\<close>, one record per model
  (fields keep the schema's names behind a table prefix), one list of rows per table in the
  order of insertion, and the process state next to it (the access engine's policy cache,
  the pings pushed to clients). Ids stand for the UUIDv7 column defaults: unique and
  increasing, which is all the code relies on. \<open>clock\<close> is \<open>now()\<close> in milliseconds.
\<close>

section \<open>Enums and JSON values\<close>

type_synonym time = int

datatype lifecycle = active | deactivated | retired

datatype role_kind = standalone | division_role | team_role

datatype scope_kind =
  scope_global | scope_own | scope_own_division | scope_own_team
| scope_specific_division | scope_specific_team | scope_role

datatype source = src_patrice | src_integration | src_system

datatype question_type =
  detail_text | multiline | text_q | numeric | dropdown | radio | attachment_q

datatype status = st_open | st_claimed | st_review | st_revising | st_approved

datatype sub_state = ss_review | ss_revising | ss_approved | ss_rejected

datatype message_kind = comment | system_msg

datatype attachment_kind = ak_image | ak_text | ak_audio | ak_model | ak_other

datatype auth_provider = prov_password | prov_google | prov_discord

datatype sync_direction = inbound | outbound | bidirectional

datatype conflict_winner = patrice_wins | external_wins

datatype gateway_column = gw_down | gw_connecting | gw_connected | gw_degraded

datatype conn_status = conn_active | conn_broken | conn_disabled

datatype token_kind = email_verification | password_reset

datatype sync_state = sync_idle | sync_queued | sync_running

text \<open>The operator-facing reason in a connection's \<open>lastError\<close>; the wording is left out.\<close>

datatype sync_error =
  NoBotToken | FetchFailed string | TokenRejected | MissingPermission | GroupGone | OpRefused
| OpUnreachable

text \<open>A JavaScript number: a finite value, exactly, or one of the three special ones.\<close>

datatype jsnum = Fin rat | PosInf | NegInf | NaN

datatype json =
  JNull | JBool bool | JNum jsnum | JStr string | JArr "string list"

text \<open>Text built by a template string: literal pieces and interpolated ids.\<close>

datatype frag = Lit string | Ref id

datatype pval =
  PId id | PNull | PInt int | PBool bool | PStr string | PIds "id list" | PStrs "string list"

type_synonym payload = "(string \<times> pval) list"

section \<open>Rows\<close>

record organization =
  o_id :: id
  o_settings :: "string \<rightharpoonup> json"
  o_configVersion :: nat

record division =
  d_id :: id
  d_organizationId :: id
  d_name :: string
  d_defaultOpenings :: int
  d_openingsLocked :: bool
  d_restrictClaims :: bool
  d_lifecycleState :: lifecycle
  d_retiredAt :: "time option"
  d_version :: nat

record team =
  tm_id :: id
  tm_organizationId :: id
  tm_name :: string
  tm_restrictClaims :: bool
  tm_lifecycleState :: lifecycle
  tm_retiredAt :: "time option"
  tm_version :: nat

record app_user =
  u_id :: id
  u_organizationId :: id
  u_email :: "string option"
  u_displayName :: string
  u_createdViaInvitationId :: "id option"
  u_lifecycleState :: lifecycle
  u_deactivatedAt :: "time option"
  u_retiredAt :: "time option"
  u_version :: nat

record user_identity =
  ui_id :: id
  ui_userId :: id
  ui_provider :: auth_provider
  ui_providerSubject :: "string option"
  ui_passwordHash :: "string option"
  ui_verifiedAt :: "time option"

record session_row =
  se_id :: id
  se_userId :: id
  se_tokenHash :: string
  se_authMethod :: auth_provider
  se_lastSeenAt :: time
  se_absoluteExpiresAt :: time
  se_idleExpiresAt :: time
  se_revokedAt :: "time option"

record auth_token =
  tk_id :: id
  tk_userId :: id
  tk_kind :: token_kind
  tk_tokenHash :: string
  tk_expiresAt :: time
  tk_consumedAt :: "time option"

record invitation =
  i_id :: id
  i_organizationId :: id
  i_tokenHash :: string
  i_email :: "string option"
  i_intendedRoleIds :: "id list"
  i_passcodeHash :: "string option"
  i_maxUses :: int
  i_useCount :: int
  i_createdBy :: "id option"
  i_createdAt :: time
  i_expiresAt :: time
  i_revokedAt :: "time option"

record invitation_use =
  iu_id :: id
  iu_invitationId :: id
  iu_createdUserId :: id

record role =
  r_id :: id
  r_organizationId :: id
  r_name :: string
  r_kind :: role_kind
  r_divisionId :: "id option"
  r_teamId :: "id option"
  r_lifecycleState :: lifecycle
  r_retiredAt :: "time option"
  r_version :: nat

record user_role =
  ur_id :: id
  ur_userId :: id
  ur_roleId :: id
  ur_source :: source
  ur_sourceConnectionId :: "id option"
  ur_grantedBy :: "id option"

record grant =
  g_id :: id
  g_organizationId :: id
  g_roleId :: id
  g_action :: string
  g_effect :: effect
  g_scopeKind :: scope_kind
  g_scopeDivisionId :: "id option"
  g_scopeTeamId :: "id option"
  g_scopeRoleId :: "id option"
  g_lifecycleState :: lifecycle
  g_retiredAt :: "time option"
  g_version :: nat

record activity =
  a_id :: id
  a_organizationId :: id
  a_actorUserId :: "id option"
  a_subjectType :: string
  a_subjectId :: id
  a_verb :: string
  a_payload :: payload
  a_source :: source
  a_sourceConnectionId :: "id option"
  a_createdAt :: time

record request_template =
  rt_id :: id
  rt_organizationId :: id
  rt_ownerDivisionId :: "id option"
  rt_ownerTaskId :: "id option"
  rt_updatedAt :: time

text \<open>The \<open>constraints\<close> jsonb of a question. The validator reads the fields of the
  question's type off the one object; an absent field is \<open>undefined\<close>.\<close>

record constraints =
  k_minChars :: "int option"
  k_maxChars :: "int option"
  k_integer :: bool
  k_min :: "rat option"
  k_max :: "rat option"
  k_multi :: bool
  k_options :: "(string \<times> string) list"
  k_minSelect :: "int option"
  k_maxSelect :: "int option"
  k_allowedTypes :: "string list"
  k_maxFiles :: "int option"

record question =
  qn_id :: id
  qn_requestTemplateId :: id
  qn_ordinal :: nat
  qn_type :: question_type
  qn_prompt :: string
  qn_required :: bool
  qn_constraints :: constraints

record task =
  t_id :: id
  t_organizationId :: id
  t_name :: string
  t_description :: string
  t_divisionId :: id
  t_teamId :: "id option"
  t_requesterUserId :: id
  t_openings :: int
  t_claimsClosed :: bool
  t_statusCache :: "status option"
  t_lifecycleState :: lifecycle
  t_retiredAt :: "time option"
  t_version :: nat
  t_createdAt :: time
  t_updatedAt :: time

record task_claimant =
  c_id :: id
  c_taskId :: id
  c_userId :: id
  c_joinedAt :: time
  c_hasSubmitted :: bool
  c_leftAt :: "time option"

record message =
  m_id :: id
  m_taskId :: id
  m_kind :: message_kind
  m_senderUserId :: "id option"
  m_parentMessageId :: "id option"
  m_submissionId :: "id option"
  m_body :: "frag list"
  m_lifecycleState :: lifecycle
  m_retiredAt :: "time option"
  m_editedAt :: "time option"
  m_version :: nat
  m_createdAt :: time

record submission =
  s_id :: id
  s_taskId :: id
  s_claimantUserId :: id
  s_submissionNo :: int
  s_prevSubmissionId :: "id option"
  s_state :: sub_state
  s_submittedAt :: time
  s_reviewedBy :: "id option"
  s_reviewedAt :: "time option"
  s_lifecycleState :: lifecycle
  s_retiredAt :: "time option"
  s_version :: nat

record answer_row =
  an_id :: id
  an_submissionId :: id
  an_questionId :: id
  an_value :: json

record attachment =
  at_id :: id
  at_organizationId :: id
  at_messageId :: "id option"
  at_answerId :: "id option"
  at_uploaderUserId :: id
  at_storageKey :: "frag list"
  at_filename :: string
  at_contentType :: string
  at_byteSize :: int
  at_kind :: attachment_kind
  at_checksum :: "string option"
  at_lifecycleState :: lifecycle
  at_retiredAt :: "time option"
  at_createdAt :: time

record notification =
  n_id :: id
  n_organizationId :: id
  n_recipientUserId :: id
  n_type :: string
  n_subjectType :: string
  n_subjectId :: id
  n_payload :: payload
  n_eventSeq :: nat
  n_readAt :: "time option"
  n_createdAt :: time

record connection =
  cn_id :: id
  cn_organizationId :: id
  cn_externalWorkspaceId :: string
  cn_displayName :: string
  cn_config :: "string \<rightharpoonup> json"
  cn_credentialsRef :: "string option"
  cn_status :: conn_status
  cn_lifecycleState :: lifecycle
  cn_retiredAt :: "time option"
  cn_gatewayState :: gateway_column
  cn_gatewayLastConnectedAt :: "time option"
  cn_gatewayLastEventAt :: "time option"
  cn_syncState :: sync_state
  cn_lastSyncStartedAt :: "time option"
  cn_lastSyncAt :: "time option"
  cn_lastSyncGranted :: nat
  cn_lastSyncRevoked :: nat
  cn_lastError :: "sync_error option"
  cn_createdAt :: time
  cn_updatedAt :: time

record external_identity =
  ei_id :: id
  ei_userId :: id
  ei_connectionId :: id
  ei_externalUserId :: string
  ei_externalHandle :: "string option"
  ei_externalAvatarHash :: "string option"
  ei_lastSyncedAt :: "time option"

record group_mapping =
  mp_id :: id
  mp_roleId :: id
  mp_connectionId :: id
  mp_externalGroupId :: string
  mp_syncDirection :: sync_direction
  mp_isBroken :: bool
  mp_conflictWinner :: conflict_winner
  mp_createdAt :: time

record sync_baseline =
  sb_connectionId :: id
  sb_mappingId :: id
  sb_externalUserId :: string
  sb_externalGroupId :: string

section \<open>The state\<close>

record state =
  next_id :: id
  clock :: time
  organizations :: "organization list"
  divisions :: "division list"
  teams :: "team list"
  users :: "app_user list"
  identities :: "user_identity list"
  sessions :: "session_row list"
  auth_tokens :: "auth_token list"
  invitations :: "invitation list"
  invitation_uses :: "invitation_use list"
  roles :: "role list"
  user_roles :: "user_role list"
  grants :: "grant list"
  activities :: "activity list"
  templates :: "request_template list"
  questions :: "question list"
  tasks :: "task list"
  claimants :: "task_claimant list"
  messages :: "message list"
  submissions :: "submission list"
  answers :: "answer_row list"
  attachments :: "attachment list"
  notifications :: "notification list"
  connections :: "connection list"
  external_identities :: "external_identity list"
  mappings :: "group_mapping list"
  baselines :: "sync_baseline list"
  blobs :: "frag list list"
  policy_cache :: "(nat \<times> policy list) option"
  pings :: "id list"

text \<open>The tables of a fresh database, at time \<open>t\<close>, with ids from \<open>n\<close> on.\<close>

definition empty_db :: "id \<Rightarrow> time \<Rightarrow> state" where
  "empty_db n t =
     \<lparr>next_id = n, clock = t,
      organizations = [], divisions = [], teams = [], users = [],
      identities = [], sessions = [], auth_tokens = [], invitations = [],
      invitation_uses = [], roles = [], user_roles = [], grants = [],
      activities = [], templates = [], questions = [], tasks = [],
      claimants = [], messages = [], submissions = [], answers = [],
      attachments = [], notifications = [], connections = [], external_identities = [],
      mappings = [], baselines = [], blobs = [],
      policy_cache = None, pings = []\<rparr>"

end
