(* ===== verification/Store.thy ===== *)
theory Store
  imports Schema
begin

text \<open>
  The database client the services call, over the lists of rows: lookups by unique key,
  \<open>create\<close>, \<open>update\<close> (which throws when the row is missing), \<open>updateMany\<close>, transactions;
  and the exceptions of \<open>common/errors.ts\<close>. The locale \<open>table\<close> is the client's contract for
  one table (what a read returns after a write); it is interpreted for every table used.
\<close>

section \<open>Exceptions\<close>

datatype verror_code =
  unknown_question | required_missing | wrong_type | too_short | too_long | not_integer
| out_of_range | invalid_option | multi_not_allowed | too_few_selected | too_many_selected
| too_many_files | attachment_not_found | wrong_attachment_type

type_synonym verror = "id \<times> verror_code"

text \<open>The coded exceptions, the database client's own errors (\<open>P2025\<close>, \<open>P2002\<close>, \<open>P2003\<close>),
  the administrability sentinel, and an uncoded \<open>Error\<close>. Codes are kept, prose messages are not.\<close>

datatype err =
  NotFoundError string
| ConflictError string
| UnprocessableError string "verror list"
| ValidationError string
| DeniedError string
| GoneError string
| UnauthenticatedError
| RecordNotFound
| UniqueViolation
| ForeignKeyViolation
| LastAdminError string id
| ServerError string

fun http_status :: "err \<Rightarrow> nat" where
  "http_status (NotFoundError c) = 404"
| "http_status (ConflictError c) = 409"
| "http_status (UnprocessableError c d) = 422"
| "http_status (ValidationError m) = 422"
| "http_status (DeniedError c) = 403"
| "http_status (GoneError c) = 410"
| "http_status UnauthenticatedError = 401"
| "http_status UniqueViolation = 409"
| "http_status RecordNotFound = 500"
| "http_status ForeignKeyViolation = 500"
| "http_status (LastAdminError p i) = 500"
| "http_status (ServerError m) = 500"

type_synonym 'a svc = "(state, err, 'a) op"

section \<open>Client operations\<close>

type_synonym 'r putter = "('r list \<Rightarrow> 'r list) \<Rightarrow> state \<Rightarrow> state"

definition now :: "time svc" where
  "now = gets clock"

definition fresh_id :: "id svc" where
  "fresh_id = (\<lambda>s. (Inr (next_id s), s\<lparr>next_id := Suc (next_id s)\<rparr>))"

definition lookup :: "('r \<Rightarrow> id) \<Rightarrow> id \<Rightarrow> 'r list \<Rightarrow> 'r option" where
  "lookup key k rs = List.find (\<lambda>r. key r = k) rs"

definition find_unique :: "(state \<Rightarrow> 'r list) \<Rightarrow> ('r \<Rightarrow> id) \<Rightarrow> id \<Rightarrow> 'r option svc" where
  "find_unique rows key k = gets (\<lambda>s. lookup key k (rows s))"

definition find_unique_or_throw :: "(state \<Rightarrow> 'r list) \<Rightarrow> ('r \<Rightarrow> id) \<Rightarrow> id \<Rightarrow> 'r svc" where
  "find_unique_or_throw rows key k =
     bnd (find_unique rows key k) (\<lambda>r. need r RecordNotFound)"

definition create_row :: "'r putter \<Rightarrow> 'r \<Rightarrow> unit svc" where
  "create_row put r = modify (put (\<lambda>rs. rs @ [r]))"

definition update_row ::
  "(state \<Rightarrow> 'r list) \<Rightarrow> 'r putter \<Rightarrow> ('r \<Rightarrow> id) \<Rightarrow> id \<Rightarrow> ('r \<Rightarrow> 'r) \<Rightarrow> 'r svc" where
  "update_row rows put key k f =
     bnd (find_unique rows key k) (\<lambda>found.
     bnd (need found RecordNotFound) (\<lambda>r.
     bnd (modify (put (upd_where (\<lambda>q. key q = k) f))) (\<lambda>_.
     ret (f r))))"

definition update_many :: "'r putter \<Rightarrow> ('r \<Rightarrow> bool) \<Rightarrow> ('r \<Rightarrow> 'r) \<Rightarrow> unit svc" where
  "update_many put P f = modify (put (upd_where P f))"

definition delete_many :: "'r putter \<Rightarrow> ('r \<Rightarrow> bool) \<Rightarrow> unit svc" where
  "delete_many put P = modify (put (del_where P))"

text \<open>\<open>$transaction\<close>: a throw rolls the tables back; the process state (the policy cache) is
  not part of the database and keeps what the body did to it.\<close>

definition transaction :: "'a svc \<Rightarrow> 'a svc" where
  "transaction m = (\<lambda>s. case m s of
     (Inl e, t) \<Rightarrow> (Inl e, s\<lparr>policy_cache := policy_cache t\<rparr>)
   | (Inr x, t) \<Rightarrow> (Inr x, t))"

text \<open>\<open>p.catch(log)\<close>: whatever is thrown, the caller goes on.\<close>

definition swallow :: "'a svc \<Rightarrow> unit svc" where
  "swallow m = (\<lambda>s. (Inr (), snd (m s)))"

lemma now_run [op_simps]: "bnd now f s = f (clock s) s"
  by (simp add: now_def op_simps)

lemma fresh_id_run [op_simps]:
  "bnd fresh_id f s = f (next_id s) (s\<lparr>next_id := Suc (next_id s)\<rparr>)"
  by (simp add: fresh_id_def bnd_def)

lemma find_unique_run [op_simps]:
  "bnd (find_unique rows key k) f s = f (lookup key k (rows s)) s"
  by (simp add: find_unique_def op_simps)

lemma find_unique_or_throw_run [op_simps]:
  "bnd (find_unique_or_throw rows key k) f s =
     (case lookup key k (rows s) of None \<Rightarrow> (Inl RecordNotFound, s) | Some r \<Rightarrow> f r s)"
  "find_unique_or_throw rows key k s =
     (case lookup key k (rows s) of None \<Rightarrow> (Inl RecordNotFound, s) | Some r \<Rightarrow> (Inr r, s))"
  by (simp_all add: find_unique_or_throw_def op_simps)

lemma create_row_run [op_simps]:
  "bnd (create_row put r) f s = f () (put (\<lambda>rs. rs @ [r]) s)"
  "create_row put r s = (Inr (), put (\<lambda>rs. rs @ [r]) s)"
  by (simp_all add: create_row_def op_simps)

lemma update_row_run [op_simps]:
  "bnd (update_row rows put key k f) g s =
     (case lookup key k (rows s) of
        None \<Rightarrow> (Inl RecordNotFound, s)
      | Some r \<Rightarrow> g (f r) (put (upd_where (\<lambda>q. key q = k) f) s))"
  "update_row rows put key k f s =
     (case lookup key k (rows s) of
        None \<Rightarrow> (Inl RecordNotFound, s)
      | Some r \<Rightarrow> (Inr (f r), put (upd_where (\<lambda>q. key q = k) f) s))"
  by (simp_all add: update_row_def op_simps split: option.split)

lemma update_many_run [op_simps]:
  "bnd (update_many put P f) g s = g () (put (upd_where P f) s)"
  "update_many put P f s = (Inr (), put (upd_where P f) s)"
  by (simp_all add: update_many_def op_simps)

lemma delete_many_run [op_simps]:
  "bnd (delete_many put P) g s = g () (put (del_where P) s)"
  "delete_many put P s = (Inr (), put (del_where P) s)"
  by (simp_all add: delete_many_def op_simps)

lemma transaction_run [op_simps]:
  "bnd (transaction m) f s =
     (case m s of
        (Inl e, t) \<Rightarrow> (Inl e, s\<lparr>policy_cache := policy_cache t\<rparr>)
      | (Inr x, t) \<Rightarrow> f x t)"
  "transaction m s =
     (case m s of
        (Inl e, t) \<Rightarrow> (Inl e, s\<lparr>policy_cache := policy_cache t\<rparr>)
      | (Inr x, t) \<Rightarrow> (Inr x, t))"
  by (simp_all add: transaction_def bnd_def split: prod.split sum.split)

lemma same_cache [simp]: "s\<lparr>policy_cache := policy_cache s\<rparr> = (s :: state)"
  by simp

lemma transaction_Inr: "transaction m s = (Inr x, t) \<longleftrightarrow> m s = (Inr x, t)"
  by (simp add: transaction_def split: prod.splits sum.splits)

lemma transaction_ok: "m s = (Inr x, t) \<Longrightarrow> transaction m s = (Inr x, t)"
  by (simp add: transaction_Inr)

lemma transaction_fail:
  "m s = (Inl e, t) \<Longrightarrow> transaction m s = (Inl e, s\<lparr>policy_cache := policy_cache t\<rparr>)"
  by (simp add: transaction_def)

section \<open>Invariants through the client operations\<close>

text \<open>An invariant on the tables does not read the policy cache.\<close>

definition cache_free :: "(state \<Rightarrow> bool) \<Rightarrow> bool" where
  "cache_free P \<longleftrightarrow> (\<forall>s c. P s \<longrightarrow> P (s\<lparr>policy_cache := c\<rparr>))"

lemma keeps_transaction [keeps_intros]:
  "cache_free P \<Longrightarrow> keeps P m \<Longrightarrow> keeps P (transaction m)"
  by (fastforce simp: keeps_def transaction_def cache_free_def split: prod.splits sum.splits
      dest: spec)

lemma holds_transaction: "cache_free P \<Longrightarrow> P s \<Longrightarrow> holds P m s \<Longrightarrow> holds P (transaction m) s"
  by (auto simp: holds_def transaction_def cache_free_def split: prod.splits sum.splits)

lemma keeps_swallow: "keeps P m \<Longrightarrow> keeps P (swallow m)"
  by (simp add: keeps_def swallow_def)

lemma keeps_now [keeps_intros]: "keeps P now"
  by (simp add: now_def keeps_intros)

lemma keeps_fresh_id:
  "(\<And>s. P s \<Longrightarrow> P (s\<lparr>next_id := Suc (next_id s)\<rparr>)) \<Longrightarrow> keeps P fresh_id"
  by (simp add: keeps_def fresh_id_def)

lemma keeps_find_unique [keeps_intros]: "keeps P (find_unique rows key k)"
  by (simp add: find_unique_def keeps_intros)

lemma keeps_find_unique_or_throw [keeps_intros]: "keeps P (find_unique_or_throw rows key k)"
  by (simp add: find_unique_or_throw_def keeps_intros)

lemma keeps_create_row: "(\<And>s. P s \<Longrightarrow> P (put (\<lambda>rs. rs @ [r]) s)) \<Longrightarrow> keeps P (create_row put r)"
  by (simp add: create_row_def keeps_modify)

lemma keeps_update_row:
  "(\<And>s. P s \<Longrightarrow> P (put (upd_where (\<lambda>q. key q = k) f) s)) \<Longrightarrow>
   keeps P (update_row rows put key k f)"
  by (simp add: update_row_def keeps_intros keeps_modify)

lemma keeps_update_many:
  "(\<And>s. P s \<Longrightarrow> P (put (upd_where Q f) s)) \<Longrightarrow> keeps P (update_many put Q f)"
  by (simp add: update_many_def keeps_modify)

lemma keeps_delete_many:
  "(\<And>s. P s \<Longrightarrow> P (put (del_where Q) s)) \<Longrightarrow> keeps P (delete_many put Q)"
  by (simp add: delete_many_def keeps_modify)

lemmas keeps_table = keeps_fresh_id keeps_create_row keeps_update_row keeps_update_many
  keeps_delete_many keeps_modify

section \<open>The contract of one table\<close>

locale table =
  fixes rows :: "state \<Rightarrow> 'r list"
    and put :: "('r list \<Rightarrow> 'r list) \<Rightarrow> state \<Rightarrow> state"
    and key :: "'r \<Rightarrow> nat"
  assumes rows_put: "rows (put f s) = f (rows s)"
begin

lemma lookup_created:
  "lookup key (key r) (rows s) = None \<Longrightarrow>
   lookup key (key r) (rows (put (\<lambda>rs. rs @ [r]) s)) = Some r"
  by (simp add: rows_put lookup_def find_append)

lemma lookup_create_other:
  "key r \<noteq> k \<Longrightarrow> lookup key k (rows (put (\<lambda>rs. rs @ [r]) s)) = lookup key k (rows s)"
  by (simp add: rows_put lookup_def find_append split: option.split)

lemma lookup_updated:
  "(\<And>r. key (f r) = key r) \<Longrightarrow>
   lookup key i (rows (put (upd_where (\<lambda>q. key q = j) f) s)) =
     (if i = j then map_option f (lookup key i (rows s)) else lookup key i (rows s))"
  by (simp add: rows_put lookup_def find_upd_where)

lemma update_row_result:
  "update_row rows put key k f s = (Inr r, t) \<Longrightarrow>
   \<exists>q. lookup key k (rows s) = Some q \<and> r = f q \<and> rows t = upd_where (\<lambda>q. key q = k) f (rows s)"
  by (auto simp: op_simps rows_put split: option.splits)

lemma update_row_missing:
  "lookup key k (rows s) = None \<longleftrightarrow> fst (update_row rows put key k f s) = Inl RecordNotFound"
  by (auto simp: op_simps split: option.splits)

end

interpretation task_table: table tasks tasks_update t_id by unfold_locales simp
interpretation claimant_table: table claimants claimants_update c_id by unfold_locales simp
interpretation message_table: table messages messages_update m_id by unfold_locales simp
interpretation submission_table: table submissions submissions_update s_id by unfold_locales simp
interpretation attachment_table: table attachments attachments_update at_id by unfold_locales simp
interpretation template_table: table templates templates_update rt_id by unfold_locales simp
interpretation division_table: table divisions divisions_update d_id by unfold_locales simp
interpretation team_table: table teams teams_update tm_id by unfold_locales simp
interpretation user_table: table users users_update u_id by unfold_locales simp
interpretation role_table: table roles roles_update r_id by unfold_locales simp
interpretation grant_table: table grants grants_update g_id by unfold_locales simp
interpretation invitation_table: table invitations invitations_update i_id by unfold_locales simp
interpretation organization_table: table organizations organizations_update o_id
  by unfold_locales simp

lemma lookup_upd_same:
  "(\<And>r. key (f r) = key r) \<Longrightarrow>
   lookup key i (upd_where (\<lambda>q. key q = i) f rs) = map_option f (lookup key i rs)"
  by (simp add: lookup_def find_upd_where)

lemma lookup_upd_other:
  "(\<And>r. key (f r) = key r) \<Longrightarrow> i \<noteq> j \<Longrightarrow>
   lookup key i (upd_where (\<lambda>q. key q = j) f rs) = lookup key i rs"
  by (simp add: lookup_def find_upd_where)

lemma lookup_SomeD: "lookup key k rs = Some r \<Longrightarrow> key r = k \<and> r \<in> set rs"
  unfolding lookup_def by (rule find_key_SomeD)

lemma lookup_append:
  "lookup key k (rs @ qs) = (case lookup key k rs of None \<Rightarrow> lookup key k qs | Some r \<Rightarrow> Some r)"
  unfolding lookup_def by (rule find_append)

lemma lookup_Cons [simp]:
  "lookup key k (r # rs) = (if key r = k then Some r else lookup key k rs)"
  by (simp add: lookup_def)

lemma lookup_Nil [simp]: "lookup key k [] = None"
  by (simp add: lookup_def)

lemma lookup_None_iff: "lookup key k rs = None \<longleftrightarrow> k \<notin> key ` set rs"
  by (auto simp: lookup_def find_None_iff)

lemma lookup_distinct: "distinct (map key rs) \<Longrightarrow> r \<in> set rs \<Longrightarrow> lookup key (key r) rs = Some r"
  by (simp add: lookup_def find_distinct_key)

end
