(* ===== verification/Paging.thy ===== *)
theory Paging
  imports Store
begin

text \<open>
  Keyset pagination, the shape four list endpoints share: fetch \<open>limit + 1\<close> rows past the
  cursor, keep \<open>limit\<close> of them, and return the last kept id as the next cursor when there was
  one row more. The locale \<open>keyset\<close> states what an endpoint must do for a client that follows
  the cursors to see every row once, in order.
\<close>

definition page :: "nat \<Rightarrow> ('r \<Rightarrow> id) \<Rightarrow> 'r list \<Rightarrow> 'r list \<times> id option" where
  "page limit key rows =
     (let hasMore = length rows > limit;
          items = (if hasMore then take limit rows else rows)
      in (items, if hasMore then Some (key (last items)) else None))"

text \<open>A client reading page after page until the cursor is null, or until its budget of
  requests is used up.\<close>

fun walk :: "(id option \<Rightarrow> 'r list \<times> id option) \<Rightarrow> nat \<Rightarrow> id option \<Rightarrow> 'r list" where
  "walk fetch 0 after = []"
| "walk fetch (Suc n) after =
     (case fetch after of
        (items, None) \<Rightarrow> items
      | (items, Some c) \<Rightarrow> items @ walk fetch n (Some c))"

lemma page_short: "length rows \<le> limit \<Longrightarrow> page limit key rows = (rows, None)"
  by (simp add: page_def)

lemma page_full:
  "limit < length rows \<Longrightarrow>
   page limit key rows = (take limit rows, Some (key (last (take limit rows))))"
  by (simp add: page_def Let_def)

lemma page_bound: "length (fst (page limit key (take (limit + 1) rows))) \<le> limit"
  by (simp add: page_def Let_def)

lemma page_map:
  assumes "0 < limit" and "\<And>r. key' (f r) = key r"
  shows "page limit key' (map f rows) =
           (case page limit key rows of (items, c) \<Rightarrow> (map f items, c))"
proof (cases "length rows > limit")
  case True
  then have "take limit rows \<noteq> []" using assms(1) by auto
  then show ?thesis using True assms(2) by (simp add: page_full take_map last_map)
qed (simp add: page_short)

locale keyset =
  fixes rows :: "'q \<Rightarrow> state \<Rightarrow> 'r list"
    and key :: "'r \<Rightarrow> id"
    and before :: "id \<Rightarrow> id \<Rightarrow> bool"
    and fetch :: "'q \<Rightarrow> nat \<Rightarrow> state \<Rightarrow> id option \<Rightarrow> 'r list \<times> id option"
    and ok :: "state \<Rightarrow> bool"
  assumes before_trans: "before a b \<Longrightarrow> before b c \<Longrightarrow> before a c"
    and before_asym: "before a b \<Longrightarrow> \<not> before b a"
    and rows_ordered: "ok s \<Longrightarrow> sorted_wrt (\<lambda>p q. before (key p) (key q)) (rows f s)"
    and fetch_page:
      "0 < limit \<Longrightarrow> fetch f limit s after =
         page limit key (take (limit + 1)
           (filter (\<lambda>r. case after of None \<Rightarrow> True | Some a \<Rightarrow> before a (key r)) (rows f s)))"
begin

lemma fetch_first:
  "0 < limit \<Longrightarrow> limit < length (rows f s) \<Longrightarrow>
   fetch f limit s None =
     (take limit (rows f s), Some (key (last (take limit (rows f s)))))"
  by (simp add: fetch_page page_full)

lemma rest_after:
  assumes "ok s" and "rows f s = xs @ r # ys"
  shows "filter (\<lambda>q. before (key r) (key q)) (rows f s) = ys"
proof -
  have "sorted_wrt (\<lambda>p q. before (key p) (key q)) (xs @ r # ys)"
    using rows_ordered [OF assms(1), of f] assms(2) by simp
  then have "\<forall>q \<in> set xs. before (key q) (key r)" and "\<forall>q \<in> set ys. before (key r) (key q)"
    by (auto simp: sorted_wrt_append)
  moreover have "\<not> before (key r) (key r)" using before_asym by blast
  ultimately show ?thesis
    using before_asym unfolding assms(2) by (auto simp: filter_empty_conv filter_id_conv)
qed

lemma walk_from:
  assumes "ok s" and "0 < limit" and "rows f s = xs @ r # ys" and "length ys < n"
  shows "walk (fetch f limit s) n (Some (key r)) = ys"
  using assms(3,4)
proof (induction n arbitrary: xs r ys)
  case (Suc n)
  have rest: "filter (\<lambda>q. before (key r) (key q)) (rows f s) = ys"
    using rest_after [OF assms(1) Suc.prems(1)] .
  show ?case
  proof (cases "length ys \<le> limit")
    case True
    then show ?thesis by (simp add: fetch_page [OF assms(2)] rest page_short)
  next
    case False
    define zs where "zs = take limit ys"
    have zs: "zs \<noteq> []" "length zs = limit" using False assms(2) by (auto simp: zs_def)
    then have split: "ys = butlast zs @ last zs # drop limit ys"
      by (metis append.assoc append_Cons append_Nil append_butlast_last_id append_take_drop_id
          zs_def)
    have "walk (fetch f limit s) n (Some (key (last zs))) = drop limit ys"
    proof (rule Suc.IH)
      show "rows f s = (xs @ r # butlast zs) @ last zs # drop limit ys"
        using Suc.prems(1) split by simp
      show "length (drop limit ys) < n" using Suc.prems(2) assms(2) False by simp
    qed
    moreover have "fetch f limit s (Some (key r)) = (zs, Some (key (last zs)))"
      using False by (simp add: fetch_page [OF assms(2)] rest page_full zs_def)
    ultimately show ?thesis by (simp add: zs_def)
  qed
qed simp

theorem walk_complete:
  assumes "ok s" and "0 < limit" and "length (rows f s) < n"
  shows "walk (fetch f limit s) n None = rows f s"
proof (cases n)
  case (Suc m)
  show ?thesis
  proof (cases "length (rows f s) \<le> limit")
    case True
    then show ?thesis by (simp add: Suc fetch_page [OF assms(2)] page_short)
  next
    case False
    define zs where "zs = take limit (rows f s)"
    have zs: "zs \<noteq> []" "length zs = limit" using False assms(2) by (auto simp: zs_def)
    then have split: "rows f s = butlast zs @ last zs # drop limit (rows f s)"
      by (metis append.assoc append_Cons append_Nil append_butlast_last_id append_take_drop_id
          zs_def)
    have "walk (fetch f limit s) m (Some (key (last zs))) = drop limit (rows f s)"
      by (rule walk_from [OF assms(1,2) split]) (use assms(2,3) Suc False in simp)
    moreover have "fetch f limit s None = (zs, Some (key (last zs)))"
      using False by (simp add: fetch_first [OF assms(2)] zs_def)
    ultimately show ?thesis by (simp add: Suc zs_def)
  qed
qed (use assms in simp)

end

text \<open>Both directions in use: newest first and oldest first, over rows with distinct ids.\<close>

definition newest_first :: "('r \<Rightarrow> id) \<Rightarrow> 'r list \<Rightarrow> 'r list" where
  "newest_first key rs = rev (sort_key key rs)"

definition oldest_first :: "('r \<Rightarrow> id) \<Rightarrow> 'r list \<Rightarrow> 'r list" where
  "oldest_first key rs = sort_key key rs"

lemma sort_key_strict:
  assumes "distinct (map key rs)"
  shows "sorted_wrt (\<lambda>p q. (key p :: nat) < key q) (sort_key key rs)"
proof -
  have "distinct (map key (sort_key key rs))"
    using assms by (metis distinct_map distinct_sort set_sort)
  moreover have "sorted (map key (sort_key key rs))" by simp
  ultimately have "sorted_wrt (<) (map key (sort_key key rs))"
    by (simp add: strict_sorted_iff)
  then show ?thesis by (simp add: sorted_wrt_map)
qed

lemma newest_first_ordered:
  "distinct (map key rs) \<Longrightarrow> sorted_wrt (\<lambda>p q. key q < key p) (newest_first key rs)"
  using sort_key_strict [of key rs] by (simp add: newest_first_def sorted_wrt_rev)

lemma oldest_first_ordered:
  "distinct (map key rs) \<Longrightarrow> sorted_wrt (\<lambda>p q. key p < key q) (oldest_first key rs)"
  using sort_key_strict [of key rs] by (simp add: oldest_first_def)

lemma filter_newest_first: "filter P (newest_first key rs) = newest_first key (filter P rs)"
  by (simp add: newest_first_def filter_sort flip: rev_filter)

lemma filter_oldest_first: "filter P (oldest_first key rs) = oldest_first key (filter P rs)"
  by (simp add: oldest_first_def filter_sort)

lemma distinct_map_filter_key: "distinct (map key rs) \<Longrightarrow> distinct (map key (filter P rs))"
  by (simp add: distinct_map_filter)

end
