(* ===== verification/Activity.thy ===== *)
theory Activity
  imports Paging
begin

text \<open>
  The audit log: \<open>activity.types.ts\<close> (the verb catalogue, one strict object schema per verb)
  and \<open>activity.service.ts\<close> (\<open>logActivity\<close>, the only writer, and the admin list). The locale
  \<open>invariant\<close> collects, for an invariant that does not read the log, how the logging
  operations keep it; later theories add their own operations to it.
\<close>

section \<open>The verb catalogue\<close>

datatype ftype = FUuid | FUuidOrNull | FUuids | FBool | FInt | FStr | FStrs | FEnum "string list"

definition activityPayloadSchemas :: "(string \<times> (string \<times> ftype) list) list" where
  "activityPayloadSchemas =
   [(''invite.created'',
     [(''invitationId'', FUuid), (''intendedRoleIds'', FUuids), (''isBootstrap'', FBool)]),
    (''invite.redeemed'',
     [(''invitationId'', FUuid), (''createdUserId'', FUuid), (''grantedRoleIds'', FUuids)]),
    (''invite.revoked'', [(''invitationId'', FUuid)]),
    (''bootstrap.completed'', [(''adminUserId'', FUuid), (''invitationId'', FUuid)]),
    (''user.registered'',
     [(''userId'', FUuid),
      (''invitationId'', FUuid),
      (''identityProvider'', FEnum [''password'', ''google'', ''discord''])]),
    (''role.created'', [(''roleId'', FUuid)]),
    (''role.updated'', [(''roleId'', FUuid)]),
    (''role.retired'', [(''roleId'', FUuid)]),
    (''role.revived'', [(''roleId'', FUuid)]),
    (''division.created'', [(''divisionId'', FUuid)]),
    (''division.updated'', [(''divisionId'', FUuid)]),
    (''division.retired'', [(''divisionId'', FUuid)]),
    (''division.revived'', [(''divisionId'', FUuid)]),
    (''team.created'', [(''teamId'', FUuid)]),
    (''team.updated'', [(''teamId'', FUuid)]),
    (''team.retired'', [(''teamId'', FUuid)]),
    (''team.revived'', [(''teamId'', FUuid)]),
    (''grant.created'', [(''grantId'', FUuid), (''roleId'', FUuid)]),
    (''grant.updated'', [(''grantId'', FUuid), (''roleId'', FUuid)]),
    (''grant.retired'', [(''grantId'', FUuid), (''roleId'', FUuid)]),
    (''grant.revived'', [(''grantId'', FUuid), (''roleId'', FUuid)]),
    (''user_role.granted'', [(''userId'', FUuid), (''roleId'', FUuid)]),
    (''user_role.revoked'', [(''userId'', FUuid), (''roleId'', FUuid)]),
    (''user.updated'', [(''userId'', FUuid)]),
    (''user.deactivated'', [(''userId'', FUuid)]),
    (''user.reactivated'', [(''userId'', FUuid)]),
    (''user.retired'', [(''userId'', FUuid)]),
    (''user.revived'', [(''userId'', FUuid)]),
    (''config.updated'', [(''changedKeys'', FStrs)]),
    (''request_template.updated'',
     [(''requestTemplateId'', FUuid), (''divisionId'', FUuid), (''questionCount'', FInt)]),
    (''task_request_template.updated'',
     [(''requestTemplateId'', FUuid), (''taskId'', FUuid), (''questionCount'', FInt)]),
    (''task.created'',
     [(''taskId'', FUuid),
      (''divisionId'', FUuid),
      (''teamId'', FUuidOrNull),
      (''requestTemplateId'', FUuid)]),
    (''task.updated'', [(''taskId'', FUuid)]),
    (''task.retired'', [(''taskId'', FUuid)]),
    (''task.revived'', [(''taskId'', FUuid)]),
    (''task.claimed'', [(''taskId'', FUuid), (''userId'', FUuid), (''statusCache'', FStr)]),
    (''task.left'', [(''taskId'', FUuid), (''userId'', FUuid), (''statusCache'', FStr)]),
    (''task.claims_updated'',
     [(''taskId'', FUuid),
      (''openings'', FInt),
      (''claimsClosed'', FBool),
      (''statusCache'', FStr)]),
    (''task.requester_changed'', [(''taskId'', FUuid), (''requesterUserId'', FUuid)]),
    (''message.created'',
     [(''messageId'', FUuid), (''taskId'', FUuid), (''parentMessageId'', FUuidOrNull)]),
    (''message.updated'', [(''messageId'', FUuid), (''taskId'', FUuid)]),
    (''message.retired'', [(''messageId'', FUuid), (''taskId'', FUuid)]),
    (''message.revived'', [(''messageId'', FUuid), (''taskId'', FUuid)]),
    (''attachment.created'', [(''attachmentId'', FUuid), (''messageId'', FUuid)]),
    (''attachment.retired'', [(''attachmentId'', FUuid)]),
    (''attachment.revived'', [(''attachmentId'', FUuid)]),
    (''submission.submitted'',
     [(''taskId'', FUuid),
      (''submissionId'', FUuid),
      (''claimantUserId'', FUuid),
      (''submissionNo'', FInt)]),
    (''submission.reviewed'',
     [(''taskId'', FUuid),
      (''submissionId'', FUuid),
      (''decision'', FEnum [''approve'', ''return'', ''reject'']),
      (''statusCache'', FStr)]),
    (''submission.retired'',
     [(''taskId'', FUuid),
      (''submissionId'', FUuid),
      (''claimantUserId'', FUuid),
      (''reason'', FStr)]),
    (''task.claimant_removed'',
     [(''taskId'', FUuid), (''removedUserId'', FUuid), (''statusCache'', FStr)]),
    (''task.completed'', [(''taskId'', FUuid), (''statusCache'', FStr)]),
    (''gc.task_collected'', [(''taskId'', FUuid)]),
    (''gc.role_collected'', [(''roleId'', FUuid)]),
    (''gc.division_collected'', [(''divisionId'', FUuid)]),
    (''gc.team_collected'', [(''teamId'', FUuid)]),
    (''gc.blocked'', [(''entityType'', FStr), (''entityId'', FUuid)]),
    (''gc.blob_reconciled'', [(''blobCount'', FInt)]),
    (''gc.user_scrubbed'', [(''userId'', FUuid)]),
    (''gc.user_collected'', [(''userId'', FUuid)]),
    (''invite.auto_revoked_on_issuer_retired'',
     [(''invitationId'', FUuid), (''issuerUserId'', FUuid)]),
    (''last_admin_refused'', [(''path'', FStr), (''subjectId'', FUuid)]),
    (''integration.connected'', [(''connectionId'', FUuid)]),
    (''integration.updated'', [(''connectionId'', FUuid)]),
    (''integration.retired'', [(''connectionId'', FUuid)]),
    (''integration.revived'', [(''connectionId'', FUuid)]),
    (''integration.token_rotated'', [(''connectionId'', FUuid)]),
    (''integration.synced'',
     [(''connectionId'', FUuid), (''grantedCount'', FInt), (''revokedCount'', FInt)]),
    (''integration.broken'', [(''connectionId'', FUuid), (''externalGroupId'', FStr)]),
    (''integration.push_failed'',
     [(''connectionId'', FUuid),
      (''roleId'', FUuidOrNull),
      (''externalGroupId'', FStr),
      (''reason'', FEnum [''permission'', ''not_found'', ''other''])]),
    (''integration.gateway_connected'', [(''connectionId'', FUuid)]),
    (''integration.gateway_disconnected'', [(''connectionId'', FUuid)]),
    (''integration.gateway_degraded'', [(''connectionId'', FUuid)]),
    (''integration.reconcile_scheduled'', [(''connectionId'', FUuid), (''reason'', FStr)]),
    (''integration.sync_started'', [(''connectionId'', FUuid)]),
    (''integration.token_invalid'', [(''connectionId'', FUuid)]),
    (''integration.mapping_retried'',
     [(''mappingId'', FUuid), (''connectionId'', FUuid), (''roleId'', FUuid)]),
    (''integration.removed'', [(''connectionId'', FUuid), (''userId'', FUuid), (''roleId'', FUuid)]),
    (''integration.external_role_added'',
     [(''connectionId'', FUuid),
      (''userId'', FUuid),
      (''roleId'', FUuid),
      (''externalGroupId'', FStr)]),
    (''integration.external_role_removed'',
     [(''connectionId'', FUuid),
      (''userId'', FUuid),
      (''roleId'', FUuid),
      (''externalGroupId'', FStr)]),
    (''external_identity.linked'',
     [(''connectionId'', FUuid), (''userId'', FUuid), (''externalIdentityId'', FUuid)]),
    (''external_identity.unlinked'',
     [(''connectionId'', FUuid), (''userId'', FUuid), (''externalIdentityId'', FUuid)]),
    (''auth.discord_linked'', [(''userId'', FUuid)]),
    (''auth.discord_unlinked'', [(''userId'', FUuid)]),
    (''external_group_mapping.created'',
     [(''mappingId'', FUuid), (''connectionId'', FUuid), (''roleId'', FUuid)]),
    (''external_group_mapping.updated'',
     [(''mappingId'', FUuid), (''connectionId'', FUuid), (''roleId'', FUuid)]),
    (''external_group_mapping.retired'',
     [(''mappingId'', FUuid), (''connectionId'', FUuid), (''roleId'', FUuid)]),
    (''gc.integration_connection_collected'', [(''connectionId'', FUuid)])]"

fun field_ok :: "ftype \<Rightarrow> pval \<Rightarrow> bool" where
  "field_ok FUuid v = (case v of PId _ \<Rightarrow> True | _ \<Rightarrow> False)"
| "field_ok FUuidOrNull v = (case v of PId _ \<Rightarrow> True | PNull \<Rightarrow> True | _ \<Rightarrow> False)"
| "field_ok FUuids v = (case v of PIds _ \<Rightarrow> True | _ \<Rightarrow> False)"
| "field_ok FBool v = (case v of PBool _ \<Rightarrow> True | _ \<Rightarrow> False)"
| "field_ok FInt v = (case v of PInt _ \<Rightarrow> True | _ \<Rightarrow> False)"
| "field_ok FStr v = (case v of PStr _ \<Rightarrow> True | _ \<Rightarrow> False)"
| "field_ok FStrs v = (case v of PStrs _ \<Rightarrow> True | _ \<Rightarrow> False)"
| "field_ok (FEnum es) v = (case v of PStr e \<Rightarrow> e \<in> set es | _ \<Rightarrow> False)"

text \<open>\<open>z.object(\<dots>).strict().safeParse\<close>: every declared key present with a value of its type,
  and no other key.\<close>

definition parses :: "(string \<times> ftype) list \<Rightarrow> payload \<Rightarrow> bool" where
  "parses fs p \<longleftrightarrow>
     (\<forall>(k, ft) \<in> set fs. case map_of p k of None \<Rightarrow> False | Some v \<Rightarrow> field_ok ft v) \<and>
     (\<forall>(k, v) \<in> set p. k \<in> fst ` set fs)"

definition payload_ok :: "string \<Rightarrow> payload \<Rightarrow> bool" where
  "payload_ok verb p =
     (case map_of activityPayloadSchemas verb of None \<Rightarrow> False | Some fs \<Rightarrow> parses fs p)"

section \<open>Writing\<close>

definition log_activity ::
  "id \<Rightarrow> id option \<Rightarrow> string \<Rightarrow> id \<Rightarrow> string \<Rightarrow> payload \<Rightarrow> source \<Rightarrow> id option \<Rightarrow> unit svc" where
  "log_activity orgId actor subjectType subjectId verb payload src conn =
     bnd (check (payload_ok verb payload) (ServerError ''Invalid activity payload'')) (\<lambda>_.
     bnd fresh_id (\<lambda>i.
     bnd now (\<lambda>t.
     create_row activities_update
       \<lparr>a_id = i, a_organizationId = orgId, a_actorUserId = actor,
        a_subjectType = subjectType, a_subjectId = subjectId, a_verb = verb,
        a_payload = payload, a_source = src, a_sourceConnectionId = conn, a_createdAt = t\<rparr>)))"

text \<open>The defaults of the optional arguments: source \<open>patrice\<close>, no connection.\<close>

definition logActivity :: "id \<Rightarrow> id option \<Rightarrow> string \<Rightarrow> id \<Rightarrow> string \<Rightarrow> payload \<Rightarrow> unit svc" where
  "logActivity orgId actor subjectType subjectId verb payload =
     log_activity orgId actor subjectType subjectId verb payload src_patrice None"

definition activity_row ::
  "state \<Rightarrow> id \<Rightarrow> id option \<Rightarrow> string \<Rightarrow> id \<Rightarrow> string \<Rightarrow> payload \<Rightarrow> source \<Rightarrow> id option \<Rightarrow> activity"
  where
  "activity_row s orgId actor st sid verb p src conn =
     \<lparr>a_id = next_id s, a_organizationId = orgId, a_actorUserId = actor,
      a_subjectType = st, a_subjectId = sid, a_verb = verb,
      a_payload = p, a_source = src, a_sourceConnectionId = conn, a_createdAt = clock s\<rparr>"

definition logged ::
  "id \<Rightarrow> id option \<Rightarrow> string \<Rightarrow> id \<Rightarrow> string \<Rightarrow> payload \<Rightarrow> state \<Rightarrow> state" where
  "logged orgId actor st sid verb p s =
     s\<lparr>next_id := Suc (next_id s),
       activities := activities s @ [activity_row s orgId actor st sid verb p src_patrice None]\<rparr>"

lemma log_activity_run [op_simps]:
  "log_activity orgId actor st sid verb p src conn s =
     (if payload_ok verb p
      then (Inr (), s\<lparr>next_id := Suc (next_id s),
                      activities := activities s @ [activity_row s orgId actor st sid verb p src conn]\<rparr>)
      else (Inl (ServerError ''Invalid activity payload''), s))"
  by (simp add: log_activity_def op_simps activity_row_def)

lemma logActivity_run [op_simps]:
  "logActivity orgId actor st sid verb p s =
     (if payload_ok verb p then (Inr (), logged orgId actor st sid verb p s)
      else (Inl (ServerError ''Invalid activity payload''), s))"
  "bnd (logActivity orgId actor st sid verb p) f s =
     (if payload_ok verb p then f () (logged orgId actor st sid verb p s)
      else (Inl (ServerError ''Invalid activity payload''), s))"
  by (simp_all add: logActivity_def log_activity_run logged_def bnd_def)

lemma logged_frame [simp]:
  "clock (logged org ac st sid verb p s) = clock s"
  "organizations (logged org ac st sid verb p s) = organizations s"
  "divisions (logged org ac st sid verb p s) = divisions s"
  "teams (logged org ac st sid verb p s) = teams s"
  "users (logged org ac st sid verb p s) = users s"
  "identities (logged org ac st sid verb p s) = identities s"
  "sessions (logged org ac st sid verb p s) = sessions s"
  "auth_tokens (logged org ac st sid verb p s) = auth_tokens s"
  "invitations (logged org ac st sid verb p s) = invitations s"
  "invitation_uses (logged org ac st sid verb p s) = invitation_uses s"
  "roles (logged org ac st sid verb p s) = roles s"
  "user_roles (logged org ac st sid verb p s) = user_roles s"
  "grants (logged org ac st sid verb p s) = grants s"
  "templates (logged org ac st sid verb p s) = templates s"
  "questions (logged org ac st sid verb p s) = questions s"
  "tasks (logged org ac st sid verb p s) = tasks s"
  "claimants (logged org ac st sid verb p s) = claimants s"
  "messages (logged org ac st sid verb p s) = messages s"
  "submissions (logged org ac st sid verb p s) = submissions s"
  "answers (logged org ac st sid verb p s) = answers s"
  "attachments (logged org ac st sid verb p s) = attachments s"
  "notifications (logged org ac st sid verb p s) = notifications s"
  "connections (logged org ac st sid verb p s) = connections s"
  "external_identities (logged org ac st sid verb p s) = external_identities s"
  "mappings (logged org ac st sid verb p s) = mappings s"
  "baselines (logged org ac st sid verb p s) = baselines s"
  "blobs (logged org ac st sid verb p s) = blobs s"
  "policy_cache (logged org ac st sid verb p s) = policy_cache s"
  "pings (logged org ac st sid verb p s) = pings s"
  "next_id (logged org ac st sid verb p s) = Suc (next_id s)"
  by (simp_all add: logged_def)

lemma logged_activities:
  "activities (logged org ac st sid verb p s) =
     activities s @ [activity_row s org ac st sid verb p src_patrice None]"
  by (simp add: logged_def)

section \<open>The admin list\<close>

record activity_filters =
  af_after :: "id option"
  af_limit :: nat
  af_verb :: "string option"
  af_verbPrefix :: "string option"
  af_actorUserId :: "id option"
  af_subjectType :: "string option"
  af_subjectId :: "id option"
  af_source :: "source option"
  af_from :: "time option"
  af_to :: "time option"

record activity_item =
  ai_id :: id
  ai_actorUserId :: "id option"
  ai_actorName :: "string option"
  ai_subjectType :: string
  ai_subjectId :: id
  ai_verb :: string
  ai_payload :: payload
  ai_source :: source
  ai_createdAt :: time

text \<open>\<open>if (x)\<close> on an optional string: the empty string is falsy.\<close>

definition truthy :: "string option \<Rightarrow> string option" where
  "truthy x = (case x of Some [] \<Rightarrow> None | _ \<Rightarrow> x)"

definition opt_eq :: "'a option \<Rightarrow> 'a \<Rightarrow> bool" where
  "opt_eq f x = (case f of None \<Rightarrow> True | Some y \<Rightarrow> x = y)"

definition startsWith :: "string \<Rightarrow> string \<Rightarrow> bool" where
  "startsWith p x \<longleftrightarrow> take (length p) x = p"

definition activity_where :: "id \<Rightarrow> activity_filters \<Rightarrow> activity \<Rightarrow> bool" where
  "activity_where orgId f r \<longleftrightarrow>
     a_organizationId r = orgId \<and>
     (case truthy (af_verb f) of
        Some v \<Rightarrow> a_verb r = v
      | None \<Rightarrow> (case truthy (af_verbPrefix f) of None \<Rightarrow> True | Some p \<Rightarrow> startsWith p (a_verb r))) \<and>
     (case af_actorUserId f of None \<Rightarrow> True | Some u \<Rightarrow> a_actorUserId r = Some u) \<and>
     opt_eq (truthy (af_subjectType f)) (a_subjectType r) \<and>
     opt_eq (af_subjectId f) (a_subjectId r) \<and>
     opt_eq (af_source f) (a_source r) \<and>
     (case af_from f of None \<Rightarrow> True | Some t \<Rightarrow> t \<le> a_createdAt r) \<and>
     (case af_to f of None \<Rightarrow> True | Some t \<Rightarrow> a_createdAt r \<le> t)"

definition activity_view :: "state \<Rightarrow> activity \<Rightarrow> activity_item" where
  "activity_view s r =
     \<lparr>ai_id = a_id r, ai_actorUserId = a_actorUserId r,
      ai_actorName = (case a_actorUserId r of None \<Rightarrow> None
                      | Some u \<Rightarrow> map_option u_displayName (lookup u_id u (users s))),
      ai_subjectType = a_subjectType r, ai_subjectId = a_subjectId r, ai_verb = a_verb r,
      ai_payload = a_payload r, ai_source = a_source r, ai_createdAt = a_createdAt r\<rparr>"

definition activity_list ::
  "id \<Rightarrow> activity_filters \<Rightarrow> state \<Rightarrow> activity_item list \<times> id option" where
  "activity_list orgId f s =
     (let rows = take (af_limit f + 1)
                   (newest_first a_id
                     (filter (\<lambda>r. activity_where orgId f r \<and>
                                  (case af_after f of None \<Rightarrow> True | Some a \<Rightarrow> a_id r < a))
                       (activities s)))
      in case page (af_limit f) a_id rows of
           (items, cursor) \<Rightarrow> (map (activity_view s) items, cursor))"

definition activity_rows :: "id \<times> activity_filters \<Rightarrow> state \<Rightarrow> activity_item list" where
  "activity_rows q s =
     map (activity_view s) (newest_first a_id (filter (activity_where (fst q) (snd q)) (activities s)))"

definition activity_fetch ::
  "id \<times> activity_filters \<Rightarrow> nat \<Rightarrow> state \<Rightarrow> id option \<Rightarrow> activity_item list \<times> id option" where
  "activity_fetch q limit s after =
     activity_list (fst q) ((snd q)\<lparr>af_after := after, af_limit := limit\<rparr>) s"

lemma activity_where_cursor:
  fixes f :: activity_filters
  shows "activity_where org (f\<lparr>af_after := a, af_limit := n\<rparr>) = activity_where org f"
  by (simp add: activity_where_def fun_eq_iff cong: option.case_cong)

interpretation activity_pages:
  keyset activity_rows ai_id "\<lambda>a b. b < a" activity_fetch "\<lambda>s. distinct (map a_id (activities s))"
proof unfold_locales
  fix s :: state and q
  assume "distinct (map a_id (activities s))"
  then show "sorted_wrt (\<lambda>p r. ai_id r < ai_id p) (activity_rows q s)"
    using newest_first_ordered [OF distinct_map_filter_key]
    by (simp add: activity_rows_def sorted_wrt_map activity_view_def)
next
  fix limit :: nat and q s and after :: "id option"
  assume "0 < limit"
  have v: "ai_id (activity_view s r) = a_id r" for r by (simp add: activity_view_def)
  show "activity_fetch q limit s after =
     page limit ai_id (take (limit + 1)
       (filter (\<lambda>r. case after of None \<Rightarrow> True | Some a \<Rightarrow> ai_id r < a) (activity_rows q s)))"
    using page_map [OF \<open>0 < limit\<close>, of ai_id "activity_view s" a_id] v
    by (simp add: activity_fetch_def activity_list_def activity_rows_def Let_def v
        activity_where_cursor filter_map o_def take_map filter_newest_first conj_commute
        cong: option.case_cong)
qed auto

text \<open>A client that follows the cursors reads every matching row once, newest first.\<close>

lemma activity_walk:
  fixes s :: state
  assumes "distinct (map a_id (activities s))" and "0 < limit"
    and "length (activity_rows q s) < n"
  shows "walk (activity_fetch q limit s) n None = activity_rows q s"
  using activity_pages.walk_complete [OF assms] .

section \<open>Invariants that do not read the log\<close>

text \<open>What a log entry changes; \<open>invariant\<close> adds what a notification changes.\<close>

locale unlogged =
  fixes P :: "state \<Rightarrow> bool"
  assumes fresh: "next_id s \<le> n \<Longrightarrow> P s \<Longrightarrow> P (s\<lparr>next_id := n\<rparr>)"
    and activity_free: "P s \<Longrightarrow> P (activities_update f s)"
    and policy_free: "P s \<Longrightarrow> P (policy_cache_update c s)"
begin

lemma free_of_cache [keeps_intros]: "cache_free P"
  unfolding cache_free_def
  using policy_free [where c = "\<lambda>_. c" for c] by auto

lemma keeps_fresh [keeps_intros]: "keeps P fresh_id"
  by (simp add: keeps_fresh_id fresh)

lemma keeps_log_activity [keeps_intros]:
  "keeps P (log_activity orgId actor st sid verb p src conn)"
  unfolding log_activity_def
  by (intro keeps_intros keeps_create_row) (simp add: activity_free)

lemma keeps_logActivity [keeps_intros]: "keeps P (logActivity orgId actor st sid verb p)"
  by (simp add: logActivity_def keeps_log_activity)

end

locale invariant = unlogged +
  assumes notification_free: "P s \<Longrightarrow> P (notifications_update g s)"
    and ping_free: "P s \<Longrightarrow> P (pings_update h s)"

text \<open>The log itself: every row it holds parses against its verb's schema, whatever writes it.\<close>

definition log_conforms :: "state \<Rightarrow> bool" where
  "log_conforms s \<longleftrightarrow> (\<forall>a \<in> set (activities s). payload_ok (a_verb a) (a_payload a))"

lemma keeps_log_conforms:
  "keeps log_conforms (log_activity orgId actor st sid verb p src conn)"
  by (rule keepsI) (auto simp: op_simps log_conforms_def activity_row_def split: if_splits)

end
