(* ===== verification/Payloads.thy ===== *)
theory Payloads
  imports Activity
begin

text \<open>
  Every payload shape the services log, checked once against the verb catalogue: whatever the
  ids are, it parses. The facts are in \<open>op_simps\<close>, so a method that logs one of them runs past
  the check.
\<close>

text \<open>\<open>uuid.nullable()\<close>.\<close>

definition pid_opt :: "id option \<Rightarrow> pval" where
  "pid_opt x = (case x of None \<Rightarrow> PNull | Some i \<Rightarrow> PId i)"

lemma payload_invite_created [op_simps]:
  "payload_ok ''invite.created''
      [(''invitationId'', PId a), (''intendedRoleIds'', PIds bs), (''isBootstrap'', PBool pc)]"
  by code_simp

lemma payload_invite_redeemed [op_simps]:
  "payload_ok ''invite.redeemed''
      [(''invitationId'', PId a), (''createdUserId'', PId b), (''grantedRoleIds'', PIds cs)]"
  by code_simp

lemma payload_invite_revoked [op_simps]:
  "payload_ok ''invite.revoked'' [(''invitationId'', PId a)]"
  by code_simp

lemma payload_bootstrap_completed [op_simps]:
  "payload_ok ''bootstrap.completed'' [(''adminUserId'', PId a), (''invitationId'', PId b)]"
  by code_simp

lemma payload_user_registered [op_simps]:
  "payload_ok ''user.registered''
      [(''userId'', PId a), (''invitationId'', PId b), (''identityProvider'', PStr ''password'')]"
  "payload_ok ''user.registered''
      [(''userId'', PId a), (''invitationId'', PId b), (''identityProvider'', PStr ''google'')]"
  "payload_ok ''user.registered''
      [(''userId'', PId a), (''invitationId'', PId b), (''identityProvider'', PStr ''discord'')]"
  by code_simp+

lemma payload_role_created [op_simps]:
  "payload_ok ''role.created'' [(''roleId'', PId a)]"
  by code_simp

lemma payload_role_updated [op_simps]:
  "payload_ok ''role.updated'' [(''roleId'', PId a)]"
  by code_simp

lemma payload_role_retired [op_simps]:
  "payload_ok ''role.retired'' [(''roleId'', PId a)]"
  by code_simp

lemma payload_role_revived [op_simps]:
  "payload_ok ''role.revived'' [(''roleId'', PId a)]"
  by code_simp

lemma payload_division_created [op_simps]:
  "payload_ok ''division.created'' [(''divisionId'', PId a)]"
  by code_simp

lemma payload_division_updated [op_simps]:
  "payload_ok ''division.updated'' [(''divisionId'', PId a)]"
  by code_simp

lemma payload_division_retired [op_simps]:
  "payload_ok ''division.retired'' [(''divisionId'', PId a)]"
  by code_simp

lemma payload_division_revived [op_simps]:
  "payload_ok ''division.revived'' [(''divisionId'', PId a)]"
  by code_simp

lemma payload_team_created [op_simps]:
  "payload_ok ''team.created'' [(''teamId'', PId a)]"
  by code_simp

lemma payload_team_updated [op_simps]:
  "payload_ok ''team.updated'' [(''teamId'', PId a)]"
  by code_simp

lemma payload_team_retired [op_simps]:
  "payload_ok ''team.retired'' [(''teamId'', PId a)]"
  by code_simp

lemma payload_team_revived [op_simps]:
  "payload_ok ''team.revived'' [(''teamId'', PId a)]"
  by code_simp

lemma payload_grant_created [op_simps]:
  "payload_ok ''grant.created'' [(''grantId'', PId a), (''roleId'', PId b)]"
  by code_simp

lemma payload_grant_updated [op_simps]:
  "payload_ok ''grant.updated'' [(''grantId'', PId a), (''roleId'', PId b)]"
  by code_simp

lemma payload_grant_retired [op_simps]:
  "payload_ok ''grant.retired'' [(''grantId'', PId a), (''roleId'', PId b)]"
  by code_simp

lemma payload_grant_revived [op_simps]:
  "payload_ok ''grant.revived'' [(''grantId'', PId a), (''roleId'', PId b)]"
  by code_simp

lemma payload_user_role_granted [op_simps]:
  "payload_ok ''user_role.granted'' [(''userId'', PId a), (''roleId'', PId b)]"
  by code_simp

lemma payload_user_role_revoked [op_simps]:
  "payload_ok ''user_role.revoked'' [(''userId'', PId a), (''roleId'', PId b)]"
  by code_simp

lemma payload_user_updated [op_simps]:
  "payload_ok ''user.updated'' [(''userId'', PId a)]"
  by code_simp

lemma payload_user_deactivated [op_simps]:
  "payload_ok ''user.deactivated'' [(''userId'', PId a)]"
  by code_simp

lemma payload_user_reactivated [op_simps]:
  "payload_ok ''user.reactivated'' [(''userId'', PId a)]"
  by code_simp

lemma payload_user_retired [op_simps]:
  "payload_ok ''user.retired'' [(''userId'', PId a)]"
  by code_simp

lemma payload_user_revived [op_simps]:
  "payload_ok ''user.revived'' [(''userId'', PId a)]"
  by code_simp

lemma payload_config_updated [op_simps]:
  "payload_ok ''config.updated'' [(''changedKeys'', PStrs ass)]"
  by code_simp

lemma payload_request_template_updated [op_simps]:
  "payload_ok ''request_template.updated''
      [(''requestTemplateId'', PId a), (''divisionId'', PId b), (''questionCount'', PInt nc)]"
  by code_simp

lemma payload_task_request_template_updated [op_simps]:
  "payload_ok ''task_request_template.updated''
      [(''requestTemplateId'', PId a), (''taskId'', PId b), (''questionCount'', PInt nc)]"
  by code_simp

lemma payload_task_created_cases:
  "payload_ok ''task.created''
      [(''taskId'', PId a), (''divisionId'', PId b),
       (''teamId'', PNull), (''requestTemplateId'', PId d)]"
  "payload_ok ''task.created''
      [(''taskId'', PId a), (''divisionId'', PId b),
       (''teamId'', PId x), (''requestTemplateId'', PId d)]"
  by code_simp+

lemma payload_task_created [op_simps]:
  "payload_ok ''task.created''
      [(''taskId'', PId a), (''divisionId'', PId b),
       (''teamId'', pid_opt o1), (''requestTemplateId'', PId d)]"
  by (cases o1) (simp_all add: pid_opt_def payload_task_created_cases)

lemma payload_task_updated [op_simps]:
  "payload_ok ''task.updated'' [(''taskId'', PId a)]"
  by code_simp

lemma payload_task_retired [op_simps]:
  "payload_ok ''task.retired'' [(''taskId'', PId a)]"
  by code_simp

lemma payload_task_revived [op_simps]:
  "payload_ok ''task.revived'' [(''taskId'', PId a)]"
  by code_simp

lemma payload_task_claimed [op_simps]:
  "payload_ok ''task.claimed''
      [(''taskId'', PId a), (''userId'', PId b), (''statusCache'', PStr tc)]"
  by code_simp

lemma payload_task_left [op_simps]:
  "payload_ok ''task.left''
      [(''taskId'', PId a), (''userId'', PId b), (''statusCache'', PStr tc)]"
  by code_simp

lemma payload_task_claims_updated [op_simps]:
  "payload_ok ''task.claims_updated''
      [(''taskId'', PId a), (''openings'', PInt nb), (''claimsClosed'', PBool pc),
       (''statusCache'', PStr td)]"
  by code_simp

lemma payload_task_requester_changed [op_simps]:
  "payload_ok ''task.requester_changed'' [(''taskId'', PId a), (''requesterUserId'', PId b)]"
  by code_simp

lemma payload_message_created_cases:
  "payload_ok ''message.created''
      [(''messageId'', PId a), (''taskId'', PId b),
       (''parentMessageId'', PNull)]"
  "payload_ok ''message.created''
      [(''messageId'', PId a), (''taskId'', PId b),
       (''parentMessageId'', PId x)]"
  by code_simp+

lemma payload_message_created [op_simps]:
  "payload_ok ''message.created''
      [(''messageId'', PId a), (''taskId'', PId b),
       (''parentMessageId'', pid_opt o1)]"
  by (cases o1) (simp_all add: pid_opt_def payload_message_created_cases)

lemma payload_message_updated [op_simps]:
  "payload_ok ''message.updated'' [(''messageId'', PId a), (''taskId'', PId b)]"
  by code_simp

lemma payload_message_retired [op_simps]:
  "payload_ok ''message.retired'' [(''messageId'', PId a), (''taskId'', PId b)]"
  by code_simp

lemma payload_message_revived [op_simps]:
  "payload_ok ''message.revived'' [(''messageId'', PId a), (''taskId'', PId b)]"
  by code_simp

lemma payload_attachment_created [op_simps]:
  "payload_ok ''attachment.created'' [(''attachmentId'', PId a), (''messageId'', PId b)]"
  by code_simp

lemma payload_attachment_retired [op_simps]:
  "payload_ok ''attachment.retired'' [(''attachmentId'', PId a)]"
  by code_simp

lemma payload_attachment_revived [op_simps]:
  "payload_ok ''attachment.revived'' [(''attachmentId'', PId a)]"
  by code_simp

lemma payload_submission_submitted [op_simps]:
  "payload_ok ''submission.submitted''
      [(''taskId'', PId a), (''submissionId'', PId b), (''claimantUserId'', PId c),
       (''submissionNo'', PInt nd)]"
  by code_simp

lemma payload_submission_reviewed [op_simps]:
  "payload_ok ''submission.reviewed''
      [(''taskId'', PId a), (''submissionId'', PId b), (''decision'', PStr ''approve''),
       (''statusCache'', PStr td)]"
  "payload_ok ''submission.reviewed''
      [(''taskId'', PId a), (''submissionId'', PId b), (''decision'', PStr ''return''),
       (''statusCache'', PStr td)]"
  "payload_ok ''submission.reviewed''
      [(''taskId'', PId a), (''submissionId'', PId b), (''decision'', PStr ''reject''),
       (''statusCache'', PStr td)]"
  by code_simp+

lemma payload_submission_retired [op_simps]:
  "payload_ok ''submission.retired''
      [(''taskId'', PId a), (''submissionId'', PId b), (''claimantUserId'', PId c),
       (''reason'', PStr td)]"
  by code_simp

lemma payload_task_claimant_removed [op_simps]:
  "payload_ok ''task.claimant_removed''
      [(''taskId'', PId a), (''removedUserId'', PId b), (''statusCache'', PStr tc)]"
  by code_simp

lemma payload_task_completed [op_simps]:
  "payload_ok ''task.completed'' [(''taskId'', PId a), (''statusCache'', PStr tb)]"
  by code_simp

lemma payload_gc_task_collected [op_simps]:
  "payload_ok ''gc.task_collected'' [(''taskId'', PId a)]"
  by code_simp

lemma payload_gc_role_collected [op_simps]:
  "payload_ok ''gc.role_collected'' [(''roleId'', PId a)]"
  by code_simp

lemma payload_gc_division_collected [op_simps]:
  "payload_ok ''gc.division_collected'' [(''divisionId'', PId a)]"
  by code_simp

lemma payload_gc_team_collected [op_simps]:
  "payload_ok ''gc.team_collected'' [(''teamId'', PId a)]"
  by code_simp

lemma payload_gc_blocked [op_simps]:
  "payload_ok ''gc.blocked'' [(''entityType'', PStr ta), (''entityId'', PId b)]"
  by code_simp

lemma payload_gc_blob_reconciled [op_simps]:
  "payload_ok ''gc.blob_reconciled'' [(''blobCount'', PInt na)]"
  by code_simp

lemma payload_gc_user_scrubbed [op_simps]:
  "payload_ok ''gc.user_scrubbed'' [(''userId'', PId a)]"
  by code_simp

lemma payload_gc_user_collected [op_simps]:
  "payload_ok ''gc.user_collected'' [(''userId'', PId a)]"
  by code_simp

lemma payload_invite_auto_revoked_on_issuer_retired [op_simps]:
  "payload_ok ''invite.auto_revoked_on_issuer_retired''
      [(''invitationId'', PId a), (''issuerUserId'', PId b)]"
  by code_simp

lemma payload_last_admin_refused [op_simps]:
  "payload_ok ''last_admin_refused'' [(''path'', PStr ta), (''subjectId'', PId b)]"
  by code_simp

lemma payload_gc_integration_connection_collected [op_simps]:
  "payload_ok ''gc.integration_connection_collected'' [(''connectionId'', PId a)]"
  by code_simp

lemma payload_integration_connection [op_simps]:
  "payload_ok ''integration.sync_started'' [(''connectionId'', PId a)]"
  "payload_ok ''integration.token_invalid'' [(''connectionId'', PId a)]"
  "payload_ok ''integration.synced''
      [(''connectionId'', PId a), (''grantedCount'', PInt i), (''revokedCount'', PInt j)]"
  by code_simp+

lemma payload_integration_mapping [op_simps]:
  "payload_ok ''integration.broken'' [(''connectionId'', PId a), (''externalGroupId'', PStr ta)]"
  "payload_ok ''integration.push_failed''
      [(''connectionId'', PId a), (''roleId'', PId b), (''externalGroupId'', PStr ta),
       (''reason'', PStr ''permission'')]"
  "payload_ok ''integration.push_failed''
      [(''connectionId'', PId a), (''roleId'', PId b), (''externalGroupId'', PStr ta),
       (''reason'', PStr ''not_found'')]"
  "payload_ok ''integration.push_failed''
      [(''connectionId'', PId a), (''roleId'', PId b), (''externalGroupId'', PStr ta),
       (''reason'', PStr ''other'')]"
  by code_simp+

lemma payload_integration_member [op_simps]:
  "payload_ok ''integration.removed'' [(''connectionId'', PId a), (''userId'', PId b), (''roleId'', PId c)]"
  "payload_ok ''integration.external_role_added''
      [(''connectionId'', PId a), (''userId'', PId b), (''roleId'', PId c), (''externalGroupId'', PStr ta)]"
  "payload_ok ''integration.external_role_removed''
      [(''connectionId'', PId a), (''userId'', PId b), (''roleId'', PId c), (''externalGroupId'', PStr ta)]"
  by code_simp+

end
