(* ===== verification/Lifecycle.thy ===== *)
theory Lifecycle
  imports Payloads
begin

text \<open>
  \<open>common/lifecycle.ts\<close> and \<open>common/grace.service.ts\<close>: when a retired row may be revived, the
  default list filter, and the grace window read from an organization's settings. The locale
  \<open>retirable\<close> is the contract every retire/revive pair of the services shares, with what a
  caller gets from it: a round trip inside the window, a refusal outside.
\<close>

section \<open>The predicates\<close>

definition isRevivable :: "lifecycle \<Rightarrow> time option \<Rightarrow> rat \<Rightarrow> time \<Rightarrow> bool" where
  "isRevivable st retiredAt graceMs nowMs =
     (if st \<noteq> retired then False
      else case retiredAt of None \<Rightarrow> False | Some t \<Rightarrow> of_int (nowMs - t) \<le> graceMs)"

definition activeFilter :: "bool \<Rightarrow> lifecycle \<Rightarrow> bool" where
  "activeFilter includeRetired st \<longleftrightarrow> (if includeRetired then True else st \<noteq> retired)"

definition default_gracePeriodHours :: rat where
  "default_gracePeriodHours = 24"

definition windowMsFromSettings :: "(string \<rightharpoonup> json) option \<Rightarrow> rat" where
  "windowMsFromSettings settings =
     (let raw = (case settings of None \<Rightarrow> None | Some m \<Rightarrow> m ''gracePeriodHours'');
          hours = (case raw of
                     Some (JNum (Fin h)) \<Rightarrow> (if 0 \<le> h then h else default_gracePeriodHours)
                   | _ \<Rightarrow> default_gracePeriodHours)
      in hours * 60 * 60 * 1000)"

definition windowMs :: "id \<Rightarrow> rat svc" where
  "windowMs orgId =
     bnd (find_unique organizations o_id orgId) (\<lambda>org.
     ret (windowMsFromSettings (map_option o_settings org)))"

lemma window_nonneg: "0 \<le> windowMsFromSettings settings"
  by (auto simp: windowMsFromSettings_def Let_def default_gracePeriodHours_def
      split: option.split json.split jsnum.split)

definition org_window :: "id \<Rightarrow> state \<Rightarrow> rat" where
  "org_window orgId s = windowMsFromSettings (map_option o_settings (lookup o_id orgId (organizations s)))"

lemma windowMs_run [op_simps]: "bnd (windowMs orgId) f s = f (org_window orgId s) s"
  by (simp add: windowMs_def op_simps org_window_def)

lemma keeps_windowMs [keeps_intros]: "keeps P (windowMs orgId)"
  by (simp add: windowMs_def keeps_intros)

lemma isRevivable_iff:
  "isRevivable st ra g n \<longleftrightarrow> st = retired \<and> (\<exists>t. ra = Some t \<and> of_int (n - t) \<le> g)"
  by (auto simp: isRevivable_def split: option.split)

lemma isRevivable_fresh: "0 \<le> g \<Longrightarrow> isRevivable retired (Some t) g t"
  by (simp add: isRevivable_iff)

lemma isRevivable_mono: "isRevivable st ra g n \<Longrightarrow> m \<le> n \<Longrightarrow> isRevivable st ra g m"
  by (auto simp: isRevivable_iff)

section \<open>The retire/revive contract\<close>

text \<open>
  \<open>row_of k s\<close> reads the entity, \<open>st\<close>/\<open>ra\<close> its lifecycle columns, \<open>window k s\<close> its
  organization's grace window. The provider promises: retiring a row that exists and is not
  retired stamps it with the clock; reviving succeeds exactly when the row is revivable, makes
  it active and clears the stamp, and otherwise throws a conflict and changes nothing.
\<close>

locale retirable =
  fixes row_of :: "id \<Rightarrow> state \<Rightarrow> 'r option"
    and st :: "'r \<Rightarrow> lifecycle"
    and ra :: "'r \<Rightarrow> time option"
    and window :: "id \<Rightarrow> state \<Rightarrow> rat"
    and ok :: "id \<Rightarrow> state \<Rightarrow> bool"
    and retire_op :: "id \<Rightarrow> id \<Rightarrow> 'v svc"
    and revive_op :: "id \<Rightarrow> id \<Rightarrow> 'w svc"
  assumes window_pos: "0 \<le> window k s"
    and window_clock: "window k (s\<lparr>clock := n\<rparr>) = window k s"
    and row_clock: "row_of k (s\<lparr>clock := n\<rparr>) = row_of k s"
    and ok_clock: "ok k (s\<lparr>clock := n\<rparr>) = ok k s"
    and retire_ok:
      "ok k s \<Longrightarrow> row_of k s = Some r \<Longrightarrow> st r \<noteq> retired \<Longrightarrow>
       \<exists>x t q. retire_op k u s = (Inr x, t) \<and> row_of k t = Some q \<and> st q = retired \<and>
               ra q = Some (clock s) \<and> window k t = window k s \<and> ok k t"
    and retire_again:
      "ok k s \<Longrightarrow> row_of k s = Some r \<Longrightarrow> st r = retired \<Longrightarrow>
       retire_op k u s = (Inl (ConflictError ''ALREADY_RETIRED''), s)"
    and revive_ok:
      "ok k s \<Longrightarrow> row_of k s = Some r \<Longrightarrow> isRevivable (st r) (ra r) (window k s) (clock s) \<Longrightarrow>
       \<exists>x t q. revive_op k u s = (Inr x, t) \<and> row_of k t = Some q \<and> st q = active \<and> ra q = None \<and>
               ok k t"
    and revive_refused:
      "ok k s \<Longrightarrow> row_of k s = Some r \<Longrightarrow> \<not> isRevivable (st r) (ra r) (window k s) (clock s) \<Longrightarrow>
       revive_op k u s = (Inl (ConflictError ''NOT_REVIVABLE''), s)"
begin

theorem round_trip:
  assumes "ok k s" and "row_of k s = Some r" and "st r \<noteq> retired"
    and "of_int (n - clock s) \<le> window k s"
  shows "\<exists>x t y w q. retire_op k u s = (Inr x, t) \<and>
           revive_op k v (t\<lparr>clock := n\<rparr>) = (Inr y, w) \<and>
           row_of k w = Some q \<and> st q = active \<and> ra q = None"
proof -
  obtain x t q where t: "retire_op k u s = (Inr x, t)" "row_of k t = Some q" "st q = retired"
      "ra q = Some (clock s)" "window k t = window k s" "ok k t"
    using retire_ok [OF assms(1-3)] by blast
  have "isRevivable (st q) (ra q) (window k (t\<lparr>clock := n\<rparr>)) (clock (t\<lparr>clock := n\<rparr>))"
    using assms(4) t by (simp add: isRevivable_iff window_clock)
  then show ?thesis
    using revive_ok [of k "t\<lparr>clock := n\<rparr>" q v] t by (auto simp: row_clock ok_clock)
qed

theorem refused_after_window:
  assumes "ok k s" and "row_of k s = Some r" and "st r \<noteq> retired"
    and "window k s < of_int (n - clock s)"
  shows "\<exists>x t. retire_op k u s = (Inr x, t) \<and>
           revive_op k v (t\<lparr>clock := n\<rparr>) =
             (Inl (ConflictError ''NOT_REVIVABLE''), t\<lparr>clock := n\<rparr>)"
proof -
  obtain x t q where t: "retire_op k u s = (Inr x, t)" "row_of k t = Some q" "st q = retired"
      "ra q = Some (clock s)" "window k t = window k s" "ok k t"
    using retire_ok [OF assms(1-3)] by blast
  have "\<not> isRevivable (st q) (ra q) (window k (t\<lparr>clock := n\<rparr>)) (clock (t\<lparr>clock := n\<rparr>))"
    using assms(4) t by (simp add: isRevivable_iff window_clock)
  then show ?thesis
    using revive_refused [of k "t\<lparr>clock := n\<rparr>" q v] t by (auto simp: row_clock ok_clock)
qed

end

end
