(* ===== verification/Task_Status.thy ===== *)
theory Task_Status
  imports Lifecycle
begin

text \<open>
  \<open>tasks/task-status.ts\<close> (the rule that rolls claimant slots up into \<open>status_cache\<close>) and
  \<open>tasks/task-status.service.ts\<close> (its recompute against the tables).
\<close>

definition computeStatusCache :: "int \<Rightarrow> int \<Rightarrow> bool \<Rightarrow> status" where
  "computeStatusCache activeClaimants openings claimsClosed =
     (let hasFreeOpening = (\<not> claimsClosed \<and> activeClaimants < openings)
      in if hasFreeOpening then st_open else st_claimed)"

fun STATUS_RANK :: "status \<Rightarrow> nat" where
  "STATUS_RANK st_open = 0"
| "STATUS_RANK st_claimed = 1"
| "STATUS_RANK st_revising = 2"
| "STATUS_RANK st_review = 3"
| "STATUS_RANK st_approved = 4"

fun slot_contribution :: "sub_state option \<Rightarrow> status list" where
  "slot_contribution None = [st_claimed]"
| "slot_contribution (Some ss_rejected) = []"
| "slot_contribution (Some ss_review) = [st_review]"
| "slot_contribution (Some ss_revising) = [st_revising]"
| "slot_contribution (Some ss_approved) = [st_approved]"

definition open_spots :: "int \<Rightarrow> bool \<Rightarrow> sub_state option list \<Rightarrow> int" where
  "open_spots openings claimsClosed claimantStates =
     (if claimsClosed then 0 else max 0 (openings - int (length claimantStates)))"

definition contributions :: "int \<Rightarrow> bool \<Rightarrow> sub_state option list \<Rightarrow> status list" where
  "contributions openings claimsClosed claimantStates =
     replicate (nat (open_spots openings claimsClosed claimantStates)) st_open @
     concat (map slot_contribution claimantStates)"

fun lowest :: "status \<Rightarrow> status list \<Rightarrow> status" where
  "lowest l [] = l"
| "lowest l (c # cs) = lowest (if STATUS_RANK c < STATUS_RANK l then c else l) cs"

definition computeMinRuleStatus :: "int \<Rightarrow> bool \<Rightarrow> sub_state option list \<Rightarrow> status" where
  "computeMinRuleStatus openings claimsClosed claimantStates =
     (case contributions openings claimsClosed claimantStates of
        [] \<Rightarrow> st_claimed
      | c # cs \<Rightarrow> lowest c cs)"

section \<open>Recompute\<close>

definition latest_submission :: "state \<Rightarrow> id \<Rightarrow> id \<Rightarrow> submission option" where
  "latest_submission s taskId userId =
     find_first (\<lambda>r. s_taskId r = taskId \<and> s_claimantUserId r = userId \<and> s_lifecycleState r = active)
       (\<lambda>r. - s_submissionNo r) (submissions s)"

definition active_slots :: "id \<Rightarrow> state \<Rightarrow> task_claimant list" where
  "active_slots taskId s = filter (\<lambda>c. c_taskId c = taskId \<and> c_leftAt c = None) (claimants s)"

definition slot_states :: "id \<Rightarrow> state \<Rightarrow> sub_state option list" where
  "slot_states taskId s =
     map (\<lambda>c. map_option s_state (latest_submission s taskId (c_userId c))) (active_slots taskId s)"

text \<open>\<open>@updatedAt\<close>: every update of a task row stamps it.\<close>

definition update_task :: "id \<Rightarrow> (task \<Rightarrow> task) \<Rightarrow> task svc" where
  "update_task taskId f =
     bnd now (\<lambda>t. update_row tasks tasks_update t_id taskId (\<lambda>r. (f r)\<lparr>t_updatedAt := t\<rparr>))"

definition recompute :: "id \<Rightarrow> status svc" where
  "recompute taskId =
     bnd (find_unique_or_throw tasks t_id taskId) (\<lambda>task.
     bnd (gets (slot_states taskId)) (\<lambda>claimantStates.
     let status = computeMinRuleStatus (t_openings task) (t_claimsClosed task) claimantStates in
     bnd (update_task taskId (\<lambda>r. r\<lparr>t_statusCache := Some status\<rparr>)) (\<lambda>_.
     ret status)))"

section \<open>The rule\<close>

lemma status_eq_rank: "STATUS_RANK a = STATUS_RANK b \<Longrightarrow> a = b"
  by (cases a; cases b) simp_all

lemma lowest_in: "lowest l cs \<in> set (l # cs)"
proof (induction cs arbitrary: l)
  case (Cons c cs)
  show ?case using Cons.IH [of c] Cons.IH [of l] by auto
qed simp

lemma lowest_least: "c \<in> set (l # cs) \<Longrightarrow> STATUS_RANK (lowest l cs) \<le> STATUS_RANK c"
proof (induction cs arbitrary: l c)
  case (Cons d cs)
  let ?m = "if STATUS_RANK d < STATUS_RANK l then d else l"
  have m: "STATUS_RANK (lowest ?m cs) \<le> STATUS_RANK ?m" by (rule Cons.IH) simp
  show ?case
  proof (cases "c \<in> set cs")
    case True
    then show ?thesis using Cons.IH [of c ?m] by simp
  next
    case False
    then have "c = l \<or> c = d" using Cons.prems by simp
    then show ?thesis using m by (auto split: if_splits)
  qed
qed simp

lemma min_rule_least:
  "c \<in> set (contributions n cl ss) \<Longrightarrow>
   computeMinRuleStatus n cl ss \<in> set (contributions n cl ss) \<and>
   STATUS_RANK (computeMinRuleStatus n cl ss) \<le> STATUS_RANK c"
  using lowest_in lowest_least
  by (auto simp: computeMinRuleStatus_def split: list.splits)

lemma min_rule_empty: "contributions n cl ss = [] \<Longrightarrow> computeMinRuleStatus n cl ss = st_claimed"
  by (simp add: computeMinRuleStatus_def)

lemma min_rule_eqI:
  assumes "c \<in> set (contributions n cl ss)"
    and "\<And>d. d \<in> set (contributions n cl ss) \<Longrightarrow> STATUS_RANK c \<le> STATUS_RANK d"
  shows "computeMinRuleStatus n cl ss = c"
  using min_rule_least [OF assms(1)] assms(2) by (metis le_antisym status_eq_rank)

lemma open_contributes: "st_open \<in> set (contributions n cl ss) \<longleftrightarrow> 0 < open_spots n cl ss"
proof -
  have "st_open \<notin> set (slot_contribution x)" for x
    by (induction x rule: slot_contribution.induct) simp_all
  then show ?thesis by (auto simp: contributions_def)
qed

lemma contributes_iff:
  "c \<in> set (contributions n cl ss) \<longleftrightarrow>
     (c = st_open \<and> 0 < open_spots n cl ss) \<or>
     (c = st_claimed \<and> None \<in> set ss) \<or>
     (c = st_review \<and> Some ss_review \<in> set ss) \<or>
     (c = st_revising \<and> Some ss_revising \<in> set ss) \<or>
     (c = st_approved \<and> Some ss_approved \<in> set ss)"
proof -
  have slot: "c \<in> set (slot_contribution x) \<longleftrightarrow>
      (c = st_claimed \<and> x = None) \<or> (c = st_review \<and> x = Some ss_review) \<or>
      (c = st_revising \<and> x = Some ss_revising) \<or> (c = st_approved \<and> x = Some ss_approved)" for x
    by (induction x rule: slot_contribution.induct) auto
  show ?thesis by (auto simp: contributions_def slot)
qed

lemma min_rule_open: "computeMinRuleStatus n cl ss = st_open \<longleftrightarrow> 0 < open_spots n cl ss"
proof
  assume "computeMinRuleStatus n cl ss = st_open"
  then have "st_open \<in> set (contributions n cl ss)"
    using min_rule_least [of _ n cl ss] min_rule_empty [of n cl ss]
    by (metis list.set_intros(1) neq_Nil_conv status.distinct(1))
  then show "0 < open_spots n cl ss" by (simp add: open_contributes)
qed (rule min_rule_eqI, simp_all add: open_contributes)

lemma min_rule_approved:
  "computeMinRuleStatus n cl ss = st_approved \<longleftrightarrow>
     open_spots n cl ss \<le> 0 \<and> Some ss_approved \<in> set ss \<and>
     set ss \<subseteq> {Some ss_approved, Some ss_rejected}"
  (is "?l \<longleftrightarrow> ?r")
proof
  assume l: ?l
  then obtain c where "c \<in> set (contributions n cl ss)"
    using min_rule_empty [of n cl ss] by (cases "contributions n cl ss") auto
  then have app: "st_approved \<in> set (contributions n cl ss)" using min_rule_least l by metis
  have only: "d = st_approved" if "d \<in> set (contributions n cl ss)" for d
    using min_rule_least [OF that] l by (cases d) simp_all
  have no: "None \<notin> set ss" "Some ss_review \<notin> set ss" "Some ss_revising \<notin> set ss"
    using only [of st_claimed] only [of st_review] only [of st_revising]
    unfolding contributes_iff by blast+
  have "x \<in> {Some ss_approved, Some ss_rejected}" if "x \<in> set ss" for x
  proof (cases x)
    case None
    then show ?thesis using no that by simp
  next
    case (Some y)
    then show ?thesis using no that by (cases y) simp_all
  qed
  then have "set ss \<subseteq> {Some ss_approved, Some ss_rejected}" by blast
  moreover have "open_spots n cl ss \<le> 0"
    using only [of st_open] unfolding contributes_iff by fastforce
  ultimately show ?r using app unfolding contributes_iff by simp
next
  assume r: ?r
  have no: "None \<notin> set ss" "Some ss_review \<notin> set ss" "Some ss_revising \<notin> set ss"
    using r by blast+
  show ?l
  proof (rule min_rule_eqI)
    show "st_approved \<in> set (contributions n cl ss)" using r by (simp add: contributes_iff)
    fix d
    assume "d \<in> set (contributions n cl ss)"
    then have "d = st_approved" using no r unfolding contributes_iff by linarith
    then show "STATUS_RANK st_approved \<le> STATUS_RANK d" by simp
  qed
qed

lemma min_rule_no_submissions:
  "set ss \<subseteq> {None} \<Longrightarrow>
   computeMinRuleStatus n cl ss = computeStatusCache (int (length ss)) n cl"
proof (cases "0 < open_spots n cl ss")
  case True
  then show ?thesis by (auto simp: min_rule_open [THEN iffD2] computeStatusCache_def open_spots_def
        split: if_splits)
next
  case False
  assume ss: "set ss \<subseteq> {None}"
  have "computeMinRuleStatus n cl ss = st_claimed"
  proof (cases "ss = []")
    case True
    then show ?thesis using False by (simp add: min_rule_empty contributions_def)
  next
    case ne: False
    then have "None \<in> set ss" using ss by (metis list.set_intros(1) neq_Nil_conv singletonD subsetD)
    then show ?thesis
      by (intro min_rule_eqI) (use False ss in \<open>auto simp: contributes_iff\<close>)
  qed
  then show ?thesis using False
    by (auto simp: computeStatusCache_def open_spots_def split: if_splits)
qed

section \<open>Running the recompute\<close>

lemma update_task_run [op_simps]:
  "bnd (update_task k f) g s =
     (case lookup t_id k (tasks s) of
        None \<Rightarrow> (Inl RecordNotFound, s)
      | Some r \<Rightarrow> g ((f r)\<lparr>t_updatedAt := clock s\<rparr>)
                    (tasks_update (upd_where (\<lambda>q. t_id q = k) (\<lambda>r. (f r)\<lparr>t_updatedAt := clock s\<rparr>)) s))"
  by (simp add: update_task_def op_simps)

definition rolled_status :: "id \<Rightarrow> task \<Rightarrow> state \<Rightarrow> status" where
  "rolled_status taskId r s =
     computeMinRuleStatus (t_openings r) (t_claimsClosed r) (slot_states taskId s)"

definition restatus :: "id \<Rightarrow> state \<Rightarrow> state" where
  "restatus taskId s =
     (case lookup t_id taskId (tasks s) of None \<Rightarrow> s
      | Some r \<Rightarrow> tasks_update (upd_where (\<lambda>q. t_id q = taskId)
          (\<lambda>q. q\<lparr>t_statusCache := Some (rolled_status taskId r s), t_updatedAt := clock s\<rparr>)) s)"

lemma recompute_run [op_simps]:
  "bnd (recompute taskId) f s =
     (case lookup t_id taskId (tasks s) of
        None \<Rightarrow> (Inl RecordNotFound, s)
      | Some r \<Rightarrow> f (rolled_status taskId r s) (restatus taskId s))"
  by (simp add: recompute_def op_simps Let_def restatus_def rolled_status_def split: option.split)

lemma restatus_frame [simp]:
  "next_id (restatus k s) = next_id s"
  "clock (restatus k s) = clock s"
  "organizations (restatus k s) = organizations s"
  "divisions (restatus k s) = divisions s"
  "teams (restatus k s) = teams s"
  "users (restatus k s) = users s"
  "identities (restatus k s) = identities s"
  "sessions (restatus k s) = sessions s"
  "auth_tokens (restatus k s) = auth_tokens s"
  "invitations (restatus k s) = invitations s"
  "invitation_uses (restatus k s) = invitation_uses s"
  "roles (restatus k s) = roles s"
  "user_roles (restatus k s) = user_roles s"
  "grants (restatus k s) = grants s"
  "activities (restatus k s) = activities s"
  "templates (restatus k s) = templates s"
  "questions (restatus k s) = questions s"
  "claimants (restatus k s) = claimants s"
  "messages (restatus k s) = messages s"
  "submissions (restatus k s) = submissions s"
  "answers (restatus k s) = answers s"
  "attachments (restatus k s) = attachments s"
  "notifications (restatus k s) = notifications s"
  "connections (restatus k s) = connections s"
  "external_identities (restatus k s) = external_identities s"
  "mappings (restatus k s) = mappings s"
  "baselines (restatus k s) = baselines s"
  "blobs (restatus k s) = blobs s"
  "policy_cache (restatus k s) = policy_cache s"
  "pings (restatus k s) = pings s"
  by (simp_all add: restatus_def split: option.split)

lemma restatus_lookup:
  "lookup t_id k (tasks (restatus taskId s)) =
     (if k = taskId
      then map_option (\<lambda>r. r\<lparr>t_statusCache := Some (rolled_status taskId r s),
                             t_updatedAt := clock s\<rparr>) (lookup t_id k (tasks s))
      else lookup t_id k (tasks s))"
  by (auto simp: restatus_def lookup_upd_same lookup_upd_other split: option.split)

text \<open>After a recompute the cached status is the roll-up of the slots now in the tables.\<close>

definition status_current :: "id \<Rightarrow> state \<Rightarrow> bool" where
  "status_current taskId s \<longleftrightarrow>
     (case lookup t_id taskId (tasks s) of None \<Rightarrow> True
      | Some r \<Rightarrow> t_statusCache r = Some (rolled_status taskId r s))"

lemma restatus_current: "status_current taskId (restatus taskId s)"
  by (auto simp: status_current_def restatus_lookup rolled_status_def slot_states_def
      active_slots_def latest_submission_def split: option.split)

end
