(* ===== verification/Notify.thy ===== *)
theory Notify
  imports Task_Status
begin

text \<open>
  \<open>notifications/notification.types.ts\<close> and \<open>notifications/notifications.service.ts\<close>: the
  recipient set of an event, the idempotent insert of one row per recipient inside the caller's
  transaction, the pings pushed after it, the recipient resolvers, and the read side.
\<close>

section \<open>Recipients\<close>

fun recipients_loop :: "id option \<Rightarrow> id list \<Rightarrow> id option list \<Rightarrow> id list" where
  "recipients_loop sender out [] = out"
| "recipients_loop sender out (None # ids) = recipients_loop sender out ids"
| "recipients_loop sender out (Some i # ids) =
     (if sender = Some i then recipients_loop sender out ids
      else if i \<in> set out then recipients_loop sender out ids
      else recipients_loop sender (out @ [i]) ids)"

definition computeRecipients :: "id option list \<Rightarrow> id option \<Rightarrow> id list" where
  "computeRecipients recipientUserIds senderUserId =
     recipients_loop senderUserId [] recipientUserIds"

lemma recipients_loop_props:
  "distinct out \<Longrightarrow>
   distinct (recipients_loop sender out ids) \<and>
   set (recipients_loop sender out ids) = set out \<union> {i. Some i \<in> set ids \<and> sender \<noteq> Some i}"
  by (induction sender out ids rule: recipients_loop.induct) (auto split: if_splits)

lemma computeRecipients_distinct: "distinct (computeRecipients ids sender)"
  using recipients_loop_props by (simp add: computeRecipients_def)

lemma computeRecipients_set:
  "set (computeRecipients ids sender) = {i. Some i \<in> set ids \<and> sender \<noteq> Some i}"
  using recipients_loop_props [of "[]"] by (simp add: computeRecipients_def)

section \<open>Emitting\<close>

record notification_event =
  ev_organizationId :: id
  ev_type :: string
  ev_subjectType :: string
  ev_subjectId :: id
  ev_senderUserId :: "id option"
  ev_recipientUserIds :: "id option list"
  ev_payload :: payload
  ev_eventSeq :: "nat option"

definition nextEventSeq :: "string \<Rightarrow> id \<Rightarrow> string \<Rightarrow> state \<Rightarrow> nat" where
  "nextEventSeq subjectType subjectId type s =
     foldr max (map n_eventSeq
       (filter (\<lambda>n. n_subjectType n = subjectType \<and> n_subjectId n = subjectId \<and> n_type n = type)
         (notifications s))) 0 + 1"

text \<open>The key of \<open>@@unique([recipientUserId, type, subjectId, eventSeq])\<close>.\<close>

definition n_unique :: "notification \<Rightarrow> id \<times> string \<times> id \<times> nat" where
  "n_unique n = (n_recipientUserId n, n_type n, n_subjectId n, n_eventSeq n)"

text \<open>\<open>createMany({ skipDuplicates: true })\<close>.\<close>

definition insert_notification :: "notification_event \<Rightarrow> nat \<Rightarrow> id \<Rightarrow> unit svc" where
  "insert_notification ev eventSeq u =
     bnd fresh_id (\<lambda>i.
     bnd now (\<lambda>t.
     let row = \<lparr>n_id = i, n_organizationId = ev_organizationId ev, n_recipientUserId = u,
                n_type = ev_type ev, n_subjectType = ev_subjectType ev,
                n_subjectId = ev_subjectId ev, n_payload = ev_payload ev,
                n_eventSeq = eventSeq, n_readAt = None, n_createdAt = t\<rparr> in
     modify (\<lambda>s. if n_unique row \<in> n_unique ` set (notifications s) then s
                 else notifications_update (\<lambda>rs. rs @ [row]) s)))"

definition emit :: "notification_event \<Rightarrow> id list svc" where
  "emit ev =
     (let recipients = computeRecipients (ev_recipientUserIds ev) (ev_senderUserId ev) in
      if recipients = [] then ret []
      else
        bnd (gets (\<lambda>s. case ev_eventSeq ev of
               Some n \<Rightarrow> n
             | None \<Rightarrow> nextEventSeq (ev_subjectType ev) (ev_subjectId ev) (ev_type ev) s)) (\<lambda>eventSeq.
        bnd (for_each recipients (insert_notification ev eventSeq)) (\<lambda>_.
        ret recipients)))"

text \<open>\<open>publish\<close> pushes one ping per recipient, after the transaction.\<close>

definition publish :: "id list \<Rightarrow> unit svc" where
  "publish userIds = modify (pings_update (\<lambda>ps. ps @ userIds))"

section \<open>Recipient resolvers\<close>

definition requesterId :: "id \<Rightarrow> id svc" where
  "requesterId taskId =
     bnd (find_unique_or_throw tasks t_id taskId) (\<lambda>task. ret (t_requesterUserId task))"

definition activeClaimantIds :: "id \<Rightarrow> state \<Rightarrow> id list" where
  "activeClaimantIds taskId s =
     map c_userId (filter (\<lambda>c. c_taskId c = taskId \<and> c_leftAt c = None) (claimants s))"

definition allClaimantIds :: "id \<Rightarrow> state \<Rightarrow> id list" where
  "allClaimantIds taskId s = map c_userId (filter (\<lambda>c. c_taskId c = taskId) (claimants s))"

definition threadParticipantIds :: "id \<Rightarrow> state \<Rightarrow> id list" where
  "threadParticipantIds topLevelMessageId s =
     map (\<lambda>m. the (m_senderUserId m))
       (filter (\<lambda>m. (m_id m = topLevelMessageId \<or> m_parentMessageId m = Some topLevelMessageId) \<and>
                    m_senderUserId m \<noteq> None) (messages s))"

section \<open>Reading\<close>

definition unreadCount :: "id \<Rightarrow> state \<Rightarrow> nat" where
  "unreadCount userId s =
     count_where (\<lambda>n. n_recipientUserId n = userId \<and> n_readAt n = None) (notifications s)"

text \<open>\<open>orderBy: [{ readAt: { sort: 'asc', nulls: 'first' } }, { id: 'desc' }]\<close>.\<close>

definition unread_first :: "notification list \<Rightarrow> notification list" where
  "unread_first rows =
     newest_first n_id (filter (\<lambda>n. n_readAt n = None) rows) @
     sort_key (\<lambda>n. the (n_readAt n)) (newest_first n_id (filter (\<lambda>n. n_readAt n \<noteq> None) rows))"

definition notifications_listForUser ::
  "id \<Rightarrow> id option \<Rightarrow> nat \<Rightarrow> state \<Rightarrow> (notification list \<times> id option) \<times> nat" where
  "notifications_listForUser userId after limit s =
     (let rows = take (limit + 1)
                   (unread_first
                     (filter (\<lambda>n. n_recipientUserId n = userId \<and>
                                  (case after of None \<Rightarrow> True | Some a \<Rightarrow> n_id n < a))
                       (notifications s)))
      in (page limit n_id rows, unreadCount userId s))"

definition notifications_fetch :: "id \<Rightarrow> nat \<Rightarrow> state \<Rightarrow> id option \<Rightarrow> notification list \<times> id option" where
  "notifications_fetch userId limit s after = fst (notifications_listForUser userId after limit s)"

definition markRead :: "id \<Rightarrow> id \<Rightarrow> nat svc" where
  "markRead userId i =
     bnd now (\<lambda>t.
     bnd (update_many notifications_update
            (\<lambda>n. n_id n = i \<and> n_recipientUserId n = userId \<and> n_readAt n = None)
            (\<lambda>n. n\<lparr>n_readAt := Some t\<rparr>)) (\<lambda>_.
     gets (unreadCount userId)))"

definition markAllRead :: "id \<Rightarrow> nat svc" where
  "markAllRead userId =
     bnd now (\<lambda>t.
     bnd (update_many notifications_update
            (\<lambda>n. n_recipientUserId n = userId \<and> n_readAt n = None)
            (\<lambda>n. n\<lparr>n_readAt := Some t\<rparr>)) (\<lambda>_.
     gets (unreadCount userId)))"

section \<open>Running\<close>

definition notif_row :: "notification_event \<Rightarrow> nat \<Rightarrow> time \<Rightarrow> id \<Rightarrow> id \<Rightarrow> notification" where
  "notif_row ev eventSeq t i u =
     \<lparr>n_id = i, n_organizationId = ev_organizationId ev, n_recipientUserId = u,
      n_type = ev_type ev, n_subjectType = ev_subjectType ev, n_subjectId = ev_subjectId ev,
      n_payload = ev_payload ev, n_eventSeq = eventSeq, n_readAt = None, n_createdAt = t\<rparr>"

text \<open>The state after the insert loop, one row per recipient not already covered.\<close>

primrec notified_rows :: "notification_event \<Rightarrow> nat \<Rightarrow> id list \<Rightarrow> state \<Rightarrow> state" where
  "notified_rows ev q [] s = s"
| "notified_rows ev q (u # us) s =
     notified_rows ev q us
       (let row = notif_row ev q (clock s) (next_id s) u;
            t = s\<lparr>next_id := Suc (next_id s)\<rparr>
        in if n_unique row \<in> n_unique ` set (notifications s) then t
           else notifications_update (\<lambda>rs. rs @ [row]) t)"

definition event_seq :: "notification_event \<Rightarrow> state \<Rightarrow> nat" where
  "event_seq ev s = (case ev_eventSeq ev of
       Some n \<Rightarrow> n
     | None \<Rightarrow> nextEventSeq (ev_subjectType ev) (ev_subjectId ev) (ev_type ev) s)"

definition notified :: "notification_event \<Rightarrow> state \<Rightarrow> state" where
  "notified ev s =
     (let us = computeRecipients (ev_recipientUserIds ev) (ev_senderUserId ev)
      in if us = [] then s else notified_rows ev (event_seq ev s) us s)"

lemma insert_loop_run:
  "for_each us (insert_notification ev q) s = (Inr (), notified_rows ev q us s)"
proof (induction us arbitrary: s)
  case (Cons u us)
  have "insert_notification ev q u s =
     (Inr (), let row = notif_row ev q (clock s) (next_id s) u;
                  t = s\<lparr>next_id := Suc (next_id s)\<rparr>
              in if n_unique row \<in> n_unique ` set (notifications s) then t
                 else notifications_update (\<lambda>rs. rs @ [row]) t)"
    by (simp add: insert_notification_def op_simps Let_def notif_row_def)
  then show ?case by (simp add: bnd_def Cons.IH)
qed (simp add: op_simps)

lemma emit_run [op_simps]:
  "bnd (emit ev) f s =
     f (computeRecipients (ev_recipientUserIds ev) (ev_senderUserId ev)) (notified ev s)"
  "emit ev s =
     (Inr (computeRecipients (ev_recipientUserIds ev) (ev_senderUserId ev)), notified ev s)"
proof -
  show e: "emit ev s =
     (Inr (computeRecipients (ev_recipientUserIds ev) (ev_senderUserId ev)), notified ev s)"
    by (simp add: emit_def op_simps Let_def notified_def event_seq_def bnd_def insert_loop_run)
  show "bnd (emit ev) f s =
     f (computeRecipients (ev_recipientUserIds ev) (ev_senderUserId ev)) (notified ev s)"
    by (simp add: bnd_def e)
qed

lemma publish_run [op_simps]:
  "publish us s = (Inr (), pings_update (\<lambda>ps. ps @ us) s)"
  "bnd (publish us) f s = f () (pings_update (\<lambda>ps. ps @ us) s)"
  by (simp_all add: publish_def op_simps)

lemma requesterId_run [op_simps]:
  "bnd (requesterId taskId) f s =
     (case lookup t_id taskId (tasks s) of
        None \<Rightarrow> (Inl RecordNotFound, s) | Some r \<Rightarrow> f (t_requesterUserId r) s)"
  by (simp add: requesterId_def op_simps split: option.split)

lemma notified_rows_frame [simp]:
  "clock (notified_rows ev q us s) = clock s"
  "organizations (notified_rows ev q us s) = organizations s"
  "divisions (notified_rows ev q us s) = divisions s"
  "teams (notified_rows ev q us s) = teams s"
  "users (notified_rows ev q us s) = users s"
  "identities (notified_rows ev q us s) = identities s"
  "sessions (notified_rows ev q us s) = sessions s"
  "auth_tokens (notified_rows ev q us s) = auth_tokens s"
  "invitations (notified_rows ev q us s) = invitations s"
  "invitation_uses (notified_rows ev q us s) = invitation_uses s"
  "roles (notified_rows ev q us s) = roles s"
  "user_roles (notified_rows ev q us s) = user_roles s"
  "grants (notified_rows ev q us s) = grants s"
  "activities (notified_rows ev q us s) = activities s"
  "templates (notified_rows ev q us s) = templates s"
  "questions (notified_rows ev q us s) = questions s"
  "tasks (notified_rows ev q us s) = tasks s"
  "claimants (notified_rows ev q us s) = claimants s"
  "messages (notified_rows ev q us s) = messages s"
  "submissions (notified_rows ev q us s) = submissions s"
  "answers (notified_rows ev q us s) = answers s"
  "attachments (notified_rows ev q us s) = attachments s"
  "connections (notified_rows ev q us s) = connections s"
  "external_identities (notified_rows ev q us s) = external_identities s"
  "mappings (notified_rows ev q us s) = mappings s"
  "baselines (notified_rows ev q us s) = baselines s"
  "blobs (notified_rows ev q us s) = blobs s"
  "policy_cache (notified_rows ev q us s) = policy_cache s"
  "pings (notified_rows ev q us s) = pings s"
  by (induction us arbitrary: s; simp add: Let_def)+

lemma notified_frame [simp]:
  "clock (notified ev s) = clock s"
  "organizations (notified ev s) = organizations s"
  "divisions (notified ev s) = divisions s"
  "teams (notified ev s) = teams s"
  "users (notified ev s) = users s"
  "identities (notified ev s) = identities s"
  "sessions (notified ev s) = sessions s"
  "auth_tokens (notified ev s) = auth_tokens s"
  "invitations (notified ev s) = invitations s"
  "invitation_uses (notified ev s) = invitation_uses s"
  "roles (notified ev s) = roles s"
  "user_roles (notified ev s) = user_roles s"
  "grants (notified ev s) = grants s"
  "activities (notified ev s) = activities s"
  "templates (notified ev s) = templates s"
  "questions (notified ev s) = questions s"
  "tasks (notified ev s) = tasks s"
  "claimants (notified ev s) = claimants s"
  "messages (notified ev s) = messages s"
  "submissions (notified ev s) = submissions s"
  "answers (notified ev s) = answers s"
  "attachments (notified ev s) = attachments s"
  "connections (notified ev s) = connections s"
  "external_identities (notified ev s) = external_identities s"
  "mappings (notified ev s) = mappings s"
  "baselines (notified ev s) = baselines s"
  "blobs (notified ev s) = blobs s"
  "policy_cache (notified ev s) = policy_cache s"
  "pings (notified ev s) = pings s"
  by (simp_all add: notified_def Let_def)

section \<open>One row per recipient, none for the sender\<close>

lemma seq_fresh:
  "n \<in> set (notifications s) \<Longrightarrow> n_subjectType n = st \<Longrightarrow> n_subjectId n = i \<Longrightarrow> n_type n = ty \<Longrightarrow>
   n_eventSeq n < nextEventSeq st i ty s"
proof -
  have "x \<in> set xs \<Longrightarrow> x \<le> foldr max xs (0::nat)" for x xs by (induction xs) auto
  then show "n \<in> set (notifications s) \<Longrightarrow> n_subjectType n = st \<Longrightarrow> n_subjectId n = i \<Longrightarrow>
      n_type n = ty \<Longrightarrow> ?thesis"
    by (force simp: nextEventSeq_def less_Suc_eq_le)
qed

lemma notified_rows_fresh:
  assumes "distinct us"
    and "\<forall>n \<in> set (notifications s). \<forall>u \<in> set us. n_unique n \<noteq> (u, ev_type ev, ev_subjectId ev, q)"
  shows "map n_recipientUserId (notifications (notified_rows ev q us s)) =
           map n_recipientUserId (notifications s) @ us \<and>
         take (length (notifications s)) (notifications (notified_rows ev q us s)) = notifications s \<and>
         (\<forall>n \<in> set (drop (length (notifications s)) (notifications (notified_rows ev q us s))).
            n_type n = ev_type ev \<and> n_subjectType n = ev_subjectType ev \<and>
            n_subjectId n = ev_subjectId ev \<and> n_payload n = ev_payload ev \<and>
            n_eventSeq n = q \<and> n_readAt n = None)"
  using assms
proof (induction us arbitrary: s)
  case (Cons u us)
  let ?row = "notif_row ev q (clock s) (next_id s) u"
  let ?t = "notifications_update (\<lambda>rs. rs @ [?row]) (s\<lparr>next_id := Suc (next_id s)\<rparr>)"
  have key: "n_unique ?row = (u, ev_type ev, ev_subjectId ev, q)"
    by (simp add: n_unique_def notif_row_def)
  have new: "n_unique ?row \<notin> n_unique ` set (notifications s)"
    using Cons.prems(2) by (force simp: key)
  then have step: "notified_rows ev q (u # us) s = notified_rows ev q us ?t"
    by (simp add: Let_def)
  let ?N = "notifications (notified_rows ev q us ?t)"
  have ih: "map n_recipientUserId ?N = map n_recipientUserId (notifications ?t) @ us"
      "take (length (notifications ?t)) ?N = notifications ?t"
      "\<forall>n \<in> set (drop (length (notifications ?t)) ?N).
            n_type n = ev_type ev \<and> n_subjectType n = ev_subjectType ev \<and>
            n_subjectId n = ev_subjectId ev \<and> n_payload n = ev_payload ev \<and>
            n_eventSeq n = q \<and> n_readAt n = None"
    using Cons.IH [of ?t] Cons.prems key by auto
  have split: "?N = notifications s @ [?row] @ drop (length (notifications ?t)) ?N"
    using ih(2) append_take_drop_id [of "length (notifications ?t)" ?N] by simp
  have "take (length (notifications s)) ?N = notifications s"
    and d: "drop (length (notifications s)) ?N = ?row # drop (length (notifications ?t)) ?N"
    by (subst split, simp)+
  then show ?case using ih(1,3) unfolding step by (simp add: notif_row_def)
qed simp

text \<open>No other kind of subject shares this subject's id and event type: ids are unique over all
  tables.\<close>

definition subject_ids_unique :: "notification_event \<Rightarrow> state \<Rightarrow> bool" where
  "subject_ids_unique ev s \<longleftrightarrow>
     (\<forall>n \<in> set (notifications s). n_subjectId n = ev_subjectId ev \<and> n_type n = ev_type ev \<longrightarrow>
        n_subjectType n = ev_subjectType ev)"

lemma event_seq_unused:
  assumes "ev_eventSeq ev = None" and "subject_ids_unique ev s" and "n \<in> set (notifications s)"
  shows "n_unique n \<noteq> (u, ev_type ev, ev_subjectId ev, event_seq ev s)"
  using assms seq_fresh [OF assms(3)]
  by (force simp: event_seq_def n_unique_def subject_ids_unique_def)

lemma notified_exact:
  assumes "ev_eventSeq ev = None" and "subject_ids_unique ev s"
  shows "map n_recipientUserId (notifications (notified ev s)) =
           map n_recipientUserId (notifications s) @
           computeRecipients (ev_recipientUserIds ev) (ev_senderUserId ev) \<and>
         take (length (notifications s)) (notifications (notified ev s)) = notifications s"
proof -
  let ?us = "computeRecipients (ev_recipientUserIds ev) (ev_senderUserId ev)"
  have "\<forall>n \<in> set (notifications s). \<forall>u \<in> set ?us.
          n_unique n \<noteq> (u, ev_type ev, ev_subjectId ev, event_seq ev s)"
    using event_seq_unused [OF assms] by blast
  from notified_rows_fresh [OF computeRecipients_distinct this] show ?thesis
    by (auto simp: notified_def Let_def)
qed

text \<open>A retry that carries the sequence number of an event already emitted inserts nothing.\<close>

lemma notified_rows_covered:
  assumes "\<forall>u \<in> set us. (u, ev_type ev, ev_subjectId ev, q) \<in> n_unique ` set (notifications s)"
  shows "notifications (notified_rows ev q us s) = notifications s"
  using assms
proof (induction us arbitrary: s)
  case (Cons u us)
  have "n_unique (notif_row ev q (clock s) (next_id s) u) = (u, ev_type ev, ev_subjectId ev, q)"
    by (simp add: n_unique_def notif_row_def)
  then show ?case using Cons.prems Cons.IH [of "s\<lparr>next_id := Suc (next_id s)\<rparr>"] by simp
qed simp

lemma notified_rows_cover:
  "set us \<subseteq> {u. (u, ev_type ev, ev_subjectId ev, q) \<in>
              n_unique ` set (notifications (notified_rows ev q us s))} \<and>
   set (notifications s) \<subseteq> set (notifications (notified_rows ev q us s))"
proof (induction us arbitrary: s)
  case (Cons u us)
  let ?row = "notif_row ev q (clock s) (next_id s) u"
  let ?s = "s\<lparr>next_id := Suc (next_id s)\<rparr>"
  let ?t = "if n_unique ?row \<in> n_unique ` set (notifications s) then ?s
            else notifications_update (\<lambda>rs. rs @ [?row]) ?s"
  have key: "n_unique ?row = (u, ev_type ev, ev_subjectId ev, q)"
    by (simp add: n_unique_def notif_row_def)
  have "(u, ev_type ev, ev_subjectId ev, q) \<in> n_unique ` set (notifications ?t)"
    using key by auto
  moreover have "set (notifications s) \<subseteq> set (notifications ?t)" by auto
  ultimately show ?case using Cons.IH [of ?t] by (auto simp: Let_def simp del: image_iff)
qed simp

section \<open>Invariants through the notification calls\<close>

context invariant begin

lemma keeps_emit [keeps_intros]: "keeps P (emit ev)"
proof -
  have "keeps P (insert_notification ev q u)" for q u
    unfolding insert_notification_def
    by (intro keeps_intros keeps_modify) (simp add: notification_free)
  then show ?thesis unfolding emit_def by (auto intro!: keeps_intros)
qed

lemma keeps_publish [keeps_intros]: "keeps P (publish us)"
  by (simp add: publish_def keeps_modify ping_free)

end

lemma keeps_requesterId [keeps_intros]: "keeps P (requesterId taskId)"
  by (simp add: requesterId_def keeps_intros)

end
