(* ===== verification/Messages.thy ===== *)
theory Messages
  imports Notify
begin

text \<open>
  \<open>messages/messages.service.ts\<close>: task threads. User comments, senderless system messages,
  the recipient matrix of a new comment, edit, retire and revive, and the paginated list of
  top-level messages. The invariant is that threads are one level deep and stay on one task.
\<close>

section \<open>Views\<close>

record attachment_view =
  av_id :: id
  av_filename :: string
  av_contentType :: string
  av_byteSize :: int
  av_kind :: attachment_kind
  av_uploaderUserId :: id
  av_createdAt :: time

definition attView :: "attachment \<Rightarrow> attachment_view" where
  "attView a =
     \<lparr>av_id = at_id a, av_filename = at_filename a, av_contentType = at_contentType a,
      av_byteSize = at_byteSize a, av_kind = at_kind a, av_uploaderUserId = at_uploaderUserId a,
      av_createdAt = at_createdAt a\<rparr>"

record message_view =
  mv_id :: id
  mv_taskId :: id
  mv_kind :: message_kind
  mv_senderUserId :: "id option"
  mv_parentMessageId :: "id option"
  mv_body :: "frag list"
  mv_lifecycleState :: lifecycle
  mv_retiredAt :: "time option"
  mv_editedAt :: "time option"
  mv_version :: nat
  mv_createdAt :: time
  mv_attachments :: "attachment_view list"

definition message_toView :: "state \<Rightarrow> message \<Rightarrow> message_view" where
  "message_toView s m =
     \<lparr>mv_id = m_id m, mv_taskId = m_taskId m, mv_kind = m_kind m,
      mv_senderUserId = m_senderUserId m, mv_parentMessageId = m_parentMessageId m,
      mv_body = m_body m, mv_lifecycleState = m_lifecycleState m, mv_retiredAt = m_retiredAt m,
      mv_editedAt = m_editedAt m, mv_version = m_version m, mv_createdAt = m_createdAt m,
      mv_attachments =
        map attView (filter (\<lambda>a. at_messageId a = Some (m_id m)) (attachments s))\<rparr>"

section \<open>Operations\<close>

definition load_active_task :: "id \<Rightarrow> task svc" where
  "load_active_task taskId =
     bnd (find_unique tasks t_id taskId) (\<lambda>found.
     bnd (need found (NotFoundError ''TASK_NOT_FOUND'')) (\<lambda>task.
     bnd (check (t_lifecycleState task \<noteq> retired) (ConflictError ''TASK_RETIRED'')) (\<lambda>_.
     ret task)))"

definition create_message ::
  "id \<Rightarrow> message_kind \<Rightarrow> id option \<Rightarrow> id option \<Rightarrow> id option \<Rightarrow> frag list \<Rightarrow> message svc" where
  "create_message taskId kind sender parent submissionId body =
     bnd fresh_id (\<lambda>i.
     bnd now (\<lambda>t.
     let m = \<lparr>m_id = i, m_taskId = taskId, m_kind = kind, m_senderUserId = sender,
              m_parentMessageId = parent, m_submissionId = submissionId, m_body = body,
              m_lifecycleState = active, m_retiredAt = None, m_editedAt = None,
              m_version = 0, m_createdAt = t\<rparr> in
     bnd (create_row messages_update m) (\<lambda>_. ret m)))"

definition notifyMessage ::
  "id \<Rightarrow> id \<Rightarrow> id \<Rightarrow> id \<Rightarrow> (id \<times> id option) option \<Rightarrow> id list svc" where
  "notifyMessage orgId taskId messageId actorUserId parent =
     (let base = (\<lambda>type recipients.
            \<lparr>ev_organizationId = orgId, ev_type = type, ev_subjectType = ''message'',
             ev_subjectId = messageId, ev_senderUserId = Some actorUserId,
             ev_recipientUserIds = recipients,
             ev_payload = [(''taskId'', PId taskId), (''messageId'', PId messageId),
                           (''actorUserId'', PId actorUserId)],
             ev_eventSeq = None\<rparr>) in
      case parent of
        None \<Rightarrow>
          bnd (requesterId taskId) (\<lambda>requester.
          bnd (gets (activeClaimantIds taskId)) (\<lambda>claimantIds.
          emit (base ''message.posted'' (map Some (requester # claimantIds)))))
      | Some (parentId, Some submissionId) \<Rightarrow>
          bnd (find_unique submissions s_id submissionId) (\<lambda>submission.
          bnd (requesterId taskId) (\<lambda>requester.
          emit (base ''message.submission_thread_replied''
                  (filter (\<lambda>x. x \<noteq> None) [map_option s_claimantUserId submission, Some requester]))))
      | Some (parentId, None) \<Rightarrow>
          bnd (gets (threadParticipantIds parentId)) (\<lambda>participants.
          emit (base ''message.replied'' (map Some participants))))"

text \<open>The parent of a reply: on this task, and itself top-level.\<close>

definition check_parent :: "id \<Rightarrow> id option \<Rightarrow> (id \<times> id option) option svc" where
  "check_parent taskId parentMessageId =
     (case parentMessageId of
        None \<Rightarrow> ret None
      | Some p \<Rightarrow>
          bnd (find_unique messages m_id p) (\<lambda>found.
          bnd (need found (NotFoundError ''PARENT_NOT_FOUND'')) (\<lambda>m.
          bnd (check (m_taskId m = taskId) (NotFoundError ''PARENT_NOT_FOUND'')) (\<lambda>_.
          bnd (check (m_parentMessageId m = None) (UnprocessableError ''REPLY_TO_REPLY'' [])) (\<lambda>_.
          ret (Some (m_id m, m_submissionId m)))))))"

definition messages_create :: "id \<Rightarrow> id \<Rightarrow> string \<Rightarrow> id option \<Rightarrow> message_view svc" where
  "messages_create taskId actorUserId body parentMessageId =
     bnd (load_active_task taskId) (\<lambda>task.
     bnd (check_parent taskId parentMessageId) (\<lambda>parent.
     bnd (transaction (
       bnd (create_message taskId comment (Some actorUserId) parentMessageId None [Lit body]) (\<lambda>m.
       bnd (logActivity (t_organizationId task) (Some actorUserId) ''message'' (m_id m)
              ''message.created''
              [(''messageId'', PId (m_id m)), (''taskId'', PId taskId),
               (''parentMessageId'', pid_opt parentMessageId)]) (\<lambda>_.
       bnd (notifyMessage (t_organizationId task) taskId (m_id m) actorUserId parent) (\<lambda>notified.
       ret (m, notified)))))) (\<lambda>(m, notified).
     bnd (publish notified) (\<lambda>_.
     gets (\<lambda>s. message_toView s m)))))"

definition createSystemMessage :: "id \<Rightarrow> frag list \<Rightarrow> id option \<Rightarrow> id option \<Rightarrow> id svc" where
  "createSystemMessage taskId body submissionId parentMessageId =
     bnd (create_message taskId system_msg None parentMessageId submissionId body) (\<lambda>m.
     ret (m_id m))"

definition messages_listForTask ::
  "id \<Rightarrow> id option \<Rightarrow> nat \<Rightarrow> ((message_view \<times> message_view list) list \<times> id option) svc" where
  "messages_listForTask taskId after limit =
     bnd (load_active_task taskId) (\<lambda>_.
     gets (\<lambda>s.
       let rows = take (limit + 1)
             (oldest_first m_id
               (filter (\<lambda>m. m_taskId m = taskId \<and> m_parentMessageId m = None \<and>
                            (case after of None \<Rightarrow> True | Some a \<Rightarrow> a < m_id m)) (messages s)))
       in case page limit m_id rows of (items, cursor) \<Rightarrow>
            (map (\<lambda>m. (message_toView s m,
                       map (message_toView s)
                         (oldest_first m_id
                           (filter (\<lambda>q. m_parentMessageId q = Some (m_id m)) (messages s))))) items,
             cursor)))"

text \<open>\<open>findUnique({ where: { id }, select: { \<dots>, task: { select: { organizationId } } } })\<close>.\<close>

definition load_message :: "id \<Rightarrow> (message \<times> id) svc" where
  "load_message i =
     bnd (find_unique messages m_id i) (\<lambda>found.
     bnd (need found (NotFoundError ''MESSAGE_NOT_FOUND'')) (\<lambda>m.
     bnd (find_unique_or_throw tasks t_id (m_taskId m)) (\<lambda>task.
     ret (m, t_organizationId task))))"

definition write_message :: "id \<Rightarrow> id \<Rightarrow> id \<Rightarrow> id \<Rightarrow> string \<Rightarrow> (message \<Rightarrow> message) \<Rightarrow> message_view svc" where
  "write_message orgId i taskId actorUserId verb f =
     bnd (transaction (
       bnd (update_row messages messages_update m_id i f) (\<lambda>row.
       bnd (logActivity orgId (Some actorUserId) ''message'' i verb
              [(''messageId'', PId i), (''taskId'', PId taskId)]) (\<lambda>_.
       ret row)))) (\<lambda>row.
     gets (\<lambda>s. message_toView s row))"

definition messages_update_body :: "id \<Rightarrow> id \<Rightarrow> string \<Rightarrow> message_view svc" where
  "messages_update_body i actorUserId body =
     bnd (load_message i) (\<lambda>(m, orgId).
     bnd (check (m_lifecycleState m \<noteq> retired) (ConflictError ''MESSAGE_RETIRED'')) (\<lambda>_.
     bnd now (\<lambda>t.
     write_message orgId i (m_taskId m) actorUserId ''message.updated''
       (\<lambda>r. r\<lparr>m_body := [Lit body], m_editedAt := Some t, m_version := m_version r + 1\<rparr>))))"

definition messages_retire :: "id \<Rightarrow> id \<Rightarrow> message_view svc" where
  "messages_retire i actorUserId =
     bnd (load_message i) (\<lambda>(m, orgId).
     bnd (check (m_lifecycleState m \<noteq> retired) (ConflictError ''ALREADY_RETIRED'')) (\<lambda>_.
     bnd now (\<lambda>t.
     write_message orgId i (m_taskId m) actorUserId ''message.retired''
       (\<lambda>r. r\<lparr>m_lifecycleState := retired, m_retiredAt := Some t, m_version := m_version r + 1\<rparr>))))"

definition messages_revive :: "id \<Rightarrow> id \<Rightarrow> message_view svc" where
  "messages_revive i actorUserId =
     bnd (load_message i) (\<lambda>(m, orgId).
     bnd (windowMs orgId) (\<lambda>graceMs.
     bnd now (\<lambda>t.
     bnd (check (isRevivable (m_lifecycleState m) (m_retiredAt m) graceMs t)
            (ConflictError ''NOT_REVIVABLE'')) (\<lambda>_.
     write_message orgId i (m_taskId m) actorUserId ''message.revived''
       (\<lambda>r. r\<lparr>m_lifecycleState := active, m_retiredAt := None, m_version := m_version r + 1\<rparr>)))))"

section \<open>Running\<close>

lemma load_active_task_run [op_simps]:
  "bnd (load_active_task k) f s =
     (case lookup t_id k (tasks s) of
        None \<Rightarrow> (Inl (NotFoundError ''TASK_NOT_FOUND''), s)
      | Some r \<Rightarrow> (if t_lifecycleState r \<noteq> retired then f r s
                  else (Inl (ConflictError ''TASK_RETIRED''), s)))"
  by (simp add: load_active_task_def op_simps split: option.split)

lemma load_message_run [op_simps]:
  "bnd (load_message k) f s =
     (case lookup m_id k (messages s) of
        None \<Rightarrow> (Inl (NotFoundError ''MESSAGE_NOT_FOUND''), s)
      | Some m \<Rightarrow> (case lookup t_id (m_taskId m) (tasks s) of
          None \<Rightarrow> (Inl RecordNotFound, s)
        | Some t \<Rightarrow> f (m, t_organizationId t) s))"
  by (simp add: load_message_def op_simps split: option.split)

definition new_message ::
  "state \<Rightarrow> id \<Rightarrow> message_kind \<Rightarrow> id option \<Rightarrow> id option \<Rightarrow> id option \<Rightarrow> frag list \<Rightarrow> message" where
  "new_message s taskId kind sender parent submissionId body =
     \<lparr>m_id = next_id s, m_taskId = taskId, m_kind = kind, m_senderUserId = sender,
      m_parentMessageId = parent, m_submissionId = submissionId, m_body = body,
      m_lifecycleState = active, m_retiredAt = None, m_editedAt = None,
      m_version = 0, m_createdAt = clock s\<rparr>"

definition with_message :: "message \<Rightarrow> state \<Rightarrow> state" where
  "with_message m s = messages_update (\<lambda>rs. rs @ [m]) (s\<lparr>next_id := Suc (next_id s)\<rparr>)"

lemma create_message_run [op_simps]:
  "bnd (create_message tk k sd p sub b) f s =
     f (new_message s tk k sd p sub b) (with_message (new_message s tk k sd p sub b) s)"
  by (simp add: create_message_def op_simps Let_def new_message_def with_message_def)

lemma createSystemMessage_run [op_simps]:
  "bnd (createSystemMessage tk b sub p) f s =
     f (next_id s) (with_message (new_message s tk system_msg None p sub b) s)"
  "createSystemMessage tk b sub p s =
     (Inr (next_id s), with_message (new_message s tk system_msg None p sub b) s)"
  by (simp_all add: createSystemMessage_def op_simps new_message_def)

lemma with_message_frame [simp]:
  "clock (with_message m s) = clock s"
  "organizations (with_message m s) = organizations s"
  "divisions (with_message m s) = divisions s"
  "teams (with_message m s) = teams s"
  "users (with_message m s) = users s"
  "identities (with_message m s) = identities s"
  "sessions (with_message m s) = sessions s"
  "auth_tokens (with_message m s) = auth_tokens s"
  "invitations (with_message m s) = invitations s"
  "invitation_uses (with_message m s) = invitation_uses s"
  "roles (with_message m s) = roles s"
  "user_roles (with_message m s) = user_roles s"
  "grants (with_message m s) = grants s"
  "activities (with_message m s) = activities s"
  "templates (with_message m s) = templates s"
  "questions (with_message m s) = questions s"
  "tasks (with_message m s) = tasks s"
  "claimants (with_message m s) = claimants s"
  "submissions (with_message m s) = submissions s"
  "answers (with_message m s) = answers s"
  "attachments (with_message m s) = attachments s"
  "notifications (with_message m s) = notifications s"
  "connections (with_message m s) = connections s"
  "external_identities (with_message m s) = external_identities s"
  "mappings (with_message m s) = mappings s"
  "baselines (with_message m s) = baselines s"
  "blobs (with_message m s) = blobs s"
  "policy_cache (with_message m s) = policy_cache s"
  "pings (with_message m s) = pings s"
  "next_id (with_message m s) = Suc (next_id s)"
  "messages (with_message m s) = messages s @ [m]"
  by (simp_all add: with_message_def)

text \<open>Invariants that do not read the threads either.\<close>

locale quiet_invariant = invariant +
  assumes message_free: "P s \<Longrightarrow> P (messages_update k s)"
begin

lemma keeps_create_message [keeps_intros]: "keeps P (create_message tk kd sd p sub b)"
  unfolding create_message_def
  by (intro keeps_intros keeps_create_row) (simp add: message_free)

lemma keeps_createSystemMessage [keeps_intros]: "keeps P (createSystemMessage tk b sub p)"
  unfolding createSystemMessage_def by (intro keeps_intros)

end

lemma keeps_load_active_task [keeps_intros]: "keeps P (load_active_task k)"
  by (simp add: load_active_task_def keeps_intros)

lemma keeps_load_message [keeps_intros]: "keeps P (load_message k)"
  by (simp add: load_message_def keeps_intros)

lemma keeps_check_parent [keeps_intros]: "keeps P (check_parent k p)"
  unfolding check_parent_def by (intro keeps_intros)

section \<open>Threads are one level deep\<close>

definition threads_ok :: "message list \<Rightarrow> bool" where
  "threads_ok ms \<longleftrightarrow>
     (\<forall>m \<in> set ms. \<forall>p. m_parentMessageId m = Some p \<longrightarrow>
        (\<exists>q \<in> set ms. m_id q = p \<and> m_parentMessageId q = None \<and> m_taskId q = m_taskId m))"

lemma threads_ok_add:
  assumes "threads_ok ms"
    and "\<And>p. m_parentMessageId m = Some p \<Longrightarrow>
           \<exists>q \<in> set ms. m_id q = p \<and> m_parentMessageId q = None \<and> m_taskId q = m_taskId m"
  shows "threads_ok (ms @ [m])"
  using assms unfolding threads_ok_def by fastforce

lemma threads_ok_upd:
  assumes "threads_ok ms"
    and f: "\<And>m. m_id (f m) = m_id m" "\<And>m. m_parentMessageId (f m) = m_parentMessageId m"
      "\<And>m. m_taskId (f m) = m_taskId m"
  shows "threads_ok (upd_where P f ms)"
proof -
  have g: "m_id (if P q then f q else q) = m_id q"
    "m_parentMessageId (if P q then f q else q) = m_parentMessageId q"
    "m_taskId (if P q then f q else q) = m_taskId q" for q
    using f by simp_all
  show ?thesis
    unfolding threads_ok_def
  proof (intro ballI allI impI)
    fix m p
    assume m: "m \<in> set (upd_where P f ms)" and "m_parentMessageId m = Some p"
    then obtain q where q: "q \<in> set ms" "m = (if P q then f q else q)"
      by (auto simp: in_upd_where)
    then have "m_parentMessageId q = Some p" using \<open>m_parentMessageId m = Some p\<close> g(2) by metis
    then obtain r where r: "r \<in> set ms" "m_id r = p" "m_parentMessageId r = None"
        "m_taskId r = m_taskId q"
      using assms(1) q(1) unfolding threads_ok_def by blast
    then show "\<exists>q \<in> set (upd_where P f ms). m_id q = p \<and> m_parentMessageId q = None \<and>
        m_taskId q = m_taskId m"
      using q g by (intro bexI [of _ "if P r then f r else r"]) (simp_all add: in_upd_where, blast)
  qed
qed

lemma check_parent_run [op_simps]:
  "bnd (check_parent k p) f s =
     (case p of None \<Rightarrow> f None s
      | Some i \<Rightarrow> (case lookup m_id i (messages s) of
          None \<Rightarrow> (Inl (NotFoundError ''PARENT_NOT_FOUND''), s)
        | Some m \<Rightarrow>
            (if m_taskId m \<noteq> k then (Inl (NotFoundError ''PARENT_NOT_FOUND''), s)
             else if m_parentMessageId m \<noteq> None
             then (Inl (UnprocessableError ''REPLY_TO_REPLY'' []), s)
             else f (Some (m_id m, m_submissionId m)) s)))"
  by (simp add: check_parent_def op_simps split: option.split)

lemma notifyMessage_messages:
  "notifyMessage orgId tk i u parent s = (r, t) \<Longrightarrow> messages t = messages s"
  by (auto simp: notifyMessage_def Let_def op_simps split: option.splits prod.splits)

text \<open>What a successful comment adds, and that a refused one adds nothing.\<close>

lemma messages_create_effect:
  assumes "messages_create taskId u body parent s = (r, t)"
  shows "messages t = messages s \<or>
         (\<exists>m. messages t = messages s @ [m] \<and> m_taskId m = taskId \<and> m_parentMessageId m = parent \<and>
              m_id m = next_id s \<and> m_senderUserId m = Some u \<and> m_kind m = comment \<and>
              (\<forall>i. parent = Some i \<longrightarrow> (\<exists>q \<in> set (messages s). m_id q = i \<and>
                     m_parentMessageId q = None \<and> m_taskId q = taskId)))"
  using assms
  by (auto simp: messages_create_def op_simps notifyMessage_def Let_def new_message_def
      split: option.splits if_splits prod.splits sum.splits)
     (auto dest!: lookup_SomeD)

lemma messages_create_threads:
  assumes "threads_ok (messages s)"
  shows "threads_ok (messages (snd (messages_create taskId u body parent s)))"
  using messages_create_effect [of taskId u body parent s] assms
  by (cases "messages_create taskId u body parent s") (auto intro!: threads_ok_add)

text \<open>Edits and lifecycle moves keep threads, and keep every message's id, task and parent.\<close>

lemma write_message_threads:
  assumes "threads_ok (messages s)"
    and "\<And>m. m_id (f m) = m_id m" "\<And>m. m_parentMessageId (f m) = m_parentMessageId m"
      "\<And>m. m_taskId (f m) = m_taskId m"
  shows "threads_ok (messages (snd (write_message orgId i tk u v f s)))"
  using threads_ok_upd [OF assms, of "\<lambda>q. m_id q = i"] assms(1)
  by (simp add: write_message_def op_simps split: option.split)

lemma messages_writes_threads:
  assumes "threads_ok (messages s)"
  shows "threads_ok (messages (snd (messages_update_body i u body s)))"
    and "threads_ok (messages (snd (messages_retire i u s)))"
    and "threads_ok (messages (snd (messages_revive i u s)))"
  using assms write_message_threads [OF assms]
  by (simp_all add: messages_update_body_def messages_retire_def messages_revive_def op_simps
      split: option.split)

section \<open>The paginated list\<close>

definition thread_rows :: "id \<Rightarrow> state \<Rightarrow> message list" where
  "thread_rows taskId s =
     oldest_first m_id
       (filter (\<lambda>m. m_taskId m = taskId \<and> m_parentMessageId m = None) (messages s))"

definition thread_view :: "state \<Rightarrow> message \<Rightarrow> message_view \<times> message_view list" where
  "thread_view s m =
     (message_toView s m,
      map (message_toView s)
        (oldest_first m_id (filter (\<lambda>q. m_parentMessageId q = Some (m_id m)) (messages s))))"

definition messages_fetch ::
  "id \<Rightarrow> nat \<Rightarrow> state \<Rightarrow> id option \<Rightarrow> (message_view \<times> message_view list) list \<times> id option" where
  "messages_fetch taskId limit s after =
     (case fst (messages_listForTask taskId after limit s) of
        Inr x \<Rightarrow> x | Inl e \<Rightarrow> ([], None))"

definition thread_views :: "id \<Rightarrow> state \<Rightarrow> (message_view \<times> message_view list) list" where
  "thread_views taskId s =
     (case lookup t_id taskId (tasks s) of
        None \<Rightarrow> []
      | Some t \<Rightarrow> if t_lifecycleState t = retired then [] else map (thread_view s) (thread_rows taskId s))"

interpretation message_pages:
  keyset thread_views "\<lambda>v. mv_id (fst v)" "\<lambda>a b. a < b" messages_fetch
    "\<lambda>s. distinct (map m_id (messages s))"
proof unfold_locales
  fix s :: state and k
  assume "distinct (map m_id (messages s))"
  then show "sorted_wrt (\<lambda>p r. mv_id (fst p) < mv_id (fst r)) (thread_views k s)"
    using oldest_first_ordered
      [OF distinct_map_filter_key [where key = m_id and rs = "messages s" and
          P = "\<lambda>m. m_taskId m = k \<and> m_parentMessageId m = None"]]
    by (simp add: thread_views_def thread_rows_def sorted_wrt_map thread_view_def
        message_toView_def split: option.split)
next
  fix limit :: nat and k and s and after :: "id option"
  assume "0 < limit"
  have v: "mv_id (fst (thread_view s m)) = m_id m" for m
    by (simp add: thread_view_def message_toView_def)
  have list: "messages_listForTask k after limit s =
     (case lookup t_id k (tasks s) of
        None \<Rightarrow> (Inl (NotFoundError ''TASK_NOT_FOUND''), s)
      | Some t \<Rightarrow> if t_lifecycleState t = retired then (Inl (ConflictError ''TASK_RETIRED''), s)
        else (Inr (case page limit m_id (take (limit + 1)
               (filter (\<lambda>m. case after of None \<Rightarrow> True | Some a \<Rightarrow> a < m_id m) (thread_rows k s))) of
             (items, c) \<Rightarrow> (map (thread_view s) items, c)), s))"
    by (simp add: messages_listForTask_def op_simps thread_rows_def thread_view_def [abs_def]
        filter_oldest_first conj_ac split: option.split)
  show "messages_fetch k limit s after =
     page limit (\<lambda>v. mv_id (fst v)) (take (limit + 1)
       (filter (\<lambda>r. case after of None \<Rightarrow> True | Some a \<Rightarrow> a < mv_id (fst r)) (thread_views k s)))"
    using page_map [OF \<open>0 < limit\<close>, of "\<lambda>v. mv_id (fst v)" "thread_view s" m_id] v
    by (simp add: messages_fetch_def list thread_views_def v filter_map o_def take_map page_short
        cong: option.case_cong split: option.split)
qed auto

section \<open>Retire and revive\<close>

definition message_org :: "id \<Rightarrow> state \<Rightarrow> id option" where
  "message_org i s =
     (case lookup m_id i (messages s) of None \<Rightarrow> None
      | Some m \<Rightarrow> map_option t_organizationId (lookup t_id (m_taskId m) (tasks s)))"

interpretation message_lifecycle:
  retirable "\<lambda>i s. lookup m_id i (messages s)" m_lifecycleState m_retiredAt
    "\<lambda>i s. org_window (the (message_org i s)) s" "\<lambda>i s. message_org i s \<noteq> None"
    messages_retire messages_revive
proof unfold_locales
  fix k u :: id and s :: state and r
  assume ok: "message_org k s \<noteq> None" and r: "lookup m_id k (messages s) = Some r"
  then obtain t where t: "lookup t_id (m_taskId r) (tasks s) = Some t"
    by (auto simp: message_org_def)
  note simps = messages_retire_def messages_revive_def write_message_def op_simps r t
    message_org_def org_window_def lookup_upd_same
  show "m_lifecycleState r \<noteq> retired \<Longrightarrow>
    \<exists>x t q. messages_retire k u s = (Inr x, t) \<and> lookup m_id k (messages t) = Some q \<and>
      m_lifecycleState q = retired \<and> m_retiredAt q = Some (clock s) \<and>
      org_window (the (message_org k t)) t = org_window (the (message_org k s)) s \<and>
      message_org k t \<noteq> None"
    by (simp add: simps)
  show "m_lifecycleState r = retired \<Longrightarrow>
    messages_retire k u s = (Inl (ConflictError ''ALREADY_RETIRED''), s)"
    by (simp add: simps)
  show "isRevivable (m_lifecycleState r) (m_retiredAt r) (org_window (the (message_org k s)) s) (clock s)
    \<Longrightarrow> \<exists>x t q. messages_revive k u s = (Inr x, t) \<and> lookup m_id k (messages t) = Some q \<and>
      m_lifecycleState q = active \<and> m_retiredAt q = None \<and> message_org k t \<noteq> None"
    by (simp add: simps)
  show "\<not> isRevivable (m_lifecycleState r) (m_retiredAt r) (org_window (the (message_org k s)) s) (clock s)
    \<Longrightarrow> messages_revive k u s = (Inl (ConflictError ''NOT_REVIVABLE''), s)"
    by (simp add: simps)
qed (simp_all add: message_org_def org_window_def window_nonneg cong: option.case_cong)

end
