(* ===== verification/Tasks.thy ===== *)
theory Tasks
  imports Messages
begin

text \<open>
  \<open>tasks/tasks.service.ts\<close>: creation with the deep copy of the division's request template,
  the faceted list, metadata edits, retire and revive, and the claim flows (claim, leave,
  manage claims, complete, evict, change requester). A flow that reads the task before its
  transaction is split at that point (\<open>claim_tx\<close>, \<open>leave_tx\<close>, \<open>manageClaims_tx\<close>), so that the
  stale read is visible.
\<close>

section \<open>Views\<close>

record task_view =
  tv_id :: id
  tv_name :: string
  tv_description :: string
  tv_divisionId :: id
  tv_teamId :: "id option"
  tv_requesterUserId :: id
  tv_openings :: int
  tv_statusCache :: "status option"
  tv_lifecycleState :: lifecycle
  tv_retiredAt :: "time option"
  tv_version :: nat
  tv_createdAt :: time
  tv_updatedAt :: time
  tv_claimantUserIds :: "id list"

definition task_toView :: "task \<Rightarrow> id list \<Rightarrow> task_view" where
  "task_toView t claimantIds =
     \<lparr>tv_id = t_id t, tv_name = t_name t, tv_description = t_description t,
      tv_divisionId = t_divisionId t, tv_teamId = t_teamId t,
      tv_requesterUserId = t_requesterUserId t, tv_openings = t_openings t,
      tv_statusCache = t_statusCache t, tv_lifecycleState = t_lifecycleState t,
      tv_retiredAt = t_retiredAt t, tv_version = t_version t, tv_createdAt = t_createdAt t,
      tv_updatedAt = t_updatedAt t, tv_claimantUserIds = claimantIds\<rparr>"

definition view_with_claimants :: "task \<Rightarrow> task_view svc" where
  "view_with_claimants t = gets (\<lambda>s. task_toView t (activeClaimantIds (t_id t) s))"

definition view_task :: "id \<Rightarrow> task_view svc" where
  "view_task taskId =
     bnd (find_unique_or_throw tasks t_id taskId) (\<lambda>row. view_with_claimants row)"

definition tasks_get :: "id \<Rightarrow> task_view svc" where
  "tasks_get i =
     bnd (find_unique tasks t_id i) (\<lambda>found.
     bnd (need found (NotFoundError ''TASK_NOT_FOUND'')) (\<lambda>t.
     view_with_claimants t))"

fun status_name :: "status \<Rightarrow> string" where
  "status_name st_open = ''open''"
| "status_name st_claimed = ''claimed''"
| "status_name st_review = ''review''"
| "status_name st_revising = ''revising''"
| "status_name st_approved = ''approved''"

section \<open>Create\<close>

definition template_of_division :: "id \<Rightarrow> state \<Rightarrow> request_template option" where
  "template_of_division k s = List.find (\<lambda>r. rt_ownerDivisionId r = Some k) (templates s)"

definition questions_of :: "id \<Rightarrow> state \<Rightarrow> question list" where
  "questions_of k s = sort_key qn_ordinal (filter (\<lambda>q. qn_requestTemplateId q = k) (questions s))"

definition copy_question :: "id \<Rightarrow> question \<Rightarrow> unit svc" where
  "copy_question templateId q =
     bnd fresh_id (\<lambda>i.
     create_row questions_update
       \<lparr>qn_id = i, qn_requestTemplateId = templateId, qn_ordinal = qn_ordinal q,
        qn_type = qn_type q, qn_prompt = qn_prompt q, qn_required = qn_required q,
        qn_constraints = qn_constraints q\<rparr>)"

definition check_team :: "id \<Rightarrow> id option \<Rightarrow> unit svc" where
  "check_team organizationId teamId =
     (case teamId of
        None \<Rightarrow> ret ()
      | Some k \<Rightarrow>
          bnd (gets (\<lambda>s. List.find (\<lambda>t. tm_id t = k \<and> tm_organizationId t = organizationId) (teams s))) (\<lambda>found.
          bnd (need found (NotFoundError ''TEAM_NOT_FOUND'')) (\<lambda>team.
          check (tm_lifecycleState team \<noteq> retired) (ConflictError ''TEAM_RETIRED''))))"

definition tasks_create ::
  "id \<Rightarrow> id \<Rightarrow> string \<Rightarrow> string option \<Rightarrow> id \<Rightarrow> id option \<Rightarrow> task_view svc" where
  "tasks_create organizationId actorUserId name description divisionId teamId =
     bnd (gets (\<lambda>s. List.find (\<lambda>d. d_id d = divisionId \<and> d_organizationId d = organizationId) (divisions s))) (\<lambda>found.
     bnd (need found (NotFoundError ''DIVISION_NOT_FOUND'')) (\<lambda>division.
     bnd (check (d_lifecycleState division \<noteq> retired) (ConflictError ''DIVISION_RETIRED'')) (\<lambda>_.
     bnd (check_team organizationId teamId) (\<lambda>_.
     bnd (gets (template_of_division divisionId)) (\<lambda>foundTemplate.
     bnd (need foundTemplate (UnprocessableError ''NO_DEFAULT_REQUEST_TEMPLATE'' [])) (\<lambda>source.
     bnd (gets (questions_of (rt_id source))) (\<lambda>sourceQuestions.
     let statusCache = computeStatusCache 0 (d_defaultOpenings division) False in
     bnd (transaction (
       bnd fresh_id (\<lambda>taskId.
       bnd now (\<lambda>t.
       let task = \<lparr>t_id = taskId, t_organizationId = organizationId, t_name = name,
                   t_description = (case description of None \<Rightarrow> '''' | Some d \<Rightarrow> d),
                   t_divisionId = divisionId, t_teamId = teamId, t_requesterUserId = actorUserId,
                   t_openings = d_defaultOpenings division, t_claimsClosed = False,
                   t_statusCache = Some statusCache, t_lifecycleState = active, t_retiredAt = None,
                   t_version = 0, t_createdAt = t, t_updatedAt = t\<rparr> in
       bnd (create_row tasks_update task) (\<lambda>_.
       bnd fresh_id (\<lambda>templateId.
       bnd (create_row templates_update
              \<lparr>rt_id = templateId, rt_organizationId = organizationId, rt_ownerDivisionId = None,
               rt_ownerTaskId = Some taskId, rt_updatedAt = t\<rparr>) (\<lambda>_.
       bnd (for_each sourceQuestions (copy_question templateId)) (\<lambda>_.
       bnd (logActivity organizationId (Some actorUserId) ''task'' taskId ''task.created''
              [(''taskId'', PId taskId), (''divisionId'', PId divisionId),
               (''teamId'', pid_opt teamId), (''requestTemplateId'', PId templateId)]) (\<lambda>_.
       ret task))))))))) (\<lambda>created.
     ret (task_toView created [])))))))))"

section \<open>List\<close>

record list_tasks_query =
  lq_division :: "id list option"
  lq_team :: "id list option"
  lq_status :: "status list option"
  lq_requester :: "id list option"
  lq_claimant :: "id list option"
  lq_after :: "id option"
  lq_limit :: nat
  lq_includeRetired :: bool

definition opt_in :: "'a list option \<Rightarrow> 'a \<Rightarrow> bool" where
  "opt_in f x = (case f of None \<Rightarrow> True | Some xs \<Rightarrow> x \<in> set xs)"

definition task_where :: "id \<Rightarrow> list_tasks_query \<Rightarrow> state \<Rightarrow> task \<Rightarrow> bool" where
  "task_where organizationId q s t \<longleftrightarrow>
     t_organizationId t = organizationId \<and>
     activeFilter (lq_includeRetired q) (t_lifecycleState t) \<and>
     opt_in (lq_division q) (t_divisionId t) \<and>
     (case lq_team q of None \<Rightarrow> True
      | Some ts \<Rightarrow> (case t_teamId t of None \<Rightarrow> False | Some k \<Rightarrow> k \<in> set ts)) \<and>
     (case lq_status q of None \<Rightarrow> True
      | Some ss \<Rightarrow> (case t_statusCache t of None \<Rightarrow> False | Some c \<Rightarrow> c \<in> set ss)) \<and>
     opt_in (lq_requester q) (t_requesterUserId t) \<and>
     (case lq_claimant q of None \<Rightarrow> True
      | Some us \<Rightarrow> \<exists>c \<in> set (claimants s). c_taskId c = t_id t \<and> c_userId c \<in> set us \<and> c_leftAt c = None)"

definition tasks_list ::
  "id \<Rightarrow> list_tasks_query \<Rightarrow> state \<Rightarrow> task_view list \<times> id option" where
  "tasks_list organizationId q s =
     (let rows = take (lq_limit q + 1)
           (newest_first t_id
             (filter (\<lambda>t. task_where organizationId q s t \<and>
                          (case lq_after q of None \<Rightarrow> True | Some a \<Rightarrow> t_id t < a)) (tasks s)))
      in case page (lq_limit q) t_id rows of (items, cursor) \<Rightarrow>
           (map (\<lambda>t. task_toView t (activeClaimantIds (t_id t) s)) items, cursor))"

section \<open>Edit, retire, revive\<close>

definition load_task :: "id \<Rightarrow> task svc" where
  "load_task i =
     bnd (find_unique tasks t_id i) (\<lambda>found.
     need found (NotFoundError ''TASK_NOT_FOUND''))"

definition write_task :: "task \<Rightarrow> id \<Rightarrow> string \<Rightarrow> (task \<Rightarrow> task) \<Rightarrow> task_view svc" where
  "write_task task actorUserId verb f =
     bnd (update_task (t_id task) f) (\<lambda>row.
     bnd (view_with_claimants row) (\<lambda>view.
     bnd (logActivity (t_organizationId task) (Some actorUserId) ''task'' (t_id task) verb
            [(''taskId'', PId (t_id task))]) (\<lambda>_.
     ret view)))"

definition tasks_edit :: "id \<Rightarrow> id \<Rightarrow> string option \<Rightarrow> string option \<Rightarrow> task_view svc" where
  "tasks_edit i actorUserId name description =
     bnd (load_task i) (\<lambda>task.
     transaction (write_task task actorUserId ''task.updated''
       (\<lambda>r. r\<lparr>t_name := (case name of None \<Rightarrow> t_name r | Some n \<Rightarrow> n),
              t_description := (case description of None \<Rightarrow> t_description r | Some d \<Rightarrow> d),
              t_version := t_version r + 1\<rparr>)))"

definition task_event ::
  "task \<Rightarrow> string \<Rightarrow> id \<Rightarrow> id list \<Rightarrow> payload \<Rightarrow> notification_event" where
  "task_event task type sender recipients payload =
     \<lparr>ev_organizationId = t_organizationId task, ev_type = type, ev_subjectType = ''task'',
      ev_subjectId = t_id task, ev_senderUserId = Some sender,
      ev_recipientUserIds = map Some recipients, ev_payload = payload, ev_eventSeq = None\<rparr>"

definition tasks_retire :: "id \<Rightarrow> id \<Rightarrow> task_view svc" where
  "tasks_retire i actorUserId =
     bnd (load_task i) (\<lambda>task.
     bnd (check (t_lifecycleState task \<noteq> retired) (ConflictError ''ALREADY_RETIRED'')) (\<lambda>_.
     bnd now (\<lambda>t.
     bnd (transaction (
       bnd (write_task task actorUserId ''task.retired''
              (\<lambda>r. r\<lparr>t_lifecycleState := retired, t_retiredAt := Some t, t_version := t_version r + 1\<rparr>)) (\<lambda>view.
       bnd (gets (activeClaimantIds i)) (\<lambda>recipients.
       bnd (emit (task_event task ''task.retired'' actorUserId recipients [(''taskId'', PId i)])) (\<lambda>notified.
       ret (view, notified)))))) (\<lambda>(view, notified).
     bnd (publish notified) (\<lambda>_. ret view)))))"

definition tasks_revive :: "id \<Rightarrow> id \<Rightarrow> task_view svc" where
  "tasks_revive i actorUserId =
     bnd (load_task i) (\<lambda>task.
     bnd (windowMs (t_organizationId task)) (\<lambda>graceMs.
     bnd now (\<lambda>t.
     bnd (check (isRevivable (t_lifecycleState task) (t_retiredAt task) graceMs t)
            (ConflictError ''NOT_REVIVABLE'')) (\<lambda>_.
     transaction (write_task task actorUserId ''task.revived''
       (\<lambda>r. r\<lparr>t_lifecycleState := active, t_retiredAt := None, t_version := t_version r + 1\<rparr>))))))"

section \<open>Claims\<close>

definition slot_of :: "id \<Rightarrow> id \<Rightarrow> state \<Rightarrow> task_claimant option" where
  "slot_of taskId userId s =
     List.find (\<lambda>c. c_taskId c = taskId \<and> c_userId c = userId) (claimants s)"

definition active_count :: "id \<Rightarrow> state \<Rightarrow> nat" where
  "active_count taskId s =
     count_where (\<lambda>c. c_taskId c = taskId \<and> c_leftAt c = None) (claimants s)"

definition take_slot :: "id \<Rightarrow> id \<Rightarrow> task_claimant option \<Rightarrow> unit svc" where
  "take_slot taskId userId existing =
     bnd now (\<lambda>t.
     case existing of
       Some c \<Rightarrow>
         bnd (update_row claimants claimants_update c_id (c_id c)
                (\<lambda>r. r\<lparr>c_leftAt := None, c_joinedAt := t, c_hasSubmitted := False\<rparr>)) (\<lambda>_. ret ())
     | None \<Rightarrow>
         bnd fresh_id (\<lambda>i.
         create_row claimants_update
           \<lparr>c_id = i, c_taskId = taskId, c_userId = userId, c_joinedAt = t,
            c_hasSubmitted = False, c_leftAt = None\<rparr>))"

text \<open>The tail the claim flows share: roll the status up, log, post the system message, notify
  the requester, and re-read the task.\<close>

definition claim_tail ::
  "task \<Rightarrow> id \<Rightarrow> string \<Rightarrow> (status \<Rightarrow> payload) \<Rightarrow> frag list \<Rightarrow> string \<Rightarrow> id \<Rightarrow> (task_view \<times> id list) svc" where
  "claim_tail task actor verb payload body type subject =
     bnd (recompute (t_id task)) (\<lambda>status.
     bnd (logActivity (t_organizationId task) (Some actor) ''task'' (t_id task) verb (payload status)) (\<lambda>_.
     bnd (createSystemMessage (t_id task) body None None) (\<lambda>_.
     bnd (requesterId (t_id task)) (\<lambda>requester.
     bnd (emit (task_event task type actor [requester]
            [(''taskId'', PId (t_id task)), (''actorUserId'', PId subject)])) (\<lambda>notified.
     bnd (view_task (t_id task)) (\<lambda>view.
     ret (view, notified)))))))"

definition publish_view :: "(task_view \<times> id list) svc \<Rightarrow> task_view svc" where
  "publish_view m = bnd m (\<lambda>(view, notified). bnd (publish notified) (\<lambda>_. ret view))"

definition claim_tx :: "task \<Rightarrow> id \<Rightarrow> task_view svc" where
  "claim_tx task userId =
     publish_view (transaction (
       bnd (gets (slot_of (t_id task) userId)) (\<lambda>existing.
       bnd (check (\<not> (case existing of None \<Rightarrow> False | Some c \<Rightarrow> c_leftAt c = None))
              (ConflictError ''ALREADY_CLAIMED'')) (\<lambda>_.
       bnd (gets (active_count (t_id task))) (\<lambda>activeCount.
       bnd (check (int activeCount < t_openings task) (ConflictError ''NO_OPENINGS'')) (\<lambda>_.
       bnd (take_slot (t_id task) userId existing) (\<lambda>_.
       claim_tail task userId ''task.claimed''
         (\<lambda>status. [(''taskId'', PId (t_id task)), (''userId'', PId userId),
                    (''statusCache'', PStr (status_name status))])
         [Lit ''User '', Ref userId, Lit '' claimed this task.'']
         ''task.claim_joined'' userId)))))))"

definition claim :: "id \<Rightarrow> id \<Rightarrow> task_view svc" where
  "claim taskId userId =
     bnd (load_active_task taskId) (\<lambda>task.
     bnd (check (\<not> t_claimsClosed task) (ConflictError ''CLAIMS_CLOSED'')) (\<lambda>_.
     claim_tx task userId))"

definition free_slot :: "id \<Rightarrow> id \<Rightarrow> err \<Rightarrow> unit svc" where
  "free_slot taskId userId e =
     bnd (gets (slot_of taskId userId)) (\<lambda>found.
     bnd (need found e) (\<lambda>slot.
     bnd (check (c_leftAt slot = None) e) (\<lambda>_.
     bnd now (\<lambda>t.
     bnd (update_row claimants claimants_update c_id (c_id slot) (\<lambda>r. r\<lparr>c_leftAt := Some t\<rparr>)) (\<lambda>_.
     ret ())))))"

definition leave_tx :: "task \<Rightarrow> id \<Rightarrow> task_view svc" where
  "leave_tx task userId =
     publish_view (transaction (
       bnd (free_slot (t_id task) userId (ConflictError ''NOT_CLAIMED'')) (\<lambda>_.
       claim_tail task userId ''task.left''
         (\<lambda>status. [(''taskId'', PId (t_id task)), (''userId'', PId userId),
                    (''statusCache'', PStr (status_name status))])
         [Lit ''User '', Ref userId, Lit '' left this task.'']
         ''task.claim_left'' userId)))"

definition leave :: "id \<Rightarrow> id \<Rightarrow> task_view svc" where
  "leave taskId userId = bnd (load_active_task taskId) (\<lambda>task. leave_tx task userId)"

definition removeClaimant :: "id \<Rightarrow> id \<Rightarrow> id \<Rightarrow> task_view svc" where
  "removeClaimant taskId actorUserId targetUserId =
     bnd (load_active_task taskId) (\<lambda>task.
     publish_view (transaction (
       bnd (free_slot (t_id task) targetUserId (NotFoundError ''NOT_CLAIMED'')) (\<lambda>_.
       claim_tail task actorUserId ''task.claimant_removed''
         (\<lambda>status. [(''taskId'', PId (t_id task)), (''removedUserId'', PId targetUserId),
                    (''statusCache'', PStr (status_name status))])
         [Lit ''User '', Ref targetUserId, Lit '' left this task.'']
         ''task.claim_left'' targetUserId))))"

text \<open>The new opening count of \<open>/claims\<close>, checked against the division's lock and the slots
  taken; \<open>None\<close> leaves it alone.\<close>

definition new_openings :: "task \<Rightarrow> int option \<Rightarrow> int option svc" where
  "new_openings task openingsDelta =
     (case openingsDelta of
        None \<Rightarrow> ret None
      | Some delta \<Rightarrow>
          if delta = 0 then ret None
          else
            bnd (find_unique_or_throw divisions d_id (t_divisionId task)) (\<lambda>division.
            bnd (check (\<not> d_openingsLocked division) (ConflictError ''OPENINGS_LOCKED'')) (\<lambda>_.
            bnd (gets (active_count (t_id task))) (\<lambda>activeCount.
            let newOpenings = t_openings task + delta in
            bnd (check (\<not> newOpenings < 0) (ConflictError ''INVALID_OPENINGS'')) (\<lambda>_.
            bnd (check (\<not> newOpenings < int activeCount) (ConflictError ''INVALID_OPENINGS'')) (\<lambda>_.
            ret (Some newOpenings)))))))"

definition manageClaims_tx :: "task \<Rightarrow> id \<Rightarrow> int option \<Rightarrow> bool option \<Rightarrow> task_view svc" where
  "manageClaims_tx task actorUserId openingsDelta claimsClosed =
     publish_view (transaction (
       bnd (new_openings task openingsDelta) (\<lambda>openings.
       bnd (update_task (t_id task)
              (\<lambda>r. r\<lparr>t_openings := (case openings of None \<Rightarrow> t_openings r | Some n \<Rightarrow> n),
                     t_claimsClosed := (case claimsClosed of None \<Rightarrow> t_claimsClosed r | Some b \<Rightarrow> b),
                     t_version := t_version r + 1\<rparr>)) (\<lambda>_.
       bnd (recompute (t_id task)) (\<lambda>status.
       bnd (find_unique_or_throw tasks t_id (t_id task)) (\<lambda>row.
       bnd (view_with_claimants row) (\<lambda>view.
       bnd (logActivity (t_organizationId task) (Some actorUserId) ''task'' (t_id task)
              ''task.claims_updated''
              [(''taskId'', PId (t_id task)), (''openings'', PInt (t_openings row)),
               (''claimsClosed'', PBool (t_claimsClosed row)),
               (''statusCache'', PStr (status_name status))]) (\<lambda>_.
       bnd (gets (activeClaimantIds (t_id task))) (\<lambda>recipients.
       bnd (if claimsClosed = Some True
            then emit (task_event task ''task.claims_closed'' actorUserId recipients
                         [(''taskId'', PId (t_id task))])
            else ret []) (\<lambda>notified.
       ret (view, notified)))))))))))"

definition manageClaims :: "id \<Rightarrow> id \<Rightarrow> int option \<Rightarrow> bool option \<Rightarrow> task_view svc" where
  "manageClaims taskId actorUserId openingsDelta claimsClosed =
     bnd (load_active_task taskId) (\<lambda>task.
     manageClaims_tx task actorUserId openingsDelta claimsClosed)"

definition complete :: "id \<Rightarrow> id \<Rightarrow> task_view svc" where
  "complete taskId actorUserId =
     bnd (load_active_task taskId) (\<lambda>task.
     publish_view (transaction (
       bnd (update_task taskId
              (\<lambda>r. r\<lparr>t_statusCache := Some st_approved, t_version := t_version r + 1\<rparr>)) (\<lambda>row.
       bnd (view_with_claimants row) (\<lambda>view.
       bnd (createSystemMessage taskId
              [Lit ''User '', Ref actorUserId, Lit '' marked this task complete.''] None None) (\<lambda>_.
       bnd (logActivity (t_organizationId task) (Some actorUserId) ''task'' taskId ''task.completed''
              [(''taskId'', PId taskId), (''statusCache'', PStr (status_name st_approved))]) (\<lambda>_.
       bnd (gets (activeClaimantIds taskId)) (\<lambda>recipients.
       bnd (emit (task_event task ''task.completed'' actorUserId recipients
                    [(''taskId'', PId taskId)])) (\<lambda>notified.
       ret (view, notified))))))))))"

definition changeRequester :: "id \<Rightarrow> id \<Rightarrow> id \<Rightarrow> task_view svc" where
  "changeRequester taskId actorUserId userId =
     bnd (load_active_task taskId) (\<lambda>task.
     bnd (gets (\<lambda>s. List.find (\<lambda>u. u_id u = userId \<and> u_organizationId u = t_organizationId task)
                     (users s))) (\<lambda>found.
     bnd (need found (NotFoundError ''USER_NOT_FOUND'')) (\<lambda>newRequester.
     bnd (check (u_lifecycleState newRequester \<noteq> retired) (ConflictError ''USER_RETIRED'')) (\<lambda>_.
     publish_view (transaction (
       bnd (requesterId taskId) (\<lambda>oldRequesterId.
       bnd (update_task taskId
              (\<lambda>r. r\<lparr>t_requesterUserId := userId, t_version := t_version r + 1\<rparr>)) (\<lambda>row.
       bnd (view_with_claimants row) (\<lambda>view.
       bnd (logActivity (t_organizationId task) (Some actorUserId) ''task'' taskId
              ''task.requester_changed''
              [(''taskId'', PId taskId), (''requesterUserId'', PId userId)]) (\<lambda>_.
       bnd (createSystemMessage taskId
              [Lit ''Requester changed to user '', Ref userId, Lit ''.''] None None) (\<lambda>_.
       bnd (emit (task_event task ''task.requester_changed'' actorUserId [oldRequesterId, userId]
              [(''taskId'', PId taskId), (''requesterUserId'', PId userId),
               (''actorUserId'', PId actorUserId)])) (\<lambda>notified.
       ret (view, notified)))))))))))))"

end
