(* ===== verification/Claims.thy ===== *)
theory Claims
  imports Tasks
begin

text \<open>
  The claim flows of \<open>tasks.service.ts\<close>: the invariant on slots (one row per task and user,
  never more active slots than openings), what a claim and a leave do, and the same flows as
  steps of concurrent sessions, where the task read before the row lock may be stale.
\<close>

section \<open>The invariant\<close>

definition slot_key :: "task_claimant \<Rightarrow> id \<times> id" where
  "slot_key c = (c_taskId c, c_userId c)"

definition slots_ok :: "state \<Rightarrow> bool" where
  "slots_ok s \<longleftrightarrow>
     distinct (map c_id (claimants s)) \<and> distinct (map slot_key (claimants s)) \<and>
     (\<forall>c \<in> set (claimants s). c_id c < next_id s \<and> c_taskId c < next_id s) \<and>
     distinct (map t_id (tasks s)) \<and> (\<forall>t \<in> set (tasks s). t_id t < next_id s) \<and>
     (\<forall>d \<in> set (divisions s). 0 \<le> d_defaultOpenings d)"

definition within_openings :: "state \<Rightarrow> bool" where
  "within_openings s \<longleftrightarrow> (\<forall>t \<in> set (tasks s). int (active_count (t_id t) s) \<le> t_openings t)"

definition claims_ok :: "state \<Rightarrow> bool" where
  "claims_ok s \<longleftrightarrow> slots_ok s \<and> within_openings s"

interpretation claims_inv: quiet_invariant claims_ok
  by unfold_locales
     (auto simp: claims_ok_def slots_ok_def within_openings_def active_count_def intro: less_le_trans)

text \<open>Task updates that keep ids and openings keep the invariant.\<close>

lemma claims_ok_task_upd:
  assumes "claims_ok s"
    and "\<And>t. t_id (f t) = t_id t" and "\<And>t. t_openings t \<le> t_openings (f t)"
  shows "claims_ok (tasks_update (upd_where Q f) s)"
proof -
  have "map t_id (upd_where Q f (tasks s)) = map t_id (tasks s)"
    using assms(2) by (simp add: map_upd_where)
  then show ?thesis
    using assms order_trans
    by (fastforce simp: claims_ok_def slots_ok_def within_openings_def active_count_def
        ball_upd_where)
qed

lemma keeps_claims_update_task:
  assumes "\<And>t. t_id (f t) = t_id t" and "\<And>t. t_openings (f t) = t_openings t"
  shows "keeps claims_ok (update_task k f)"
  unfolding update_task_def
  by (intro keeps_intros keeps_update_row claims_ok_task_upd) (simp_all add: assms)

lemma keeps_claims_recompute [keeps_intros]: "keeps claims_ok (recompute k)"
  unfolding recompute_def Let_def
  by (intro keeps_intros keeps_claims_update_task) simp_all

lemma keeps_view_with_claimants [keeps_intros]: "keeps P (view_with_claimants t)"
  by (simp add: view_with_claimants_def keeps_intros)

lemma keeps_view_task [keeps_intros]: "keeps P (view_task k)"
  by (simp add: view_task_def keeps_intros)

lemma keeps_load_task [keeps_intros]: "keeps P (load_task k)"
  by (simp add: load_task_def keeps_intros)

lemma keeps_claims_tail: "keeps claims_ok (claim_tail task actor v p b ty sub)"
  unfolding claim_tail_def by (intro keeps_intros)

lemma keeps_publish_view [keeps_intros]:
  "keeps claims_ok m \<Longrightarrow> keeps claims_ok (publish_view m)"
  unfolding publish_view_def by (auto intro!: keeps_intros split: prod.split)

lemma claims_cache_free: "cache_free claims_ok"
  by (rule claims_inv.free_of_cache)

lemma holds_publish_view:
  assumes "claims_ok s" and "holds claims_ok m s"
  shows "holds claims_ok (publish_view (transaction m)) s"
  unfolding publish_view_def
proof (rule holds_bnd_keeps)
  show "holds claims_ok (transaction m) s"
    by (rule holds_transaction [OF claims_cache_free assms])
  show "keeps claims_ok (case x of (view, us) \<Rightarrow> bnd (publish us) (\<lambda>_. ret view))"
    for x :: "task_view \<times> id list"
    by (cases x) (auto intro!: keeps_intros)
qed

section \<open>Counting active slots\<close>

lemma slot_of_SomeD:
  "slot_of k u s = Some c \<Longrightarrow> c \<in> set (claimants s) \<and> c_taskId c = k \<and> c_userId c = u"
  unfolding slot_of_def by (auto simp: find_Some_iff in_set_conv_nth)

lemma slot_of_None: "slot_of k u s = None \<longleftrightarrow> (\<forall>c \<in> set (claimants s). slot_key c \<noteq> (k, u))"
  by (auto simp: slot_of_def find_None_iff slot_key_def)

lemma slot_of_unique:
  "distinct (map slot_key (claimants s)) \<Longrightarrow> c \<in> set (claimants s) \<Longrightarrow>
   slot_of (c_taskId c) (c_userId c) s = Some c"
proof -
  assume d: "distinct (map slot_key (claimants s))" and c: "c \<in> set (claimants s)"
  have "slot_of (c_taskId c) (c_userId c) s = List.find (\<lambda>q. slot_key q = slot_key c) (claimants s)"
    by (simp add: slot_of_def slot_key_def)
  then show ?thesis using find_distinct_key [OF d c] by simp
qed

lemma count_upd_one:
  "distinct (map key rs) \<Longrightarrow> c \<in> set rs \<Longrightarrow>
   count_where P (upd_where (\<lambda>q. key q = key c) f rs) + (if P c then 1 else 0) =
     count_where P rs + (if P (f c) then 1 else 0)"
proof (induction rs)
  case (Cons r rs)
  show ?case
  proof (cases "r = c")
    case True
    then have "\<forall>q \<in> set rs. key q \<noteq> key c" using Cons.prems(1) by (auto simp: image_iff)
    then have "upd_where (\<lambda>q. key q = key c) f rs = rs"
      by (induction rs) auto
    then show ?thesis using True by simp
  next
    case False
    then have "c \<in> set rs" "key r \<noteq> key c" using Cons.prems by (auto simp: image_iff)
    then show ?thesis using Cons by simp
  qed
qed simp

text \<open>Giving a slot (back): the count of that task moves by one, of no other task.\<close>

lemma active_count_slot_upd:
  assumes "slots_ok s" and "c \<in> set (claimants s)" and "c_taskId (f c) = c_taskId c"
  shows "int (active_count k (claimants_update (upd_where (\<lambda>q. c_id q = c_id c) f) s)) =
         int (active_count k s)
         - (if k = c_taskId c \<and> c_leftAt c = None then 1 else 0)
         + (if k = c_taskId c \<and> c_leftAt (f c) = None then 1 else 0)"
  using count_upd_one [of c_id "claimants s" c "\<lambda>c. c_taskId c = k \<and> c_leftAt c = None" f] assms
  by (auto simp: slots_ok_def active_count_def split: if_splits)

lemma slots_ok_slot_upd:
  assumes "slots_ok s" and "\<And>c. c_id (f c) = c_id c" and "\<And>c. slot_key (f c) = slot_key c"
  shows "slots_ok (claimants_update (upd_where Q f) s)"
proof -
  have "map c_id (upd_where Q f (claimants s)) = map c_id (claimants s)"
    and "map slot_key (upd_where Q f (claimants s)) = map slot_key (claimants s)"
    using assms by (simp_all add: map_upd_where)
  moreover have "c_taskId (f c) = c_taskId c" for c
    using assms(3) [of c] by (simp add: slot_key_def)
  ultimately show ?thesis
    using assms by (simp add: slots_ok_def ball_upd_where)
qed

lemma claims_ok_free:
  assumes "claims_ok s" and "c \<in> set (claimants s)"
  shows "claims_ok (claimants_update (upd_where (\<lambda>q. c_id q = c_id c) (\<lambda>r. r\<lparr>c_leftAt := Some t\<rparr>)) s)"
proof -
  let ?f = "\<lambda>r. r\<lparr>c_leftAt := Some t\<rparr>"
  let ?t = "claimants_update (upd_where (\<lambda>q. c_id q = c_id c) ?f) s"
  have ok: "slots_ok s" using assms(1) by (simp add: claims_ok_def)
  have le: "int (active_count k ?t) \<le> int (active_count k s)" for k
    by (subst active_count_slot_upd [OF ok assms(2)]) simp_all
  have "slots_ok ?t" by (rule slots_ok_slot_upd [OF ok]) (simp_all add: slot_key_def)
  moreover have "within_openings ?t"
    unfolding within_openings_def
  proof
    fix k
    assume "k \<in> set (tasks ?t)"
    then have "int (active_count (t_id k) s) \<le> t_openings k"
      using assms(1) by (simp add: claims_ok_def within_openings_def)
    then show "int (active_count (t_id k) ?t) \<le> t_openings k"
      using le order_trans by blast
  qed
  ultimately show ?thesis by (simp add: claims_ok_def)
qed

lemma keeps_claims_free_slot: "keeps claims_ok (free_slot k u e)"
proof (rule keepsI)
  fix s r t
  assume "claims_ok s" and "free_slot k u e s = (r, t)"
  then show "claims_ok t"
    using claims_ok_free [of s]
    by (auto simp: free_slot_def op_simps dest!: slot_of_SomeD split: option.splits if_splits)
qed

section \<open>Taking a slot\<close>

definition slot_taken :: "id \<Rightarrow> id \<Rightarrow> state \<Rightarrow> state" where
  "slot_taken k u s =
     (case slot_of k u s of
        Some c \<Rightarrow> claimants_update (upd_where (\<lambda>q. c_id q = c_id c)
          (\<lambda>r. r\<lparr>c_leftAt := None, c_joinedAt := clock s, c_hasSubmitted := False\<rparr>)) s
      | None \<Rightarrow> claimants_update (\<lambda>rs. rs @
          [\<lparr>c_id = next_id s, c_taskId = k, c_userId = u, c_joinedAt = clock s,
            c_hasSubmitted = False, c_leftAt = None\<rparr>]) (s\<lparr>next_id := Suc (next_id s)\<rparr>))"

lemma take_slot_run:
  assumes "slots_ok s"
  shows "take_slot k u (slot_of k u s) s = (Inr (), slot_taken k u s)"
proof (cases "slot_of k u s")
  case (Some c)
  then have "lookup c_id (c_id c) (claimants s) = Some c"
    using assms slot_of_SomeD [OF Some] by (simp add: slots_ok_def lookup_distinct)
  then show ?thesis by (simp add: take_slot_def slot_taken_def op_simps Some)
qed (simp add: take_slot_def slot_taken_def op_simps)

lemma slot_taken_ok:
  assumes "slots_ok s" and "k < next_id s"
  shows "slots_ok (slot_taken k u s)"
proof (cases "slot_of k u s")
  case (Some c)
  then show ?thesis
    using slots_ok_slot_upd [OF assms(1)] by (simp add: slot_taken_def slot_key_def)
next
  case None
  then have "(k, u) \<notin> slot_key ` set (claimants s)" by (auto simp: slot_of_None)
  then show ?thesis
    using assms None by (auto simp: slot_taken_def slots_ok_def slot_key_def less_Suc_eq)
qed

lemma slot_taken_count:
  assumes "slots_ok s" and "\<And>c. slot_of k u s = Some c \<Longrightarrow> c_leftAt c \<noteq> None"
  shows "int (active_count j (slot_taken k u s)) = int (active_count j s) + (if j = k then 1 else 0)"
proof (cases "slot_of k u s")
  case (Some c)
  have c: "c \<in> set (claimants s)" "c_taskId c = k" using slot_of_SomeD [OF Some] by simp_all
  show ?thesis
    using active_count_slot_upd [OF assms(1) c(1),
        of "\<lambda>r. r\<lparr>c_leftAt := None, c_joinedAt := clock s, c_hasSubmitted := False\<rparr>" j] c(2)
      assms(2) [OF Some]
    by (simp add: slot_taken_def Some)
qed (simp add: slot_taken_def active_count_def)

lemma slot_taken_tasks [simp]:
  "tasks (slot_taken k u s) = tasks s" "divisions (slot_taken k u s) = divisions s"
  by (simp_all add: slot_taken_def split: option.split)

lemma slot_taken_holds:
  assumes "slots_ok s"
  shows "\<exists>c. slot_of k u (slot_taken k u s) = Some c \<and> c_leftAt c = None"
proof (cases "slot_of k u s")
  case (Some c)
  let ?f = "\<lambda>r. r\<lparr>c_leftAt := None, c_joinedAt := clock s, c_hasSubmitted := False\<rparr>"
  have c: "c \<in> set (claimants s)" "c_taskId c = k" "c_userId c = u"
    using slot_of_SomeD [OF Some] by simp_all
  let ?t = "claimants_update (upd_where (\<lambda>q. c_id q = c_id c) ?f) s"
  have "slots_ok ?t" by (rule slots_ok_slot_upd [OF assms]) (simp_all add: slot_key_def)
  moreover have "?f c \<in> set (claimants ?t)" using c(1) by (auto simp: in_upd_where)
  ultimately have "slot_of k u ?t = Some (?f c)"
    using slot_of_unique [of ?t "?f c"] c(2,3) by (simp add: slots_ok_def)
  then show ?thesis by (simp add: slot_taken_def Some)
next
  case None
  then show ?thesis by (simp add: slot_taken_def slot_of_def find_append)
qed

section \<open>The flows keep the invariant\<close>

lemma claims_ok_take:
  assumes "claims_ok s" and "lookup t_id k (tasks s) = Some r"
    and "\<And>c. slot_of k u s = Some c \<Longrightarrow> c_leftAt c \<noteq> None"
    and "int (active_count k s) < t_openings r"
  shows "claims_ok (slot_taken k u s)"
proof -
  have ok: "slots_ok s" using assms(1) by (simp add: claims_ok_def)
  have r: "r \<in> set (tasks s)" "t_id r = k" using lookup_SomeD [OF assms(2)] by simp_all
  then have "k < next_id s" using ok by (auto simp: slots_ok_def)
  then have "slots_ok (slot_taken k u s)" using slot_taken_ok [OF ok] by simp
  moreover have "int (active_count (t_id q) (slot_taken k u s)) \<le> t_openings q"
    if q: "q \<in> set (tasks s)" for q
  proof (cases "t_id q = k")
    case True
    then have "q = r"
      using ok q r by (auto simp: slots_ok_def distinct_map dest: inj_onD)
    then show ?thesis
      using slot_taken_count [of s k u k, OF ok] assms(3) True assms(4) by simp
  next
    case False
    then show ?thesis
      using slot_taken_count [of s k u "t_id q", OF ok] assms(3) assms(1) q
      by (simp add: claims_ok_def within_openings_def)
  qed
  ultimately show ?thesis by (simp add: claims_ok_def within_openings_def)
qed

text \<open>A claim committed with a task row read earlier: safe as long as the openings it read are
  not more than the openings now.\<close>

lemma claim_tx_keeps:
  assumes "claims_ok s" and "lookup t_id (t_id task) (tasks s) = Some r"
    and "t_openings task \<le> t_openings r"
  shows "claims_ok (snd (claim_tx task u s))"
proof -
  let ?k = "t_id task"
  have ok: "slots_ok s" using assms(1) by (simp add: claims_ok_def)
  have "holds claims_ok
     (bnd (gets (slot_of ?k u)) (\<lambda>existing.
      bnd (check (\<not> (case existing of None \<Rightarrow> False | Some c \<Rightarrow> c_leftAt c = None))
             (ConflictError ''ALREADY_CLAIMED'')) (\<lambda>_.
      bnd (gets (active_count ?k)) (\<lambda>activeCount.
      bnd (check (int activeCount < t_openings task) (ConflictError ''NO_OPENINGS'')) (\<lambda>_.
      bnd (take_slot ?k u existing) (\<lambda>_.
      claim_tail task u v p b ty u))))) ) s" for v p b ty
  proof (cases "(case slot_of ?k u s of None \<Rightarrow> False | Some c \<Rightarrow> c_leftAt c = None) \<or>
                \<not> int (active_count ?k s) < t_openings task")
    case True
    then show ?thesis using assms(1) by (auto simp: holds_def op_simps)
  next
    case False
    then have "claims_ok (slot_taken ?k u s)"
      using assms(3)
      by (intro claims_ok_take [OF assms(1,2)]) (auto split: option.splits)
    then have "holds claims_ok (claim_tail task u v p b ty u) (slot_taken ?k u s)"
      by (intro holds_keeps keeps_claims_tail)
    then show ?thesis
      using False by (simp add: holds_def op_simps bnd_def [of "take_slot _ _ _"] take_slot_run [OF ok])
  qed
  then have "holds claims_ok (claim_tx task u) s"
    unfolding claim_tx_def by (rule holds_publish_view [OF assms(1)])
  then show ?thesis by (simp add: holds_def)
qed

lemma keeps_claim: "keeps claims_ok (claim k u)"
proof -
  have "holds claims_ok (claim k u) s" if ok: "claims_ok s" for s
    unfolding claim_def holds_def
    using claim_tx_keeps [OF ok] lookup_SomeD [of t_id k "tasks s"] ok
    by (auto simp: op_simps split: option.split)
  then show ?thesis by (simp add: keeps_def holds_def)
qed

lemma keeps_leave_tx: "keeps claims_ok (leave_tx task u)"
  unfolding leave_tx_def
  by (intro keeps_intros claims_cache_free keeps_claims_free_slot keeps_claims_tail)

lemma keeps_leave: "keeps claims_ok (leave k u)"
  unfolding leave_def by (intro keeps_intros keeps_leave_tx)

lemma keeps_removeClaimant: "keeps claims_ok (removeClaimant k u v)"
  unfolding removeClaimant_def
  by (intro keeps_intros claims_cache_free keeps_claims_free_slot keeps_claims_tail)

text \<open>New openings are checked against the slots taken when they are written, so they are safe
  whatever row the request had read.\<close>

lemma claims_ok_open:
  assumes "claims_ok s" and "\<And>n. openings = Some n \<Longrightarrow> int (active_count k s) \<le> n"
  shows "claims_ok (tasks_update (upd_where (\<lambda>q. t_id q = k)
      (\<lambda>r. r\<lparr>t_openings := (case openings of None \<Rightarrow> t_openings r | Some n \<Rightarrow> n),
             t_claimsClosed := b r, t_version := v r, t_updatedAt := w\<rparr>)) s)"
  (is "claims_ok (tasks_update (upd_where ?Q ?f) s)")
proof -
  have ids: "map t_id (upd_where ?Q ?f (tasks s)) = map t_id (tasks s)"
    by (simp add: map_upd_where)
  then show ?thesis
    using assms
    by (auto simp: claims_ok_def slots_ok_def within_openings_def active_count_def ball_upd_where
        split: option.split)
qed

lemma new_openings_Inr:
  "new_openings task d s = (Inr x, t) \<Longrightarrow>
   t = s \<and> (\<forall>n. x = Some n \<longrightarrow> int (active_count (t_id task) s) \<le> n \<and> 0 \<le> n)"
  by (cases d) (auto simp: new_openings_def op_simps Let_def split: if_splits option.splits)

lemma holds_open:
  assumes ok: "claims_ok s" and rest: "\<And>y. keeps claims_ok (rest y)"
  shows "holds claims_ok (bnd (new_openings task d) (\<lambda>x. bnd (update_task (t_id task)
      (\<lambda>r. r\<lparr>t_openings := (case x of None \<Rightarrow> t_openings r | Some n \<Rightarrow> n),
             t_claimsClosed := (case b of None \<Rightarrow> t_claimsClosed r | Some b \<Rightarrow> b),
             t_version := t_version r + 1\<rparr>)) rest)) s"
proof (rule holds_bnd)
  show "holds claims_ok (new_openings task d) s"
    using ok new_openings_Inr [of task d s]
    by (cases d) (auto simp: holds_def new_openings_def op_simps Let_def split: option.split)
next
  fix x t
  assume x: "new_openings task d s = (Inr x, t)" and t: "claims_ok t"
  have "holds claims_ok (update_task (t_id task)
    (\<lambda>r. r\<lparr>t_openings := (case x of None \<Rightarrow> t_openings r | Some n \<Rightarrow> n),
           t_claimsClosed := (case b of None \<Rightarrow> t_claimsClosed r | Some b \<Rightarrow> b),
           t_version := t_version r + 1\<rparr>)) t"
    using t claims_ok_open [OF t, of x "t_id task"] new_openings_Inr [OF x]
    by (simp add: holds_def update_task_def op_simps split: option.split)
  then show "holds claims_ok (bnd (update_task (t_id task)
    (\<lambda>r. r\<lparr>t_openings := (case x of None \<Rightarrow> t_openings r | Some n \<Rightarrow> n),
           t_claimsClosed := (case b of None \<Rightarrow> t_claimsClosed r | Some b \<Rightarrow> b),
           t_version := t_version r + 1\<rparr>)) rest) t"
    by (rule holds_bnd_keeps) (rule rest)
qed

lemma keeps_manageClaims_tx: "keeps claims_ok (manageClaims_tx task u d b)"
  unfolding manageClaims_tx_def
  by (rule keepsI_holds, rule holds_publish_view, assumption, rule holds_open, assumption)
     (intro keeps_intros)

lemma keeps_manageClaims: "keeps claims_ok (manageClaims k u d b)"
  unfolding manageClaims_def by (intro keeps_intros keeps_manageClaims_tx)

lemma keeps_write_task:
  assumes "\<And>t. t_id (f t) = t_id t" and "\<And>t. t_openings (f t) = t_openings t"
  shows "keeps claims_ok (write_task task u v f)"
  unfolding write_task_def
  by (intro keeps_intros keeps_claims_update_task assms)

lemma keeps_task_writes:
  "keeps claims_ok (tasks_edit k u n d)"
  "keeps claims_ok (tasks_retire k u)"
  "keeps claims_ok (tasks_revive k u)"
  "keeps claims_ok (complete k u)"
  "keeps claims_ok (changeRequester k u w)"
  unfolding tasks_edit_def tasks_retire_def tasks_revive_def complete_def changeRequester_def
  by (auto intro!: keeps_intros keeps_write_task keeps_claims_update_task claims_cache_free
      split: prod.split)

section \<open>What the flows do\<close>

lemma slot_states_cong:
  "claimants t = claimants s \<Longrightarrow> submissions t = submissions s \<Longrightarrow> slot_states k t = slot_states k s"
  by (simp add: slot_states_def active_slots_def latest_submission_def)

text \<open>The shared tail: it returns, leaves the slots alone, and the cached status is current.\<close>

lemma claim_tail_run:
  assumes "lookup t_id (t_id task) (tasks s) = Some r"
    and "\<And>st. payload_ok v (p st)"
  shows "\<exists>x t. claim_tail task actor v p b ty sub s = (Inr x, t) \<and>
           claimants t = claimants s \<and> submissions t = submissions s \<and>
           tasks t = tasks (restatus (t_id task) s)"
  using assms
  by (simp add: claim_tail_def op_simps view_task_def view_with_claimants_def restatus_lookup)

lemma status_current_cong:
  "tasks t = tasks s \<Longrightarrow> claimants t = claimants s \<Longrightarrow> submissions t = submissions s \<Longrightarrow>
   status_current k t = status_current k s"
  by (simp add: status_current_def rolled_status_def slot_states_cong [of t s]
      cong: option.case_cong)

lemma claim_tail_status:
  assumes "lookup t_id (t_id task) (tasks s) = Some r"
    and "\<And>st. payload_ok v (p st)"
  shows "\<exists>x t. claim_tail task actor v p b ty sub s = (Inr x, t) \<and> claimants t = claimants s \<and>
           status_current (t_id task) t"
proof -
  obtain x t where t: "claim_tail task actor v p b ty sub s = (Inr x, t)" "claimants t = claimants s"
      "submissions t = submissions s" "tasks t = tasks (restatus (t_id task) s)"
    using claim_tail_run [where p = p and v = v, OF assms] by blast
  have "status_current (t_id task) t = status_current (t_id task) (restatus (t_id task) s)"
    using t by (intro status_current_cong) simp_all
  then show ?thesis using t restatus_current by auto
qed

lemma publish_view_ok:
  assumes "m s = (Inr (view, us), t)"
  shows "publish_view (transaction m) s = (Inr view, pings_update (\<lambda>ps. ps @ us) t)"
  using assms by (simp add: publish_view_def op_simps)

lemma publish_view_fail:
  "m s = (Inl e, s) \<Longrightarrow> publish_view (transaction m) s = (Inl e, s)"
  by (simp add: publish_view_def op_simps)

lemma claim_refused:
  assumes "lookup t_id k (tasks s) = Some task"
  shows "t_lifecycleState task = retired \<Longrightarrow> claim k u s = (Inl (ConflictError ''TASK_RETIRED''), s)"
    and "t_lifecycleState task \<noteq> retired \<Longrightarrow> t_claimsClosed task \<Longrightarrow>
      claim k u s = (Inl (ConflictError ''CLAIMS_CLOSED''), s)"
    and "t_lifecycleState task \<noteq> retired \<Longrightarrow> \<not> t_claimsClosed task \<Longrightarrow>
      slot_of k u s = Some c \<Longrightarrow> c_leftAt c = None \<Longrightarrow>
      claim k u s = (Inl (ConflictError ''ALREADY_CLAIMED''), s)"
    and "t_lifecycleState task \<noteq> retired \<Longrightarrow> \<not> t_claimsClosed task \<Longrightarrow>
      (\<And>c. slot_of k u s = Some c \<Longrightarrow> c_leftAt c \<noteq> None) \<Longrightarrow>
      t_openings task \<le> int (active_count k s) \<Longrightarrow>
      claim k u s = (Inl (ConflictError ''NO_OPENINGS''), s)"
  using assms lookup_SomeD [OF assms]
  by (auto simp: claim_def op_simps claim_tx_def intro!: publish_view_fail split: option.split)

lemma claim_granted:
  assumes ok: "claims_ok s" and task: "lookup t_id k (tasks s) = Some task"
    and "t_lifecycleState task \<noteq> retired" and "\<not> t_claimsClosed task"
    and free: "\<And>c. slot_of k u s = Some c \<Longrightarrow> c_leftAt c \<noteq> None"
    and room: "int (active_count k s) < t_openings task"
  shows "\<exists>view t. claim k u s = (Inr view, t) \<and> claimants t = claimants (slot_taken k u s) \<and>
           status_current k t"
proof -
  have sok: "slots_ok s" using ok by (simp add: claims_ok_def)
  have k: "t_id task = k" using lookup_SomeD [OF task] by simp
  let ?p = "\<lambda>status. [(''taskId'', PId k), (''userId'', PId u),
                    (''statusCache'', PStr (status_name status))]"
  have "lookup t_id (t_id task) (tasks (slot_taken k u s)) = Some task" using task k by simp
  moreover have "payload_ok ''task.claimed'' (?p st)" for st by (simp add: op_simps)
  ultimately obtain x t where t: "claim_tail task u ''task.claimed'' ?p
        [Lit ''User '', Ref u, Lit '' claimed this task.''] ''task.claim_joined'' u
        (slot_taken k u s) = (Inr x, t)"
      "claimants t = claimants (slot_taken k u s)" "status_current k t"
    using claim_tail_status [where p = ?p] k by blast
  obtain view us where x: "x = (view, us)" by (cases x)
  have "claim k u s = (Inr view, pings_update (\<lambda>ps. ps @ us) t)"
    unfolding claim_def claim_tx_def k
    using assms(3,4) task free room t(1)
    by (simp add: op_simps, intro publish_view_ok)
       (auto simp: op_simps bnd_def [of "take_slot _ _ _"] take_slot_run [OF sok] x k
         split: option.split)
  moreover have "status_current k (pings_update (\<lambda>ps. ps @ us) t)"
    using t(3) status_current_cong [of "pings_update (\<lambda>ps. ps @ us) t" t k] by simp
  ultimately show ?thesis using t(2) by auto
qed

section \<open>Concurrent sessions\<close>

text \<open>
  A claim request reads the task (\<open>loadActiveTask\<close> and the closed check), and later commits
  \<open>claim_tx\<close> with the row it read; other requests run in between. The flag says whether
  \<open>/claims\<close> requests that lower the openings are among them.
\<close>

type_synonym conf = "state \<times> (id \<times> task) list"

definition begin_claim :: "id \<Rightarrow> task svc" where
  "begin_claim taskId =
     bnd (load_active_task taskId) (\<lambda>task.
     bnd (check (\<not> t_claimsClosed task) (ConflictError ''CLAIMS_CLOSED'')) (\<lambda>_.
     ret task))"

inductive session_step :: "bool \<Rightarrow> conf \<Rightarrow> conf \<Rightarrow> bool" for lowering :: bool where
  begin_step: "begin_claim k s = (Inr task, t) \<Longrightarrow> session_step lowering (s, fl) (t, (u, task) # fl)"
| commit_step: "(u, task) \<in> set fl \<Longrightarrow>
    session_step lowering (s, fl) (snd (claim_tx task u s), removeAll (u, task) fl)"
| leave_step: "session_step lowering (s, fl) (snd (leave k u s), fl)"
| manage_step: "lowering \<or> (case d of None \<Rightarrow> True | Some n \<Rightarrow> 0 \<le> n) \<Longrightarrow>
    session_step lowering (s, fl) (snd (manageClaims k u d b s), fl)"

inductive claim_runs :: "bool \<Rightarrow> conf \<Rightarrow> conf \<Rightarrow> bool" for lowering :: bool where
  claim_runs_refl: "claim_runs lowering c c"
| claim_runs_step: "claim_runs lowering c d \<Longrightarrow> session_step lowering d e \<Longrightarrow> claim_runs lowering c e"

lemma begin_claim_then: "bnd (begin_claim k) (\<lambda>task. claim_tx task u) s = claim k u s"
  by (simp add: begin_claim_def claim_def op_simps split: option.split)

lemma begin_claim_Inr:
  "begin_claim k s = (Inr task, t) \<Longrightarrow> t = s \<and> lookup t_id k (tasks s) = Some task \<and> t_id task = k"
  by (auto simp: begin_claim_def op_simps dest: lookup_SomeD split: option.splits if_splits)

text \<open>Openings never shrink from \<open>s\<close> to \<open>t\<close>, and no task disappears.\<close>

definition openings_grow :: "state \<Rightarrow> state \<Rightarrow> bool" where
  "openings_grow s t \<longleftrightarrow>
     (\<forall>k r. lookup t_id k (tasks s) = Some r \<longrightarrow>
        (\<exists>q. lookup t_id k (tasks t) = Some q \<and> t_openings r \<le> t_openings q))"

lemma openings_grow_refl [simp]: "openings_grow s s"
  by (simp add: openings_grow_def)

lemma openings_grow_upd:
  assumes "openings_grow s0 s" and "\<And>r. t_id (f r) = t_id r"
    and "\<And>r. lookup t_id k (tasks s) = Some r \<Longrightarrow> t_openings r \<le> t_openings (f r)"
  shows "openings_grow s0 (tasks_update (upd_where (\<lambda>q. t_id q = k) f) s)"
  unfolding openings_grow_def
proof (intro allI impI)
  fix j r
  assume "lookup t_id j (tasks s0) = Some r"
  then obtain q where q: "lookup t_id j (tasks s) = Some q" "t_openings r \<le> t_openings q"
    using assms(1) unfolding openings_grow_def by blast
  then show "\<exists>q. lookup t_id j (tasks (tasks_update (upd_where (\<lambda>q. t_id q = k) f) s)) = Some q \<and>
      t_openings r \<le> t_openings q"
    using assms(2,3) order_trans
    by (cases "j = k") (fastforce simp: lookup_upd_same lookup_upd_other)+
qed

interpretation growth: quiet_invariant "openings_grow s0" for s0
  by unfold_locales (auto simp: openings_grow_def)

lemma keeps_growth_update_task:
  assumes "\<And>t. t_id (f t) = t_id t" and "\<And>t. t_openings (f t) = t_openings t"
  shows "keeps (openings_grow s0) (update_task k f)"
  unfolding update_task_def
  by (intro keeps_intros keeps_update_row openings_grow_upd) (simp_all add: assms)

lemma keeps_growth_slots:
  "keeps (openings_grow s0) (take_slot k u x)" "keeps (openings_grow s0) (free_slot k u e)"
  unfolding take_slot_def free_slot_def
  by (auto intro!: keeps_intros keeps_create_row keeps_update_row simp: openings_grow_def)

lemma keeps_growth_tail: "keeps (openings_grow s0) (claim_tail task actor v p b ty sub)"
  unfolding claim_tail_def recompute_def Let_def
  by (intro keeps_intros keeps_growth_update_task) simp_all

lemma keeps_growth_publish: "keeps (openings_grow s0) m \<Longrightarrow> keeps (openings_grow s0) (publish_view m)"
  unfolding publish_view_def by (auto intro!: keeps_intros split: prod.split)

lemma keeps_growth_flows:
  "keeps (openings_grow s0) (claim_tx task u)" "keeps (openings_grow s0) (leave k u)"
  unfolding claim_tx_def leave_def leave_tx_def
  by (intro keeps_intros keeps_growth_publish keeps_growth_slots keeps_growth_tail)+

lemma manageClaims_grows:
  assumes "case d of None \<Rightarrow> True | Some n \<Rightarrow> 0 \<le> n"
  shows "openings_grow s (snd (manageClaims k u d b s))"
proof -
  have tx: "openings_grow s (snd (manageClaims_tx task u d b s))"
    if task: "lookup t_id k (tasks s) = Some task" for task
  proof -
    have k: "t_id task = k" using lookup_SomeD [OF task] by simp
    have body: "holds (openings_grow s) (bnd (new_openings task d) (\<lambda>x. bnd (update_task (t_id task)
      (\<lambda>r. r\<lparr>t_openings := (case x of None \<Rightarrow> t_openings r | Some n \<Rightarrow> n),
             t_claimsClosed := (case b of None \<Rightarrow> t_claimsClosed r | Some b \<Rightarrow> b),
             t_version := t_version r + 1\<rparr>)) rest)) s"
      if rest: "\<And>y. keeps (openings_grow s) (rest y)" for rest :: "task \<Rightarrow> (task_view \<times> id list) svc"
    proof (rule holds_bnd)
      show "holds (openings_grow s) (new_openings task d) s"
        using new_openings_Inr [of task d s]
        by (cases d) (auto simp: holds_def new_openings_def op_simps Let_def split: option.split)
    next
      fix x t
      assume x: "new_openings task d s = (Inr x, t)"
      then have "t = s" "\<And>n. x = Some n \<Longrightarrow> t_openings task \<le> n"
        using assms
        by (cases d; auto simp: new_openings_def op_simps Let_def split: if_splits option.splits)+
      then have "holds (openings_grow s) (update_task (t_id task)
        (\<lambda>r. r\<lparr>t_openings := (case x of None \<Rightarrow> t_openings r | Some n \<Rightarrow> n),
               t_claimsClosed := (case b of None \<Rightarrow> t_claimsClosed r | Some b \<Rightarrow> b),
               t_version := t_version r + 1\<rparr>)) t"
        using task k
        by (auto simp: holds_def update_task_def op_simps intro!: openings_grow_upd
            split: option.split)
      then show "holds (openings_grow s) (bnd (update_task (t_id task)
        (\<lambda>r. r\<lparr>t_openings := (case x of None \<Rightarrow> t_openings r | Some n \<Rightarrow> n),
               t_claimsClosed := (case b of None \<Rightarrow> t_claimsClosed r | Some b \<Rightarrow> b),
               t_version := t_version r + 1\<rparr>)) rest) t"
        by (rule holds_bnd_keeps) (rule rest)
    qed
    have "holds (openings_grow s) (manageClaims_tx task u d b) s"
      unfolding manageClaims_tx_def publish_view_def recompute_def Let_def
      by (rule holds_bnd_keeps, rule holds_transaction, rule growth.free_of_cache, simp, rule body)
         (auto intro!: keeps_intros keeps_growth_update_task split: prod.split)
    then show ?thesis by (simp add: holds_def)
  qed
  then show ?thesis by (simp add: manageClaims_def op_simps split: option.split)
qed

definition session_safe :: "conf \<Rightarrow> bool" where
  "session_safe c \<longleftrightarrow>
     claims_ok (fst c) \<and>
     (\<forall>(u, task) \<in> set (snd c). \<exists>r. lookup t_id (t_id task) (tasks (fst c)) = Some r \<and>
        t_openings task \<le> t_openings r)"

lemma session_safe_grow:
  "session_safe (s, fl) \<Longrightarrow> openings_grow s t \<Longrightarrow> claims_ok t \<Longrightarrow> set gl \<subseteq> set fl \<Longrightarrow>
   session_safe (t, gl)"
  unfolding session_safe_def openings_grow_def by (fastforce intro: order_trans)

lemma session_step_safe:
  assumes "session_step False c d" and "session_safe c"
  shows "session_safe d"
  using assms
proof cases
  case (begin_step k s task t fl u)
  then show ?thesis
    using assms(2) begin_claim_Inr [OF begin_step(3)] by (auto simp: session_safe_def)
next
  case (commit_step u task fl s)
  then obtain r where "lookup t_id (t_id task) (tasks s) = Some r" "t_openings task \<le> t_openings r"
    using assms(2) by (auto simp: session_safe_def)
  then have "claims_ok (snd (claim_tx task u s))"
    using assms(2) commit_step by (intro claim_tx_keeps) (auto simp: session_safe_def)
  then show ?thesis
    using session_safe_grow [OF _ keepsD_snd [OF keeps_growth_flows(1)]] assms(2) commit_step
    by (metis Diff_subset openings_grow_refl set_removeAll)
next
  case (leave_step s fl k u)
  have "openings_grow s (snd (leave k u s))"
    by (rule keepsD_snd [OF keeps_growth_flows(2)]) simp
  moreover have "claims_ok (snd (leave k u s))"
    using assms(2) leave_step keepsD_snd [OF keeps_leave] by (auto simp: session_safe_def)
  ultimately show ?thesis using leave_step assms(2) by (auto intro: session_safe_grow)
next
  case (manage_step d s fl k u b)
  then have "openings_grow s (snd (manageClaims k u d b s))"
    by (intro manageClaims_grows) simp
  moreover have "claims_ok (snd (manageClaims k u d b s))"
    using assms(2) manage_step keepsD_snd [OF keeps_manageClaims] by (auto simp: session_safe_def)
  ultimately show ?thesis using manage_step assms(2) by (auto intro: session_safe_grow)
qed

lemma claim_runs_safe: "claim_runs False c d \<Longrightarrow> session_safe c \<Longrightarrow> session_safe d"
  by (induction rule: claim_runs.induct) (auto intro: session_step_safe)

end
