(* ===== verification/Task_Facts.thy ===== *)
theory Task_Facts
  imports Claims
begin

text \<open>
  \<open>tasks.service.ts\<close>, outside the claim flows: creation copies the division's template into
  rows of its own, the faceted list pages without loss, and retire/revive meet the shared
  lifecycle contract.
\<close>

section \<open>Create\<close>

text \<open>The copies, with the ids they get.\<close>

fun copies :: "id \<Rightarrow> id \<Rightarrow> question list \<Rightarrow> question list" where
  "copies templateId i [] = []"
| "copies templateId i (q # qs) =
     q\<lparr>qn_id := i, qn_requestTemplateId := templateId\<rparr> # copies templateId (Suc i) qs"

lemma copy_question_run:
  "bnd (copy_question k q) f s =
     f () (questions_update (\<lambda>rs. rs @ [q\<lparr>qn_id := next_id s, qn_requestTemplateId := k\<rparr>])
             (s\<lparr>next_id := Suc (next_id s)\<rparr>))"
  by (cases q) (simp add: copy_question_def op_simps)

lemma copy_loop_run:
  "for_each qs (copy_question k) s =
     (Inr (), questions_update (\<lambda>rs. rs @ copies k (next_id s) qs)
                (s\<lparr>next_id := next_id s + length qs\<rparr>))"
proof (induction qs arbitrary: s)
  case (Cons q qs)
  then show ?case by (simp add: copy_question_run o_def)
qed (simp add: op_simps)

lemma copy_loop_bnd [op_simps]:
  "bnd (for_each qs (copy_question k)) f s =
     f () (questions_update (\<lambda>rs. rs @ copies k (next_id s) qs)
             (s\<lparr>next_id := next_id s + length qs\<rparr>))"
  by (simp add: bnd_def copy_loop_run)

lemma copies_content:
  "map (\<lambda>q. (qn_ordinal q, qn_type q, qn_prompt q, qn_required q, qn_constraints q)) (copies k i qs) =
   map (\<lambda>q. (qn_ordinal q, qn_type q, qn_prompt q, qn_required q, qn_constraints q)) qs"
  by (induction k i qs rule: copies.induct) auto

lemma copies_owner: "q \<in> set (copies k i qs) \<Longrightarrow> qn_requestTemplateId q = k \<and> i \<le> qn_id q"
  by (induction k i qs rule: copies.induct) (auto dest: Suc_leD)

lemma copies_distinct: "distinct (map qn_id (copies k i qs))"
proof (induction k i qs rule: copies.induct)
  case (2 k i q qs)
  then show ?case using copies_owner [of _ k "Suc i" qs] by fastforce
qed simp

definition new_task ::
  "state \<Rightarrow> division \<Rightarrow> id \<Rightarrow> string \<Rightarrow> string option \<Rightarrow> id option \<Rightarrow> task" where
  "new_task s division actorUserId name description teamId =
     \<lparr>t_id = next_id s, t_organizationId = d_organizationId division, t_name = name,
      t_description = (case description of None \<Rightarrow> '''' | Some d \<Rightarrow> d),
      t_divisionId = d_id division, t_teamId = teamId, t_requesterUserId = actorUserId,
      t_openings = d_defaultOpenings division, t_claimsClosed = False,
      t_statusCache = Some (computeStatusCache 0 (d_defaultOpenings division) False),
      t_lifecycleState = active, t_retiredAt = None, t_version = 0,
      t_createdAt = clock s, t_updatedAt = clock s\<rparr>"

lemma division_found:
  "distinct (map d_id ds) \<Longrightarrow> d \<in> set ds \<Longrightarrow>
   List.find (\<lambda>q. d_id q = d_id d \<and> d_organizationId q = d_organizationId d) ds = Some d"
  by (induction ds) (auto simp: image_iff)

lemma check_team_None [op_simps]: "bnd (check_team org None) f s = f () s"
  by (simp add: check_team_def op_simps)

lemma tasks_create_ok:
  assumes "distinct (map d_id (divisions s))" and "division \<in> set (divisions s)"
    and "d_lifecycleState division \<noteq> retired"
    and "template_of_division (d_id division) s = Some source"
  shows "\<exists>t. tasks_create (d_organizationId division) actor name desc (d_id division) None s =
           (Inr (task_toView (new_task s division actor name desc None) []), t) \<and>
         tasks t = tasks s @ [new_task s division actor name desc None] \<and>
         templates t = templates s @
           [\<lparr>rt_id = Suc (next_id s), rt_organizationId = d_organizationId division,
             rt_ownerDivisionId = None, rt_ownerTaskId = Some (next_id s), rt_updatedAt = clock s\<rparr>] \<and>
         questions t = questions s @
           copies (Suc (next_id s)) (Suc (Suc (next_id s))) (questions_of (rt_id source) s)"
  using division_found [OF assms(1,2)] assms(3,4)
  by (simp add: tasks_create_def op_simps Let_def new_task_def)

text \<open>The copy owns its questions: they are the division's, in order, under ids of their own.\<close>

lemma questions_of_copies:
  assumes "\<forall>q \<in> set (questions s). qn_requestTemplateId q \<noteq> k"
    and "questions t = questions s @ copies k i (questions_of j s)"
  shows "map (\<lambda>q. (qn_ordinal q, qn_type q, qn_prompt q, qn_required q, qn_constraints q))
           (questions_of k t) =
         map (\<lambda>q. (qn_ordinal q, qn_type q, qn_prompt q, qn_required q, qn_constraints q))
           (questions_of j s)"
proof -
  have "filter (\<lambda>q. qn_requestTemplateId q = k) (copies k i (questions_of j s)) =
      copies k i (questions_of j s)"
    using copies_owner by (fastforce simp: filter_id_conv)
  moreover have "filter (\<lambda>q. qn_requestTemplateId q = k) (questions s) = []"
    using assms(1) by (simp add: filter_empty_conv)
  moreover have "sort_key qn_ordinal (copies k i (questions_of j s)) = copies k i (questions_of j s)"
  proof (rule sort_key_id_if_sorted)
    have "map qn_ordinal (copies k i (questions_of j s)) = map qn_ordinal (questions_of j s)"
      using arg_cong [OF copies_content [of k i "questions_of j s"], of "map fst"]
      by (simp add: o_def)
    then show "sorted (map qn_ordinal (copies k i (questions_of j s)))"
      by (simp add: questions_of_def)
  qed
  ultimately have "questions_of k t = copies k i (questions_of j s)"
    by (simp add: questions_of_def [of k] assms(2))
  then show ?thesis by (simp add: copies_content)
qed

section \<open>List\<close>

definition task_rows :: "id \<times> list_tasks_query \<Rightarrow> state \<Rightarrow> task_view list" where
  "task_rows q s =
     map (\<lambda>t. task_toView t (activeClaimantIds (t_id t) s))
       (newest_first t_id (filter (task_where (fst q) (snd q) s) (tasks s)))"

definition tasks_fetch ::
  "id \<times> list_tasks_query \<Rightarrow> nat \<Rightarrow> state \<Rightarrow> id option \<Rightarrow> task_view list \<times> id option" where
  "tasks_fetch q limit s after =
     tasks_list (fst q) ((snd q)\<lparr>lq_after := after, lq_limit := limit\<rparr>) s"

lemma task_where_cursor:
  fixes q :: list_tasks_query
  shows "task_where org (q\<lparr>lq_after := a, lq_limit := n\<rparr>) = task_where org q"
  by (simp add: task_where_def fun_eq_iff cong: option.case_cong)

interpretation task_pages:
  keyset task_rows tv_id "\<lambda>a b. b < a" tasks_fetch "\<lambda>s. distinct (map t_id (tasks s))"
proof unfold_locales
  fix s :: state and q
  assume "distinct (map t_id (tasks s))"
  then show "sorted_wrt (\<lambda>p r. tv_id r < tv_id p) (task_rows q s)"
    using newest_first_ordered [OF distinct_map_filter_key]
    by (simp add: task_rows_def sorted_wrt_map task_toView_def)
next
  fix limit :: nat and q and s and after :: "id option"
  assume "0 < limit"
  have v: "tv_id (task_toView t us) = t_id t" for t us by (simp add: task_toView_def)
  show "tasks_fetch q limit s after =
     page limit tv_id (take (limit + 1)
       (filter (\<lambda>r. case after of None \<Rightarrow> True | Some a \<Rightarrow> tv_id r < a) (task_rows q s)))"
    using page_map [OF \<open>0 < limit\<close>, of tv_id
        "\<lambda>t. task_toView t (activeClaimantIds (t_id t) s)" t_id] v
    by (simp add: tasks_fetch_def tasks_list_def task_rows_def Let_def v
        task_where_cursor filter_map o_def take_map filter_newest_first conj_commute
        cong: option.case_cong)
qed auto

section \<open>Retire and revive\<close>

definition task_window :: "id \<Rightarrow> state \<Rightarrow> rat" where
  "task_window k s =
     (case lookup t_id k (tasks s) of None \<Rightarrow> 0 | Some r \<Rightarrow> org_window (t_organizationId r) s)"

lemma load_task_run [op_simps]:
  "bnd (load_task k) f s =
     (case lookup t_id k (tasks s) of
        None \<Rightarrow> (Inl (NotFoundError ''TASK_NOT_FOUND''), s) | Some r \<Rightarrow> f r s)"
  by (simp add: load_task_def op_simps split: option.split)

lemma write_task_run [op_simps]:
  assumes "payload_ok v [(''taskId'', PId (t_id task))]"
    and "lookup t_id (t_id task) (tasks s) = Some r"
  shows "\<exists>view t. write_task task u v f s = (Inr view, t) \<and>
           tasks t = upd_where (\<lambda>q. t_id q = t_id task) (\<lambda>r. (f r)\<lparr>t_updatedAt := clock s\<rparr>) (tasks s) \<and>
           organizations t = organizations s"
  using assms by (simp add: write_task_def op_simps view_with_claimants_def)

interpretation task_lifecycle:
  retirable "\<lambda>i s. lookup t_id i (tasks s)" t_lifecycleState t_retiredAt
    task_window "\<lambda>i s. True" tasks_retire tasks_revive
proof unfold_locales
  fix k u :: id and s :: state and r
  assume r: "lookup t_id k (tasks s) = Some r"
  then have k: "t_id r = k" by (simp add: lookup_SomeD)
  note simps = tasks_retire_def tasks_revive_def write_task_def view_with_claimants_def op_simps r
    lookup_upd_same k task_window_def org_window_def
  show "t_lifecycleState r \<noteq> retired \<Longrightarrow>
    \<exists>x t q. tasks_retire k u s = (Inr x, t) \<and> lookup t_id k (tasks t) = Some q \<and>
      t_lifecycleState q = retired \<and> t_retiredAt q = Some (clock s) \<and>
      task_window k t = task_window k s \<and> True"
    by (simp add: simps)
  show "t_lifecycleState r = retired \<Longrightarrow>
    tasks_retire k u s = (Inl (ConflictError ''ALREADY_RETIRED''), s)"
    by (simp add: simps)
  show "isRevivable (t_lifecycleState r) (t_retiredAt r) (task_window k s) (clock s)
    \<Longrightarrow> \<exists>x t q. tasks_revive k u s = (Inr x, t) \<and> lookup t_id k (tasks t) = Some q \<and>
      t_lifecycleState q = active \<and> t_retiredAt q = None \<and> True"
    by (simp add: simps)
  show "\<not> isRevivable (t_lifecycleState r) (t_retiredAt r) (task_window k s) (clock s)
    \<Longrightarrow> tasks_revive k u s = (Inl (ConflictError ''NOT_REVIVABLE''), s)"
    by (simp add: simps)
qed (simp_all add: task_window_def org_window_def window_nonneg split: option.split)

end
