(* ===== verification/Templates.thy ===== *)
theory Templates
  imports Task_Facts
begin

text \<open>
  \<open>request-templates/request-templates.service.ts\<close>: a division's default template (upserted in
  place) and a task's copy, which is rewritten in place until a submission locks it.
\<close>

record question_input =
  qi_type :: question_type
  qi_prompt :: string
  qi_required :: bool
  qi_constraints :: constraints

type_synonym template_view = "request_template \<times> question list"

definition template_of_task :: "id \<Rightarrow> state \<Rightarrow> request_template option" where
  "template_of_task k s = List.find (\<lambda>r. rt_ownerTaskId r = Some k) (templates s)"

definition getForDivision :: "id \<Rightarrow> state \<Rightarrow> template_view option" where
  "getForDivision divisionId s =
     map_option (\<lambda>rt. (rt, questions_of (rt_id rt) s)) (template_of_division divisionId s)"

definition getForTask :: "id \<Rightarrow> state \<Rightarrow> template_view option" where
  "getForTask taskId s =
     map_option (\<lambda>rt. (rt, questions_of (rt_id rt) s)) (template_of_task taskId s)"

definition insert_question :: "id \<Rightarrow> nat \<times> question_input \<Rightarrow> unit svc" where
  "insert_question templateId oq =
     bnd fresh_id (\<lambda>i.
     create_row questions_update
       \<lparr>qn_id = i, qn_requestTemplateId = templateId, qn_ordinal = fst oq,
        qn_type = qi_type (snd oq), qn_prompt = qi_prompt (snd oq),
        qn_required = qi_required (snd oq), qn_constraints = qi_constraints (snd oq)\<rparr>)"

definition insert_questions :: "id \<Rightarrow> question_input list \<Rightarrow> unit svc" where
  "insert_questions templateId qs = for_each (enumerate 0 qs) (insert_question templateId)"

definition touch_template :: "id \<Rightarrow> request_template svc" where
  "touch_template k =
     bnd now (\<lambda>t. update_row templates templates_update rt_id k (\<lambda>r. r\<lparr>rt_updatedAt := t\<rparr>))"

text \<open>\<open>question.deleteMany\<close>: an answer restricts the deletion of its question
  (\<open>onDelete: Restrict\<close>), whatever has become of its submission.\<close>

definition answered_templates :: "state \<Rightarrow> id set" where
  "answered_templates s =
     qn_requestTemplateId ` set (filter (\<lambda>q. qn_id q \<in> set (map an_questionId (answers s))) (questions s))"

definition delete_questions :: "id \<Rightarrow> unit svc" where
  "delete_questions templateId =
     bnd (gets (\<lambda>s. templateId \<in> answered_templates s)) (\<lambda>answered.
     bnd (check (\<not> answered) ForeignKeyViolation) (\<lambda>_.
     delete_many questions_update (\<lambda>q. qn_requestTemplateId q = templateId)))"

definition view_template :: "id \<Rightarrow> template_view svc" where
  "view_template k =
     bnd (find_unique_or_throw templates rt_id k) (\<lambda>rt.
     gets (\<lambda>s. (rt, questions_of k s)))"

definition putForTask :: "id \<Rightarrow> id \<Rightarrow> question_input list \<Rightarrow> template_view svc" where
  "putForTask taskId actorUserId qs =
     bnd (find_unique tasks t_id taskId) (\<lambda>found.
     bnd (need found (NotFoundError ''TASK_NOT_FOUND'')) (\<lambda>task.
     bnd (gets (template_of_task taskId)) (\<lambda>foundTemplate.
     bnd (need foundTemplate (NotFoundError ''REQUEST_TEMPLATE_NOT_FOUND'')) (\<lambda>requestTemplate.
     bnd (gets (\<lambda>s. count_where (\<lambda>r. s_taskId r = taskId \<and> s_lifecycleState r = active)
                      (submissions s))) (\<lambda>submissionCount.
     bnd (check (\<not> submissionCount > 0) (ConflictError ''REQUEST_TEMPLATE_LOCKED'')) (\<lambda>_.
     transaction (
       bnd (delete_questions (rt_id requestTemplate)) (\<lambda>_.
       bnd (insert_questions (rt_id requestTemplate) qs) (\<lambda>_.
       bnd (touch_template (rt_id requestTemplate)) (\<lambda>_.
       bnd (logActivity (t_organizationId task) (Some actorUserId) ''request_template''
              (rt_id requestTemplate) ''task_request_template.updated''
              [(''requestTemplateId'', PId (rt_id requestTemplate)), (''taskId'', PId taskId),
               (''questionCount'', PInt (int (length qs)))]) (\<lambda>_.
       view_template (rt_id requestTemplate))))))))))))"

definition putForDivision ::
  "id \<Rightarrow> id \<Rightarrow> id \<Rightarrow> question_input list \<Rightarrow> template_view svc" where
  "putForDivision organizationId divisionId actorUserId qs =
     bnd (gets (\<lambda>s. List.find (\<lambda>d. d_id d = divisionId \<and> d_organizationId d = organizationId)
                     (divisions s))) (\<lambda>found.
     bnd (need found (NotFoundError ''DIVISION_NOT_FOUND'')) (\<lambda>division.
     transaction (
       bnd (gets (template_of_division divisionId)) (\<lambda>existing.
       bnd (case existing of
              Some rt \<Rightarrow> ret (rt_id rt)
            | None \<Rightarrow>
                bnd fresh_id (\<lambda>i.
                bnd now (\<lambda>t.
                bnd (create_row templates_update
                       \<lparr>rt_id = i, rt_organizationId = organizationId,
                        rt_ownerDivisionId = Some divisionId, rt_ownerTaskId = None,
                        rt_updatedAt = t\<rparr>) (\<lambda>_.
                ret i)))) (\<lambda>requestTemplateId.
       bnd (if existing \<noteq> None
            then delete_questions requestTemplateId
            else ret ()) (\<lambda>_.
       bnd (insert_questions requestTemplateId qs) (\<lambda>_.
       bnd (touch_template requestTemplateId) (\<lambda>_.
       bnd (logActivity organizationId (Some actorUserId) ''request_template'' requestTemplateId
              ''request_template.updated''
              [(''requestTemplateId'', PId requestTemplateId), (''divisionId'', PId divisionId),
               (''questionCount'', PInt (int (length qs)))]) (\<lambda>_.
       view_template requestTemplateId)))))))))"

section \<open>Rewriting the questions\<close>

fun built :: "id \<Rightarrow> id \<Rightarrow> nat \<Rightarrow> question_input list \<Rightarrow> question list" where
  "built k i n [] = []"
| "built k i n (q # qs) =
     \<lparr>qn_id = i, qn_requestTemplateId = k, qn_ordinal = n, qn_type = qi_type q,
      qn_prompt = qi_prompt q, qn_required = qi_required q, qn_constraints = qi_constraints q\<rparr>
     # built k (Suc i) (Suc n) qs"

lemma insert_question_run:
  "bnd (insert_question k (n, q)) f s =
     f () (questions_update (\<lambda>rs. rs @ built k (next_id s) n [q]) (s\<lparr>next_id := Suc (next_id s)\<rparr>))"
  by (simp add: insert_question_def op_simps)

lemma insert_loop_questions:
  "for_each (enumerate n qs) (insert_question k) s =
     (Inr (), questions_update (\<lambda>rs. rs @ built k (next_id s) n qs)
                (s\<lparr>next_id := next_id s + length qs\<rparr>))"
proof (induction qs arbitrary: n s)
  case (Cons q qs)
  then show ?case by (simp add: insert_question_run o_def)
qed (simp add: op_simps)

lemma insert_questions_run [op_simps]:
  "bnd (insert_questions k qs) f s =
     f () (questions_update (\<lambda>rs. rs @ built k (next_id s) 0 qs)
             (s\<lparr>next_id := next_id s + length qs\<rparr>))"
  by (simp add: insert_questions_def bnd_def insert_loop_questions)

lemma delete_questions_run [op_simps]:
  "bnd (delete_questions k) f s =
     (if k \<in> answered_templates s then (Inl ForeignKeyViolation, s)
      else f () (questions_update (del_where (\<lambda>q. qn_requestTemplateId q = k)) s))"
  by (simp add: delete_questions_def op_simps)

lemma built_owner: "q \<in> set (built k i n qs) \<Longrightarrow> qn_requestTemplateId q = k"
  by (induction k i n qs rule: built.induct) auto

lemma built_ordinals: "map qn_ordinal (built k i n qs) = [n..<n + length qs]"
proof (induction k i n qs rule: built.induct)
  case (2 k i n q qs)
  then show ?case by (simp add: upt_conv_Cons del: upt_Suc)
qed simp

lemma built_content:
  "map (\<lambda>q. (qn_type q, qn_prompt q, qn_required q, qn_constraints q)) (built k i n qs) =
   map (\<lambda>q. (qi_type q, qi_prompt q, qi_required q, qi_constraints q)) qs"
  by (induction k i n qs rule: built.induct) auto

lemma questions_of_rewritten:
  "questions_of j (questions_update (\<lambda>rs. del_where (\<lambda>q. qn_requestTemplateId q = k) rs @ built k i 0 qs) s) =
     (if j = k then built k i 0 qs else questions_of j s)"
proof (cases "j = k")
  case True
  have "filter (\<lambda>q. qn_requestTemplateId q = k) (built k i 0 qs) = built k i 0 qs"
    using built_owner by (fastforce simp: filter_id_conv)
  moreover have "sort_key qn_ordinal (built k i 0 qs) = built k i 0 qs"
    by (rule sort_key_id_if_sorted) (simp add: built_ordinals)
  moreover have "filter (\<lambda>q. qn_requestTemplateId q \<noteq> k \<and> qn_requestTemplateId q = k) rs = []" for rs :: "question list"
    by (simp add: filter_empty_conv)
  ultimately show ?thesis using True by (simp add: questions_of_def del_where_def)
next
  case False
  then have "filter (\<lambda>q. qn_requestTemplateId q = j) (built k i 0 qs) = []"
    using built_owner by (fastforce simp: filter_empty_conv)
  moreover have "filter (\<lambda>q. qn_requestTemplateId q \<noteq> k \<and> qn_requestTemplateId q = j) rs =
      filter (\<lambda>q. qn_requestTemplateId q = j) rs" for rs :: "question list"
    using False by (intro filter_cong) auto
  ultimately show ?thesis using False by (simp add: questions_of_def del_where_def)
qed

text \<open>A task's copy is frozen by its first submission.\<close>

lemma putForTask_locked:
  assumes "lookup t_id k (tasks s) = Some task" and "template_of_task k s = Some rt"
    and "r \<in> set (submissions s)" and "s_taskId r = k" and "s_lifecycleState r = active"
  shows "putForTask k u qs s = (Inl (ConflictError ''REQUEST_TEMPLATE_LOCKED''), s)"
proof -
  have "count_where (\<lambda>r. s_taskId r = k \<and> s_lifecycleState r = active) (submissions s) \<noteq> 0"
    using assms(3-5) by (auto simp: count_where_0_iff)
  then show ?thesis using assms(1,2) by (simp add: putForTask_def op_simps)
qed

lemma putForTask_ok:
  assumes "lookup t_id k (tasks s) = Some task" and "template_of_task k s = Some rt"
    and "count_where (\<lambda>r. s_taskId r = k \<and> s_lifecycleState r = active) (submissions s) = 0"
    and "rt_id rt \<notin> answered_templates s"
    and "lookup rt_id (rt_id rt) (templates s) = Some rt"
  shows "\<exists>v t. putForTask k u qs s = (Inr v, t) \<and>
           snd v = built (rt_id rt) (next_id s) 0 qs \<and>
           (\<forall>j. questions_of j t = (if j = rt_id rt then snd v else questions_of j s))"
proof -
  let ?f = "\<lambda>rs. del_where (\<lambda>q. qn_requestTemplateId q = rt_id rt) rs @ built (rt_id rt) (next_id s) 0 qs"
  have q: "questions t = ?f (questions s) \<Longrightarrow>
      questions_of j t = (if j = rt_id rt then built (rt_id rt) (next_id s) 0 qs else questions_of j s)"
    for j t
    using questions_of_rewritten [of j "rt_id rt" "next_id s" qs s] by (simp add: questions_of_def)
  show ?thesis
    using assms
    by (simp add: putForTask_def op_simps touch_template_def view_template_def lookup_upd_same q)
qed

text \<open>When every submission has been retired the lock is off, but the answers of the retired
  ones still hold on to their questions: the rewrite fails in the database.\<close>

lemma putForTask_answered:
  assumes "lookup t_id k (tasks s) = Some task" and "template_of_task k s = Some rt"
    and "count_where (\<lambda>r. s_taskId r = k \<and> s_lifecycleState r = active) (submissions s) = 0"
    and "rt_id rt \<in> answered_templates s"
  shows "putForTask k u qs s = (Inl ForeignKeyViolation, s)"
  using assms by (simp add: putForTask_def op_simps)

end
