(* ===== verification/Js_Values.thy ===== *)
theory Js_Values
  imports Schema
begin

text \<open>
  The conversions of the language the submission code uses: \<open>String.prototype.trim\<close>,
  \<open>String(x)\<close> and \<open>Number(x)\<close>. Strings are lists of code units up to 255. A finite number is
  the decimal its shortest printed form denotes, so a value is held exactly.
\<close>

section \<open>Trimming\<close>

definition js_space :: "char \<Rightarrow> bool" where
  "js_space c \<longleftrightarrow> (let n = (of_char c :: nat) in (9 \<le> n \<and> n \<le> 13) \<or> n = 32 \<or> n = 160)"

definition js_trim :: "string \<Rightarrow> string" where
  "js_trim x = rev (dropWhile js_space (rev (dropWhile js_space x)))"

section \<open>Numbers to strings\<close>

fun nat_digits :: "nat \<Rightarrow> string" where
  "nat_digits n = (if n < 10 then [char_of (48 + n)]
                   else nat_digits (n div 10) @ [char_of (48 + n mod 10)])"

declare nat_digits.simps [simp del]

definition int_string :: "int \<Rightarrow> string" where
  "int_string i = (if i < 0 then ''-'' @ nat_digits (nat (- i)) else nat_digits (nat i))"

text \<open>The decimals of a terminating fraction: the least number of places, up to a bound, that
  make it whole.\<close>

fun places :: "nat \<Rightarrow> rat \<Rightarrow> nat option" where
  "places 0 r = (if of_int \<lfloor>r\<rfloor> = r then Some 0 else None)"
| "places (Suc n) r =
     (if of_int \<lfloor>r\<rfloor> = r then Some 0 else map_option Suc (places n (r * 10)))"

fun strip_zeros :: "nat \<Rightarrow> nat \<Rightarrow> nat \<times> nat" where
  "strip_zeros 0 m = (m, 0)"
| "strip_zeros (Suc k) m =
     (if m mod 10 = 0 \<and> m \<noteq> 0 then (case strip_zeros k (m div 10) of (q, e) \<Rightarrow> (q, Suc e))
      else (m, 0))"

text \<open>\<open>Number::toString\<close> on a positive value \<open>0.digits * 10 ^ n\<close>.\<close>

definition digits_string :: "string \<Rightarrow> int \<Rightarrow> string" where
  "digits_string ds n =
     (let k = int (length ds) in
      if k \<le> n \<and> n \<le> 21 then ds @ replicate (nat (n - k)) CHR ''0''
      else if 0 < n \<and> n \<le> 21 then take (nat n) ds @ ''.'' @ drop (nat n) ds
      else if -6 < n \<and> n \<le> 0 then ''0.'' @ replicate (nat (- n)) CHR ''0'' @ ds
      else (let e = (if 0 < n then ''e+'' else ''e-'') @ int_string \<bar>n - 1\<bar>
            in if k = 1 then ds @ e else take 1 ds @ ''.'' @ drop 1 ds @ e))"

definition positive_string :: "rat \<Rightarrow> string" where
  "positive_string r =
     (case places 400 r of
        None \<Rightarrow> ''''
      | Some p \<Rightarrow>
          (case strip_zeros 400 (nat \<lfloor>r * 10 ^ p\<rfloor>) of
             (m, z) \<Rightarrow> (let ds = nat_digits m
                        in digits_string ds (int (length ds) + int z - int p))))"

fun js_String_num :: "jsnum \<Rightarrow> string" where
  "js_String_num NaN = ''NaN''"
| "js_String_num PosInf = ''Infinity''"
| "js_String_num NegInf = ''-Infinity''"
| "js_String_num (Fin r) =
     (if r = 0 then ''0'' else if r < 0 then ''-'' @ positive_string (- r) else positive_string r)"

fun js_join :: "string list \<Rightarrow> string" where
  "js_join [] = ''''"
| "js_join [x] = x"
| "js_join (x # y # xs) = x @ '','' @ js_join (y # xs)"

section \<open>Strings to numbers\<close>

definition digit_val :: "char \<Rightarrow> nat option" where
  "digit_val c =
     (let n = (of_char c :: nat) in
      if 48 \<le> n \<and> n \<le> 57 then Some (n - 48)
      else if 97 \<le> n \<and> n \<le> 102 then Some (n - 87)
      else if 65 \<le> n \<and> n \<le> 70 then Some (n - 55) else None)"

text \<open>The longest run of digits of a base, its value and length, and the rest.\<close>

fun digits :: "nat \<Rightarrow> string \<Rightarrow> nat \<Rightarrow> nat \<Rightarrow> nat \<times> nat \<times> string" where
  "digits base [] acc len = (acc, len, [])"
| "digits base (c # cs) acc len =
     (case digit_val c of
        Some d \<Rightarrow> if d < base then digits base cs (acc * base + d) (Suc len) else (acc, len, c # cs)
      | None \<Rightarrow> (acc, len, c # cs))"

definition sign_of :: "string \<Rightarrow> bool \<times> string" where
  "sign_of x = (case x of
       CHR ''-'' # cs \<Rightarrow> (True, cs)
     | CHR ''+'' # cs \<Rightarrow> (False, cs)
     | _ \<Rightarrow> (False, x))"

definition exponent_part :: "string \<Rightarrow> int option" where
  "exponent_part x =
     (case x of
        [] \<Rightarrow> Some 0
      | c # cs \<Rightarrow>
          if c = CHR ''e'' \<or> c = CHR ''E'' then
            (case sign_of cs of (neg, ds) \<Rightarrow>
             (case digits 10 ds 0 0 of (v, n, rest) \<Rightarrow>
                if n = 0 \<or> rest \<noteq> [] then None else Some (if neg then - int v else int v)))
          else None)"

definition pow10 :: "int \<Rightarrow> rat" where
  "pow10 e = (if 0 \<le> e then 10 ^ nat e else 1 / 10 ^ nat (- e))"

text \<open>\<open>StrUnsignedDecimalLiteral\<close>.\<close>

definition unsigned_decimal :: "string \<Rightarrow> jsnum" where
  "unsigned_decimal x =
     (if x = ''Infinity'' then PosInf
      else case digits 10 x 0 0 of (w, wn, rest) \<Rightarrow>
        (case (case rest of CHR ''.'' # ds \<Rightarrow> digits 10 ds 0 0 | _ \<Rightarrow> (0, 0, rest)) of
           (f, fn, tail) \<Rightarrow>
             if wn = 0 \<and> fn = 0 then NaN
             else case exponent_part tail of
                    None \<Rightarrow> NaN
                  | Some e \<Rightarrow> Fin ((of_nat w + of_nat f / 10 ^ fn) * pow10 e)))"

definition radix_literal :: "nat \<Rightarrow> string \<Rightarrow> jsnum" where
  "radix_literal base x =
     (case digits base x 0 0 of (v, n, rest) \<Rightarrow>
        if n = 0 \<or> rest \<noteq> [] then NaN else Fin (of_nat v))"

definition js_Number_string :: "string \<Rightarrow> jsnum" where
  "js_Number_string s0 =
     (let x = js_trim s0 in
      if x = '''' then Fin 0
      else if take 2 x \<in> {''0x'', ''0X''} then radix_literal 16 (drop 2 x)
      else if take 2 x \<in> {''0o'', ''0O''} then radix_literal 8 (drop 2 x)
      else if take 2 x \<in> {''0b'', ''0B''} then radix_literal 2 (drop 2 x)
      else case sign_of x of (neg, y) \<Rightarrow>
        (case unsigned_decimal y of
           Fin r \<Rightarrow> Fin (if neg then - r else r)
         | PosInf \<Rightarrow> if neg then NegInf else PosInf
         | n \<Rightarrow> n))"

section \<open>The polymorphic answer value of the submit DTO\<close>

datatype dto_value = VStr string | VNum jsnum | VArr "string list"

fun js_String :: "dto_value \<Rightarrow> string" where
  "js_String (VStr x) = x"
| "js_String (VNum n) = js_String_num n"
| "js_String (VArr xs) = js_join xs"

fun js_Number :: "dto_value \<Rightarrow> jsnum" where
  "js_Number (VNum n) = n"
| "js_Number v = js_Number_string (js_String v)"

lemma js_Number_blank: "js_trim x = '''' \<Longrightarrow> js_Number (VStr x) = Fin 0"
  by (simp add: js_Number_string_def)

lemma digits_splits:
  "digits base xs acc len = (v, n, rest) \<Longrightarrow> length rest + n = length xs + len \<and> len \<le> n"
  by (induction base xs acc len rule: digits.induct) (auto split: option.splits if_splits)

end
