(* ===== verification/Validate.thy ===== *)
theory Validate
  imports Store Js_Values
begin

text \<open>
  \<open>request-templates/validate-submission.ts\<close>: the pure check of a set of answers against a
  template's questions, as an error list, and the declarative reading of it. The attachment
  lookup is an argument, as in the code.
\<close>

record answer =
  aw_questionId :: id
  aw_text :: "string option"
  aw_number :: "jsnum option"
  aw_selected :: "string list option"
  aw_attachmentIds :: "id list option"

type_synonym attachment_meta = "string \<times> attachment_kind"

fun kind_name :: "attachment_kind \<Rightarrow> string" where
  "kind_name ak_image = ''image''"
| "kind_name ak_text = ''text''"
| "kind_name ak_audio = ''audio''"
| "kind_name ak_model = ''model''"
| "kind_name ak_other = ''other''"

definition is_text :: "question_type \<Rightarrow> bool" where
  "is_text t \<longleftrightarrow> t = detail_text \<or> t = multiline \<or> t = text_q"

definition is_choice :: "question_type \<Rightarrow> bool" where
  "is_choice t \<longleftrightarrow> t = dropdown \<or> t = radio"

fun isEmpty :: "question \<Rightarrow> answer option \<Rightarrow> bool" where
  "isEmpty q None = True"
| "isEmpty q (Some a) =
     (if is_text (qn_type q) then
        (case aw_text a of None \<Rightarrow> True | Some x \<Rightarrow> length (js_trim x) = 0)
      else if qn_type q = numeric then aw_number a = None
      else if is_choice (qn_type q) then
        (case aw_selected a of None \<Rightarrow> True | Some xs \<Rightarrow> length xs = 0)
      else (case aw_attachmentIds a of None \<Rightarrow> True | Some xs \<Rightarrow> length xs = 0))"

definition text_errors :: "constraints \<Rightarrow> string \<Rightarrow> verror_code list" where
  "text_errors c x =
     (case k_minChars c of None \<Rightarrow> [] | Some m \<Rightarrow> if int (length x) < m then [too_short] else []) @
     (case k_maxChars c of None \<Rightarrow> [] | Some m \<Rightarrow> if int (length x) > m then [too_long] else [])"

definition number_errors :: "constraints \<Rightarrow> rat \<Rightarrow> verror_code list" where
  "number_errors c x =
     (if k_integer c \<and> of_int \<lfloor>x\<rfloor> \<noteq> x then [not_integer] else []) @
     (case k_min c of None \<Rightarrow> [] | Some m \<Rightarrow> if x < m then [out_of_range] else []) @
     (case k_max c of None \<Rightarrow> [] | Some m \<Rightarrow> if x > m then [out_of_range] else [])"

definition choice_errors :: "constraints \<Rightarrow> string list \<Rightarrow> verror_code list" where
  "choice_errors c xs =
     map (\<lambda>_. invalid_option) (filter (\<lambda>v. v \<notin> fst ` set (k_options c)) xs) @
     (if \<not> k_multi c \<and> length xs > 1 then [multi_not_allowed] else []) @
     (case k_minSelect c of None \<Rightarrow> [] | Some m \<Rightarrow> if int (length xs) < m then [too_few_selected] else []) @
     (case k_maxSelect c of None \<Rightarrow> [] | Some m \<Rightarrow> if int (length xs) > m then [too_many_selected] else [])"

definition validateAnswer :: "question \<Rightarrow> answer \<Rightarrow> verror list" where
  "validateAnswer q a =
     map (Pair (qn_id q))
       (if is_text (qn_type q) then
          (case aw_text a of None \<Rightarrow> [wrong_type] | Some x \<Rightarrow> text_errors (qn_constraints q) x)
        else if qn_type q = numeric then
          (case aw_number a of
             Some (Fin x) \<Rightarrow> number_errors (qn_constraints q) x
           | _ \<Rightarrow> [wrong_type])
        else if is_choice (qn_type q) then
          (case aw_selected a of None \<Rightarrow> [wrong_type] | Some xs \<Rightarrow> choice_errors (qn_constraints q) xs)
        else [])"

definition attachment_errors ::
  "string list \<Rightarrow> (id \<Rightarrow> attachment_meta option) \<Rightarrow> id \<Rightarrow> verror_code list" where
  "attachment_errors allowed attachmentLookup i =
     (case attachmentLookup i of
        None \<Rightarrow> [attachment_not_found]
      | Some (contentType, kind) \<Rightarrow>
          if allowed \<noteq> [] \<and> contentType \<notin> set allowed \<and> kind_name kind \<notin> set allowed
          then [wrong_attachment_type] else [])"

definition validateAttachment ::
  "question \<Rightarrow> answer \<Rightarrow> (id \<Rightarrow> attachment_meta option) \<Rightarrow> verror list" where
  "validateAttachment q a attachmentLookup =
     (let c = qn_constraints q;
          ids = (case aw_attachmentIds a of None \<Rightarrow> [] | Some xs \<Rightarrow> xs)
      in map (Pair (qn_id q))
           ((case k_maxFiles c of None \<Rightarrow> [] | Some m \<Rightarrow> if int (length ids) > m then [too_many_files] else []) @
            concat (map (attachment_errors (k_allowedTypes c) attachmentLookup) ids)))"

text \<open>\<open>new Map\<close> filled in order: the last answer to a question wins.\<close>

definition byQuestion :: "answer list \<Rightarrow> id \<Rightarrow> answer option" where
  "byQuestion aws k = List.find (\<lambda>a. aw_questionId a = k) (rev aws)"

text \<open>The two passes over one question: the synchronous one and the attachment one.\<close>

definition sync_pass :: "answer list \<Rightarrow> question \<Rightarrow> verror list" where
  "sync_pass aws q =
     (let answer = byQuestion aws (qn_id q) in
      if isEmpty q answer then (if qn_required q then [(qn_id q, required_missing)] else [])
      else validateAnswer q (the answer))"

definition attachment_pass ::
  "answer list \<Rightarrow> (id \<Rightarrow> attachment_meta option) \<Rightarrow> question \<Rightarrow> verror list" where
  "attachment_pass aws attachmentLookup q =
     (if qn_type q \<noteq> attachment_q then []
      else (let answer = byQuestion aws (qn_id q) in
            if isEmpty q answer then []
            else validateAttachment q (the answer) attachmentLookup))"

definition validateSubmission ::
  "question list \<Rightarrow> answer list \<Rightarrow> (id \<Rightarrow> attachment_meta option) \<Rightarrow> verror list" where
  "validateSubmission qs aws attachmentLookup =
     map (\<lambda>a. (aw_questionId a, unknown_question))
       (filter (\<lambda>a. aw_questionId a \<notin> qn_id ` set qs) aws) @
     concat (map (sync_pass aws) qs) @
     concat (map (attachment_pass aws attachmentLookup) qs)"

section \<open>The declarative reading\<close>

definition at_least :: "int option \<Rightarrow> int \<Rightarrow> bool" where
  "at_least m n \<longleftrightarrow> (\<forall>k. m = Some k \<longrightarrow> k \<le> n)"

definition at_most :: "int option \<Rightarrow> int \<Rightarrow> bool" where
  "at_most m n \<longleftrightarrow> (\<forall>k. m = Some k \<longrightarrow> n \<le> k)"

text \<open>When an answer that is not blank is a good answer to a question.\<close>

definition well_answered :: "(id \<Rightarrow> attachment_meta option) \<Rightarrow> question \<Rightarrow> answer \<Rightarrow> bool" where
  "well_answered att q a =
     (let c = qn_constraints q in
      if is_text (qn_type q) then
        (\<exists>x. aw_text a = Some x \<and> at_least (k_minChars c) (int (length x)) \<and>
             at_most (k_maxChars c) (int (length x)))
      else if qn_type q = numeric then
        (\<exists>x. aw_number a = Some (Fin x) \<and> (k_integer c \<longrightarrow> x \<in> \<int>) \<and>
             (\<forall>m. k_min c = Some m \<longrightarrow> m \<le> x) \<and> (\<forall>m. k_max c = Some m \<longrightarrow> x \<le> m))
      else if is_choice (qn_type q) then
        (\<exists>xs. aw_selected a = Some xs \<and> set xs \<subseteq> fst ` set (k_options c) \<and>
              (k_multi c \<or> length xs \<le> 1) \<and> at_least (k_minSelect c) (int (length xs)) \<and>
              at_most (k_maxSelect c) (int (length xs)))
      else
        (\<exists>ids. aw_attachmentIds a = Some ids \<and> at_most (k_maxFiles c) (int (length ids)) \<and>
           (\<forall>i \<in> set ids. \<exists>ct k. att i = Some (ct, k) \<and>
              (k_allowedTypes c = [] \<or> ct \<in> set (k_allowedTypes c) \<or>
               kind_name k \<in> set (k_allowedTypes c)))))"

definition acceptable :: "(id \<Rightarrow> attachment_meta option) \<Rightarrow> question \<Rightarrow> answer option \<Rightarrow> bool" where
  "acceptable att q a \<longleftrightarrow>
     (if isEmpty q a then \<not> qn_required q else well_answered att q (the a))"

lemma text_errors_Nil:
  "text_errors c x = [] \<longleftrightarrow>
     at_least (k_minChars c) (int (length x)) \<and> at_most (k_maxChars c) (int (length x))"
  by (auto simp: text_errors_def at_least_def at_most_def split: option.split)

lemma number_errors_Nil:
  "number_errors c x = [] \<longleftrightarrow>
     (k_integer c \<longrightarrow> x \<in> \<int>) \<and> (\<forall>m. k_min c = Some m \<longrightarrow> m \<le> x) \<and>
     (\<forall>m. k_max c = Some m \<longrightarrow> x \<le> m)"
  by (auto simp: number_errors_def not_less split: option.split elim: Ints_cases)

lemma choice_errors_Nil:
  "choice_errors c xs = [] \<longleftrightarrow>
     set xs \<subseteq> fst ` set (k_options c) \<and> (k_multi c \<or> length xs \<le> 1) \<and>
     at_least (k_minSelect c) (int (length xs)) \<and> at_most (k_maxSelect c) (int (length xs))"
  by (auto simp: choice_errors_def filter_empty_conv at_least_def at_most_def not_less
      split: option.split)

lemma attachment_errors_Nil:
  "attachment_errors allowed att i = [] \<longleftrightarrow>
     (\<exists>ct k. att i = Some (ct, k) \<and> (allowed = [] \<or> ct \<in> set allowed \<or> kind_name k \<in> set allowed))"
  by (auto simp: attachment_errors_def split: option.split)

lemma validateAttachment_Nil:
  "aw_attachmentIds a = Some ids \<Longrightarrow>
   validateAttachment q a att = [] \<longleftrightarrow>
     at_most (k_maxFiles (qn_constraints q)) (int (length ids)) \<and>
     (\<forall>i \<in> set ids. attachment_errors (k_allowedTypes (qn_constraints q)) att i = [])"
  by (auto simp: validateAttachment_def Let_def at_most_def not_less split: option.split)

lemma question_kinds:
  "is_text t \<or> t = numeric \<or> is_choice t \<or> t = attachment_q"
  "is_text t \<Longrightarrow> t \<noteq> attachment_q \<and> t \<noteq> numeric" "is_choice t \<Longrightarrow> t \<noteq> attachment_q \<and> \<not> is_text t"
  by (cases t; simp add: is_text_def is_choice_def)+

lemma validated_question:
  assumes "\<not> isEmpty q (Some a)"
  shows "validateAnswer q a = [] \<and>
           (qn_type q = attachment_q \<longrightarrow> validateAttachment q a att = []) \<longleftrightarrow>
         well_answered att q a"
proof -
  consider "is_text (qn_type q)" | "qn_type q = numeric" | "is_choice (qn_type q)"
    | "qn_type q = attachment_q"
    using question_kinds(1) by blast
  then show ?thesis
  proof cases
    case 1
    then show ?thesis using question_kinds(2) [OF 1]
      by (auto simp: validateAnswer_def well_answered_def text_errors_Nil Let_def split: option.split)
  next
    case 2
    then show ?thesis
      by (auto simp: validateAnswer_def well_answered_def number_errors_Nil is_text_def is_choice_def
          Let_def
          split: option.split jsnum.split)
  next
    case 3
    then show ?thesis using question_kinds(3) [OF 3]
      by (auto simp: validateAnswer_def well_answered_def choice_errors_Nil is_choice_def Let_def
          split: option.split)
  next
    case 4
    then obtain ids where "aw_attachmentIds a = Some ids"
      using assms by (auto simp: is_text_def is_choice_def split: option.splits)
    then show ?thesis using 4
      by (auto simp: validateAnswer_def well_answered_def validateAttachment_Nil
          attachment_errors_Nil is_text_def is_choice_def Let_def)
  qed
qed

lemma validateSubmission_iff:
  "validateSubmission qs aws att = [] \<longleftrightarrow>
     (\<forall>a \<in> set aws. aw_questionId a \<in> qn_id ` set qs) \<and>
     (\<forall>q \<in> set qs. acceptable att q (byQuestion aws (qn_id q)))"
proof -
  have "sync_pass aws q = [] \<and> attachment_pass aws att q = [] \<longleftrightarrow>
      acceptable att q (byQuestion aws (qn_id q))" for q
  proof (cases "byQuestion aws (qn_id q)")
    case (Some a)
    then show ?thesis
      using validated_question [of q a att]
      by (auto simp: acceptable_def sync_pass_def attachment_pass_def simp del: isEmpty.simps)
  qed (simp add: acceptable_def sync_pass_def attachment_pass_def)
  then show ?thesis
    by (auto simp: validateSubmission_def filter_empty_conv)
qed

text \<open>Every reported error names a question of the template or of the answers.\<close>

lemma entry_names:
  "(k, e) \<in> set (validateAnswer q a) \<Longrightarrow> k = qn_id q"
  "(k, e) \<in> set (validateAttachment q a att) \<Longrightarrow> k = qn_id q"
  unfolding validateAnswer_def validateAttachment_def Let_def set_map by blast+

lemma validateSubmission_names:
  "(k, e) \<in> set (validateSubmission qs aws att) \<Longrightarrow>
   k \<in> qn_id ` set qs \<union> aw_questionId ` set aws"
  unfolding validateSubmission_def sync_pass_def attachment_pass_def Let_def
  by (auto simp del: isEmpty.simps split: if_splits dest: entry_names)

end
