(* ===== verification/Submissions.thy ===== *)
theory Submissions
  imports Templates Validate
begin

text \<open>
  \<open>submissions/submissions.service.ts\<close>: submitting answers, reviewing, retiring a submission,
  and the reads. A flow that reads before its transaction is split there (\<open>submit_tx\<close>,
  \<open>review_tx\<close>).
\<close>

section \<open>Inputs and views\<close>

record dto_answer =
  da_questionId :: id
  da_value :: "dto_value option"
  da_attachmentIds :: "id list option"

datatype decision = d_approve | d_return | d_reject

fun decision_name :: "decision \<Rightarrow> string" where
  "decision_name d_approve = ''approve''"
| "decision_name d_return = ''return''"
| "decision_name d_reject = ''reject''"

fun outcome_state :: "decision \<Rightarrow> sub_state" where
  "outcome_state d_approve = ss_approved"
| "outcome_state d_return = ss_revising"
| "outcome_state d_reject = ss_rejected"

fun outcome_verb :: "decision \<Rightarrow> string" where
  "outcome_verb d_approve = ''approved''"
| "outcome_verb d_return = ''returned''"
| "outcome_verb d_reject = ''rejected''"

fun review_decision_type :: "decision \<Rightarrow> string" where
  "review_decision_type d_approve = ''task.reviewed_approved''"
| "review_decision_type d_return = ''task.reviewed_returned''"
| "review_decision_type d_reject = ''task.reviewed_rejected''"

record answer_view =
  wv_id :: id
  wv_questionId :: id
  wv_value :: json
  wv_attachmentIds :: "id list"

record submission_view =
  sv_id :: id
  sv_taskId :: id
  sv_claimantUserId :: id
  sv_submissionNo :: int
  sv_prevSubmissionId :: "id option"
  sv_state :: sub_state
  sv_submittedAt :: time
  sv_reviewedBy :: "id option"
  sv_reviewedAt :: "time option"
  sv_lifecycleState :: lifecycle
  sv_version :: nat
  sv_answers :: "answer_view list"

definition submission_toView :: "state \<Rightarrow> submission \<Rightarrow> submission_view" where
  "submission_toView st r =
     \<lparr>sv_id = s_id r, sv_taskId = s_taskId r, sv_claimantUserId = s_claimantUserId r,
      sv_submissionNo = s_submissionNo r, sv_prevSubmissionId = s_prevSubmissionId r,
      sv_state = s_state r, sv_submittedAt = s_submittedAt r, sv_reviewedBy = s_reviewedBy r,
      sv_reviewedAt = s_reviewedAt r, sv_lifecycleState = s_lifecycleState r,
      sv_version = s_version r,
      sv_answers =
        map (\<lambda>a. \<lparr>wv_id = an_id a, wv_questionId = an_questionId a, wv_value = an_value a,
                   wv_attachmentIds =
                     map at_id (filter (\<lambda>x. at_answerId x = Some (an_id a)) (attachments st))\<rparr>)
          (filter (\<lambda>a. an_submissionId a = s_id r) (answers st))\<rparr>"

definition submissions_get :: "id \<Rightarrow> submission_view svc" where
  "submissions_get i =
     bnd (find_unique submissions s_id i) (\<lambda>found.
     bnd (need found (NotFoundError ''SUBMISSION_NOT_FOUND'')) (\<lambda>row.
     gets (\<lambda>s. submission_toView s row)))"

definition submissions_listForTask :: "id \<Rightarrow> submission_view list svc" where
  "submissions_listForTask taskId =
     bnd (find_unique tasks t_id taskId) (\<lambda>found.
     bnd (need found (NotFoundError ''TASK_NOT_FOUND'')) (\<lambda>_.
     gets (\<lambda>s. map (submission_toView s)
       (sort_key s_claimantUserId (sort_key (\<lambda>r. - s_submissionNo r)
         (filter (\<lambda>r. s_taskId r = taskId \<and> s_lifecycleState r = active) (submissions s)))))))"

section \<open>Submit\<close>

definition toValidatorAnswer :: "question_type option \<Rightarrow> dto_answer \<Rightarrow> answer" where
  "toValidatorAnswer type a =
     (let base = \<lparr>aw_questionId = da_questionId a, aw_text = None, aw_number = None,
                  aw_selected = None, aw_attachmentIds = None\<rparr>;
          as_text = base\<lparr>aw_text := map_option js_String (da_value a)\<rparr>
      in case type of
           None \<Rightarrow> as_text
         | Some t \<Rightarrow>
             if is_text t then as_text
             else if t = numeric then base\<lparr>aw_number := map_option js_Number (da_value a)\<rparr>
             else if is_choice t then
               base\<lparr>aw_selected := (case da_value a of
                      None \<Rightarrow> None
                    | Some (VArr xs) \<Rightarrow> Some xs
                    | Some v \<Rightarrow> Some [js_String v])\<rparr>
             else base\<lparr>aw_attachmentIds := da_attachmentIds a\<rparr>)"

fun json_of :: "dto_value option \<Rightarrow> json" where
  "json_of None = JNull"
| "json_of (Some (VStr x)) = JStr x"
| "json_of (Some (VNum n)) = JNum n"
| "json_of (Some (VArr xs)) = JArr xs"

definition type_of_question :: "question list \<Rightarrow> id \<Rightarrow> question_type option" where
  "type_of_question qs k = map_option qn_type (List.find (\<lambda>q. qn_id q = k) (rev qs))"

definition attachment_lookup :: "id \<Rightarrow> state \<Rightarrow> id \<Rightarrow> attachment_meta option" where
  "attachment_lookup organizationId s i =
     map_option (\<lambda>a. (at_contentType a, at_kind a))
       (List.find (\<lambda>a. at_id a = i \<and> at_organizationId a = organizationId \<and>
                       at_lifecycleState a = active) (attachments s))"

definition latest_of :: "id \<Rightarrow> id \<Rightarrow> state \<Rightarrow> submission option" where
  "latest_of taskId userId s =
     find_first (\<lambda>r. s_taskId r = taskId \<and> s_claimantUserId r = userId)
       (\<lambda>r. - s_submissionNo r) (submissions s)"

definition save_answer :: "id \<Rightarrow> id \<Rightarrow> dto_answer \<Rightarrow> unit svc" where
  "save_answer organizationId submissionId a =
     bnd fresh_id (\<lambda>i.
     bnd (create_row answers_update
            \<lparr>an_id = i, an_submissionId = submissionId, an_questionId = da_questionId a,
             an_value = json_of (da_value a)\<rparr>) (\<lambda>_.
     case da_attachmentIds a of
       None \<Rightarrow> ret ()
     | Some ids \<Rightarrow>
         if ids = [] then ret ()
         else update_many attachments_update
                (\<lambda>x. at_id x \<in> set ids \<and> at_organizationId x = organizationId)
                (\<lambda>x. x\<lparr>at_answerId := Some i, at_messageId := None\<rparr>)))"

definition mark_submitted :: "id \<Rightarrow> id \<Rightarrow> unit svc" where
  "mark_submitted taskId userId =
     bnd (gets (slot_of taskId userId)) (\<lambda>found.
     bnd (need found RecordNotFound) (\<lambda>slot.
     bnd (update_row claimants claimants_update c_id (c_id slot) (\<lambda>r. r\<lparr>c_hasSubmitted := True\<rparr>)) (\<lambda>_.
     ret ())))"

definition create_submission :: "id \<Rightarrow> id \<Rightarrow> int \<Rightarrow> id option \<Rightarrow> submission svc" where
  "create_submission taskId userId submissionNo prev =
     bnd fresh_id (\<lambda>i.
     bnd now (\<lambda>t.
     let row = \<lparr>s_id = i, s_taskId = taskId, s_claimantUserId = userId,
                s_submissionNo = submissionNo, s_prevSubmissionId = prev, s_state = ss_review,
                s_submittedAt = t, s_reviewedBy = None, s_reviewedAt = None,
                s_lifecycleState = active, s_retiredAt = None, s_version = 0\<rparr> in
     bnd (create_row submissions_update row) (\<lambda>_. ret row)))"

definition next_version :: "id \<Rightarrow> id \<Rightarrow> (int \<times> id option) svc" where
  "next_version taskId userId =
     bnd (gets (latest_of taskId userId)) (\<lambda>latest.
     case latest of
       None \<Rightarrow> ret (1, None)
     | Some l \<Rightarrow>
         if s_lifecycleState l = active then
           bnd (check (s_state l = ss_revising) (ConflictError ''ALREADY_SUBMITTED'')) (\<lambda>_.
           ret (s_submissionNo l + 1, Some (s_id l)))
         else ret (s_submissionNo l + 1, None))"

definition submit_tx :: "task \<Rightarrow> id \<Rightarrow> dto_answer list \<Rightarrow> submission_view svc" where
  "submit_tx task actorUserId dto =
     bnd (transaction (
       bnd (next_version (t_id task) actorUserId) (\<lambda>(submissionNo, prev).
       bnd (create_submission (t_id task) actorUserId submissionNo prev) (\<lambda>sub.
       bnd (for_each dto (save_answer (t_organizationId task) (s_id sub))) (\<lambda>_.
       bnd (mark_submitted (t_id task) actorUserId) (\<lambda>_.
       bnd (createSystemMessage (t_id task)
              [Lit ''User '', Ref actorUserId, Lit '' submitted version '',
               Lit (int_string submissionNo), Lit ''.''] (Some (s_id sub)) None) (\<lambda>_.
       bnd (recompute (t_id task)) (\<lambda>_.
       bnd (logActivity (t_organizationId task) (Some actorUserId) ''submission'' (s_id sub)
              ''submission.submitted''
              [(''taskId'', PId (t_id task)), (''submissionId'', PId (s_id sub)),
               (''claimantUserId'', PId actorUserId), (''submissionNo'', PInt submissionNo)]) (\<lambda>_.
       bnd (requesterId (t_id task)) (\<lambda>requester.
       bnd (emit
              \<lparr>ev_organizationId = t_organizationId task, ev_type = ''task.submitted'',
               ev_subjectType = ''submission'', ev_subjectId = s_id sub,
               ev_senderUserId = Some actorUserId, ev_recipientUserIds = [Some requester],
               ev_payload = [(''taskId'', PId (t_id task)), (''submissionId'', PId (s_id sub)),
                             (''actorUserId'', PId actorUserId)],
               ev_eventSeq = None\<rparr>) (\<lambda>us.
       bnd (find_unique_or_throw submissions s_id (s_id sub)) (\<lambda>row.
       bnd (gets (\<lambda>s. submission_toView s row)) (\<lambda>view.
       ret (view, us)))))))))))))) (\<lambda>(view, us).
     bnd (publish us) (\<lambda>_. ret view))"

definition submit :: "id \<Rightarrow> id \<Rightarrow> dto_answer list \<Rightarrow> submission_view svc" where
  "submit taskId actorUserId dto =
     bnd (load_active_task taskId) (\<lambda>task.
     bnd (gets (slot_of taskId actorUserId)) (\<lambda>slot.
     bnd (check (case slot of None \<Rightarrow> False | Some c \<Rightarrow> c_leftAt c = None)
            (ConflictError ''NOT_CLAIMED'')) (\<lambda>_.
     bnd (gets (template_of_task taskId)) (\<lambda>found.
     bnd (need found (NotFoundError ''REQUEST_TEMPLATE_NOT_FOUND'')) (\<lambda>requestTemplate.
     bnd (gets (questions_of (rt_id requestTemplate))) (\<lambda>qs.
     bnd (gets (attachment_lookup (t_organizationId task))) (\<lambda>att.
     let aws = map (\<lambda>a. toValidatorAnswer (type_of_question qs (da_questionId a)) a) dto;
         errors = validateSubmission qs aws att in
     bnd (check (errors = []) (UnprocessableError ''INVALID_SUBMISSION'' errors)) (\<lambda>_.
     submit_tx task actorUserId dto))))))))"

section \<open>Review\<close>

definition load_submission :: "id \<Rightarrow> (submission \<times> id) svc" where
  "load_submission i =
     bnd (find_unique submissions s_id i) (\<lambda>found.
     bnd (need found (NotFoundError ''SUBMISSION_NOT_FOUND'')) (\<lambda>r.
     bnd (find_unique_or_throw tasks t_id (s_taskId r)) (\<lambda>task.
     ret (r, t_organizationId task))))"

definition m1_of :: "id \<Rightarrow> id \<Rightarrow> state \<Rightarrow> message option" where
  "m1_of taskId submissionId s =
     find_first (\<lambda>m. m_taskId m = taskId \<and> m_submissionId m = Some submissionId \<and>
                     m_parentMessageId m = None \<and> m_kind m = system_msg)
       m_createdAt (messages s)"

definition move_version :: "submission \<Rightarrow> id \<Rightarrow> sub_state \<Rightarrow> unit svc" where
  "move_version sub actorUserId new =
     bnd now (\<lambda>t.
     bnd (gets (\<lambda>s. count_where (\<lambda>r. s_id r = s_id sub \<and> s_version r = s_version sub) (submissions s))) (\<lambda>n.
     bnd (update_many submissions_update (\<lambda>r. s_id r = s_id sub \<and> s_version r = s_version sub)
            (\<lambda>r. r\<lparr>s_state := new, s_reviewedBy := Some actorUserId, s_reviewedAt := Some t,
                   s_version := s_version r + 1\<rparr>)) (\<lambda>_.
     check (n \<noteq> 0) (ConflictError ''STALE_SUBMISSION''))))"

definition review_tx :: "submission \<Rightarrow> id \<Rightarrow> id \<Rightarrow> decision \<Rightarrow> string option \<Rightarrow> submission_view svc" where
  "review_tx sub orgId actorUserId dec rcomment =
     bnd (transaction (
       bnd (move_version sub actorUserId (outcome_state dec)) (\<lambda>_.
       bnd (gets (m1_of (s_taskId sub) (s_id sub))) (\<lambda>m1.
       bnd (createSystemMessage (s_taskId sub)
              [Lit ''Reviewer '', Ref actorUserId, Lit '' '', Lit (outcome_verb dec),
               Lit '' version '', Lit (int_string (s_submissionNo sub)), Lit ''.'']
              (Some (s_id sub)) (map_option m_id m1)) (\<lambda>_.
       bnd (case truthy rcomment of
              None \<Rightarrow> ret ()
            | Some c \<Rightarrow>
                bnd (create_message (s_taskId sub) comment (Some actorUserId) (map_option m_id m1)
                       (Some (s_id sub)) [Lit c]) (\<lambda>_. ret ())) (\<lambda>_.
       bnd (recompute (s_taskId sub)) (\<lambda>status.
       bnd (logActivity orgId (Some actorUserId) ''submission'' (s_id sub) ''submission.reviewed''
              [(''taskId'', PId (s_taskId sub)), (''submissionId'', PId (s_id sub)),
               (''decision'', PStr (decision_name dec)),
               (''statusCache'', PStr (status_name status))]) (\<lambda>_.
       emit \<lparr>ev_organizationId = orgId, ev_type = review_decision_type dec,
             ev_subjectType = ''submission'', ev_subjectId = s_id sub,
             ev_senderUserId = Some actorUserId,
             ev_recipientUserIds = [Some (s_claimantUserId sub)],
             ev_payload = [(''taskId'', PId (s_taskId sub)), (''submissionId'', PId (s_id sub)),
                           (''decision'', PStr (decision_name dec))],
             ev_eventSeq = None\<rparr>))))))))
       (\<lambda>us. bnd (publish us) (\<lambda>_. submissions_get (s_id sub)))"

definition review :: "id \<Rightarrow> id \<Rightarrow> decision \<Rightarrow> string option \<Rightarrow> submission_view svc" where
  "review submissionId actorUserId dec rcomment =
     bnd (load_submission submissionId) (\<lambda>(sub, orgId).
     bnd (check (s_lifecycleState sub \<noteq> retired) (ConflictError ''SUBMISSION_RETIRED'')) (\<lambda>_.
     bnd (check (s_state sub = ss_review) (ConflictError ''INVALID_TRANSITION'')) (\<lambda>_.
     review_tx sub orgId actorUserId dec rcomment)))"

section \<open>Retire\<close>

text \<open>\<open>JSON.stringify\<close> of a string, and the audit message's body.\<close>

definition hex_digit :: "nat \<Rightarrow> char" where
  "hex_digit n = char_of (if n < 10 then 48 + n else 87 + n)"

definition json_char :: "char \<Rightarrow> string" where
  "json_char c =
     (let n = (of_char c :: nat) in
      if n = 34 \<or> n = 92 then [CHR 0x5C, c]
      else if n = 8 then [CHR 0x5C, CHR ''b'']
      else if n = 9 then [CHR 0x5C, CHR ''t'']
      else if n = 10 then [CHR 0x5C, CHR ''n'']
      else if n = 12 then [CHR 0x5C, CHR ''f'']
      else if n = 13 then [CHR 0x5C, CHR ''r'']
      else if n < 32 then [CHR 0x5C, CHR ''u'', CHR ''0'', CHR ''0'',
                           hex_digit (n div 16), hex_digit (n mod 16)]
      else [c])"

definition json_quote :: "string \<Rightarrow> string" where
  "json_quote x = CHR 0x22 # concat (map json_char x) @ [CHR 0x22]"

definition retire_body :: "submission \<Rightarrow> id \<Rightarrow> string \<Rightarrow> frag list" where
  "retire_body sub actorUserId reason =
     [Lit (''{'' @ json_quote ''verb'' @ '':'' @ json_quote ''submission_retired'' @ '','' @
           json_quote ''submissionNo'' @ '':'' @ int_string (s_submissionNo sub) @ '','' @
           json_quote ''claimantUserId'' @ '':'' @ [CHR 0x22]),
      Ref (s_claimantUserId sub),
      Lit ([CHR 0x22] @ '','' @ json_quote ''retiredBy'' @ '':'' @ [CHR 0x22]),
      Ref actorUserId,
      Lit ([CHR 0x22] @ '','' @ json_quote ''reason'' @ '':'' @ json_quote reason @ ''}'')]"

definition retireSubmission :: "id \<Rightarrow> id \<Rightarrow> string \<Rightarrow> submission_view svc" where
  "retireSubmission submissionId actorUserId reason =
     bnd (load_submission submissionId) (\<lambda>(sub, orgId).
     bnd (check (s_lifecycleState sub \<noteq> retired) (ConflictError ''ALREADY_RETIRED'')) (\<lambda>_.
     bnd now (\<lambda>t.
     bnd (transaction (
       bnd (create_message (s_taskId sub) system_msg None None None
              (retire_body sub actorUserId reason)) (\<lambda>_.
       bnd (update_row submissions submissions_update s_id submissionId
              (\<lambda>r. r\<lparr>s_lifecycleState := retired, s_retiredAt := Some t,
                     s_version := s_version r + 1\<rparr>)) (\<lambda>_.
       bnd (update_many messages_update
              (\<lambda>m. m_submissionId m = Some submissionId \<and> m_lifecycleState m = active)
              (\<lambda>m. m\<lparr>m_lifecycleState := retired, m_retiredAt := Some t\<rparr>)) (\<lambda>_.
       bnd (update_many claimants_update
              (\<lambda>c. c_taskId c = s_taskId sub \<and> c_userId c = s_claimantUserId sub)
              (\<lambda>c. c\<lparr>c_hasSubmitted := False\<rparr>)) (\<lambda>_.
       bnd (recompute (s_taskId sub)) (\<lambda>_.
       logActivity orgId (Some actorUserId) ''submission'' submissionId ''submission.retired''
         [(''taskId'', PId (s_taskId sub)), (''submissionId'', PId submissionId),
          (''claimantUserId'', PId (s_claimantUserId sub)), (''reason'', PStr reason)])))))))
       (\<lambda>_. submissions_get submissionId))))"

end
