(* ===== verification/Submission_Facts.thy ===== *)
theory Submission_Facts
  imports Submissions
begin

text \<open>
  The submission lifecycle: versions are numbered and chained, only a claimant's newest version
  can be under review, a review moves exactly one submission out of \<open>review\<close> and loses a race
  cleanly, and the claim invariant survives submitting and retiring.
\<close>

section \<open>The invariant\<close>

definition same_line :: "submission \<Rightarrow> submission \<Rightarrow> bool" where
  "same_line p q \<longleftrightarrow> s_taskId p = s_taskId q \<and> s_claimantUserId p = s_claimantUserId q"

definition versions_distinct :: "submission list \<Rightarrow> bool" where
  "versions_distinct rs \<longleftrightarrow>
     distinct (map (\<lambda>r. (s_taskId r, s_claimantUserId r, s_submissionNo r)) rs) \<and>
     (\<forall>r \<in> set rs. 1 \<le> s_submissionNo r)"

text \<open>An active version that is not the newest of its line was returned.\<close>

definition newest_pending :: "submission list \<Rightarrow> bool" where
  "newest_pending rs \<longleftrightarrow>
     (\<forall>p \<in> set rs. \<forall>q \<in> set rs. same_line p q \<and> s_submissionNo p < s_submissionNo q \<and>
        s_lifecycleState p = active \<longrightarrow> s_state p = ss_revising)"

text \<open>A link points to the version before, of the same line, which was returned.\<close>

definition chained :: "submission list \<Rightarrow> bool" where
  "chained rs \<longleftrightarrow>
     (\<forall>r \<in> set rs. \<forall>k. s_prevSubmissionId r = Some k \<longrightarrow>
        (\<exists>p \<in> set rs. s_id p = k \<and> same_line p r \<and> s_submissionNo p + 1 = s_submissionNo r \<and>
           s_state p = ss_revising))"

definition subs_ok :: "state \<Rightarrow> bool" where
  "subs_ok s \<longleftrightarrow>
     distinct (map s_id (submissions s)) \<and> (\<forall>r \<in> set (submissions s). s_id r < next_id s) \<and>
     versions_distinct (submissions s) \<and> newest_pending (submissions s) \<and> chained (submissions s)"

interpretation subs_inv: quiet_invariant subs_ok
  by unfold_locales (auto simp: subs_ok_def)

lemma subs_cache_free: "cache_free subs_ok"
  by (rule subs_inv.free_of_cache)

lemma keeps_subs_update_task [keeps_intros]: "keeps subs_ok (update_task k f)"
  unfolding update_task_def by (intro keeps_intros keeps_update_row) (simp add: subs_ok_def)

lemma keeps_recompute:
  "(\<And>f. keeps P (update_task k f)) \<Longrightarrow> keeps P (recompute k)"
  unfolding recompute_def Let_def by (intro keeps_intros)

lemma keeps_save_answer:
  assumes "\<And>s n. next_id s \<le> n \<Longrightarrow> P s \<Longrightarrow> P (s\<lparr>next_id := n\<rparr>)"
    and "\<And>s f. P s \<Longrightarrow> P (answers_update f s)" and "\<And>s f. P s \<Longrightarrow> P (attachments_update f s)"
  shows "keeps P (save_answer org k a)"
  unfolding save_answer_def
  by (intro keeps_intros keeps_fresh_id keeps_create_row keeps_update_many) (simp_all add: assms)

lemma keeps_subs_save_answer [keeps_intros]: "keeps subs_ok (save_answer org k a)"
  by (rule keeps_save_answer) (auto simp: subs_ok_def intro: less_le_trans)

lemma keeps_subs_mark [keeps_intros]: "keeps subs_ok (mark_submitted k u)"
  unfolding mark_submitted_def
  by (intro keeps_intros keeps_update_row) (simp add: subs_ok_def)

section \<open>Adding a version\<close>

lemma latest_of_SomeD:
  "latest_of k u s = Some l \<Longrightarrow> l \<in> set (submissions s) \<and> s_taskId l = k \<and> s_claimantUserId l = u"
  unfolding latest_of_def by (drule find_first_in) simp

lemma latest_of_max:
  "latest_of k u s = Some l \<Longrightarrow> r \<in> set (submissions s) \<Longrightarrow> s_taskId r = k \<Longrightarrow>
   s_claimantUserId r = u \<Longrightarrow> s_submissionNo r \<le> s_submissionNo l"
  unfolding latest_of_def by (drule find_first_least [where q = r]) simp_all

lemma latest_of_None:
  "latest_of k u s = None \<Longrightarrow> r \<in> set (submissions s) \<Longrightarrow> \<not> (s_taskId r = k \<and> s_claimantUserId r = u)"
  unfolding latest_of_def by (simp add: find_first_None)

text \<open>What \<open>next_version\<close> guarantees about the number and the link it returns.\<close>

definition next_ok :: "id \<Rightarrow> id \<Rightarrow> state \<Rightarrow> int \<Rightarrow> id option \<Rightarrow> bool" where
  "next_ok k u s n prev \<longleftrightarrow>
     1 \<le> n \<and>
     (\<forall>r \<in> set (submissions s). s_taskId r = k \<and> s_claimantUserId r = u \<longrightarrow>
        s_submissionNo r < n \<and> (s_lifecycleState r = active \<longrightarrow> s_state r = ss_revising)) \<and>
     (\<forall>i. prev = Some i \<longrightarrow> (\<exists>p \<in> set (submissions s). s_id p = i \<and> s_taskId p = k \<and>
        s_claimantUserId p = u \<and> s_submissionNo p + 1 = n \<and> s_state p = ss_revising))"

lemma next_version_ok:
  assumes "subs_ok s" and "next_version k u s = (Inr (n, prev), t)"
  shows "t = s \<and> next_ok k u s n prev"
proof (cases "latest_of k u s")
  case None
  then show ?thesis
    using assms(2) latest_of_None [OF None] by (auto simp: next_version_def op_simps next_ok_def)
next
  case (Some l)
  have l: "l \<in> set (submissions s)" "s_taskId l = k" "s_claimantUserId l = u"
    using latest_of_SomeD [OF Some] by simp_all
  have res: "t = s" "n = s_submissionNo l + 1"
      "s_lifecycleState l = active \<longrightarrow> s_state l = ss_revising \<and> prev = Some (s_id l)"
      "s_lifecycleState l \<noteq> active \<longrightarrow> prev = None"
    using assms(2) by (auto simp: next_version_def op_simps Some split: if_splits)
  have "1 \<le> s_submissionNo l" using assms(1) l by (simp add: subs_ok_def versions_distinct_def)
  moreover have "s_submissionNo r < n \<and> (s_lifecycleState r = active \<longrightarrow> s_state r = ss_revising)"
    if r: "r \<in> set (submissions s)" "s_taskId r = k" "s_claimantUserId r = u" for r
  proof (cases "s_submissionNo r = s_submissionNo l")
    case True
    have inj: "inj_on (\<lambda>r. (s_taskId r, s_claimantUserId r, s_submissionNo r)) (set (submissions s))"
      using assms(1) by (simp add: subs_ok_def versions_distinct_def distinct_map)
    have "r = l" by (rule inj_onD [OF inj]) (use True r l in simp_all)
    then show ?thesis using res by simp
  next
    case False
    then have "s_submissionNo r < s_submissionNo l"
      using latest_of_max [OF Some r] by simp
    then show ?thesis
      using assms(1) r l res(2) by (auto simp: subs_ok_def newest_pending_def same_line_def)
  qed
  ultimately show ?thesis using res l by (auto simp: next_ok_def)
qed

lemma subs_ok_add:
  assumes "subs_ok s" and "next_ok k u s n prev"
    and r: "s_id r = next_id s" "s_taskId r = k" "s_claimantUserId r = u" "s_submissionNo r = n"
      "s_prevSubmissionId r = prev"
  shows "subs_ok (submissions_update (\<lambda>rs. rs @ [r]) (s\<lparr>next_id := Suc (next_id s)\<rparr>))"
proof -
  let ?rs = "submissions s"
  have lt: "q \<in> set ?rs \<Longrightarrow> s_taskId q = k \<Longrightarrow> s_claimantUserId q = u \<Longrightarrow>
      s_submissionNo q < n \<and> (s_lifecycleState q = active \<longrightarrow> s_state q = ss_revising)" for q
    using assms(2) by (simp add: next_ok_def)
  have "distinct (map s_id (?rs @ [r]))" and "\<forall>q \<in> set (?rs @ [r]). s_id q < Suc (next_id s)"
    using assms(1) r(1) by (auto simp: subs_ok_def less_Suc_eq)
  moreover have "versions_distinct (?rs @ [r])"
    using assms(1,2) lt r by (fastforce simp: subs_ok_def versions_distinct_def next_ok_def)
  moreover have "newest_pending (?rs @ [r])"
    unfolding newest_pending_def
  proof (intro ballI impI)
    fix p q
    assume p: "p \<in> set (?rs @ [r])" and q: "q \<in> set (?rs @ [r])"
      and pq: "same_line p q \<and> s_submissionNo p < s_submissionNo q \<and> s_lifecycleState p = active"
    have "p \<in> set ?rs"
      using p q pq lt [of q] r by (auto simp: same_line_def)
    then show "s_state p = ss_revising"
      using q pq lt [of p] r assms(1)
      by (auto simp: subs_ok_def newest_pending_def same_line_def)
  qed
  moreover have "chained (?rs @ [r])"
    using assms(1,2) r by (fastforce simp: subs_ok_def chained_def next_ok_def same_line_def)
  ultimately show ?thesis by (simp add: subs_ok_def)
qed

lemma holds_next_submission:
  assumes ok: "subs_ok s" and rest: "\<And>n r. keeps subs_ok (rest n r)"
  shows "holds subs_ok (bnd (next_version k u) (\<lambda>(n, prev). bnd (create_submission k u n prev) (rest n))) s"
proof (rule holds_bnd)
  show "holds subs_ok (next_version k u) s"
    using ok by (auto simp: holds_def next_version_def op_simps split: option.split)
next
  fix x t
  assume x: "next_version k u s = (Inr x, t)" and t: "subs_ok t"
  obtain n prev where np: "x = (n, prev)" by (cases x)
  then have "t = s" "next_ok k u s n prev" using next_version_ok [OF ok] x by auto
  then have "holds subs_ok (create_submission k u n prev) t"
    using ok subs_ok_add [OF ok, of k u n prev]
    by (simp add: holds_def create_submission_def op_simps Let_def)
  then have "holds subs_ok (bnd (create_submission k u n prev) (rest n)) t"
    by (rule holds_bnd_keeps) (rule rest)
  then show "holds subs_ok (case x of (n, prev) \<Rightarrow> bnd (create_submission k u n prev) (rest n)) t"
    by (simp add: np)
qed

lemma keeps_publish_case:
  "keeps subs_ok (case x of (v, us) \<Rightarrow> bnd (publish us) (\<lambda>_. ret v))"
  by (cases x) (auto intro!: keeps_intros)

lemma keeps_submit_tx: "keeps subs_ok (submit_tx task u dto)"
proof (rule keepsI_holds)
  fix s
  assume ok: "subs_ok s"
  show "holds subs_ok (submit_tx task u dto) s"
    unfolding submit_tx_def
    by (rule holds_bnd_keeps, rule holds_transaction [OF subs_cache_free ok],
        rule holds_next_submission [OF ok])
       (intro keeps_intros keeps_recompute, rule keeps_publish_case)
qed

lemma keeps_submit: "keeps subs_ok (submit k u dto)"
  unfolding submit_def Let_def by (intro keeps_intros keeps_submit_tx)

section \<open>Moving and retiring a version\<close>

lemma upd_submission_distinct:
  assumes "subs_ok s" and "r \<in> set (submissions s)" and "q \<in> set (submissions s)"
  shows "s_id r = s_id q \<longleftrightarrow> r = q"
  using assms by (auto simp: subs_ok_def distinct_map dest: inj_onD)

text \<open>A change of one row's state or lifecycle, keeping ids and numbers. The only change that
  matters to the chain is one that moves a row out of \<open>revising\<close> or back to \<open>active\<close>.\<close>

lemma subs_ok_upd:
  assumes ok: "subs_ok s"
    and f: "\<And>r. s_id (f r) = s_id r" "\<And>r. s_taskId (f r) = s_taskId r"
      "\<And>r. s_claimantUserId (f r) = s_claimantUserId r" "\<And>r. s_submissionNo (f r) = s_submissionNo r"
      "\<And>r. s_prevSubmissionId (f r) = s_prevSubmissionId r"
    and st: "\<And>r. r \<in> set (submissions s) \<Longrightarrow> Q r \<Longrightarrow> s_state r = ss_revising \<Longrightarrow> s_state (f r) = ss_revising"
    and act: "\<And>r. r \<in> set (submissions s) \<Longrightarrow> Q r \<Longrightarrow> s_lifecycleState (f r) = active \<Longrightarrow>
      s_lifecycleState r = active"
  shows "subs_ok (submissions_update (upd_where Q f) s)"
proof -
  let ?g = "\<lambda>r. if Q r then f r else r"
  let ?rs = "submissions s"
  have g: "s_id (?g r) = s_id r" "s_taskId (?g r) = s_taskId r"
    "s_claimantUserId (?g r) = s_claimantUserId r" "s_submissionNo (?g r) = s_submissionNo r"
    "s_prevSubmissionId (?g r) = s_prevSubmissionId r" for r
    using f by simp_all
  have line: "same_line (?g p) (?g q) = same_line p q" for p q using g by (simp add: same_line_def)
  have rev: "r \<in> set ?rs \<Longrightarrow> s_state r = ss_revising \<Longrightarrow> s_state (?g r) = ss_revising" for r
    using st by simp
  have upd: "upd_where Q f ?rs = map ?g ?rs" by (simp add: upd_where_def)
  have ids: "map s_id (map ?g ?rs) = map s_id ?rs" by (auto simp: f)
  then have "distinct (map s_id (map ?g ?rs))" using ok by (simp only: subs_ok_def)
  moreover have "\<forall>r \<in> set (map ?g ?rs). s_id r < next_id s"
    using ok by (auto simp: subs_ok_def f)
  moreover have "versions_distinct (map ?g ?rs)"
  proof -
    let ?k = "\<lambda>r. (s_taskId r, s_claimantUserId r, s_submissionNo r)"
    have "map ?k (map ?g ?rs) = map ?k ?rs" by (auto simp: f)
    then have "distinct (map ?k (map ?g ?rs))"
      using ok by (simp only: subs_ok_def versions_distinct_def)
    then show ?thesis using ok by (auto simp: subs_ok_def versions_distinct_def f)
  qed
  moreover have "newest_pending (map ?g ?rs)"
    unfolding newest_pending_def
  proof (intro ballI impI)
    fix p q
    assume "p \<in> set (map ?g ?rs)" "q \<in> set (map ?g ?rs)"
      and pq: "same_line p q \<and> s_submissionNo p < s_submissionNo q \<and> s_lifecycleState p = active"
    then obtain a b where ab: "a \<in> set ?rs" "b \<in> set ?rs" "p = ?g a" "q = ?g b" by auto
    then have "same_line a b" "s_submissionNo a < s_submissionNo b" "s_lifecycleState a = active"
      using pq line g(4) act [of a] by (auto split: if_splits)
    then have "s_state a = ss_revising"
      using ok ab(1,2) unfolding subs_ok_def newest_pending_def by blast
    then show "s_state p = ss_revising" using rev ab(1,3) by blast
  qed
  moreover have "chained (map ?g ?rs)"
    unfolding chained_def
  proof (intro ballI allI impI)
    fix r k
    assume "r \<in> set (map ?g ?rs)" and prev: "s_prevSubmissionId r = Some k"
    then obtain a where a: "a \<in> set ?rs" "r = ?g a" by auto
    then have "s_prevSubmissionId a = Some k" using prev g(5) by metis
    then obtain p where p: "p \<in> set ?rs" "s_id p = k" "same_line p a"
        "s_submissionNo p + 1 = s_submissionNo a" "s_state p = ss_revising"
      using ok a(1) unfolding subs_ok_def chained_def by blast
    have "same_line (?g p) r" using line p(3) a(2) by blast
    moreover have "s_id (?g p) = k" "s_submissionNo (?g p) + 1 = s_submissionNo r"
      using g p(2,4) a(2) by metis+
    moreover have "s_state (?g p) = ss_revising" using rev p(1,5) by blast
    moreover have "?g p \<in> set (map ?g ?rs)" using p(1) by simp
    ultimately show "\<exists>p \<in> set (map ?g ?rs). s_id p = k \<and> same_line p r \<and>
        s_submissionNo p + 1 = s_submissionNo r \<and> s_state p = ss_revising"
      by blast
  qed
  ultimately show ?thesis by (simp add: subs_ok_def upd)
qed

definition reviewed :: "id \<Rightarrow> sub_state \<Rightarrow> time \<Rightarrow> submission \<Rightarrow> submission" where
  "reviewed u new t r =
     r\<lparr>s_state := new, s_reviewedBy := Some u, s_reviewedAt := Some t, s_version := s_version r + 1\<rparr>"

lemma move_version_run:
  "bnd (move_version sub u new) f s =
     (let t = submissions_update (upd_where (\<lambda>r. s_id r = s_id sub \<and> s_version r = s_version sub)
                (reviewed u new (clock s))) s
      in if \<exists>r \<in> set (submissions s). s_id r = s_id sub \<and> s_version r = s_version sub
         then f () t else (Inl (ConflictError ''STALE_SUBMISSION''), t))"
  using count_where_0_iff [of "\<lambda>r. s_id r = s_id sub \<and> s_version r = s_version sub" "submissions s"]
  by (auto simp: move_version_def op_simps Let_def reviewed_def [abs_def])

lemma load_submission_run [op_simps]:
  "bnd (load_submission k) f s =
     (case lookup s_id k (submissions s) of
        None \<Rightarrow> (Inl (NotFoundError ''SUBMISSION_NOT_FOUND''), s)
      | Some r \<Rightarrow> (case lookup t_id (s_taskId r) (tasks s) of
          None \<Rightarrow> (Inl RecordNotFound, s)
        | Some t \<Rightarrow> f (r, t_organizationId t) s))"
  by (simp add: load_submission_def op_simps split: option.split)

lemma keeps_submissions_get [keeps_intros]: "keeps P (submissions_get k)"
  by (simp add: submissions_get_def keeps_intros)

lemma holds_review_tx:
  assumes ok: "subs_ok s" and sub: "sub \<in> set (submissions s)" and st: "s_state sub = ss_review"
  shows "holds subs_ok (review_tx sub org u d c) s"
proof -
  have moved: "subs_ok (submissions_update (upd_where
      (\<lambda>r. s_id r = s_id sub \<and> s_version r = s_version sub) (reviewed u (outcome_state d) (clock s))) s)"
  proof (rule subs_ok_upd [OF ok])
    fix r
    assume r: "r \<in> set (submissions s)" "s_id r = s_id sub \<and> s_version r = s_version sub"
    then have "r = sub" using upd_submission_distinct [OF ok _ sub] by blast
    then show "s_state r = ss_revising \<Longrightarrow>
        s_state (reviewed u (outcome_state d) (clock s) r) = ss_revising"
      using st by simp
  qed (simp_all add: reviewed_def)
  have tx: "holds subs_ok (bnd (move_version sub u (outcome_state d)) rest) s"
    if rest: "\<And>x. keeps subs_ok (rest x)" for rest :: "unit \<Rightarrow> id list svc"
    using moved rest by (simp add: holds_def move_version_run Let_def keepsD_snd)
  show ?thesis
    unfolding review_tx_def
    by (rule holds_bnd_keeps, rule holds_transaction [OF subs_cache_free ok], rule tx)
       (intro keeps_intros keeps_recompute)+
qed

lemma keeps_review: "keeps subs_ok (review k u d c)"
proof (rule keepsI_holds)
  fix s
  assume ok: "subs_ok s"
  show "holds subs_ok (review k u d c) s"
    using ok holds_review_tx [OF ok] lookup_SomeD [of s_id k "submissions s"]
    by (auto simp: holds_def review_def op_simps split: option.split)
qed

lemma keeps_retireSubmission: "keeps subs_ok (retireSubmission k u reason)"
proof -
  have upd: "keeps subs_ok (update_row submissions submissions_update s_id k
      (\<lambda>r. r\<lparr>s_lifecycleState := retired, s_retiredAt := Some t, s_version := s_version r + 1\<rparr>))" for t
    by (intro keeps_update_row subs_ok_upd) simp_all
  have l: "keeps subs_ok (load_submission k)"
    unfolding load_submission_def by (intro keeps_intros)
  show ?thesis
    unfolding retireSubmission_def
    by (intro keeps_bnd l)
       (auto intro!: keeps_intros upd [simplified] keeps_update_many keeps_recompute subs_cache_free
         simp: subs_ok_def split: prod.split)
qed

section \<open>What a review does\<close>

lemma review_refused:
  assumes "lookup s_id k (submissions s) = Some sub" and "lookup t_id (s_taskId sub) (tasks s) = Some task"
  shows "s_lifecycleState sub = retired \<Longrightarrow>
      review k u d c s = (Inl (ConflictError ''SUBMISSION_RETIRED''), s)"
    and "s_lifecycleState sub \<noteq> retired \<Longrightarrow> s_state sub \<noteq> ss_review \<Longrightarrow>
      review k u d c s = (Inl (ConflictError ''INVALID_TRANSITION''), s)"
  using assms by (simp_all add: review_def op_simps)

lemma stale_review:
  assumes "\<forall>r \<in> set (submissions s). \<not> (s_id r = s_id sub \<and> s_version r = s_version sub)"
  shows "review_tx sub org u d c s = (Inl (ConflictError ''STALE_SUBMISSION''), s)"
proof -
  have "upd_where (\<lambda>r. s_id r = s_id sub \<and> s_version r = s_version sub) f (submissions s) =
      submissions s" for f
    using assms by (auto simp: upd_where_def intro!: map_idI)
  then have same: "submissions_update (upd_where (\<lambda>r. s_id r = s_id sub \<and> s_version r = s_version sub) f) s = s"
    for f by simp
  have "bnd (move_version sub u new) f s =
      (Inl (ConflictError ''STALE_SUBMISSION''),
       submissions_update (upd_where (\<lambda>r. s_id r = s_id sub \<and> s_version r = s_version sub)
         (reviewed u new (clock s))) s)" for new and f :: "unit \<Rightarrow> id list svc"
    unfolding move_version_run Let_def by (rule if_not_P) (use assms in blast)
  then show ?thesis by (simp add: review_tx_def op_simps same)
qed

lemma decision_payload:
  "payload_ok ''submission.reviewed'' [(''taskId'', PId a), (''submissionId'', PId b),
     (''decision'', PStr (decision_name d)), (''statusCache'', PStr x)]"
  by (cases d) (simp_all add: op_simps)

text \<open>One run of the transaction, with the version it was loaded at still in place.\<close>

lemma review_tx_effect:
  assumes ok: "subs_ok s" and sub: "lookup s_id k (submissions s) = Some sub"
    and task: "lookup t_id (s_taskId sub) (tasks s) = Some task"
  shows "\<exists>v t. review_tx sub org u d c s = (Inr v, t) \<and>
           submissions t = upd_where (\<lambda>r. s_id r = s_id sub \<and> s_version r = s_version sub)
             (reviewed u (outcome_state d) (clock s)) (submissions s) \<and>
           claimants t = claimants s \<and> status_current (s_taskId sub) t"
proof -
  have k: "s_id sub = k" "sub \<in> set (submissions s)" using lookup_SomeD [OF sub] by simp_all
  let ?s1 = "submissions_update (upd_where (\<lambda>r. s_id r = s_id sub \<and> s_version r = s_version sub)
             (reviewed u (outcome_state d) (clock s))) s"
  have look: "lookup s_id k (upd_where (\<lambda>r. s_id r = k \<and> s_version r = s_version sub)
             (reviewed u (outcome_state d) (clock s)) (submissions s)) \<noteq> None"
  proof -
    let ?rs = "upd_where (\<lambda>r. s_id r = k \<and> s_version r = s_version sub)
             (reviewed u (outcome_state d) (clock s)) (submissions s)"
    have "map s_id ?rs = map s_id (submissions s)" by (simp add: map_upd_where reviewed_def)
    then have "s_id ` set ?rs = s_id ` set (submissions s)" by (metis list.set_map)
    then show ?thesis using k by (auto simp: lookup_None_iff)
  qed
  have "\<exists>v t. review_tx sub org u d c s = (Inr v, t) \<and> submissions t = submissions ?s1 \<and>
      claimants t = claimants s \<and> tasks t = tasks (restatus (s_taskId sub) ?s1)"
    using k look task
    by (auto simp: review_tx_def op_simps move_version_run Let_def decision_payload
        submissions_get_def restatus_def rolled_status_def slot_states_def active_slots_def
        latest_submission_def split: option.split)
  then obtain v t where t: "review_tx sub org u d c s = (Inr v, t)" "submissions t = submissions ?s1"
      "claimants t = claimants s" "tasks t = tasks (restatus (s_taskId sub) ?s1)" by blast
  have "status_current (s_taskId sub) t = status_current (s_taskId sub) (restatus (s_taskId sub) ?s1)"
    using t by (intro status_current_cong) simp_all
  then show ?thesis using t restatus_current by auto
qed

lemma review_ok:
  assumes ok: "subs_ok s" and sub: "lookup s_id k (submissions s) = Some sub"
    and task: "lookup t_id (s_taskId sub) (tasks s) = Some task"
    and "s_lifecycleState sub \<noteq> retired" and "s_state sub = ss_review"
  shows "\<exists>v t. review k u d c s = (Inr v, t) \<and>
           lookup s_id k (submissions t) = Some (reviewed u (outcome_state d) (clock s) sub) \<and>
           (\<forall>j. j \<noteq> k \<longrightarrow> lookup s_id j (submissions t) = lookup s_id j (submissions s)) \<and>
           status_current (s_taskId sub) t"
proof -
  have k: "s_id sub = k" "sub \<in> set (submissions s)" using lookup_SomeD [OF sub] by simp_all
  obtain v t where t: "review_tx sub (t_organizationId task) u d c s = (Inr v, t)"
      "submissions t = upd_where (\<lambda>r. s_id r = s_id sub \<and> s_version r = s_version sub)
             (reviewed u (outcome_state d) (clock s)) (submissions s)"
      "status_current (s_taskId sub) t"
    using review_tx_effect [OF ok sub task] by blast
  have one: "upd_where (\<lambda>r. s_id r = s_id sub \<and> s_version r = s_version sub) f (submissions s) =
      upd_where (\<lambda>r. s_id r = k) f (submissions s)" for f
    using upd_submission_distinct [OF ok _ k(2)] k(1) by (fastforce simp: upd_where_def)
  have "review k u d c s = (Inr v, t)"
    using assms t(1) by (simp add: review_def op_simps)
  then show ?thesis
    using t(2,3) sub by (simp add: one lookup_upd_same lookup_upd_other reviewed_def)
qed

text \<open>Two reviewers who loaded the same version: the second to commit is refused and changes
  nothing.\<close>

lemma review_race:
  assumes ok: "subs_ok s" and sub: "lookup s_id k (submissions s) = Some sub"
    and task: "lookup t_id (s_taskId sub) (tasks s) = Some task"
    and first: "review_tx sub org u d c s = (Inr v, t)"
  shows "review_tx sub org2 u2 d2 c2 t = (Inl (ConflictError ''STALE_SUBMISSION''), t)"
proof (rule stale_review)
  have k: "s_id sub = k" "sub \<in> set (submissions s)" using lookup_SomeD [OF sub] by simp_all
  have t: "submissions t = upd_where (\<lambda>r. s_id r = s_id sub \<and> s_version r = s_version sub)
             (reviewed u (outcome_state d) (clock s)) (submissions s)"
    using review_tx_effect [OF ok sub task, of org u d c] first by auto
  show "\<forall>r \<in> set (submissions t). \<not> (s_id r = s_id sub \<and> s_version r = s_version sub)"
    unfolding t ball_upd_where using upd_submission_distinct [OF ok _ k(2)]
    by (auto simp: reviewed_def)
qed

section \<open>Slots through the submission flows\<close>

lemma keeps_claims_save_answer [keeps_intros]: "keeps claims_ok (save_answer org k a)"
  by (rule keeps_save_answer)
     (auto simp: claims_ok_def slots_ok_def within_openings_def active_count_def intro: less_le_trans)

lemma claims_ok_flag:
  "claims_ok s \<Longrightarrow> claims_ok (claimants_update (upd_where Q (\<lambda>c. c\<lparr>c_hasSubmitted := b\<rparr>)) s)"
proof -
  assume ok: "claims_ok s"
  let ?f = "\<lambda>c. c\<lparr>c_hasSubmitted := b\<rparr>"
  have "count_where (\<lambda>c. c_taskId c = k \<and> c_leftAt c = None) (upd_where Q ?f cs) =
      count_where (\<lambda>c. c_taskId c = k \<and> c_leftAt c = None) cs" for k cs
    by (induction cs) auto
  moreover have "slots_ok (claimants_update (upd_where Q ?f) s)"
    using ok by (intro slots_ok_slot_upd) (simp_all add: claims_ok_def slot_key_def)
  ultimately show ?thesis
    using ok by (simp add: claims_ok_def within_openings_def active_count_def)
qed

lemma claims_sub_free:
  "claims_ok s \<Longrightarrow> claims_ok (submissions_update f s)"
  by (simp add: claims_ok_def slots_ok_def within_openings_def active_count_def)

lemma keeps_claims_submit: "keeps claims_ok (submit k u dto)"
proof -
  have m: "keeps claims_ok (mark_submitted k u)" for k
    unfolding mark_submitted_def by (intro keeps_intros keeps_update_row claims_ok_flag)
  have c: "keeps claims_ok (create_submission k u n p)" for k n p
    unfolding create_submission_def Let_def
    by (intro keeps_intros keeps_create_row claims_sub_free)
  have n: "keeps claims_ok (next_version k u)" for k
    unfolding next_version_def by (intro keeps_intros)
  show ?thesis
    unfolding submit_def submit_tx_def Let_def
    by (auto intro!: keeps_intros m c n claims_cache_free split: prod.split)
qed

lemma keeps_claims_review: "keeps claims_ok (review k u d c)"
proof -
  have m: "keeps claims_ok (move_version sub u n)" for sub n
    unfolding move_version_def by (intro keeps_intros keeps_update_many claims_sub_free)
  have l: "keeps claims_ok (load_submission k)"
    unfolding load_submission_def by (intro keeps_intros)
  show ?thesis
    unfolding review_def review_tx_def
    by (auto intro!: keeps_intros m l claims_cache_free split: prod.split)
qed

lemma keeps_claims_retireSubmission: "keeps claims_ok (retireSubmission k u reason)"
proof -
  have l: "keeps claims_ok (load_submission k)"
    unfolding load_submission_def by (intro keeps_intros)
  show ?thesis
    unfolding retireSubmission_def
    by (auto intro!: keeps_intros l keeps_update_row keeps_update_many claims_ok_flag claims_sub_free
        claims_inv.message_free claims_cache_free split: prod.split)
qed

end
