(* ===== verification/Histories.thy ===== *)
theory Histories
  imports Submission_Facts
begin

text \<open>
  Everything a user can ask of tasks, templates, messages and submissions, as one type of calls,
  and the invariants that any sequence of calls keeps: slots within openings, submission
  versions in order, one-level threads, a log whose rows all parse. The locale \<open>thread_log\<close>
  carries the invariants that read no table but the threads and the log.
\<close>

datatype call =
  Task_Create id id string "string option" id "id option"
| Task_Edit id id "string option" "string option"
| Task_Retire id id
| Task_Revive id id
| Task_Claim id id
| Task_Leave id id
| Task_Remove_Claimant id id id
| Task_Manage_Claims id id "int option" "bool option"
| Task_Complete id id
| Task_Change_Requester id id id
| Template_Put_Task id id "question_input list"
| Template_Put_Division id id id "question_input list"
| Submission_Submit id id "dto_answer list"
| Submission_Review id id decision "string option"
| Submission_Retire id id string
| Message_Post id id string "id option"
| Message_Edit id id string
| Message_Retire id id
| Message_Revive id id
| Notification_Read id id
| Notification_Read_All id
| Elapse nat

definition elapse :: "nat \<Rightarrow> state \<Rightarrow> state" where
  "elapse n s = clock_update (\<lambda>t. t + int n) s"

fun serve :: "call \<Rightarrow> state \<Rightarrow> state" where
  "serve (Task_Create org u n d k tm) s = snd (tasks_create org u n d k tm s)"
| "serve (Task_Edit k u n d) s = snd (tasks_edit k u n d s)"
| "serve (Task_Retire k u) s = snd (tasks_retire k u s)"
| "serve (Task_Revive k u) s = snd (tasks_revive k u s)"
| "serve (Task_Claim k u) s = snd (claim k u s)"
| "serve (Task_Leave k u) s = snd (leave k u s)"
| "serve (Task_Remove_Claimant k u v) s = snd (removeClaimant k u v s)"
| "serve (Task_Manage_Claims k u d b) s = snd (manageClaims k u d b s)"
| "serve (Task_Complete k u) s = snd (complete k u s)"
| "serve (Task_Change_Requester k u v) s = snd (changeRequester k u v s)"
| "serve (Template_Put_Task k u qs) s = snd (putForTask k u qs s)"
| "serve (Template_Put_Division org d u qs) s = snd (putForDivision org d u qs s)"
| "serve (Submission_Submit k u dto) s = snd (submit k u dto s)"
| "serve (Submission_Review k u d c) s = snd (review k u d c s)"
| "serve (Submission_Retire k u reason) s = snd (retireSubmission k u reason s)"
| "serve (Message_Post k u b p) s = snd (messages_create k u b p s)"
| "serve (Message_Edit k u b) s = snd (messages_update_body k u b s)"
| "serve (Message_Retire k u) s = snd (messages_retire k u s)"
| "serve (Message_Revive k u) s = snd (messages_revive k u s)"
| "serve (Notification_Read u i) s = snd (markRead u i s)"
| "serve (Notification_Read_All u) s = snd (markAllRead u s)"
| "serve (Elapse n) s = elapse n s"

definition serve_all :: "call list \<Rightarrow> state \<Rightarrow> state" where
  "serve_all cs s = fold serve cs s"

lemma serve_all_keeps:
  "(\<And>c s. P s \<Longrightarrow> P (serve c s)) \<Longrightarrow> P s \<Longrightarrow> P (serve_all cs s)"
  unfolding serve_all_def by (induction cs arbitrary: s) simp_all

section \<open>Invariants of the threads and the log\<close>

definition top_level :: "id \<Rightarrow> id option \<Rightarrow> state \<Rightarrow> bool" where
  "top_level tk p s \<longleftrightarrow>
     (\<forall>i. p = Some i \<longrightarrow> (\<exists>q \<in> set (messages s). m_id q = i \<and> m_parentMessageId q = None \<and>
        m_taskId q = tk))"

text \<open>What the tasks' events put in the threads: the bodies of system messages. \<open>K\<close> says which bodies
  of which kind the invariant admits in a message nobody has edited.\<close>

datatype timeline_event =
  Tl_Claimed id | Tl_Left id | Tl_Completed id | Tl_Requester id | Tl_Submitted id int | Tl_Reviewed id decision int
| Tl_Retired submission id string

fun event_body :: "timeline_event \<Rightarrow> frag list" where
  "event_body (Tl_Claimed u) = [Lit ''User '', Ref u, Lit '' claimed this task.'']"
| "event_body (Tl_Left u) = [Lit ''User '', Ref u, Lit '' left this task.'']"
| "event_body (Tl_Completed u) = [Lit ''User '', Ref u, Lit '' marked this task complete.'']"
| "event_body (Tl_Requester u) = [Lit ''Requester changed to user '', Ref u, Lit ''.'']"
| "event_body (Tl_Submitted u n) = [Lit ''User '', Ref u, Lit '' submitted version '', Lit (int_string n), Lit ''.'']"
| "event_body (Tl_Reviewed u d n) =
     [Lit ''Reviewer '', Ref u, Lit '' '', Lit (outcome_verb d), Lit '' version '', Lit (int_string n), Lit ''.'']"
| "event_body (Tl_Retired sub u reason) = retire_body sub u reason"

locale thread_log =
  fixes P :: "state \<Rightarrow> bool" and K :: "message_kind \<Rightarrow> frag list \<Rightarrow> bool"
  assumes fresh: "next_id s \<le> n \<Longrightarrow> P s \<Longrightarrow> P (s\<lparr>next_id := n\<rparr>)"
    and logs: "keeps P (log_activity orgId actor st sid verb p src conn)"
    and posts: "P s \<Longrightarrow> top_level tk pm s \<Longrightarrow> K k b \<Longrightarrow> P (with_message (new_message s tk k sd pm sub b) s)"
    and edits: "P s \<Longrightarrow> (\<And>m. m_id (f m) = m_id m) \<Longrightarrow>
      (\<And>m. m_parentMessageId (f m) = m_parentMessageId m) \<Longrightarrow> (\<And>m. m_taskId (f m) = m_taskId m) \<Longrightarrow>
      (\<And>m. m_editedAt (f m) = None \<Longrightarrow>
        m_editedAt m = None \<and> m_body (f m) = m_body m \<and> m_kind (f m) = m_kind m) \<Longrightarrow>
      P (messages_update (upd_where Q f) s)"
    and comments: "K comment b" and events: "K system_msg (event_body e)"
    and free: "P s \<Longrightarrow> P (tasks_update f1 s)" "P s \<Longrightarrow> P (claimants_update f2 s)"
      "P s \<Longrightarrow> P (submissions_update f3 s)" "P s \<Longrightarrow> P (answers_update f4 s)"
      "P s \<Longrightarrow> P (attachments_update f5 s)" "P s \<Longrightarrow> P (templates_update f6 s)"
      "P s \<Longrightarrow> P (questions_update f7 s)" "P s \<Longrightarrow> P (notifications_update f8 s)"
      "P s \<Longrightarrow> P (pings_update f9 s)" "P s \<Longrightarrow> P (policy_cache_update f10 s)"
      "P s \<Longrightarrow> P (clock_update f11 s)"
begin

lemmas row_intros = keeps_create_row keeps_update_row keeps_update_many keeps_delete_many keeps_modify

lemma free_of_cache [keeps_intros]: "cache_free P"
  unfolding cache_free_def using free(10) [where ?f10.0 = "\<lambda>_. c" for c] by auto

lemma keeps_fresh [keeps_intros]: "keeps P fresh_id"
  by (simp add: keeps_fresh_id fresh)

lemma keeps_log [keeps_intros]: "keeps P (logActivity orgId actor st sid verb p)"
  by (simp add: logActivity_def logs)

lemma keeps_emit [keeps_intros]: "keeps P (emit ev)" "keeps P (publish us)"
proof -
  have "keeps P (insert_notification ev q u)" for q u
    unfolding insert_notification_def by (intro keeps_intros keeps_modify) (simp add: free)
  then show "keeps P (emit ev)" unfolding emit_def by (auto intro!: keeps_intros)
  show "keeps P (publish us)" by (simp add: publish_def keeps_modify free)
qed

lemma keeps_update_task [keeps_intros]: "keeps P (update_task k f)"
  unfolding update_task_def by (intro keeps_intros keeps_update_row free)

lemma keeps_recompute_task [keeps_intros]: "keeps P (recompute k)"
  by (intro keeps_recompute keeps_intros)

lemma event_kinds [keeps_intros]:
  "K system_msg [Lit ''User '', Ref u, Lit '' claimed this task.'']"
  "K system_msg [Lit ''User '', Ref u, Lit '' left this task.'']"
  "K system_msg [Lit ''User '', Ref u, Lit '' marked this task complete.'']"
  "K system_msg [Lit ''Requester changed to user '', Ref u, Lit ''.'']"
  "K system_msg [Lit ''User '', Ref u, Lit '' submitted version '', Lit (int_string n), Lit ''.'']"
  "K system_msg [Lit ''Reviewer '', Ref u, Lit '' '', Lit (outcome_verb d), Lit '' version '', Lit (int_string n), Lit ''.'']"
  "K system_msg (retire_body x u r)"
  using events [of "Tl_Claimed u"] events [of "Tl_Left u"] events [of "Tl_Completed u"] events [of "Tl_Requester u"]
    events [of "Tl_Submitted u n"] events [of "Tl_Reviewed u d n"]
    events [of "Tl_Retired x u r"] by simp_all

lemma keeps_system_message [keeps_intros]:
  "K system_msg b \<Longrightarrow> keeps P (createSystemMessage tk b sub None)"
  by (rule keepsI) (auto simp: op_simps top_level_def intro!: posts)

lemma keeps_task_view [keeps_intros]: "keeps P m \<Longrightarrow> keeps P (publish_view m)"
  unfolding publish_view_def by (auto intro!: keeps_intros split: prod.split)

lemma keeps_slots [keeps_intros]:
  "keeps P (take_slot k u x)" "keeps P (free_slot k u e)" "keeps P (mark_submitted k u)"
  unfolding take_slot_def free_slot_def mark_submitted_def
  by (auto intro!: keeps_intros keeps_create_row keeps_update_row free)

lemma keeps_tail [keeps_intros]: "K system_msg b \<Longrightarrow> keeps P (claim_tail task actor v p b ty sub)"
  unfolding claim_tail_def by (intro keeps_intros)

lemma keeps_write_task' [keeps_intros]: "keeps P (write_task task u v f)"
  unfolding write_task_def by (intro keeps_intros)

lemma keeps_new_openings [keeps_intros]: "keeps P (new_openings task d)"
  unfolding new_openings_def Let_def by (intro keeps_intros)

lemma keeps_task_calls:
  "keeps P (tasks_edit k u n d)" "keeps P (tasks_retire k u)" "keeps P (tasks_revive k u)"
  "keeps P (claim k u)" "keeps P (leave k u)" "keeps P (removeClaimant k u v)"
  "keeps P (manageClaims k u dl b)" "keeps P (complete k u)" "keeps P (changeRequester k u v)"
  unfolding tasks_edit_def tasks_retire_def tasks_revive_def claim_def claim_tx_def leave_def
    leave_tx_def removeClaimant_def manageClaims_def manageClaims_tx_def complete_def
    changeRequester_def
  by (auto intro!: keeps_intros split: prod.split)

lemma keeps_templates [keeps_intros]:
  "keeps P (insert_question k q)" "keeps P (delete_questions k)" "keeps P (touch_template k)"
  "keeps P (view_template k)" "keeps P (copy_question k x)" "keeps P (check_team org tm)"
  unfolding insert_question_def delete_questions_def touch_template_def view_template_def
    copy_question_def check_team_def
  by (auto intro!: keeps_intros keeps_create_row keeps_update_row keeps_delete_many free)

lemma keeps_template_calls:
  "keeps P (tasks_create org u n d k tm)" "keeps P (putForTask k u qs)"
  "keeps P (putForDivision org k u qs)"
  unfolding tasks_create_def putForTask_def putForDivision_def insert_questions_def Let_def
  by (auto intro!: keeps_intros keeps_create_row free)

lemma keeps_submission_steps [keeps_intros]:
  "keeps P (save_answer org k a)" "keeps P (create_submission k u n pv)"
  "keeps P (next_version k u)" "keeps P (move_version sub u st)" "keeps P (load_submission k)"
  unfolding save_answer_def create_submission_def next_version_def move_version_def
    load_submission_def Let_def
  by (auto intro!: keeps_intros keeps_create_row keeps_update_many free)

lemma keeps_thread_submit: "keeps P (submit k u dto)"
  unfolding submit_def submit_tx_def Let_def
  by (auto intro!: keeps_intros split: prod.split)

lemma keeps_message_edit:
  "keeps P (update_row messages messages_update m_id k (\<lambda>m. m\<lparr>m_body := b, m_editedAt := Some e, m_version := v m\<rparr>))"
  "keeps P (update_row messages messages_update m_id k
     (\<lambda>m. m\<lparr>m_lifecycleState := l, m_retiredAt := r, m_version := v m\<rparr>))"
  "keeps P (update_many messages_update Q (\<lambda>m. m\<lparr>m_lifecycleState := l, m_retiredAt := r\<rparr>))"
  by (intro keeps_update_row keeps_update_many edits; simp)+

lemma keeps_retire: "keeps P (retireSubmission k u reason)"
proof -
  have m: "keeps P (create_message tk kd sd None sub b)" if "K kd b" for tk kd sd sub b
    by (rule keepsI) (auto simp: create_message_def op_simps Let_def top_level_def new_message_def
        with_message_def dest: posts [OF _ _ that, of _ tk None sd sub])
  show ?thesis
    unfolding retireSubmission_def
    by (auto intro!: keeps_intros m keeps_message_edit keeps_update_row keeps_update_many free
        split: prod.split)
qed

text \<open>The reviewer's system reply and comment hang under the submission's first message, which is
  top-level on the same task.\<close>

lemma m1_top: "top_level tk (map_option m_id (m1_of tk i s)) s"
proof (cases "m1_of tk i s")
  case (Some m)
  then have "m \<in> set (messages s) \<and> m_taskId m = tk \<and> m_parentMessageId m = None"
    unfolding m1_of_def using find_first_in by fastforce
  then show ?thesis using Some by (auto simp: top_level_def)
qed (simp add: top_level_def)

lemma top_level_post: "top_level tk p s \<Longrightarrow> top_level tk p (with_message m s)"
  by (fastforce simp: top_level_def)

lemma keeps_review_posts:
  assumes "\<And>x. keeps P (rest x)" and "K system_msg b"
  shows "keeps P (bnd (gets (m1_of tk i)) (\<lambda>m1.
      bnd (createSystemMessage tk b sub (map_option m_id m1)) (\<lambda>_.
      bnd (case c of None \<Rightarrow> ret ()
           | Some x \<Rightarrow> bnd (create_message tk comment sd (map_option m_id m1) sub [Lit x]) (\<lambda>_. ret ())) rest)))"
proof (rule keepsI_holds)
  fix s
  assume s: "P s"
  let ?p = "map_option m_id (m1_of tk i s)"
  let ?t = "with_message (new_message s tk system_msg None ?p sub b) s"
  have t: "P ?t" "top_level tk ?p ?t"
    by (rule posts [OF s m1_top assms(2)], rule top_level_post [OF m1_top])
  then have "P (with_message (new_message ?t tk comment sd ?p sub [Lit x]) ?t)" for x
    by (rule posts [OF _ _ comments])
  then show "holds P (bnd (gets (m1_of tk i)) (\<lambda>m1.
      bnd (createSystemMessage tk b sub (map_option m_id m1)) (\<lambda>_.
      bnd (case c of None \<Rightarrow> ret ()
           | Some x \<Rightarrow> bnd (create_message tk comment sd (map_option m_id m1) sub [Lit x]) (\<lambda>_. ret ())) rest))) s"
    using t(1) keepsD_snd [OF assms(1)] by (simp add: holds_def op_simps split: option.split)
qed

lemma keeps_thread_review: "keeps P (review k u d c)"
proof -
  have "keeps P (review_tx sub org u d c)" for sub org
    unfolding review_tx_def
    by (rule keeps_bnd, rule keeps_transaction, rule free_of_cache, rule keeps_bnd,
        rule keeps_submission_steps, rule keeps_review_posts)
       (intro keeps_intros)+
  then show ?thesis
    unfolding review_def by (auto intro!: keeps_intros split: prod.split)
qed

lemma keeps_message_calls:
  "keeps P (messages_update_body k u b)" "keeps P (messages_retire k u)" "keeps P (messages_revive k u)"
  unfolding messages_update_body_def messages_retire_def messages_revive_def write_message_def
  by (auto intro!: keeps_intros keeps_message_edit split: prod.split)

lemma keeps_notifyMessage [keeps_intros]: "keeps P (notifyMessage org tk i u parent)"
  unfolding notifyMessage_def Let_def by (auto intro!: keeps_intros split: option.split prod.split)

lemma keeps_post: "keeps P (messages_create k u b parent)"
proof (rule keepsI_holds)
  fix s
  assume s: "P s"
  have post: "holds P (bnd (create_message k comment (Some u) parent None [Lit b]) rest) s"
    if "top_level k parent s" "\<And>m. keeps P (rest m)" for rest :: "message \<Rightarrow> (message \<times> id list) svc"
    using keepsD_snd [OF that(2) posts [OF s that(1) comments]] by (simp add: holds_def op_simps)
  have top: "top_level k (Some i) s"
    if "lookup m_id i (messages s) = Some m" "m_taskId m = k" "m_parentMessageId m = None" for i m
    using that lookup_SomeD [OF that(1)] by (auto simp: top_level_def)
  have rest: "holds P (bnd (transaction (bnd (create_message k comment (Some u) parent None [Lit b])
      (\<lambda>m. bnd (f m) (\<lambda>_. bnd (g m) (\<lambda>ns. ret (m, ns)))))) (\<lambda>(m, ns). bnd (publish ns) (\<lambda>_. gets (h m)))) s"
    if "top_level k parent s" "\<And>m. keeps P (f m)" "\<And>m. keeps P (g m)"
    for f :: "message \<Rightarrow> unit svc" and g :: "message \<Rightarrow> id list svc" and h :: "message \<Rightarrow> state \<Rightarrow> message_view"
    by (rule holds_bnd_keeps, rule holds_transaction, rule free_of_cache, rule s, rule post, rule that(1))
       (auto intro!: keeps_intros that(2,3) split: prod.split)
  have checked: "holds P (bnd (check_parent k parent) F) s"
    if "\<And>x. top_level k parent s \<Longrightarrow> holds P (F x) s" for F :: "(id \<times> id option) option \<Rightarrow> message_view svc"
    using that s top unfolding holds_def check_parent_run
    by (auto simp: top_level_def split: option.split)
  show "holds P (messages_create k u b parent) s"
    unfolding messages_create_def
  proof (rule holds_bnd_pure)
    show "keeps P (load_active_task k)" by (intro keeps_intros)
    show "P s" by (rule s)
    fix x t
    assume "load_active_task k s = (Inr x, t)"
    then have t: "t = s" by (auto simp: load_active_task_def op_simps split: option.splits if_splits)
    show "holds P (bnd (check_parent k parent) (\<lambda>par.
        bnd (transaction (bnd (create_message k comment (Some u) parent None [Lit b]) (\<lambda>m.
          bnd (logActivity (t_organizationId x) (Some u) ''message'' (m_id m) ''message.created''
              [(''messageId'', PId (m_id m)), (''taskId'', PId k), (''parentMessageId'', pid_opt parent)])
            (\<lambda>_. bnd (notifyMessage (t_organizationId x) k (m_id m) u par) (\<lambda>ns. ret (m, ns))))))
          (\<lambda>(m, ns). bnd (publish ns) (\<lambda>_. gets (\<lambda>s. message_toView s m))))) t"
      unfolding t by (rule checked, rule rest) (assumption | intro keeps_intros)+
  qed
qed

lemma keeps_reads: "keeps P (markRead u i)" "keeps P (markAllRead u)"
  unfolding markRead_def markAllRead_def by (auto intro!: keeps_intros keeps_update_many free)

lemmas keeps_calls = keeps_task_calls keeps_template_calls keeps_thread_submit keeps_thread_review keeps_retire
  keeps_post keeps_message_calls keeps_reads

lemma keeps_serve: "P s \<Longrightarrow> P (serve c s)"
  by (cases c) (auto simp: elapse_def free(11) intro: keepsD_snd keeps_calls)

lemma keeps_history: "P s \<Longrightarrow> P (serve_all cs s)"
  by (rule serve_all_keeps) (rule keeps_serve)

end

interpretation conforming_log: thread_log log_conforms "\<lambda>_ _. True"
proof unfold_locales
  show "keeps log_conforms (log_activity orgId actor st sid verb p src conn)"
    for orgId actor st sid verb p src conn
    by (rule keeps_log_conforms)
qed (simp_all add: log_conforms_def with_message_def)

interpretation one_level: thread_log "\<lambda>s. threads_ok (messages s)" "\<lambda>_ _. True"
proof unfold_locales
  fix s tk pm k sd sub b
  assume "threads_ok (messages s)" and "top_level tk pm s"
  then show "threads_ok (messages (with_message (new_message s tk k sd pm sub b) s))"
    by (auto simp: with_message_def new_message_def top_level_def intro!: threads_ok_add)
next
  show "keeps (\<lambda>s. threads_ok (messages s)) (log_activity orgId actor st sid verb p src conn)"
    for orgId actor st sid verb p src conn
    by (rule keepsI) (auto simp: op_simps split: if_splits)
qed (simp_all add: threads_ok_upd)

section \<open>Invariants of the slots and the submissions\<close>

text \<open>An invariant that reads neither threads nor templates, through the calls that only
  write those.\<close>

locale side_invariant = quiet_invariant +
  assumes template_free: "P s \<Longrightarrow> P (templates_update f1 s)"
    and question_free: "P s \<Longrightarrow> P (questions_update f2 s)"
    and clock_free: "P s \<Longrightarrow> P (clock_update f3 s)"
begin

lemma keeps_template_steps [keeps_intros]:
  "keeps P (insert_question k q)" "keeps P (delete_questions k)" "keeps P (touch_template k)"
  "keeps P (view_template k)" "keeps P (copy_question k x)" "keeps P (check_team org tm)"
  unfolding insert_question_def delete_questions_def touch_template_def view_template_def
    copy_question_def check_team_def
  by (auto intro!: keeps_intros keeps_create_row keeps_update_row keeps_delete_many
      template_free question_free)

lemma keeps_template_calls:
  "keeps P (putForTask k u qs)" "keeps P (putForDivision org k u qs)"
  unfolding putForTask_def putForDivision_def insert_questions_def Let_def
  by (auto intro!: keeps_intros keeps_create_row template_free)

lemma keeps_notifyMessage [keeps_intros]: "keeps P (notifyMessage org tk i u parent)"
  unfolding notifyMessage_def Let_def by (auto intro!: keeps_intros split: option.split prod.split)

lemma keeps_message_calls:
  "keeps P (messages_create k u b parent)" "keeps P (messages_update_body k u b)"
  "keeps P (messages_retire k u)" "keeps P (messages_revive k u)"
  unfolding messages_create_def messages_update_body_def messages_retire_def messages_revive_def
    write_message_def
  by (auto intro!: keeps_intros keeps_update_row message_free split: prod.split)

lemma keeps_reads: "keeps P (markRead u i)" "keeps P (markAllRead u)"
  unfolding markRead_def markAllRead_def
  by (auto intro!: keeps_intros keeps_update_many notification_free)

end

interpretation claims_side: side_invariant claims_ok
  by unfold_locales
     (auto simp: claims_ok_def slots_ok_def within_openings_def active_count_def)

interpretation subs_side: side_invariant subs_ok
  by unfold_locales (auto simp: subs_ok_def)

text \<open>A new task has a new id, so no slot points at it yet, and openings that are not negative.\<close>

lemma claims_ok_new_task:
  assumes "claims_ok s" and "d \<in> set (divisions s)"
    and r: "t_id r = next_id s" "t_openings r = d_defaultOpenings d"
  shows "claims_ok (tasks_update (\<lambda>rs. rs @ [r]) (s\<lparr>next_id := Suc (next_id s)\<rparr>))"
proof -
  have "count_where (\<lambda>c. c_taskId c = next_id s \<and> c_leftAt c = None) (claimants s) = 0"
    using assms(1) by (auto simp: count_where_0_iff claims_ok_def slots_ok_def)
  then show ?thesis
    using assms
    by (auto simp: claims_ok_def slots_ok_def within_openings_def active_count_def less_Suc_eq)
qed

lemma check_team_same: "check_team org tm s = (x, t) \<Longrightarrow> t = s"
  using keepsD_snd [of "\<lambda>u. u = s" "check_team org tm" s]
  by (simp add: check_team_def keeps_intros)

lemma find_in_set: "List.find Q rs = Some r \<Longrightarrow> r \<in> set rs"
  by (auto simp: find_Some_iff)

lemma keeps_claims_create: "keeps claims_ok (tasks_create org u n desc k tm)"
proof (rule keepsI_holds)
  fix s
  assume ok: "claims_ok s"
  have new: "holds claims_ok (bnd fresh_id (\<lambda>i. bnd now (\<lambda>t.
      bnd (create_row tasks_update (r i t)) (rest i t)))) s"
    if "d \<in> set (divisions s)" "\<And>i t. t_id (r i t) = i" "\<And>i t. t_openings (r i t) = d_defaultOpenings d"
      "\<And>i t x. keeps claims_ok (rest i t x)"
    for r :: "id \<Rightarrow> time \<Rightarrow> task" and rest :: "id \<Rightarrow> time \<Rightarrow> unit \<Rightarrow> task svc" and d
    using keepsD_snd [OF that(4) claims_ok_new_task [OF ok that(1) that(2,3)]]
    by (simp add: holds_def op_simps)
  show "holds claims_ok (tasks_create org u n desc k tm) s"
    unfolding tasks_create_def Let_def
    apply (rule holds_gets, rule holds_need, rule ok, rule holds_check, rule ok,
        rule holds_bnd_pure, rule claims_side.keeps_template_steps, rule ok)
    subgoal for d x t
      by (drule find_in_set, drule check_team_same, hypsubst, rule holds_gets, rule holds_need,
          rule ok, rule holds_gets, rule holds_bnd_keeps, rule holds_transaction,
          rule claims_cache_free, rule ok, rule new [of d])
         (auto intro!: keeps_intros keeps_create_row claims_side.template_free)
    done
qed

lemmas keeps_claims_calls = keeps_task_writes keeps_claims_create keeps_claim keeps_leave
  keeps_removeClaimant keeps_manageClaims keeps_claims_submit keeps_claims_review
  keeps_claims_retireSubmission claims_side.keeps_template_calls claims_side.keeps_message_calls
  claims_side.keeps_reads

lemma claims_serve: "claims_ok s \<Longrightarrow> claims_ok (serve c s)"
  by (cases c) (auto simp: elapse_def claims_side.clock_free intro: keepsD_snd keeps_claims_calls)

lemma subs_free:
  "subs_ok s \<Longrightarrow> subs_ok (tasks_update f s)" "subs_ok s \<Longrightarrow> subs_ok (claimants_update g s)"
  by (simp_all add: subs_ok_def)

lemma keeps_subs_tasks:
  "keeps subs_ok (tasks_create org u n d k tm)" "keeps subs_ok (tasks_edit k u n' d')"
  "keeps subs_ok (tasks_retire k u)" "keeps subs_ok (tasks_revive k u)" "keeps subs_ok (claim k u)"
  "keeps subs_ok (leave k u)" "keeps subs_ok (removeClaimant k u v)"
  "keeps subs_ok (manageClaims k u dl b)" "keeps subs_ok (complete k u)"
  "keeps subs_ok (changeRequester k u v)"
  unfolding tasks_create_def tasks_edit_def tasks_retire_def tasks_revive_def claim_def claim_tx_def
    leave_def leave_tx_def removeClaimant_def manageClaims_def manageClaims_tx_def complete_def
    changeRequester_def claim_tail_def take_slot_def free_slot_def write_task_def new_openings_def
    publish_view_def Let_def
  by (auto intro!: keeps_intros Submission_Facts.keeps_recompute subs_cache_free keeps_create_row
      keeps_update_row subs_free subs_side.template_free split: prod.split)

lemmas keeps_subs_calls = keeps_subs_tasks Submission_Facts.keeps_submit Submission_Facts.keeps_review
  Submission_Facts.keeps_retireSubmission subs_side.keeps_template_calls
  subs_side.keeps_message_calls subs_side.keeps_reads

lemma subs_serve: "subs_ok s \<Longrightarrow> subs_ok (serve c s)"
  by (cases c) (auto simp: elapse_def subs_side.clock_free intro: keepsD_snd keeps_subs_calls)

definition sound :: "state \<Rightarrow> bool" where
  "sound s \<longleftrightarrow> claims_ok s \<and> subs_ok s \<and> threads_ok (messages s) \<and> log_conforms s"

lemma sound_serve: "sound s \<Longrightarrow> sound (serve c s)"
  by (simp add: sound_def claims_serve subs_serve one_level.keeps_serve conforming_log.keeps_serve)

lemma sound_serve_all: "sound s \<Longrightarrow> sound (serve_all cs s)"
  by (rule serve_all_keeps) (rule sound_serve)

end
