(* ===== verification/Policies.thy ===== *)
theory Policies
  imports Schema
begin

text \<open>
  \<open>access/actions.ts\<close> (the closed action vocabulary) and \<open>access/cedar/policies.ts\<close> (one
  policy per grant, by scope shape, plus the static policies). Policies are the syntax trees of
  the text the projector prints; the lemmas say what each shape means for a request.
\<close>

section \<open>The vocabulary\<close>

definition ACTIONS :: "(string \<times> entity_type) list" where
  "ACTIONS = [
    (''task:create'', Task), (''task:update'', Task), (''task:retire'', Task),
    (''task:revive'', Task), (''task:assign'', Task), (''task:submit'', Task),
    (''task:review'', Task), (''task:retire_submission'', Task), (''task:complete'', Task),
    (''task:configure_request_template'', Task), (''task:manage_claims'', Task),
    (''task:change_requester'', Task), (''message:create'', Message),
    (''message:update'', Message), (''message:retire'', Message),
    (''message:revive'', Message), (''attachment:create'', Attachment),
    (''attachment:retire'', Attachment), (''attachment:revive'', Attachment),
    (''user:update'', User), (''user:retire'', User), (''user:revive'', User),
    (''user:deactivate'', User), (''user:reactivate'', User), (''user:grant_role'', User),
    (''user:revoke_role'', User), (''session:revoke'', Session),
    (''invite:create'', Organization), (''invite:retire'', Invitation),
    (''grant:create'', Organization), (''grant:update'', Organization),
    (''grant:retire'', Organization), (''grant:revive'', Organization),
    (''role:create'', Organization), (''role:update'', Organization),
    (''role:retire'', Organization), (''role:revive'', Organization),
    (''division:create'', Organization), (''division:update'', Division),
    (''division:retire'', Organization), (''division:revive'', Organization),
    (''team:create'', Organization), (''team:update'', Organization),
    (''team:retire'', Organization), (''team:revive'', Organization),
    (''config:update'', Organization), (''integration:create'', Organization),
    (''integration:update'', Organization), (''integration:retire'', Organization),
    (''integration:revive'', Organization)]"

definition ALL_ACTION_STRINGS :: "string list" where
  "ALL_ACTION_STRINGS = map fst ACTIONS"

definition RESOURCE_TYPE_BY_ACTION :: "string \<rightharpoonup> entity_type" where
  "RESOURCE_TYPE_BY_ACTION = map_of ACTIONS"

definition EFFECTIVE_ADMIN_ACTIONS :: "string list" where
  "EFFECTIVE_ADMIN_ACTIONS = [
    ''grant:create'', ''grant:update'', ''grant:retire'', ''role:create'', ''role:update'',
    ''role:retire'']"

definition ADMIN_SEED_ACTIONS :: "string list" where
  "ADMIN_SEED_ACTIONS = [
    ''invite:create'', ''invite:retire'', ''role:revive'', ''division:create'',
    ''division:update'', ''division:retire'', ''division:revive'', ''team:create'',
    ''team:update'', ''team:retire'', ''team:revive'', ''grant:revive'', ''config:update'',
    ''integration:create'', ''integration:update'', ''integration:retire'',
    ''integration:revive'', ''user:update'', ''user:retire'', ''user:revive'',
    ''user:deactivate'', ''user:reactivate'', ''user:grant_role'', ''user:revoke_role''] @ EFFECTIVE_ADMIN_ACTIONS"

definition OWN_ATTR_BY_ACTION :: "string \<rightharpoonup> string" where
  "OWN_ATTR_BY_ACTION = map_of [
    (''task:update'', ''requester''), (''task:retire'', ''requester''),
    (''task:revive'', ''requester''), (''task:configure_request_template'', ''requester''),
    (''task:manage_claims'', ''requester''), (''task:change_requester'', ''requester''),
    (''message:create'', ''sender''), (''message:update'', ''sender''),
    (''message:retire'', ''sender''), (''attachment:create'', ''uploader''),
    (''attachment:retire'', ''uploader''), (''attachment:revive'', ''uploader''),
    (''task:submit'', ''claimant''), (''task:review'', ''requester''),
    (''task:retire_submission'', ''requester''), (''task:complete'', ''requester'')]"

section \<open>Projection\<close>

text \<open>\<open>resource has a && e\<close>.\<close>

definition has_and :: "string \<Rightarrow> expr \<Rightarrow> expr" where
  "has_and a e = And (Has Resource a) e"

definition resource_is :: "string \<Rightarrow> expr \<Rightarrow> expr" where
  "resource_is a e = has_and a (Eq (Attr Resource a) e)"

definition member_of :: "string \<Rightarrow> string \<Rightarrow> expr" where
  "member_of a ms = has_and a (Contains (Attr Principal ms) (Attr Resource a))"

definition CLAIM_ELIGIBILITY_WHEN :: expr where
  "CLAIM_ELIGIBILITY_WHEN =
     And (Or (Not (has_and ''divisionRestrictsClaims'' (Attr Resource ''divisionRestrictsClaims'')))
             (member_of ''division'' ''memberDivisions''))
         (Or (Not (has_and ''teamRestrictsClaims'' (Attr Resource ''teamRestrictsClaims'')))
             (member_of ''team'' ''memberTeams''))"

definition scope_ref :: "id option \<Rightarrow> eid" where
  "scope_ref x = (case x of None \<Rightarrow> Prospective '''' | Some i \<Rightarrow> Eid i)"

text \<open>\<open>None\<close> is the thrown projection error; \<open>Some None\<close> the empty condition.\<close>

definition scopeCondition :: "grant \<Rightarrow> expr option option" where
  "scopeCondition g =
     (case g_scopeKind g of
        scope_global \<Rightarrow> Some None
      | scope_specific_division \<Rightarrow>
          Some (Some (resource_is ''division'' (EntLit (Division, scope_ref (g_scopeDivisionId g)))))
      | scope_specific_team \<Rightarrow>
          Some (Some (resource_is ''team'' (EntLit (Team, scope_ref (g_scopeTeamId g)))))
      | scope_own_division \<Rightarrow> Some (Some (member_of ''division'' ''memberDivisions''))
      | scope_own_team \<Rightarrow> Some (Some (member_of ''team'' ''memberTeams''))
      | scope_role \<Rightarrow>
          Some (Some (resource_is ''targetRole'' (EntLit (Role, scope_ref (g_scopeRoleId g)))))
      | scope_own \<Rightarrow>
          (if g_action g = ''task:assign'' then Some (Some CLAIM_ELIGIBILITY_WHEN)
           else case OWN_ATTR_BY_ACTION (g_action g) of
                  None \<Rightarrow> None
                | Some a \<Rightarrow> Some (Some (resource_is a Principal))))"

definition grantToPolicy :: "grant \<Rightarrow> policy option" where
  "grantToPolicy g =
     (case scopeCondition g of
        None \<Rightarrow> None
      | Some cond \<Rightarrow>
          Some \<lparr>p_id = GrantPolicy (g_id g), p_effect = g_effect g,
                p_principalIn = Some (Role, Eid (g_roleId g)),
                p_action = Some (g_action g), p_when = cond\<rparr>)"

definition static_retired_hard_deny :: policy where
  "static_retired_hard_deny =
     \<lparr>p_id = StaticPolicy ''static_retired_hard_deny'', p_effect = Forbid, p_principalIn = None,
      p_action = None, p_when = Some (has_and ''retired'' (Attr Resource ''retired''))\<rparr>"

definition static_baseline_self_access :: policy where
  "static_baseline_self_access =
     \<lparr>p_id = StaticPolicy ''static_baseline_self_access'', p_effect = Permit,
      p_principalIn = None, p_action = Some ''user:update'',
      p_when = Some (Eq Principal Resource)\<rparr>"

definition static_self_review_forbid :: policy where
  "static_self_review_forbid =
     \<lparr>p_id = StaticPolicy ''static_self_review_forbid'', p_effect = Forbid, p_principalIn = None,
      p_action = Some ''task:review'', p_when = Some (resource_is ''claimant'' Principal)\<rparr>"

definition staticPolicies :: "bool \<Rightarrow> string list \<Rightarrow> policy list" where
  "staticPolicies selfReviewAllowed registeredActions =
     [static_retired_hard_deny, static_baseline_self_access] @
     (if \<not> selfReviewAllowed \<and> ''task:review'' \<in> set registeredActions
      then [static_self_review_forbid] else [])"

section \<open>What the conditions mean\<close>

text \<open>The attributes a request's entity list gives to a uid.\<close>

definition attr_of :: "request \<Rightarrow> uid \<Rightarrow> string \<Rightarrow> cval option" where
  "attr_of q u a = (case entity_of (q_entities q) u of None \<Rightarrow> None | Some e \<Rightarrow> map_of (e_attrs e) a)"

lemma ceval_attr:
  "ceval q (Attr Resource a) = attr_of q (q_resource q) a"
  "ceval q (Attr Principal a) = attr_of q (q_principal q) a"
  by (simp_all add: attr_of_def)

lemma ceval_has: "ceval q (Has Resource a) = Some (VBool (attr_of q (q_resource q) a \<noteq> None))"
  by (simp add: attr_of_def split: option.split)

lemma has_and_true:
  "ceval q (has_and a e) = Some (VBool True) \<longleftrightarrow>
     attr_of q (q_resource q) a \<noteq> None \<and> ceval q e = Some (VBool True)"
  by (auto simp: has_and_def ceval_has simp del: ceval.simps(5) split: option.splits cval.splits bool.splits)

lemma resource_is_true:
  "ceval q (resource_is a (EntLit u)) = Some (VBool True) \<longleftrightarrow> attr_of q (q_resource q) a = Some (VEntity u)"
  "ceval q (resource_is a Principal) = Some (VBool True) \<longleftrightarrow>
     attr_of q (q_resource q) a = Some (VEntity (q_principal q))"
  by (auto simp: resource_is_def has_and_true ceval_attr simp del: ceval.simps(4)
      split: option.splits)

lemma member_of_true:
  "ceval q (member_of a ms) = Some (VBool True) \<longleftrightarrow>
     (\<exists>u us. attr_of q (q_resource q) a = Some (VEntity u) \<and>
             attr_of q (q_principal q) ms = Some (VSet us) \<and> u \<in> set us)"
  by (auto simp: member_of_def has_and_true ceval_attr simp del: ceval.simps(4)
      split: option.splits cval.splits)

lemma satisfied_hard_deny:
  "satisfied q static_retired_hard_deny \<longleftrightarrow> attr_of q (q_resource q) ''retired'' = Some (VBool True)"
  by (auto simp: satisfied_def static_retired_hard_deny_def has_and_true ceval_attr
      simp del: ceval.simps(4))

lemma satisfied_self:
  "satisfied q static_baseline_self_access \<longleftrightarrow>
     q_action q = ''user:update'' \<and> q_principal q = q_resource q"
  by (auto simp: satisfied_def static_baseline_self_access_def)

lemma satisfied_self_review:
  "satisfied q static_self_review_forbid \<longleftrightarrow>
     q_action q = ''task:review'' \<and>
     attr_of q (q_resource q) ''claimant'' = Some (VEntity (q_principal q))"
  by (auto simp: satisfied_def static_self_review_forbid_def resource_is_true)

lemma static_permit:
  "p \<in> set (staticPolicies b rs) \<Longrightarrow> p_effect p = Permit \<Longrightarrow> p = static_baseline_self_access"
  by (auto simp: staticPolicies_def static_retired_hard_deny_def static_self_review_forbid_def
      split: if_splits)

text \<open>The relation a scope states between the principal and the resource.\<close>

definition scope_matches :: "request \<Rightarrow> grant \<Rightarrow> bool" where
  "scope_matches q g \<longleftrightarrow>
     (let res = attr_of q (q_resource q); pri = attr_of q (q_principal q) in
      case g_scopeKind g of
        scope_global \<Rightarrow> True
      | scope_specific_division \<Rightarrow>
          res ''division'' = Some (VEntity (Division, scope_ref (g_scopeDivisionId g)))
      | scope_specific_team \<Rightarrow> res ''team'' = Some (VEntity (Team, scope_ref (g_scopeTeamId g)))
      | scope_own_division \<Rightarrow> (\<exists>u us. res ''division'' = Some (VEntity u) \<and>
           pri ''memberDivisions'' = Some (VSet us) \<and> u \<in> set us)
      | scope_own_team \<Rightarrow> (\<exists>u us. res ''team'' = Some (VEntity u) \<and>
           pri ''memberTeams'' = Some (VSet us) \<and> u \<in> set us)
      | scope_role \<Rightarrow> res ''targetRole'' = Some (VEntity (Role, scope_ref (g_scopeRoleId g)))
      | scope_own \<Rightarrow>
          (if g_action g = ''task:assign''
           then ceval q CLAIM_ELIGIBILITY_WHEN = Some (VBool True)
           else \<exists>a. OWN_ATTR_BY_ACTION (g_action g) = Some a \<and> res a = Some (VEntity (q_principal q))))"

lemma satisfied_grant:
  assumes "grantToPolicy g = Some p"
  shows "satisfied q p \<longleftrightarrow>
     principal_in q (Role, Eid (g_roleId g)) \<and> q_action q = g_action g \<and> scope_matches q g"
  using assms
  by (cases "g_scopeKind g")
     (auto simp: grantToPolicy_def scopeCondition_def satisfied_def scope_matches_def Let_def
        resource_is_true member_of_true simp del: ceval.simps split: option.splits if_splits)

lemma eligibility_side:
  assumes "attr_of q (q_resource q) flag = Some (VBool fr)"
    and "attr_of q (q_resource q) a = map_option VEntity x"
    and "attr_of q (q_principal q) ms = Some (VSet us)"
  shows "ceval q (Or (Not (has_and flag (Attr Resource flag))) (member_of a ms)) =
           Some (VBool (\<not> fr \<or> (\<exists>t. x = Some t \<and> t \<in> set us)))"
  using assms
  by (cases fr; cases x)
     (simp_all add: has_and_def member_of_def ceval_has ceval_attr del: ceval.simps(4,5)
        split: bool.split)

text \<open>Claim eligibility, when the resource carries both flags and the principal both member
  sets: for each of division and team, unrestricted or a member.\<close>

lemma eligibility_value:
  assumes "attr_of q (q_resource q) ''divisionRestrictsClaims'' = Some (VBool dr)"
    and "attr_of q (q_resource q) ''teamRestrictsClaims'' = Some (VBool tr)"
    and "attr_of q (q_resource q) ''division'' = Some (VEntity d)"
    and "attr_of q (q_principal q) ''memberDivisions'' = Some (VSet ds)"
    and "attr_of q (q_principal q) ''memberTeams'' = Some (VSet ts)"
    and "attr_of q (q_resource q) ''team'' = map_option VEntity team"
  shows "ceval q CLAIM_ELIGIBILITY_WHEN = Some (VBool True) \<longleftrightarrow>
           (\<not> dr \<or> d \<in> set ds) \<and> (\<not> tr \<or> (\<exists>t. team = Some t \<and> t \<in> set ts))"
proof -
  have d: "attr_of q (q_resource q) ''division'' = map_option VEntity (Some d)"
    using assms(3) by simp
  show ?thesis
    unfolding CLAIM_ELIGIBILITY_WHEN_def ceval.simps(9)
      eligibility_side [OF assms(1) d assms(4)] eligibility_side [OF assms(2,6,5)]
    by (auto split: bool.splits)
qed

end
