(* ===== verification/Access.thy ===== *)
theory Access
  imports Policies Store
begin

text \<open>
  \<open>access/access.service.ts\<close> (projection, the policy cache keyed by \<open>config_version\<close>, the
  entities of a request, the decision), \<open>access/authorize.guard.ts\<close> and the resource resolvers
  of \<open>access/authorize.decorator.ts\<close> and \<open>users/users.controller.ts\<close>. The Cedar engine is an
  argument.
\<close>

section \<open>Projection and its cache\<close>

definition readOrg :: "organization svc" where
  "readOrg =
     bnd (gets organizations) (\<lambda>orgs.
     case orgs of [] \<Rightarrow> throw RecordNotFound | o1 # _ \<Rightarrow> ret o1)"

definition role_active :: "state \<Rightarrow> id \<Rightarrow> bool" where
  "role_active s k \<longleftrightarrow> (\<exists>r \<in> set (roles s). r_id r = k \<and> r_lifecycleState r = active)"

definition projectable :: "id \<Rightarrow> state \<Rightarrow> grant list" where
  "projectable orgId s =
     filter (\<lambda>g. g_organizationId g = orgId \<and> g_lifecycleState g = active \<and>
                 role_active s (g_roleId g)) (grants s)"

definition selfReviewAllowed :: "organization \<Rightarrow> bool" where
  "selfReviewAllowed org \<longleftrightarrow> o_settings org ''selfReviewAllowed'' = Some (JBool True)"

definition project :: "organization \<Rightarrow> grant list \<Rightarrow> policy list option" where
  "project org gs =
     (case those (map grantToPolicy gs) of
        None \<Rightarrow> None
      | Some ps \<Rightarrow> Some (staticPolicies (selfReviewAllowed org) ALL_ACTION_STRINGS @ ps))"

definition projectPolicies :: "id \<Rightarrow> policy list svc" where
  "projectPolicies orgId =
     bnd (find_unique_or_throw organizations o_id orgId) (\<lambda>org.
     bnd (gets (projectable orgId)) (\<lambda>gs.
     need (project org gs) (ServerError ''cannot project an own grant'')))"

definition getPolicies :: "id \<Rightarrow> nat \<Rightarrow> policy list svc" where
  "getPolicies orgId configVersion =
     bnd (gets policy_cache) (\<lambda>cache.
     if (case cache of None \<Rightarrow> False | Some (v, _) \<Rightarrow> v = configVersion)
     then ret (snd (the cache))
     else
       bnd (projectPolicies orgId) (\<lambda>ps.
       bnd (modify (policy_cache_update (\<lambda>_. Some (configVersion, ps)))) (\<lambda>_.
       ret ps)))"

definition invalidate :: "unit svc" where
  "invalidate = modify (policy_cache_update (\<lambda>_. None))"

definition bumpConfigVersion :: "id \<Rightarrow> unit svc" where
  "bumpConfigVersion organizationId =
     bnd (update_row organizations organizations_update o_id organizationId
            (\<lambda>r. r\<lparr>o_configVersion := o_configVersion r + 1\<rparr>)) (\<lambda>_.
     invalidate)"

section \<open>The request's entities\<close>

definition roles_held :: "id \<Rightarrow> state \<Rightarrow> role list" where
  "roles_held userId s =
     concat (map (\<lambda>ur. filter (\<lambda>r. r_id r = ur_roleId ur \<and> r_lifecycleState r = active) (roles s))
       (filter (\<lambda>ur. ur_userId ur = userId) (user_roles s)))"

definition role_uid :: "role \<Rightarrow> uid" where
  "role_uid r = (Role, Eid (r_id r))"

definition buildPrincipalEntities :: "id \<Rightarrow> state \<Rightarrow> uid \<times> entity list" where
  "buildPrincipalEntities userId s =
     (let rs = roles_held userId s;
          roleUids = map role_uid rs;
          memberDivisions = map (\<lambda>r. (Division, Eid (the (r_divisionId r)))) (filter (\<lambda>r. r_divisionId r \<noteq> None) rs);
          memberTeams = map (\<lambda>r. (Team, Eid (the (r_teamId r)))) (filter (\<lambda>r. r_teamId r \<noteq> None) rs);
          principal = (User, Eid userId)
      in (principal,
          \<lparr>e_uid = principal,
           e_attrs = [(''memberDivisions'', VSet memberDivisions), (''memberTeams'', VSet memberTeams)],
           e_parents = roleUids\<rparr> #
          map (\<lambda>u. \<lparr>e_uid = u, e_attrs = [], e_parents = []\<rparr>) roleUids))"

text \<open>\<open>{ ...prior.attrs, ...e.attrs }\<close>: the later value of a key wins.\<close>

definition merge_attrs :: "(string \<times> cval) list \<Rightarrow> (string \<times> cval) list \<Rightarrow> (string \<times> cval) list" where
  "merge_attrs prior new = new @ filter (\<lambda>(k, _). k \<notin> fst ` set new) prior"

definition merge_entity :: "entity \<Rightarrow> entity \<Rightarrow> entity" where
  "merge_entity prior e =
     prior\<lparr>e_attrs := merge_attrs (e_attrs prior) (e_attrs e),
           e_parents := e_parents prior @ filter (\<lambda>p. p \<notin> set (e_parents prior)) (e_parents e)\<rparr>"

fun dedupe_into :: "entity list \<Rightarrow> entity list \<Rightarrow> entity list" where
  "dedupe_into acc [] = acc"
| "dedupe_into acc (e # es) =
     dedupe_into
       (if e_uid e \<in> e_uid ` set acc
        then map (\<lambda>prior. if e_uid prior = e_uid e then merge_entity prior e else prior) acc
        else acc @ [e]) es"

definition dedupeEntities :: "entity list \<Rightarrow> entity list" where
  "dedupeEntities es = dedupe_into [] es"

type_synonym resource_ref = "entity_type \<times> eid \<times> (string \<times> cval) list"

definition make_request :: "id \<Rightarrow> string \<Rightarrow> resource_ref \<Rightarrow> state \<Rightarrow> request" where
  "make_request userId action res s =
     (case (buildPrincipalEntities userId s, res) of
        ((me, es), (ty, rid, attrs)) \<Rightarrow>
          \<lparr>q_principal = me, q_action = action, q_resource = (ty, rid),
           q_entities = dedupeEntities
             (es @ [\<lparr>e_uid = (ty, rid), e_attrs = attrs, e_parents = []\<rparr>])\<rparr>)"

definition decide :: "cedar_engine \<Rightarrow> id \<Rightarrow> string \<Rightarrow> resource_ref \<Rightarrow> bool svc" where
  "decide isAuthorized userId action res =
     bnd readOrg (\<lambda>org.
     bnd (getPolicies (o_id org) (o_configVersion org)) (\<lambda>ps.
     bnd (gets (make_request userId action res)) (\<lambda>q.
     need (isAuthorized ps q) (ServerError ''Cedar authorization failure''))))"

section \<open>Resolvers and the guard\<close>

definition divisionEntity :: "id \<Rightarrow> cval" where "divisionEntity i = VEntity (Division, Eid i)"
definition teamEntity :: "id \<Rightarrow> cval" where "teamEntity i = VEntity (Team, Eid i)"
definition userEntity :: "id \<Rightarrow> cval" where "userEntity i = VEntity (User, Eid i)"

definition opt_attr :: "string \<Rightarrow> ('a \<Rightarrow> cval) \<Rightarrow> 'a option \<Rightarrow> (string \<times> cval) list" where
  "opt_attr k f x = (case x of None \<Rightarrow> [] | Some y \<Rightarrow> [(k, f y)])"

definition orgResource :: "resource_ref svc" where
  "orgResource = bnd readOrg (\<lambda>org. ret (Organization, Eid (o_id org), []))"

definition divisionResource :: "id \<Rightarrow> resource_ref svc" where
  "divisionResource i =
     bnd (find_unique divisions d_id i) (\<lambda>found.
     bnd (need found (NotFoundError ''DIVISION_NOT_FOUND'')) (\<lambda>d.
     ret (Division, Eid (d_id d),
          [(''division'', divisionEntity (d_id d)),
           (''retired'', VBool (d_lifecycleState d = retired))])))"

definition taskCreateResource :: "id option \<Rightarrow> id option \<Rightarrow> id option \<Rightarrow> resource_ref svc" where
  "taskCreateResource divisionId teamId user =
     ret (Task, Prospective ''new'',
          opt_attr ''division'' divisionEntity divisionId @
          opt_attr ''team'' teamEntity teamId @
          opt_attr ''requester'' userEntity user)"

definition find_task :: "id \<Rightarrow> task svc" where
  "find_task i =
     bnd (find_unique tasks t_id i) (\<lambda>found. need found (NotFoundError ''TASK_NOT_FOUND''))"

definition team_restricts :: "task \<Rightarrow> state \<Rightarrow> bool" where
  "team_restricts t s =
     (case t_teamId t of
        None \<Rightarrow> False
      | Some k \<Rightarrow> (case lookup tm_id k (teams s) of None \<Rightarrow> False | Some tm \<Rightarrow> tm_restrictClaims tm))"

definition taskResource :: "id \<Rightarrow> resource_ref svc" where
  "taskResource i =
     bnd (find_task i) (\<lambda>t.
     bnd (find_unique_or_throw divisions d_id (t_divisionId t)) (\<lambda>d.
     bnd (gets (team_restricts t)) (\<lambda>tr.
     ret (Task, Eid (t_id t),
          [(''division'', divisionEntity (t_divisionId t)),
           (''divisionRestrictsClaims'', VBool (d_restrictClaims d)),
           (''teamRestrictsClaims'', VBool tr)] @
          opt_attr ''team'' teamEntity (t_teamId t) @
          [(''requester'', userEntity (t_requesterUserId t)),
           (''retired'', VBool (t_lifecycleState t = retired))]))))"

definition taskReviveResource :: "id \<Rightarrow> resource_ref svc" where
  "taskReviveResource i =
     bnd (find_task i) (\<lambda>t.
     ret (Task, Eid (t_id t),
          [(''division'', divisionEntity (t_divisionId t))] @
          opt_attr ''team'' teamEntity (t_teamId t) @
          [(''requester'', userEntity (t_requesterUserId t))]))"

definition holds_slot :: "id \<Rightarrow> id option \<Rightarrow> state \<Rightarrow> bool" where
  "holds_slot taskId user s =
     (case user of
        None \<Rightarrow> False
      | Some u \<Rightarrow>
          (case List.find (\<lambda>c. c_taskId c = taskId \<and> c_userId c = u) (claimants s) of
             None \<Rightarrow> False | Some c \<Rightarrow> c_leftAt c = None))"

definition taskSubmitResource :: "id \<Rightarrow> id option \<Rightarrow> resource_ref svc" where
  "taskSubmitResource i user =
     bnd (find_task i) (\<lambda>t.
     bnd (gets (holds_slot i user)) (\<lambda>isActiveClaimant.
     ret (Task, Eid (t_id t),
          [(''division'', divisionEntity (t_divisionId t))] @
          opt_attr ''team'' teamEntity (t_teamId t) @
          (if isActiveClaimant then opt_attr ''claimant'' userEntity user else []) @
          [(''retired'', VBool (t_lifecycleState t = retired))])))"

definition submissionResource :: "id \<Rightarrow> resource_ref svc" where
  "submissionResource i =
     bnd (find_unique submissions s_id i) (\<lambda>found.
     bnd (need found (NotFoundError ''SUBMISSION_NOT_FOUND'')) (\<lambda>r.
     bnd (find_unique_or_throw tasks t_id (s_taskId r)) (\<lambda>t.
     ret (Task, Eid (t_id t),
          [(''division'', divisionEntity (t_divisionId t))] @
          opt_attr ''team'' teamEntity (t_teamId t) @
          [(''requester'', userEntity (t_requesterUserId t)),
           (''claimant'', userEntity (s_claimantUserId r)),
           (''retired'', VBool (t_lifecycleState t = retired))]))))"

definition messageCreateResource :: "id \<Rightarrow> id option \<Rightarrow> resource_ref svc" where
  "messageCreateResource taskId user =
     bnd (find_task taskId) (\<lambda>t.
     ret (Message, Prospective ''new'',
          [(''division'', divisionEntity (t_divisionId t))] @
          opt_attr ''team'' teamEntity (t_teamId t) @
          opt_attr ''sender'' userEntity user))"

definition find_message :: "id \<Rightarrow> (message \<times> task) svc" where
  "find_message i =
     bnd (find_unique messages m_id i) (\<lambda>found.
     bnd (need found (NotFoundError ''MESSAGE_NOT_FOUND'')) (\<lambda>m.
     bnd (find_unique_or_throw tasks t_id (m_taskId m)) (\<lambda>t. ret (m, t))))"

definition messageResource :: "id \<Rightarrow> resource_ref svc" where
  "messageResource i =
     bnd (find_message i) (\<lambda>(m, t).
     ret (Message, Eid (m_id m),
          [(''division'', divisionEntity (t_divisionId t))] @
          opt_attr ''team'' teamEntity (t_teamId t) @
          opt_attr ''sender'' userEntity (m_senderUserId m) @
          [(''retired'', VBool (m_lifecycleState m = retired))]))"

definition messageReviveResource :: "id \<Rightarrow> resource_ref svc" where
  "messageReviveResource i =
     bnd (find_message i) (\<lambda>(m, t).
     ret (Message, Eid (m_id m),
          [(''division'', divisionEntity (t_divisionId t))] @
          opt_attr ''team'' teamEntity (t_teamId t) @
          opt_attr ''sender'' userEntity (m_senderUserId m)))"

definition attachmentCreateResource :: "id \<Rightarrow> id option \<Rightarrow> resource_ref svc" where
  "attachmentCreateResource messageId user =
     bnd (find_message messageId) (\<lambda>(m, t).
     ret (Attachment, Prospective ''new'',
          [(''division'', divisionEntity (t_divisionId t))] @
          opt_attr ''team'' teamEntity (t_teamId t) @
          opt_attr ''uploader'' userEntity user))"

text \<open>The task of an attachment, through its message or its answer's submission.\<close>

definition attachment_task :: "attachment \<Rightarrow> state \<Rightarrow> task option" where
  "attachment_task a s =
     (let via_message = (case at_messageId a of
             None \<Rightarrow> None
           | Some k \<Rightarrow> (case lookup m_id k (messages s) of
               None \<Rightarrow> None | Some m \<Rightarrow> lookup t_id (m_taskId m) (tasks s)));
          via_answer = (case at_answerId a of
             None \<Rightarrow> None
           | Some k \<Rightarrow> (case lookup an_id k (answers s) of
               None \<Rightarrow> None
             | Some w \<Rightarrow> (case lookup s_id (an_submissionId w) (submissions s) of
                 None \<Rightarrow> None | Some r \<Rightarrow> lookup t_id (s_taskId r) (tasks s))))
      in case via_message of Some t \<Rightarrow> Some t | None \<Rightarrow> via_answer)"

definition loadAttachmentScope :: "id \<Rightarrow> state \<Rightarrow> (attachment \<times> task) option" where
  "loadAttachmentScope i s =
     (case lookup at_id i (attachments s) of
        None \<Rightarrow> None
      | Some a \<Rightarrow> map_option (Pair a) (attachment_task a s))"

definition attachment_attrs :: "attachment \<times> task \<Rightarrow> (string \<times> cval) list" where
  "attachment_attrs att =
     [(''division'', divisionEntity (t_divisionId (snd att)))] @
     opt_attr ''team'' teamEntity (t_teamId (snd att)) @
     [(''uploader'', userEntity (at_uploaderUserId (fst att)))]"

definition attachmentResource :: "id \<Rightarrow> resource_ref svc" where
  "attachmentResource i =
     bnd (gets (loadAttachmentScope i)) (\<lambda>found.
     bnd (need found (NotFoundError ''ATTACHMENT_NOT_FOUND'')) (\<lambda>att.
     ret (Attachment, Eid (at_id (fst att)),
          attachment_attrs att @
          [(''retired'', VBool (at_lifecycleState (fst att) = retired))])))"

definition attachmentReviveResource :: "id \<Rightarrow> resource_ref svc" where
  "attachmentReviveResource i =
     bnd (gets (loadAttachmentScope i)) (\<lambda>found.
     bnd (need found (NotFoundError ''ATTACHMENT_NOT_FOUND'')) (\<lambda>att.
     ret (Attachment, Eid (at_id (fst att)), attachment_attrs att)))"

definition targetUser :: "id \<Rightarrow> resource_ref svc" where
  "targetUser i =
     bnd (find_unique users u_id i) (\<lambda>found.
     bnd (need found (NotFoundError ''USER_NOT_FOUND'')) (\<lambda>u.
     ret (User, Eid (u_id u), [(''retired'', VBool (u_lifecycleState u = retired))])))"

definition reviveUser :: "id \<Rightarrow> resource_ref svc" where
  "reviveUser i = ret (User, Eid i, [])"

definition userWithTargetRole :: "id \<Rightarrow> id \<Rightarrow> resource_ref svc" where
  "userWithTargetRole roleId i =
     ret (User, Eid i, [(''retired'', VBool False), (''targetRole'', VEntity (Role, Eid roleId))])"

definition canActivate :: "cedar_engine \<Rightarrow> string \<Rightarrow> resource_ref svc \<Rightarrow> id option \<Rightarrow> bool svc" where
  "canActivate isAuthorized action resolveResource user =
     (case user of
        None \<Rightarrow> throw UnauthenticatedError
      | Some u \<Rightarrow>
          bnd resolveResource (\<lambda>res.
          bnd (decide isAuthorized u action res) (\<lambda>allowed.
          bnd (check allowed (DeniedError ''FORBIDDEN'')) (\<lambda>_.
          ret True))))"

section \<open>Merged entities\<close>

lemma dedupe_into_uids:
  "distinct (map e_uid acc) \<Longrightarrow> distinct (map e_uid (dedupe_into acc es))"
proof (induction acc es rule: dedupe_into.induct)
  case (2 acc e es)
  have "map e_uid (map (\<lambda>prior. if e_uid prior = e_uid e then merge_entity prior e else prior) acc) =
      map e_uid acc"
    by (auto simp: merge_entity_def)
  then have "distinct (map e_uid (if e_uid e \<in> e_uid ` set acc
       then map (\<lambda>prior. if e_uid prior = e_uid e then merge_entity prior e else prior) acc
       else acc @ [e]))"
    using "2.prems" by (simp only: split: if_split) auto
  then show ?case using "2.IH" by simp
qed simp

lemma dedupe_distinct: "distinct (map e_uid (dedupeEntities es))"
  by (simp add: dedupeEntities_def dedupe_into_uids)

text \<open>What the merged list says of a uid: the last value of each attribute, all parents.\<close>

definition ent_attr :: "entity list \<Rightarrow> uid \<Rightarrow> string \<Rightarrow> cval option" where
  "ent_attr es u a = (case entity_of es u of None \<Rightarrow> None | Some e \<Rightarrow> map_of (e_attrs e) a)"

definition ent_parents :: "entity list \<Rightarrow> uid \<Rightarrow> uid set" where
  "ent_parents es u = (case entity_of es u of None \<Rightarrow> {} | Some e \<Rightarrow> set (e_parents e))"

fun last_attr :: "cval option \<Rightarrow> entity list \<Rightarrow> uid \<Rightarrow> string \<Rightarrow> cval option" where
  "last_attr v [] u a = v"
| "last_attr v (e # es) u a =
     last_attr (if e_uid e = u then (case map_of (e_attrs e) a of None \<Rightarrow> v | Some w \<Rightarrow> Some w) else v)
       es u a"

lemma entity_of_simps [simp]:
  "entity_of [] u = None"
  "entity_of (e # es) u = (if e_uid e = u then Some e else entity_of es u)"
  by (simp_all add: entity_of_def)

lemma entity_of_append:
  "entity_of (xs @ ys) u = (case entity_of xs u of None \<Rightarrow> entity_of ys u | Some e \<Rightarrow> Some e)"
  by (induction xs) auto

lemma entity_of_map_merge:
  "entity_of (map (\<lambda>p. if e_uid p = e_uid e then merge_entity p e else p) acc) u =
     map_option (\<lambda>p. if u = e_uid e then merge_entity p e else p) (entity_of acc u)"
  by (induction acc) (auto simp: merge_entity_def)

lemma entity_of_None: "entity_of es u = None \<longleftrightarrow> u \<notin> e_uid ` set es"
  by (auto simp: entity_of_def find_None_iff)

lemma map_of_filter_other: "a \<notin> K \<Longrightarrow> map_of (filter (\<lambda>(k, _). k \<notin> K) xs) a = map_of xs a"
  by (induction xs) auto

lemma map_of_merge:
  "map_of (merge_attrs xs ys) a = (case map_of ys a of None \<Rightarrow> map_of xs a | Some v \<Rightarrow> Some v)"
proof (cases "map_of ys a")
  case None
  then have "a \<notin> fst ` set ys" by (simp add: map_of_eq_None_iff)
  then show ?thesis using None
    by (simp add: merge_attrs_def map_add_def map_of_filter_other [of a "fst ` set ys"])
qed (simp add: merge_attrs_def map_add_def)

lemma dedupe_into_attr: "ent_attr (dedupe_into acc es) u a = last_attr (ent_attr acc u a) es u a"
proof (induction acc es rule: dedupe_into.induct)
  case (2 acc e es)
  let ?acc = "if e_uid e \<in> e_uid ` set acc
       then map (\<lambda>prior. if e_uid prior = e_uid e then merge_entity prior e else prior) acc
       else acc @ [e]"
  have "ent_attr ?acc u a = (if e_uid e = u
      then (case map_of (e_attrs e) a of None \<Rightarrow> ent_attr acc u a | Some w \<Rightarrow> Some w)
      else ent_attr acc u a)"
  proof (cases "e_uid e \<in> e_uid ` set acc")
    case True
    then have "entity_of acc (e_uid e) \<noteq> None" by (simp add: entity_of_None)
    then show ?thesis
      using True by (auto simp: ent_attr_def entity_of_map_merge merge_entity_def map_of_merge
          split: option.split)
  next
    case False
    then have "entity_of acc (e_uid e) = None" by (simp add: entity_of_None)
    then show ?thesis
      using False by (auto simp: ent_attr_def entity_of_append split: option.split)
  qed
  then show ?case using "2.IH" by simp
qed simp

lemma dedupe_attr: "ent_attr (dedupeEntities es) u a = last_attr None es u a"
  by (simp add: dedupeEntities_def dedupe_into_attr) (simp add: ent_attr_def)

lemma dedupe_into_parents:
  "ent_parents (dedupe_into acc es) u =
     ent_parents acc u \<union> (\<Union>e \<in> {e \<in> set es. e_uid e = u}. set (e_parents e))"
proof (induction acc es rule: dedupe_into.induct)
  case (2 acc e es)
  let ?acc = "if e_uid e \<in> e_uid ` set acc
       then map (\<lambda>prior. if e_uid prior = e_uid e then merge_entity prior e else prior) acc
       else acc @ [e]"
  have "ent_parents ?acc u = ent_parents acc u \<union> (if e_uid e = u then set (e_parents e) else {})"
  proof (cases "e_uid e \<in> e_uid ` set acc")
    case True
    then have "entity_of acc (e_uid e) \<noteq> None" by (simp add: entity_of_None)
    then show ?thesis
      using True by (auto simp: ent_parents_def entity_of_map_merge merge_entity_def split: option.split)
  next
    case False
    then have "entity_of acc (e_uid e) = None" by (simp add: entity_of_None)
    then show ?thesis
      using False by (auto simp: ent_parents_def entity_of_append split: option.split)
  qed
  then show ?case using "2.IH" by auto
qed simp

end
