(* ===== verification/Access_Facts.thy ===== *)
theory Access_Facts
  imports Access
begin

text \<open>
  What a decision is: under the engine's documented behaviour, exactly the permits and forbids
  that the active grants of the user's active roles and the static policies state. And the
  policy cache: keyed by \<open>config_version\<close>, it never serves policies older than the version a
  request read.
\<close>

section \<open>The request\<close>

lemma last_attr_append: "last_attr v (xs @ ys) u a = last_attr (last_attr v xs u a) ys u a"
  by (induction xs arbitrary: v) auto

lemma last_attr_blank:
  "\<forall>e \<in> set es. e_attrs e = [] \<Longrightarrow> last_attr v es u a = v"
  by (induction es arbitrary: v) auto

lemma attr_of_ent: "attr_of q u a = ent_attr (q_entities q) u a"
  by (simp add: attr_of_def ent_attr_def)

definition principal_attrs :: "id \<Rightarrow> state \<Rightarrow> (string \<times> cval) list" where
  "principal_attrs userId s = e_attrs (hd (snd (buildPrincipalEntities userId s)))"

lemma make_request_parts [simp]:
  "q_principal (make_request u a (ty, rid, attrs) s) = (User, Eid u)"
  "q_action (make_request u a (ty, rid, attrs) s) = a"
  "q_resource (make_request u a (ty, rid, attrs) s) = (ty, rid)"
  by (simp_all add: make_request_def buildPrincipalEntities_def Let_def)

lemma make_request_distinct: "distinct (map e_uid (q_entities (make_request u a res s)))"
  by (cases res) (simp add: make_request_def buildPrincipalEntities_def Let_def dedupe_distinct)

lemma request_resource_attr:
  assumes "map_of attrs k = Some v"
  shows "attr_of (make_request u a (ty, rid, attrs) s) (ty, rid) k = Some v"
  using assms
  by (simp add: attr_of_ent make_request_def buildPrincipalEntities_def Let_def dedupe_attr
      last_attr_append)

lemma request_resource_other:
  assumes "(ty, rid) \<noteq> (User, Eid u)"
  shows "attr_of (make_request u a (ty, rid, attrs) s) (ty, rid) k = map_of attrs k"
  using assms not_sym [OF assms]
  by (auto simp: attr_of_ent make_request_def buildPrincipalEntities_def Let_def dedupe_attr
      last_attr_append last_attr_blank split: option.split)

lemma request_principal_attr:
  assumes "(ty, rid) \<noteq> (User, Eid u) \<or> map_of attrs k = None"
  shows "attr_of (make_request u a (ty, rid, attrs) s) (User, Eid u) k = map_of (principal_attrs u s) k"
proof (cases "ty = User \<and> rid = Eid u")
  case True
  then show ?thesis
    using assms
    by (simp add: attr_of_ent make_request_def buildPrincipalEntities_def Let_def dedupe_attr
        last_attr_append last_attr_blank principal_attrs_def split: option.split)
next
  case False
  then have "\<not> (User = ty \<and> Eid u = rid)" by auto
  with False show ?thesis
    by (auto simp: attr_of_ent make_request_def buildPrincipalEntities_def Let_def dedupe_attr
        last_attr_append last_attr_blank principal_attrs_def split: option.split)
qed

lemma principal_in_parents:
  "principal_in q g \<longleftrightarrow> g = q_principal q \<or> g \<in> ent_parents (q_entities q) (q_principal q)"
  by (auto simp: principal_in_def ent_parents_def split: option.split)

lemma request_principal_in:
  "principal_in (make_request u a (ty, rid, attrs) s) (Role, Eid k) \<longleftrightarrow>
     k \<in> r_id ` set (roles_held u s)"
proof -
  have "ent_parents (dedupeEntities es) x = (\<Union>e \<in> {e \<in> set es. e_uid e = x}. set (e_parents e))"
    for es x by (simp add: dedupeEntities_def dedupe_into_parents) (simp add: ent_parents_def)
  then show ?thesis
    by (auto simp: principal_in_parents make_request_def buildPrincipalEntities_def Let_def role_uid_def)
qed

lemma roles_held_iff:
  "r \<in> set (roles_held u s) \<longleftrightarrow>
     r \<in> set (roles s) \<and> r_lifecycleState r = active \<and>
     (\<exists>ur \<in> set (user_roles s). ur_userId ur = u \<and> ur_roleId ur = r_id r)"
  by (auto simp: roles_held_def)

section \<open>The policies\<close>

lemma those_Some_set: "those (map f xs) = Some ys \<Longrightarrow> set ys = {y. \<exists>x \<in> set xs. f x = Some y}"
  by (induction xs arbitrary: ys) (auto split: option.splits)

lemma those_Some_iff: "(\<exists>ys. those (map f xs) = Some ys) \<longleftrightarrow> (\<forall>x \<in> set xs. f x \<noteq> None)"
  by (induction xs) (auto split: option.splits)

definition fresh_policies :: "state \<Rightarrow> policy list option" where
  "fresh_policies s =
     (case organizations s of [] \<Rightarrow> None | org # _ \<Rightarrow> project org (projectable (o_id org) s))"

definition version_of :: "state \<Rightarrow> nat" where
  "version_of s = (case organizations s of [] \<Rightarrow> 0 | org # _ \<Rightarrow> o_configVersion org)"

definition cache_ok :: "state \<Rightarrow> bool" where
  "cache_ok s \<longleftrightarrow>
     (\<forall>v ps. policy_cache s = Some (v, ps) \<longrightarrow> v = version_of s \<longrightarrow> fresh_policies s = Some ps)"

lemma fresh_set:
  assumes "fresh_policies s = Some ps" and "organizations s = org # rest"
  shows "set ps = set (staticPolicies (selfReviewAllowed org) ALL_ACTION_STRINGS) \<union>
           {p. \<exists>g \<in> set (projectable (o_id org) s). grantToPolicy g = Some p}"
  using assms those_Some_set [of grantToPolicy]
  by (auto simp: fresh_policies_def project_def split: option.splits)

lemma getPolicies_run:
  assumes "cache_ok s" and "organizations s = org # rest" and "fresh_policies s = Some ps"
  shows "\<exists>t. getPolicies (o_id org) (o_configVersion org) s = (Inr ps, t) \<and>
           (t = s \<or> t = s\<lparr>policy_cache := Some (o_configVersion org, ps)\<rparr>)"
proof (cases "\<exists>ps'. policy_cache s = Some (o_configVersion org, ps')")
  case True
  then show ?thesis
    using assms by (auto simp: getPolicies_def op_simps cache_ok_def version_of_def)
next
  case False
  then have "(case policy_cache s of None \<Rightarrow> False | Some (v, _) \<Rightarrow> v = o_configVersion org) = False"
    by (auto split: option.split)
  then show ?thesis
    using assms(2,3) by (simp add: getPolicies_def op_simps projectPolicies_def fresh_policies_def)
qed

lemma make_request_cache [simp]:
  "make_request u a res (s\<lparr>policy_cache := c\<rparr>) = make_request u a res s"
  by (simp add: make_request_def buildPrincipalEntities_def roles_held_def)

lemma decide_run:
  assumes "cache_ok s" and "organizations s = org # rest" and "fresh_policies s = Some ps"
  shows "fst (decide eng u a res s) =
           (case eng ps (make_request u a res s) of
              None \<Rightarrow> Inl (ServerError ''Cedar authorization failure'') | Some b \<Rightarrow> Inr b)"
  using getPolicies_run [OF assms] assms(2)
  by (auto simp: decide_def readOrg_def op_simps bnd_def [of "getPolicies _ _"] split: option.split)

text \<open>The abstract reading of a decision.\<close>

definition permitted :: "request \<Rightarrow> grant list \<Rightarrow> bool" where
  "permitted q gs \<longleftrightarrow>
     (q_action q = ''user:update'' \<and> q_principal q = q_resource q) \<or>
     (\<exists>g \<in> set gs. g_effect g = Permit \<and> principal_in q (Role, Eid (g_roleId g)) \<and>
        q_action q = g_action g \<and> scope_matches q g)"

definition forbidden :: "request \<Rightarrow> bool \<Rightarrow> grant list \<Rightarrow> bool" where
  "forbidden q selfReview gs \<longleftrightarrow>
     attr_of q (q_resource q) ''retired'' = Some (VBool True) \<or>
     (\<not> selfReview \<and> q_action q = ''task:review'' \<and>
        attr_of q (q_resource q) ''claimant'' = Some (VEntity (q_principal q))) \<or>
     (\<exists>g \<in> set gs. g_effect g = Forbid \<and> principal_in q (Role, Eid (g_roleId g)) \<and>
        q_action q = g_action g \<and> scope_matches q g)"

lemma review_registered: "''task:review'' \<in> set ALL_ACTION_STRINGS"
  by (simp add: ALL_ACTION_STRINGS_def ACTIONS_def)

lemma grant_effect: "grantToPolicy g = Some p \<Longrightarrow> p_effect p = g_effect g"
  by (auto simp: grantToPolicy_def split: option.splits)

lemma allows_iff:
  assumes fresh: "fresh_policies s = Some ps" and org: "organizations s = org # rest"
  defines "gs \<equiv> projectable (o_id org) s"
  shows "cedar_allows ps q \<longleftrightarrow> permitted q gs \<and> \<not> forbidden q (selfReviewAllowed org) gs"
proof -
  have ex: "\<exists>p. grantToPolicy g = Some p" if "g \<in> set gs" for g
    using fresh org that those_Some_iff [of grantToPolicy gs]
    by (auto simp: fresh_policies_def project_def gs_def split: option.splits)
  note set = fresh_set [OF fresh org, folded gs_def]
  have eff: "p_effect static_retired_hard_deny = Forbid" "p_effect static_self_review_forbid = Forbid"
      "p_effect static_baseline_self_access = Permit"
    by (simp_all add: static_retired_hard_deny_def static_self_review_forbid_def
        static_baseline_self_access_def)
  have permit: "(\<exists>p \<in> set ps. p_effect p = Permit \<and> satisfied q p) \<longleftrightarrow> permitted q gs"
  proof
    assume "\<exists>p \<in> set ps. p_effect p = Permit \<and> satisfied q p"
    then obtain p where p: "p \<in> set ps" "p_effect p = Permit" "satisfied q p" by blast
    then consider "p = static_baseline_self_access" | g where "g \<in> set gs" "grantToPolicy g = Some p"
      using static_permit unfolding set by blast
    then show "permitted q gs"
    proof cases
      case 1
      then show ?thesis using p(3) by (simp add: satisfied_self permitted_def)
    next
      case 2
      then show ?thesis using p satisfied_grant [OF 2(2)] grant_effect [OF 2(2)]
        by (auto simp: permitted_def)
    qed
  next
    assume "permitted q gs"
    then consider "satisfied q static_baseline_self_access"
      | g where "g \<in> set gs" "g_effect g = Permit" "principal_in q (Role, Eid (g_roleId g))"
          "q_action q = g_action g" "scope_matches q g"
      by (auto simp: permitted_def satisfied_self)
    then show "\<exists>p \<in> set ps. p_effect p = Permit \<and> satisfied q p"
    proof cases
      case 1
      then show ?thesis unfolding set using eff by (auto simp: staticPolicies_def)
    next
      case 2
      then obtain p where p: "grantToPolicy g = Some p" using ex by blast
      then have "satisfied q p" "p_effect p = Permit"
        using 2 satisfied_grant [OF p] grant_effect [OF p] by simp_all
      then show ?thesis unfolding set using p 2(1) by blast
    qed
  qed
  have forbid: "(\<exists>p \<in> set ps. p_effect p = Forbid \<and> satisfied q p) \<longleftrightarrow>
      forbidden q (selfReviewAllowed org) gs"
  proof
    assume "\<exists>p \<in> set ps. p_effect p = Forbid \<and> satisfied q p"
    then obtain p where p: "p \<in> set ps" "p_effect p = Forbid" "satisfied q p" by blast
    then consider "p = static_retired_hard_deny"
      | "p = static_self_review_forbid" "\<not> selfReviewAllowed org"
      | g where "g \<in> set gs" "grantToPolicy g = Some p"
      using eff unfolding set by (auto simp: staticPolicies_def split: if_splits)
    then show "forbidden q (selfReviewAllowed org) gs"
    proof cases
      case 3
      then show ?thesis using p satisfied_grant [OF 3(2)] grant_effect [OF 3(2)]
        by (auto simp: forbidden_def)
    qed (use p(3) in \<open>simp_all add: forbidden_def satisfied_hard_deny satisfied_self_review\<close>)
  next
    assume "forbidden q (selfReviewAllowed org) gs"
    then consider "satisfied q static_retired_hard_deny"
      | "\<not> selfReviewAllowed org" "satisfied q static_self_review_forbid"
      | g where "g \<in> set gs" "g_effect g = Forbid" "principal_in q (Role, Eid (g_roleId g))"
          "q_action q = g_action g" "scope_matches q g"
      by (auto simp: forbidden_def satisfied_hard_deny satisfied_self_review)
    then show "\<exists>p \<in> set ps. p_effect p = Forbid \<and> satisfied q p"
    proof cases
      case 3
      then obtain p where p: "grantToPolicy g = Some p" using ex by blast
      then have "satisfied q p" "p_effect p = Forbid"
        using 3 satisfied_grant [OF p] grant_effect [OF p] by simp_all
      then show ?thesis unfolding set using p 3(1) by blast
    qed (use eff review_registered in \<open>auto simp: set staticPolicies_def\<close>)
  qed
  show ?thesis unfolding cedar_allows_def permit forbid by blast
qed

lemma decide_iff:
  assumes "cedar_documented eng" and "cache_ok s" and "organizations s = org # rest"
    and "fresh_policies s = Some ps"
  shows "fst (decide eng u a res s) =
           Inr (permitted (make_request u a res s) (projectable (o_id org) s) \<and>
                \<not> forbidden (make_request u a res s) (selfReviewAllowed org) (projectable (o_id org) s))"
  using decide_run [OF assms(2-4), of eng u a res] allows_iff [OF assms(4,3)]
    cedar_documentedD [OF assms(1) make_request_distinct]
  by simp

section \<open>The cache under concurrent changes\<close>

text \<open>
  Several processes, each with its own cache, share the database. A committed change to the
  database either leaves the projected policies as they are or raises \<open>config_version\<close>
  (\<open>policy_change\<close>; the operations on grants, roles and settings are shown to be of this kind
  where they are modelled). A request first reads the version and only later takes the
  policies for it, from its process's cache or by projecting the database as it then is.
\<close>

definition policy_change :: "state \<Rightarrow> state \<Rightarrow> bool" where
  "policy_change s t \<longleftrightarrow>
     version_of s < version_of t \<or> (version_of t = version_of s \<and> fresh_policies t = fresh_policies s)"

type_synonym pcache = "(nat \<times> policy list) option"

text \<open>Database, caches by process, version read by the request in flight at each process, and
  the policies it was served.\<close>

record cluster =
  cl_db :: state
  cl_cache :: "nat \<Rightarrow> pcache"
  cl_read :: "nat \<Rightarrow> nat option"
  cl_served :: "nat \<Rightarrow> policy list option"

inductive cluster_step :: "cluster \<Rightarrow> cluster \<Rightarrow> bool" where
  commit: "policy_change (cl_db c) t \<Longrightarrow> cluster_step c (c\<lparr>cl_db := t, cl_served := (\<lambda>_. None)\<rparr>)"
| forget: "cluster_step c (c\<lparr>cl_cache := (cl_cache c)(i := None)\<rparr>)"
| read_version: "cluster_step c (c\<lparr>cl_read := (cl_read c)(i := Some (version_of (cl_db c))),
                                   cl_served := (cl_served c)(i := None)\<rparr>)"
| serve_cached: "cl_read c i = Some v \<Longrightarrow> cl_cache c i = Some (v, ps) \<Longrightarrow>
    cluster_step c (c\<lparr>cl_served := (cl_served c)(i := Some ps)\<rparr>)"
| serve_projected: "cl_read c i = Some v \<Longrightarrow> (\<forall>ps. cl_cache c i \<noteq> Some (v, ps)) \<Longrightarrow>
    fresh_policies (cl_db c) = Some ps \<Longrightarrow>
    cluster_step c (c\<lparr>cl_cache := (cl_cache c)(i := Some (v, ps)),
                      cl_served := (cl_served c)(i := Some ps)\<rparr>)"

definition cluster_ok :: "cluster \<Rightarrow> bool" where
  "cluster_ok c \<longleftrightarrow>
     (\<forall>i v ps. cl_cache c i = Some (v, ps) \<longrightarrow> v \<le> version_of (cl_db c) \<and>
        (v = version_of (cl_db c) \<longrightarrow> fresh_policies (cl_db c) = Some ps)) \<and>
     (\<forall>i v. cl_read c i = Some v \<longrightarrow> v \<le> version_of (cl_db c)) \<and>
     (\<forall>i v ps. cl_read c i = Some v \<longrightarrow> cl_served c i = Some ps \<longrightarrow>
        v = version_of (cl_db c) \<longrightarrow> fresh_policies (cl_db c) = Some ps)"

lemma cluster_step_ok: "cluster_step c d \<Longrightarrow> cluster_ok c \<Longrightarrow> cluster_ok d"
proof (induction rule: cluster_step.induct)
  case (commit c t)
  then show ?case by (fastforce simp: cluster_ok_def policy_change_def)
qed (auto simp: cluster_ok_def split: if_splits)

inductive cluster_run :: "cluster \<Rightarrow> cluster \<Rightarrow> bool" where
  run_refl: "cluster_run c c"
| run_step: "cluster_run c d \<Longrightarrow> cluster_step d e \<Longrightarrow> cluster_run c e"

lemma cluster_run_ok: "cluster_run c d \<Longrightarrow> cluster_ok c \<Longrightarrow> cluster_ok d"
  by (induction rule: cluster_run.induct) (auto intro: cluster_step_ok)

lemma policy_change_refl [simp]: "policy_change s s"
  by (simp add: policy_change_def)

lemma policy_change_trans: "policy_change s t \<Longrightarrow> policy_change t u \<Longrightarrow> policy_change s u"
  by (auto simp: policy_change_def)

end
