(* ===== verification/Admin_Floor.thy ===== *)
theory Admin_Floor
  imports Access_Facts Payloads Lifecycle
begin

text \<open>
  \<open>access/administrability.service.ts\<close>: the effective administrators and the guard that rolls a
  change back when it would leave none; and the contract every operation on the organization's
  roles, grants, members and settings is held to (the locale \<open>governed_op\<close>): an effective
  administrator remains, and whatever changes the projected policies also raises
  \<open>config_version\<close>.
\<close>

section \<open>Effective administrators\<close>

definition governance_grant :: "grant \<Rightarrow> bool" where
  "governance_grant g \<longleftrightarrow>
     g_lifecycleState g = active \<and> g_effect g = Permit \<and> g_scopeKind g = scope_global \<and>
     g_action g \<in> set EFFECTIVE_ADMIN_ACTIONS"

definition governing_role :: "state \<Rightarrow> role \<Rightarrow> bool" where
  "governing_role s r \<longleftrightarrow>
     r_lifecycleState r = active \<and> (\<exists>g \<in> set (grants s). g_roleId g = r_id r \<and> governance_grant g)"

definition governs :: "state \<Rightarrow> id \<Rightarrow> bool" where
  "governs s userId \<longleftrightarrow>
     (\<exists>ur \<in> set (user_roles s). ur_userId ur = userId \<and>
        (\<exists>r \<in> set (roles s). r_id r = ur_roleId ur \<and> governing_role s r))"

definition effectiveAdminIds :: "id \<Rightarrow> state \<Rightarrow> id list" where
  "effectiveAdminIds organizationId s =
     remdups (map u_id (filter (\<lambda>u. u_organizationId u = organizationId \<and>
       u_lifecycleState u = active \<and> governs s (u_id u)) (users s)))"

definition effectiveAdminCount :: "id \<Rightarrow> state \<Rightarrow> nat" where
  "effectiveAdminCount organizationId s = length (effectiveAdminIds organizationId s)"

definition effectiveAdminExists :: "id \<Rightarrow> state \<Rightarrow> bool" where
  "effectiveAdminExists organizationId s \<longleftrightarrow> effectiveAdminCount organizationId s > 0"

definition assertFloorWithinTx :: "id \<Rightarrow> string \<Rightarrow> id \<Rightarrow> unit svc" where
  "assertFloorWithinTx organizationId path subjectId =
     bnd (gets (effectiveAdminCount organizationId)) (\<lambda>n.
     check (n \<noteq> 0) (LastAdminError path subjectId))"

definition withAdminFloor ::
  "id \<Rightarrow> id \<Rightarrow> string \<Rightarrow> id \<Rightarrow> string \<Rightarrow> 'a svc \<Rightarrow> 'a svc" where
  "withAdminFloor organizationId actorUserId subjectType subjectId path mutate =
     (\<lambda>s. case transaction (
              bnd mutate (\<lambda>result.
              bnd (assertFloorWithinTx organizationId path subjectId) (\<lambda>_. ret result))) s of
        (Inl (LastAdminError p i), t) \<Rightarrow>
          bnd (logActivity organizationId (Some actorUserId) subjectType subjectId
                 ''last_admin_refused'' [(''path'', PStr p), (''subjectId'', PId i)]) (\<lambda>_.
          throw (ConflictError ''LAST_ADMIN'')) t
      | out \<Rightarrow> out)"

text \<open>Somebody can still govern.\<close>

definition governed :: "state \<Rightarrow> bool" where
  "governed s \<longleftrightarrow>
     (\<exists>u \<in> set (users s). u_lifecycleState u = active \<and> governs s (u_id u))"

lemma admin_ids_iff:
  "k \<in> set (effectiveAdminIds org s) \<longleftrightarrow>
     (\<exists>u \<in> set (users s). u_id u = k \<and> u_organizationId u = org \<and>
        u_lifecycleState u = active \<and> governs s k)"
  by (auto simp: effectiveAdminIds_def)

lemma admin_count_governed: "effectiveAdminCount org s \<noteq> 0 \<Longrightarrow> governed s"
proof -
  assume "effectiveAdminCount org s \<noteq> 0"
  then obtain k where "k \<in> set (effectiveAdminIds org s)"
    by (cases "effectiveAdminIds org s") (auto simp: effectiveAdminCount_def)
  then show ?thesis by (auto simp: admin_ids_iff governed_def)
qed

text \<open>The guarded columns: more active users, memberships, active roles and governance grants
  never remove an administrator.\<close>

definition covers :: "('r \<Rightarrow> bool) \<Rightarrow> ('r \<Rightarrow> 'k) \<Rightarrow> 'r list \<Rightarrow> 'r list \<Rightarrow> bool" where
  "covers P key rs qs \<longleftrightarrow> (\<forall>r \<in> set rs. P r \<longrightarrow> (\<exists>q \<in> set qs. key q = key r \<and> P q))"

lemma coversD: "covers P key rs qs \<Longrightarrow> r \<in> set rs \<Longrightarrow> P r \<Longrightarrow> \<exists>q \<in> set qs. key q = key r \<and> P q"
  by (simp add: covers_def)

lemma covers_refl [simp]: "covers P key rs rs"
  by (auto simp: covers_def)

lemma covers_append [simp]: "covers P key rs (rs @ qs)"
  by (auto simp: covers_def)

lemma covers_upd:
  assumes "\<And>r. key (f r) = key r" and "\<And>r. P r \<Longrightarrow> P (f r)"
  shows "covers P key rs (upd_where Q f rs)"
  unfolding covers_def
proof (intro ballI impI)
  fix r
  assume r: "r \<in> set rs" "P r"
  then have "(if Q r then f r else r) \<in> set (upd_where Q f rs)" by (auto simp: in_upd_where)
  then show "\<exists>q \<in> set (upd_where Q f rs). key q = key r \<and> P q"
    by (rule bexI [rotated]) (use assms r in simp)
qed

definition no_fewer_admins :: "state \<Rightarrow> state \<Rightarrow> bool" where
  "no_fewer_admins s t \<longleftrightarrow>
     covers (\<lambda>u. u_lifecycleState u = active) u_id (users s) (users t) \<and>
     covers (\<lambda>ur. True) (\<lambda>ur. (ur_userId ur, ur_roleId ur)) (user_roles s) (user_roles t) \<and>
     covers (\<lambda>r. r_lifecycleState r = active) r_id (roles s) (roles t) \<and>
     covers governance_grant g_roleId (grants s) (grants t)"

lemma governed_mono:
  assumes more: "no_fewer_admins s t" and "governed s"
  shows "governed t"
proof -
  obtain u ur r g where s: "u \<in> set (users s)" "u_lifecycleState u = active"
      "ur \<in> set (user_roles s)" "ur_userId ur = u_id u" "r \<in> set (roles s)" "r_id r = ur_roleId ur"
      "r_lifecycleState r = active" "g \<in> set (grants s)" "g_roleId g = r_id r" "governance_grant g"
    using assms(2) by (auto simp: governed_def governs_def governing_role_def)
  note more = more [unfolded no_fewer_admins_def]
  obtain v where v: "v \<in> set (users t)" "u_id v = u_id u" "u_lifecycleState v = active"
    using coversD [OF conjunct1 [OF more] s(1,2)] by blast
  obtain vr where vr: "vr \<in> set (user_roles t)" "ur_userId vr = ur_userId ur" "ur_roleId vr = ur_roleId ur"
    using coversD [OF conjunct1 [OF conjunct2 [OF more]] s(3)] by auto
  obtain q where q: "q \<in> set (roles t)" "r_id q = r_id r" "r_lifecycleState q = active"
    using coversD [OF conjunct1 [OF conjunct2 [OF conjunct2 [OF more]]] s(5,7)] by blast
  obtain h where h: "h \<in> set (grants t)" "g_roleId h = g_roleId g" "governance_grant h"
    using coversD [OF conjunct2 [OF conjunct2 [OF conjunct2 [OF more]]] s(8,10)] by blast
  show ?thesis
    unfolding governed_def governs_def governing_role_def
    by (intro bexI [OF _ v(1)] conjI bexI [OF _ vr(1)] bexI [OF _ q(1)] bexI [OF _ h(1)])
       (use s v vr q h in simp_all)
qed

interpretation governed_inv: invariant governed
  by unfold_locales
     (auto simp: governed_def governs_def governing_role_def)

text \<open>What the guard promises of any change it wraps.\<close>

lemma keeps_governed_floor [keeps_intros]:
  "keeps governed (withAdminFloor org actor ty i path m)"
proof (rule keepsI)
  fix s r t
  assume g: "governed s" and run: "withAdminFloor org actor ty i path m s = (r, t)"
  let ?tx = "bnd m (\<lambda>x. bnd (assertFloorWithinTx org path i) (\<lambda>_. ret x))"
  obtain r' t' where tx: "transaction ?tx s = (r', t')" by (cases "transaction ?tx s")
  have t': "governed t'"
  proof (cases r')
    case (Inl e)
    then show ?thesis
      using tx g governed_inv.policy_free [OF g, of "\<lambda>_. c" for c]
      by (auto simp: transaction_def split: prod.splits sum.splits)
  next
    case (Inr x)
    then have "?tx s = (Inr x, t')" using tx by (simp add: transaction_Inr)
    then have "effectiveAdminCount org t' \<noteq> 0"
      by (auto simp: bnd_Inr_iff assertFloorWithinTx_def op_simps split: if_splits)
    then show ?thesis by (rule admin_count_governed)
  qed
  show "governed t"
  proof (cases "\<exists>p k. r' = Inl (LastAdminError p k)")
    case True
    then obtain p k where e: "r' = Inl (LastAdminError p k)" by blast
    have kept: "keeps governed (bnd (logActivity org (Some actor) ty i ''last_admin_refused''
        [(''path'', PStr p), (''subjectId'', PId k)]) (\<lambda>_. throw (ConflictError ''LAST_ADMIN'')))"
      by (intro keeps_intros governed_inv.keeps_logActivity)
    then show ?thesis using keepsD [OF kept t'] run tx e by (simp add: withAdminFloor_def)
  next
    case False
    then have "withAdminFloor org actor ty i path m s = (r', t')"
      using tx by (auto simp: withAdminFloor_def split: sum.split err.split)
    then show ?thesis using run t' by simp
  qed
qed

context invariant begin

text \<open>Any other invariant only has to survive the change itself.\<close>

lemma holds_withAdminFloor:
  assumes s: "P s" and m: "holds P m s"
  shows "holds P (withAdminFloor org actor ty i path m) s"
proof -
  let ?tx = "bnd m (\<lambda>x. bnd (assertFloorWithinTx org path i) (\<lambda>_. ret x))"
  obtain r' t' where tx: "transaction ?tx s = (r', t')" by (cases "transaction ?tx s")
  have "holds P (transaction ?tx) s"
    by (rule holds_transaction [OF free_of_cache s], rule holds_bnd_keeps [OF m])
       (simp add: assertFloorWithinTx_def keeps_intros)
  then have t': "P t'" using tx by (simp add: holds_def)
  show ?thesis
  proof (cases "\<exists>p k. r' = Inl (LastAdminError p k)")
    case True
    then obtain p k where e: "r' = Inl (LastAdminError p k)" by blast
    have "keeps P (bnd (logActivity org (Some actor) ty i ''last_admin_refused''
        [(''path'', PStr p), (''subjectId'', PId k)]) (\<lambda>_. throw (ConflictError ''LAST_ADMIN'')))"
      by (intro keeps_intros)
    from keepsD_snd [OF this t'] show ?thesis using tx e by (simp add: withAdminFloor_def holds_def)
  next
    case False
    then have "withAdminFloor org actor ty i path m s = (r', t')"
      using tx by (auto simp: withAdminFloor_def split: sum.split err.split)
    then show ?thesis using t' by (simp add: holds_def)
  qed
qed

lemma keeps_withAdminFloor: "keeps P m \<Longrightarrow> keeps P (withAdminFloor org actor ty i path m)"
  by (rule keepsI_holds, rule holds_withAdminFloor) (auto intro: holds_keeps)

end

lemma withAdminFloor_ok:
  "m s = (Inr x, t) \<Longrightarrow> effectiveAdminCount org t \<noteq> 0 \<Longrightarrow>
   withAdminFloor org actor ty i path m s = (Inr x, t)"
  by (simp add: withAdminFloor_def op_simps bnd_Inr assertFloorWithinTx_def)

text \<open>A refused change is rolled back; what remains of it is the refusal in the log.\<close>

lemma withAdminFloor_refused:
  assumes "m s = (Inr x, t)" and "effectiveAdminCount org t = 0"
  shows "withAdminFloor org actor ty i path m s =
           (Inl (ConflictError ''LAST_ADMIN''),
            logged org (Some actor) ty i ''last_admin_refused''
              [(''path'', PStr path), (''subjectId'', PId i)]
              (s\<lparr>policy_cache := policy_cache t\<rparr>))"
  using assms
  by (simp add: withAdminFloor_def op_simps bnd_Inr assertFloorWithinTx_def)

lemma withAdminFloor_other:
  "m s = (Inl e, t) \<Longrightarrow> \<forall>p k. e \<noteq> LastAdminError p k \<Longrightarrow>
   withAdminFloor org actor ty i path m s = (Inl e, s\<lparr>policy_cache := policy_cache t\<rparr>)"
  by (cases e) (simp_all add: withAdminFloor_def op_simps bnd_Inl)

section \<open>Policies and their version\<close>

definition single_org :: "state \<Rightarrow> bool" where
  "single_org s \<longleftrightarrow> length (organizations s) = 1"

text \<open>Progress of the version, as an invariant of the steps of a transaction.\<close>

definition versioned :: "nat \<Rightarrow> state \<Rightarrow> bool" where
  "versioned n s \<longleftrightarrow> single_org s \<and> n \<le> version_of s"

lemma version_cong: "organizations t = organizations s \<Longrightarrow> version_of t = version_of s"
  by (simp add: version_of_def)

lemma version_frame [simp]:
  "version_of (s\<lparr>next_id := n\<rparr>) = version_of s"
  "version_of (activities_update f s) = version_of s"
  "version_of (notifications_update g s) = version_of s"
  "version_of (pings_update h s) = version_of s"
  "version_of (policy_cache_update c s) = version_of s"
  "version_of (roles_update f1 s) = version_of s"
  "version_of (grants_update f2 s) = version_of s"
  "version_of (users_update f3 s) = version_of s"
  "version_of (user_roles_update f4 s) = version_of s"
  "version_of (divisions_update f5 s) = version_of s"
  "version_of (teams_update f6 s) = version_of s"
  "version_of (sessions_update f7 s) = version_of s"
  by (simp_all add: version_of_def)

interpretation versioned_inv: invariant "versioned n" for n
  by unfold_locales (simp_all add: versioned_def single_org_def)

text \<open>\<open>bumped m\<close>: a run of \<open>m\<close> that returns has raised the version.\<close>

definition bumped :: "'a svc \<Rightarrow> bool" where
  "bumped m \<longleftrightarrow>
     (\<forall>s x t. single_org s \<longrightarrow> m s = (Inr x, t) \<longrightarrow> version_of s < version_of t)"

lemma bumpConfigVersion_run [op_simps]:
  "bnd (bumpConfigVersion k) f s =
     (case lookup o_id k (organizations s) of
        None \<Rightarrow> (Inl RecordNotFound, s)
      | Some org \<Rightarrow> f () (policy_cache_update (\<lambda>_. None) (organizations_update
          (upd_where (\<lambda>q. o_id q = k) (\<lambda>r. r\<lparr>o_configVersion := o_configVersion r + 1\<rparr>)) s)))"
  "bumpConfigVersion k s =
     (case lookup o_id k (organizations s) of
        None \<Rightarrow> (Inl RecordNotFound, s)
      | Some org \<Rightarrow> (Inr (), policy_cache_update (\<lambda>_. None) (organizations_update
          (upd_where (\<lambda>q. o_id q = k) (\<lambda>r. r\<lparr>o_configVersion := o_configVersion r + 1\<rparr>)) s)))"
  by (simp_all add: bumpConfigVersion_def invalidate_def op_simps split: option.split)

lemma bumped_bump: "bumped (bumpConfigVersion k)"
  unfolding bumped_def
proof (intro allI impI)
  fix s t :: state and x
  assume "single_org s" and run: "bumpConfigVersion k s = (Inr x, t)"
  then obtain org where org: "organizations s = [org]"
    by (auto simp: single_org_def length_Suc_conv)
  with run show "version_of s < version_of t"
    by (auto simp: op_simps version_of_def split: option.splits if_splits)
qed

lemma keeps_versioned_bump [keeps_intros]: "keeps (versioned n) (bumpConfigVersion k)"
  unfolding bumpConfigVersion_def invalidate_def
proof (intro keeps_intros keeps_update_row keeps_modify)
  fix s :: state
  assume "versioned n s"
  then obtain org where "organizations s = [org]" "n \<le> o_configVersion org"
    by (auto simp: versioned_def single_org_def version_of_def length_Suc_conv)
  then show "versioned n (organizations_update (upd_where (\<lambda>q. o_id q = k)
      (\<lambda>r. r\<lparr>o_configVersion := o_configVersion r + 1\<rparr>)) s)"
    by (simp add: versioned_def single_org_def version_of_def)
qed (rule versioned_inv.policy_free)

lemma versionedD:
  "(\<And>n. keeps (versioned n) m) \<Longrightarrow> single_org s \<Longrightarrow> m s = (r, t) \<Longrightarrow>
   single_org t \<and> version_of s \<le> version_of t"
  using keepsD [of "versioned (version_of s)" m s r t] by (auto simp: versioned_def)

lemma bumped_first:
  assumes "bumped m" and "\<And>n. keeps (versioned n) m" and "\<And>n x. keeps (versioned n) (f x)"
  shows "bumped (bnd m f)"
  unfolding bumped_def
proof (intro allI impI)
  fix s t x
  assume s: "single_org s" and "bnd m f s = (Inr x, t)"
  then obtain y u where u: "m s = (Inr y, u)" "f y u = (Inr x, t)" by (auto simp: bnd_Inr_iff)
  have "version_of s < version_of u" using assms(1) s u(1) unfolding bumped_def by blast
  also have "version_of u \<le> version_of t"
    using versionedD [OF assms(3) _ u(2)] versionedD [OF assms(2) s u(1)] by blast
  finally show "version_of s < version_of t" .
qed

lemma bumped_later:
  assumes "\<And>n. keeps (versioned n) m" and "\<And>x. bumped (f x)"
  shows "bumped (bnd m f)"
  unfolding bumped_def
proof (intro allI impI)
  fix s t x
  assume s: "single_org s" and "bnd m f s = (Inr x, t)"
  then obtain y u where u: "m s = (Inr y, u)" "f y u = (Inr x, t)" by (auto simp: bnd_Inr_iff)
  have "version_of s \<le> version_of u" "single_org u" using versionedD [OF assms(1) s u(1)] by auto
  then show "version_of s < version_of t" using assms(2) u(2) unfolding bumped_def by fastforce
qed

section \<open>The contract of governance operations\<close>

lemma policy_change_same:
  assumes "organizations t = organizations s" and "roles t = roles s" and "grants t = grants s"
  shows "policy_change s t"
proof -
  have "projectable k t = projectable k s" for k
    using assms(2,3) by (simp add: projectable_def role_active_def)
  then show ?thesis
    using assms(1) by (simp add: policy_change_def version_of_def fresh_policies_def cong: list.case_cong)
qed

definition policy_safe :: "'a svc \<Rightarrow> bool" where
  "policy_safe m \<longleftrightarrow>
     (\<forall>s. single_org s \<longrightarrow> single_org (snd (m s)) \<and> policy_change s (snd (m s)))"

lemma safeD:
  "policy_safe m \<Longrightarrow> single_org s \<Longrightarrow> single_org (snd (m s)) \<and> policy_change s (snd (m s))"
  by (simp add: policy_safe_def)

named_theorems safe_intros \<open>a service computation raises the version when it changes policies\<close>

lemma safe_ret [safe_intros]: "policy_safe (ret x)"
  by (simp add: policy_safe_def op_simps)

lemma safe_throw [safe_intros]: "policy_safe (throw e)"
  by (simp add: policy_safe_def op_simps)

lemma safe_gets [safe_intros]: "policy_safe (gets f)"
  by (simp add: policy_safe_def op_simps)

lemma safe_check [safe_intros]: "policy_safe (check b e)"
  by (simp add: policy_safe_def op_simps)

lemma safe_need [safe_intros]: "policy_safe (need x e)"
  by (simp add: policy_safe_def op_simps split: option.split)

lemma safe_now [safe_intros]: "policy_safe now"
  by (simp add: now_def safe_intros)

lemma safe_find_unique [safe_intros]: "policy_safe (find_unique rows key k)"
  by (simp add: find_unique_def safe_intros)

lemma safe_windowMs [safe_intros]: "policy_safe (windowMs k)"
  by (simp add: windowMs_def find_unique_def safe_intros policy_safe_def op_simps)

lemma safe_bnd [safe_intros]:
  assumes "policy_safe m" and "\<And>x. policy_safe (f x)"
  shows "policy_safe (bnd m f)"
  unfolding policy_safe_def
proof (intro allI impI)
  fix s
  assume s: "single_org s"
  obtain r t where m: "m s = (r, t)" by (cases "m s")
  then have t: "single_org t" "policy_change s t" using assms(1) s unfolding policy_safe_def by force+
  show "single_org (snd (bnd m f s)) \<and> policy_change s (snd (bnd m f s))"
  proof (cases r)
    case (Inl e)
    then show ?thesis using m t by (simp add: bnd_def)
  next
    case (Inr x)
    then show ?thesis
      using m t assms(2) [of x] policy_change_trans unfolding policy_safe_def by (fastforce simp: bnd_def)
  qed
qed

lemma safe_if [safe_intros]: "policy_safe m \<Longrightarrow> policy_safe n \<Longrightarrow> policy_safe (if b then m else n)"
  by simp

lemma safe_case_option [safe_intros]:
  "policy_safe m \<Longrightarrow> (\<And>y. policy_safe (f y)) \<Longrightarrow> policy_safe (case x of None \<Rightarrow> m | Some y \<Rightarrow> f y)"
  by (cases x) auto

lemma safe_frame:
  assumes "\<And>s. organizations (snd (m s)) = organizations s \<and> roles (snd (m s)) = roles s \<and>
                grants (snd (m s)) = grants s"
  shows "policy_safe m"
  using assms policy_change_same by (simp add: policy_safe_def single_org_def)

lemma safe_log_activity [safe_intros]:
  "policy_safe (log_activity org actor st sid verb p src conn)"
  by (rule safe_frame) (simp add: op_simps)

lemma safe_logActivity [safe_intros]: "policy_safe (logActivity org actor st sid verb p)"
  by (simp add: logActivity_def safe_intros)

lemma policy_change_cache [simp]: "policy_change s (s\<lparr>policy_cache := c\<rparr>)"
  by (rule policy_change_same) simp_all

lemma safe_transaction:
  assumes "bumped m" and "\<And>n. keeps (versioned n) m"
  shows "policy_safe (transaction m)"
  unfolding policy_safe_def
proof (intro allI impI)
  fix s
  assume s: "single_org s"
  obtain r t where m: "m s = (r, t)" by (cases "m s")
  show "single_org (snd (transaction m s)) \<and> policy_change s (snd (transaction m s))"
  proof (cases r)
    case (Inl e)
    then show ?thesis using m s by (simp add: transaction_def single_org_def)
  next
    case (Inr x)
    then have "version_of s < version_of t" "single_org t"
      using assms(1) versionedD [OF assms(2) s m] m s unfolding bumped_def by blast+
    then show ?thesis using m Inr by (simp add: transaction_def policy_change_def)
  qed
qed

lemma safe_floor:
  fixes m :: "'x svc"
  assumes "bumped m" and "\<And>n. keeps (versioned n) m"
  shows "policy_safe (withAdminFloor org actor ty i path m)"
proof -
  let ?tx = "bnd m (\<lambda>x. bnd (assertFloorWithinTx org path i) (\<lambda>_. ret x))"
  have "policy_safe (transaction ?tx)"
    by (intro safe_transaction bumped_first assms keeps_intros)
       (simp_all add: assertFloorWithinTx_def keeps_intros)
  then have tx: "single_org (snd (transaction ?tx s)) \<and> policy_change s (snd (transaction ?tx s))"
    if "single_org s" for s using that by (simp add: policy_safe_def)
  show ?thesis
    unfolding policy_safe_def
  proof (intro allI impI)
    fix s
    assume s: "single_org s"
    obtain r t where r: "transaction ?tx s = (r, t)" by (cases "transaction ?tx s")
    show "single_org (snd (withAdminFloor org actor ty i path m s)) \<and>
        policy_change s (snd (withAdminFloor org actor ty i path m s))"
    proof (cases "\<exists>p k. r = Inl (LastAdminError p k)")
      case True
      then obtain p k where e: "r = Inl (LastAdminError p k)" by blast
      let ?tail = "bnd (logActivity org (Some actor) ty i ''last_admin_refused''
        [(''path'', PStr p), (''subjectId'', PId k)]) (\<lambda>_. throw (ConflictError ''LAST_ADMIN''))"
      have run: "withAdminFloor org actor ty i path m s = ?tail t"
        using r e by (simp add: withAdminFloor_def)
      have t: "single_org t" "policy_change s t" using tx [OF s] r by simp_all
      have "policy_safe (?tail :: 'x svc)" by (intro safe_intros)
      from safeD [OF this t(1)]
      show ?thesis
        unfolding run using policy_change_trans [OF t(2)] by simp
    next
      case False
      then have "withAdminFloor org actor ty i path m s = (r, t)"
        using r by (auto simp: withAdminFloor_def split: sum.split err.split)
      then show ?thesis using tx [OF s] r by simp
    qed
  qed
qed

lemma keeps_decide [keeps_intros]:
  assumes "\<And>s c. P s \<Longrightarrow> P (policy_cache_update c s)"
  shows "keeps P (decide eng u a res)"
proof -
  have ro: "keeps P readOrg"
    unfolding readOrg_def by (rule keeps_bnd, rule keeps_gets) (auto intro: keeps_intros split: list.split)
  show ?thesis
    unfolding decide_def getPolicies_def projectPolicies_def
    by (intro keeps_intros ro keeps_modify assms)
qed

lemma safe_decide [safe_intros]: "policy_safe (decide eng u a res)"
  unfolding policy_safe_def
proof (intro allI impI)
  fix s
  assume "single_org s"
  moreover have "keeps (\<lambda>t. organizations t = organizations s \<and> roles t = roles s \<and> grants t = grants s)
      (decide eng u a res)"
    by (rule keeps_decide) simp
  ultimately show "single_org (snd (decide eng u a res s)) \<and> policy_change s (snd (decide eng u a res s))"
    using policy_change_same by (simp add: keeps_def single_org_def)
qed

text \<open>The contract, for an operation with arguments \<open>a\<close>; and what it gives any sequence of such
  operations.\<close>

locale floored_op =
  fixes serve :: "'a \<Rightarrow> state \<Rightarrow> (err + 'b) \<times> state"
  assumes floor: "keeps governed (serve a)"
begin

lemma history_governed: "governed s \<Longrightarrow> governed (fold (\<lambda>a s. snd (serve a s)) as s)"
  by (induction as arbitrary: s) (simp_all add: keepsD_snd [OF floor])

end

locale governed_op = floored_op +
  assumes policies: "policy_safe (serve a)"
begin

lemma history_policies:
  "single_org s \<Longrightarrow> single_org (fold (\<lambda>a s. snd (serve a s)) as s) \<and>
     policy_change s (fold (\<lambda>a s. snd (serve a s)) as s)"
proof (induction as arbitrary: s)
  case (Cons a as)
  then have "single_org (snd (serve a s))" "policy_change s (snd (serve a s))"
    using policies [of a] by (simp_all add: policy_safe_def)
  then show ?case
    using Cons.IH [of "snd (serve a s)"] policy_change_trans [of s "snd (serve a s)"] by simp
qed simp

end

text \<open>Writes to one column of the guarded tables.\<close>

lemma governed_users_upd:
  assumes "governed s" and "\<And>u. u_id (f u) = u_id u"
    and "\<And>u. u_lifecycleState u = active \<Longrightarrow> u_lifecycleState (f u) = active"
  shows "governed (users_update (upd_where Q f) s)"
  by (rule governed_mono [OF _ assms(1)]) (simp add: no_fewer_admins_def covers_upd assms(2,3))

lemma governed_roles_upd:
  assumes "governed s" and "\<And>r. r_id (f r) = r_id r"
    and "\<And>r. r_lifecycleState r = active \<Longrightarrow> r_lifecycleState (f r) = active"
  shows "governed (roles_update (upd_where Q f) s)"
  by (rule governed_mono [OF _ assms(1)]) (simp add: no_fewer_admins_def covers_upd assms(2,3))

lemma governed_grants_upd:
  assumes "governed s" and "\<And>g. g_roleId (f g) = g_roleId g"
    and "\<And>g. governance_grant g \<Longrightarrow> governance_grant (f g)"
  shows "governed (grants_update (upd_where Q f) s)"
  by (rule governed_mono [OF _ assms(1)]) (simp add: no_fewer_admins_def covers_upd assms(2,3))

lemma governed_add:
  "governed s \<Longrightarrow> governed (users_update (\<lambda>rs. rs @ [u]) s)"
  "governed s \<Longrightarrow> governed (roles_update (\<lambda>rs. rs @ [r]) s)"
  "governed s \<Longrightarrow> governed (grants_update (\<lambda>rs. rs @ [g]) s)"
  "governed s \<Longrightarrow> governed (user_roles_update (\<lambda>rs. rs @ [ur]) s)"
  by (erule governed_mono [rotated], simp add: no_fewer_admins_def)+

lemma governed_other [simp]:
  "governed (organizations_update f s) = governed s"
  "governed (divisions_update f1 s) = governed s"
  "governed (teams_update f2 s) = governed s"
  "governed (sessions_update f3 s) = governed s"
  "governed (policy_cache_update f4 s) = governed s"
  by (simp_all add: governed_def governs_def governing_role_def)

lemma keeps_governed_bump [keeps_intros]: "keeps governed (bumpConfigVersion k)"
  unfolding bumpConfigVersion_def invalidate_def
  by (intro keeps_intros keeps_update_row keeps_modify) simp_all

lemma versioned_frame [simp]:
  "versioned n (roles_update f1 s) = versioned n s"
  "versioned n (grants_update f2 s) = versioned n s"
  "versioned n (users_update f3 s) = versioned n s"
  "versioned n (user_roles_update f4 s) = versioned n s"
  "versioned n (divisions_update f5 s) = versioned n s"
  "versioned n (teams_update f6 s) = versioned n s"
  "versioned n (sessions_update f7 s) = versioned n s"
  by (simp_all add: versioned_def single_org_def)

end
