(* ===== verification/Grants.thy ===== *)
theory Grants
  imports Admin_Floor
begin

text \<open>
  \<open>grants/grants.service.ts\<close>: the cells of the permission matrix. A write is checked for shape,
  projected together with the other active grants and validated by the engine's schema check
  (an argument) before it is written; edits and retirements run under the admin floor.
\<close>

definition GROUP_SCOPABLE :: "entity_type list" where
  "GROUP_SCOPABLE = [Task, Message, Attachment, Division]"

definition ROLE_SCOPABLE :: "entity_type list" where
  "ROLE_SCOPABLE = [User]"

record grant_fields =
  gf_action :: string
  gf_effect :: effect
  gf_scopeKind :: scope_kind
  gf_scopeDivisionId :: "id option"
  gf_scopeTeamId :: "id option"
  gf_scopeRoleId :: "id option"

definition grants_list :: "id \<Rightarrow> bool \<Rightarrow> state \<Rightarrow> grant list" where
  "grants_list organizationId includeRetired s =
     filter (\<lambda>g. g_organizationId g = organizationId \<and> activeFilter includeRetired (g_lifecycleState g))
       (grants s)"

text \<open>The scope's own requirement on the ids given, then on the action's resource type.\<close>

definition groupScopable :: "string \<Rightarrow> unit svc" where
  "groupScopable action =
     check (\<exists>ty \<in> set GROUP_SCOPABLE. RESOURCE_TYPE_BY_ACTION action = Some ty) (ValidationError ''scopeKind'')"

definition assertShape :: "grant_fields \<Rightarrow> unit svc" where
  "assertShape x =
     bnd (check (gf_action x \<in> set ALL_ACTION_STRINGS) (ValidationError ''action'')) (\<lambda>_.
     case gf_scopeKind x of
       scope_specific_division \<Rightarrow>
         bnd (check (gf_scopeDivisionId x \<noteq> None) (ValidationError ''scopeDivisionId'')) (\<lambda>_.
         bnd (check (gf_scopeTeamId x = None \<and> gf_scopeRoleId x = None) (ValidationError ''scope'')) (\<lambda>_.
         groupScopable (gf_action x)))
     | scope_specific_team \<Rightarrow>
         bnd (check (gf_scopeTeamId x \<noteq> None) (ValidationError ''scopeTeamId'')) (\<lambda>_.
         bnd (check (gf_scopeDivisionId x = None \<and> gf_scopeRoleId x = None) (ValidationError ''scope'')) (\<lambda>_.
         groupScopable (gf_action x)))
     | scope_role \<Rightarrow>
         bnd (check (gf_scopeRoleId x \<noteq> None) (ValidationError ''scopeRoleId'')) (\<lambda>_.
         bnd (check (gf_scopeDivisionId x = None \<and> gf_scopeTeamId x = None) (ValidationError ''scope'')) (\<lambda>_.
         check (\<exists>ty \<in> set ROLE_SCOPABLE. RESOURCE_TYPE_BY_ACTION (gf_action x) = Some ty)
           (ValidationError ''scopeKind'')))
     | k \<Rightarrow>
         bnd (check (gf_scopeDivisionId x = None \<and> gf_scopeTeamId x = None \<and> gf_scopeRoleId x = None)
                (ValidationError ''scope'')) (\<lambda>_.
         if k = scope_own_division \<or> k = scope_own_team then groupScopable (gf_action x) else ret ()))"

type_synonym cedar_validator = "policy list \<Rightarrow> bool"

definition validateActivation ::
  "cedar_validator \<Rightarrow> id \<Rightarrow> grant \<Rightarrow> id option \<Rightarrow> unit svc" where
  "validateActivation validates organizationId candidate excludeGrantId =
     bnd (find_unique_or_throw organizations o_id organizationId) (\<lambda>org.
     bnd (gets (\<lambda>s. filter (\<lambda>g. Some (g_id g) \<noteq> excludeGrantId) (projectable organizationId s))) (\<lambda>others.
     bnd (need (project org (others @ [candidate])) (ValidationError ''scopeKind'')) (\<lambda>ps.
     check (validates ps) (ValidationError ''scopeKind''))))"

definition assertRole :: "id \<Rightarrow> id \<Rightarrow> unit svc" where
  "assertRole organizationId roleId =
     bnd (gets (\<lambda>s. List.find (\<lambda>r. r_id r = roleId \<and> r_organizationId r = organizationId) (roles s))) (\<lambda>found.
     bnd (need found (ValidationError ''roleId'')) (\<lambda>_. ret ()))"

definition grant_of :: "id \<Rightarrow> id \<Rightarrow> id \<Rightarrow> grant_fields \<Rightarrow> grant" where
  "grant_of i organizationId roleId x =
     \<lparr>g_id = i, g_organizationId = organizationId, g_roleId = roleId, g_action = gf_action x,
      g_effect = gf_effect x, g_scopeKind = gf_scopeKind x,
      g_scopeDivisionId = gf_scopeDivisionId x, g_scopeTeamId = gf_scopeTeamId x,
      g_scopeRoleId = gf_scopeRoleId x, g_lifecycleState = active, g_retiredAt = None,
      g_version = 0\<rparr>"

definition log_grant :: "id \<Rightarrow> id \<Rightarrow> string \<Rightarrow> grant \<Rightarrow> unit svc" where
  "log_grant organizationId actorUserId verb g =
     logActivity organizationId (Some actorUserId) ''grant'' (g_id g) verb
       [(''grantId'', PId (g_id g)), (''roleId'', PId (g_roleId g))]"

definition insert_grant :: "id \<Rightarrow> id \<Rightarrow> id \<Rightarrow> grant_fields \<Rightarrow> grant svc" where
  "insert_grant organizationId actorUserId roleId x =
     bnd fresh_id (\<lambda>i.
     let g = grant_of i organizationId roleId x in
     bnd (create_row grants_update g) (\<lambda>_.
     bnd (log_grant organizationId actorUserId ''grant.created'' g) (\<lambda>_.
     bnd (bumpConfigVersion organizationId) (\<lambda>_.
     ret g))))"

text \<open>The candidate projected for the check carries a random id, not the row's.\<close>

definition grants_create ::
  "cedar_validator \<Rightarrow> id \<Rightarrow> id \<Rightarrow> id \<Rightarrow> id \<Rightarrow> grant_fields \<Rightarrow> grant svc" where
  "grants_create validates uuid organizationId actorUserId roleId x =
     bnd (assertShape x) (\<lambda>_.
     bnd (assertRole organizationId roleId) (\<lambda>_.
     bnd (validateActivation validates organizationId (grant_of uuid organizationId roleId x) None) (\<lambda>_.
     transaction (insert_grant organizationId actorUserId roleId x))))"

definition load_grant :: "id \<Rightarrow> grant svc" where
  "load_grant i =
     bnd (find_unique grants g_id i) (\<lambda>found.
     need found (NotFoundError ''GRANT_NOT_FOUND''))"

text \<open>The patch: a scope id is absent, cleared (\<open>null\<close>) or given.\<close>

record grant_patch =
  gp_action :: "string option"
  gp_effect :: "effect option"
  gp_scopeKind :: "scope_kind option"
  gp_scopeDivisionId :: "id option option"
  gp_scopeTeamId :: "id option option"
  gp_scopeRoleId :: "id option option"

definition keep_scope :: "scope_kind option \<Rightarrow> id option option \<Rightarrow> id option \<Rightarrow> id option" where
  "keep_scope kind given old =
     (case given of Some x \<Rightarrow> x | None \<Rightarrow> if kind \<noteq> None then None else old)"

definition merge_patch :: "grant_patch \<Rightarrow> grant \<Rightarrow> grant_fields" where
  "merge_patch dto g =
     \<lparr>gf_action = (case gp_action dto of None \<Rightarrow> g_action g | Some a \<Rightarrow> a),
      gf_effect = (case gp_effect dto of None \<Rightarrow> g_effect g | Some e \<Rightarrow> e),
      gf_scopeKind = (case gp_scopeKind dto of None \<Rightarrow> g_scopeKind g | Some k \<Rightarrow> k),
      gf_scopeDivisionId = keep_scope (gp_scopeKind dto) (gp_scopeDivisionId dto) (g_scopeDivisionId g),
      gf_scopeTeamId = keep_scope (gp_scopeKind dto) (gp_scopeTeamId dto) (g_scopeTeamId g),
      gf_scopeRoleId = keep_scope (gp_scopeKind dto) (gp_scopeRoleId dto) (g_scopeRoleId g)\<rparr>"

definition with_fields :: "grant_fields \<Rightarrow> grant \<Rightarrow> grant" where
  "with_fields x g =
     g\<lparr>g_action := gf_action x, g_effect := gf_effect x, g_scopeKind := gf_scopeKind x,
       g_scopeDivisionId := gf_scopeDivisionId x, g_scopeTeamId := gf_scopeTeamId x,
       g_scopeRoleId := gf_scopeRoleId x\<rparr>"

definition write_grant :: "grant \<Rightarrow> id \<Rightarrow> string \<Rightarrow> (grant \<Rightarrow> grant) \<Rightarrow> grant svc" where
  "write_grant existing actorUserId verb f =
     bnd (update_row grants grants_update g_id (g_id existing)
            (\<lambda>g. (f g)\<lparr>g_version := g_version g + 1\<rparr>)) (\<lambda>g.
     bnd (log_grant (g_organizationId existing) actorUserId verb g) (\<lambda>_.
     bnd (bumpConfigVersion (g_organizationId existing)) (\<lambda>_.
     ret g)))"

definition grants_edit :: "cedar_validator \<Rightarrow> id \<Rightarrow> id \<Rightarrow> grant_patch \<Rightarrow> grant svc" where
  "grants_edit validates i actorUserId dto =
     bnd (load_grant i) (\<lambda>existing.
     let merged = merge_patch dto existing in
     bnd (assertShape merged) (\<lambda>_.
     bnd (validateActivation validates (g_organizationId existing) (with_fields merged existing)
            (Some (g_id existing))) (\<lambda>_.
     withAdminFloor (g_organizationId existing) actorUserId ''grant'' (g_id existing) ''grant.update''
       (write_grant existing actorUserId ''grant.updated'' (with_fields merged)))))"

definition grants_retire :: "id \<Rightarrow> id \<Rightarrow> grant svc" where
  "grants_retire i actorUserId =
     bnd (load_grant i) (\<lambda>existing.
     bnd (check (g_lifecycleState existing \<noteq> retired) (ConflictError ''ALREADY_RETIRED'')) (\<lambda>_.
     bnd now (\<lambda>t.
     withAdminFloor (g_organizationId existing) actorUserId ''grant'' (g_id existing) ''grant.retire''
       (write_grant existing actorUserId ''grant.retired''
          (\<lambda>g. g\<lparr>g_lifecycleState := retired, g_retiredAt := Some t\<rparr>)))))"

definition grants_revive :: "id \<Rightarrow> id \<Rightarrow> grant svc" where
  "grants_revive i actorUserId =
     bnd (load_grant i) (\<lambda>existing.
     bnd (windowMs (g_organizationId existing)) (\<lambda>graceMs.
     bnd now (\<lambda>t.
     bnd (check (isRevivable (g_lifecycleState existing) (g_retiredAt existing) graceMs t)
            (ConflictError ''NOT_REVIVABLE'')) (\<lambda>_.
     transaction (write_grant existing actorUserId ''grant.revived''
       (\<lambda>g. g\<lparr>g_lifecycleState := active, g_retiredAt := None\<rparr>))))))"

section \<open>The governance contract\<close>

lemma shape_pure:
  "keeps P (assertShape x)" "policy_safe (assertShape x)"
  unfolding assertShape_def groupScopable_def
  by (auto intro!: keeps_intros safe_intros split: scope_kind.split)

lemma safe_find_unique_or_throw [safe_intros]: "policy_safe (find_unique_or_throw rows key k)"
  by (simp add: find_unique_or_throw_def safe_intros)

lemma prechecks_pure [keeps_intros, safe_intros]:
  "keeps P (validateActivation v org c e)" "policy_safe (validateActivation v org c e)"
  "keeps P (assertRole org r)" "policy_safe (assertRole org r)"
  "keeps P (load_grant i)" "policy_safe (load_grant i)"
  unfolding validateActivation_def assertRole_def load_grant_def
  by (intro keeps_intros safe_intros)+

lemma log_grant_frame [keeps_intros]:
  "keeps (versioned n) (log_grant org u v g)" "keeps governed (log_grant org u v g)"
  unfolding log_grant_def by (intro keeps_intros)+

lemma keeps_versioned_grant [keeps_intros]:
  "keeps (versioned n) (update_row grants grants_update g_id k f)"
  by (rule keeps_update_row) simp

lemma keeps_versioned_add_grant [keeps_intros]: "keeps (versioned n) (create_row grants_update g)"
  by (rule keeps_create_row) simp

lemma bumped_write_grant: "bumped (write_grant g u v f)"
  unfolding write_grant_def
  by (rule bumped_later bumped_first bumped_bump keeps_intros)+

lemma versioned_write_grant: "keeps (versioned n) (write_grant g u v f)"
  unfolding write_grant_def by (intro keeps_intros)

lemma bumped_insert_grant: "bumped (insert_grant org u r x)"
  unfolding insert_grant_def Let_def
  by (rule bumped_later bumped_first bumped_bump keeps_intros versioned_inv.keeps_fresh)+

lemma versioned_insert_grant: "keeps (versioned n) (insert_grant org u r x)"
  unfolding insert_grant_def Let_def by (intro keeps_intros versioned_inv.keeps_fresh)

lemma keeps_governed_insert_grant: "keeps governed (insert_grant org u r x)"
  unfolding insert_grant_def Let_def
  by (intro keeps_intros governed_inv.keeps_fresh keeps_create_row governed_add)

interpretation grant_create: governed_op "\<lambda>(v, i, org, u, r, x). grants_create v i org u r x"
  by unfold_locales
     (auto simp: grants_create_def intro!: keeps_intros safe_intros shape_pure
       governed_inv.free_of_cache keeps_governed_insert_grant
       safe_transaction bumped_insert_grant versioned_insert_grant)

interpretation grant_edit: governed_op "\<lambda>(v, i, u, d). grants_edit v i u d"
  by unfold_locales
     (auto simp: grants_edit_def Let_def intro!: keeps_intros safe_intros shape_pure safe_floor
       bumped_write_grant versioned_write_grant)

interpretation grant_retire: governed_op "\<lambda>(i, u). grants_retire i u"
  by unfold_locales
     (auto simp: grants_retire_def intro!: keeps_intros safe_intros safe_floor
       bumped_write_grant versioned_write_grant)

lemma keeps_governed_revived_grant:
  "keeps governed (write_grant g u v (\<lambda>g. g\<lparr>g_lifecycleState := active, g_retiredAt := None\<rparr>))"
  unfolding write_grant_def
  by (intro keeps_intros keeps_update_row governed_grants_upd) (simp_all add: governance_grant_def)

interpretation grant_revive: governed_op "\<lambda>(i, u). grants_revive i u"
  by unfold_locales
     (auto simp: grants_revive_def intro!: keeps_intros safe_intros governed_inv.free_of_cache
       keeps_governed_revived_grant safe_transaction bumped_write_grant versioned_write_grant)

section \<open>Every stored grant projects\<close>

text \<open>Only an \<open>own\<close> scope on an action without an owner relation has no projection; the check
  before each write keeps such grants out, so the projection a request needs never fails.\<close>

definition all_project :: "state \<Rightarrow> bool" where
  "all_project s \<longleftrightarrow> (\<forall>g \<in> set (grants s). grantToPolicy g \<noteq> None)"

lemma projects_iff:
  "grantToPolicy g \<noteq> None \<longleftrightarrow>
     g_scopeKind g \<noteq> scope_own \<or> g_action g = ''task:assign'' \<or> OWN_ATTR_BY_ACTION (g_action g) \<noteq> None"
  by (auto simp: grantToPolicy_def scopeCondition_def split: option.splits scope_kind.splits)

lemma all_project_fresh:
  assumes "all_project s" and "organizations s \<noteq> []"
  shows "\<exists>ps. fresh_policies s = Some ps"
proof -
  obtain org rest where org: "organizations s = org # rest" using assms(2) by (cases "organizations s") auto
  have "\<exists>ps. those (map grantToPolicy (projectable (o_id org) s)) = Some ps"
    unfolding those_Some_iff using assms(1) by (auto simp: all_project_def projectable_def)
  then show ?thesis by (auto simp: fresh_policies_def org project_def)
qed

interpretation project_inv: invariant all_project
  by unfold_locales (auto simp: all_project_def)

lemma all_project_other [simp]:
  "all_project (organizations_update f s) = all_project s"
  "all_project (roles_update f1 s) = all_project s"
  by (simp_all add: all_project_def)

lemma keeps_project_bump [keeps_intros]: "keeps all_project (bumpConfigVersion k)"
  unfolding bumpConfigVersion_def invalidate_def
  by (intro keeps_intros keeps_update_row keeps_modify project_inv.policy_free) simp_all

lemma validateActivation_Inr:
  "validateActivation v org c e s = (Inr x, t) \<Longrightarrow> t = s \<and> grantToPolicy c \<noteq> None"
proof -
  assume run: "validateActivation v org c e s = (Inr x, t)"
  obtain p where "project p (filter (\<lambda>g. Some (g_id g) \<noteq> e) (projectable org s) @ [c]) \<noteq> None"
    using run by (auto simp: validateActivation_def op_simps split: option.splits)
  then have "grantToPolicy c \<noteq> None"
    using those_Some_iff [of grantToPolicy "filter (\<lambda>g. Some (g_id g) \<noteq> e) (projectable org s) @ [c]"]
    by (auto simp: project_def split: option.splits)
  moreover have "t = s" using run by (auto simp: validateActivation_def op_simps split: option.splits if_splits)
  ultimately show ?thesis by simp
qed

lemma validateActivation_state: "validateActivation v org c e s = (r, t) \<Longrightarrow> t = s"
  using keepsD [OF prechecks_pure(1) [of "\<lambda>u. u = s" v org c e]] by blast

lemma shape_state: "assertShape x s = (r, t) \<Longrightarrow> t = s"
  using keepsD [OF shape_pure(1) [of "\<lambda>u. u = s" x]] by blast

lemma projects_version [simp]: "grantToPolicy (g\<lparr>g_version := n\<rparr>) = grantToPolicy g"
  by (cases "g_scopeKind g") (simp_all add: grantToPolicy_def scopeCondition_def split: option.split)

lemma projects_lifecycle [simp]:
  "grantToPolicy (g\<lparr>g_lifecycleState := l, g_retiredAt := w\<rparr>) = grantToPolicy g"
  by (cases "g_scopeKind g") (simp_all add: grantToPolicy_def scopeCondition_def split: option.split)

lemma keeps_project_write:
  assumes "\<And>g. grantToPolicy g \<noteq> None \<Longrightarrow> grantToPolicy (f g) \<noteq> None"
  shows "keeps all_project (write_grant g u v f)"
proof -
  have "keeps all_project (update_row grants grants_update g_id k (\<lambda>g. (f g)\<lparr>g_version := n g\<rparr>))"
    for k n
    by (rule keeps_update_row) (use assms in \<open>fastforce simp: all_project_def in_upd_where\<close>)
  then show ?thesis
    unfolding write_grant_def log_grant_def
    by (intro keeps_intros project_inv.keeps_logActivity)
qed

lemma keeps_project_lifecycle:
  "keeps all_project (grants_retire i u)" "keeps all_project (grants_revive i u)"
  unfolding grants_retire_def grants_revive_def
  by (intro keeps_intros project_inv.keeps_withAdminFloor project_inv.free_of_cache
      keeps_project_write; simp)+

lemma keeps_project_insert:
  assumes "grantToPolicy (grant_of uuid org r x) \<noteq> None"
  shows "keeps all_project (insert_grant org u r x)"
proof -
  have "grantToPolicy (grant_of i org r x) \<noteq> None" for i
    using assms unfolding projects_iff by (simp add: grant_of_def)
  then have "keeps all_project (create_row grants_update (grant_of i org r x))" for i
    by (intro keeps_create_row) (simp add: all_project_def)
  then show ?thesis
    unfolding insert_grant_def Let_def log_grant_def
    by (intro keeps_intros project_inv.keeps_fresh project_inv.keeps_logActivity)
qed

lemma keeps_project_create: "keeps all_project (grants_create v uuid org u r x)"
proof (rule keepsI_holds)
  fix s
  assume s: "all_project s"
  show "holds all_project (grants_create v uuid org u r x) s"
    unfolding grants_create_def
  proof (rule holds_bnd_pure, rule shape_pure, rule s,
      rule holds_bnd_pure, rule prechecks_pure, assumption,
      rule holds_bnd_pure, rule prechecks_pure, assumption)
    fix a b c d e f
    assume "validateActivation v org (grant_of uuid org r x) None c = (Inr e, f)" and f: "all_project f"
    then have "keeps all_project (insert_grant org u r x)"
      using validateActivation_Inr keeps_project_insert by blast
    then show "holds all_project (transaction (insert_grant org u r x)) f"
      by (intro holds_keeps keeps_intros project_inv.free_of_cache f)
  qed
qed

lemma keeps_project_edit: "keeps all_project (grants_edit v i u d)"
proof (rule keepsI_holds)
  fix s
  assume s: "all_project s"
  show "holds all_project (grants_edit v i u d) s"
    unfolding grants_edit_def Let_def
  proof (rule holds_bnd_pure, rule prechecks_pure, rule s,
      rule holds_bnd_pure, rule shape_pure, assumption,
      rule holds_bnd_pure, rule prechecks_pure, assumption)
    fix g a b c d' e f
    assume "validateActivation v (g_organizationId g) (with_fields (merge_patch d g) g) (Some (g_id g)) c =
        (Inr e, f)" and f: "all_project f"
    then have "grantToPolicy (with_fields (merge_patch d g) g) \<noteq> None"
      using validateActivation_Inr by blast
    then have "grantToPolicy (with_fields (merge_patch d g) h) \<noteq> None" for h
      unfolding projects_iff by (simp add: with_fields_def)
    then show "holds all_project (withAdminFloor (g_organizationId g) u ''grant'' (g_id g) ''grant.update''
        (write_grant g u ''grant.updated'' (with_fields (merge_patch d g)))) f"
      by (intro holds_keeps project_inv.keeps_withAdminFloor keeps_project_write f)
  qed
qed

end
