(* ===== verification/Roles.thy ===== *)
theory Roles
  imports Admin_Floor
begin

text \<open>
  \<open>roles/roles.service.ts\<close>: standalone roles and their retire/revive state machine. Retiring
  drops the role's grants from the projection, so it runs under the admin floor.
\<close>

definition roles_list :: "id \<Rightarrow> bool \<Rightarrow> state \<Rightarrow> role list" where
  "roles_list organizationId includeRetired s =
     filter (\<lambda>r. r_organizationId r = organizationId \<and> activeFilter includeRetired (r_lifecycleState r))
       (roles s)"

definition roles_create :: "id \<Rightarrow> id \<Rightarrow> string \<Rightarrow> role svc" where
  "roles_create organizationId actorUserId name =
     bnd fresh_id (\<lambda>i.
     let role = \<lparr>r_id = i, r_organizationId = organizationId, r_name = name, r_kind = standalone,
                 r_divisionId = None, r_teamId = None, r_lifecycleState = active,
                 r_retiredAt = None, r_version = 0\<rparr> in
     bnd (create_row roles_update role) (\<lambda>_.
     bnd (logActivity organizationId (Some actorUserId) ''role'' i ''role.created''
            [(''roleId'', PId i)]) (\<lambda>_.
     ret role)))"

definition loadStandalone :: "id \<Rightarrow> role svc" where
  "loadStandalone i =
     bnd (find_unique roles r_id i) (\<lambda>found.
     bnd (need found (NotFoundError ''ROLE_NOT_FOUND'')) (\<lambda>role.
     bnd (check (r_kind role = standalone) (ValidationError ''Not a standalone role'')) (\<lambda>_.
     ret role)))"

definition roles_edit :: "id \<Rightarrow> id \<Rightarrow> string \<Rightarrow> role svc" where
  "roles_edit i actorUserId name =
     bnd (loadStandalone i) (\<lambda>role.
     bnd (update_row roles roles_update r_id (r_id role)
            (\<lambda>r. r\<lparr>r_name := name, r_version := r_version r + 1\<rparr>)) (\<lambda>updated.
     bnd (logActivity (r_organizationId role) (Some actorUserId) ''role'' (r_id role) ''role.updated''
            [(''roleId'', PId (r_id role))]) (\<lambda>_.
     ret updated)))"

text \<open>The writes of a retirement and of a revival.\<close>

definition retired_role :: "time \<Rightarrow> role \<Rightarrow> role" where
  "retired_role t r =
     r\<lparr>r_lifecycleState := retired, r_retiredAt := Some t, r_version := r_version r + 1\<rparr>"

definition revived_role :: "role \<Rightarrow> role" where
  "revived_role r = r\<lparr>r_lifecycleState := active, r_retiredAt := None, r_version := r_version r + 1\<rparr>"

definition write_role :: "role \<Rightarrow> id \<Rightarrow> string \<Rightarrow> (role \<Rightarrow> role) \<Rightarrow> role svc" where
  "write_role role actorUserId verb f =
     bnd (update_row roles roles_update r_id (r_id role) f) (\<lambda>r.
     bnd (logActivity (r_organizationId role) (Some actorUserId) ''role'' (r_id role) verb
            [(''roleId'', PId (r_id role))]) (\<lambda>_.
     bnd (bumpConfigVersion (r_organizationId role)) (\<lambda>_.
     ret r)))"

definition roles_retire :: "id \<Rightarrow> id \<Rightarrow> role svc" where
  "roles_retire i actorUserId =
     bnd (loadStandalone i) (\<lambda>role.
     bnd (check (r_lifecycleState role \<noteq> retired) (ConflictError ''ALREADY_RETIRED'')) (\<lambda>_.
     bnd now (\<lambda>t.
     withAdminFloor (r_organizationId role) actorUserId ''role'' (r_id role) ''role.retire''
       (write_role role actorUserId ''role.retired'' (retired_role t)))))"

definition roles_revive :: "id \<Rightarrow> id \<Rightarrow> role svc" where
  "roles_revive i actorUserId =
     bnd (loadStandalone i) (\<lambda>role.
     bnd (windowMs (r_organizationId role)) (\<lambda>graceMs.
     bnd now (\<lambda>t.
     bnd (check (isRevivable (r_lifecycleState role) (r_retiredAt role) graceMs t)
            (ConflictError ''NOT_REVIVABLE'')) (\<lambda>_.
     transaction (write_role role actorUserId ''role.revived'' revived_role)))))"

section \<open>The governance contract\<close>

lemma keeps_loadStandalone [keeps_intros]: "keeps P (loadStandalone i)"
  unfolding loadStandalone_def by (intro keeps_intros)

lemma safe_loadStandalone [safe_intros]: "policy_safe (loadStandalone i)"
  unfolding loadStandalone_def by (intro safe_intros)

lemma keeps_versioned_role [keeps_intros]:
  "keeps (versioned n) (update_row roles roles_update r_id k f)"
  by (rule keeps_update_row) simp

lemma bumped_write_role: "bumped (write_role role u v f)"
  unfolding write_role_def
  by (rule bumped_later bumped_first bumped_bump keeps_intros)+

lemma versioned_write_role: "keeps (versioned n) (write_role role u v f)"
  unfolding write_role_def by (intro keeps_intros)

lemma keeps_governed_role:
  assumes "\<And>r. r_id (f r) = r_id r"
    and "\<And>r. r_lifecycleState r = active \<Longrightarrow> r_lifecycleState (f r) = active"
  shows "keeps governed (update_row roles roles_update r_id k f)"
  by (intro keeps_update_row governed_roles_upd assms)

interpretation role_edit: floored_op "\<lambda>(i, u, n). roles_edit i u n"
  by unfold_locales
     (auto simp: roles_edit_def intro!: keeps_intros keeps_governed_role)

interpretation role_retire: governed_op "\<lambda>(i, u). roles_retire i u"
  by unfold_locales
     (auto simp: roles_retire_def
       intro!: keeps_intros safe_intros safe_floor bumped_write_role versioned_write_role)

interpretation role_revive: governed_op "\<lambda>(i, u). roles_revive i u"
  by unfold_locales
     (auto simp: roles_revive_def write_role_def revived_role_def
       intro!: keeps_intros safe_intros keeps_governed_role
         safe_transaction [OF bumped_write_role versioned_write_role, unfolded write_role_def revived_role_def])

end
