(* ===== verification/Examples.thy ===== *)
theory Examples
  imports Histories Grants Roles
begin

text \<open>
  Concrete states the witnesses run on: one organization (1) with a division (2), three users
  (10, 11, 12), an administrators' role (40) with one governance grant (50), and a task (20) of
  the division with its template (21, one numeric question, 22) and one opening.
\<close>

definition demo_org :: organization where
  "demo_org = \<lparr>o_id = 1, o_settings = Map.empty, o_configVersion = 7\<rparr>"

definition demo_division :: division where
  "demo_division = \<lparr>d_id = 2, d_organizationId = 1, d_name = ''Assembly'', d_defaultOpenings = 1,
     d_openingsLocked = False, d_restrictClaims = True, d_lifecycleState = active,
     d_retiredAt = None, d_version = 0\<rparr>"

definition demo_user :: "id \<Rightarrow> app_user" where
  "demo_user i = \<lparr>u_id = i, u_organizationId = 1, u_email = None, u_displayName = ''user'',
     u_createdViaInvitationId = None, u_lifecycleState = active, u_deactivatedAt = None,
     u_retiredAt = None, u_version = 0\<rparr>"

definition demo_role :: role where
  "demo_role = \<lparr>r_id = 40, r_organizationId = 1, r_name = ''Administrators'', r_kind = standalone,
     r_divisionId = None, r_teamId = None, r_lifecycleState = active, r_retiredAt = None,
     r_version = 0\<rparr>"

definition demo_held :: user_role where
  "demo_held = \<lparr>ur_id = 45, ur_userId = 10, ur_roleId = 40, ur_source = src_patrice,
     ur_sourceConnectionId = None, ur_grantedBy = None\<rparr>"

definition demo_grant :: grant where
  "demo_grant = \<lparr>g_id = 50, g_organizationId = 1, g_roleId = 40, g_action = ''grant:create'',
     g_effect = Permit, g_scopeKind = scope_global, g_scopeDivisionId = None, g_scopeTeamId = None,
     g_scopeRoleId = None, g_lifecycleState = active, g_retiredAt = None, g_version = 0\<rparr>"

definition demo_constraints :: constraints where
  "demo_constraints = \<lparr>k_minChars = None, k_maxChars = None, k_integer = True, k_min = Some 0,
     k_max = Some 10, k_multi = False, k_options = [], k_minSelect = None, k_maxSelect = None,
     k_allowedTypes = [], k_maxFiles = None\<rparr>"

definition demo_question :: "id \<Rightarrow> id \<Rightarrow> question" where
  "demo_question i k = \<lparr>qn_id = i, qn_requestTemplateId = k, qn_ordinal = 0, qn_type = numeric,
     qn_prompt = ''How many?'', qn_required = True, qn_constraints = demo_constraints\<rparr>"

definition demo_template :: "id \<Rightarrow> id option \<Rightarrow> id option \<Rightarrow> request_template" where
  "demo_template i d k = \<lparr>rt_id = i, rt_organizationId = 1, rt_ownerDivisionId = d,
     rt_ownerTaskId = k, rt_updatedAt = 0\<rparr>"

definition demo_task :: task where
  "demo_task = \<lparr>t_id = 20, t_organizationId = 1, t_name = ''Print'', t_description = '''',
     t_divisionId = 2, t_teamId = None, t_requesterUserId = 10, t_openings = 1,
     t_claimsClosed = False, t_statusCache = Some st_open, t_lifecycleState = active,
     t_retiredAt = None, t_version = 0, t_createdAt = 0, t_updatedAt = 0\<rparr>"

definition demo_slot :: task_claimant where
  "demo_slot = \<lparr>c_id = 30, c_taskId = 20, c_userId = 11, c_joinedAt = 0, c_hasSubmitted = False,
     c_leftAt = None\<rparr>"

definition demo_submission :: submission where
  "demo_submission = \<lparr>s_id = 60, s_taskId = 20, s_claimantUserId = 11, s_submissionNo = 1,
     s_prevSubmissionId = None, s_state = ss_review, s_submittedAt = 5, s_reviewedBy = None,
     s_reviewedAt = None, s_lifecycleState = active, s_retiredAt = None, s_version = 0\<rparr>"

definition demo_message :: message where
  "demo_message = \<lparr>m_id = 70, m_taskId = 20, m_kind = comment, m_senderUserId = Some 10,
     m_parentMessageId = None, m_submissionId = None, m_body = [Lit ''hello''],
     m_lifecycleState = active, m_retiredAt = None, m_editedAt = None, m_version = 0,
     m_createdAt = 1\<rparr>"

text \<open>The task unclaimed; claimed by user 11; with user 11's submission under review.\<close>

definition demo :: state where
  "demo = (empty_db 100 1000)\<lparr>organizations := [demo_org], divisions := [demo_division],
     users := [demo_user 10, demo_user 11, demo_user 12], roles := [demo_role],
     user_roles := [demo_held], grants := [demo_grant],
     templates := [demo_template 5 (Some 2) None, demo_template 21 None (Some 20)],
     questions := [demo_question 6 5, demo_question 22 21], tasks := [demo_task],
     messages := [demo_message]\<rparr>"

definition demo_claimed :: state where
  "demo_claimed = demo\<lparr>claimants := [demo_slot]\<rparr>"

definition demo_submitted :: state where
  "demo_submitted = demo_claimed\<lparr>submissions := [demo_submission]\<rparr>"

lemmas demo_defs = demo_def demo_claimed_def demo_submitted_def demo_org_def demo_division_def
  demo_user_def demo_role_def demo_held_def demo_grant_def demo_constraints_def demo_question_def
  demo_template_def demo_task_def demo_slot_def demo_submission_def demo_message_def empty_db_def

lemma demo_claims: "claims_ok demo" "claims_ok demo_claimed" "claims_ok demo_submitted"
  by (simp_all add: claims_ok_def slots_ok_def within_openings_def active_count_def slot_key_def demo_defs)

lemma demo_subs: "subs_ok demo" "subs_ok demo_claimed" "subs_ok demo_submitted"
  by (simp_all add: subs_ok_def versions_distinct_def newest_pending_def chained_def demo_defs)

lemma demo_sound: "sound demo" "sound demo_claimed" "sound demo_submitted"
  using demo_claims demo_subs
  by (simp_all add: sound_def threads_ok_def log_conforms_def demo_defs)

lemma demo_lookups [simp]:
  "lookup t_id 20 (tasks demo) = Some demo_task"
  "lookup t_id 20 (tasks demo_claimed) = Some demo_task"
  "lookup t_id 20 (tasks demo_submitted) = Some demo_task"
  "lookup s_id 60 (submissions demo_submitted) = Some demo_submission"
  "lookup m_id 70 (messages demo) = Some demo_message"
  by (simp_all add: demo_defs)

lemma demo_fields [simp]:
  "t_id demo_task = 20" "t_lifecycleState demo_task = active" "\<not> t_claimsClosed demo_task"
  "t_openings demo_task = 1" "t_organizationId demo_task = 1"
  "s_id demo_submission = 60" "s_taskId demo_submission = 20" "s_state demo_submission = ss_review"
  "s_lifecycleState demo_submission = active" "s_version demo_submission = 0"
  "clock demo = 1000" "next_id demo = 100" "clock demo_submitted = 1000"
  by (simp_all add: demo_defs)

lemma demo_slots [simp]:
  "slot_of 20 u demo = None" "active_count 20 demo = 0"
  "active_count 20 demo_claimed = 1" "slot_of 20 12 demo_claimed = None"
  "slot_of 20 11 demo_claimed = Some demo_slot"
  by (simp_all add: slot_of_def active_count_def demo_defs)

end
