(* ===== verification/Task_Properties.thy ===== *)
theory Task_Properties
  imports Examples
begin

text \<open>
  What the development shows about tasks: the claim flows, the status roll-up, creation, the
  request template, the paginated list, and the lifecycle.
\<close>

section \<open>Claims\<close>

text \<open>C2: A claim of an open, active task by a user without a slot succeeds while active slots
  are below the openings: the task has one more active slot, the user holds it, and the cached
  status is the roll-up of the slots after the claim.\<close>

theorem claim_takes_slot:
  assumes "claims_ok s" and "lookup t_id k (tasks s) = Some task"
    and "t_lifecycleState task \<noteq> retired" and "\<not> t_claimsClosed task"
    and "\<And>c. slot_of k u s = Some c \<Longrightarrow> c_leftAt c \<noteq> None"
    and "int (active_count k s) < t_openings task"
  shows "\<exists>view t c. claim k u s = (Inr view, t) \<and> active_count k t = active_count k s + 1 \<and>
           slot_of k u t = Some c \<and> c_leftAt c = None \<and> claims_ok t \<and> status_current k t"
proof -
  obtain view t where t: "claim k u s = (Inr view, t)"
      "claimants t = claimants (slot_taken k u s)" "status_current k t"
    using claim_granted [OF assms] by blast
  have sok: "slots_ok s" using assms(1) by (simp add: claims_ok_def)
  have "active_count k t = active_count k s + 1"
    using slot_taken_count [of s k u k, OF sok assms(5)] t(2) by (simp add: active_count_def)
  moreover have "slot_of k u t = slot_of k u (slot_taken k u s)"
    using t(2) by (simp add: slot_of_def)
  moreover have "claims_ok t" using keepsD [OF keeps_claim assms(1) t(1)] .
  ultimately show ?thesis using t slot_taken_holds [OF sok] by metis
qed

theorem claim_takes_slot_witness:
  "\<exists>view t c. claim 20 12 demo = (Inr view, t) \<and> active_count 20 t = active_count 20 demo + 1 \<and>
     slot_of 20 12 t = Some c \<and> c_leftAt c = None \<and> claims_ok t \<and> status_current 20 t"
  using claim_takes_slot [of demo 20 demo_task 12] by (simp add: demo_claims)

text \<open>Every other claim is refused, with the error of the first guard that fails, and leaves
  the whole state as it was: a retired task, closed claims, a slot already held, no free opening.\<close>

lemma claim_refusals:
  assumes "lookup t_id k (tasks s) = Some task"
    and "t_lifecycleState task = retired \<or> t_claimsClosed task \<or>
         (\<exists>c. slot_of k u s = Some c \<and> c_leftAt c = None) \<or>
         t_openings task \<le> int (active_count k s)"
  shows "claim k u s =
    (Inl (ConflictError
       (if t_lifecycleState task = retired then ''TASK_RETIRED''
        else if t_claimsClosed task then ''CLAIMS_CLOSED''
        else if \<exists>c. slot_of k u s = Some c \<and> c_leftAt c = None then ''ALREADY_CLAIMED''
        else ''NO_OPENINGS'')), s)"
  using claim_refused [OF assms(1), of u] assms(2) by (auto split: if_splits)

lemma claim_refusals_witness: "claim 20 12 demo_claimed = (Inl (ConflictError ''NO_OPENINGS''), demo_claimed)"
  using claim_refusals [of 20 demo_claimed demo_task 12] by simp



text \<open>Two openings, one taken by user 11: user 12's request reads the task, a \<open>/claims\<close> request
  lowers the openings to one, and user 12's claim commits against the row it had read.\<close>

definition roomy_task :: task where
  "roomy_task = demo_task\<lparr>t_openings := 2\<rparr>"

definition roomy :: state where
  "roomy = demo_claimed\<lparr>tasks := [roomy_task]\<rparr>"

definition lowered :: state where
  "lowered = snd (manageClaims 20 10 (Some (- 1)) None roomy)"

lemma roomy_ok: "claims_ok roomy"
  by (simp add: roomy_def roomy_task_def claims_ok_def slots_ok_def within_openings_def
      active_count_def slot_key_def demo_defs)

lemma roomy_overbooked: "\<not> within_openings (snd (claim_tx roomy_task 12 lowered))"
  by code_simp

text \<open>With requests that lower the openings in between, a claim can overbook the task: the
  claim checks the active slots against openings read before the row lock was taken.\<close>

lemma lowering_overbooks:
  "\<exists>s t pending. claims_ok s \<and> claim_runs True (s, []) (t, pending) \<and> \<not> within_openings t"
proof (intro exI conjI)
  show "claims_ok roomy" by (rule roomy_ok)
  have "begin_claim 20 roomy = (Inr roomy_task, roomy)"
    by (simp add: begin_claim_def op_simps roomy_def roomy_task_def)
  then have "claim_runs True (roomy, []) (roomy, [(12, roomy_task)])"
    by (rule claim_runs_step [OF claim_runs_refl begin_step])
  then have "claim_runs True (roomy, []) (lowered, [(12, roomy_task)])"
    unfolding lowered_def by (rule claim_runs_step) (rule manage_step, simp)
  then show "claim_runs True (roomy, []) (snd (claim_tx roomy_task 12 lowered),
      removeAll (12, roomy_task) [(12, roomy_task)])"
    by (rule claim_runs_step) (rule commit_step, simp)
  show "\<not> within_openings (snd (claim_tx roomy_task 12 lowered))" by (rule roomy_overbooked)
qed

section \<open>The status roll-up\<close>

text \<open>The status computed from the slots is the least, in the order open, claimed, revising,
  review, approved, of what the slots and the free openings contribute. It is open exactly when
  an opening is free and claims are not closed; it is approved exactly when no opening is free,
  some slot is approved, and every other one is approved or rejected.\<close>

lemma min_rule_meaning:
  "(computeMinRuleStatus n cl states = st_open \<longleftrightarrow>
      \<not> cl \<and> int (length states) < n) \<and>
   (computeMinRuleStatus n cl states = st_approved \<longleftrightarrow>
      (cl \<or> n \<le> int (length states)) \<and> Some ss_approved \<in> set states \<and>
      set states \<subseteq> {Some ss_approved, Some ss_rejected})"
  by (auto simp: min_rule_open min_rule_approved open_spots_def)

lemma min_rule_meaning_witness:
  "computeMinRuleStatus 1 False [Some ss_approved] = st_approved \<and>
   computeMinRuleStatus 2 False [Some ss_approved] = st_open"
  using min_rule_meaning [of 1 False "[Some ss_approved]"]
    min_rule_meaning [of 2 False "[Some ss_approved]"] by simp

text \<open>The two status routines agree: with no submission yet, the roll-up over the slots
  equals the status a new task is created with for that number of claimants.\<close>

lemma status_routines_agree:
  "computeMinRuleStatus n cl (replicate k None) = computeStatusCache (int k) n cl"
  using min_rule_no_submissions [of "replicate k None" n cl] by (simp add: set_replicate_conv_if)

section \<open>Creation\<close>

text \<open>Creating a task in an active division with a template adds one task, with the division's
  default openings and status open or claimed accordingly, and a template of its own whose
  questions are copies, in order, of the division template's questions; the questions of every
  other template are as before.\<close>

lemma create_copies_template:
  assumes "distinct (map d_id (divisions s))" and "division \<in> set (divisions s)"
    and "d_lifecycleState division \<noteq> retired"
    and "template_of_division (d_id division) s = Some source"
    and "\<forall>q \<in> set (questions s). qn_requestTemplateId q < next_id s"
  shows "\<exists>view t. tasks_create (d_organizationId division) actor name desc (d_id division) None s =
           (Inr view, t) \<and>
         tasks t = tasks s @ [new_task s division actor name desc None] \<and>
         template_of_task (next_id s) t = template_of_task (next_id s)
           (templates_update (\<lambda>rs. rs @ [\<lparr>rt_id = Suc (next_id s),
              rt_organizationId = d_organizationId division, rt_ownerDivisionId = None,
              rt_ownerTaskId = Some (next_id s), rt_updatedAt = clock s\<rparr>]) s) \<and>
         map (\<lambda>q. (qn_ordinal q, qn_type q, qn_prompt q, qn_required q, qn_constraints q))
             (questions_of (Suc (next_id s)) t) =
           map (\<lambda>q. (qn_ordinal q, qn_type q, qn_prompt q, qn_required q, qn_constraints q))
             (questions_of (rt_id source) s) \<and>
         (\<forall>j. j \<noteq> Suc (next_id s) \<longrightarrow> questions_of j t = questions_of j s)"
proof -
  let ?k = "Suc (next_id s)"
  obtain t where t: "tasks_create (d_organizationId division) actor name desc (d_id division) None s =
        (Inr (task_toView (new_task s division actor name desc None) []), t)"
      "tasks t = tasks s @ [new_task s division actor name desc None]"
      "templates t = templates s @ [\<lparr>rt_id = ?k, rt_organizationId = d_organizationId division,
          rt_ownerDivisionId = None, rt_ownerTaskId = Some (next_id s), rt_updatedAt = clock s\<rparr>]"
      "questions t = questions s @ copies ?k (Suc ?k) (questions_of (rt_id source) s)"
    using tasks_create_ok [OF assms(1-4)] by blast
  have "\<forall>q \<in> set (questions s). qn_requestTemplateId q \<noteq> ?k" using assms(5) by auto
  note copy = questions_of_copies [OF this t(4)]
  have "filter (\<lambda>q. qn_requestTemplateId q = j) (copies ?k (Suc ?k) (questions_of (rt_id source) s)) = []"
    if "j \<noteq> ?k" for j
    using that copies_owner by (fastforce simp: filter_empty_conv)
  then have "\<forall>j. j \<noteq> ?k \<longrightarrow> questions_of j t = questions_of j s"
    by (simp add: questions_of_def t(4))
  then show ?thesis using t copy by (simp add: template_of_task_def)
qed

lemma create_copies_template_witness:
  "\<exists>view t. tasks_create 1 10 ''Saw'' None 2 None demo = (Inr view, t) \<and>
     map qn_prompt (questions_of 101 t) = [''How many?'']"
proof -
  have "template_of_division 2 demo = Some (demo_template 5 (Some 2) None)"
    by (simp add: template_of_division_def demo_defs)
  then obtain view t where t: "tasks_create 1 10 ''Saw'' None 2 None demo = (Inr view, t)"
      "map (\<lambda>q. (qn_ordinal q, qn_type q, qn_prompt q, qn_required q, qn_constraints q))
             (questions_of 101 t) =
       map (\<lambda>q. (qn_ordinal q, qn_type q, qn_prompt q, qn_required q, qn_constraints q))
             (questions_of 5 demo)"
    using create_copies_template [of demo demo_division "demo_template 5 (Some 2) None" 10 "''Saw''" None]
    by (auto simp: demo_defs)
  from arg_cong [OF t(2), of "map (\<lambda>(o', ty, p, r, c). p)"]
  have "map qn_prompt (questions_of 101 t) = [''How many?'']"
    by (simp add: o_def questions_of_def demo_defs)
  with t(1) show ?thesis by (intro exI conjI)
qed

section \<open>The task's own template\<close>

text \<open>A task's template is locked once the task has an active submission: rewriting it is
  refused and nothing changes. Before that, a rewrite replaces exactly that template's questions
  by the given ones, numbered in order.\<close>

lemma template_rewrite:
  assumes "lookup t_id k (tasks s) = Some task" and "template_of_task k s = Some rt"
    and "lookup rt_id (rt_id rt) (templates s) = Some rt" and "rt_id rt \<notin> answered_templates s"
  shows "if \<exists>r \<in> set (submissions s). s_taskId r = k \<and> s_lifecycleState r = active
         then putForTask k u qs s = (Inl (ConflictError ''REQUEST_TEMPLATE_LOCKED''), s)
         else \<exists>v t. putForTask k u qs s = (Inr v, t) \<and>
           map (\<lambda>q. (qn_type q, qn_prompt q, qn_required q, qn_constraints q)) (questions_of (rt_id rt) t) =
             map (\<lambda>q. (qi_type q, qi_prompt q, qi_required q, qi_constraints q)) qs \<and>
           map qn_ordinal (questions_of (rt_id rt) t) = [0..<length qs] \<and>
           (\<forall>j. j \<noteq> rt_id rt \<longrightarrow> questions_of j t = questions_of j s)"
proof (cases "\<exists>r \<in> set (submissions s). s_taskId r = k \<and> s_lifecycleState r = active")
  case True
  then show ?thesis using putForTask_locked [OF assms(1,2)] by auto
next
  case False
  then have "count_where (\<lambda>r. s_taskId r = k \<and> s_lifecycleState r = active) (submissions s) = 0"
    by (auto simp: count_where_0_iff)
  from putForTask_ok [OF assms(1,2) this assms(4,3), of u qs] show ?thesis
    using False by (auto simp: built_content built_ordinals)
qed

lemma template_rewrite_witness:
  "putForTask 20 10 [] demo_submitted = (Inl (ConflictError ''REQUEST_TEMPLATE_LOCKED''), demo_submitted)"
proof -
  have "template_of_task 20 demo_submitted = Some (demo_template 21 None (Some 20))"
    by (simp add: template_of_task_def demo_defs)
  then show ?thesis
    using template_rewrite [of 20 demo_submitted demo_task "demo_template 21 None (Some 20)" 10 "[]"]
    by (simp add: answered_templates_def demo_defs)
qed

text \<open>After a task's only submissions have been retired the lock is off, but a rewrite still
  fails: an answer of a retired submission keeps its question, and the database refuses to delete
  it (an uncoded error, status 500).\<close>

lemma template_answered_fails:
  assumes "lookup t_id k (tasks s) = Some task" and "template_of_task k s = Some rt"
    and "\<forall>r \<in> set (submissions s). s_taskId r = k \<longrightarrow> s_lifecycleState r = retired"
    and "rt_id rt \<in> answered_templates s"
  shows "putForTask k u qs s = (Inl ForeignKeyViolation, s) \<and> http_status ForeignKeyViolation = 500"
proof -
  have "count_where (\<lambda>r. s_taskId r = k \<and> s_lifecycleState r = active) (submissions s) = 0"
    using assms(3) by (auto simp: count_where_0_iff)
  then show ?thesis using putForTask_answered [OF assms(1,2) _ assms(4)] by simp
qed

definition demo_answered :: state where
  "demo_answered = demo_claimed\<lparr>submissions := [demo_submission\<lparr>s_lifecycleState := retired\<rparr>],
     answers := [\<lparr>an_id = 61, an_submissionId = 60, an_questionId = 22, an_value = JNull\<rparr>]\<rparr>"

lemma template_answered_fails_witness:
  "fst (putForTask 20 10 [] demo_answered) = Inl ForeignKeyViolation"
  using template_answered_fails [of 20 demo_answered demo_task "demo_template 21 None (Some 20)" 10 "[]"]
  by (simp add: demo_answered_def template_of_task_def answered_templates_def demo_defs)

section \<open>The list and the lifecycle\<close>

text \<open>Walking the pages of the faceted task list, each from the cursor of the one before,
  returns every matching task once, newest first, whatever the page size; the walk ends.\<close>

lemma task_list_complete:
  assumes "distinct (map t_id (tasks s))" and "0 < limit" and "length (task_rows q s) < n"
  shows "walk (tasks_fetch q limit s) n None = task_rows q s"
  by (rule task_pages.walk_complete [OF assms])

definition every_task :: list_tasks_query where
  "every_task = \<lparr>lq_division = None, lq_team = None, lq_status = None, lq_requester = None,
     lq_claimant = None, lq_after = None, lq_limit = 1, lq_includeRetired = False\<rparr>"

lemma task_list_complete_witness:
  "map tv_id (walk (tasks_fetch (1, every_task) 1 (demo\<lparr>tasks := [demo_task, demo_task\<lparr>t_id := 23\<rparr>]\<rparr>)) 3 None) = [23, 20]"
  using task_list_complete [of "demo\<lparr>tasks := [demo_task, demo_task\<lparr>t_id := 23\<rparr>]\<rparr>" 1 "(1, every_task)" 3]
  by (simp add: task_rows_def task_where_def every_task_def opt_in_def activeFilter_def newest_first_def
      task_toView_def demo_defs)

text \<open>A task retired and revived within the organization's grace period is active again with
  its retirement time cleared; after the period the revival is refused and nothing changes.\<close>

lemma task_retire_revive:
  assumes "lookup t_id k (tasks s) = Some r" and "t_lifecycleState r \<noteq> retired"
  shows "\<exists>x t. tasks_retire k u s = (Inr x, t) \<and>
    (if of_int (n - clock s) \<le> task_window k s
     then \<exists>y w q. tasks_revive k v (t\<lparr>clock := n\<rparr>) = (Inr y, w) \<and>
            lookup t_id k (tasks w) = Some q \<and> t_lifecycleState q = active \<and> t_retiredAt q = None
     else tasks_revive k v (t\<lparr>clock := n\<rparr>) = (Inl (ConflictError ''NOT_REVIVABLE''), t\<lparr>clock := n\<rparr>))"
proof (cases "of_int (n - clock s) \<le> task_window k s")
  case True
  from task_lifecycle.round_trip [OF TrueI assms True, of u v] show ?thesis
    using True by auto
next
  case False
  then have "task_window k s < of_int (n - clock s)" by simp
  from task_lifecycle.refused_after_window [OF TrueI assms this, of u v] show ?thesis
    using False by auto
qed

lemma task_retire_revive_witness:
  "\<exists>x t. tasks_retire 20 10 demo = (Inr x, t) \<and>
     tasks_revive 20 10 (t\<lparr>clock := 86401001\<rparr>) = (Inl (ConflictError ''NOT_REVIVABLE''), t\<lparr>clock := 86401001\<rparr>)"
proof -
  have "task_window 20 demo = 86400000"
    by (simp add: task_window_def org_window_def windowMsFromSettings_def Let_def
        default_gracePeriodHours_def demo_defs)
  then show ?thesis using task_retire_revive [of 20 demo demo_task 10 86401001 10] by simp
qed

end
