(* ===== verification/Work_Properties.thy ===== *)
theory Work_Properties
  imports Examples
begin

text \<open>
  What the development shows about the work on a task: validation and submission of answers,
  reviews, the message threads, notifications and the activity log.
\<close>

section \<open>Submissions\<close>


definition demo_answer :: "jsnum \<Rightarrow> answer" where
  "demo_answer n = \<lparr>aw_questionId = 22, aw_text = None, aw_number = Some n, aw_selected = None,
     aw_attachmentIds = None\<rparr>"


text \<open>C7: A review of the submission under review records reviewer, time and outcome on that
  submission alone, and leaves the task's cached status equal to the roll-up of its slots; a
  review of a retired submission, or of one not under review, is refused and changes nothing.\<close>

theorem review_outcome:
  assumes "subs_ok s" and "lookup s_id k (submissions s) = Some sub"
    and "lookup t_id (s_taskId sub) (tasks s) = Some task"
  shows "if s_lifecycleState sub = retired
         then review k u d c s = (Inl (ConflictError ''SUBMISSION_RETIRED''), s)
         else if s_state sub \<noteq> ss_review
         then review k u d c s = (Inl (ConflictError ''INVALID_TRANSITION''), s)
         else \<exists>v t. review k u d c s = (Inr v, t) \<and>
           lookup s_id k (submissions t) = Some (reviewed u (outcome_state d) (clock s) sub) \<and>
           (\<forall>j. j \<noteq> k \<longrightarrow> lookup s_id j (submissions t) = lookup s_id j (submissions s)) \<and>
           status_current (s_taskId sub) t"
  using review_ok [OF assms] review_refused [OF assms(2,3)] by simp

theorem review_outcome_witness:
  "\<exists>v t. review 60 10 d_approve None demo_submitted = (Inr v, t) \<and>
     lookup s_id 60 (submissions t) = Some (reviewed 10 ss_approved 1000 demo_submission) \<and>
     status_current 20 t"
  using review_outcome [of demo_submitted 60 demo_submission demo_task 10 d_approve None]
  by (auto simp: demo_subs)

text \<open>C12: Two reviews that both read a submission under review do not both take effect: after
  one commits, the other is refused as stale and changes nothing.\<close>

theorem reviews_race:
  assumes "subs_ok s" and "lookup s_id k (submissions s) = Some sub"
    and "lookup t_id (s_taskId sub) (tasks s) = Some task"
    and "review_tx sub org u d c s = (Inr v, t)"
  shows "review_tx sub org u2 d2 c2 t = (Inl (ConflictError ''STALE_SUBMISSION''), t)"
  by (rule review_race [OF assms])

theorem reviews_race_witness:
  "\<exists>t. review_tx demo_submission 1 12 d_reject None t = (Inl (ConflictError ''STALE_SUBMISSION''), t)"
proof -
  obtain v t where "review_tx demo_submission 1 10 d_approve None demo_submitted = (Inr v, t)"
    using review_tx_effect [of demo_submitted 60 demo_submission demo_task 1 10 d_approve None]
    by (auto simp: demo_subs)
  then have "review_tx demo_submission 1 12 d_reject None t = (Inl (ConflictError ''STALE_SUBMISSION''), t)"
    by (rule reviews_race [where k = 60, rotated 3]) (simp_all add: demo_subs)
  then show ?thesis by blast
qed

section \<open>Messages and notifications\<close>

text \<open>A comment either is added, once, as its sender's message on that task under a new id,
  or is refused and adds nothing; a reply is only ever added under a top-level message of the
  same task. So threads stay one level deep.\<close>

lemma comment_effect:
  assumes "messages_create k u body parent s = (r, t)"
  shows "messages t = messages s \<or>
    (\<exists>m. messages t = messages s @ [m] \<and> m_taskId m = k \<and> m_parentMessageId m = parent \<and>
         m_id m = next_id s \<and> m_senderUserId m = Some u \<and> m_kind m = comment \<and>
         (\<forall>i. parent = Some i \<longrightarrow> (\<exists>q \<in> set (messages s). m_id q = i \<and>
            m_parentMessageId q = None \<and> m_taskId q = k)))"
  by (rule messages_create_effect [OF assms])

lemma comment_effect_witness:
  "messages (snd (messages_create 20 11 ''hi'' (Some 70) demo)) = messages demo \<or>
   (\<exists>m. messages (snd (messages_create 20 11 ''hi'' (Some 70) demo)) = messages demo @ [m] \<and>
        m_parentMessageId m = Some 70)"
  using comment_effect [of 20 11 "''hi''" "Some 70" demo "fst (messages_create 20 11 ''hi'' (Some 70) demo)"
      "snd (messages_create 20 11 ''hi'' (Some 70) demo)"] by auto

text \<open>The recipients of an event are its intended recipients, each once, without the actor
  who caused it and without absent ids.\<close>

lemma recipients_exact:
  "distinct (computeRecipients ids sender) \<and>
   set (computeRecipients ids sender) = {i. Some i \<in> set ids} - {i. sender = Some i}"
  by (auto simp: computeRecipients_distinct computeRecipients_set)

text \<open>A fresh event adds exactly one notification per recipient, in order, and keeps the
  notifications already there.\<close>

lemma emit_exact:
  assumes "ev_eventSeq ev = None" and "subject_ids_unique ev s"
  shows "\<exists>t. emit ev s = (Inr (computeRecipients (ev_recipientUserIds ev) (ev_senderUserId ev)), t) \<and>
    map n_recipientUserId (notifications t) =
      map n_recipientUserId (notifications s) @
      computeRecipients (ev_recipientUserIds ev) (ev_senderUserId ev) \<and>
    take (length (notifications s)) (notifications t) = notifications s"
  using notified_exact [OF assms] by (simp add: op_simps)

definition demo_event :: notification_event where
  "demo_event = \<lparr>ev_organizationId = 1, ev_type = ''message.posted'', ev_subjectType = ''message'',
     ev_subjectId = 70, ev_senderUserId = Some 10, ev_recipientUserIds = [Some 10, Some 11, Some 11],
     ev_payload = [], ev_eventSeq = None\<rparr>"

lemma emit_exact_witness:
  "\<exists>t. emit demo_event demo = (Inr [11], t) \<and> map n_recipientUserId (notifications t) = [11]"
  using emit_exact [of demo_event demo]
  by (simp add: subject_ids_unique_def demo_event_def computeRecipients_def demo_defs)

definition demo_note :: "id \<Rightarrow> time option \<Rightarrow> notification" where
  "demo_note i r = \<lparr>n_id = i, n_organizationId = 1, n_recipientUserId = 11,
     n_type = ''message.posted'', n_subjectType = ''message'', n_subjectId = i, n_payload = [],
     n_eventSeq = 0, n_readAt = r, n_createdAt = 0\<rparr>"

definition two_notes :: state where
  "two_notes = demo\<lparr>notifications := [demo_note 80 None, demo_note 81 (Some 5)]\<rparr>"

lemma two_notes_pages:
  "notifications_fetch 11 1 two_notes None = ([demo_note 80 None], Some 80)"
  "notifications_fetch 11 1 two_notes (Some 80) = ([], None)"
  by (simp_all add: notifications_fetch_def notifications_listForUser_def unread_first_def
      newest_first_def page_def two_notes_def demo_note_def)

text \<open>Walking the pages of a user's notifications can miss some: the list puts unread ones
  first, but the cursor skips by id, so a read notification newer than an unread one is never
  shown.\<close>

lemma notification_pages_miss:
  "\<exists>s u x. distinct (map n_id (notifications s)) \<and> x \<in> set (notifications s) \<and>
     n_recipientUserId x = u \<and> (\<forall>n. x \<notin> set (walk (notifications_fetch u 1 s) n None))"
proof (intro exI conjI)
  have "set (walk (notifications_fetch 11 1 two_notes) n None) \<subseteq> {demo_note 80 None}" for n
  proof (cases n)
    case (Suc m)
    then show ?thesis by (cases m) (simp_all add: two_notes_pages del: One_nat_def)
  qed simp
  then show "\<forall>n. demo_note 81 (Some 5) \<notin> set (walk (notifications_fetch 11 1 two_notes) n None)"
    by (force simp: demo_note_def)
qed (simp_all add: two_notes_def demo_note_def)

section \<open>The activity log\<close>



text \<open>Walking the pages of the activity list returns every matching row once, newest first,
  whatever the page size.\<close>

lemma activity_list_complete:
  assumes "distinct (map a_id (activities s))" and "0 < limit" and "length (activity_rows q s) < n"
  shows "walk (activity_fetch q limit s) n None = activity_rows q s"
  by (rule activity_pages.walk_complete [OF assms])

definition every_activity :: activity_filters where
  "every_activity = \<lparr>af_after = None, af_limit = 1, af_verb = None, af_verbPrefix = None,
     af_actorUserId = None, af_subjectType = None, af_subjectId = None, af_source = None,
     af_from = None, af_to = None\<rparr>"

definition two_activities :: state where
  "two_activities = demo\<lparr>activities :=
     map (\<lambda>i. activity_row (demo\<lparr>next_id := i\<rparr>) 1 None ''task'' 20 ''task.retired'' [] src_patrice None) [90, 91]\<rparr>"

lemma activity_list_complete_witness:
  "map ai_id (walk (activity_fetch (1, every_activity) 1 two_activities) 3 None) = [91, 90]"
  using activity_list_complete [of two_activities 1 "(1, every_activity)" 3]
  by (simp add: activity_rows_def activity_where_def every_activity_def opt_eq_def truthy_def
      newest_first_def activity_view_def activity_row_def two_activities_def)

end
