(* ===== verification/Access_Properties.thy ===== *)
theory Access_Properties
  imports Examples
begin

text \<open>
  What the development shows about access: decisions, the static rules, claim eligibility, the
  policy caches of a cluster of servers, and the projection of grants.
\<close>

section \<open>Decisions\<close>

text \<open>C15: With an engine that decides as documented and a coherent policy cache, a request is
  allowed exactly when some active grant of an active role the user holds permits it in scope
  (or it is the user's update of himself), and nothing forbids it: no forbid grant in scope, the
  resource not retired, and no review of one's own submission unless the organization allows it.\<close>

theorem decision_exact:
  assumes "cedar_documented eng" and "cache_ok s" and "organizations s = org # rest"
    and "fresh_policies s = Some ps"
  shows "fst (decide eng u a res s) =
           Inr (permitted (make_request u a res s) (projectable (o_id org) s) \<and>
                \<not> forbidden (make_request u a res s) (selfReviewAllowed org) (projectable (o_id org) s))"
  by (rule decide_iff [OF assms])

lemma demo_policies:
  "organizations demo = demo_org # []" "cache_ok demo" "projectable 1 demo = [demo_grant]"
  "\<exists>ps. fresh_policies demo = Some ps"
  by (simp_all add: cache_ok_def fresh_policies_def project_def projectable_def role_active_def
      grantToPolicy_def scopeCondition_def demo_defs)

theorem decision_exact_witness:
  "fst (decide reference_engine 10 ''grant:create'' (Organization, Eid 1, []) demo) = Inr True \<and>
   fst (decide reference_engine 11 ''grant:create'' (Organization, Eid 1, []) demo) = Inr False"
proof -
  obtain ps where ps: "fresh_policies demo = Some ps" using demo_policies(4) by blast
  have d: "fst (decide reference_engine u ''grant:create'' (Organization, Eid 1, []) demo) =
      Inr (permitted (make_request u ''grant:create'' (Organization, Eid 1, []) demo) [demo_grant] \<and>
        \<not> forbidden (make_request u ''grant:create'' (Organization, Eid 1, []) demo)
            (selfReviewAllowed demo_org) [demo_grant])" for u
    using decision_exact [OF reference_engine_documented demo_policies(2,1) ps] demo_policies(3)
    by (simp add: demo_org_def)
  have "r_id ` set (roles_held 10 demo) = {40}" "r_id ` set (roles_held 11 demo) = {}"
    by (simp_all add: roles_held_def demo_defs)
  then show ?thesis
    unfolding d
    by (simp add: permitted_def forbidden_def request_principal_in request_resource_other
        scope_matches_def demo_grant_def)
qed

text \<open>Whatever the grants say, a request on a retired resource is denied.\<close>

lemma retired_denied:
  assumes "cedar_documented eng" and "cache_ok s" and "organizations s = org # rest"
    and "fresh_policies s = Some ps" and "map_of attrs ''retired'' = Some (VBool True)"
  shows "fst (decide eng u a (ty, k, attrs) s) = Inr False"
  using decide_iff [OF assms(1-4), of u a "(ty, k, attrs)"] request_resource_attr [OF assms(5)]
  by (simp add: forbidden_def)

lemma retired_denied_witness:
  "fst (decide reference_engine 10 ''task:update'' (Task, Eid 20, [(''retired'', VBool True)]) demo) = Inr False"
proof -
  obtain ps where ps: "fresh_policies demo = Some ps" using demo_policies(4) by blast
  show ?thesis
    by (rule retired_denied [OF reference_engine_documented demo_policies(2,1) ps]) simp
qed

text \<open>C18: A claim under an \<open>own\<close> grant (\<open>task:assign\<close>) is in scope exactly when the user holds an
  active role of the task's division, if the division restricts claims, and one of the task's
  team, if the task has a team that does.\<close>

theorem claim_eligibility:
  assumes "lookup t_id k (tasks s) = Some t" and "lookup d_id (t_divisionId t) (divisions s) = Some d"
    and "taskResource k s = (Inr res, s)"
    and "g_scopeKind g = scope_own" and "g_action g = ''task:assign''"
  shows "scope_matches (make_request u ''task:assign'' res s) g \<longleftrightarrow>
    (d_restrictClaims d \<longrightarrow> (\<exists>r \<in> set (roles_held u s). r_divisionId r = Some (t_divisionId t))) \<and>
    (team_restricts t s \<longrightarrow>
       (\<exists>r \<in> set (roles_held u s). t_teamId t \<noteq> None \<and> r_teamId r = t_teamId t))"
proof -
  let ?attrs = "[(''division'', divisionEntity (t_divisionId t)),
      (''divisionRestrictsClaims'', VBool (d_restrictClaims d)),
      (''teamRestrictsClaims'', VBool (team_restricts t s))] @
    opt_attr ''team'' teamEntity (t_teamId t) @
    [(''requester'', userEntity (t_requesterUserId t)),
     (''retired'', VBool (t_lifecycleState t = retired))]"
  let ?q = "make_request u ''task:assign'' res s"
  let ?ds = "map (\<lambda>r. (Division, Eid (the (r_divisionId r)))) (filter (\<lambda>r. r_divisionId r \<noteq> None) (roles_held u s))"
  let ?ts = "map (\<lambda>r. (Team, Eid (the (r_teamId r)))) (filter (\<lambda>r. r_teamId r \<noteq> None) (roles_held u s))"
  have res: "res = (Task, Eid k, ?attrs)"
    using assms(1-3) lookup_SomeD [OF assms(1)]
    by (auto simp: taskResource_def find_task_def op_simps)
  have p: "principal_attrs u s = [(''memberDivisions'', VSet ?ds), (''memberTeams'', VSet ?ts)]"
    by (simp add: principal_attrs_def buildPrincipalEntities_def Let_def)
  have r: "attr_of ?q (Task, Eid k) x = map_of ?attrs x" for x
    unfolding res by (rule request_resource_other) simp
  have m: "attr_of ?q (User, Eid u) x = map_of (principal_attrs u s) x" for x
    unfolding res by (rule request_principal_attr) simp
  have "map_of ?attrs ''team'' = map_option VEntity (map_option (\<lambda>i. (Team, Eid i)) (t_teamId t))"
    by (cases "t_teamId t") (simp_all add: opt_attr_def teamEntity_def)
  then have "scope_matches ?q g \<longleftrightarrow>
      (\<not> d_restrictClaims d \<or> (Division, Eid (t_divisionId t)) \<in> set ?ds) \<and>
      (\<not> team_restricts t s \<or>
        (\<exists>x. map_option (\<lambda>i. (Team, Eid i)) (t_teamId t) = Some x \<and> x \<in> set ?ts))"
    using eligibility_value [of ?q "d_restrictClaims d" "team_restricts t s"
        "(Division, Eid (t_divisionId t))" ?ds ?ts "map_option (\<lambda>i. (Team, Eid i)) (t_teamId t)"]
      r m p assms(4,5)
    by (simp add: scope_matches_def res divisionEntity_def)
  then show ?thesis by (auto simp: image_iff) (metis option.sel)+
qed

definition demo_member :: state where
  "demo_member = demo\<lparr>roles := [demo_role, demo_role\<lparr>r_id := 41, r_kind := division_role, r_divisionId := Some 2\<rparr>],
     user_roles := [demo_held, demo_held\<lparr>ur_id := 46, ur_userId := 12, ur_roleId := 41\<rparr>]\<rparr>"

definition claim_own :: grant where
  "claim_own = demo_grant\<lparr>g_action := ''task:assign'', g_scopeKind := scope_own\<rparr>"

theorem claim_eligibility_witness:
  "\<exists>res. taskResource 20 demo_member = (Inr res, demo_member) \<and>
     scope_matches (make_request 12 ''task:assign'' res demo_member) claim_own \<and>
     \<not> scope_matches (make_request 10 ''task:assign'' res demo_member) claim_own"
proof -
  have t: "lookup t_id 20 (tasks demo_member) = Some demo_task"
    and d: "lookup d_id (t_divisionId demo_task) (divisions demo_member) = Some demo_division"
    by (simp_all add: demo_member_def demo_defs)
  then obtain res where res: "taskResource 20 demo_member = (Inr res, demo_member)"
    by (simp add: taskResource_def find_task_def op_simps)
  have held: "set (roles_held 12 demo_member) = {demo_role\<lparr>r_id := 41, r_kind := division_role, r_divisionId := Some 2\<rparr>}"
    "set (roles_held 10 demo_member) = {demo_role}"
    by (auto simp: roles_held_def demo_member_def demo_defs)
  have tr: "\<not> team_restricts demo_task demo_member"
    and dr: "d_restrictClaims demo_division" "t_divisionId demo_task = 2" "r_divisionId demo_role = None"
    by (simp_all add: team_restricts_def demo_defs)
  have "scope_matches (make_request u ''task:assign'' res demo_member) claim_own \<longleftrightarrow>
      (\<exists>r \<in> set (roles_held u demo_member). r_divisionId r = Some 2)" for u
    using claim_eligibility [OF t d res, of claim_own u] tr dr by (simp add: claim_own_def)
  then show ?thesis using res held dr(3) by simp
qed


definition two_servers :: cluster where
  "two_servers = \<lparr>cl_db = demo, cl_cache = (\<lambda>_. None), cl_read = (\<lambda>_. None), cl_served = (\<lambda>_. None)\<rparr>"


section \<open>Grants\<close>

text \<open>C20: Every grant operation keeps all stored grants projectable, so that the projection a
  decision needs never fails: an \<open>own\<close> grant is only stored for an action with an owner.\<close>

theorem grants_project:
  assumes "all_project s" and "organizations s \<noteq> []"
  shows "all_project (snd (grants_create v i org u r x s)) \<and> all_project (snd (grants_edit v i u d s)) \<and>
    all_project (snd (grants_retire i u s)) \<and> all_project (snd (grants_revive i u s)) \<and>
    (\<exists>ps. fresh_policies s = Some ps)"
  using keepsD_snd [OF keeps_project_create assms(1)] keepsD_snd [OF keeps_project_edit assms(1)]
    keepsD_snd [OF keeps_project_lifecycle(1) assms(1)]
    keepsD_snd [OF keeps_project_lifecycle(2) assms(1)] all_project_fresh [OF assms]
  by blast

theorem grants_project_witness:
  "all_project (snd (grants_retire 50 10 demo)) \<and> (\<exists>ps. fresh_policies demo = Some ps)"
proof -
  have "all_project demo"
    by (simp add: all_project_def grantToPolicy_def scopeCondition_def demo_defs)
  then show ?thesis using grants_project [of demo] by (simp add: demo_policies)
qed

end
