(* ===== verification/Org_Units.thy ===== *)
theory Org_Units
  imports Roles
begin

text \<open>
  \<open>divisions/divisions.service.ts\<close> and \<open>teams/teams.service.ts\<close>: organization units, each with an
  inherent role created, renamed, retired and revived with it. The invariant \<open>units_ok\<close> says that
  every unit has exactly one such role and that name and lifecycle of the two agree.
\<close>

section \<open>Divisions\<close>

record division_input =
  di_name :: "string option"
  di_defaultOpenings :: "int option"
  di_openingsLocked :: "bool option"
  di_restrictClaims :: "bool option"

record division_view =
  dv_id :: id
  dv_name :: string
  dv_defaultOpenings :: int
  dv_openingsLocked :: bool
  dv_restrictClaims :: bool
  dv_lifecycleState :: lifecycle
  dv_retiredAt :: "time option"
  dv_version :: nat
  dv_inherentRoleId :: id

definition given :: "'a option \<Rightarrow> 'a \<Rightarrow> 'a" where
  "given x d = (case x of None \<Rightarrow> d | Some y \<Rightarrow> y)"

definition division_role_of :: "id \<Rightarrow> state \<Rightarrow> role option" where
  "division_role_of i s = List.find (\<lambda>r. r_divisionId r = Some i) (roles s)"

text \<open>\<open>inherentRole!.id\<close> of a row read with its role: a \<open>TypeError\<close> when there is none.\<close>

definition division_view_of :: "division \<Rightarrow> role \<Rightarrow> division_view" where
  "division_view_of d r =
     \<lparr>dv_id = d_id d, dv_name = d_name d, dv_defaultOpenings = d_defaultOpenings d,
      dv_openingsLocked = d_openingsLocked d, dv_restrictClaims = d_restrictClaims d,
      dv_lifecycleState = d_lifecycleState d, dv_retiredAt = d_retiredAt d,
      dv_version = d_version d, dv_inherentRoleId = r_id r\<rparr>"

definition division_toView :: "division \<Rightarrow> role option \<Rightarrow> division_view svc" where
  "division_toView d inherentRole =
     bnd (need inherentRole (ServerError ''TypeError'')) (\<lambda>r. ret (division_view_of d r))"

definition divisions_list :: "id \<Rightarrow> bool \<Rightarrow> division_view list svc" where
  "divisions_list organizationId includeRetired =
     bnd (gets (\<lambda>s. those (map (\<lambda>d. map_option (division_view_of d) (division_role_of (d_id d) s))
            (filter (\<lambda>d. d_organizationId d = organizationId \<and>
                         activeFilter includeRetired (d_lifecycleState d)) (divisions s))))) (\<lambda>views.
     need views (ServerError ''TypeError''))"

definition new_role :: "id \<Rightarrow> id \<Rightarrow> string \<Rightarrow> role_kind \<Rightarrow> id option \<Rightarrow> id option \<Rightarrow> role" where
  "new_role i organizationId name kind divisionId teamId =
     \<lparr>r_id = i, r_organizationId = organizationId, r_name = name, r_kind = kind,
      r_divisionId = divisionId, r_teamId = teamId, r_lifecycleState = active,
      r_retiredAt = None, r_version = 0\<rparr>"

text \<open>The row of an activity about the unit and the one about its role.\<close>

definition log_unit ::
  "id \<Rightarrow> id \<Rightarrow> string \<Rightarrow> string \<Rightarrow> id \<Rightarrow> string \<Rightarrow> id \<Rightarrow> string \<Rightarrow> unit svc" where
  "log_unit organizationId actorUserId subject key unitId verb roleId roleVerb =
     bnd (logActivity organizationId (Some actorUserId) subject unitId verb [(key, PId unitId)]) (\<lambda>_.
     logActivity organizationId (Some actorUserId) ''role'' roleId roleVerb [(''roleId'', PId roleId)])"

definition divisions_create :: "id \<Rightarrow> id \<Rightarrow> string \<Rightarrow> division_input \<Rightarrow> division_view svc" where
  "divisions_create organizationId actorUserId name dto =
     bnd (transaction (
       bnd fresh_id (\<lambda>i.
       let division = \<lparr>d_id = i, d_organizationId = organizationId, d_name = name,
                       d_defaultOpenings = given (di_defaultOpenings dto) 1,
                       d_openingsLocked = given (di_openingsLocked dto) False,
                       d_restrictClaims = given (di_restrictClaims dto) False,
                       d_lifecycleState = active, d_retiredAt = None, d_version = 0\<rparr> in
       bnd (create_row divisions_update division) (\<lambda>_.
       bnd fresh_id (\<lambda>j.
       bnd (create_row roles_update (new_role j organizationId name division_role (Some i) None)) (\<lambda>_.
       bnd (log_unit organizationId actorUserId ''division'' ''divisionId'' i ''division.created'' j
              ''role.created'') (\<lambda>_.
       bnd (find_unique_or_throw divisions d_id i) (\<lambda>row.
       bnd (gets (division_role_of i)) (\<lambda>role.
       ret (row, role)))))))))) (\<lambda>(row, role).
     division_toView row role)"

definition load_division :: "id \<Rightarrow> (division \<times> role) svc" where
  "load_division i =
     bnd (find_unique divisions d_id i) (\<lambda>found.
     bnd (need found (NotFoundError ''DIVISION_NOT_FOUND'')) (\<lambda>d.
     bnd (gets (division_role_of i)) (\<lambda>role.
     bnd (need role (NotFoundError ''DIVISION_NOT_FOUND'')) (\<lambda>r.
     ret (d, r)))))"

definition division_patch :: "division_input \<Rightarrow> division \<Rightarrow> division" where
  "division_patch dto d =
     d\<lparr>d_name := given (di_name dto) (d_name d),
       d_defaultOpenings := given (di_defaultOpenings dto) (d_defaultOpenings d),
       d_openingsLocked := given (di_openingsLocked dto) (d_openingsLocked d),
       d_restrictClaims := given (di_restrictClaims dto) (d_restrictClaims d),
       d_version := d_version d + 1\<rparr>"

definition divisions_edit :: "id \<Rightarrow> id \<Rightarrow> division_input \<Rightarrow> division_view svc" where
  "divisions_edit i actorUserId dto =
     bnd (load_division i) (\<lambda>(division, inherentRole).
     bnd (transaction (
       bnd (update_row divisions divisions_update d_id (d_id division) (division_patch dto)) (\<lambda>updated.
       bnd (case di_name dto of
              None \<Rightarrow> ret ()
            | Some name \<Rightarrow>
                bnd (update_row roles roles_update r_id (r_id inherentRole)
                       (\<lambda>r. r\<lparr>r_name := name, r_version := r_version r + 1\<rparr>)) (\<lambda>_. ret ())) (\<lambda>_.
       bnd (logActivity (d_organizationId division) (Some actorUserId) ''division'' (d_id division)
              ''division.updated'' [(''divisionId'', PId (d_id division))]) (\<lambda>_.
       ret updated))))) (\<lambda>row.
     division_toView row (Some inherentRole)))"

text \<open>Both rows change lifecycle together, under a new config version.\<close>

definition move_division ::
  "division \<Rightarrow> role \<Rightarrow> id \<Rightarrow> string \<Rightarrow> string \<Rightarrow> lifecycle \<Rightarrow> time option \<Rightarrow> division svc" where
  "move_division division inherentRole actorUserId verb roleVerb st t =
     transaction (
       bnd (update_row divisions divisions_update d_id (d_id division)
              (\<lambda>d. d\<lparr>d_lifecycleState := st, d_retiredAt := t, d_version := d_version d + 1\<rparr>)) (\<lambda>updated.
       bnd (update_row roles roles_update r_id (r_id inherentRole)
              (\<lambda>r. r\<lparr>r_lifecycleState := st, r_retiredAt := t, r_version := r_version r + 1\<rparr>)) (\<lambda>_.
       bnd (log_unit (d_organizationId division) actorUserId ''division'' ''divisionId''
              (d_id division) verb (r_id inherentRole) roleVerb) (\<lambda>_.
       bnd (bumpConfigVersion (d_organizationId division)) (\<lambda>_.
       ret updated)))))"

definition divisions_retire :: "id \<Rightarrow> id \<Rightarrow> division_view svc" where
  "divisions_retire i actorUserId =
     bnd (load_division i) (\<lambda>(division, inherentRole).
     bnd (check (d_lifecycleState division \<noteq> retired) (ConflictError ''ALREADY_RETIRED'')) (\<lambda>_.
     bnd now (\<lambda>t.
     bnd (move_division division inherentRole actorUserId ''division.retired'' ''role.retired''
            retired (Some t)) (\<lambda>row.
     division_toView row (Some inherentRole)))))"

definition divisions_revive :: "id \<Rightarrow> id \<Rightarrow> division_view svc" where
  "divisions_revive i actorUserId =
     bnd (load_division i) (\<lambda>(division, inherentRole).
     bnd (windowMs (d_organizationId division)) (\<lambda>graceMs.
     bnd now (\<lambda>t.
     bnd (check (isRevivable (d_lifecycleState division) (d_retiredAt division) graceMs t)
            (ConflictError ''NOT_REVIVABLE'')) (\<lambda>_.
     bnd (move_division division inherentRole actorUserId ''division.revived'' ''role.revived''
            active None) (\<lambda>row.
     division_toView row (Some inherentRole))))))"

section \<open>Teams\<close>

record team_view =
  tw_id :: id
  tw_name :: string
  tw_restrictClaims :: bool
  tw_lifecycleState :: lifecycle
  tw_retiredAt :: "time option"
  tw_version :: nat
  tw_inherentRoleId :: id

definition team_role_of :: "id \<Rightarrow> state \<Rightarrow> role option" where
  "team_role_of i s = List.find (\<lambda>r. r_teamId r = Some i) (roles s)"

definition team_view_of :: "team \<Rightarrow> role \<Rightarrow> team_view" where
  "team_view_of t r =
     \<lparr>tw_id = tm_id t, tw_name = tm_name t, tw_restrictClaims = tm_restrictClaims t,
      tw_lifecycleState = tm_lifecycleState t, tw_retiredAt = tm_retiredAt t,
      tw_version = tm_version t, tw_inherentRoleId = r_id r\<rparr>"

definition team_toView :: "team \<Rightarrow> role option \<Rightarrow> team_view svc" where
  "team_toView t inherentRole =
     bnd (need inherentRole (ServerError ''TypeError'')) (\<lambda>r. ret (team_view_of t r))"

definition teams_list :: "id \<Rightarrow> bool \<Rightarrow> team_view list svc" where
  "teams_list organizationId includeRetired =
     bnd (gets (\<lambda>s. those (map (\<lambda>t. map_option (team_view_of t) (team_role_of (tm_id t) s))
            (filter (\<lambda>t. tm_organizationId t = organizationId \<and>
                         activeFilter includeRetired (tm_lifecycleState t)) (teams s))))) (\<lambda>views.
     need views (ServerError ''TypeError''))"

definition teams_create :: "id \<Rightarrow> id \<Rightarrow> string \<Rightarrow> bool option \<Rightarrow> team_view svc" where
  "teams_create organizationId actorUserId name restrictClaims =
     bnd (transaction (
       bnd fresh_id (\<lambda>i.
       bnd (create_row teams_update
              \<lparr>tm_id = i, tm_organizationId = organizationId, tm_name = name,
               tm_restrictClaims = given restrictClaims False, tm_lifecycleState = active,
               tm_retiredAt = None, tm_version = 0\<rparr>) (\<lambda>_.
       bnd fresh_id (\<lambda>j.
       bnd (create_row roles_update (new_role j organizationId name team_role None (Some i))) (\<lambda>_.
       bnd (log_unit organizationId actorUserId ''team'' ''teamId'' i ''team.created'' j
              ''role.created'') (\<lambda>_.
       bnd (find_unique_or_throw teams tm_id i) (\<lambda>row.
       bnd (gets (team_role_of i)) (\<lambda>role.
       ret (row, role)))))))))) (\<lambda>(row, role).
     team_toView row role)"

definition load_team :: "id \<Rightarrow> (team \<times> role) svc" where
  "load_team i =
     bnd (find_unique teams tm_id i) (\<lambda>found.
     bnd (need found (NotFoundError ''TEAM_NOT_FOUND'')) (\<lambda>t.
     bnd (gets (team_role_of i)) (\<lambda>role.
     bnd (need role (NotFoundError ''TEAM_NOT_FOUND'')) (\<lambda>r.
     ret (t, r)))))"

definition team_patch :: "string option \<Rightarrow> bool option \<Rightarrow> team \<Rightarrow> team" where
  "team_patch name restrictClaims t =
     t\<lparr>tm_name := given name (tm_name t),
       tm_restrictClaims := given restrictClaims (tm_restrictClaims t),
       tm_version := tm_version t + 1\<rparr>"

definition teams_edit :: "id \<Rightarrow> id \<Rightarrow> string option \<Rightarrow> bool option \<Rightarrow> team_view svc" where
  "teams_edit i actorUserId name restrictClaims =
     bnd (load_team i) (\<lambda>(team, inherentRole).
     bnd (transaction (
       bnd (update_row teams teams_update tm_id (tm_id team) (team_patch name restrictClaims)) (\<lambda>updated.
       bnd (case name of
              None \<Rightarrow> ret ()
            | Some n \<Rightarrow>
                bnd (update_row roles roles_update r_id (r_id inherentRole)
                       (\<lambda>r. r\<lparr>r_name := n, r_version := r_version r + 1\<rparr>)) (\<lambda>_. ret ())) (\<lambda>_.
       bnd (logActivity (tm_organizationId team) (Some actorUserId) ''team'' (tm_id team)
              ''team.updated'' [(''teamId'', PId (tm_id team))]) (\<lambda>_.
       ret updated))))) (\<lambda>row.
     team_toView row (Some inherentRole)))"

definition move_team ::
  "team \<Rightarrow> role \<Rightarrow> id \<Rightarrow> string \<Rightarrow> string \<Rightarrow> lifecycle \<Rightarrow> time option \<Rightarrow> team svc" where
  "move_team team inherentRole actorUserId verb roleVerb st t =
     transaction (
       bnd (update_row teams teams_update tm_id (tm_id team)
              (\<lambda>x. x\<lparr>tm_lifecycleState := st, tm_retiredAt := t, tm_version := tm_version x + 1\<rparr>)) (\<lambda>updated.
       bnd (update_row roles roles_update r_id (r_id inherentRole)
              (\<lambda>r. r\<lparr>r_lifecycleState := st, r_retiredAt := t, r_version := r_version r + 1\<rparr>)) (\<lambda>_.
       bnd (log_unit (tm_organizationId team) actorUserId ''team'' ''teamId''
              (tm_id team) verb (r_id inherentRole) roleVerb) (\<lambda>_.
       bnd (bumpConfigVersion (tm_organizationId team)) (\<lambda>_.
       ret updated)))))"

definition teams_retire :: "id \<Rightarrow> id \<Rightarrow> team_view svc" where
  "teams_retire i actorUserId =
     bnd (load_team i) (\<lambda>(team, inherentRole).
     bnd (check (tm_lifecycleState team \<noteq> retired) (ConflictError ''ALREADY_RETIRED'')) (\<lambda>_.
     bnd now (\<lambda>t.
     bnd (move_team team inherentRole actorUserId ''team.retired'' ''role.retired''
            retired (Some t)) (\<lambda>row.
     team_toView row (Some inherentRole)))))"

definition teams_revive :: "id \<Rightarrow> id \<Rightarrow> team_view svc" where
  "teams_revive i actorUserId =
     bnd (load_team i) (\<lambda>(team, inherentRole).
     bnd (windowMs (tm_organizationId team)) (\<lambda>graceMs.
     bnd now (\<lambda>t.
     bnd (check (isRevivable (tm_lifecycleState team) (tm_retiredAt team) graceMs t)
            (ConflictError ''NOT_REVIVABLE'')) (\<lambda>_.
     bnd (move_team team inherentRole actorUserId ''team.revived'' ''role.revived''
            active None) (\<lambda>row.
     team_toView row (Some inherentRole))))))"

section \<open>A unit and its role\<close>

text \<open>Rows \<open>us\<close> with key \<open>key\<close>, and the roles that \<open>link\<close> to one of them: one role per unit, one
  unit per linked role, and the tags (name, state, retirement time) of the two agree.\<close>

type_synonym unit_tag = "string \<times> lifecycle \<times> time option"

definition role_tag :: "role \<Rightarrow> unit_tag" where
  "role_tag r = (r_name r, r_lifecycleState r, r_retiredAt r)"

definition paired ::
  "('u \<Rightarrow> id) \<Rightarrow> ('u \<Rightarrow> unit_tag) \<Rightarrow> (role \<Rightarrow> id option) \<Rightarrow> 'u list \<Rightarrow> role list \<Rightarrow> bool" where
  "paired key tag link us rs \<longleftrightarrow>
     (\<forall>u \<in> set us. \<exists>r \<in> set rs. link r = Some (key u)) \<and>
     (\<forall>r \<in> set rs. \<forall>k. link r = Some k \<longrightarrow> (\<exists>u \<in> set us. key u = k \<and> tag u = role_tag r)) \<and>
     (\<forall>r \<in> set rs. \<forall>q \<in> set rs. link r = link q \<and> link r \<noteq> None \<longrightarrow> r = q)"

lemma pairedI:
  assumes "\<And>u. u \<in> set us \<Longrightarrow> \<exists>r \<in> set rs. link r = Some (key u)"
    and "\<And>r k. r \<in> set rs \<Longrightarrow> link r = Some k \<Longrightarrow> \<exists>u \<in> set us. key u = k \<and> tag u = role_tag r"
    and "\<And>r q k. r \<in> set rs \<Longrightarrow> q \<in> set rs \<Longrightarrow> link r = Some k \<Longrightarrow> link q = Some k \<Longrightarrow> r = q"
  shows "paired key tag link us rs"
  using assms(1,2) unfolding paired_def by (auto intro: assms(3))

lemma pairedD:
  assumes "paired key tag link us rs"
  shows "u \<in> set us \<Longrightarrow> \<exists>r \<in> set rs. link r = Some (key u)"
    and "r \<in> set rs \<Longrightarrow> link r = Some k \<Longrightarrow> \<exists>u \<in> set us. key u = k \<and> tag u = role_tag r"
    and "r \<in> set rs \<Longrightarrow> q \<in> set rs \<Longrightarrow> link r = Some k \<Longrightarrow> link q = Some k \<Longrightarrow> r = q"
proof -
  have three: "\<forall>r \<in> set rs. \<forall>q \<in> set rs. link r = link q \<and> link r \<noteq> None \<longrightarrow> r = q"
    using assms unfolding paired_def by blast
  show "r \<in> set rs \<Longrightarrow> q \<in> set rs \<Longrightarrow> link r = Some k \<Longrightarrow> link q = Some k \<Longrightarrow> r = q"
    by (rule three [rule_format]) simp_all
qed (use assms in \<open>unfold paired_def, blast+\<close>)

lemma paired_add:
  assumes p: "paired key tag link us rs" and r: "link r = Some (key u)" "tag u = role_tag r"
    and new: "\<And>v. v \<in> set us \<Longrightarrow> key v \<noteq> key u"
  shows "paired key tag link (us @ [u]) (rs @ [r])"
proof (rule pairedI)
  have no: "q \<in> set rs \<Longrightarrow> link q \<noteq> Some (key u)" for q
    using pairedD(2) [OF p, of q "key u"] new by blast
  fix q x k
  assume "q \<in> set (rs @ [r])" "x \<in> set (rs @ [r])" "link q = Some k" "link x = Some k"
  then show "q = x" using pairedD(3) [OF p, of q x k] no r(1) by auto
qed (use pairedD(1,2) [OF p] r in fastforce)+

lemma paired_add_role:
  assumes p: "paired key tag link us rs" and r: "link r = None"
  shows "paired key tag link us (rs @ [r])"
proof (rule pairedI)
  fix q x k
  assume "q \<in> set (rs @ [r])" "x \<in> set (rs @ [r])" "link q = Some k" "link x = Some k"
  then show "q = x" using pairedD(3) [OF p, of q x k] r by auto
qed (use pairedD(1,2) [OF p] r in fastforce)+

text \<open>Writing unit and role together, and writing a role of something else.\<close>

lemma paired_upd_roles:
  assumes p: "paired key tag link us rs"
    and g: "\<And>r. link (g r) = link r" "\<And>r. r_id r = i \<Longrightarrow> r \<in> set rs \<Longrightarrow> link r = None"
  shows "paired key tag link us (upd_where (\<lambda>r. r_id r = i) g rs)"
proof -
  let ?h = "\<lambda>r. if r_id r = i then g r else r"
  have h: "q = r \<and> link q = Some k" if "q = ?h r" "r \<in> set rs" "link q = Some k" for q r k
    using that g by (auto split: if_splits)
  have hh: "link (?h r) = link r" for r using g(1) by simp
  show ?thesis
  proof (rule pairedI)
    fix u
    assume "u \<in> set us"
    then obtain r where "r \<in> set rs" "link r = Some (key u)" using pairedD(1) [OF p] by blast
    then show "\<exists>r \<in> set (upd_where (\<lambda>r. r_id r = i) g rs). link r = Some (key u)"
      using hh by (intro bexI [of _ "?h r"]) (simp_all add: upd_where_def)
  next
    fix q k
    assume "q \<in> set (upd_where (\<lambda>r. r_id r = i) g rs)" "link q = Some k"
    then show "\<exists>u \<in> set us. key u = k \<and> tag u = role_tag q"
      using pairedD(2) [OF p] h unfolding in_upd_where by metis
  next
    fix q x k
    assume "q \<in> set (upd_where (\<lambda>r. r_id r = i) g rs)" "x \<in> set (upd_where (\<lambda>r. r_id r = i) g rs)"
      "link q = Some k" "link x = Some k"
    then show "q = x" using pairedD(3) [OF p] h unfolding in_upd_where by metis
  qed
qed

lemma paired_upd:
  assumes p: "paired key tag link us rs"
    and r: "r \<in> set rs" "link r = Some (key u)" and u: "u \<in> set us"
    and keys: "distinct (map key us)" and ids: "distinct (map r_id rs)"
    and f: "\<And>v. key (f v) = key v" and g: "\<And>q. link (g q) = link q"
    and tags: "tag u = role_tag r \<Longrightarrow> tag (f u) = role_tag (g r)"
  shows "paired key tag link (upd_where (\<lambda>v. key v = key u) f us)
           (upd_where (\<lambda>q. r_id q = r_id r) g rs)"
proof -
  let ?fu = "\<lambda>v. if key v = key u then f v else v"
  let ?gr = "\<lambda>q. if r_id q = r_id r then g q else q"
  have sets: "set (upd_where (\<lambda>v. key v = key u) f us) = ?fu ` set us"
    "set (upd_where (\<lambda>q. r_id q = r_id r) g rs) = ?gr ` set rs"
    by (simp_all add: upd_where_def)
  have same: "\<And>q. q \<in> set rs \<Longrightarrow> r_id q = r_id r \<longleftrightarrow> q = r" "\<And>v. v \<in> set us \<Longrightarrow> key v = key u \<longleftrightarrow> v = u"
    using r(1) u keys ids by (auto simp: distinct_map dest: inj_onD)
  have tag: "\<exists>v \<in> set us. key v = k \<and> tag v = role_tag q" if "q \<in> set rs" "link q = Some k" for q k
    using p that unfolding paired_def by blast
  have "tag u = role_tag r" using tag [OF r] same(2) by auto
  then have fg: "tag (f u) = role_tag (g r)" by (rule tags)
  have one: "q = r" if "q \<in> set rs" "link q = Some (key u)" for q
    using p that r unfolding paired_def by (metis option.distinct(1))
  show ?thesis
    unfolding paired_def sets
  proof (intro conjI ballI allI impI)
    fix v
    assume "v \<in> ?fu ` set us"
    then obtain w where w: "w \<in> set us" "key v = key w" using f by auto
    then obtain q where "q \<in> set rs" "link q = Some (key w)" using p unfolding paired_def by blast
    then show "\<exists>q \<in> ?gr ` set rs. link q = Some (key v)"
      using w g by (intro bexI [of _ "?gr q"]) simp_all
  next
    fix q k
    assume "q \<in> ?gr ` set rs" and k: "link q = Some k"
    then obtain x where x: "x \<in> set rs" "q = ?gr x" by blast
    then have lx: "link x = Some k" using k g by (auto split: if_splits)
    then obtain v where v: "v \<in> set us" "key v = k" "tag v = role_tag x" using tag x(1) by blast
    have "tag (?fu v) = role_tag q"
    proof (cases "x = r")
      case True
      then have "v = u" using lx r(2) v(1,2) same(2) by simp
      then show ?thesis using True x(2) fg by simp
    next
      case False
      then have "key v \<noteq> key u" using one x(1) lx v(2) by auto
      then show ?thesis using False same(1) x v(3) by simp
    qed
    then show "\<exists>v \<in> ?fu ` set us. key v = k \<and> tag v = role_tag q"
      using v f by (intro bexI [of _ "?fu v"]) simp_all
  next
    fix q x
    assume "q \<in> ?gr ` set rs" "x \<in> ?gr ` set rs" and qx: "link q = link x \<and> link q \<noteq> None"
    then obtain q' x' where qx': "q' \<in> set rs" "q = ?gr q'" "x' \<in> set rs" "x = ?gr x'" by blast
    then have "link q' = link x' \<and> link q' \<noteq> None" using qx g by (auto split: if_splits)
    then have "q' = x'" using p qx' unfolding paired_def by blast
    then show "q = x" using qx' by simp
  qed
qed

definition division_tag :: "division \<Rightarrow> unit_tag" where
  "division_tag d = (d_name d, d_lifecycleState d, d_retiredAt d)"

definition team_tag :: "team \<Rightarrow> unit_tag" where
  "team_tag t = (tm_name t, tm_lifecycleState t, tm_retiredAt t)"

definition units_ok :: "state \<Rightarrow> bool" where
  "units_ok s \<longleftrightarrow>
     distinct (map r_id (roles s)) \<and> distinct (map d_id (divisions s)) \<and> distinct (map tm_id (teams s)) \<and>
     (\<forall>r \<in> set (roles s). r_id r < next_id s) \<and> (\<forall>d \<in> set (divisions s). d_id d < next_id s) \<and>
     (\<forall>t \<in> set (teams s). tm_id t < next_id s) \<and>
     paired d_id division_tag r_divisionId (divisions s) (roles s) \<and>
     paired tm_id team_tag r_teamId (teams s) (roles s) \<and>
     (\<forall>r \<in> set (roles s). (r_kind r = standalone \<longrightarrow> r_divisionId r = None \<and> r_teamId r = None) \<and>
        (r_divisionId r = None \<or> r_teamId r = None))"

interpretation units_inv: invariant units_ok
  by unfold_locales (auto simp: units_ok_def)

lemma units_ok_role_upd:
  assumes ok: "units_ok s" and g: "\<And>r. r_id (g r) = r_id r" "\<And>r. r_kind (g r) = r_kind r"
      "\<And>r. r_divisionId (g r) = r_divisionId r" "\<And>r. r_teamId (g r) = r_teamId r"
    and alone: "\<And>r. r \<in> set (roles s) \<Longrightarrow> r_id r = i \<Longrightarrow> r_kind r = standalone"
  shows "units_ok (roles_update (upd_where (\<lambda>r. r_id r = i) g) s)"
proof -
  have none: "r_divisionId r = None \<and> r_teamId r = None" if "r_id r = i" "r \<in> set (roles s)" for r
    using ok alone [OF that(2,1)] that by (simp add: units_ok_def)
  have "paired d_id division_tag r_divisionId (divisions s) (upd_where (\<lambda>r. r_id r = i) g (roles s))"
    by (rule paired_upd_roles) (use ok g none in \<open>auto simp: units_ok_def\<close>)
  moreover have "paired tm_id team_tag r_teamId (teams s) (upd_where (\<lambda>r. r_id r = i) g (roles s))"
    by (rule paired_upd_roles) (use ok g none in \<open>auto simp: units_ok_def\<close>)
  ultimately show ?thesis
    using ok g by (auto simp: units_ok_def map_upd_where ball_upd_where)
qed

lemma units_ok_division_upd:
  assumes ok: "units_ok s" and d: "d \<in> set (divisions s)" and r: "r \<in> set (roles s)" "r_divisionId r = Some (d_id d)"
    and f: "\<And>d. d_id (f d) = d_id d" and g: "\<And>r. r_id (g r) = r_id r" "\<And>r. r_kind (g r) = r_kind r"
      "\<And>r. r_divisionId (g r) = r_divisionId r" "\<And>r. r_teamId (g r) = r_teamId r"
    and tags: "division_tag d = role_tag r \<Longrightarrow> division_tag (f d) = role_tag (g r)"
  shows "units_ok (roles_update (upd_where (\<lambda>q. r_id q = r_id r) g)
           (divisions_update (upd_where (\<lambda>v. d_id v = d_id d) f) s))"
proof -
  have "paired d_id division_tag r_divisionId (upd_where (\<lambda>v. d_id v = d_id d) f (divisions s))
      (upd_where (\<lambda>q. r_id q = r_id r) g (roles s))"
    by (rule paired_upd) (use assms in \<open>auto simp: units_ok_def\<close>)
  moreover have "paired tm_id team_tag r_teamId (teams s) (upd_where (\<lambda>q. r_id q = r_id r) g (roles s))"
    by (rule paired_upd_roles) (use ok r g in \<open>auto simp: units_ok_def distinct_map dest: inj_onD\<close>)
  ultimately show ?thesis
    using ok f g by (auto simp: units_ok_def map_upd_where ball_upd_where)
qed

lemma units_ok_team_upd:
  assumes ok: "units_ok s" and d: "d \<in> set (teams s)" and r: "r \<in> set (roles s)" "r_teamId r = Some (tm_id d)"
    and f: "\<And>d. tm_id (f d) = tm_id d" and g: "\<And>r. r_id (g r) = r_id r" "\<And>r. r_kind (g r) = r_kind r"
      "\<And>r. r_divisionId (g r) = r_divisionId r" "\<And>r. r_teamId (g r) = r_teamId r"
    and tags: "team_tag d = role_tag r \<Longrightarrow> team_tag (f d) = role_tag (g r)"
  shows "units_ok (roles_update (upd_where (\<lambda>q. r_id q = r_id r) g)
           (teams_update (upd_where (\<lambda>v. tm_id v = tm_id d) f) s))"
proof -
  have "paired tm_id team_tag r_teamId (upd_where (\<lambda>v. tm_id v = tm_id d) f (teams s))
      (upd_where (\<lambda>q. r_id q = r_id r) g (roles s))"
    by (rule paired_upd) (use assms in \<open>auto simp: units_ok_def\<close>)
  moreover have "paired d_id division_tag r_divisionId (divisions s) (upd_where (\<lambda>q. r_id q = r_id r) g (roles s))"
    by (rule paired_upd_roles) (use ok r g in \<open>auto simp: units_ok_def distinct_map dest: inj_onD\<close>)
  ultimately show ?thesis
    using ok f g by (auto simp: units_ok_def map_upd_where ball_upd_where)
qed

lemma load_division_run [op_simps]:
  "bnd (load_division i) f s =
     (case lookup d_id i (divisions s) of
        None \<Rightarrow> (Inl (NotFoundError ''DIVISION_NOT_FOUND''), s)
      | Some d \<Rightarrow> (case division_role_of i s of
          None \<Rightarrow> (Inl (NotFoundError ''DIVISION_NOT_FOUND''), s) | Some r \<Rightarrow> f (d, r) s))"
  by (simp add: load_division_def op_simps split: option.split)

lemma load_team_run [op_simps]:
  "bnd (load_team i) f s =
     (case lookup tm_id i (teams s) of
        None \<Rightarrow> (Inl (NotFoundError ''TEAM_NOT_FOUND''), s)
      | Some t \<Rightarrow> (case team_role_of i s of
          None \<Rightarrow> (Inl (NotFoundError ''TEAM_NOT_FOUND''), s) | Some r \<Rightarrow> f (t, r) s))"
  by (simp add: load_team_def op_simps split: option.split)

lemma role_of_SomeD:
  "division_role_of i s = Some r \<Longrightarrow> r \<in> set (roles s) \<and> r_divisionId r = Some i"
  "team_role_of i s = Some r \<Longrightarrow> r \<in> set (roles s) \<and> r_teamId r = Some i"
  unfolding division_role_of_def team_role_of_def by (auto simp: find_Some_iff)

lemma upd_where_id [simp]: "upd_where Q (\<lambda>r. r) rs = rs"
  by (simp add: upd_where_def)

lemma units_free [simp]:
  "units_ok (organizations_update f s) = units_ok s"
  by (simp add: units_ok_def)

lemma keeps_units_bump [keeps_intros]: "keeps units_ok (bumpConfigVersion k)"
  unfolding bumpConfigVersion_def invalidate_def
  by (intro keeps_intros keeps_update_row keeps_modify units_inv.policy_free) simp_all

lemma keeps_views [keeps_intros]:
  "keeps P (division_toView d x)" "keeps P (team_toView t x)"
  unfolding division_toView_def team_toView_def by (intro keeps_intros)+

lemma keeps_units_log [keeps_intros]: "keeps units_ok (log_unit org u subj key i verb j rverb)"
  unfolding log_unit_def by (intro keeps_intros units_inv.keeps_logActivity)

text \<open>Two updates in a row, then steps that keep the invariant.\<close>

lemma holds_two_updates:
  assumes "lookup key1 k1 (rows1 s) = Some x"
    and "lookup key2 k2 (rows2 (put1 (upd_where (\<lambda>q. key1 q = k1) f) s)) = Some y"
    and "P (put2 (upd_where (\<lambda>q. key2 q = k2) g) (put1 (upd_where (\<lambda>q. key1 q = k1) f) s))"
    and "\<And>a b. keeps P (rest a b)"
  shows "holds P (bnd (update_row rows1 put1 key1 k1 f) (\<lambda>a. bnd (update_row rows2 put2 key2 k2 g) (rest a))) s"
  using keepsD_snd [OF assms(4,3)] by (simp add: holds_def op_simps assms(1,2))

lemma role_found: "units_ok s \<Longrightarrow> r \<in> set (roles s) \<Longrightarrow> lookup r_id (r_id r) (roles s) = Some r"
  by (rule lookup_distinct) (simp_all add: units_ok_def)

lemma holds_move_division:
  assumes ok: "units_ok s" and d: "lookup d_id i (divisions s) = Some d" and r: "division_role_of i s = Some r"
  shows "holds units_ok (move_division d r u verb rverb st t) s"
proof -
  note d' = lookup_SomeD [OF d] and r' = role_of_SomeD(1) [OF r]
  show ?thesis
    unfolding move_division_def
  proof (rule holds_transaction, rule units_inv.free_of_cache, rule ok, rule holds_two_updates)
    show "lookup d_id (d_id d) (divisions s) = Some d" using d d' by simp
    show "lookup r_id (r_id r) (roles (divisions_update (upd_where (\<lambda>q. d_id q = d_id d)
        (\<lambda>d. d\<lparr>d_lifecycleState := st, d_retiredAt := t, d_version := d_version d + 1\<rparr>)) s)) = Some r"
      using role_found [OF ok] r' by simp
    show "units_ok (roles_update (upd_where (\<lambda>q. r_id q = r_id r)
        (\<lambda>r. r\<lparr>r_lifecycleState := st, r_retiredAt := t, r_version := r_version r + 1\<rparr>))
        (divisions_update (upd_where (\<lambda>q. d_id q = d_id d)
          (\<lambda>d. d\<lparr>d_lifecycleState := st, d_retiredAt := t, d_version := d_version d + 1\<rparr>)) s))"
      by (rule units_ok_division_upd [OF ok]) (use d' r' in \<open>auto simp: division_tag_def role_tag_def\<close>)
  qed (intro keeps_intros)
qed

lemma holds_move_team:
  assumes ok: "units_ok s" and d: "lookup tm_id i (teams s) = Some d" and r: "team_role_of i s = Some r"
  shows "holds units_ok (move_team d r u verb rverb st t) s"
proof -
  note d' = lookup_SomeD [OF d] and r' = role_of_SomeD(2) [OF r]
  show ?thesis
    unfolding move_team_def
  proof (rule holds_transaction, rule units_inv.free_of_cache, rule ok, rule holds_two_updates)
    show "lookup tm_id (tm_id d) (teams s) = Some d" using d d' by simp
    show "lookup r_id (r_id r) (roles (teams_update (upd_where (\<lambda>q. tm_id q = tm_id d)
        (\<lambda>x. x\<lparr>tm_lifecycleState := st, tm_retiredAt := t, tm_version := tm_version x + 1\<rparr>)) s)) = Some r"
      using role_found [OF ok] r' by simp
    show "units_ok (roles_update (upd_where (\<lambda>q. r_id q = r_id r)
        (\<lambda>r. r\<lparr>r_lifecycleState := st, r_retiredAt := t, r_version := r_version r + 1\<rparr>))
        (teams_update (upd_where (\<lambda>q. tm_id q = tm_id d)
          (\<lambda>x. x\<lparr>tm_lifecycleState := st, tm_retiredAt := t, tm_version := tm_version x + 1\<rparr>)) s))"
      by (rule units_ok_team_upd [OF ok]) (use d' r' in \<open>auto simp: team_tag_def role_tag_def\<close>)
  qed (intro keeps_intros)
qed

lemma keeps_units_moves:
  "keeps units_ok (divisions_retire i u)" "keeps units_ok (divisions_revive i u)"
  "keeps units_ok (teams_retire i u)" "keeps units_ok (teams_revive i u)"
proof -
  have d: "holds units_ok (bnd (move_division d r u v rv st x) (\<lambda>row. division_toView row y)) s"
    if "units_ok s" "lookup d_id i (divisions s) = Some d" "division_role_of i s = Some r"
    for s d r v rv st x y
    using that by (auto intro!: holds_bnd_keeps holds_move_division keeps_intros)
  have t: "holds units_ok (bnd (move_team e r u v rv st x) (\<lambda>row. team_toView row y)) s"
    if "units_ok s" "lookup tm_id i (teams s) = Some e" "team_role_of i s = Some r"
    for s e r v rv st x y
    using that by (auto intro!: holds_bnd_keeps holds_move_team keeps_intros)
  show "keeps units_ok (divisions_retire i u)" "keeps units_ok (divisions_revive i u)"
    "keeps units_ok (teams_retire i u)" "keeps units_ok (teams_revive i u)"
    using d t
    by (auto simp: keeps_def holds_def divisions_retire_def divisions_revive_def teams_retire_def
        teams_revive_def op_simps split: option.split)
qed

lemma roles_unwritten: "roles_update (upd_where Q (\<lambda>r. r)) s = s"
  by (cases s) (simp add: upd_where_def [abs_def])

lemma holds_edit_division:
  assumes ok: "units_ok s" and d: "lookup d_id i (divisions s) = Some d" and r: "division_role_of i s = Some r"
    and rest: "\<And>a b. keeps units_ok (rest a b)"
  shows "holds units_ok (bnd (update_row divisions divisions_update d_id (d_id d) (division_patch dto)) (\<lambda>a.
      bnd (case di_name dto of None \<Rightarrow> ret () | Some n \<Rightarrow>
         bnd (update_row roles roles_update r_id (r_id r)
           (\<lambda>r. r\<lparr>r_name := n, r_version := r_version r + 1\<rparr>)) (\<lambda>_. ret ())) (rest a))) s"
proof -
  note d' = lookup_SomeD [OF d] and r' = role_of_SomeD(1) [OF r]
  note upd = units_ok_division_upd [OF ok, of d r "division_patch dto"]
  have ld: "lookup d_id (d_id d) (divisions s) = Some d" using d d' by simp
  show ?thesis
  proof (cases "di_name dto")
    case None
    then have "units_ok (divisions_update (upd_where (\<lambda>v. d_id v = d_id d) (division_patch dto)) s)"
      using upd [of "\<lambda>r. r"] d' r'
      by (simp add: roles_unwritten division_patch_def division_tag_def given_def)
    then show ?thesis
      using keepsD_snd [OF rest] None by (simp add: holds_def op_simps ld)
  next
    case (Some n)
    have "units_ok (roles_update (upd_where (\<lambda>q. r_id q = r_id r)
         (\<lambda>r. r\<lparr>r_name := n, r_version := r_version r + 1\<rparr>))
       (divisions_update (upd_where (\<lambda>v. d_id v = d_id d) (division_patch dto)) s))"
      by (rule upd) (use d' r' Some in \<open>auto simp: division_patch_def division_tag_def role_tag_def given_def\<close>)
    then show ?thesis
      using keepsD_snd [OF rest] Some role_found [OF ok] r' by (simp add: holds_def op_simps ld)
  qed
qed

lemma holds_edit_team:
  assumes ok: "units_ok s" and d: "lookup tm_id i (teams s) = Some d" and r: "team_role_of i s = Some r"
    and rest: "\<And>a b. keeps units_ok (rest a b)"
  shows "holds units_ok (bnd (update_row teams teams_update tm_id (tm_id d) (team_patch name rc)) (\<lambda>a.
      bnd (case name of None \<Rightarrow> ret () | Some n \<Rightarrow>
         bnd (update_row roles roles_update r_id (r_id r)
           (\<lambda>r. r\<lparr>r_name := n, r_version := r_version r + 1\<rparr>)) (\<lambda>_. ret ())) (rest a))) s"
proof -
  note d' = lookup_SomeD [OF d] and r' = role_of_SomeD(2) [OF r]
  note upd = units_ok_team_upd [OF ok, of d r "team_patch name rc"]
  have ld: "lookup tm_id (tm_id d) (teams s) = Some d" using d d' by simp
  show ?thesis
  proof (cases name)
    case None
    then have "units_ok (teams_update (upd_where (\<lambda>v. tm_id v = tm_id d) (team_patch name rc)) s)"
      using upd [of "\<lambda>r. r"] d' r' by (simp add: roles_unwritten team_patch_def team_tag_def given_def)
    then show ?thesis
      using keepsD_snd [OF rest] None by (simp add: holds_def op_simps ld)
  next
    case (Some n)
    have "units_ok (roles_update (upd_where (\<lambda>q. r_id q = r_id r)
         (\<lambda>r. r\<lparr>r_name := n, r_version := r_version r + 1\<rparr>))
       (teams_update (upd_where (\<lambda>v. tm_id v = tm_id d) (team_patch name rc)) s))"
      by (rule upd) (use d' r' Some in \<open>auto simp: team_patch_def team_tag_def role_tag_def given_def\<close>)
    then show ?thesis
      using keepsD_snd [OF rest] Some role_found [OF ok] r' by (simp add: holds_def op_simps ld)
  qed
qed

lemma holds_load_division:
  "P s \<Longrightarrow> (\<And>d r. lookup d_id i (divisions s) = Some d \<Longrightarrow> division_role_of i s = Some r \<Longrightarrow>
     holds P (f (d, r)) s) \<Longrightarrow> holds P (bnd (load_division i) f) s"
  by (auto simp: holds_def load_division_run split: option.split)

lemma holds_load_team:
  "P s \<Longrightarrow> (\<And>d r. lookup tm_id i (teams s) = Some d \<Longrightarrow> team_role_of i s = Some r \<Longrightarrow>
     holds P (f (d, r)) s) \<Longrightarrow> holds P (bnd (load_team i) f) s"
  by (auto simp: holds_def load_team_run split: option.split)

lemma keeps_units_edits: "keeps units_ok (divisions_edit i u dto)" "keeps units_ok (teams_edit i u name rc)"
  unfolding divisions_edit_def teams_edit_def
  by (rule keepsI_holds, rule holds_load_division, assumption, simp only: prod.case,
      rule holds_bnd_keeps, rule holds_transaction, rule units_inv.free_of_cache, assumption,
      rule holds_edit_division, assumption, assumption, assumption,
      intro keeps_intros units_inv.keeps_logActivity, intro keeps_intros)
     (rule keepsI_holds, rule holds_load_team, assumption, simp only: prod.case,
      rule holds_bnd_keeps, rule holds_transaction, rule units_inv.free_of_cache, assumption,
      rule holds_edit_team, assumption, assumption, assumption,
      intro keeps_intros units_inv.keeps_logActivity, intro keeps_intros)

lemma units_ok_new_division:
  assumes "units_ok s" and "d_id d = next_id s" "division_tag d = (n, active, None)"
  shows "units_ok (roles_update (\<lambda>rs. rs @ [new_role (Suc (next_id s)) org n division_role (Some (next_id s)) None])
           ((divisions_update (\<lambda>rs. rs @ [d]) s)\<lparr>next_id := Suc (Suc (next_id s))\<rparr>))"
proof -
  let ?r = "new_role (Suc (next_id s)) org n division_role (Some (next_id s)) None"
  have "paired d_id division_tag r_divisionId (divisions s @ [d]) (roles s @ [?r])"
    by (rule paired_add) (use assms in \<open>auto simp: units_ok_def new_role_def role_tag_def\<close>)
  moreover have "paired tm_id team_tag r_teamId (teams s) (roles s @ [?r])"
    by (rule paired_add_role) (use assms in \<open>auto simp: units_ok_def new_role_def\<close>)
  ultimately show ?thesis
    using assms by (auto simp: units_ok_def new_role_def less_Suc_eq)
qed

lemma units_ok_new_team:
  assumes "units_ok s" and "tm_id d = next_id s" "team_tag d = (n, active, None)"
  shows "units_ok (roles_update (\<lambda>rs. rs @ [new_role (Suc (next_id s)) org n team_role None (Some (next_id s))])
           ((teams_update (\<lambda>rs. rs @ [d]) s)\<lparr>next_id := Suc (Suc (next_id s))\<rparr>))"
proof -
  let ?r = "new_role (Suc (next_id s)) org n team_role None (Some (next_id s))"
  have "paired tm_id team_tag r_teamId (teams s @ [d]) (roles s @ [?r])"
    by (rule paired_add) (use assms in \<open>auto simp: units_ok_def new_role_def role_tag_def\<close>)
  moreover have "paired d_id division_tag r_divisionId (divisions s) (roles s @ [?r])"
    by (rule paired_add_role) (use assms in \<open>auto simp: units_ok_def new_role_def\<close>)
  ultimately show ?thesis
    using assms by (auto simp: units_ok_def new_role_def less_Suc_eq)
qed

lemma keeps_units_creates:
  "keeps units_ok (divisions_create org u n dto)" "keeps units_ok (teams_create org u n rc)"
proof -
  have pos: "units_ok s \<Longrightarrow> holds units_ok (bnd fresh_id (\<lambda>i. bnd (create_row divisions_update (d i)) (\<lambda>_.
      bnd fresh_id (\<lambda>j. bnd (create_row roles_update (new_role j org n division_role (Some i) None))
        (\<lambda>_. rest i j))))) s"
    if "\<And>i. d_id (d i) = i" "\<And>i. division_tag (d i) = (n, active, None)" "\<And>i j. keeps units_ok (rest i j)"
    for s d and rest :: "id \<Rightarrow> id \<Rightarrow> (division \<times> role option) svc"
    using keepsD_snd [OF that(3) units_ok_new_division [of s "d (next_id s)" n org]] that(1,2)
    by (simp add: holds_def op_simps)
  have team: "units_ok s \<Longrightarrow> holds units_ok (bnd fresh_id (\<lambda>i. bnd (create_row teams_update (d i)) (\<lambda>_.
      bnd fresh_id (\<lambda>j. bnd (create_row roles_update (new_role j org n team_role None (Some i)))
        (\<lambda>_. rest i j))))) s"
    if "\<And>i. tm_id (d i) = i" "\<And>i. team_tag (d i) = (n, active, None)" "\<And>i j. keeps units_ok (rest i j)"
    for s d and rest :: "id \<Rightarrow> id \<Rightarrow> (team \<times> role option) svc"
    using keepsD_snd [OF that(3) units_ok_new_team [of s "d (next_id s)" n org]] that(1,2)
    by (simp add: holds_def op_simps)
  show "keeps units_ok (divisions_create org u n dto)"
    unfolding divisions_create_def Let_def
    by (rule keepsI_holds, rule holds_bnd_keeps, rule holds_transaction, rule units_inv.free_of_cache,
        assumption, rule pos) (auto simp: division_tag_def intro!: keeps_intros split: prod.split)
  show "keeps units_ok (teams_create org u n rc)"
    unfolding teams_create_def Let_def
    by (rule keepsI_holds, rule holds_bnd_keeps, rule holds_transaction, rule units_inv.free_of_cache,
        assumption, rule team) (auto simp: team_tag_def intro!: keeps_intros split: prod.split)
qed

lemma units_ok_new_role:
  "units_ok s \<Longrightarrow> units_ok (roles_update (\<lambda>rs. rs @ [new_role (next_id s) org n standalone None None])
     (s\<lparr>next_id := Suc (next_id s)\<rparr>))"
  using paired_add_role [of d_id division_tag r_divisionId "divisions s" "roles s"
      "new_role (next_id s) org n standalone None None"]
    paired_add_role [of tm_id team_tag r_teamId "teams s" "roles s"
      "new_role (next_id s) org n standalone None None"]
  by (auto simp: units_ok_def new_role_def less_Suc_eq)

text \<open>The role operations only write standalone roles, so they never part a unit from its role.\<close>

lemma holds_loadStandalone:
  "P s \<Longrightarrow> (\<And>r. lookup r_id i (roles s) = Some r \<Longrightarrow> r_kind r = standalone \<Longrightarrow> holds P (f r) s) \<Longrightarrow>
   holds P (bnd (loadStandalone i) f) s"
  by (auto simp: holds_def loadStandalone_def op_simps split: option.split)

lemma holds_role_write:
  assumes ok: "units_ok s" and r: "lookup r_id i (roles s) = Some r" "r_kind r = standalone"
    and g: "\<And>r. r_id (g r) = r_id r" "\<And>r. r_kind (g r) = r_kind r"
      "\<And>r. r_divisionId (g r) = r_divisionId r" "\<And>r. r_teamId (g r) = r_teamId r"
    and rest: "\<And>x. keeps units_ok (rest x)"
  shows "holds units_ok (bnd (update_row roles roles_update r_id (r_id r) g) rest) s"
proof -
  have i: "r_id r = i" "r \<in> set (roles s)" using lookup_SomeD [OF r(1)] by simp_all
  have "q = r" if "q \<in> set (roles s)" "r_id q = i" for q
    using ok that i by (auto simp: units_ok_def distinct_map dest: inj_onD)
  then have "units_ok (roles_update (upd_where (\<lambda>q. r_id q = i) g) s)"
    using r(2) by (intro units_ok_role_upd [OF ok g]) auto
  then show ?thesis using keepsD_snd [OF rest] r(1) i by (simp add: holds_def op_simps)
qed

lemma keeps_units_roles:
  "keeps units_ok (roles_create org u n)" "keeps units_ok (roles_edit i u n)"
  "keeps units_ok (roles_retire i u)" "keeps units_ok (roles_revive i u)"
proof -
  show "keeps units_ok (roles_create org u n)"
    unfolding roles_create_def Let_def
  proof (rule keepsI_holds)
    fix s
    assume ok: "units_ok s"
    have rest: "keeps units_ok (bnd (logActivity org (Some u) ''role'' i ''role.created''
        [(''roleId'', PId i)]) (\<lambda>_. ret r))" for i and r :: role
      by (intro keeps_intros units_inv.keeps_logActivity)
    show "holds units_ok (bnd fresh_id (\<lambda>i. bnd (create_row roles_update
        \<lparr>r_id = i, r_organizationId = org, r_name = n, r_kind = standalone, r_divisionId = None,
         r_teamId = None, r_lifecycleState = active, r_retiredAt = None, r_version = 0\<rparr>) (\<lambda>_.
        bnd (logActivity org (Some u) ''role'' i ''role.created'' [(''roleId'', PId i)]) (\<lambda>_.
        ret \<lparr>r_id = i, r_organizationId = org, r_name = n, r_kind = standalone, r_divisionId = None,
         r_teamId = None, r_lifecycleState = active, r_retiredAt = None, r_version = 0\<rparr>)))) s"
      using keepsD_snd [OF rest units_ok_new_role [OF ok, of org n]]
      by (simp add: holds_def fresh_id_run create_row_run new_role_def)
  qed
  have written: "holds units_ok (write_role r u v g) s"
    if "units_ok s" "lookup r_id i (roles s) = Some r" "r_kind r = standalone"
      "\<And>r. r_id (g r) = r_id r" "\<And>r. r_kind (g r) = r_kind r"
      "\<And>r. r_divisionId (g r) = r_divisionId r" "\<And>r. r_teamId (g r) = r_teamId r" for s r v g
    unfolding write_role_def
    by (rule holds_role_write [OF that]) (intro keeps_intros units_inv.keeps_logActivity)
  show "keeps units_ok (roles_edit i u n)"
    unfolding roles_edit_def
    by (rule keepsI_holds, rule holds_loadStandalone, assumption, rule holds_role_write)
       (auto intro!: keeps_intros units_inv.keeps_logActivity)
  show "keeps units_ok (roles_retire i u)"
    unfolding roles_retire_def
    by (rule keepsI_holds, rule holds_loadStandalone, assumption, rule holds_check, assumption,
        simp only: now_def, rule holds_gets, rule units_inv.holds_withAdminFloor, assumption, rule written)
       (auto simp: retired_role_def)
  show "keeps units_ok (roles_revive i u)"
    unfolding roles_revive_def
    by (rule keepsI_holds, rule holds_loadStandalone, assumption, simp only: windowMs_run holds_def,
        fold holds_def, simp only: now_def, rule holds_gets, rule holds_check, assumption,
        rule holds_transaction, rule units_inv.free_of_cache, assumption, rule written)
       (auto simp: revived_role_def)
qed

lemmas keeps_units_calls = keeps_units_roles keeps_units_creates keeps_units_edits keeps_units_moves

section \<open>Governance\<close>

text \<open>Creating, renaming and reviving units keeps an administrator. Retiring one is not guarded:
  its inherent role goes with it, and with that role the last administrator may.\<close>

lemma keeps_governed_log [keeps_intros]: "keeps governed (log_unit org u subj key i verb j rverb)"
  unfolding log_unit_def by (intro keeps_intros governed_inv.keeps_logActivity)

lemma keeps_governed_units [keeps_intros]:
  "keeps governed (update_row divisions divisions_update d_id k f)"
  "keeps governed (update_row teams teams_update tm_id k g)"
  "keeps governed (create_row divisions_update d)" "keeps governed (create_row teams_update t)"
  "keeps governed (create_row roles_update r)"
  by (intro keeps_update_row keeps_create_row; simp add: governed_add)+

interpretation division_create: floored_op "\<lambda>(org, u, n, dto). divisions_create org u n dto"
  by unfold_locales
     (auto simp: divisions_create_def Let_def governed_inv.free_of_cache governed_inv.keeps_fresh
       intro!: keeps_intros split: prod.split)

interpretation division_edit: floored_op "\<lambda>(i, u, dto). divisions_edit i u dto"
  by unfold_locales
     (auto simp: divisions_edit_def load_division_def governed_inv.free_of_cache
        governed_inv.keeps_logActivity
       intro!: keeps_intros keeps_governed_role split: prod.split)

interpretation division_revive: floored_op "\<lambda>(i, u). divisions_revive i u"
  by unfold_locales
     (auto simp: divisions_revive_def load_division_def move_division_def governed_inv.free_of_cache
       intro!: keeps_intros keeps_governed_role split: prod.split)

interpretation team_create: floored_op "\<lambda>(org, u, n, rc). teams_create org u n rc"
  by unfold_locales
     (auto simp: teams_create_def governed_inv.free_of_cache governed_inv.keeps_fresh
       intro!: keeps_intros split: prod.split)

interpretation team_edit: floored_op "\<lambda>(i, u, n, rc). teams_edit i u n rc"
  by unfold_locales
     (auto simp: teams_edit_def load_team_def governed_inv.free_of_cache governed_inv.keeps_logActivity
       intro!: keeps_intros keeps_governed_role split: prod.split)

interpretation team_revive: floored_op "\<lambda>(i, u). teams_revive i u"
  by unfold_locales
     (auto simp: teams_revive_def load_team_def move_team_def governed_inv.free_of_cache
       intro!: keeps_intros keeps_governed_role split: prod.split)

text \<open>Every change of a unit's lifecycle moves the config version.\<close>

lemma keeps_versioned_units [keeps_intros]:
  "keeps (versioned n) (update_row divisions divisions_update d_id k f)"
  "keeps (versioned n) (update_row teams teams_update tm_id k g)"
  "keeps (versioned n) (log_unit org u subj key i verb j rverb)"
  unfolding log_unit_def
  by (intro keeps_update_row keeps_intros versioned_inv.keeps_logActivity; simp)+

lemma safe_moves [safe_intros]:
  "policy_safe (move_division d r u v rv st t)" "policy_safe (move_team e r u v rv st t)"
  unfolding move_division_def move_team_def
  by (rule safe_transaction, (rule bumped_later bumped_first bumped_bump keeps_intros)+)+

lemma safe_unit_moves:
  "policy_safe (divisions_retire i u)" "policy_safe (divisions_revive i u)"
  "policy_safe (teams_retire i u)" "policy_safe (teams_revive i u)"
  unfolding divisions_retire_def divisions_revive_def teams_retire_def teams_revive_def
    load_division_def load_team_def division_toView_def team_toView_def
  by (auto intro!: safe_intros split: prod.split)

end
