(* ===== verification/Users.thy ===== *)
theory Users
  imports Admin_Floor
begin

text \<open>
  \<open>users/users.service.ts\<close>: members, their lifecycle and the roles they hold. Deactivating or
  retiring a member and revoking a role can remove the last administrator, so they run under the
  admin floor; granting and revoking ask the access engine again (an argument) before they write.
  The fire-and-forget notice to the synchronizer after a role change is not modelled.
\<close>

section \<open>Reading\<close>

record user_view =
  uv_id :: id
  uv_email :: "string option"
  uv_displayName :: string
  uv_lifecycleState :: lifecycle
  uv_roleIds :: "id list"
  uv_avatarUrl :: "string option"

definition discordAvatarUrl :: "string option \<Rightarrow> string option \<Rightarrow> string option" where
  "discordAvatarUrl externalUserId avatarHash =
     (case (truthy externalUserId, truthy avatarHash) of
        (Some u, Some h) \<Rightarrow>
          Some (''https://cdn.discordapp.com/avatars/'' @ u @ ''/'' @ h @ ''.png?size=64'')
      | _ \<Rightarrow> None)"

definition connection_active :: "id \<Rightarrow> state \<Rightarrow> bool" where
  "connection_active k s \<longleftrightarrow> (\<exists>c \<in> set (connections s). cn_id c = k \<and> cn_lifecycleState c = active)"

text \<open>\<open>orderBy: lastSyncedAt desc, nulls last\<close>.\<close>

definition newest_synced :: "external_identity list \<Rightarrow> external_identity option" where
  "newest_synced es =
     (case find_first (\<lambda>e. ei_lastSyncedAt e \<noteq> None) (\<lambda>e. - the (ei_lastSyncedAt e)) es of
        Some e \<Rightarrow> Some e
      | None \<Rightarrow> (case es of [] \<Rightarrow> None | e # _ \<Rightarrow> Some e))"

definition avatar_link :: "id \<Rightarrow> state \<Rightarrow> external_identity option" where
  "avatar_link userId s =
     newest_synced (filter (\<lambda>e. ei_userId e = userId \<and> ei_externalAvatarHash e \<noteq> None \<and>
       connection_active (ei_connectionId e) s) (external_identities s))"

definition user_view_of :: "bool \<Rightarrow> state \<Rightarrow> app_user \<Rightarrow> user_view" where
  "user_view_of anonymize s u =
     \<lparr>uv_id = u_id u, uv_email = u_email u,
      uv_displayName = (if anonymize \<and> u_lifecycleState u = retired then ''Former member''
                        else u_displayName u),
      uv_lifecycleState = u_lifecycleState u,
      uv_roleIds = map ur_roleId (filter (\<lambda>ur. ur_userId ur = u_id u) (user_roles s)),
      uv_avatarUrl = (case avatar_link (u_id u) s of
                        None \<Rightarrow> None
                      | Some e \<Rightarrow> discordAvatarUrl (Some (ei_externalUserId e)) (ei_externalAvatarHash e))\<rparr>"

definition users_list :: "id \<Rightarrow> bool \<Rightarrow> user_view list svc" where
  "users_list organizationId includeRetired =
     bnd (find_unique_or_throw organizations o_id organizationId) (\<lambda>org.
     gets (\<lambda>s. map (user_view_of (o_settings org ''anonymizeLabel'' = Some (JBool True)) s)
       (filter (\<lambda>u. u_organizationId u = organizationId \<and>
                    activeFilter includeRetired (u_lifecycleState u)) (users s))))"

definition find_member :: "id \<Rightarrow> id \<Rightarrow> state \<Rightarrow> app_user option" where
  "find_member organizationId i s =
     List.find (\<lambda>u. u_id u = i \<and> u_organizationId u = organizationId) (users s)"

definition loadUser :: "id \<Rightarrow> id \<Rightarrow> app_user svc" where
  "loadUser organizationId i =
     bnd (gets (find_member organizationId i)) (\<lambda>found. need found (NotFoundError ''USER_NOT_FOUND''))"

section \<open>Changing members\<close>

definition users_edit :: "id \<Rightarrow> id \<Rightarrow> id \<Rightarrow> string \<Rightarrow> (id \<times> string) svc" where
  "users_edit organizationId i actorUserId displayName =
     bnd (loadUser organizationId i) (\<lambda>user.
     bnd (update_row users users_update u_id (u_id user)
            (\<lambda>u. u\<lparr>u_displayName := displayName, u_version := u_version u + 1\<rparr>)) (\<lambda>updated.
     bnd (logActivity organizationId (Some actorUserId) ''user'' (u_id user) ''user.updated''
            [(''userId'', PId (u_id user))]) (\<lambda>_.
     ret (u_id updated, u_displayName updated))))"

text \<open>The transaction body every lifecycle change has: the write, further writes, the activity,
  the new config version.\<close>

definition write_user ::
  "id \<Rightarrow> id \<Rightarrow> id \<Rightarrow> string \<Rightarrow> (app_user \<Rightarrow> app_user) \<Rightarrow> unit svc \<Rightarrow> unit svc" where
  "write_user organizationId userId actorUserId verb f also_write =
     bnd (update_row users users_update u_id userId f) (\<lambda>_.
     bnd also_write (\<lambda>_.
     bnd (logActivity organizationId (Some actorUserId) ''user'' userId verb
            [(''userId'', PId userId)]) (\<lambda>_.
     bumpConfigVersion organizationId)))"

definition users_deactivate :: "id \<Rightarrow> id \<Rightarrow> id \<Rightarrow> unit svc" where
  "users_deactivate organizationId i actorUserId =
     bnd (loadUser organizationId i) (\<lambda>user.
     if u_lifecycleState user = deactivated then ret ()
     else
       bnd now (\<lambda>t.
       withAdminFloor organizationId actorUserId ''user'' (u_id user) ''user.deactivate''
         (write_user organizationId (u_id user) actorUserId ''user.deactivated''
            (\<lambda>u. u\<lparr>u_lifecycleState := deactivated, u_deactivatedAt := Some t,
                    u_version := u_version u + 1\<rparr>) (ret ()))))"

definition users_reactivate :: "id \<Rightarrow> id \<Rightarrow> id \<Rightarrow> unit svc" where
  "users_reactivate organizationId i actorUserId =
     bnd (loadUser organizationId i) (\<lambda>user.
     if u_lifecycleState user = active then ret ()
     else
       transaction (write_user organizationId (u_id user) actorUserId ''user.reactivated''
         (\<lambda>u. u\<lparr>u_lifecycleState := active, u_deactivatedAt := None,
                 u_version := u_version u + 1\<rparr>) (ret ())))"

definition revoke_sessions :: "id \<Rightarrow> time \<Rightarrow> unit svc" where
  "revoke_sessions userId t =
     update_many sessions_update (\<lambda>e. se_userId e = userId \<and> se_revokedAt e = None)
       (\<lambda>e. e\<lparr>se_revokedAt := Some t\<rparr>)"

definition users_retire :: "id \<Rightarrow> id \<Rightarrow> id \<Rightarrow> unit svc" where
  "users_retire organizationId i actorUserId =
     bnd (loadUser organizationId i) (\<lambda>user.
     bnd (check (u_lifecycleState user \<noteq> retired) (ConflictError ''ALREADY_RETIRED'')) (\<lambda>_.
     bnd now (\<lambda>t.
     withAdminFloor organizationId actorUserId ''user'' (u_id user) ''user.retire''
       (write_user organizationId (u_id user) actorUserId ''user.retired''
          (\<lambda>u. u\<lparr>u_lifecycleState := retired, u_retiredAt := Some t,
                  u_version := u_version u + 1\<rparr>)
          (revoke_sessions (u_id user) t)))))"

definition users_revive :: "id \<Rightarrow> id \<Rightarrow> id \<Rightarrow> unit svc" where
  "users_revive organizationId i actorUserId =
     bnd (loadUser organizationId i) (\<lambda>user.
     bnd (windowMs organizationId) (\<lambda>graceMs.
     bnd now (\<lambda>t.
     bnd (check (isRevivable (u_lifecycleState user) (u_retiredAt user) graceMs t)
            (ConflictError ''NOT_REVIVABLE'')) (\<lambda>_.
     transaction (write_user organizationId (u_id user) actorUserId ''user.revived''
       (\<lambda>u. u\<lparr>u_lifecycleState := active, u_retiredAt := None,
               u_version := u_version u + 1\<rparr>) (ret ()))))))"

section \<open>Roles held\<close>

definition reauthorizeRoleScope :: "cedar_engine \<Rightarrow> id \<Rightarrow> string \<Rightarrow> id \<Rightarrow> id \<Rightarrow> unit svc" where
  "reauthorizeRoleScope isAuthorized actorUserId action targetUserId roleId =
     bnd (decide isAuthorized actorUserId action
            (User, Eid targetUserId,
             [(''targetRole'', VEntity (Role, Eid roleId)), (''retired'', VBool False)])) (\<lambda>allowed.
     check allowed (DeniedError ''FORBIDDEN''))"

definition holds_role :: "id \<Rightarrow> id \<Rightarrow> user_role \<Rightarrow> bool" where
  "holds_role userId roleId ur \<longleftrightarrow> ur_userId ur = userId \<and> ur_roleId ur = roleId"

definition member_of_role :: "id \<Rightarrow> id \<Rightarrow> state \<Rightarrow> bool" where
  "member_of_role userId roleId s \<longleftrightarrow> (\<exists>ur \<in> set (user_roles s). holds_role userId roleId ur)"

text \<open>\<open>userRole.create\<close>, with the table's unique key on user and role.\<close>

definition insert_user_role :: "id \<Rightarrow> id \<Rightarrow> source \<Rightarrow> id option \<Rightarrow> id option \<Rightarrow> unit svc" where
  "insert_user_role userId roleId src connectionId grantedBy =
     bnd (gets (member_of_role userId roleId)) (\<lambda>taken.
     bnd (check (\<not> taken) UniqueViolation) (\<lambda>_.
     bnd fresh_id (\<lambda>i.
     create_row user_roles_update
       \<lparr>ur_id = i, ur_userId = userId, ur_roleId = roleId, ur_source = src,
        ur_sourceConnectionId = connectionId, ur_grantedBy = grantedBy\<rparr>)))"

definition delete_user_role :: "id \<Rightarrow> id \<Rightarrow> unit svc" where
  "delete_user_role userId roleId =
     bnd (gets (member_of_role userId roleId)) (\<lambda>found.
     bnd (check found RecordNotFound) (\<lambda>_.
     delete_many user_roles_update (holds_role userId roleId)))"

definition role_in_org :: "id \<Rightarrow> id \<Rightarrow> state \<Rightarrow> bool" where
  "role_in_org organizationId roleId s \<longleftrightarrow>
     (\<exists>r \<in> set (roles s). r_id r = roleId \<and> r_organizationId r = organizationId)"

definition log_membership :: "id \<Rightarrow> id \<Rightarrow> id \<Rightarrow> string \<Rightarrow> id \<Rightarrow> unit svc" where
  "log_membership organizationId actorUserId userId verb roleId =
     bnd (logActivity organizationId (Some actorUserId) ''user'' userId verb
            [(''userId'', PId userId), (''roleId'', PId roleId)]) (\<lambda>_.
     bumpConfigVersion organizationId)"

definition grantRole :: "cedar_engine \<Rightarrow> id \<Rightarrow> id \<Rightarrow> id \<Rightarrow> id \<Rightarrow> unit svc" where
  "grantRole isAuthorized organizationId targetUserId roleId actorUserId =
     bnd (loadUser organizationId targetUserId) (\<lambda>user.
     bnd (gets (role_in_org organizationId roleId)) (\<lambda>known.
     bnd (check known (NotFoundError ''ROLE_NOT_FOUND'')) (\<lambda>_.
     bnd (reauthorizeRoleScope isAuthorized actorUserId ''user:grant_role'' (u_id user) roleId) (\<lambda>_.
     bnd (gets (member_of_role (u_id user) roleId)) (\<lambda>existing.
     if existing then ret ()
     else
       transaction (
         bnd (insert_user_role (u_id user) roleId src_patrice None (Some actorUserId)) (\<lambda>_.
         log_membership organizationId actorUserId (u_id user) ''user_role.granted'' roleId)))))))"

definition revokeRole :: "cedar_engine \<Rightarrow> id \<Rightarrow> id \<Rightarrow> id \<Rightarrow> id \<Rightarrow> unit svc" where
  "revokeRole isAuthorized organizationId targetUserId roleId actorUserId =
     bnd (loadUser organizationId targetUserId) (\<lambda>user.
     bnd (reauthorizeRoleScope isAuthorized actorUserId ''user:revoke_role'' (u_id user) roleId) (\<lambda>_.
     bnd (gets (member_of_role (u_id user) roleId)) (\<lambda>existing.
     bnd (check existing (ConflictError ''NOT_A_MEMBER'')) (\<lambda>_.
     withAdminFloor organizationId actorUserId ''user'' (u_id user) ''user.revoke_role''
       (bnd (delete_user_role (u_id user) roleId) (\<lambda>_.
        log_membership organizationId actorUserId (u_id user) ''user_role.revoked'' roleId))))))"

section \<open>The governance contract\<close>

lemma keeps_loadUser [keeps_intros]: "keeps P (loadUser org i)"
  unfolding loadUser_def by (intro keeps_intros)

lemma safe_loadUser [safe_intros]: "policy_safe (loadUser org i)"
  unfolding loadUser_def by (intro safe_intros)

lemma keeps_member_writes:
  assumes "\<And>s. P s \<Longrightarrow> P (s\<lparr>next_id := Suc (next_id s)\<rparr>)" and "\<And>s f. P s \<Longrightarrow> P (user_roles_update f s)"
  shows "keeps P (insert_user_role u r src c g)" "keeps P (delete_user_role u r)"
  unfolding insert_user_role_def delete_user_role_def
  by (intro keeps_intros keeps_fresh_id keeps_create_row keeps_delete_many assms; assumption)+

lemma keeps_versioned_members [keeps_intros]:
  "keeps (versioned n) (insert_user_role u r src c g)" "keeps (versioned n) (delete_user_role u r)"
  "keeps (versioned n) (revoke_sessions u t)" "keeps (versioned n) (update_row users users_update u_id k f)"
  by (auto simp: revoke_sessions_def versioned_inv.fresh
      intro!: keeps_member_writes keeps_update_many keeps_update_row)

lemma bumped_write_user:
  assumes "\<And>n. keeps (versioned n) m"
  shows "bumped (write_user org i u v f m)" and "keeps (versioned n) (write_user org i u v f m)"
  unfolding write_user_def
  by (rule bumped_later bumped_bump keeps_intros versioned_inv.keeps_logActivity assms)+

lemma bumped_membership:
  assumes "\<And>n. keeps (versioned n) m"
  shows "bumped (bnd m (\<lambda>_. log_membership org u i v r))"
    and "keeps (versioned n) (bnd m (\<lambda>_. log_membership org u i v r))"
  unfolding log_membership_def
  by (rule bumped_later bumped_bump keeps_intros versioned_inv.keeps_logActivity assms)+

lemma keeps_governed_write_user:
  assumes "\<And>u. u_id (f u) = u_id u"
    and "\<And>u. u_lifecycleState u = active \<Longrightarrow> u_lifecycleState (f u) = active"
  shows "keeps governed (write_user org i u v f (ret ()))"
  unfolding write_user_def
  by (intro keeps_intros governed_inv.keeps_logActivity keeps_update_row governed_users_upd assms)

lemma keeps_governed_insert [keeps_intros]: "keeps governed (insert_user_role u r src c g)"
  unfolding insert_user_role_def
  by (intro keeps_intros governed_inv.keeps_fresh keeps_create_row governed_add)

lemma keeps_reauthorize [keeps_intros]:
  "(\<And>s c. P s \<Longrightarrow> P (policy_cache_update c s)) \<Longrightarrow> keeps P (reauthorizeRoleScope eng u a k r)"
  unfolding reauthorizeRoleScope_def by (intro keeps_intros)

lemma safe_reauthorize [safe_intros]: "policy_safe (reauthorizeRoleScope eng u a k r)"
  unfolding reauthorizeRoleScope_def by (intro safe_intros)

lemma safe_edit_user: "policy_safe (update_row users users_update u_id k f)"
  by (rule safe_frame) (simp add: op_simps split: option.split)

interpretation user_edit: governed_op "\<lambda>(org, i, u, n). users_edit org i u n"
  by unfold_locales
     (auto simp: users_edit_def intro!: keeps_intros safe_intros safe_edit_user
       governed_inv.keeps_logActivity keeps_update_row governed_users_upd)

interpretation user_deactivate: governed_op "\<lambda>(org, i, u). users_deactivate org i u"
  by unfold_locales
     (auto simp: users_deactivate_def intro!: keeps_intros safe_intros safe_floor bumped_write_user)

interpretation user_reactivate: governed_op "\<lambda>(org, i, u). users_reactivate org i u"
  by unfold_locales
     (auto simp: users_reactivate_def governed_inv.free_of_cache
       intro!: keeps_intros safe_intros safe_transaction bumped_write_user keeps_governed_write_user)

interpretation user_retire: governed_op "\<lambda>(org, i, u). users_retire org i u"
  by unfold_locales
     (auto simp: users_retire_def intro!: keeps_intros safe_intros safe_floor bumped_write_user)

interpretation user_revive: governed_op "\<lambda>(org, i, u). users_revive org i u"
  by unfold_locales
     (auto simp: users_revive_def governed_inv.free_of_cache
       intro!: keeps_intros safe_intros safe_transaction bumped_write_user keeps_governed_write_user)

interpretation role_grant: governed_op "\<lambda>(e, org, i, r, u). grantRole e org i r u"
proof unfold_locales
  fix a :: "cedar_engine \<times> id \<times> id \<times> id \<times> id"
  obtain e org i r u where a: "a = (e, org, i, r, u)" by (cases a)
  show "keeps governed ((\<lambda>(e, org, i, r, u). grantRole e org i r u) a)"
    unfolding a prod.case grantRole_def log_membership_def
    by (intro keeps_intros governed_inv.free_of_cache governed_inv.keeps_logActivity governed_inv.policy_free)
  show "policy_safe ((\<lambda>(e, org, i, r, u). grantRole e org i r u) a)"
    unfolding a prod.case grantRole_def
    by (intro safe_intros safe_transaction bumped_membership keeps_intros)
qed

interpretation role_revoke: governed_op "\<lambda>(e, org, i, r, u). revokeRole e org i r u"
proof unfold_locales
  fix a :: "cedar_engine \<times> id \<times> id \<times> id \<times> id"
  obtain e org i r u where a: "a = (e, org, i, r, u)" by (cases a)
  show "keeps governed ((\<lambda>(e, org, i, r, u). revokeRole e org i r u) a)"
    unfolding a prod.case revokeRole_def by (intro keeps_intros governed_inv.policy_free)
  show "policy_safe ((\<lambda>(e, org, i, r, u). revokeRole e org i r u) a)"
    unfolding a prod.case revokeRole_def
    by (intro safe_intros safe_floor bumped_membership keeps_intros)
qed

section \<open>Runs of a lifecycle write\<close>

text \<open>The administrators a write to one member leaves.\<close>

lemma admins_after_write:
  assumes "k \<in> set (effectiveAdminIds org t)"
    and "users t = upd_where (\<lambda>q. u_id q = i) f (users s)" and "\<And>u. u_lifecycleState (f u) \<noteq> active"
    and "\<And>u. u_id (f u) = u_id u" and "\<And>u. u_organizationId (f u) = u_organizationId u"
    and "user_roles t = user_roles s" "roles t = roles s" "grants t = grants s"
  shows "k \<in> set (effectiveAdminIds org s)" and "k \<noteq> i"
proof -
  have g: "governs t k = governs s k"
    using assms(6-8) by (simp add: governs_def governing_role_def)
  obtain u where u: "u \<in> set (users t)" "u_id u = k" "u_organizationId u = org"
      "u_lifecycleState u = active" "governs t k"
    using assms(1) unfolding admin_ids_iff by blast
  then obtain q where q: "q \<in> set (users s)" "u = (if u_id q = i then f q else q)"
    using assms(2) by (auto simp: in_upd_where)
  then have "u_id q \<noteq> i" using u(4) assms(3) [of q] by auto
  then have "u = q" using q(2) by simp
  then show "k \<in> set (effectiveAdminIds org s)" "k \<noteq> i"
    using u q(1) g \<open>u_id q \<noteq> i\<close> unfolding admin_ids_iff by auto
qed

lemma find_memberD:
  "find_member org i s = Some u \<Longrightarrow> u_id u = i \<and> u_organizationId u = org \<and> u \<in> set (users s)"
  unfolding find_member_def by (auto simp: find_Some_iff)

lemma find_member_lookup:
  "distinct (map u_id (users s)) \<Longrightarrow> find_member org i s = Some u \<Longrightarrow> lookup u_id i (users s) = Some u"
  using find_memberD [of org i s u] lookup_distinct [of u_id "users s" u] by auto

lemma find_member_written:
  assumes "\<And>u. u_id (f u) = u_id u" and "\<And>u. u_organizationId (f u) = u_organizationId u"
    and "users t = upd_where (\<lambda>q. u_id q = i) f (users s)"
  shows "find_member org j t = (if j = i then map_option f (find_member org j s) else find_member org j s)"
proof -
  have "List.find (\<lambda>u. u_id u = j \<and> u_organizationId u = org) (upd_where (\<lambda>q. u_id q = i) f us) =
      (if j = i then map_option f (List.find (\<lambda>u. u_id u = j \<and> u_organizationId u = org) us)
       else List.find (\<lambda>u. u_id u = j \<and> u_organizationId u = org) us)" for us
    using assms(1,2) by (induction us) auto
  then show ?thesis by (simp add: find_member_def assms(3))
qed

text \<open>The state a lifecycle write of a member leaves.\<close>

definition user_written ::
  "id \<Rightarrow> id \<Rightarrow> id \<Rightarrow> string \<Rightarrow> (app_user \<Rightarrow> app_user) \<Rightarrow> (state \<Rightarrow> state) \<Rightarrow> state \<Rightarrow> state" where
  "user_written org i a verb f h s =
     policy_cache_update (\<lambda>_. None) (organizations_update
       (upd_where (\<lambda>q. o_id q = org) (\<lambda>r. r\<lparr>o_configVersion := o_configVersion r + 1\<rparr>))
       (logged org (Some a) ''user'' i verb [(''userId'', PId i)]
         (h (users_update (upd_where (\<lambda>q. u_id q = i) f) s))))"

lemma write_user_run:
  assumes "lookup u_id i (users s) = Some u" and "\<And>t. m t = (Inr (), h t)"
    and "\<And>t. organizations (h t) = organizations t" and "lookup o_id org (organizations s) = Some row"
    and "\<And>x. payload_ok verb [(''userId'', PId x)]"
  shows "write_user org i a verb f m s = (Inr (), user_written org i a verb f h s)"
  using assms by (simp add: write_user_def op_simps user_written_def bnd_Inr)

lemma user_written_frame [simp]:
  assumes "\<And>t. users (h t) = users t" "\<And>t. user_roles (h t) = user_roles t" "\<And>t. roles (h t) = roles t"
    "\<And>t. grants (h t) = grants t" "\<And>t. clock (h t) = clock t"
  shows "users (user_written org i a verb f h s) = upd_where (\<lambda>q. u_id q = i) f (users s)"
    "user_roles (user_written org i a verb f h s) = user_roles s"
    "roles (user_written org i a verb f h s) = roles s"
    "grants (user_written org i a verb f h s) = grants s"
    "clock (user_written org i a verb f h s) = clock s"
    "policy_cache (user_written org i a verb f h s) = None"
  using assms by (simp_all add: user_written_def)

lemma users_deactivate_run:
  fixes a :: id
  assumes "find_member org i s = Some u" and "u_lifecycleState u \<noteq> deactivated"
    and "distinct (map u_id (users s))" and "lookup o_id org (organizations s) = Some row"
  defines "t \<equiv> user_written org i a ''user.deactivated''
      (\<lambda>u. u\<lparr>u_lifecycleState := deactivated, u_deactivatedAt := Some (clock s),
              u_version := u_version u + 1\<rparr>) id s"
  shows "effectiveAdminCount org t \<noteq> 0 \<Longrightarrow> users_deactivate org i a s = (Inr (), t)"
    and "effectiveAdminCount org t = 0 \<Longrightarrow> users_deactivate org i a s =
      (Inl (ConflictError ''LAST_ADMIN''),
       logged org (Some a) ''user'' i ''last_admin_refused''
         [(''path'', PStr ''user.deactivate''), (''subjectId'', PId i)] (s\<lparr>policy_cache := None\<rparr>))"
proof -
  have i: "u_id u = i" using find_memberD [OF assms(1)] by simp
  let ?m = "write_user org i a ''user.deactivated''
      (\<lambda>u. u\<lparr>u_lifecycleState := deactivated, u_deactivatedAt := Some (clock s),
              u_version := u_version u + 1\<rparr>) (ret ())"
  have run: "?m s = (Inr (), t)"
    unfolding t_def
    by (rule write_user_run [OF find_member_lookup [OF assms(3,1)]])
       (use assms(4) in \<open>simp_all add: op_simps\<close>)
  have pc: "policy_cache t = None" by (simp add: t_def user_written_def)
  show "effectiveAdminCount org t \<noteq> 0 \<Longrightarrow> users_deactivate org i a s = (Inr (), t)"
    using withAdminFloor_ok [of ?m s "()" t, OF run] assms(1,2) i
    by (simp add: users_deactivate_def loadUser_def op_simps)
  show "effectiveAdminCount org t = 0 \<Longrightarrow> users_deactivate org i a s =
      (Inl (ConflictError ''LAST_ADMIN''),
       logged org (Some a) ''user'' i ''last_admin_refused''
         [(''path'', PStr ''user.deactivate''), (''subjectId'', PId i)] (s\<lparr>policy_cache := None\<rparr>))"
    using withAdminFloor_refused [of ?m s "()" t, OF run] assms(1,2) i pc
    by (simp add: users_deactivate_def loadUser_def op_simps)
qed

definition sessions_ended :: "id \<Rightarrow> time \<Rightarrow> state \<Rightarrow> state" where
  "sessions_ended i t =
     sessions_update (upd_where (\<lambda>e. se_userId e = i \<and> se_revokedAt e = None)
       (\<lambda>e. e\<lparr>se_revokedAt := Some t\<rparr>))"

lemma sessions_ended_frame [simp]:
  "users (sessions_ended i t s) = users s" "user_roles (sessions_ended i t s) = user_roles s"
  "roles (sessions_ended i t s) = roles s" "grants (sessions_ended i t s) = grants s"
  "clock (sessions_ended i t s) = clock s" "organizations (sessions_ended i t s) = organizations s"
  by (simp_all add: sessions_ended_def)

lemma users_retire_run:
  fixes a :: id
  assumes "find_member org i s = Some u" and "u_lifecycleState u \<noteq> retired"
    and "distinct (map u_id (users s))" and "lookup o_id org (organizations s) = Some row"
  defines "t \<equiv> user_written org i a ''user.retired''
      (\<lambda>u. u\<lparr>u_lifecycleState := retired, u_retiredAt := Some (clock s),
              u_version := u_version u + 1\<rparr>) (sessions_ended i (clock s)) s"
  shows "effectiveAdminCount org t \<noteq> 0 \<Longrightarrow> users_retire org i a s = (Inr (), t)"
    and "effectiveAdminCount org t = 0 \<Longrightarrow> users_retire org i a s =
      (Inl (ConflictError ''LAST_ADMIN''),
       logged org (Some a) ''user'' i ''last_admin_refused''
         [(''path'', PStr ''user.retire''), (''subjectId'', PId i)] (s\<lparr>policy_cache := None\<rparr>))"
proof -
  have i: "u_id u = i" using find_memberD [OF assms(1)] by simp
  let ?m = "write_user org i a ''user.retired''
      (\<lambda>u. u\<lparr>u_lifecycleState := retired, u_retiredAt := Some (clock s),
              u_version := u_version u + 1\<rparr>) (revoke_sessions i (clock s))"
  have run: "?m s = (Inr (), t)"
    unfolding t_def
    by (rule write_user_run [OF find_member_lookup [OF assms(3,1)]])
       (use assms(4) in \<open>simp_all add: op_simps revoke_sessions_def sessions_ended_def\<close>)
  have pc: "policy_cache t = None" by (simp add: t_def user_written_def)
  show "effectiveAdminCount org t \<noteq> 0 \<Longrightarrow> users_retire org i a s = (Inr (), t)"
    using withAdminFloor_ok [of ?m s "()" t, OF run] assms(1,2) i
    by (simp add: users_retire_def loadUser_def op_simps)
  show "effectiveAdminCount org t = 0 \<Longrightarrow> users_retire org i a s =
      (Inl (ConflictError ''LAST_ADMIN''),
       logged org (Some a) ''user'' i ''last_admin_refused''
         [(''path'', PStr ''user.retire''), (''subjectId'', PId i)] (s\<lparr>policy_cache := None\<rparr>))"
    using withAdminFloor_refused [of ?m s "()" t, OF run] assms(1,2) i pc
    by (simp add: users_retire_def loadUser_def op_simps)
qed

end
