(* ===== verification/Org_Config.thy ===== *)
theory Org_Config
  imports Admin_Floor
begin

text \<open>
  \<open>users/config.service.ts\<close> and its schema in \<open>users/users.dto.ts\<close>: the organization's settings.
  What is stored holds the secret of the sign-in application as an encrypted handle (the cipher
  is an argument); what is returned only says whether there is one. A change always raises the
  config version, because a setting can change the projected policies.
\<close>

section \<open>Settings\<close>

type_synonym settings = "string \<rightharpoonup> json"

definition SETTINGS_DEFAULTS :: settings where
  "SETTINGS_DEFAULTS =
     [''requireVerifiedEmailToLogIn'' \<mapsto> JBool False, ''selfReviewAllowed'' \<mapsto> JBool False,
      ''anonymizeLabel'' \<mapsto> JBool False, ''sessionAbsoluteDays'' \<mapsto> JNum (Fin 30),
      ''sessionIdleDays'' \<mapsto> JNum (Fin 7), ''gracePeriodHours'' \<mapsto> JNum (Fin 24),
      ''requireDiscordLink'' \<mapsto> JBool False]"

fun json_truthy :: "json \<Rightarrow> bool" where
  "json_truthy JNull = False"
| "json_truthy (JBool b) = b"
| "json_truthy (JNum x) = (x \<noteq> Fin 0 \<and> x \<noteq> NaN)"
| "json_truthy (JStr t) = (t \<noteq> [])"
| "json_truthy (JArr xs) = True"

record org_settings =
  os_requireVerifiedEmailToLogIn :: "json option"
  os_selfReviewAllowed :: "json option"
  os_anonymizeLabel :: "json option"
  os_sessionAbsoluteDays :: "json option"
  os_sessionIdleDays :: "json option"
  os_gracePeriodHours :: "json option"
  os_requireDiscordLink :: "json option"
  os_discordClientId :: json
  os_discordOAuthConfigured :: bool

definition getRaw :: "id \<Rightarrow> settings svc" where
  "getRaw organizationId =
     bnd (find_unique_or_throw organizations o_id organizationId) (\<lambda>org.
     ret (SETTINGS_DEFAULTS ++ o_settings org))"

definition redacted :: "settings \<Rightarrow> org_settings" where
  "redacted r =
     \<lparr>os_requireVerifiedEmailToLogIn = r ''requireVerifiedEmailToLogIn'',
      os_selfReviewAllowed = r ''selfReviewAllowed'',
      os_anonymizeLabel = r ''anonymizeLabel'',
      os_sessionAbsoluteDays = r ''sessionAbsoluteDays'',
      os_sessionIdleDays = r ''sessionIdleDays'',
      os_gracePeriodHours = r ''gracePeriodHours'',
      os_requireDiscordLink = r ''requireDiscordLink'',
      os_discordClientId = (case r ''discordClientId'' of None \<Rightarrow> JNull | Some v \<Rightarrow> v),
      os_discordOAuthConfigured =
        (case r ''discordClientSecret'' of None \<Rightarrow> False | Some v \<Rightarrow> json_truthy v)\<rparr>"

definition config_get :: "id \<Rightarrow> org_settings svc" where
  "config_get organizationId = bnd (getRaw organizationId) (\<lambda>r. ret (redacted r))"

section \<open>The patch\<close>

text \<open>\<open>updateConfigSchema\<close>: every key optional, none other allowed.\<close>

type_synonym config_patch = "(string \<times> json) list"

fun json_bool :: "json \<Rightarrow> bool" where
  "json_bool (JBool b) = True"
| "json_bool _ = False"

fun json_int_in :: "int \<Rightarrow> int \<Rightarrow> json \<Rightarrow> bool" where
  "json_int_in l u (JNum (Fin r)) = (of_int \<lfloor>r\<rfloor> = r \<and> l \<le> \<lfloor>r\<rfloor> \<and> \<lfloor>r\<rfloor> \<le> u)"
| "json_int_in l u _ = False"

fun json_str_max :: "nat \<Rightarrow> json \<Rightarrow> bool" where
  "json_str_max n (JStr t) = (length t \<le> n)"
| "json_str_max n _ = False"

definition updateConfigSchema :: "(string \<times> (json \<Rightarrow> bool)) list" where
  "updateConfigSchema =
     [(''requireVerifiedEmailToLogIn'', json_bool), (''selfReviewAllowed'', json_bool),
      (''anonymizeLabel'', json_bool), (''sessionAbsoluteDays'', json_int_in 1 3650),
      (''sessionIdleDays'', json_int_in 1 3650), (''gracePeriodHours'', json_int_in 0 8760),
      (''requireDiscordLink'', json_bool), (''discordClientId'', json_str_max 64),
      (''discordClientSecret'', json_str_max 256)]"

definition config_patch_ok :: "config_patch \<Rightarrow> bool" where
  "config_patch_ok dto \<longleftrightarrow>
     distinct (map fst dto) \<and>
     (\<forall>(k, v) \<in> set dto. case map_of updateConfigSchema k of None \<Rightarrow> False | Some ok \<Rightarrow> ok v)"

type_synonym secret_cipher = "string \<Rightarrow> string"

definition next_settings :: "secret_cipher \<Rightarrow> settings \<Rightarrow> config_patch \<Rightarrow> settings" where
  "next_settings encryptOAuthSecret current dto =
     (let rest = filter (\<lambda>(k, _). k \<noteq> ''discordClientSecret'') dto;
          spread = current ++ map_of rest
      in case map_of dto ''discordClientSecret'' of
           Some (JStr secret) \<Rightarrow>
             (if secret = [] then spread(''discordClientSecret'' := None)
              else spread(''discordClientSecret'' \<mapsto> JStr (encryptOAuthSecret secret)))
         | _ \<Rightarrow> spread)"

definition config_update :: "secret_cipher \<Rightarrow> id \<Rightarrow> id \<Rightarrow> config_patch \<Rightarrow> org_settings svc" where
  "config_update encryptOAuthSecret organizationId actorUserId dto =
     bnd (getRaw organizationId) (\<lambda>current.
     bnd (transaction (
       bnd (update_row organizations organizations_update o_id organizationId
              (\<lambda>org. org\<lparr>o_settings := next_settings encryptOAuthSecret current dto\<rparr>)) (\<lambda>_.
       bnd (logActivity organizationId (Some actorUserId) ''organization'' organizationId
              ''config.updated'' [(''changedKeys'', PStrs (map fst dto))]) (\<lambda>_.
       bumpConfigVersion organizationId)))) (\<lambda>_.
     config_get organizationId))"

section \<open>What a change does\<close>

lemma next_settings_other:
  "k \<noteq> ''discordClientSecret'' \<Longrightarrow>
   next_settings enc cur dto k = (case map_of dto k of None \<Rightarrow> cur k | Some v \<Rightarrow> Some v)"
proof -
  assume k: "k \<noteq> ''discordClientSecret''"
  have "map_of (filter (\<lambda>(k, _). k \<noteq> ''discordClientSecret'') dto) k = map_of dto k"
    using k by (induction dto) auto
  then show ?thesis
    using k by (auto simp: next_settings_def Let_def map_add_def split: option.split json.split)
qed

lemma next_settings_secret:
  "next_settings enc cur dto ''discordClientSecret'' =
     (case map_of dto ''discordClientSecret'' of
        Some (JStr t) \<Rightarrow> (if t = [] then None else Some (JStr (enc t)))
      | _ \<Rightarrow> cur ''discordClientSecret'')"
proof -
  have "map_of (filter (\<lambda>(k, _). k \<noteq> ''discordClientSecret'') dto) ''discordClientSecret'' = None"
    by (induction dto) auto
  then show ?thesis
    by (simp add: next_settings_def Let_def map_add_def split: option.split json.split)
qed

lemma config_get_run [op_simps]:
  "config_get k s = (case lookup o_id k (organizations s) of
     None \<Rightarrow> (Inl RecordNotFound, s)
   | Some org \<Rightarrow> (Inr (redacted (SETTINGS_DEFAULTS ++ o_settings org)), s))"
  by (simp add: config_get_def getRaw_def op_simps split: option.split)

text \<open>One run, start to end.\<close>

definition configured :: "secret_cipher \<Rightarrow> id \<Rightarrow> id \<Rightarrow> config_patch \<Rightarrow> settings \<Rightarrow> state \<Rightarrow> state" where
  "configured enc k u dto cur s =
     policy_cache_update (\<lambda>_. None) (organizations_update
       (upd_where (\<lambda>q. o_id q = k) (\<lambda>r. r\<lparr>o_configVersion := o_configVersion r + 1\<rparr>))
       (logged k (Some u) ''organization'' k ''config.updated'' [(''changedKeys'', PStrs (map fst dto))]
         (organizations_update (upd_where (\<lambda>q. o_id q = k)
           (\<lambda>org. org\<lparr>o_settings := next_settings enc cur dto\<rparr>)) s)))"

lemma defaults_absorb:
  "SETTINGS_DEFAULTS ++ next_settings enc (SETTINGS_DEFAULTS ++ m) dto = next_settings enc (SETTINGS_DEFAULTS ++ m) dto"
proof
  fix k
  have no: "SETTINGS_DEFAULTS ''discordClientSecret'' = None" by (simp add: SETTINGS_DEFAULTS_def)
  show "(SETTINGS_DEFAULTS ++ next_settings enc (SETTINGS_DEFAULTS ++ m) dto) k =
      next_settings enc (SETTINGS_DEFAULTS ++ m) dto k"
  proof (cases "k = ''discordClientSecret''")
    case True
    then show ?thesis by (simp add: map_add_def no split: option.split)
  next
    case False
    then show ?thesis
      by (simp add: map_add_def next_settings_other split: option.split)
  qed
qed

lemma config_update_run:
  assumes "lookup o_id k (organizations s) = Some org"
  shows "config_update enc k u dto s =
    (Inr (redacted (next_settings enc (SETTINGS_DEFAULTS ++ o_settings org) dto)),
     configured enc k u dto (SETTINGS_DEFAULTS ++ o_settings org) s)"
  using assms
  by (simp add: config_update_def getRaw_def op_simps configured_def lookup_upd_same defaults_absorb)

section \<open>The governance contract\<close>

lemma keeps_config_get [keeps_intros]: "keeps P (config_get k)"
  unfolding config_get_def getRaw_def by (intro keeps_intros)

lemma keeps_versioned_settings [keeps_intros]:
  "keeps (versioned n) (update_row organizations organizations_update o_id k (\<lambda>org. org\<lparr>o_settings := m\<rparr>))"
proof (rule keeps_update_row)
  fix s :: state
  assume "versioned n s"
  then obtain org where "organizations s = [org]" "n \<le> o_configVersion org"
    by (auto simp: versioned_def single_org_def version_of_def length_Suc_conv)
  then show "versioned n (organizations_update (upd_where (\<lambda>q. o_id q = k)
      (\<lambda>org. org\<lparr>o_settings := m\<rparr>)) s)"
    by (simp add: versioned_def single_org_def version_of_def)
qed

interpretation config_change: governed_op "\<lambda>(e, org, u, dto). config_update e org u dto"
proof unfold_locales
  fix a :: "secret_cipher \<times> id \<times> id \<times> config_patch"
  obtain e org u dto where a: "a = (e, org, u, dto)" by (cases a)
  show "keeps governed ((\<lambda>(e, org, u, dto). config_update e org u dto) a)"
    unfolding a prod.case config_update_def getRaw_def
    by (intro keeps_intros governed_inv.free_of_cache governed_inv.keeps_logActivity keeps_update_row) simp
  show "policy_safe ((\<lambda>(e, org, u, dto). config_update e org u dto) a)"
    unfolding a prod.case config_update_def getRaw_def config_get_def find_unique_or_throw_def
    by (intro safe_intros safe_transaction
         | rule bumped_later bumped_bump keeps_intros versioned_inv.keeps_logActivity)+
qed

end
