(* ===== verification/Admin_Calls.thy ===== *)
theory Admin_Calls
  imports Org_Units Users Org_Config Grants
begin

text \<open>
  The administration of an organization as one stream of calls: roles, grants, divisions, teams,
  members and settings, with the services' collaborators (the access engine, the engine's schema
  check, the cipher) as arguments. The contracts of the single operations, proved where they are
  defined, give here what holds after any sequence of them.
\<close>

datatype admin_call =
  Create_Role id id string | Edit_Role id id string | Retire_Role id id | Revive_Role id id
| Create_Grant id id id id grant_fields | Edit_Grant id id grant_patch
| Retire_Grant id id | Revive_Grant id id
| Create_Division id id string division_input | Edit_Division id id division_input
| Retire_Division id id | Revive_Division id id
| Create_Team id id string "bool option" | Edit_Team id id "string option" "bool option"
| Retire_Team id id | Revive_Team id id
| Edit_User id id id string | Deactivate_User id id id | Reactivate_User id id id
| Retire_User id id id | Revive_User id id id
| Grant_Role id id id id | Revoke_Role id id id id
| Update_Config id id config_patch

fun serve_admin ::
  "cedar_engine \<Rightarrow> cedar_validator \<Rightarrow> secret_cipher \<Rightarrow> admin_call \<Rightarrow> state \<Rightarrow> state" where
  "serve_admin e v c (Create_Role org u n) s = snd (roles_create org u n s)"
| "serve_admin e v c (Edit_Role i u n) s = snd (roles_edit i u n s)"
| "serve_admin e v c (Retire_Role i u) s = snd (roles_retire i u s)"
| "serve_admin e v c (Revive_Role i u) s = snd (roles_revive i u s)"
| "serve_admin e v c (Create_Grant i org u r x) s = snd (grants_create v i org u r x s)"
| "serve_admin e v c (Edit_Grant i u d) s = snd (grants_edit v i u d s)"
| "serve_admin e v c (Retire_Grant i u) s = snd (grants_retire i u s)"
| "serve_admin e v c (Revive_Grant i u) s = snd (grants_revive i u s)"
| "serve_admin e v c (Create_Division org u n d) s = snd (divisions_create org u n d s)"
| "serve_admin e v c (Edit_Division i u d) s = snd (divisions_edit i u d s)"
| "serve_admin e v c (Retire_Division i u) s = snd (divisions_retire i u s)"
| "serve_admin e v c (Revive_Division i u) s = snd (divisions_revive i u s)"
| "serve_admin e v c (Create_Team org u n rc) s = snd (teams_create org u n rc s)"
| "serve_admin e v c (Edit_Team i u n rc) s = snd (teams_edit i u n rc s)"
| "serve_admin e v c (Retire_Team i u) s = snd (teams_retire i u s)"
| "serve_admin e v c (Revive_Team i u) s = snd (teams_revive i u s)"
| "serve_admin e v c (Edit_User org i u n) s = snd (users_edit org i u n s)"
| "serve_admin e v c (Deactivate_User org i u) s = snd (users_deactivate org i u s)"
| "serve_admin e v c (Reactivate_User org i u) s = snd (users_reactivate org i u s)"
| "serve_admin e v c (Retire_User org i u) s = snd (users_retire org i u s)"
| "serve_admin e v c (Revive_User org i u) s = snd (users_revive org i u s)"
| "serve_admin e v c (Grant_Role org i r u) s = snd (grantRole e org i r u s)"
| "serve_admin e v c (Revoke_Role org i r u) s = snd (revokeRole e org i r u s)"
| "serve_admin e v c (Update_Config org u d) s = snd (config_update c org u d s)"

definition serve_admins ::
  "cedar_engine \<Rightarrow> cedar_validator \<Rightarrow> secret_cipher \<Rightarrow> admin_call list \<Rightarrow> state \<Rightarrow> state" where
  "serve_admins e v c calls s = fold (serve_admin e v c) calls s"

text \<open>The two calls that take a unit's role away without the admin floor, and those that only
  create or rename and so leave the config version alone.\<close>

fun retires_unit :: "admin_call \<Rightarrow> bool" where
  "retires_unit (Retire_Division i u) = True"
| "retires_unit (Retire_Team i u) = True"
| "retires_unit _ = False"

fun creates_or_renames :: "admin_call \<Rightarrow> bool" where
  "creates_or_renames (Create_Role org u n) = True"
| "creates_or_renames (Edit_Role i u n) = True"
| "creates_or_renames (Create_Division org u n d) = True"
| "creates_or_renames (Edit_Division i u d) = True"
| "creates_or_renames (Create_Team org u n rc) = True"
| "creates_or_renames (Edit_Team i u n rc) = True"
| "creates_or_renames _ = False"

section \<open>An administrator remains\<close>

lemma keeps_governed_role_create: "keeps governed (roles_create org u n)"
  unfolding roles_create_def Let_def
  by (intro keeps_intros governed_inv.keeps_fresh governed_inv.keeps_logActivity)

text \<open>The contracts with their arguments written out.\<close>

lemma floor_admin:
  "keeps governed (roles_create org u n)" "keeps governed (roles_edit i u n)"
  "keeps governed (roles_retire i u)" "keeps governed (roles_revive i u)"
  "keeps governed (grants_create v j org u r x)" "keeps governed (grants_edit v j u d)"
  "keeps governed (grants_retire i u)" "keeps governed (grants_revive i u)"
  "keeps governed (divisions_create org u n di)" "keeps governed (divisions_edit i u di)"
  "keeps governed (divisions_revive i u)" "keeps governed (teams_create org u n rc)"
  "keeps governed (teams_edit i u m rc)" "keeps governed (teams_revive i u)"
  using keeps_governed_role_create [of org u n] role_edit.floor [of "(i, u, n)"]
    role_retire.floor [of "(i, u)"] role_revive.floor [of "(i, u)"]
    grant_create.floor [of "(v, j, org, u, r, x)"] grant_edit.floor [of "(v, j, u, d)"]
    grant_retire.floor [of "(i, u)"] grant_revive.floor [of "(i, u)"]
    division_create.floor [of "(org, u, n, di)"] division_edit.floor [of "(i, u, di)"]
    division_revive.floor [of "(i, u)"] team_create.floor [of "(org, u, n, rc)"]
    team_edit.floor [of "(i, u, m, rc)"] team_revive.floor [of "(i, u)"]
  by simp_all

lemma floor_members:
  "keeps governed (users_edit org i u n)" "keeps governed (users_deactivate org i u)"
  "keeps governed (users_reactivate org i u)" "keeps governed (users_retire org i u)"
  "keeps governed (users_revive org i u)" "keeps governed (grantRole e org i r u)"
  "keeps governed (revokeRole e org i r u)" "keeps governed (config_update c org u p)"
  using user_edit.floor [of "(org, i, u, n)"] user_deactivate.floor [of "(org, i, u)"]
    user_reactivate.floor [of "(org, i, u)"] user_retire.floor [of "(org, i, u)"]
    user_revive.floor [of "(org, i, u)"] role_grant.floor [of "(e, org, i, r, u)"]
    role_revoke.floor [of "(e, org, i, r, u)"] config_change.floor [of "(c, org, u, p)"]
  by simp_all

lemma serve_admin_governed: "governed s \<Longrightarrow> \<not> retires_unit call \<Longrightarrow> governed (serve_admin e v c call s)"
  by (cases call) (simp_all add: keepsD_snd floor_admin floor_members)

lemma serve_admins_governed:
  "governed s \<Longrightarrow> \<forall>call \<in> set calls. \<not> retires_unit call \<Longrightarrow> governed (serve_admins e v c calls s)"
  unfolding serve_admins_def
  by (induction calls arbitrary: s) (simp_all add: serve_admin_governed)

section \<open>Policies and their version\<close>

lemma safe_admin:
  "policy_safe (roles_retire i u)" "policy_safe (roles_revive i u)"
  "policy_safe (grants_create v j org u r x)" "policy_safe (grants_edit v j u d)"
  "policy_safe (grants_retire i u)" "policy_safe (grants_revive i u)"
  "policy_safe (users_edit org i u n)" "policy_safe (users_deactivate org i u)"
  "policy_safe (users_reactivate org i u)" "policy_safe (users_retire org i u)"
  "policy_safe (users_revive org i u)" "policy_safe (grantRole e org i r u)"
  "policy_safe (revokeRole e org i r u)" "policy_safe (config_update c org u p)"
  using role_retire.policies [of "(i, u)"] role_revive.policies [of "(i, u)"]
    grant_create.policies [of "(v, j, org, u, r, x)"] grant_edit.policies [of "(v, j, u, d)"]
    grant_retire.policies [of "(i, u)"] grant_revive.policies [of "(i, u)"]
    user_edit.policies [of "(org, i, u, n)"] user_deactivate.policies [of "(org, i, u)"]
    user_reactivate.policies [of "(org, i, u)"] user_retire.policies [of "(org, i, u)"]
    user_revive.policies [of "(org, i, u)"] role_grant.policies [of "(e, org, i, r, u)"]
    role_revoke.policies [of "(e, org, i, r, u)"] config_change.policies [of "(c, org, u, p)"]
  by simp_all

lemma serve_admin_policies:
  assumes "single_org s" and "\<not> creates_or_renames call"
  shows "single_org (serve_admin e v c call s) \<and> policy_change s (serve_admin e v c call s)"
  using assms by (cases call) (simp_all add: safeD safe_admin safe_unit_moves)

lemma serve_admins_policies:
  "single_org s \<Longrightarrow> \<forall>call \<in> set calls. \<not> creates_or_renames call \<Longrightarrow>
   single_org (serve_admins e v c calls s) \<and> policy_change s (serve_admins e v c calls s)"
  unfolding serve_admins_def
proof (induction calls arbitrary: s)
  case (Cons call calls)
  then have "single_org (serve_admin e v c call s)" "policy_change s (serve_admin e v c call s)"
    using serve_admin_policies by auto
  then show ?case
    using Cons.IH [of "serve_admin e v c call s"] Cons.prems(2)
      policy_change_trans [of s "serve_admin e v c call s"] by simp
qed simp

section \<open>Units and their roles\<close>

text \<open>Operations that write neither units nor roles.\<close>

lemma units_other [simp]:
  "units_ok (users_update f1 s) = units_ok s" "units_ok (user_roles_update f2 s) = units_ok s"
  "units_ok (grants_update f3 s) = units_ok s" "units_ok (sessions_update f4 s) = units_ok s"
  by (simp_all add: units_ok_def)

lemma units_admin_frame:
  "keeps units_ok (grants_create v j org u r x)" "keeps units_ok (grants_edit v j u d)"
  "keeps units_ok (grants_retire i u)" "keeps units_ok (grants_revive i u)"
proof -
  have w: "keeps units_ok (write_grant g u w f)" "keeps units_ok (insert_grant org u r x)" for g w f
    unfolding write_grant_def insert_grant_def log_grant_def Let_def
    by (intro keeps_intros units_inv.keeps_logActivity units_inv.keeps_fresh keeps_update_row
          keeps_create_row; simp)+
  show "keeps units_ok (grants_create v j org u r x)" "keeps units_ok (grants_edit v j u d)"
    "keeps units_ok (grants_retire i u)" "keeps units_ok (grants_revive i u)"
    unfolding grants_create_def grants_edit_def grants_retire_def grants_revive_def Let_def
    by (intro keeps_intros shape_pure units_inv.keeps_withAdminFloor units_inv.free_of_cache w)+
qed

lemma units_user_frame:
  "keeps units_ok (users_edit org i u n)" "keeps units_ok (users_deactivate org i u)"
  "keeps units_ok (users_reactivate org i u)" "keeps units_ok (users_retire org i u)"
  "keeps units_ok (users_revive org i u)"
proof -
  have w: "keeps units_ok (write_user org k u vb f m)" if "keeps units_ok m" for k vb f m
    unfolding write_user_def
    by (intro keeps_intros units_inv.keeps_logActivity keeps_update_row that) simp
  have r: "keeps units_ok (revoke_sessions k t)" for k t
    unfolding revoke_sessions_def by (rule keeps_update_many) simp
  show "keeps units_ok (users_edit org i u n)" "keeps units_ok (users_deactivate org i u)"
    "keeps units_ok (users_reactivate org i u)" "keeps units_ok (users_retire org i u)"
    "keeps units_ok (users_revive org i u)"
    unfolding users_edit_def users_deactivate_def users_reactivate_def users_retire_def users_revive_def
    by (intro keeps_intros units_inv.keeps_logActivity units_inv.keeps_withAdminFloor
          units_inv.free_of_cache keeps_update_row w r; simp)+
qed

lemma units_member_frame:
  "keeps units_ok (grantRole e org i r u)" "keeps units_ok (revokeRole e org i r u)"
  "keeps units_ok (config_update c org u p)"
proof -
  have m: "keeps units_ok (insert_user_role k r x y z)" "keeps units_ok (delete_user_role k r)" for k x y z
    by (intro keeps_member_writes units_inv.fresh; simp)+
  show "keeps units_ok (grantRole e org i r u)" "keeps units_ok (revokeRole e org i r u)"
    unfolding grantRole_def revokeRole_def log_membership_def
    by (intro keeps_intros units_inv.keeps_logActivity units_inv.keeps_withAdminFloor
          units_inv.free_of_cache units_inv.policy_free m; assumption?)+
  show "keeps units_ok (config_update c org u p)"
    unfolding config_update_def getRaw_def
    by (intro keeps_intros units_inv.keeps_logActivity units_inv.free_of_cache keeps_update_row) simp
qed

lemma serve_admin_units: "units_ok s \<Longrightarrow> units_ok (serve_admin e v c call s)"
  by (cases call)
     (simp_all add: keepsD_snd keeps_units_calls units_admin_frame units_user_frame units_member_frame)

lemma serve_admins_units: "units_ok s \<Longrightarrow> units_ok (serve_admins e v c calls s)"
  unfolding serve_admins_def by (induction calls arbitrary: s) (simp_all add: serve_admin_units)

end
