(* ===== verification/Org_Properties.thy ===== *)
theory Org_Properties
  imports Admin_Calls Examples
begin

text \<open>
  What holds of the administration of an organization: that somebody can always administer it and
  where that fails, that no policy changes under an unchanged version, that units and their roles
  stay together, and what retiring a member and changing the settings do.
\<close>

section \<open>Example states\<close>

text \<open>User 10 administers through the inherent role (42) of division 2.\<close>

definition inherent_role :: role where
  "inherent_role = demo_role\<lparr>r_id := 42, r_name := ''Assembly'', r_kind := division_role,
     r_divisionId := Some 2\<rparr>"

definition demo_unit :: state where
  "demo_unit = demo\<lparr>roles := [inherent_role], user_roles := [demo_held\<lparr>ur_roleId := 42\<rparr>],
     grants := [demo_grant\<lparr>g_roleId := 42\<rparr>]\<rparr>"

text \<open>Users 10 and 11 both administer; user 10 has an open session.\<close>

definition demo_session :: session_row where
  "demo_session = \<lparr>se_id = 80, se_userId = 10, se_tokenHash = ''h'', se_authMethod = prov_password,
     se_lastSeenAt = 0, se_absoluteExpiresAt = 5000, se_idleExpiresAt = 5000, se_revokedAt = None\<rparr>"

definition demo_two :: state where
  "demo_two = demo\<lparr>user_roles := [demo_held, demo_held\<lparr>ur_id := 46, ur_userId := 11\<rparr>],
     sessions := [demo_session]\<rparr>"

text \<open>Collaborators for the witnesses: an engine that permits, a schema check that accepts.\<close>

definition permits :: cedar_engine where
  "permits _ _ = Some True"

definition accepts_all :: cedar_validator where
  "accepts_all _ = True"

definition marks :: secret_cipher where
  "marks x = ''enc:'' @ x"

lemmas demo_org_defs = demo_unit_def demo_two_def inherent_role_def demo_session_def demo_defs

lemma demo_admins:
  "effectiveAdminIds 1 demo = [10]" "effectiveAdminIds 1 demo_two = [10, 11]"
  "effectiveAdminIds 1 demo_unit = [10]"
  by code_simp+

lemma demo_governed: "governed demo"
  by (rule admin_count_governed [of 1]) (simp only: effectiveAdminCount_def demo_admins, simp)

lemma demo_units: "units_ok demo_unit"
  by (simp add: units_ok_def paired_def division_tag_def role_tag_def demo_org_defs)

section \<open>Administrators\<close>

text \<open>C21: Whatever roles, grants, members and settings are created, changed, retired or revived, as
  long as no division or team is retired: if somebody could administer the organization before,
  somebody still can.\<close>

theorem admin_remains:
  assumes "governed s" and "\<forall>call \<in> set calls. \<not> retires_unit call"
  shows "governed (serve_admins e v c calls s)"
  using assms by (rule serve_admins_governed)

theorem admin_remains_witness:
  "governed (serve_admins permits accepts_all marks [Retire_Role 40 10, Deactivate_User 1 10 10, Retire_Grant 50 10] demo)"
  using admin_remains [OF demo_governed] by simp



text \<open>Retiring a division is not under the admin floor: when only its inherent role carries the
  governance grants, retiring it succeeds and leaves the organization without an administrator.\<close>

lemma unit_retire_unguarded:
  assumes "units_ok s" and "lookup d_id i (divisions s) = Some d" and "division_role_of i s = Some r"
    and "d_lifecycleState d = active" and "lookup o_id (d_organizationId d) (organizations s) = Some row"
    and "\<And>q. q \<in> set (roles s) \<Longrightarrow> governing_role s q \<Longrightarrow> q = r"
  shows "\<exists>view t. divisions_retire i u s = (Inr view, t) \<and> effectiveAdminCount org t = 0"
proof -
  note d' = lookup_SomeD [OF assms(2)] and r' = role_of_SomeD(1) [OF assms(3)]
  let ?f = "\<lambda>d. d\<lparr>d_lifecycleState := retired, d_retiredAt := Some (clock s), d_version := d_version d + 1\<rparr>"
  let ?g = "\<lambda>r. r\<lparr>r_lifecycleState := retired, r_retiredAt := Some (clock s), r_version := r_version r + 1\<rparr>"
  obtain view t where run: "divisions_retire i u s = (Inr view, t)"
    and t: "users t = users s" "user_roles t = user_roles s" "grants t = grants s"
      "roles t = upd_where (\<lambda>q. r_id q = r_id r) ?g (roles s)"
    using assms(2-5) d' role_found [OF assms(1), of r] r'
    by (simp add: divisions_retire_def op_simps move_division_def log_unit_def division_toView_def)
  have "\<not> governs t k" for k
  proof
    assume "governs t k"
    then obtain q where q: "q \<in> set (roles t)" "governing_role t q" by (auto simp: governs_def)
    then obtain x where x: "x \<in> set (roles s)" "q = (if r_id x = r_id r then ?g x else x)"
      using t(4) by (auto simp: in_upd_where)
    then have "r_id x \<noteq> r_id r" using q(2) by (auto simp: governing_role_def)
    then have "governing_role s x" using q(2) x(2) t(3) by (simp add: governing_role_def)
    with assms(6) x(1) \<open>r_id x \<noteq> r_id r\<close> show False by blast
  qed
  then have "effectiveAdminIds org t = []" by (simp add: effectiveAdminIds_def)
  with run show ?thesis by (simp add: effectiveAdminCount_def)
qed

lemma unit_retire_unguarded_witness:
  "effectiveAdminCount 1 demo_unit = 1 \<and>
   (\<exists>view t. divisions_retire 2 10 demo_unit = (Inr view, t) \<and> effectiveAdminCount 1 t = 0)"
proof
  show "effectiveAdminCount 1 demo_unit = 1" by (simp only: effectiveAdminCount_def demo_admins) simp
  have "lookup d_id 2 (divisions demo_unit) = Some demo_division"
    "division_role_of 2 demo_unit = Some inherent_role"
    "lookup o_id (d_organizationId demo_division) (organizations demo_unit) = Some demo_org"
    "d_lifecycleState demo_division = active"
    by (simp_all add: division_role_of_def demo_org_defs)
  from unit_retire_unguarded [OF demo_units this(1,2,4,3), of 10 1]
  show "\<exists>view t. divisions_retire 2 10 demo_unit = (Inr view, t) \<and> effectiveAdminCount 1 t = 0"
    by (simp add: demo_org_defs)
qed

section \<open>Policies and units\<close>

text \<open>C23: Whatever sequence of retirements, revivals, grant edits, membership and settings changes is
  served, the config version never goes back, and while it stands still the projected policies are
  the same: a policy cache keyed by the version is never stale.\<close>

theorem policies_versioned:
  fixes e :: cedar_engine and v :: cedar_validator and c :: secret_cipher
  assumes "single_org s" and "\<forall>call \<in> set calls. \<not> creates_or_renames call"
  defines "t \<equiv> serve_admins e v c calls s"
  shows "version_of s \<le> version_of t \<and> (version_of t = version_of s \<longrightarrow> fresh_policies t = fresh_policies s)"
  using serve_admins_policies [OF assms(1,2), of e v c] unfolding t_def by (auto simp: policy_change_def)

theorem policies_versioned_witness:
  "version_of demo \<le> version_of
     (serve_admins permits accepts_all marks [Retire_Grant 50 10, Retire_Division 2 10] demo)"
  using policies_versioned [of demo "[Retire_Grant 50 10, Retire_Division 2 10]" permits accepts_all marks]
  by (simp add: single_org_def demo_defs)

text \<open>Every division and team has exactly one inherent role, of the same name, lifecycle state and
  retirement time, and no role belongs to two units, after any sequence of administration calls.\<close>

lemma units_stay_paired:
  assumes "units_ok s"
  shows "units_ok (serve_admins e v c calls s)"
  using assms by (rule serve_admins_units)

lemma units_stay_paired_witness:
  "units_ok (serve_admins permits accepts_all marks
     [Retire_Division 2 10, Create_Team 1 10 ''Crew'' None, Revive_Division 2 10] demo_unit)"
  by (rule units_stay_paired [OF demo_units])

section \<open>Members and settings\<close>

text \<open>Retiring a member while another administrator remains ends every one of the member's
  sessions; reviving within the grace window gives the member back as before but for the version,
  leaves the sessions ended, and after the window is refused.\<close>

lemma user_retire_revive:
  assumes "find_member org i s = Some u" and "u_lifecycleState u = active" and "u_retiredAt u = None"
    and "k \<in> set (effectiveAdminIds org s)" and "k \<noteq> i"
    and "distinct (map u_id (users s))" and "lookup o_id org (organizations s) = Some row"
  shows "\<exists>t. users_retire org i a s = (Inr (), t) \<and>
    (\<forall>e \<in> set (sessions t). se_userId e = i \<longrightarrow> se_revokedAt e \<noteq> None) \<and>
    (let later = t\<lparr>clock := clock s + d\<rparr> in
     if of_int d \<le> org_window org s
     then \<exists>w. users_revive org i b later = (Inr (), w) \<and> sessions w = sessions t \<and>
            find_member org i w = Some (u\<lparr>u_version := u_version u + 2\<rparr>) \<and>
            (\<forall>j. j \<noteq> i \<longrightarrow> find_member org j w = find_member org j s)
     else users_revive org i b later = (Inl (ConflictError ''NOT_REVIVABLE''), later))"
proof -
  let ?f = "\<lambda>u. u\<lparr>u_lifecycleState := retired, u_retiredAt := Some (clock s), u_version := u_version u + 1\<rparr>"
  let ?g = "\<lambda>u. u\<lparr>u_lifecycleState := active, u_retiredAt := None, u_version := u_version u + 1\<rparr>"
  let ?t = "user_written org i a ''user.retired'' ?f (sessions_ended i (clock s)) s"
  let ?later = "?t\<lparr>clock := clock s + d\<rparr>"
  let ?w = "user_written org i b ''user.revived'' ?g id ?later"
  have i: "u_id u = i" "u_organizationId u = org" using find_memberD [OF assms(1)] by simp_all
  have members: "find_member org j (user_written org i x vb f h r) =
      (if j = i then map_option f (find_member org j r) else find_member org j r)"
    if "\<And>u. u_id (f u) = u_id u" "\<And>u. u_organizationId (f u) = u_organizationId u" "\<And>t. users (h t) = users t"
    for j x vb f h r
    using that by (simp add: user_written_def find_member_written)
  have "governs ?t = governs s" by (rule ext) (simp add: governs_def governing_role_def)
  moreover obtain q where q: "q \<in> set (users s)" "u_id q = k" "u_organizationId q = org"
      "u_lifecycleState q = active" "governs s k"
    using assms(4) unfolding admin_ids_iff by blast
  moreover have "q \<in> set (users ?t)" using q assms(5) by (auto simp: in_upd_where intro: bexI [of _ q])
  ultimately have "k \<in> set (effectiveAdminIds org ?t)" unfolding admin_ids_iff by auto
  then have "effectiveAdminCount org ?t \<noteq> 0" by (auto simp: effectiveAdminCount_def)
  then have retire: "users_retire org i a s = (Inr (), ?t)"
    by (rule users_retire_run(1) [OF assms(1) _ assms(6,7), rotated]) (simp add: assms(2))
  have "sessions ?t = upd_where (\<lambda>e. se_userId e = i \<and> se_revokedAt e = None)
      (\<lambda>e. e\<lparr>se_revokedAt := Some (clock s)\<rparr>) (sessions s)"
    by (simp add: user_written_def sessions_ended_def)
  then have ended: "\<forall>e \<in> set (sessions ?t). se_userId e = i \<longrightarrow> se_revokedAt e \<noteq> None"
    by (simp add: ball_upd_where)
  have loaded: "find_member org i ?later = Some (?f u)"
    using members [of ?f "sessions_ended i (clock s)" i a "''user.retired''" s] assms(1)
    by (simp add: find_member_def)
  have win: "org_window org ?later = org_window org s"
    by (simp add: org_window_def user_written_def lookup_upd_same map_option.compositionality comp_def)
  have rev: "isRevivable (u_lifecycleState (?f u)) (u_retiredAt (?f u)) (org_window org ?later) (clock ?later) \<longleftrightarrow>
      of_int d \<le> org_window org s"
    unfolding isRevivable_iff win by simp
  have written: "write_user org i b ''user.revived'' ?g (ret ()) ?later = (Inr (), ?w)"
    by (rule write_user_run [where u = "?f u"])
       (use assms(7) find_member_lookup [of ?later, OF _ loaded] assms(6) in
         \<open>simp_all add: op_simps user_written_def map_upd_where lookup_upd_same\<close>)
  have "sessions ?w = sessions ?t" by (simp add: user_written_def)
  moreover have "find_member org i ?w = Some (u\<lparr>u_version := u_version u + 2\<rparr>)"
    using members [of ?g id i b "''user.revived''" ?later] loaded assms(2,3) by simp
  moreover have "find_member org j ?w = find_member org j s" if "j \<noteq> i" for j
    using members [of ?g id j b "''user.revived''" ?later]
      members [of ?f "sessions_ended i (clock s)" j a "''user.retired''" s] that
    by (simp add: find_member_def)
  ultimately show ?thesis
    using retire ended rev written loaded i
    by (intro exI [of _ ?t]) (simp add: Let_def users_revive_def loadUser_def op_simps)
qed

lemma user_retire_revive_witness:
  "\<exists>t. users_retire 1 10 12 demo_two = (Inr (), t) \<and>
     (\<forall>e \<in> set (sessions t). se_userId e = 10 \<longrightarrow> se_revokedAt e \<noteq> None) \<and>
     (\<exists>w. users_revive 1 10 12 (t\<lparr>clock := clock demo_two + 5\<rparr>) = (Inr (), w) \<and>
        find_member 1 10 w = Some ((demo_user 10)\<lparr>u_version := 2\<rparr>))"
proof -
  have "find_member 1 10 demo_two = Some (demo_user 10)" "u_lifecycleState (demo_user 10) = active"
    "u_retiredAt (demo_user 10) = None" "distinct (map u_id (users demo_two))"
    "lookup o_id 1 (organizations demo_two) = Some demo_org" "u_version (demo_user 10) = 0"
    "of_int 5 \<le> org_window 1 demo_two"
    by (simp_all add: find_member_def org_window_def windowMsFromSettings_def
        default_gracePeriodHours_def demo_org_defs)
  moreover have "11 \<in> set (effectiveAdminIds 1 demo_two)" "(11::nat) \<noteq> 10" by (simp_all only: demo_admins) simp_all
  ultimately show ?thesis
    using user_retire_revive [of 1 10 demo_two "demo_user 10" 11 demo_org 12 5 12] by (simp only: Let_def) auto
qed

section \<open>Settings\<close>

text \<open>Changing the settings stores every key given and leaves the others (defaults filled in),
  stores a new secret only encrypted and drops it on the empty string, raises the config version by
  one and returns exactly what a later read returns.\<close>

lemma config_roundtrip:
  assumes "lookup o_id k (organizations s) = Some org"
  shows "\<exists>t after. config_update enc k u dto s = (Inr (redacted (SETTINGS_DEFAULTS ++ o_settings after)), t) \<and>
    config_get k t = (Inr (redacted (SETTINGS_DEFAULTS ++ o_settings after)), t) \<and>
    lookup o_id k (organizations t) = Some after \<and>
    o_configVersion after = o_configVersion org + 1 \<and>
    (\<forall>key. key \<noteq> ''discordClientSecret'' \<longrightarrow> o_settings after key =
       (case map_of dto key of Some v \<Rightarrow> Some v | None \<Rightarrow> (SETTINGS_DEFAULTS ++ o_settings org) key)) \<and>
    o_settings after ''discordClientSecret'' =
       (case map_of dto ''discordClientSecret'' of
          Some (JStr secret) \<Rightarrow> if secret = [] then None else Some (JStr (enc secret))
        | _ \<Rightarrow> o_settings org ''discordClientSecret'')"
proof -
  let ?m = "next_settings enc (SETTINGS_DEFAULTS ++ o_settings org) dto"
  let ?after = "org\<lparr>o_settings := ?m, o_configVersion := o_configVersion org + 1\<rparr>"
  let ?t = "configured enc k u dto (SETTINGS_DEFAULTS ++ o_settings org) s"
  have abs: "SETTINGS_DEFAULTS ++ ?m = ?m" by (rule defaults_absorb)
  have found: "lookup o_id k (organizations ?t) = Some ?after"
    using assms by (simp add: configured_def lookup_upd_same)
  have "SETTINGS_DEFAULTS ''discordClientSecret'' = None" by (simp add: SETTINGS_DEFAULTS_def)
  then have secret: "(SETTINGS_DEFAULTS ++ o_settings org) ''discordClientSecret'' = o_settings org ''discordClientSecret''"
    by (simp add: map_add_def split: option.split)
  show ?thesis
    by (intro exI [of _ ?t] exI [of _ ?after])
       (simp add: config_update_run [OF assms] config_get_run found abs next_settings_other
          next_settings_secret secret split: option.split json.split)
qed

lemma config_roundtrip_witness:
  "\<exists>t (after :: organization). config_update (\<lambda>x. ''enc:'' @ x) 1 10
         [(''gracePeriodHours'', JNum (Fin 48)), (''discordClientSecret'', JStr ''s'')] demo =
       (Inr (redacted (SETTINGS_DEFAULTS ++ o_settings after)), t) \<and>
     o_settings after ''discordClientSecret'' = Some (JStr ''enc:s'')"
proof -
  let ?dto = "[(''gracePeriodHours'', JNum (Fin 48)), (''discordClientSecret'', JStr ''s'')]"
  have org: "lookup o_id 1 (organizations demo) = Some demo_org" by (simp add: demo_defs)
  show ?thesis
    by (insert config_roundtrip [OF org, of "\<lambda>x. ''enc:'' @ x" 10 ?dto], elim exE conjE,
        intro exI conjI, assumption) simp
qed

end
