(* ===== verification/Reconcile.thy ===== *)
theory Reconcile
  imports Schema
begin

text \<open>
  \<open>integrations/sync/reconciler.ts\<close>: the pure reconciler between the roles members hold here and
  the groups their linked accounts are in there. It reads both sides, the mappings and the edges
  present at the last run (the baseline), and returns the operations that bring the two sides
  together. The composite string keys of the code are pairs here: the ids they join contain no
  colon.
\<close>

section \<open>Input and output\<close>

record linked_user =
  lu_userId :: id
  lu_externalUserId :: string

datatype pa_kind = pa_grant | pa_revoke

record pa_op =
  po_kind :: pa_kind
  po_userId :: id
  po_roleId :: id
  po_externalGroupId :: string

datatype ext_action = ext_add | ext_remove

record ext_op =
  eo_externalUserId :: string
  eo_externalGroupId :: string
  eo_action :: ext_action

record edge =
  ed_externalUserId :: string
  ed_externalGroupId :: string
  ed_mappingId :: id

type_synonym membership = "(string \<times> string list) list"

record reconcile_input =
  ri_mappings :: "group_mapping list"
  ri_linkedUsers :: "linked_user list"
  ri_externalMembership :: membership
  ri_knownGroupIds :: "string list"
  ri_existingRoles :: "id \<times> id \<rightharpoonup> user_role"
  ri_roleRows :: "id \<rightharpoonup> role"
  ri_baseline :: "(string \<times> string) list option"

record reconcile_output =
  ro_paOps :: "pa_op list"
  ro_externalOps :: "ext_op list"
  ro_brokenMappingIds :: "id list"
  ro_baselineUpserts :: "edge list"
  ro_baselineDeletes :: "edge list"

definition no_output :: reconcile_output where
  "no_output = \<lparr>ro_paOps = [], ro_externalOps = [], ro_brokenMappingIds = [],
     ro_baselineUpserts = [], ro_baselineDeletes = []\<rparr>"

section \<open>One edge\<close>

definition pa_op_for :: "pa_kind \<Rightarrow> linked_user \<Rightarrow> group_mapping \<Rightarrow> pa_op" where
  "pa_op_for kind link mapping =
     \<lparr>po_kind = kind, po_userId = lu_userId link, po_roleId = mp_roleId mapping,
      po_externalGroupId = mp_externalGroupId mapping\<rparr>"

definition ext_op_for :: "ext_action \<Rightarrow> linked_user \<Rightarrow> group_mapping \<Rightarrow> ext_op" where
  "ext_op_for action link mapping =
     \<lparr>eo_externalUserId = lu_externalUserId link, eo_externalGroupId = mp_externalGroupId mapping,
      eo_action = action\<rparr>"

definition integration_sourced :: "user_role option \<Rightarrow> bool" where
  "integration_sourced existingUR \<longleftrightarrow>
     (case existingUR of None \<Rightarrow> False | Some ur \<Rightarrow> ur_source ur = src_integration)"

definition push_for :: "bool \<Rightarrow> linked_user \<Rightarrow> group_mapping \<Rightarrow> ext_op" where
  "push_for hasPatriceRole link mapping =
     ext_op_for (if hasPatriceRole then ext_add else ext_remove) link mapping"

text \<open>The conflict winner decides when there is no baseline, or both sides moved.\<close>

definition by_conflict_winner ::
  "linked_user \<Rightarrow> group_mapping \<Rightarrow> bool \<Rightarrow> bool \<Rightarrow> user_role option \<Rightarrow> pa_op list \<times> ext_op list" where
  "by_conflict_winner link mapping hasExternalRole hasPatriceRole existingUR =
     (if mp_conflictWinner mapping = external_wins then
        (if hasExternalRole \<and> \<not> hasPatriceRole then ([pa_op_for pa_grant link mapping], [])
         else if \<not> hasExternalRole \<and> integration_sourced existingUR
         then ([pa_op_for pa_revoke link mapping], [])
         else ([], []))
      else ([], [push_for hasPatriceRole link mapping]))"

definition reconcileBidirectional ::
  "linked_user \<Rightarrow> group_mapping \<Rightarrow> bool \<Rightarrow> bool \<Rightarrow> user_role option \<Rightarrow>
   (string \<times> string) list option \<Rightarrow> pa_op list \<times> ext_op list" where
  "reconcileBidirectional link mapping hasExternalRole hasPatriceRole existingUR baseline =
     (if hasExternalRole = hasPatriceRole then ([], [])
      else case baseline of
        None \<Rightarrow> by_conflict_winner link mapping hasExternalRole hasPatriceRole existingUR
      | Some b \<Rightarrow>
          let wasInBaseline = (lu_externalUserId link, mp_externalGroupId mapping) \<in> set b;
              externalDiverged = (hasExternalRole \<noteq> wasInBaseline);
              patriceDiverged = (hasPatriceRole \<noteq> wasInBaseline)
          in if externalDiverged \<and> \<not> patriceDiverged then
               (if hasExternalRole then ([pa_op_for pa_grant link mapping], [])
                else if integration_sourced existingUR then ([pa_op_for pa_revoke link mapping], [])
                else ([], [ext_op_for ext_add link mapping]))
             else if patriceDiverged \<and> \<not> externalDiverged then
               ([], [push_for hasPatriceRole link mapping])
             else if \<not> externalDiverged \<or> \<not> patriceDiverged then ([], [])
             else by_conflict_winner link mapping hasExternalRole hasPatriceRole existingUR)"

definition reconcile_edge ::
  "group_mapping \<Rightarrow> linked_user \<Rightarrow> bool \<Rightarrow> user_role option \<Rightarrow> (string \<times> string) list option \<Rightarrow>
   pa_op list \<times> ext_op list" where
  "reconcile_edge mapping link hasExternalRole existingUR baseline =
     (let hasPatriceRole = (existingUR \<noteq> None) in
      case mp_syncDirection mapping of
        inbound \<Rightarrow>
          (if hasExternalRole \<and> \<not> hasPatriceRole then ([pa_op_for pa_grant link mapping], [])
           else if \<not> hasExternalRole \<and> integration_sourced existingUR
           then ([pa_op_for pa_revoke link mapping], [])
           else ([], []))
      | outbound \<Rightarrow>
          (if hasPatriceRole \<and> \<not> hasExternalRole then ([], [ext_op_for ext_add link mapping])
           else if \<not> hasPatriceRole \<and> hasExternalRole then ([], [ext_op_for ext_remove link mapping])
           else ([], []))
      | bidirectional \<Rightarrow>
          reconcileBidirectional link mapping hasExternalRole hasPatriceRole existingUR baseline)"

section \<open>The loops\<close>

text \<open>\<open>membersOf\<close>, the reverse index of the membership.\<close>

definition membersOf :: "membership \<Rightarrow> string \<Rightarrow> string list" where
  "membersOf membership gid = map fst (filter (\<lambda>(_, groups). gid \<in> set groups) membership)"

definition has_external :: "reconcile_input \<Rightarrow> group_mapping \<Rightarrow> linked_user \<Rightarrow> bool" where
  "has_external input mapping link \<longleftrightarrow>
     lu_externalUserId link \<in> set (membersOf (ri_externalMembership input) (mp_externalGroupId mapping))"

definition existing_role :: "reconcile_input \<Rightarrow> group_mapping \<Rightarrow> linked_user \<Rightarrow> user_role option" where
  "existing_role input mapping link = ri_existingRoles input (lu_userId link, mp_roleId mapping)"

definition visit_link ::
  "reconcile_input \<Rightarrow> group_mapping \<Rightarrow> linked_user \<Rightarrow> reconcile_output \<Rightarrow> reconcile_output" where
  "visit_link input mapping link out =
     (let hasExternalRole = has_external input mapping link;
          ops = reconcile_edge mapping link hasExternalRole (existing_role input mapping link)
                  (ri_baseline input);
          bk = \<lparr>ed_externalUserId = lu_externalUserId link,
                ed_externalGroupId = mp_externalGroupId mapping, ed_mappingId = mp_id mapping\<rparr>;
          out = out\<lparr>ro_paOps := ro_paOps out @ fst ops, ro_externalOps := ro_externalOps out @ snd ops\<rparr>
      in if hasExternalRole then out\<lparr>ro_baselineUpserts := ro_baselineUpserts out @ [bk]\<rparr>
         else out\<lparr>ro_baselineDeletes := ro_baselineDeletes out @ [bk]\<rparr>)"

definition group_gone :: "reconcile_input \<Rightarrow> group_mapping \<Rightarrow> bool" where
  "group_gone input mapping \<longleftrightarrow>
     ri_externalMembership input \<noteq> [] \<and> mp_externalGroupId mapping \<notin> set (ri_knownGroupIds input)"

definition role_usable :: "reconcile_input \<Rightarrow> group_mapping \<Rightarrow> bool" where
  "role_usable input mapping \<longleftrightarrow>
     (case ri_roleRows input (mp_roleId mapping) of
        None \<Rightarrow> False | Some r \<Rightarrow> r_lifecycleState r \<noteq> retired)"

definition visit_mapping ::
  "reconcile_input \<Rightarrow> group_mapping \<Rightarrow> reconcile_output \<Rightarrow> reconcile_output" where
  "visit_mapping input mapping out =
     (if mp_isBroken mapping then out
      else if group_gone input mapping
      then out\<lparr>ro_brokenMappingIds := ro_brokenMappingIds out @ [mp_id mapping]\<rparr>
      else if \<not> role_usable input mapping then out
      else fold (visit_link input mapping) (ri_linkedUsers input) out)"

definition reconcile :: "reconcile_input \<Rightarrow> reconcile_output" where
  "reconcile input = fold (visit_mapping input) (ri_mappings input) no_output"

section \<open>The output, edge by edge\<close>

definition live :: "reconcile_input \<Rightarrow> group_mapping \<Rightarrow> bool" where
  "live input mapping \<longleftrightarrow>
     \<not> mp_isBroken mapping \<and> \<not> group_gone input mapping \<and> role_usable input mapping"

definition edge_ops :: "reconcile_input \<Rightarrow> group_mapping \<Rightarrow> linked_user \<Rightarrow> pa_op list \<times> ext_op list" where
  "edge_ops input mapping link =
     reconcile_edge mapping link (has_external input mapping link)
       (existing_role input mapping link) (ri_baseline input)"

definition edge_of :: "group_mapping \<Rightarrow> linked_user \<Rightarrow> edge" where
  "edge_of mapping link =
     \<lparr>ed_externalUserId = lu_externalUserId link, ed_externalGroupId = mp_externalGroupId mapping,
      ed_mappingId = mp_id mapping\<rparr>"

definition add_output :: "reconcile_output \<Rightarrow> reconcile_output \<Rightarrow> reconcile_output" where
  "add_output a b =
     \<lparr>ro_paOps = ro_paOps a @ ro_paOps b, ro_externalOps = ro_externalOps a @ ro_externalOps b,
      ro_brokenMappingIds = ro_brokenMappingIds a @ ro_brokenMappingIds b,
      ro_baselineUpserts = ro_baselineUpserts a @ ro_baselineUpserts b,
      ro_baselineDeletes = ro_baselineDeletes a @ ro_baselineDeletes b\<rparr>"

definition mapping_output :: "reconcile_input \<Rightarrow> group_mapping \<Rightarrow> reconcile_output" where
  "mapping_output input mapping =
     (let links = (if live input mapping then ri_linkedUsers input else [])
      in \<lparr>ro_paOps = concat (map (\<lambda>l. fst (edge_ops input mapping l)) links),
          ro_externalOps = concat (map (\<lambda>l. snd (edge_ops input mapping l)) links),
          ro_brokenMappingIds =
            (if \<not> mp_isBroken mapping \<and> group_gone input mapping then [mp_id mapping] else []),
          ro_baselineUpserts = map (edge_of mapping) (filter (has_external input mapping) links),
          ro_baselineDeletes =
            map (edge_of mapping) (filter (\<lambda>l. \<not> has_external input mapping l) links)\<rparr>)"

lemma fold_links:
  "fold (visit_link input mapping) links out =
     add_output out
       \<lparr>ro_paOps = concat (map (\<lambda>l. fst (edge_ops input mapping l)) links),
        ro_externalOps = concat (map (\<lambda>l. snd (edge_ops input mapping l)) links),
        ro_brokenMappingIds = [],
        ro_baselineUpserts = map (edge_of mapping) (filter (has_external input mapping) links),
        ro_baselineDeletes = map (edge_of mapping) (filter (\<lambda>l. \<not> has_external input mapping l) links)\<rparr>"
  by (induction links arbitrary: out)
     (simp_all add: add_output_def visit_link_def Let_def edge_ops_def edge_of_def)

lemma visit_mapping_output: "visit_mapping input mapping out = add_output out (mapping_output input mapping)"
  by (simp add: visit_mapping_def fold_links mapping_output_def live_def add_output_def Let_def)

lemma add_output_assoc: "add_output (add_output a b) c = add_output a (add_output b c)"
  by (simp add: add_output_def)

lemma add_output_none [simp]: "add_output a no_output = a" "add_output no_output a = a"
  by (simp_all add: add_output_def no_output_def)

lemma fold_mappings:
  "fold (visit_mapping input) ms out = add_output out (foldr add_output (map (mapping_output input) ms) no_output)"
  by (induction ms arbitrary: out) (simp_all add: visit_mapping_output add_output_assoc)

lemma reconcile_output:
  "reconcile input = foldr add_output (map (mapping_output input) (ri_mappings input)) no_output"
  by (simp add: reconcile_def fold_mappings)

lemma fields_of_sum:
  "ro_paOps (foldr add_output os no_output) = concat (map ro_paOps os)"
  "ro_externalOps (foldr add_output os no_output) = concat (map ro_externalOps os)"
  "ro_brokenMappingIds (foldr add_output os no_output) = concat (map ro_brokenMappingIds os)"
  "ro_baselineUpserts (foldr add_output os no_output) = concat (map ro_baselineUpserts os)"
  "ro_baselineDeletes (foldr add_output os no_output) = concat (map ro_baselineDeletes os)"
  by (induction os) (simp_all add: add_output_def no_output_def)

definition live_edge :: "reconcile_input \<Rightarrow> group_mapping \<Rightarrow> linked_user \<Rightarrow> bool" where
  "live_edge input mapping link \<longleftrightarrow>
     mapping \<in> set (ri_mappings input) \<and> live input mapping \<and> link \<in> set (ri_linkedUsers input)"

lemma pa_ops_iff:
  "x \<in> set (ro_paOps (reconcile input)) \<longleftrightarrow>
     (\<exists>m l. live_edge input m l \<and> x \<in> set (fst (edge_ops input m l)))"
  by (auto simp: reconcile_output fields_of_sum mapping_output_def Let_def live_edge_def split: if_splits)

lemma ext_ops_iff:
  "x \<in> set (ro_externalOps (reconcile input)) \<longleftrightarrow>
     (\<exists>m l. live_edge input m l \<and> x \<in> set (snd (edge_ops input m l)))"
  by (auto simp: reconcile_output fields_of_sum mapping_output_def Let_def live_edge_def split: if_splits)

section \<open>What an edge decides\<close>

lemmas edge_defs = reconcile_edge_def reconcileBidirectional_def by_conflict_winner_def push_for_def Let_def

lemma edge_pa_revoke:
  assumes "x \<in> set (fst (reconcile_edge m l he ur b))" and "po_kind x = pa_revoke"
  shows "integration_sourced ur \<and> \<not> he \<and> po_userId x = lu_userId l \<and> po_roleId x = mp_roleId m"
  using assms
  by (auto simp: edge_defs pa_op_for_def split: sync_direction.splits option.splits if_splits)

lemma edge_pa_grant:
  assumes "x \<in> set (fst (reconcile_edge m l he ur b))" and "po_kind x = pa_grant"
  shows "ur = None \<and> he \<and> po_userId x = lu_userId l \<and> po_roleId x = mp_roleId m"
  using assms
  by (auto simp: edge_defs pa_op_for_def split: sync_direction.splits option.splits if_splits)

lemma edge_ext:
  assumes "x \<in> set (snd (reconcile_edge m l he ur b))"
  shows "x = ext_op_for (eo_action x) l m \<and> (eo_action x = ext_add \<longleftrightarrow> ur \<noteq> None) \<and> (he \<longleftrightarrow> ur = None)"
  using assms
  by (auto simp: edge_defs ext_op_for_def split: sync_direction.splits option.splits if_splits)

text \<open>With a baseline at hand the conflict winner is never asked: the two sides differ, so exactly
  one of them differs from what the baseline says.\<close>

lemma warm_edge_winner:
  "reconcile_edge (m\<lparr>mp_conflictWinner := w\<rparr>) l he ur (Some b) = reconcile_edge m l he ur (Some b)"
  by (auto simp: edge_defs pa_op_for_def ext_op_for_def split: sync_direction.split)

text \<open>The two sides of an edge once its operations are carried out.\<close>

definition settled :: "group_mapping \<Rightarrow> bool \<Rightarrow> user_role option \<Rightarrow> bool" where
  "settled m he ur \<longleftrightarrow>
     (case mp_syncDirection m of
        inbound \<Rightarrow> (he \<longrightarrow> ur \<noteq> None) \<and> (\<not> he \<longrightarrow> \<not> integration_sourced ur)
      | _ \<Rightarrow> he \<longleftrightarrow> ur \<noteq> None)"

lemma settled_edge: "settled m he ur \<Longrightarrow> reconcile_edge m l he ur b = ([], [])"
  by (auto simp: settled_def edge_defs split: sync_direction.splits option.split)

definition edge_after_pa :: "pa_op list \<Rightarrow> user_role option \<Rightarrow> user_role \<Rightarrow> user_role option" where
  "edge_after_pa ops ur new =
     (if \<exists>x \<in> set ops. po_kind x = pa_grant then Some new
      else if \<exists>x \<in> set ops. po_kind x = pa_revoke then None else ur)"

definition edge_after_ext :: "ext_op list \<Rightarrow> bool \<Rightarrow> bool" where
  "edge_after_ext ops he =
     (if \<exists>x \<in> set ops. eo_action x = ext_add then True
      else if \<exists>x \<in> set ops. eo_action x = ext_remove then False else he)"

lemma edge_settles:
  assumes "ur_source new = src_integration"
  shows "settled m (edge_after_ext (snd (reconcile_edge m l he ur (Some b))) he)
           (edge_after_pa (fst (reconcile_edge m l he ur (Some b))) ur new)"
proof (cases "mp_syncDirection m")
  case inbound
  then show ?thesis
    using assms
    by (cases he; cases ur) (simp_all add: settled_def edge_after_ext_def edge_after_pa_def edge_defs
        pa_op_for_def integration_sourced_def)
next
  case outbound
  then show ?thesis
    by (cases he; cases ur) (simp_all add: settled_def edge_after_ext_def edge_after_pa_def edge_defs
        ext_op_for_def)
next
  case bidirectional
  then show ?thesis
    by (cases he; cases ur; cases "(lu_externalUserId l, mp_externalGroupId m) \<in> set b")
       (simp_all add: settled_def edge_after_ext_def edge_after_pa_def edge_defs pa_op_for_def
          ext_op_for_def integration_sourced_def)
qed

section \<open>Carrying the operations out\<close>

text \<open>Granting creates the row \<open>new\<close> names, revoking removes the row; the provider adds a group to a
  member or removes it, and changes nothing for an account that is not a member.\<close>

definition pa_key :: "pa_op \<Rightarrow> id \<times> id" where
  "pa_key x = (po_userId x, po_roleId x)"

definition apply_pa ::
  "(id \<times> id \<Rightarrow> user_role) \<Rightarrow> pa_op \<Rightarrow> (id \<times> id \<rightharpoonup> user_role) \<Rightarrow> id \<times> id \<rightharpoonup> user_role" where
  "apply_pa new x m = m(pa_key x := (if po_kind x = pa_grant then Some (new (pa_key x)) else None))"

definition apply_ext :: "ext_op \<Rightarrow> membership \<Rightarrow> membership" where
  "apply_ext x ms = map (\<lambda>(u, gs).
     if u = eo_externalUserId x
     then (u, if eo_action x = ext_add then gs @ [eo_externalGroupId x]
              else filter (\<lambda>g. g \<noteq> eo_externalGroupId x) gs)
     else (u, gs)) ms"

definition carried_out :: "(id \<times> id \<Rightarrow> user_role) \<Rightarrow> reconcile_input \<Rightarrow> reconcile_input" where
  "carried_out new input =
     (let out = reconcile input in
      input\<lparr>ri_existingRoles := fold (apply_pa new) (ro_paOps out) (ri_existingRoles input),
            ri_externalMembership := fold apply_ext (ro_externalOps out) (ri_externalMembership input)\<rparr>)"

text \<open>No two live mappings share a role or a group, no two links a member or an account, and every
  linked account is a member there.\<close>

definition separate :: "reconcile_input \<Rightarrow> bool" where
  "separate input \<longleftrightarrow>
     inj_on mp_roleId {m \<in> set (ri_mappings input). live input m} \<and>
     inj_on mp_externalGroupId {m \<in> set (ri_mappings input). live input m} \<and>
     inj_on lu_userId (set (ri_linkedUsers input)) \<and>
     inj_on lu_externalUserId (set (ri_linkedUsers input)) \<and>
     lu_externalUserId ` set (ri_linkedUsers input) \<subseteq> fst ` set (ri_externalMembership input)"

lemma apply_pa_all:
  assumes "\<And>x. x \<in> set ops \<Longrightarrow> pa_key x = k \<Longrightarrow> po_kind x = kind"
  shows "fold (apply_pa new) ops m k =
    (if \<exists>x \<in> set ops. pa_key x = k then (if kind = pa_grant then Some (new k) else None) else m k)"
  using assms by (induction ops arbitrary: m) (auto simp: apply_pa_def)

fun ext_holds :: "membership \<Rightarrow> string \<Rightarrow> string \<Rightarrow> bool" where
  "ext_holds [] u g = False"
| "ext_holds ((v, gs) # ms) u g = (v = u \<and> g \<in> set gs \<or> ext_holds ms u g)"

lemma in_membersOf: "u \<in> set (membersOf ms g) \<longleftrightarrow> ext_holds ms u g"
  by (induction ms u g rule: ext_holds.induct) (auto simp: membersOf_def)

lemma apply_ext_keys [simp]: "fst ` set (apply_ext x ms) = fst ` set ms"
  by (force simp: apply_ext_def image_iff)

lemma apply_ext_holds:
  "ext_holds (apply_ext x ms) u g \<longleftrightarrow>
     (if u = eo_externalUserId x \<and> g = eo_externalGroupId x
      then eo_action x = ext_add \<and> u \<in> fst ` set ms else ext_holds ms u g)"
  by (induction ms u g rule: ext_holds.induct) (auto simp: apply_ext_def split: if_splits)

definition ext_key :: "ext_op \<Rightarrow> string \<times> string" where
  "ext_key x = (eo_externalUserId x, eo_externalGroupId x)"

lemma apply_ext_all:
  assumes "\<And>x. x \<in> set ops \<Longrightarrow> ext_key x = (u, g) \<Longrightarrow> eo_action x = a" and "u \<in> fst ` set ms"
  shows "ext_holds (fold apply_ext ops ms) u g \<longleftrightarrow>
    (if \<exists>x \<in> set ops. ext_key x = (u, g) then a = ext_add else ext_holds ms u g)"
  using assms
proof (induction ops arbitrary: ms)
  case (Cons x ops)
  then show ?case by (cases "ext_key x = (u, g)") (auto simp: apply_ext_holds ext_key_def)
qed simp

lemma fold_apply_ext_keys [simp]: "fst ` set (fold apply_ext ops ms) = fst ` set ms"
  by (induction ops arbitrary: ms) simp_all

text \<open>The operations of one edge are the only ones about its two ends.\<close>

lemma edge_single:
  "reconcile_edge m l he ur b = ([], []) \<or>
   (\<exists>kind. reconcile_edge m l he ur b = ([pa_op_for kind l m], [])) \<or>
   (\<exists>action. reconcile_edge m l he ur b = ([], [ext_op_for action l m]))"
  by (auto simp: edge_defs split: sync_direction.split option.split)

lemma pa_ops_of_edge:
  assumes "separate input" and e: "live_edge input m l"
  shows "x \<in> set (ro_paOps (reconcile input)) \<and> pa_key x = (lu_userId l, mp_roleId m) \<longleftrightarrow>
    x \<in> set (fst (edge_ops input m l))"
proof
  assume "x \<in> set (ro_paOps (reconcile input)) \<and> pa_key x = (lu_userId l, mp_roleId m)"
  then obtain n k where n: "live_edge input n k" "x \<in> set (fst (edge_ops input n k))"
      "pa_key x = (lu_userId l, mp_roleId m)"
    unfolding pa_ops_iff by blast
  then have "pa_key x = (lu_userId k, mp_roleId n)"
    using edge_single [of n k "has_external input n k" "existing_role input n k" "ri_baseline input"]
    by (auto simp: edge_ops_def pa_op_for_def pa_key_def)
  then have "k = l" "n = m"
    using n(1,3) e assms(1) by (auto simp: separate_def live_edge_def dest: inj_onD)
  then show "x \<in> set (fst (edge_ops input m l))" using n(2) by simp
next
  assume x: "x \<in> set (fst (edge_ops input m l))"
  then have "pa_key x = (lu_userId l, mp_roleId m)"
    using edge_single [of m l "has_external input m l" "existing_role input m l" "ri_baseline input"]
    by (auto simp: edge_ops_def pa_op_for_def pa_key_def)
  then show "x \<in> set (ro_paOps (reconcile input)) \<and> pa_key x = (lu_userId l, mp_roleId m)"
    using x e unfolding pa_ops_iff by blast
qed

lemma ext_ops_of_edge:
  assumes "separate input" and e: "live_edge input m l"
  shows "x \<in> set (ro_externalOps (reconcile input)) \<and>
      ext_key x = (lu_externalUserId l, mp_externalGroupId m) \<longleftrightarrow>
    x \<in> set (snd (edge_ops input m l))"
proof
  assume "x \<in> set (ro_externalOps (reconcile input)) \<and>
      ext_key x = (lu_externalUserId l, mp_externalGroupId m)"
  then obtain n k where n: "live_edge input n k" "x \<in> set (snd (edge_ops input n k))"
      "ext_key x = (lu_externalUserId l, mp_externalGroupId m)"
    unfolding ext_ops_iff by blast
  then have "ext_key x = (lu_externalUserId k, mp_externalGroupId n)"
    using edge_single [of n k "has_external input n k" "existing_role input n k" "ri_baseline input"]
    by (auto simp: edge_ops_def ext_op_for_def ext_key_def)
  then have "k = l" "n = m"
    using n(1,3) e assms(1) by (auto simp: separate_def live_edge_def dest: inj_onD)
  then show "x \<in> set (snd (edge_ops input m l))" using n(2) by simp
next
  assume x: "x \<in> set (snd (edge_ops input m l))"
  then have "ext_key x = (lu_externalUserId l, mp_externalGroupId m)"
    using edge_single [of m l "has_external input m l" "existing_role input m l" "ri_baseline input"]
    by (auto simp: edge_ops_def ext_op_for_def ext_key_def)
  then show "x \<in> set (ro_externalOps (reconcile input)) \<and>
      ext_key x = (lu_externalUserId l, mp_externalGroupId m)"
    using x e unfolding ext_ops_iff by blast
qed

lemma existing_after:
  assumes "separate input" and e: "live_edge input m l"
  shows "existing_role (carried_out new input) m l =
    edge_after_pa (fst (edge_ops input m l)) (existing_role input m l) (new (lu_userId l, mp_roleId m))"
proof -
  note ops = pa_ops_of_edge [OF assms]
  have one: "fst (edge_ops input m l) = [] \<or> (\<exists>kind. fst (edge_ops input m l) = [pa_op_for kind l m])"
    using edge_single [of m l "has_external input m l" "existing_role input m l" "ri_baseline input"]
    by (auto simp: edge_ops_def)
  then obtain kind where kind: "\<And>x. x \<in> set (fst (edge_ops input m l)) \<Longrightarrow> po_kind x = kind"
    by (auto simp: pa_op_for_def)
  have "fold (apply_pa new) (ro_paOps (reconcile input)) (ri_existingRoles input) (lu_userId l, mp_roleId m) =
      (if \<exists>x \<in> set (ro_paOps (reconcile input)). pa_key x = (lu_userId l, mp_roleId m)
       then (if kind = pa_grant then Some (new (lu_userId l, mp_roleId m)) else None)
       else ri_existingRoles input (lu_userId l, mp_roleId m))"
    by (rule apply_pa_all) (use ops kind in blast)
  also have "\<dots> = edge_after_pa (fst (edge_ops input m l)) (existing_role input m l) (new (lu_userId l, mp_roleId m))"
    using ops kind by (cases kind) (auto simp: edge_after_pa_def existing_role_def)
  finally show ?thesis by (simp add: existing_role_def carried_out_def Let_def)
qed

lemma external_after:
  assumes "separate input" and e: "live_edge input m l"
  shows "has_external (carried_out new input) m l =
    edge_after_ext (snd (edge_ops input m l)) (has_external input m l)"
proof -
  note ops = ext_ops_of_edge [OF assms]
  have one: "snd (edge_ops input m l) = [] \<or> (\<exists>a. snd (edge_ops input m l) = [ext_op_for a l m])"
    using edge_single [of m l "has_external input m l" "existing_role input m l" "ri_baseline input"]
    by (auto simp: edge_ops_def)
  then obtain a where a: "\<And>x. x \<in> set (snd (edge_ops input m l)) \<Longrightarrow> eo_action x = a"
    by (auto simp: ext_op_for_def)
  have "ext_holds (fold apply_ext (ro_externalOps (reconcile input)) (ri_externalMembership input))
        (lu_externalUserId l) (mp_externalGroupId m) \<longleftrightarrow>
      (if \<exists>x \<in> set (ro_externalOps (reconcile input)). ext_key x = (lu_externalUserId l, mp_externalGroupId m)
       then a = ext_add
       else ext_holds (ri_externalMembership input) (lu_externalUserId l) (mp_externalGroupId m))"
    by (rule apply_ext_all)
       (use ops a assms in \<open>auto simp: separate_def live_edge_def\<close>)
  also have "\<dots> \<longleftrightarrow> edge_after_ext (snd (edge_ops input m l)) (has_external input m l)"
    using ops a by (cases a) (auto simp: edge_after_ext_def has_external_def in_membersOf)
  finally show ?thesis by (simp add: has_external_def in_membersOf carried_out_def Let_def)
qed

lemma live_after [simp]: "live (carried_out new input) m = live input m"
proof -
  have "fold apply_ext ops ms = [] \<longleftrightarrow> ms = []" for ops ms
    using fold_apply_ext_keys [of ops ms] by (metis image_is_empty set_empty)
  then show ?thesis
    by (simp add: live_def group_gone_def role_usable_def carried_out_def Let_def)
qed

lemma converged_edge:
  assumes "separate input" and "ri_baseline input = Some b" and "\<And>k. ur_source (new k) = src_integration"
    and "live_edge input m l"
  shows "edge_ops ((carried_out new input)\<lparr>ri_baseline := b'\<rparr>) m l = ([], [])"
proof -
  have "settled m (has_external (carried_out new input) m l) (existing_role (carried_out new input) m l)"
    using edge_settles [OF assms(3)] assms(2)
    by (simp add: external_after [OF assms(1,4)] existing_after [OF assms(1,4)] edge_ops_def)
  then show ?thesis
    by (simp add: edge_ops_def has_external_def existing_role_def settled_edge)
qed

lemma live_baseline [simp]: "live (input\<lparr>ri_baseline := b\<rparr>) m = live input m"
  by (simp add: live_def group_gone_def role_usable_def)

lemma converged:
  fixes new :: "id \<times> id \<Rightarrow> user_role" and b' :: "(string \<times> string) list option"
  assumes "separate input" and "ri_baseline input = Some b" and "\<And>k. ur_source (new k) = src_integration"
  defines "again \<equiv> (carried_out new input)\<lparr>ri_baseline := b'\<rparr>"
  shows "ro_paOps (reconcile again) = []" "ro_externalOps (reconcile again) = []"
proof -
  have e: "edge_ops again m l = ([], [])" if "live_edge again m l" for m l
    using converged_edge [OF assms(1-3), of m l b'] that
    by (simp add: again_def live_edge_def) (simp add: carried_out_def Let_def)
  show "ro_paOps (reconcile again) = []"
    using pa_ops_iff [of _ again] e by (metis empty_iff fst_conv empty_set set_empty subsetI subset_empty)
  show "ro_externalOps (reconcile again) = []"
    using ext_ops_iff [of _ again] e by (metis empty_iff snd_conv empty_set set_empty subsetI subset_empty)
qed

section \<open>The conflict winner\<close>

definition rewin :: "(group_mapping \<Rightarrow> conflict_winner) \<Rightarrow> group_mapping \<Rightarrow> group_mapping" where
  "rewin w m = m\<lparr>mp_conflictWinner := w m\<rparr>"

lemma rewin_fields [simp]:
  "mp_id (rewin w m) = mp_id m" "mp_roleId (rewin w m) = mp_roleId m"
  "mp_connectionId (rewin w m) = mp_connectionId m" "mp_externalGroupId (rewin w m) = mp_externalGroupId m"
  "mp_syncDirection (rewin w m) = mp_syncDirection m" "mp_isBroken (rewin w m) = mp_isBroken m"
  by (simp_all add: rewin_def)

lemma edge_winner:
  assumes "mp_syncDirection m = bidirectional \<Longrightarrow> b \<noteq> None"
  shows "reconcile_edge (rewin w m) l he ur b = reconcile_edge m l he ur b"
proof (cases "mp_syncDirection m")
  case bidirectional
  then obtain c where "b = Some c" using assms by blast
  then show ?thesis by (simp add: warm_edge_winner rewin_def)
qed (simp_all add: reconcile_edge_def pa_op_for_def ext_op_for_def Let_def)

lemma output_winner:
  assumes "mp_syncDirection m = bidirectional \<Longrightarrow> ri_baseline input \<noteq> None"
  shows "mapping_output (input\<lparr>ri_mappings := ms\<rparr>) (rewin w m) = mapping_output input m"
proof -
  have e: "edge_ops (input\<lparr>ri_mappings := ms\<rparr>) (rewin w m) l = edge_ops input m l" for l
    using edge_winner [of m "ri_baseline input", OF assms]
    by (simp add: edge_ops_def has_external_def existing_role_def)
  have f: "has_external (input\<lparr>ri_mappings := ms\<rparr>) (rewin w m) = has_external input m"
    "edge_of (rewin w m) = edge_of m"
    by (simp_all add: fun_eq_iff has_external_def edge_of_def)
  show ?thesis
    unfolding mapping_output_def Let_def e f live_def group_gone_def role_usable_def by simp
qed

lemma reconcile_winner:
  assumes "\<And>m. m \<in> set (ri_mappings input) \<Longrightarrow> mp_syncDirection m = bidirectional \<Longrightarrow> ri_baseline input \<noteq> None"
  shows "reconcile (input\<lparr>ri_mappings := map (rewin w) (ri_mappings input)\<rparr>) = reconcile input"
proof -
  have "map (mapping_output (input\<lparr>ri_mappings := map (rewin w) (ri_mappings input)\<rparr>)) (map (rewin w) (ri_mappings input)) =
      map (mapping_output input) (ri_mappings input)"
    using output_winner assms by simp
  moreover have "ri_mappings (input\<lparr>ri_mappings := map (rewin w) (ri_mappings input)\<rparr>) =
      map (rewin w) (ri_mappings input)"
    by simp
  ultimately show ?thesis by (simp only: reconcile_output)
qed

end
