(* ===== verification/Sync.thy ===== *)
theory Sync
  imports Reconcile Notify Users
begin

text \<open>
  \<open>integrations/sync/discord.adapter.ts\<close>: one run of the synchronizer, for a whole connection
  or for one linked member. What the provider answers (the members and groups fetched, the reply
  to each push) and the cipher of the stored bot token are arguments; the code catches everything
  else the provider's client does.
\<close>

section \<open>The provider's answers\<close>

datatype rest_result = Replied bool nat | Unreachable

type_synonym provider_push = "ext_op \<Rightarrow> rest_result"

datatype fail_reason = permission | not_found | other_reason

fun reason_text :: "fail_reason \<Rightarrow> string" where
  "reason_text permission = ''permission''"
| "reason_text not_found = ''not_found''"
| "reason_text other_reason = ''other''"

record apply_result =
  ar_applied :: nat
  ar_failed :: nat
  ar_appliedOps :: "ext_op list"
  ar_brokenGroupIds :: "string list"
  ar_lastError :: "sync_error option"
  ar_failReason :: "fail_reason option"

text \<open>\<open>resolveBotToken\<close>: the encrypted handle when the cipher knows it, else the token in the
  connection's configuration (declared a record of strings), else the empty string.\<close>

record bot_cipher =
  bc_canHandle :: "string \<Rightarrow> bool"
  bc_decrypt :: "string \<Rightarrow> string"

definition resolveBotToken :: "bot_cipher \<Rightarrow> connection \<Rightarrow> string" where
  "resolveBotToken cipher conn =
     (let plain = (case cn_config conn ''botToken'' of Some (JStr t) \<Rightarrow> t | _ \<Rightarrow> [])
      in case truthy (cn_credentialsRef conn) of
           None \<Rightarrow> plain
         | Some ref \<Rightarrow> if bc_canHandle cipher ref then bc_decrypt cipher ref else plain)"

section \<open>Small writes\<close>

definition update_connection :: "id \<Rightarrow> (connection \<Rightarrow> connection) \<Rightarrow> unit svc" where
  "update_connection k f =
     bnd now (\<lambda>t.
     bnd (update_row connections connections_update cn_id k (\<lambda>c. (f c)\<lparr>cn_updatedAt := t\<rparr>)) (\<lambda>_.
     ret ()))"

definition log_sync :: "connection \<Rightarrow> string \<Rightarrow> id \<Rightarrow> string \<Rightarrow> payload \<Rightarrow> unit svc" where
  "log_sync conn subjectType subjectId verb p =
     log_activity (cn_organizationId conn) None subjectType subjectId verb p src_integration
       (Some (cn_id conn))"

definition break_mapping :: "id \<Rightarrow> unit svc" where
  "break_mapping k =
     bnd (update_row mappings mappings_update mp_id k (\<lambda>m. m\<lparr>mp_isBroken := True\<rparr>)) (\<lambda>_. ret ())"

section \<open>Pushing to the provider\<close>

text \<open>What one operation adds that was refused, or failed with an exception; a 401 ends the loop,
  unless writing it down fails: the handler of the exception encloses those writes too.\<close>

definition attempt :: "unit svc \<Rightarrow> bool svc" where
  "attempt m = (\<lambda>s. (Inr (case fst (m s) of Inl _ \<Rightarrow> False | Inr _ \<Rightarrow> True), snd (m s)))"

definition token_rejected :: "connection \<Rightarrow> unit svc" where
  "token_rejected conn =
     bnd (update_connection (cn_id conn)
            (\<lambda>c. c\<lparr>cn_status := conn_broken, cn_lastError := Some TokenRejected\<rparr>)) (\<lambda>_.
     log_sync conn ''integration_connection'' (cn_id conn) ''integration.token_invalid''
       [(''connectionId'', PId (cn_id conn))])"

definition push_unreachable :: "apply_result \<Rightarrow> apply_result" where
  "push_unreachable r =
     r\<lparr>ar_failed := ar_failed r + 1, ar_lastError := Some OpUnreachable,
       ar_failReason := Some other_reason\<rparr>"

definition push_failed :: "ext_op \<Rightarrow> nat \<Rightarrow> apply_result \<Rightarrow> apply_result" where
  "push_failed oper status r =
     (if status = 403 \<or> status = 404 then
        r\<lparr>ar_brokenGroupIds := (if eo_externalGroupId oper \<in> set (ar_brokenGroupIds r)
                               then ar_brokenGroupIds r
                               else ar_brokenGroupIds r @ [eo_externalGroupId oper]),
          ar_failed := ar_failed r + 1,
          ar_lastError := Some (if status = 403 then MissingPermission else GroupGone),
          ar_failReason := Some (if status = 403 then permission else not_found)\<rparr>
      else
        r\<lparr>ar_failed := ar_failed r + 1, ar_lastError := Some OpRefused,
          ar_failReason := Some other_reason\<rparr>)"

primrec push_loop ::
  "provider_push \<Rightarrow> connection \<Rightarrow> nat \<Rightarrow> ext_op list \<Rightarrow> apply_result \<Rightarrow> apply_result svc" where
  "push_loop push conn n [] r = ret (r\<lparr>ar_applied := length (ar_appliedOps r)\<rparr>)"
| "push_loop push conn n (oper # ops) r =
     (case push oper of
        Unreachable \<Rightarrow>
          push_loop push conn n ops (push_unreachable r)
      | Replied okay status \<Rightarrow>
          if okay \<or> status = 204 then
            push_loop push conn n ops (r\<lparr>ar_appliedOps := ar_appliedOps r @ [oper]\<rparr>)
          else if status = 401 then
            bnd (attempt (token_rejected conn)) (\<lambda>written.
            if written then
              ret \<lparr>ar_applied = length (ar_appliedOps r), ar_failed = n - length (ar_appliedOps r),
                   ar_appliedOps = ar_appliedOps r, ar_brokenGroupIds = ar_brokenGroupIds r,
                   ar_lastError = None, ar_failReason = None\<rparr>
            else push_loop push conn n ops (push_unreachable r))
          else push_loop push conn n ops (push_failed oper status r))"

definition applyOutbound :: "provider_push \<Rightarrow> connection \<Rightarrow> ext_op list \<Rightarrow> apply_result svc" where
  "applyOutbound push conn ops =
     push_loop push conn (length ops) ops
       \<lparr>ar_applied = 0, ar_failed = 0, ar_appliedOps = [], ar_brokenGroupIds = [],
        ar_lastError = None, ar_failReason = None\<rparr>"

section \<open>Carrying out a reconciliation\<close>

definition flag_broken :: "connection \<Rightarrow> group_mapping list \<Rightarrow> id \<Rightarrow> unit svc" where
  "flag_broken conn groupMappings k =
     bnd (break_mapping k) (\<lambda>_.
     log_sync conn ''external_group_mapping'' k ''integration.broken''
       [(''connectionId'', PId (cn_id conn)),
        (''externalGroupId'', PStr (case lookup mp_id k groupMappings of
             None \<Rightarrow> [] | Some m \<Rightarrow> mp_externalGroupId m))])"

definition apply_pa_op :: "connection \<Rightarrow> pa_op \<Rightarrow> unit svc" where
  "apply_pa_op conn oper =
     (case po_kind oper of
        pa_grant \<Rightarrow>
          bnd (insert_user_role (po_userId oper) (po_roleId oper) src_integration (Some (cn_id conn)) None) (\<lambda>_.
          log_sync conn ''user_role'' (po_userId oper) ''user_role.granted''
            [(''userId'', PId (po_userId oper)), (''roleId'', PId (po_roleId oper))])
      | pa_revoke \<Rightarrow>
          bnd (delete_user_role (po_userId oper) (po_roleId oper)) (\<lambda>_.
          log_sync conn ''user_role'' (po_userId oper) ''integration.removed''
            [(''connectionId'', PId (cn_id conn)), (''userId'', PId (po_userId oper)),
             (''roleId'', PId (po_roleId oper))]))"

definition user_of_external :: "linked_user list \<Rightarrow> string \<Rightarrow> id option" where
  "user_of_external links x = map_option lu_userId (List.find (\<lambda>l. lu_externalUserId l = x) (rev links))"

definition role_of_group :: "group_mapping list \<Rightarrow> string \<Rightarrow> id option" where
  "role_of_group ms g = map_option mp_roleId (List.find (\<lambda>m. mp_externalGroupId m = g) (rev ms))"

definition log_pushed :: "connection \<Rightarrow> group_mapping list \<Rightarrow> linked_user list \<Rightarrow> ext_op \<Rightarrow> unit svc" where
  "log_pushed conn groupMappings links oper =
     (case (user_of_external links (eo_externalUserId oper), role_of_group groupMappings (eo_externalGroupId oper)) of
        (Some u, Some r) \<Rightarrow>
          log_sync conn ''user_role'' u
            (if eo_action oper = ext_add then ''integration.external_role_added''
             else ''integration.external_role_removed'')
            [(''connectionId'', PId (cn_id conn)), (''userId'', PId u), (''roleId'', PId r),
             (''externalGroupId'', PStr (eo_externalGroupId oper))]
      | _ \<Rightarrow> ret ())"

definition flag_push_failure :: "connection \<Rightarrow> fail_reason \<Rightarrow> string \<Rightarrow> group_mapping \<Rightarrow> unit svc" where
  "flag_push_failure conn reason g m =
     bnd (break_mapping (mp_id m)) (\<lambda>_.
     log_sync conn ''external_group_mapping'' (mp_id m) ''integration.push_failed''
       [(''connectionId'', PId (cn_id conn)), (''roleId'', PId (mp_roleId m)),
        (''externalGroupId'', PStr g), (''reason'', PStr (reason_text reason))])"

definition alertAdminsOfPushFailure :: "connection \<Rightarrow> fail_reason \<Rightarrow> unit svc" where
  "alertAdminsOfPushFailure conn reason =
     bnd (gets (effectiveAdminIds (cn_organizationId conn))) (\<lambda>adminIds.
     if adminIds = [] then ret ()
     else
       bnd (emit \<lparr>ev_organizationId = cn_organizationId conn, ev_type = ''integration.push_failed'',
                  ev_subjectType = ''integration_connection'', ev_subjectId = cn_id conn,
                  ev_senderUserId = None, ev_recipientUserIds = map Some adminIds,
                  ev_payload = [(''connectionId'', PId (cn_id conn)),
                                (''reason'', PStr (reason_text reason))],
                  ev_eventSeq = None\<rparr>) (\<lambda>_.
       ret ()))"

definition baseline_row :: "id \<Rightarrow> edge \<Rightarrow> sync_baseline" where
  "baseline_row connectionId e =
     \<lparr>sb_connectionId = connectionId, sb_mappingId = ed_mappingId e,
      sb_externalUserId = ed_externalUserId e, sb_externalGroupId = ed_externalGroupId e\<rparr>"

definition upsert_baseline :: "id \<Rightarrow> edge \<Rightarrow> unit svc" where
  "upsert_baseline connectionId e =
     modify (baselines_update (\<lambda>bs.
       if baseline_row connectionId e \<in> set bs then bs else bs @ [baseline_row connectionId e]))"

definition push_external ::
  "provider_push \<Rightarrow> connection \<Rightarrow> group_mapping list \<Rightarrow> linked_user list \<Rightarrow> ext_op list \<Rightarrow>
   sync_error option svc" where
  "push_external push conn groupMappings links ops =
     (if ops = [] then ret None
      else
        bnd (applyOutbound push conn ops) (\<lambda>r.
        bnd (for_each (ar_appliedOps r) (log_pushed conn groupMappings links)) (\<lambda>_.
        bnd (if ar_brokenGroupIds r = [] then ret ()
             else
               let reason = (case ar_failReason r of None \<Rightarrow> other_reason | Some x \<Rightarrow> x) in
               bnd (for_each (ar_brokenGroupIds r) (\<lambda>g.
                      for_each (filter (\<lambda>m. mp_externalGroupId m = g \<and> \<not> mp_isBroken m) groupMappings)
                        (flag_push_failure conn reason g))) (\<lambda>_.
               swallow (alertAdminsOfPushFailure conn reason))) (\<lambda>_.
        ret (ar_lastError r)))))"

definition applyReconcileResult ::
  "provider_push \<Rightarrow> connection \<Rightarrow> group_mapping list \<Rightarrow> reconcile_output \<Rightarrow> linked_user list \<Rightarrow>
   (nat \<times> nat \<times> sync_error option) svc" where
  "applyReconcileResult push conn groupMappings result links =
     bnd (for_each (ro_brokenMappingIds result) (flag_broken conn groupMappings)) (\<lambda>_.
     bnd (for_each (ro_paOps result) (apply_pa_op conn)) (\<lambda>_.
     bnd (push_external push conn groupMappings links (ro_externalOps result)) (\<lambda>outboundError.
     bnd (for_each (ro_baselineUpserts result) (upsert_baseline (cn_id conn))) (\<lambda>_.
     bnd (delete_many baselines_update
            (\<lambda>b. b \<in> set (map (baseline_row (cn_id conn)) (ro_baselineDeletes result)))) (\<lambda>_.
     ret (count_where (\<lambda>x. po_kind x = pa_grant) (ro_paOps result),
          count_where (\<lambda>x. po_kind x = pa_revoke) (ro_paOps result), outboundError))))))"

section \<open>A run\<close>

definition connection_mappings :: "id \<Rightarrow> state \<Rightarrow> group_mapping list" where
  "connection_mappings k s = filter (\<lambda>m. mp_connectionId m = k) (mappings s)"

definition links_of :: "id \<Rightarrow> state \<Rightarrow> linked_user list" where
  "links_of k s =
     map (\<lambda>e. \<lparr>lu_userId = ei_userId e, lu_externalUserId = ei_externalUserId e\<rparr>)
       (filter (\<lambda>e. ei_connectionId e = k) (external_identities s))"

definition existing_rows :: "linked_user list \<Rightarrow> group_mapping list \<Rightarrow> state \<Rightarrow> id \<times> id \<rightharpoonup> user_role" where
  "existing_rows links ms s =
     map_of (rev (map (\<lambda>ur. ((ur_userId ur, ur_roleId ur), ur))
       (filter (\<lambda>ur. ur_userId ur \<in> lu_userId ` set links \<and> ur_roleId ur \<in> mp_roleId ` set ms)
         (user_roles s))))"

definition role_rows :: "group_mapping list \<Rightarrow> state \<Rightarrow> id \<rightharpoonup> role" where
  "role_rows ms s = (\<lambda>k. if k \<in> mp_roleId ` set ms then lookup r_id k (roles s) else None)"

text \<open>The edges stored for the bidirectional mappings; nothing at all when there are none.\<close>

definition load_baseline ::
  "id \<Rightarrow> (string \<Rightarrow> bool) \<Rightarrow> group_mapping list \<Rightarrow> state \<Rightarrow> (string \<times> string) list option" where
  "load_baseline connectionId member activeMappings s =
     (let ids = map mp_id (filter (\<lambda>m. mp_syncDirection m = bidirectional) activeMappings) in
      if ids = [] then None
      else Some (map (\<lambda>b. (sb_externalUserId b, sb_externalGroupId b))
             (filter (\<lambda>b. sb_connectionId b = connectionId \<and> member (sb_externalUserId b) \<and>
                          sb_mappingId b \<in> set ids) (baselines s))))"

text \<open>What a run hands to the reconciler.\<close>

definition sync_input ::
  "id \<Rightarrow> (string \<Rightarrow> bool) \<Rightarrow> group_mapping list \<Rightarrow> linked_user list \<Rightarrow> membership \<Rightarrow>
   (group_mapping list \<Rightarrow> string list) \<Rightarrow> state \<Rightarrow> reconcile_input" where
  "sync_input connectionId member ms links externalMembership known s =
     (let activeMappings = filter (\<lambda>m. \<not> mp_isBroken m) ms in
      \<lparr>ri_mappings = activeMappings, ri_linkedUsers = links,
       ri_externalMembership = externalMembership, ri_knownGroupIds = known activeMappings,
       ri_existingRoles = existing_rows links ms s, ri_roleRows = role_rows ms s,
       ri_baseline = load_baseline connectionId member activeMappings s\<rparr>)"

text \<open>What the provider returns to the two fetches of a full run: the members with their groups
  and the groups, or the message of the error thrown.\<close>

type_synonym fetched = "string + membership \<times> string list"

definition sync_fetched ::
  "provider_push \<Rightarrow> connection \<Rightarrow> group_mapping list \<Rightarrow> membership \<Rightarrow> string list \<Rightarrow> unit svc" where
  "sync_fetched push conn ms externalMembership groups =
     bnd (update_connection (cn_id conn) (\<lambda>c. c\<lparr>cn_status := conn_active\<rparr>)) (\<lambda>_.
     bnd (gets (links_of (cn_id conn))) (\<lambda>links.
     bnd (gets (sync_input (cn_id conn) (\<lambda>_. True) ms links externalMembership (\<lambda>_. groups))) (\<lambda>input.
     bnd (applyReconcileResult push conn ms (reconcile input) links) (\<lambda>(granted, revoked, outboundError).
     bnd now (\<lambda>t.
     bnd (update_connection (cn_id conn)
            (\<lambda>c. c\<lparr>cn_syncState := sync_idle, cn_lastSyncAt := Some t, cn_lastSyncGranted := granted,
                    cn_lastSyncRevoked := revoked, cn_lastError := outboundError\<rparr>)) (\<lambda>_.
     bnd (log_sync conn ''integration_connection'' (cn_id conn) ''integration.synced''
            [(''connectionId'', PId (cn_id conn)), (''grantedCount'', PInt (int granted)),
             (''revokedCount'', PInt (int revoked))]) (\<lambda>_.
     update_many external_identities_update (\<lambda>e. ei_connectionId e = cn_id conn)
       (\<lambda>e. e\<lparr>ei_lastSyncedAt := Some t\<rparr>))))))))"

definition sync :: "bot_cipher \<Rightarrow> provider_push \<Rightarrow> fetched \<Rightarrow> id \<Rightarrow> unit svc" where
  "sync cipher push fetch connectionId =
     bnd (find_unique connections cn_id connectionId) (\<lambda>found.
     bnd (gets (connection_mappings connectionId)) (\<lambda>ms.
     case found of
       None \<Rightarrow> ret ()
     | Some conn \<Rightarrow>
         if cn_lifecycleState conn = retired then ret ()
         else if resolveBotToken cipher conn = [] then
           update_connection connectionId
             (\<lambda>c. c\<lparr>cn_status := conn_broken, cn_syncState := sync_idle, cn_lastError := Some NoBotToken\<rparr>)
         else
           bnd now (\<lambda>t.
           bnd (update_connection connectionId
                  (\<lambda>c. c\<lparr>cn_syncState := sync_running, cn_lastSyncStartedAt := Some t\<rparr>)) (\<lambda>_.
           bnd (log_sync conn ''integration_connection'' connectionId ''integration.sync_started''
                  [(''connectionId'', PId connectionId)]) (\<lambda>_.
           case fetch of
             Inl message \<Rightarrow>
               update_connection connectionId
                 (\<lambda>c. c\<lparr>cn_status := conn_broken, cn_syncState := sync_idle,
                         cn_lastError := Some (FetchFailed message)\<rparr>)
           | Inr (externalMembership, groups) \<Rightarrow>
               sync_fetched push conn ms externalMembership groups)))))"

text \<open>\<open>syncUser\<close>: the same for one linked member; all mapped groups count as known, and only the
  member's own edges of the baseline are read.\<close>

definition find_link :: "id \<Rightarrow> string \<Rightarrow> state \<Rightarrow> external_identity option" where
  "find_link connectionId externalUserId s =
     List.find (\<lambda>e. ei_connectionId e = connectionId \<and> ei_externalUserId e = externalUserId)
       (external_identities s)"

definition syncUser :: "bot_cipher \<Rightarrow> provider_push \<Rightarrow> string list option \<Rightarrow> id \<Rightarrow> string \<Rightarrow> unit svc" where
  "syncUser cipher push fetchMember connectionId externalUserId =
     bnd (find_unique connections cn_id connectionId) (\<lambda>found.
     bnd (gets (connection_mappings connectionId)) (\<lambda>ms.
     bnd (gets (find_link connectionId externalUserId)) (\<lambda>linked.
     case (found, linked, fetchMember) of
       (Some conn, Some link, Some memberRoles) \<Rightarrow>
         if cn_lifecycleState conn = retired \<or> resolveBotToken cipher conn = [] then ret ()
         else
           let links = [\<lparr>lu_userId = ei_userId link, lu_externalUserId = externalUserId\<rparr>] in
           bnd (gets (sync_input connectionId (\<lambda>x. x = externalUserId) ms links
                  [(externalUserId, memberRoles)] (map mp_externalGroupId))) (\<lambda>input.
           bnd (applyReconcileResult push conn ms (reconcile input) links) (\<lambda>(_, _, outboundError).
           bnd now (\<lambda>t.
           bnd (update_row external_identities external_identities_update ei_id (ei_id link)
                  (\<lambda>e. e\<lparr>ei_lastSyncedAt := Some t\<rparr>)) (\<lambda>_.
           case outboundError of
             None \<Rightarrow> ret ()
           | Some e \<Rightarrow> update_connection connectionId (\<lambda>c. c\<lparr>cn_lastError := Some e\<rparr>)))))
     | _ \<Rightarrow> ret ())))"

section \<open>Memberships granted here\<close>

text \<open>Rows of \<open>A\<close> stay in the table of memberships.\<close>

definition members_kept :: "user_role set \<Rightarrow> state \<Rightarrow> bool" where
  "members_kept A t \<longleftrightarrow> A \<subseteq> set (user_roles t)"

interpretation members_inv: invariant "members_kept A" for A
  by unfold_locales (auto simp: members_kept_def)

lemma members_frame [simp]:
  "members_kept A (connections_update f s) = members_kept A s"
  "members_kept A (mappings_update f1 s) = members_kept A s"
  "members_kept A (baselines_update f2 s) = members_kept A s"
  "members_kept A (external_identities_update f3 s) = members_kept A s"
  "members_kept A (notifications_update f4 s) = members_kept A s"
  by (simp_all add: members_kept_def)

lemma keeps_members_writes [keeps_intros]:
  "keeps (members_kept A) (update_connection k f)" "keeps (members_kept A) (break_mapping k)"
  "keeps (members_kept A) (log_sync conn st i v p)" "keeps (members_kept A) (upsert_baseline k e)"
  "keeps (members_kept A) (delete_many baselines_update Q)"
  unfolding update_connection_def break_mapping_def log_sync_def upsert_baseline_def
  by (intro keeps_intros keeps_update_row keeps_modify keeps_delete_many members_inv.keeps_log_activity; simp)+

lemma keeps_members_emit: "keeps (members_kept A) (emit ev)"
  unfolding emit_def insert_notification_def Let_def
  by (intro keeps_intros members_inv.keeps_fresh keeps_modify) simp

lemma keeps_attempt [keeps_intros]: "keeps P m \<Longrightarrow> keeps P (attempt m)"
  by (simp add: keeps_def attempt_def)

lemma keeps_members_push_loop: "keeps (members_kept A) (push_loop push conn n ops r)"
  by (induction ops arbitrary: r)
     (auto simp: token_rejected_def intro!: keeps_intros split: rest_result.split)

lemma keeps_members_push [keeps_intros]: "keeps (members_kept A) (push_external push conn ms links ops)"
proof -
  have "keeps (members_kept A) (log_pushed conn ms links x)" for x
    unfolding log_pushed_def by (auto intro!: keeps_intros split: prod.split option.split)
  moreover have "keeps (members_kept A) (flag_push_failure conn reason g m)" for reason g m
    unfolding flag_push_failure_def by (intro keeps_intros)
  moreover have "keeps (members_kept A) (alertAdminsOfPushFailure conn reason)" for reason
    unfolding alertAdminsOfPushFailure_def by (intro keeps_intros keeps_members_emit)
  ultimately show ?thesis
    unfolding push_external_def applyOutbound_def Let_def
    by (intro keeps_intros keeps_members_push_loop keeps_swallow; assumption?)
qed

text \<open>The operations here keep \<open>A\<close> when none of them revokes a row of it.\<close>

definition spares :: "user_role set \<Rightarrow> pa_op list \<Rightarrow> bool" where
  "spares A ops \<longleftrightarrow>
     (\<forall>x \<in> set ops. po_kind x = pa_revoke \<longrightarrow> (\<forall>ur \<in> A. \<not> holds_role (po_userId x) (po_roleId x) ur))"

lemma keeps_members_pa_op:
  "spares A [x] \<Longrightarrow> keeps (members_kept A) (apply_pa_op conn x)"
  unfolding apply_pa_op_def insert_user_role_def delete_user_role_def
  by (cases "po_kind x")
     (auto simp: spares_def members_kept_def del_where_def
       intro!: keeps_intros keeps_create_row keeps_delete_many members_inv.keeps_fresh [unfolded members_kept_def]
         keeps_members_writes [unfolded members_kept_def])

lemma keeps_members_pa_ops:
  "spares A ops \<Longrightarrow> keeps (members_kept A) (for_each ops (apply_pa_op conn))"
  by (induction ops) (auto simp: spares_def intro!: keeps_intros keeps_members_pa_op)

lemma keeps_members_apply:
  "spares A (ro_paOps result) \<Longrightarrow> keeps (members_kept A) (applyReconcileResult push conn ms result links)"
  unfolding applyReconcileResult_def flag_broken_def
  by (intro keeps_intros keeps_members_pa_ops)

definition native_rows :: "state \<Rightarrow> user_role set" where
  "native_rows s = {ur \<in> set (user_roles s). ur_source ur \<noteq> src_integration}"

definition memberships_unique :: "state \<Rightarrow> bool" where
  "memberships_unique s \<longleftrightarrow> inj_on (\<lambda>ur. (ur_userId ur, ur_roleId ur)) (set (user_roles s))"

lemma existing_rowsD:
  "existing_rows links ms s k = Some ur \<Longrightarrow> ur \<in> set (user_roles s) \<and> k = (ur_userId ur, ur_roleId ur)"
  unfolding existing_rows_def by (auto dest!: map_of_SomeD)

text \<open>What the reconciler takes away was put there by the synchronizer.\<close>

lemma sync_spares:
  assumes "memberships_unique s" and "user_roles t = user_roles s"
  shows "spares (native_rows s) (ro_paOps (reconcile (sync_input k mem ms links em known t)))"
  unfolding spares_def
proof (intro ballI impI)
  fix x ur
  let ?in = "sync_input k mem ms links em known t"
  assume x: "x \<in> set (ro_paOps (reconcile ?in))" "po_kind x = pa_revoke" and ur: "ur \<in> native_rows s"
  then obtain m l where ml: "x \<in> set (fst (edge_ops ?in m l))" unfolding pa_ops_iff by blast
  from edge_pa_revoke [OF ml [unfolded edge_ops_def] x(2)]
  obtain old where old: "existing_role ?in m l = Some old" "ur_source old = src_integration"
      "po_userId x = lu_userId l" "po_roleId x = mp_roleId m"
    by (auto simp: integration_sourced_def split: option.splits)
  then have "old \<in> set (user_roles s)" "ur_userId old = po_userId x" "ur_roleId old = po_roleId x"
    using assms(2) existing_rowsD [of links ms t "(lu_userId l, mp_roleId m)" old]
    by (simp_all add: existing_role_def sync_input_def Let_def)
  moreover have "old = ur" if "holds_role (po_userId x) (po_roleId x) ur"
    using inj_onD [OF assms(1) [unfolded memberships_unique_def], of old ur] calculation ur that
    by (simp add: native_rows_def holds_role_def)
  ultimately show "\<not> holds_role (po_userId x) (po_roleId x) ur"
    using ur old(2) by (auto simp: native_rows_def)
qed

text \<open>The steps before the reconciliation leave the memberships alone.\<close>

definition members_same :: "state \<Rightarrow> state \<Rightarrow> bool" where
  "members_same s t \<longleftrightarrow> user_roles t = user_roles s"

interpretation same_inv: invariant "members_same s" for s
  by unfold_locales (auto simp: members_same_def)

lemma keeps_same_writes [keeps_intros]:
  "keeps (members_same s) (update_connection k f)" "keeps (members_same s) (log_sync conn st i v p)"
  unfolding update_connection_def log_sync_def
  by (intro keeps_intros keeps_update_row same_inv.keeps_log_activity; simp add: members_same_def)+

text \<open>From a state with the same memberships.\<close>

definition spared_from :: "state \<Rightarrow> 'a svc \<Rightarrow> bool" where
  "spared_from s m \<longleftrightarrow> (\<forall>t. members_same s t \<longrightarrow> members_kept (native_rows s) (snd (m t)))"

lemma spared_step:
  assumes "keeps (members_same s) m" and "\<And>x. spared_from s (f x)"
  shows "spared_from s (bnd m f)"
  unfolding spared_from_def
proof (intro allI impI)
  fix t
  assume t: "members_same s t"
  obtain r u where m: "m t = (r, u)" by (cases "m t")
  then have u: "members_same s u" using keepsD [OF assms(1) t] by blast
  then have "members_kept (native_rows s) u"
    by (auto simp: members_same_def members_kept_def native_rows_def)
  then show "members_kept (native_rows s) (snd (bnd m f t))"
    using assms(2) u m by (cases r) (auto simp: bnd_def spared_from_def)
qed

lemma spared_end: "keeps (members_same s) m \<Longrightarrow> spared_from s m"
  unfolding spared_from_def keeps_def
  by (auto simp: members_same_def members_kept_def native_rows_def)

lemma spared_reconcile:
  assumes "memberships_unique s" and "\<And>x. keeps (members_kept (native_rows s)) (f x)"
  shows "spared_from s (bnd (gets (sync_input k mem ms links em known)) (\<lambda>input.
           bnd (applyReconcileResult push conn ms' (reconcile input) links') f))"
  unfolding spared_from_def
proof (intro allI impI)
  fix t
  assume t: "members_same s t"
  then have kept: "members_kept (native_rows s) t"
    by (auto simp: members_same_def members_kept_def native_rows_def)
  have "keeps (members_kept (native_rows s))
      (bnd (applyReconcileResult push conn ms' (reconcile (sync_input k mem ms links em known t)) links') f)"
    by (intro keeps_intros keeps_members_apply sync_spares assms)
       (use t in \<open>simp add: members_same_def\<close>)
  from keepsD_snd [OF this kept]
  show "members_kept (native_rows s) (snd (bnd (gets (sync_input k mem ms links em known)) (\<lambda>input.
      bnd (applyReconcileResult push conn ms' (reconcile input) links') f) t))"
    by (simp add: bnd_gets)
qed

lemma sync_fetched_spares: "memberships_unique s \<Longrightarrow> spared_from s (sync_fetched push conn ms em groups)"
  unfolding sync_fetched_def
  by (intro spared_step spared_reconcile keeps_intros)
     (auto intro!: keeps_intros keeps_update_many)

lemma spared_leaves:
  "spared_from s (ret x)" "spared_from s (update_connection k f)"
  by (rule spared_end, intro keeps_intros)+

lemma sync_spares_native: "memberships_unique s \<Longrightarrow> spared_from s (sync cipher push fetch k)"
  unfolding sync_def
  by (rule spared_step, rule keeps_intros, rule spared_step, rule keeps_intros)
     (auto intro!: spared_leaves spared_step sync_fetched_spares keeps_same_writes keeps_now
       split: option.split sum.split)

lemma syncUser_spares_native: "memberships_unique s \<Longrightarrow> spared_from s (syncUser cipher push fetch k x)"
  unfolding syncUser_def Let_def
  by (rule spared_step, rule keeps_intros, rule spared_step, rule keeps_intros, rule spared_step,
      rule keeps_intros)
     (auto intro!: spared_leaves spared_reconcile keeps_intros keeps_update_row
       split: option.split prod.split)

section \<open>The conflict winner in a run\<close>

lemma sync_input_winner:
  assumes "\<And>xs. known (map (rewin w) xs) = known xs"
  shows "sync_input k mem (map (rewin w) ms) links em known s =
    (sync_input k mem ms links em known s)\<lparr>ri_mappings := map (rewin w) (filter (\<lambda>m. \<not> mp_isBroken m) ms)\<rparr>"
  using assms
  by (simp add: sync_input_def Let_def existing_rows_def role_rows_def load_baseline_def filter_map
      comp_def image_image)

lemma sync_input_baseline:
  "m \<in> set (ri_mappings (sync_input k mem ms links em known s)) \<Longrightarrow> mp_syncDirection m = bidirectional \<Longrightarrow>
   ri_baseline (sync_input k mem ms links em known s) \<noteq> None"
  by (auto simp: sync_input_def Let_def load_baseline_def filter_empty_conv)

lemma reconcile_sync_winner:
  assumes "\<And>xs. known (map (rewin w) xs) = known xs"
  shows "reconcile (sync_input k mem (map (rewin w) ms) links em known s) =
    reconcile (sync_input k mem ms links em known s)"
proof -
  let ?in = "sync_input k mem ms links em known s"
  have "filter (\<lambda>m. \<not> mp_isBroken m) ms = ri_mappings ?in" by (simp add: sync_input_def Let_def)
  then have "sync_input k mem (map (rewin w) ms) links em known s =
      ?in\<lparr>ri_mappings := map (rewin w) (ri_mappings ?in)\<rparr>"
    using sync_input_winner [of known w k mem ms links em s, OF assms] by simp
  then show ?thesis using reconcile_winner [of ?in w] sync_input_baseline by simp
qed

end
