(* ===== verification/Auth.thy ===== *)
theory Auth
  imports Users
begin

text \<open>
  \<open>auth/session.service.ts\<close>, \<open>auth/session.guard.ts\<close>, \<open>auth/auth.service.ts\<close> and
  \<open>auth/verification.service.ts\<close>: sessions with an absolute and a sliding expiry, the CSRF check,
  the password login, and the one-time tokens that verify an email or reset a password. The token
  hash, the password hash and its check are arguments, and so are the random tokens drawn and the
  outcome of sending a mail. Emails are \<open>citext\<close> columns: compared without case.
\<close>

section \<open>Letter case and dates\<close>

definition lower_char :: "char \<Rightarrow> char" where
  "lower_char c =
     (let n = (of_char c :: nat)
      in if (65 \<le> n \<and> n \<le> 90) \<or> (192 \<le> n \<and> n \<le> 222 \<and> n \<noteq> 215) then char_of (n + 32) else c)"

definition toLowerCase :: "string \<Rightarrow> string" where
  "toLowerCase x = map lower_char x"

definition same_email :: "string \<Rightarrow> string option \<Rightarrow> bool" where
  "same_email email column \<longleftrightarrow>
     (case column of None \<Rightarrow> False | Some e \<Rightarrow> toLowerCase e = toLowerCase email)"

text \<open>\<open>new Date(ms)\<close> drops the fraction of a millisecond.\<close>

definition date_of :: "rat \<Rightarrow> time" where
  "date_of ms = (if ms < 0 then \<lceil>ms\<rceil> else \<lfloor>ms\<rfloor>)"

definition DAY_MS :: rat where
  "DAY_MS = 24 * 60 * 60 * 1000"

section \<open>Sessions\<close>

definition number_setting :: "string \<Rightarrow> rat \<Rightarrow> organization \<Rightarrow> rat" where
  "number_setting key d org = (case o_settings org key of Some (JNum (Fin x)) \<Rightarrow> x | _ \<Rightarrow> d)"

definition durations :: "(rat \<times> rat) svc" where
  "durations =
     bnd readOrg (\<lambda>org.
     ret (number_setting ''sessionAbsoluteDays'' 30 org, number_setting ''sessionIdleDays'' 7 org))"

type_synonym token_hash = "string \<Rightarrow> string"

definition sessions_create :: "token_hash \<Rightarrow> string \<Rightarrow> id \<Rightarrow> auth_provider \<Rightarrow> string svc" where
  "sessions_create hashToken token userId authMethod =
     bnd durations (\<lambda>(absoluteDays, idleDays).
     bnd now (\<lambda>t.
     bnd (gets sessions) (\<lambda>rows.
     bnd (check (hashToken token \<notin> se_tokenHash ` set rows) UniqueViolation) (\<lambda>_.
     bnd fresh_id (\<lambda>i.
     bnd (create_row sessions_update
            \<lparr>se_id = i, se_userId = userId, se_tokenHash = hashToken token,
             se_authMethod = authMethod, se_lastSeenAt = t,
             se_absoluteExpiresAt = date_of (of_int t + absoluteDays * DAY_MS),
             se_idleExpiresAt = date_of (of_int t + idleDays * DAY_MS), se_revokedAt = None\<rparr>) (\<lambda>_.
     ret token))))))"

record resolved_session =
  rs_sessionId :: id
  rs_userId :: id
  rs_organizationId :: id

definition session_by_token :: "token_hash \<Rightarrow> string \<Rightarrow> state \<Rightarrow> session_row option" where
  "session_by_token hashToken token s =
     List.find (\<lambda>e. se_tokenHash e = hashToken token) (sessions s)"

definition session_live :: "time \<Rightarrow> session_row \<Rightarrow> bool" where
  "session_live t e \<longleftrightarrow>
     se_revokedAt e = None \<and> \<not> (se_absoluteExpiresAt e \<le> t \<or> se_idleExpiresAt e \<le> t)"

definition resolve :: "token_hash \<Rightarrow> string \<Rightarrow> resolved_session option svc" where
  "resolve hashToken token =
     bnd (gets (session_by_token hashToken token)) (\<lambda>found.
     bnd now (\<lambda>t.
     case found of
       None \<Rightarrow> ret None
     | Some e \<Rightarrow>
         if \<not> session_live t e then ret None
         else
           bnd (find_unique_or_throw users u_id (se_userId e)) (\<lambda>user.
           if u_lifecycleState user \<noteq> active then ret None
           else
             bnd durations (\<lambda>(_, idleDays).
             bnd (update_row sessions sessions_update se_id (se_id e)
                    (\<lambda>e. e\<lparr>se_lastSeenAt := t,
                            se_idleExpiresAt := date_of (of_int t + idleDays * DAY_MS)\<rparr>)) (\<lambda>_.
             ret (Some \<lparr>rs_sessionId = se_id e, rs_userId = se_userId e,
                        rs_organizationId = u_organizationId user\<rparr>))))))"

definition revokeByToken :: "token_hash \<Rightarrow> string \<Rightarrow> unit svc" where
  "revokeByToken hashToken token =
     bnd now (\<lambda>t.
     update_many sessions_update (\<lambda>e. se_tokenHash e = hashToken token \<and> se_revokedAt e = None)
       (\<lambda>e. e\<lparr>se_revokedAt := Some t\<rparr>))"

definition revokeAllForUser :: "id \<Rightarrow> unit svc" where
  "revokeAllForUser userId = bnd now (revoke_sessions userId)"

section \<open>The guard\<close>

definition MUTATING :: "string list" where
  "MUTATING = [''POST'', ''PUT'', ''PATCH'', ''DELETE'']"

unbundle bit_operations_syntax

text \<open>\<open>diff |= a.charCodeAt(i) ^ b.charCodeAt(i)\<close> over two strings of one length.\<close>

fun char_diff :: "string \<Rightarrow> string \<Rightarrow> nat" where
  "char_diff (x # xs) (y # ys) = (of_char x XOR of_char y) OR char_diff xs ys"
| "char_diff _ _ = 0"

definition timingEqual :: "string \<Rightarrow> string \<Rightarrow> bool" where
  "timingEqual a b = (if length a \<noteq> length b then False else char_diff a b = 0)"

definition enforceCsrf :: "string option \<Rightarrow> string option \<Rightarrow> unit svc" where
  "enforceCsrf cookieToken headerToken =
     (case (truthy cookieToken, truthy headerToken) of
        (Some c, Some h) \<Rightarrow>
          check (length c = length h \<and> timingEqual c h) (DeniedError ''CSRF_FAILED'')
      | _ \<Rightarrow> throw (DeniedError ''CSRF_FAILED''))"

record http_request =
  hr_method :: string
  hr_sessionCookie :: "string option"
  hr_csrfCookie :: "string option"
  hr_csrfHeader :: "string option"

definition session_canActivate :: "token_hash \<Rightarrow> http_request \<Rightarrow> resolved_session option svc" where
  "session_canActivate hashToken req =
     (case truthy (hr_sessionCookie req) of
        None \<Rightarrow> ret None
      | Some token \<Rightarrow>
          bnd (resolve hashToken token) (\<lambda>resolved.
          case resolved of
            None \<Rightarrow> ret None
          | Some r \<Rightarrow>
              bnd (if hr_method req \<in> set MUTATING
                   then enforceCsrf (hr_csrfCookie req) (hr_csrfHeader req) else ret ()) (\<lambda>_.
              ret (Some r))))"

section \<open>Password login\<close>

definition user_by_email :: "string \<Rightarrow> state \<Rightarrow> app_user option" where
  "user_by_email email s =
     List.find (\<lambda>u. same_email email (u_email u) \<and> u_lifecycleState u = active) (users s)"

definition password_identity :: "id \<Rightarrow> state \<Rightarrow> user_identity option" where
  "password_identity userId s =
     List.find (\<lambda>i. ui_userId i = userId \<and> ui_provider i = prov_password) (identities s)"

type_synonym password_check = "string \<Rightarrow> string \<Rightarrow> bool"

definition requireVerifiedLogin :: "id \<Rightarrow> bool svc" where
  "requireVerifiedLogin organizationId =
     bnd (find_unique_or_throw organizations o_id organizationId) (\<lambda>org.
     ret (o_settings org ''requireVerifiedEmailToLogIn'' = Some (JBool True)))"

text \<open>An unknown email, a member without a password and a wrong password are told apart by nothing.\<close>

definition verifyPassword :: "password_check \<Rightarrow> string \<Rightarrow> string \<Rightarrow> id svc" where
  "verifyPassword verify email password =
     bnd (gets (user_by_email email)) (\<lambda>found.
     bnd (gets (\<lambda>s. case found of None \<Rightarrow> None | Some u \<Rightarrow> password_identity (u_id u) s)) (\<lambda>identity.
     case (found, identity) of
       (Some user, Some i) \<Rightarrow>
         (case truthy (ui_passwordHash i) of
            None \<Rightarrow> throw UnauthenticatedError
          | Some h \<Rightarrow>
              bnd (check (verify h password) UnauthenticatedError) (\<lambda>_.
              bnd (requireVerifiedLogin (u_organizationId user)) (\<lambda>gated.
              bnd (check (gated \<longrightarrow> ui_verifiedAt i \<noteq> None) (DeniedError ''EMAIL_NOT_VERIFIED'')) (\<lambda>_.
              ret (u_id user)))))
     | _ \<Rightarrow> throw UnauthenticatedError))"

record me_view =
  me_id :: id
  me_organizationId :: id
  me_email :: "string option"
  me_displayName :: string
  me_emailVerified :: bool
  me_authMethods :: "auth_provider list"
  me_hasDiscordLink :: bool
  me_discordHandle :: "string option"
  me_avatarUrl :: "string option"
  me_inviteCreate :: bool
  me_manageOrg :: bool

definition active_link :: "id \<Rightarrow> state \<Rightarrow> external_identity option" where
  "active_link userId s =
     newest_synced (filter (\<lambda>e. ei_userId e = userId \<and> connection_active (ei_connectionId e) s)
       (external_identities s))"

definition getMe :: "cedar_engine \<Rightarrow> id \<Rightarrow> me_view svc" where
  "getMe isAuthorized userId =
     bnd (find_unique users u_id userId) (\<lambda>found.
     bnd (need found UnauthenticatedError) (\<lambda>user.
     bnd (decide isAuthorized (u_id user) ''invite:create''
            (Organization, Eid (u_organizationId user), [])) (\<lambda>inviteCreate.
     bnd (decide isAuthorized (u_id user) ''grant:create''
            (Organization, Eid (u_organizationId user), [])) (\<lambda>manageOrg.
     bnd (gets (active_link (u_id user))) (\<lambda>link.
     bnd (gets (\<lambda>s. filter (\<lambda>i. ui_userId i = u_id user) (identities s))) (\<lambda>ids.
     ret \<lparr>me_id = u_id user, me_organizationId = u_organizationId user, me_email = u_email user,
          me_displayName = u_displayName user,
          me_emailVerified =
            (case List.find (\<lambda>i. ui_provider i = prov_password) ids of
               None \<Rightarrow> True | Some i \<Rightarrow> ui_verifiedAt i \<noteq> None),
          me_authMethods = map ui_provider ids,
          me_hasDiscordLink = (link \<noteq> None),
          me_discordHandle = (case link of None \<Rightarrow> None | Some e \<Rightarrow> ei_externalHandle e),
          me_avatarUrl = (case link of None \<Rightarrow> None
             | Some e \<Rightarrow> discordAvatarUrl (Some (ei_externalUserId e)) (ei_externalAvatarHash e)),
          me_inviteCreate = inviteCreate, me_manageOrg = manageOrg\<rparr>))))))"

section \<open>One-time tokens\<close>

definition VERIFICATION_TTL_MS :: int where
  "VERIFICATION_TTL_MS = 24 * 60 * 60 * 1000"

definition RESET_TTL_MS :: int where
  "RESET_TTL_MS = 60 * 60 * 1000"

text \<open>Sending a mail: to whom, with which token; the error it fails with.\<close>

type_synonym mailer = "string \<Rightarrow> string \<Rightarrow> err option"

definition send_mail :: "mailer \<Rightarrow> string \<Rightarrow> string \<Rightarrow> unit svc" where
  "send_mail send email token = (case send email token of None \<Rightarrow> ret () | Some e \<Rightarrow> throw e)"

definition issueToken :: "token_hash \<Rightarrow> string \<Rightarrow> id \<Rightarrow> token_kind \<Rightarrow> int \<Rightarrow> string svc" where
  "issueToken hashToken token userId kind ttlMs =
     bnd now (\<lambda>t.
     bnd (gets auth_tokens) (\<lambda>rows.
     bnd (check (hashToken token \<notin> tk_tokenHash ` set rows) UniqueViolation) (\<lambda>_.
     bnd fresh_id (\<lambda>i.
     bnd (create_row auth_tokens_update
            \<lparr>tk_id = i, tk_userId = userId, tk_kind = kind, tk_tokenHash = hashToken token,
             tk_expiresAt = t + ttlMs, tk_consumedAt = None\<rparr>) (\<lambda>_.
     ret token)))))"

definition usable_token :: "token_hash \<Rightarrow> string \<Rightarrow> token_kind \<Rightarrow> state \<Rightarrow> auth_token option" where
  "usable_token hashToken token kind s =
     (case List.find (\<lambda>k. tk_tokenHash k = hashToken token) (auth_tokens s) of
        None \<Rightarrow> None
      | Some row \<Rightarrow>
          if tk_kind row \<noteq> kind then None
          else if tk_consumedAt row \<noteq> None then None
          else if tk_expiresAt row \<le> clock s then None
          else Some row)"

definition consumableToken :: "token_hash \<Rightarrow> string \<Rightarrow> token_kind \<Rightarrow> auth_token option svc" where
  "consumableToken hashToken token kind = gets (usable_token hashToken token kind)"

definition issueVerification :: "token_hash \<Rightarrow> mailer \<Rightarrow> string \<Rightarrow> id \<Rightarrow> string \<Rightarrow> unit svc" where
  "issueVerification hashToken send token userId email =
     bnd (issueToken hashToken token userId email_verification VERIFICATION_TTL_MS) (\<lambda>tok.
     send_mail send email tok)"

definition unverified_password :: "id \<Rightarrow> state \<Rightarrow> bool" where
  "unverified_password userId s \<longleftrightarrow>
     (\<exists>i \<in> set (identities s). ui_userId i = userId \<and> ui_provider i = prov_password \<and> ui_verifiedAt i = None)"

definition resendVerification :: "token_hash \<Rightarrow> mailer \<Rightarrow> string \<Rightarrow> string \<Rightarrow> unit svc" where
  "resendVerification hashToken send token email =
     bnd (gets (user_by_email email)) (\<lambda>found.
     case found of
       None \<Rightarrow> ret ()
     | Some user \<Rightarrow>
         bnd (gets (unverified_password (u_id user))) (\<lambda>unverified.
         case truthy (u_email user) of
           None \<Rightarrow> ret ()
         | Some to_address \<Rightarrow>
             if unverified then issueVerification hashToken send token (u_id user) to_address
             else ret ()))"

definition confirmVerification :: "token_hash \<Rightarrow> string \<Rightarrow> unit svc" where
  "confirmVerification hashToken token =
     bnd (consumableToken hashToken token email_verification) (\<lambda>found.
     bnd (need found (ValidationError ''token'')) (\<lambda>row.
     bnd now (\<lambda>t.
     transaction (
       bnd (update_row auth_tokens auth_tokens_update tk_id (tk_id row)
              (\<lambda>k. k\<lparr>tk_consumedAt := Some t\<rparr>)) (\<lambda>_.
       update_many identities_update
         (\<lambda>i. ui_userId i = tk_userId row \<and> ui_provider i = prov_password)
         (\<lambda>i. i\<lparr>ui_verifiedAt := Some t\<rparr>))))))"

definition requestPasswordReset :: "token_hash \<Rightarrow> mailer \<Rightarrow> string \<Rightarrow> string \<Rightarrow> unit svc" where
  "requestPasswordReset hashToken send token email =
     bnd (gets (user_by_email email)) (\<lambda>found.
     case found of
       None \<Rightarrow> ret ()
     | Some user \<Rightarrow>
         (case truthy (u_email user) of
            None \<Rightarrow> ret ()
          | Some to_address \<Rightarrow>
              bnd (issueToken hashToken token (u_id user) password_reset RESET_TTL_MS) (\<lambda>tok.
              send_mail send to_address tok)))"

definition confirmPasswordReset ::
  "token_hash \<Rightarrow> (string \<Rightarrow> string) \<Rightarrow> string \<Rightarrow> string \<Rightarrow> unit svc" where
  "confirmPasswordReset hashToken hashPassword token newPassword =
     bnd (consumableToken hashToken token password_reset) (\<lambda>found.
     bnd (need found (ValidationError ''token'')) (\<lambda>row.
     bnd (gets (password_identity (tk_userId row))) (\<lambda>identity.
     case identity of
       None \<Rightarrow> throw (ValidationError ''unverified'')
     | Some i \<Rightarrow>
         bnd (check (ui_verifiedAt i \<noteq> None) (ValidationError ''unverified'')) (\<lambda>_.
         bnd now (\<lambda>t.
         transaction (
           bnd (update_row auth_tokens auth_tokens_update tk_id (tk_id row)
                  (\<lambda>k. k\<lparr>tk_consumedAt := Some t\<rparr>)) (\<lambda>_.
           bnd (update_row identities identities_update ui_id (ui_id i)
                  (\<lambda>i. i\<lparr>ui_passwordHash := Some (hashPassword newPassword)\<rparr>)) (\<lambda>_.
           revokeAllForUser (tk_userId row)))))))))"

section \<open>The comparison of tokens\<close>


lemma xor_or_0: "(a XOR b) OR d = 0 \<longleftrightarrow> a = b \<and> d = 0" for a b d :: nat
  by (auto simp: bit_eq_iff bit_or_iff bit_xor_iff)

lemma char_diff_0: "length a = length b \<Longrightarrow> char_diff a b = 0 \<longleftrightarrow> a = b"
proof (induction a b rule: char_diff.induct)
  case (1 x xs y ys)
  have "of_char x = (of_char y :: nat) \<longleftrightarrow> x = y" by simp
  then show ?case using 1 by (simp add: xor_or_0)
qed auto

lemma timingEqual_iff: "timingEqual a b \<longleftrightarrow> a = b"
  by (auto simp: timingEqual_def char_diff_0)

lemma enforceCsrf_iff:
  "fst (enforceCsrf c h s) = Inr () \<longleftrightarrow> truthy c \<noteq> None \<and> truthy c = truthy h"
  by (auto simp: enforceCsrf_def op_simps timingEqual_iff split: option.split)

end
