(* ===== verification/Gateway.thy ===== *)
theory Gateway
  imports Activity
begin

text \<open>
  \<open>integrations/gateway/gateway-connection.state-machine.ts\<close>: the pure state machine behind the
  provider's event socket. \<open>Math.random()\<close> is an argument of the step that draws it. The machine is
  compared with what the events received so far say: the session that can be resumed, the last
  sequence number, the failures since the last success.
\<close>

section \<open>The machine\<close>

datatype gateway_state = disconnected | connecting | identifying | ready | resuming

record gateway_context =
  gx_state :: gateway_state
  gx_sessionId :: "string option"
  gx_resumeGatewayUrl :: "string option"
  gx_sequenceNumber :: "int option"
  gx_heartbeatInterval :: "int option"
  gx_missedHeartbeats :: nat
  gx_reconnectAttempt :: nat
  gx_isNewSession :: bool

datatype gateway_event =
  OPEN | HELLO int | READY string string | RESUMED | HEARTBEAT_ACK | HEARTBEAT_MISSED
| CLOSE nat | DISPATCH int string string | INVALID_SESSION bool

datatype gateway_action =
  SEND_IDENTIFY string | SEND_RESUME string string int | SEND_HEARTBEAT "int option"
| START_HEARTBEAT int | SCHEDULE_RECONNECT rat | EMIT_MEMBER_EVENT string string
| TRIGGER_RECONCILE | EMIT_HEALTH bool

definition NON_RESUMABLE_CODES :: "nat list" where
  "NON_RESUMABLE_CODES = [4004, 4010, 4011, 4012, 4013, 4014]"

definition BASE_RECONNECT_MS :: rat where
  "BASE_RECONNECT_MS = 1000"

definition MAX_RECONNECT_MS :: rat where
  "MAX_RECONNECT_MS = 30000"

definition MEMBER_EVENTS :: "string list" where
  "MEMBER_EVENTS =
     [''GUILD_MEMBER_ADD'', ''GUILD_MEMBER_UPDATE'', ''GUILD_MEMBER_REMOVE'', ''GUILD_ROLE_CREATE'',
      ''GUILD_ROLE_UPDATE'', ''GUILD_ROLE_DELETE'']"

definition initialContext :: gateway_context where
  "initialContext =
     \<lparr>gx_state = disconnected, gx_sessionId = None, gx_resumeGatewayUrl = None,
      gx_sequenceNumber = None, gx_heartbeatInterval = None, gx_missedHeartbeats = 0,
      gx_reconnectAttempt = 0, gx_isNewSession = False\<rparr>"

definition reconnectDelay :: "rat \<Rightarrow> nat \<Rightarrow> rat" where
  "reconnectDelay random attempt =
     min (BASE_RECONNECT_MS * 2 ^ attempt + random * 1000) MAX_RECONNECT_MS"

text \<open>The session and the number a RESUME needs; the empty session id is falsy.\<close>

definition resumable :: "gateway_context \<Rightarrow> (string \<times> int) option" where
  "resumable ctx =
     (case (truthy (gx_sessionId ctx), gx_sequenceNumber ctx) of
        (Some sid, Some n) \<Rightarrow> if 0 \<notin> set NON_RESUMABLE_CODES then Some (sid, n) else None
      | _ \<Rightarrow> None)"

definition drop_connection :: "rat \<Rightarrow> gateway_context \<Rightarrow> gateway_context \<times> gateway_action list" where
  "drop_connection random ctx =
     (ctx\<lparr>gx_state := disconnected, gx_missedHeartbeats := 0,
          gx_reconnectAttempt := gx_reconnectAttempt ctx + 1\<rparr>,
      [SCHEDULE_RECONNECT (reconnectDelay random (gx_reconnectAttempt ctx)), EMIT_HEALTH False])"

fun handle ::
  "string \<Rightarrow> rat \<Rightarrow> gateway_context \<Rightarrow> gateway_event \<Rightarrow> gateway_context \<times> gateway_action list" where
  "handle token random ctx OPEN = (ctx\<lparr>gx_state := connecting\<rparr>, [])"
| "handle token random ctx (HELLO interval) =
     (let next = ctx\<lparr>gx_heartbeatInterval := Some interval\<rparr>;
          beats = [START_HEARTBEAT interval, SEND_HEARTBEAT (gx_sequenceNumber ctx)]
      in case resumable ctx of
           Some (sid, n) \<Rightarrow>
             (next\<lparr>gx_state := resuming, gx_isNewSession := False\<rparr>, beats @ [SEND_RESUME token sid n])
         | None \<Rightarrow>
             (next\<lparr>gx_state := identifying, gx_isNewSession := True\<rparr>, beats @ [SEND_IDENTIFY token]))"
| "handle token random ctx (READY sid url) =
     (ctx\<lparr>gx_state := ready, gx_sessionId := Some sid, gx_resumeGatewayUrl := Some url,
          gx_reconnectAttempt := 0, gx_isNewSession := True\<rparr>,
      [TRIGGER_RECONCILE, EMIT_HEALTH True])"
| "handle token random ctx RESUMED =
     (ctx\<lparr>gx_state := ready, gx_reconnectAttempt := 0, gx_isNewSession := False\<rparr>, [EMIT_HEALTH True])"
| "handle token random ctx HEARTBEAT_ACK = (ctx\<lparr>gx_missedHeartbeats := 0\<rparr>, [])"
| "handle token random ctx HEARTBEAT_MISSED =
     (let next = ctx\<lparr>gx_missedHeartbeats := gx_missedHeartbeats ctx + 1\<rparr>
      in if 3 \<le> gx_missedHeartbeats next then drop_connection random next else (next, []))"
| "handle token random ctx (CLOSE code) =
     drop_connection random
       (if code \<in> set NON_RESUMABLE_CODES
        then ctx\<lparr>gx_sessionId := None, gx_sequenceNumber := None\<rparr> else ctx)"
| "handle token random ctx (DISPATCH n name data) =
     (ctx\<lparr>gx_sequenceNumber := Some n\<rparr>,
      if name \<in> set MEMBER_EVENTS then [EMIT_MEMBER_EVENT name data] else [])"
| "handle token random ctx (INVALID_SESSION canResume) =
     ((if canResume then ctx else ctx\<lparr>gx_sessionId := None, gx_sequenceNumber := None\<rparr>)
        \<lparr>gx_state := identifying, gx_isNewSession := True\<rparr>,
      [SCHEDULE_RECONNECT (1000 + random * 4000)])"

text \<open>A run: every event with the number drawn for it.\<close>

definition run :: "string \<Rightarrow> (gateway_event \<times> rat) list \<Rightarrow> gateway_context" where
  "run token es = foldl (\<lambda>ctx (e, random). fst (handle token random ctx e)) initialContext es"

section \<open>What the events say\<close>

text \<open>Folds over the events alone, newest last.\<close>

definition invalidates :: "gateway_event \<Rightarrow> bool" where
  "invalidates e \<longleftrightarrow>
     (case e of CLOSE code \<Rightarrow> code \<in> set NON_RESUMABLE_CODES | INVALID_SESSION r \<Rightarrow> \<not> r | _ \<Rightarrow> False)"

fun last_of :: "(gateway_event \<Rightarrow> 'a option) \<Rightarrow> 'a option \<Rightarrow> gateway_event list \<Rightarrow> 'a option" where
  "last_of f x [] = x"
| "last_of f x (e # es) =
     last_of f (if invalidates e then None else case f e of None \<Rightarrow> x | Some y \<Rightarrow> Some y) es"

definition ready_session :: "gateway_event \<Rightarrow> string option" where
  "ready_session e = (case e of READY sid url \<Rightarrow> Some sid | _ \<Rightarrow> None)"

definition dispatch_number :: "gateway_event \<Rightarrow> int option" where
  "dispatch_number e = (case e of DISPATCH n name data \<Rightarrow> Some n | _ \<Rightarrow> None)"

text \<open>The id of the newest READY, and the number of the newest DISPATCH, since the session was last
  invalidated.\<close>

definition session_of :: "gateway_event list \<Rightarrow> string option" where
  "session_of es = last_of ready_session None es"

definition sequence_of :: "gateway_event list \<Rightarrow> int option" where
  "sequence_of es = last_of dispatch_number None es"

text \<open>Heartbeats missed in a row, and connections dropped since the last READY or RESUMED.\<close>

fun missed_of :: "nat \<Rightarrow> gateway_event list \<Rightarrow> nat" where
  "missed_of m [] = m"
| "missed_of m (HEARTBEAT_MISSED # es) = missed_of (if m = 2 then 0 else Suc m) es"
| "missed_of m (HEARTBEAT_ACK # es) = missed_of 0 es"
| "missed_of m (CLOSE c # es) = missed_of 0 es"
| "missed_of m (e # es) = missed_of m es"

fun drops_of :: "nat \<Rightarrow> nat \<Rightarrow> gateway_event list \<Rightarrow> nat" where
  "drops_of m d [] = d"
| "drops_of m d (HEARTBEAT_MISSED # es) =
     (if m = 2 then drops_of 0 (Suc d) es else drops_of (Suc m) d es)"
| "drops_of m d (HEARTBEAT_ACK # es) = drops_of 0 d es"
| "drops_of m d (CLOSE c # es) = drops_of 0 (Suc d) es"
| "drops_of m d (READY sid url # es) = drops_of m 0 es"
| "drops_of m d (RESUMED # es) = drops_of m 0 es"
| "drops_of m d (e # es) = drops_of m d es"

text \<open>One step of the machine against one step of each of them.\<close>

lemma handle_session:
  "gx_sessionId (fst (handle token random ctx e)) =
     (if invalidates e then None
      else case ready_session e of None \<Rightarrow> gx_sessionId ctx | Some y \<Rightarrow> Some y)"
  "gx_sequenceNumber (fst (handle token random ctx e)) =
     (if invalidates e then None
      else case dispatch_number e of None \<Rightarrow> gx_sequenceNumber ctx | Some y \<Rightarrow> Some y)"
  by (cases e; simp add: invalidates_def ready_session_def dispatch_number_def drop_connection_def
      Let_def split: option.split prod.split)+

lemma run_from:
  "gx_sessionId (foldl (\<lambda>ctx (e, random). fst (handle token random ctx e)) ctx es) =
     last_of ready_session (gx_sessionId ctx) (map fst es)"
  "gx_sequenceNumber (foldl (\<lambda>ctx (e, random). fst (handle token random ctx e)) ctx es) =
     last_of dispatch_number (gx_sequenceNumber ctx) (map fst es)"
  by (induction es arbitrary: ctx) (simp_all add: handle_session case_prod_beta)

lemma run_session:
  "gx_sessionId (run token es) = session_of (map fst es)"
  "gx_sequenceNumber (run token es) = sequence_of (map fst es)"
  by (simp_all add: run_from run_def session_of_def sequence_of_def initialContext_def)

lemma run_counts_from:
  "gx_missedHeartbeats ctx < 3 \<Longrightarrow>
   (let end = foldl (\<lambda>ctx (e, random). fst (handle token random ctx e)) ctx es in
    gx_missedHeartbeats end = missed_of (gx_missedHeartbeats ctx) (map fst es) \<and>
    gx_reconnectAttempt end = drops_of (gx_missedHeartbeats ctx) (gx_reconnectAttempt ctx) (map fst es) \<and>
    gx_missedHeartbeats end < 3)"
proof (induction es arbitrary: ctx)
  case (Cons p es)
  obtain e random where p: "p = (e, random)" by (cases p)
  show ?case
    using Cons.IH [of "fst (handle token random ctx e)"] Cons.prems
    by (cases e) (auto simp: p Let_def drop_connection_def if_distrib [of gx_missedHeartbeats]
        if_distrib [of gx_reconnectAttempt] cong: if_cong split: option.split prod.split)
qed simp

lemma run_counts:
  "gx_missedHeartbeats (run token es) = missed_of 0 (map fst es)"
  "gx_reconnectAttempt (run token es) = drops_of 0 0 (map fst es)"
  "gx_missedHeartbeats (run token es) < 3"
  using run_counts_from [of initialContext token es] by (simp_all add: run_def Let_def initialContext_def)

section \<open>Delays\<close>

lemma reconnectDelay_bounds:
  assumes "0 \<le> random" "random < 1"
  shows "BASE_RECONNECT_MS \<le> reconnectDelay random n" "reconnectDelay random n \<le> MAX_RECONNECT_MS"
proof -
  have "(1000::rat) * 1 \<le> 1000 * 2 ^ n" by (intro mult_left_mono) simp_all
  moreover have "0 \<le> random * 1000" using assms(1) by simp
  ultimately have "(1000::rat) \<le> 1000 * 2 ^ n + random * 1000" by linarith
  then show "BASE_RECONNECT_MS \<le> reconnectDelay random n"
    by (simp add: reconnectDelay_def BASE_RECONNECT_MS_def MAX_RECONNECT_MS_def)
  show "reconnectDelay random n \<le> MAX_RECONNECT_MS"
    by (simp add: reconnectDelay_def)
qed

lemma reconnectDelay_capped:
  assumes "0 \<le> random" and "5 \<le> n"
  shows "reconnectDelay random n = MAX_RECONNECT_MS"
proof -
  have "(2::rat) ^ 5 \<le> 2 ^ n" using assms(2) by (intro power_increasing) simp_all
  then have "(30000::rat) \<le> 1000 * 2 ^ n + random * 1000" using assms(1) by simp
  then show ?thesis by (simp add: reconnectDelay_def BASE_RECONNECT_MS_def MAX_RECONNECT_MS_def)
qed

end
