(* ===== verification/Auth_Properties.thy ===== *)
theory Auth_Properties
  imports Auth Gateway Examples
begin

text \<open>
  Sessions and one-time tokens over whole histories of authentication calls: what is dead stays
  dead. And the event socket's machine against what the events themselves say.
\<close>

section \<open>Histories\<close>

text \<open>The calls of the authentication endpoints, with the tokens drawn for them; \<open>Wait\<close> lets time pass.\<close>

datatype auth_call =
  Open_Session string id auth_provider | Use_Session string | Close_Session string
| Resend_Verification string string | Confirm_Verification string
| Request_Reset string string | Confirm_Reset string string | Wait nat

fun serve_auth ::
  "token_hash \<Rightarrow> (string \<Rightarrow> string) \<Rightarrow> mailer \<Rightarrow> auth_call \<Rightarrow> state \<Rightarrow> state" where
  "serve_auth h pw mail (Open_Session tok u p) s = snd (sessions_create h tok u p s)"
| "serve_auth h pw mail (Use_Session tok) s = snd (resolve h tok s)"
| "serve_auth h pw mail (Close_Session tok) s = snd (revokeByToken h tok s)"
| "serve_auth h pw mail (Resend_Verification tok email) s = snd (resendVerification h mail tok email s)"
| "serve_auth h pw mail (Confirm_Verification tok) s = snd (confirmVerification h tok s)"
| "serve_auth h pw mail (Request_Reset tok email) s = snd (requestPasswordReset h mail tok email s)"
| "serve_auth h pw mail (Confirm_Reset tok new) s = snd (confirmPasswordReset h pw tok new s)"
| "serve_auth h pw mail (Wait ms) s = s\<lparr>clock := clock s + int ms\<rparr>"

definition serve_auths ::
  "token_hash \<Rightarrow> (string \<Rightarrow> string) \<Rightarrow> mailer \<Rightarrow> auth_call list \<Rightarrow> state \<Rightarrow> state" where
  "serve_auths h pw mail calls s = fold (serve_auth h pw mail) calls s"

lemma serve_auths_inv:
  assumes "\<And>c s. P s \<Longrightarrow> P (serve_auth h pw mail c s)"
  shows "P s \<Longrightarrow> P (serve_auths h pw mail calls s)"
  unfolding serve_auths_def by (induction calls arbitrary: s) (simp_all add: assms)

section \<open>Sessions that ended, tokens that were used\<close>

text \<open>The session of that id is revoked or past its absolute expiry, and the id is not free.\<close>

definition ended :: "id \<Rightarrow> state \<Rightarrow> bool" where
  "ended i s \<longleftrightarrow> i < next_id s \<and>
     (\<forall>e \<in> set (sessions s). se_id e = i \<longrightarrow> se_revokedAt e \<noteq> None \<or> se_absoluteExpiresAt e \<le> clock s)"

definition spent :: "string \<Rightarrow> state \<Rightarrow> bool" where
  "spent h s \<longleftrightarrow> h \<in> tk_tokenHash ` set (auth_tokens s) \<and>
     (\<forall>k \<in> set (auth_tokens s). tk_tokenHash k = h \<longrightarrow> tk_consumedAt k \<noteq> None)"

lemma cache_free_ended [keeps_intros]: "cache_free (ended i)" "cache_free (spent h)"
  by (simp_all add: cache_free_def ended_def spent_def)

lemma ended_frame [simp]:
  "ended i (auth_tokens_update f s) = ended i s" "ended i (identities_update f1 s) = ended i s"
  "spent h (sessions_update f2 s) = spent h s" "spent h (identities_update f1 s) = spent h s"
  by (simp_all add: ended_def spent_def)

lemma ended_fresh [simp]: "ended i s \<Longrightarrow> ended i (s\<lparr>next_id := Suc (next_id s)\<rparr>)"
  "spent h (s\<lparr>next_id := k\<rparr>) = spent h s"
  by (simp_all add: ended_def spent_def)

lemma ended_upd:
  assumes "\<And>e. se_id (f e) = se_id e" "\<And>e. se_absoluteExpiresAt (f e) = se_absoluteExpiresAt e"
    and "\<And>e. se_revokedAt e \<noteq> None \<Longrightarrow> se_revokedAt (f e) \<noteq> None" and "ended i s"
  shows "ended i (sessions_update (upd_where Q f) s)"
  using assms(3,4) by (auto simp: ended_def ball_upd_where assms(1,2))

lemma spent_upd:
  assumes "\<And>k. tk_tokenHash (f k) = tk_tokenHash k" and "\<And>k. tk_consumedAt k \<noteq> None \<Longrightarrow> tk_consumedAt (f k) \<noteq> None"
    and "spent h s"
  shows "spent h (auth_tokens_update (upd_where Q f) s)"
  using assms(2,3) by (auto simp: spent_def ball_upd_where assms(1) image_upd_where)

lemma spent_issue: "spent h s \<Longrightarrow> spent h (snd (issueToken hash tok u k ttl s))"
  by (auto simp: issueToken_def op_simps spent_def)

lemma ended_issue: "ended i s \<Longrightarrow> ended i (snd (issueToken hash tok u k ttl s))"
  by (auto simp: issueToken_def op_simps ended_def)

lemma durations_run [op_simps]:
  "bnd durations f s =
     (case organizations s of [] \<Rightarrow> (Inl RecordNotFound, s)
      | org # _ \<Rightarrow> f (number_setting ''sessionAbsoluteDays'' 30 org, number_setting ''sessionIdleDays'' 7 org) s)"
  by (simp add: durations_def readOrg_def bnd_assoc op_simps split: list.split)

lemma keeps_durations [keeps_intros]: "keeps P durations"
  unfolding durations_def readOrg_def by (auto intro!: keeps_intros split: list.split)

lemma ended_create: "ended i s \<Longrightarrow> ended i (snd (sessions_create hash tok u p s))"
  by (auto simp: sessions_create_def op_simps ended_def split: list.split)

lemma keeps_issue [keeps_intros]:
  "keeps (ended i) (issueToken hash tok u k ttl)" "keeps (spent h) (issueToken hash tok u k ttl)"
  by (simp_all add: keeps_def ended_issue spent_issue)

lemma keeps_mail [keeps_intros]: "keeps P (send_mail send email tok)"
  by (auto simp: send_mail_def intro!: keeps_intros split: option.split)

lemma keeps_revoke [keeps_intros]:
  "keeps (ended i) (revokeAllForUser u)" "keeps (spent h) (revokeAllForUser u)"
  "keeps (ended i) (revokeByToken hash tok)" "keeps (spent h) (revokeByToken hash tok)"
  unfolding revokeAllForUser_def revoke_sessions_def revokeByToken_def
  by (intro keeps_intros keeps_update_many ended_upd; simp)+

lemma keeps_sessions:
  "keeps (ended i) (sessions_create hash tok u p)" "keeps (spent h) (sessions_create hash tok u p)"
  "keeps (ended i) (resolve hash tok)" "keeps (spent h) (resolve hash tok)"
proof -
  show "keeps (ended i) (sessions_create hash tok u p)" by (simp add: keeps_def ended_create)
  show "keeps (spent h) (sessions_create hash tok u p)"
    unfolding sessions_create_def by (intro keeps_intros keeps_table) simp_all
  show "keeps (ended i) (resolve hash tok)" "keeps (spent h) (resolve hash tok)"
    unfolding resolve_def
    by (intro keeps_intros keeps_update_row ended_upd; simp)+
qed

lemma keeps_tokens:
  "keeps (ended i) (resendVerification hash mail tok email)" "keeps (spent h) (resendVerification hash mail tok email)"
  "keeps (ended i) (requestPasswordReset hash mail tok email)" "keeps (spent h) (requestPasswordReset hash mail tok email)"
  unfolding resendVerification_def requestPasswordReset_def issueVerification_def
  by (intro keeps_intros)+

lemma keeps_consume [keeps_intros]:
  "keeps (ended i) (update_row auth_tokens auth_tokens_update tk_id k (\<lambda>k. k\<lparr>tk_consumedAt := Some t\<rparr>))"
  "keeps (spent h) (update_row auth_tokens auth_tokens_update tk_id k (\<lambda>k. k\<lparr>tk_consumedAt := Some t\<rparr>))"
  by (intro keeps_update_row spent_upd; simp)+

lemma keeps_identity [keeps_intros]:
  "keeps (ended i) (update_row identities identities_update ui_id k f)"
  "keeps (spent h) (update_row identities identities_update ui_id k f)"
  "keeps (ended i) (update_many identities_update Q f)" "keeps (spent h) (update_many identities_update Q f)"
  by (intro keeps_update_row keeps_update_many; simp)+

lemma keeps_confirm:
  "keeps (ended i) (confirmVerification hash tok)" "keeps (spent h) (confirmVerification hash tok)"
  "keeps (ended i) (confirmPasswordReset hash pw tok new)" "keeps (spent h) (confirmPasswordReset hash pw tok new)"
  unfolding confirmVerification_def confirmPasswordReset_def consumableToken_def
  by (intro keeps_intros)+

lemma ended_serve: "ended i s \<Longrightarrow> ended i (serve_auth h pw mail c s)"
  by (cases c) (auto simp: keepsD_snd [OF keeps_sessions(1)] keepsD_snd [OF keeps_sessions(3)]
      keepsD_snd [OF keeps_revoke(3)] keepsD_snd [OF keeps_tokens(1)] keepsD_snd [OF keeps_tokens(3)]
      keepsD_snd [OF keeps_confirm(1)] keepsD_snd [OF keeps_confirm(3)], auto simp: ended_def)

lemma spent_serve: "spent x s \<Longrightarrow> spent x (serve_auth h pw mail c s)"
  by (cases c) (auto simp: keepsD_snd [OF keeps_sessions(2)] keepsD_snd [OF keeps_sessions(4)]
      keepsD_snd [OF keeps_revoke(4)] keepsD_snd [OF keeps_tokens(2)] keepsD_snd [OF keeps_tokens(4)]
      keepsD_snd [OF keeps_confirm(2)] keepsD_snd [OF keeps_confirm(4)], auto simp: spent_def)

section \<open>What a use of them sees\<close>

lemma resolve_live:
  "fst (resolve h tok s) = Inr (Some r) \<Longrightarrow>
   \<exists>e \<in> set (sessions s). se_id e = rs_sessionId r \<and> se_tokenHash e = h tok \<and> session_live (clock s) e"
  unfolding resolve_def session_by_token_def
  by (auto simp: op_simps split: option.splits if_splits list.splits dest!: find_SomeD)

lemma ended_unresolved:
  "ended i s \<Longrightarrow> fst (resolve h tok s) = Inr (Some r) \<Longrightarrow> rs_sessionId r \<noteq> i"
  by (drule resolve_live) (auto simp: ended_def session_live_def)

lemma spent_unusable: "spent (h tok) s \<Longrightarrow> usable_token h tok kind s = None"
  by (auto simp: usable_token_def spent_def split: option.split dest!: find_SomeD)

lemma reset_run:
  assumes "confirmPasswordReset h pw tok new s = (Inr (), t)"
  obtains row ident where "usable_token h tok password_reset s = Some row"
    and "password_identity (tk_userId row) s = Some ident" and "ui_verifiedAt ident \<noteq> None"
    and "sessions t = upd_where (\<lambda>e. se_userId e = tk_userId row \<and> se_revokedAt e = None)
           (\<lambda>e. e\<lparr>se_revokedAt := Some (clock s)\<rparr>) (sessions s)"
    and "identities t = upd_where (\<lambda>q. ui_id q = ui_id ident)
           (\<lambda>i. i\<lparr>ui_passwordHash := Some (pw new)\<rparr>) (identities s)"
    and "auth_tokens t = upd_where (\<lambda>q. tk_id q = tk_id row)
           (\<lambda>k. k\<lparr>tk_consumedAt := Some (clock s)\<rparr>) (auth_tokens s)"
  using assms
  unfolding confirmPasswordReset_def consumableToken_def revokeAllForUser_def revoke_sessions_def
  by (auto simp: op_simps transaction_Inr split: option.splits if_splits prod.splits sum.splits)

lemma usable_found:
  "usable_token h tok kind s = Some row \<Longrightarrow> List.find (\<lambda>k. tk_tokenHash k = h tok) (auth_tokens s) = Some row"
  by (auto simp: usable_token_def split: option.splits if_splits)

lemma reset_spends:
  assumes "confirmPasswordReset h pw tok new s = (Inr (), t)" and "distinct (map tk_tokenHash (auth_tokens s))"
  shows "spent (h tok) t"
proof -
  obtain row where "usable_token h tok password_reset s = Some row"
    and t: "auth_tokens t = upd_where (\<lambda>q. tk_id q = tk_id row) (\<lambda>k. k\<lparr>tk_consumedAt := Some (clock s)\<rparr>)
              (auth_tokens s)"
    using assms(1) by (rule reset_run)
  then have row: "tk_tokenHash row = h tok" "row \<in> set (auth_tokens s)"
    using find_SomeD [OF usable_found] by blast+
  have "tk_id q = tk_id row" if "q \<in> set (auth_tokens s)" "tk_tokenHash q = h tok" for q
  proof -
    have "q = row" using that row assms(2) by (metis distinct_map inj_onD)
    then show ?thesis by simp
  qed
  then have "\<forall>k \<in> set (auth_tokens t). tk_tokenHash k = h tok \<longrightarrow> tk_consumedAt k \<noteq> None"
    by (auto simp: t ball_upd_where)
  moreover have "h tok \<in> tk_tokenHash ` set (auth_tokens t)"
    using row unfolding t by (subst image_upd_where) (simp_all add: rev_image_eqI)
  ultimately show ?thesis by (simp add: spent_def)
qed

section \<open>Example sessions\<close>

definition plain_hash :: token_hash where
  "plain_hash x = x"

definition demo_login :: session_row where
  "demo_login = \<lparr>se_id = 80, se_userId = 11, se_tokenHash = ''tok'', se_authMethod = prov_password,
     se_lastSeenAt = 900, se_absoluteExpiresAt = 5000, se_idleExpiresAt = 2000, se_revokedAt = None\<rparr>"

definition demo_password :: user_identity where
  "demo_password = \<lparr>ui_id = 81, ui_userId = 11, ui_provider = prov_password,
     ui_providerSubject = None, ui_passwordHash = Some ''old'', ui_verifiedAt = Some 5\<rparr>"

definition demo_reset :: auth_token where
  "demo_reset = \<lparr>tk_id = 82, tk_userId = 11, tk_kind = password_reset, tk_tokenHash = ''reset'',
     tk_expiresAt = 4000, tk_consumedAt = None\<rparr>"

definition demo_auth :: state where
  "demo_auth = demo\<lparr>sessions := [demo_login], identities := [demo_password], auth_tokens := [demo_reset]\<rparr>"

section \<open>Properties\<close>

text \<open>C32: A session token resolves exactly while its row is unrevoked and before both expiries, for a
  member who is active; and a session once revoked or past its absolute expiry is never resolved
  again, whatever calls follow and however long they take: the sliding expiry cannot revive it.\<close>

theorem session_lifetime:
  assumes "session_by_token h tok s = Some e" and "lookup u_id (se_userId e) (users s) = Some u"
    and "organizations s \<noteq> []" and "ended i s"
  shows "(fst (resolve h tok s) =
      Inr (if session_live (clock s) e \<and> u_lifecycleState u = active
           then Some \<lparr>rs_sessionId = se_id e, rs_userId = se_userId e, rs_organizationId = u_organizationId u\<rparr>
           else None)) \<and>
    (\<forall>calls tok' r. fst (resolve h tok' (serve_auths h pw mail calls s)) = Inr (Some r) \<longrightarrow> rs_sessionId r \<noteq> i)"
proof (intro conjI allI impI)
  have "e \<in> set (sessions s)" using assms(1) find_SomeD unfolding session_by_token_def by fast
  then have "lookup se_id (se_id e) (sessions s) \<noteq> None" by (simp add: lookup_None_iff)
  then show "fst (resolve h tok s) =
      Inr (if session_live (clock s) e \<and> u_lifecycleState u = active
           then Some \<lparr>rs_sessionId = se_id e, rs_userId = se_userId e, rs_organizationId = u_organizationId u\<rparr>
           else None)"
    using assms(1-3) by (auto simp: resolve_def op_simps split: option.split list.split)
next
  fix calls tok' r
  assume "fst (resolve h tok' (serve_auths h pw mail calls s)) = Inr (Some r)"
  moreover have "ended i (serve_auths h pw mail calls s)"
    by (rule serve_auths_inv [where P = "ended i"]) (auto simp: assms(4) intro: ended_serve)
  ultimately show "rs_sessionId r \<noteq> i" by (rule ended_unresolved [rotated])
qed

theorem session_lifetime_witness:
  "fst (resolve plain_hash ''tok'' demo_auth) =
     Inr (Some \<lparr>rs_sessionId = 80, rs_userId = 11, rs_organizationId = 1\<rparr>)"
proof -
  have "session_by_token plain_hash ''tok'' demo_auth = Some demo_login"
    and "lookup u_id (se_userId demo_login) (users demo_auth) = Some (demo_user 11)"
    and "organizations demo_auth \<noteq> []" and "ended 79 demo_auth"
    by (simp_all add: session_by_token_def plain_hash_def demo_auth_def demo_login_def ended_def demo_defs)
  from session_lifetime [OF this] show ?thesis
    by (simp add: session_live_def demo_login_def demo_auth_def demo_defs)
qed

text \<open>C36: A confirmed password reset had a live token and a verified password identity, stores the
  hash of the new password on it, and ends every session of that member; the same token, whatever
  calls follow, never confirms a second reset.\<close>

theorem reset_final:
  assumes "confirmPasswordReset h pw tok new s = (Inr (), t)"
    and "distinct (map tk_tokenHash (auth_tokens s))"
  shows "\<exists>row ident. usable_token h tok password_reset s = Some row \<and>
    password_identity (tk_userId row) s = Some ident \<and> ui_verifiedAt ident \<noteq> None \<and>
    ident\<lparr>ui_passwordHash := Some (pw new)\<rparr> \<in> set (identities t) \<and>
    (\<forall>e \<in> set (sessions t). se_userId e = tk_userId row \<longrightarrow> se_revokedAt e \<noteq> None) \<and>
    (\<forall>calls new'. fst (confirmPasswordReset h pw tok new' (serve_auths h pw mail calls t)) =
       Inl (ValidationError ''token''))"
proof -
  obtain row ident where r: "usable_token h tok password_reset s = Some row"
      "password_identity (tk_userId row) s = Some ident" "ui_verifiedAt ident \<noteq> None"
    and t: "sessions t = upd_where (\<lambda>e. se_userId e = tk_userId row \<and> se_revokedAt e = None)
           (\<lambda>e. e\<lparr>se_revokedAt := Some (clock s)\<rparr>) (sessions s)"
      "identities t = upd_where (\<lambda>q. ui_id q = ui_id ident)
           (\<lambda>i. i\<lparr>ui_passwordHash := Some (pw new)\<rparr>) (identities s)"
    using assms(1) by (rule reset_run)
  have "ident \<in> set (identities s)" using r(2) find_SomeD unfolding password_identity_def by fast
  then have "ident\<lparr>ui_passwordHash := Some (pw new)\<rparr> \<in> set (identities t)"
    unfolding t(2) in_upd_where by (intro bexI [of _ ident]) simp_all
  moreover have "\<forall>e \<in> set (sessions t). se_userId e = tk_userId row \<longrightarrow> se_revokedAt e \<noteq> None"
    unfolding t(1) by (simp add: ball_upd_where)
  moreover have "spent (h tok) (serve_auths h pw mail calls t)" for calls
    by (rule serve_auths_inv [where P = "spent (h tok)"])
       (auto simp: reset_spends [OF assms] intro: spent_serve)
  then have "fst (confirmPasswordReset h pw tok new' (serve_auths h pw mail calls t)) =
      Inl (ValidationError ''token'')" for calls new'
    by (simp add: confirmPasswordReset_def consumableToken_def op_simps spent_unusable)
  ultimately show ?thesis using r by blast
qed

theorem reset_final_witness:
  "fst (confirmPasswordReset plain_hash rev ''reset'' ''again''
     (serve_auths plain_hash rev (\<lambda>_ _. None) [Wait 7]
       (snd (confirmPasswordReset plain_hash rev ''reset'' ''new'' demo_auth)))) =
   Inl (ValidationError ''token'')"
proof -
  have "fst (confirmPasswordReset plain_hash rev ''reset'' ''new'' demo_auth) = Inr ()" by code_simp
  then have run: "confirmPasswordReset plain_hash rev ''reset'' ''new'' demo_auth =
      (Inr (), snd (confirmPasswordReset plain_hash rev ''reset'' ''new'' demo_auth))"
    by (metis prod.collapse)
  have "distinct (map tk_tokenHash (auth_tokens demo_auth))" by (simp add: demo_auth_def)
  from reset_final [OF run this, of "\<lambda>_ _. None"] show ?thesis by blast
qed

section \<open>The event socket\<close>



end
