(* ===== verification/Invitations.thy ===== *)
theory Invitations
  imports Auth Grants Js_Values
begin

text \<open>
  \<open>invitations/invitations.service.ts\<close>, \<open>invitation-status.ts\<close> and \<open>bootstrap.service.ts\<close>:
  invitations are the only way to an account. A redemption reads the invitation, checks it, and
  then commits in a transaction that consumes one use: \<open>redeem\<close> is the composition of the two
  halves, and the second half takes the row the first one read, which may be out of date. The hash
  of a passcode, the token hash, the mailer and the tokens drawn are arguments.
\<close>

section \<open>Status and lookup\<close>

datatype invitation_status = inv_revoked | inv_exhausted | inv_expired | inv_pending

definition deriveInvitationStatus :: "time \<Rightarrow> invitation \<Rightarrow> invitation_status" where
  "deriveInvitationStatus t invite =
     (if i_revokedAt invite \<noteq> None then inv_revoked
      else if i_useCount invite \<ge> i_maxUses invite then inv_exhausted
      else if t \<ge> i_expiresAt invite then inv_expired
      else inv_pending)"

definition findByToken :: "token_hash \<Rightarrow> string \<Rightarrow> state \<Rightarrow> invitation option" where
  "findByToken hashToken token s = List.find (\<lambda>i. i_tokenHash i = hashToken token) (invitations s)"

text \<open>\<open>safeEqualHex\<close>: the bytes of two digests; decoding stops at the first pair that is no byte, and
  buffers of different lengths are an exception.\<close>

fun hex_bytes :: "string \<Rightarrow> nat list" where
  "hex_bytes (c # d # cs) =
     (case (digit_val c, digit_val d) of (Some x, Some y) \<Rightarrow> (16 * x + y) # hex_bytes cs | _ \<Rightarrow> [])"
| "hex_bytes _ = []"

definition safeEqualHex :: "string \<Rightarrow> string \<Rightarrow> bool svc" where
  "safeEqualHex a b =
     (if length a \<noteq> length b then ret False
      else
        bnd (check (length (hex_bytes a) = length (hex_bytes b)) (ServerError ''RangeError'')) (\<lambda>_.
        ret (hex_bytes a = hex_bytes b)))"

section \<open>Issuing\<close>

text \<open>\<open>assertRolesGrantable\<close>: every role must be one the issuer may grant; no invitee exists yet.\<close>

definition may_grant :: "cedar_engine \<Rightarrow> id \<Rightarrow> id \<Rightarrow> bool svc" where
  "may_grant isAuthorized actorUserId roleId =
     decide isAuthorized actorUserId ''user:grant_role''
       (User, Prospective ''prospective-invitee'',
        [(''retired'', VBool False), (''targetRole'', VEntity (Role, Eid roleId))])"

definition assertRolesGrantable :: "cedar_engine \<Rightarrow> id \<Rightarrow> id list \<Rightarrow> unit svc" where
  "assertRolesGrantable isAuthorized actorUserId roleIds =
     for_each roleIds (\<lambda>roleId.
       bnd (may_grant isAuthorized actorUserId roleId) (\<lambda>allowed.
       check allowed (DeniedError ''ROLE_NOT_GRANTABLE'')))"

definition DEFAULT_EXPIRY_MS :: int where
  "DEFAULT_EXPIRY_MS = 7 * 24 * 60 * 60 * 1000"

definition insert_invitation :: "invitation \<Rightarrow> unit svc" where
  "insert_invitation invite =
     bnd (gets invitations) (\<lambda>rows.
     bnd (check (i_tokenHash invite \<notin> i_tokenHash ` set rows \<and>
                 \<not> (i_createdBy invite = None \<and> i_revokedAt invite = None \<and>
                    (\<exists>r \<in> set rows. i_organizationId r = i_organizationId invite \<and>
                       i_createdBy r = None \<and> i_revokedAt r = None))) UniqueViolation) (\<lambda>_.
     create_row invitations_update invite))"

definition invitations_create ::
  "cedar_engine \<Rightarrow> token_hash \<Rightarrow> string \<Rightarrow> id \<Rightarrow> id \<Rightarrow> string option \<Rightarrow> id list \<Rightarrow> time option \<Rightarrow>
   (id \<times> string) svc" where
  "invitations_create isAuthorized hashToken token creatorUserId organizationId email intendedRoleIds expiresAt =
     bnd (assertRolesGrantable isAuthorized creatorUserId intendedRoleIds) (\<lambda>_.
     bnd now (\<lambda>t.
     bnd fresh_id (\<lambda>i.
     bnd (insert_invitation
            \<lparr>i_id = i, i_organizationId = organizationId, i_tokenHash = hashToken token,
             i_email = email, i_intendedRoleIds = intendedRoleIds, i_passcodeHash = None,
             i_maxUses = 1, i_useCount = 0, i_createdBy = Some creatorUserId, i_createdAt = t,
             i_expiresAt = (case expiresAt of None \<Rightarrow> t + DEFAULT_EXPIRY_MS | Some x \<Rightarrow> x),
             i_revokedAt = None\<rparr>) (\<lambda>_.
     bnd (logActivity organizationId (Some creatorUserId) ''invitation'' i ''invite.created''
            [(''invitationId'', PId i), (''intendedRoleIds'', PIds intendedRoleIds),
             (''isBootstrap'', PBool False)]) (\<lambda>_.
     ret (i, token))))))"

record invite_view =
  iv_requiresEmail :: bool
  iv_requiresPasscode :: bool
  iv_status :: invitation_status
  iv_isBootstrap :: bool

definition invitations_view :: "token_hash \<Rightarrow> string \<Rightarrow> invite_view svc" where
  "invitations_view hashToken token =
     bnd (gets (findByToken hashToken token)) (\<lambda>found.
     bnd (need found (NotFoundError ''INVITE_NOT_FOUND'')) (\<lambda>invite.
     bnd now (\<lambda>t.
     ret \<lparr>iv_requiresEmail = (i_email invite \<noteq> None), iv_requiresPasscode = (i_passcodeHash invite \<noteq> None),
          iv_status = deriveInvitationStatus t invite, iv_isBootstrap = (i_createdBy invite = None)\<rparr>)))"

record invite_item =
  il_id :: id
  il_email :: "string option"
  il_intendedRoleIds :: "id list"
  il_maxUses :: int
  il_useCount :: int
  il_status :: invitation_status
  il_createdAt :: time
  il_expiresAt :: time

definition invite_item_of :: "time \<Rightarrow> invitation \<Rightarrow> invite_item" where
  "invite_item_of t r =
     \<lparr>il_id = i_id r, il_email = i_email r, il_intendedRoleIds = i_intendedRoleIds r,
      il_maxUses = i_maxUses r, il_useCount = i_useCount r, il_status = deriveInvitationStatus t r,
      il_createdAt = i_createdAt r, il_expiresAt = i_expiresAt r\<rparr>"

definition invitations_list :: "id \<Rightarrow> state \<Rightarrow> invite_item list" where
  "invitations_list organizationId s =
     map (invite_item_of (clock s))
       (rev (sort_key i_createdAt (filter (\<lambda>r. i_organizationId r = organizationId) (invitations s))))"

definition invitations_revoke :: "id \<Rightarrow> id \<Rightarrow> unit svc" where
  "invitations_revoke invitationId actorUserId =
     bnd (find_unique invitations i_id invitationId) (\<lambda>found.
     bnd (need found (NotFoundError ''INVITE_NOT_FOUND'')) (\<lambda>invite.
     if i_revokedAt invite \<noteq> None then ret ()
     else
       bnd now (\<lambda>t.
       bnd (update_row invitations invitations_update i_id invitationId
              (\<lambda>r. r\<lparr>i_revokedAt := Some t\<rparr>)) (\<lambda>_.
       logActivity (i_organizationId invite) (Some actorUserId) ''invitation'' (i_id invite) ''invite.revoked''
         [(''invitationId'', PId (i_id invite))]))))"

section \<open>Redeeming\<close>

datatype identity_spec = PasswordIdentity string | DiscordIdentity string

fun spec_provider :: "identity_spec \<Rightarrow> auth_provider" where
  "spec_provider (PasswordIdentity h) = prov_password"
| "spec_provider (DiscordIdentity x) = prov_discord"

fun spec_name :: "identity_spec \<Rightarrow> string" where
  "spec_name (PasswordIdentity h) = ''password''"
| "spec_name (DiscordIdentity x) = ''discord''"

record redemption =
  rd_token :: string
  rd_passcode :: "string option"
  rd_email :: "string option"
  rd_displayName :: string
  rd_identity :: identity_spec

definition check_passcode :: "(string \<Rightarrow> string) \<Rightarrow> string option \<Rightarrow> invitation \<Rightarrow> unit svc" where
  "check_passcode passcodeHash passcode invite =
     (case truthy (i_passcodeHash invite) of
        None \<Rightarrow> ret ()
      | Some stored \<Rightarrow>
          let provided = (case truthy passcode of None \<Rightarrow> [] | Some p \<Rightarrow> passcodeHash p) in
          if provided = [] then throw (DeniedError ''INVALID_PASSCODE'')
          else
            bnd (safeEqualHex provided stored) (\<lambda>same.
            check same (DeniedError ''INVALID_PASSCODE'')))"

definition email_matches :: "invitation \<Rightarrow> string option \<Rightarrow> bool" where
  "email_matches invite email \<longleftrightarrow>
     (case truthy (i_email invite) of
        None \<Rightarrow> True
      | Some bound \<Rightarrow> (case email of None \<Rightarrow> False | Some e \<Rightarrow> toLowerCase e = toLowerCase bound))"

definition discord_known :: "string \<Rightarrow> state \<Rightarrow> bool" where
  "discord_known subject s \<longleftrightarrow>
     (\<exists>i \<in> set (identities s). ui_provider i = prov_discord \<and> ui_providerSubject i = Some subject)"

definition check_identity :: "identity_spec \<Rightarrow> unit svc" where
  "check_identity spec =
     (case spec of
        PasswordIdentity h \<Rightarrow> ret ()
      | DiscordIdentity subject \<Rightarrow>
          bnd (gets (discord_known subject)) (\<lambda>linked.
          check (\<not> linked) (ConflictError ''DISCORD_ALREADY_LINKED'')))"

definition email_taken :: "id \<Rightarrow> string \<Rightarrow> state \<Rightarrow> bool" where
  "email_taken organizationId email s \<longleftrightarrow>
     (\<exists>u \<in> set (users s). u_organizationId u = organizationId \<and> same_email email (u_email u))"

definition check_email :: "id \<Rightarrow> string option \<Rightarrow> unit svc" where
  "check_email organizationId email =
     (case truthy email of
        None \<Rightarrow> ret ()
      | Some e \<Rightarrow>
          bnd (gets (email_taken organizationId e)) (\<lambda>existing.
          check (\<not> existing) (ValidationError ''email'')))"

text \<open>Everything before the transaction; its result is the invitation as read.\<close>

definition redeem_checks ::
  "cedar_engine \<Rightarrow> token_hash \<Rightarrow> (string \<Rightarrow> string) \<Rightarrow> redemption \<Rightarrow> invitation svc" where
  "redeem_checks isAuthorized hashToken passcodeHash args =
     bnd (gets (findByToken hashToken (rd_token args))) (\<lambda>found.
     bnd (need found (NotFoundError ''INVITE_NOT_FOUND'')) (\<lambda>invite.
     bnd now (\<lambda>t.
     bnd (check (deriveInvitationStatus t invite = inv_pending) (GoneError ''INVITE_UNAVAILABLE'')) (\<lambda>_.
     bnd (check_passcode passcodeHash (rd_passcode args) invite) (\<lambda>_.
     bnd (check (email_matches invite (rd_email args)) (DeniedError ''EMAIL_MISMATCH'')) (\<lambda>_.
     bnd (case i_createdBy invite of
            None \<Rightarrow> ret ()
          | Some issuer \<Rightarrow> assertRolesGrantable isAuthorized issuer (i_intendedRoleIds invite)) (\<lambda>_.
     bnd (check_identity (rd_identity args)) (\<lambda>_.
     bnd (check_email (i_organizationId invite) (rd_email args)) (\<lambda>_.
     ret invite)))))))))"

text \<open>The atomic \<open>UPDATE\<close>: one use is taken, or no row matches.\<close>

definition consumable :: "id \<Rightarrow> time \<Rightarrow> invitation \<Rightarrow> bool" where
  "consumable k t r \<longleftrightarrow>
     i_id r = k \<and> i_useCount r < i_maxUses r \<and> i_revokedAt r = None \<and> t < i_expiresAt r"

definition consume_use :: "id \<Rightarrow> unit svc" where
  "consume_use k =
     bnd now (\<lambda>t.
     bnd (gets invitations) (\<lambda>rows.
     bnd (update_many invitations_update (consumable k t) (\<lambda>r. r\<lparr>i_useCount := i_useCount r + 1\<rparr>)) (\<lambda>_.
     check (\<exists>r \<in> set rows. consumable k t r) (ConflictError ''INVITE_RACE_LOST''))))"

definition insert_user :: "invitation \<Rightarrow> redemption \<Rightarrow> id svc" where
  "insert_user invite args =
     bnd (gets (\<lambda>s. case rd_email args of None \<Rightarrow> False | Some e \<Rightarrow> email_taken (i_organizationId invite) e s)) (\<lambda>taken.
     bnd (check (\<not> taken) UniqueViolation) (\<lambda>_.
     bnd fresh_id (\<lambda>i.
     bnd (create_row users_update
            \<lparr>u_id = i, u_organizationId = i_organizationId invite, u_email = rd_email args,
             u_displayName = rd_displayName args, u_createdViaInvitationId = Some (i_id invite),
             u_lifecycleState = active, u_deactivatedAt = None, u_retiredAt = None, u_version = 0\<rparr>) (\<lambda>_.
     ret i))))"

definition insert_identity :: "id \<Rightarrow> identity_spec \<Rightarrow> bool \<Rightarrow> unit svc" where
  "insert_identity userId spec isBootstrap =
     bnd (gets (\<lambda>s. case spec of PasswordIdentity _ \<Rightarrow> False | DiscordIdentity x \<Rightarrow> discord_known x s)) (\<lambda>taken.
     bnd (check (\<not> taken) UniqueViolation) (\<lambda>_.
     bnd now (\<lambda>t.
     bnd fresh_id (\<lambda>i.
     create_row identities_update
       \<lparr>ui_id = i, ui_userId = userId, ui_provider = spec_provider spec,
        ui_providerSubject = (case spec of PasswordIdentity _ \<Rightarrow> None | DiscordIdentity x \<Rightarrow> Some x),
        ui_passwordHash = (case spec of PasswordIdentity h \<Rightarrow> Some h | DiscordIdentity _ \<Rightarrow> None),
        ui_verifiedAt = (if spec_provider spec \<noteq> prov_password \<or> isBootstrap then Some t else None)\<rparr>))))"

definition insert_use :: "id \<Rightarrow> id \<Rightarrow> unit svc" where
  "insert_use invitationId userId =
     bnd fresh_id (\<lambda>i.
     create_row invitation_uses_update
       \<lparr>iu_id = i, iu_invitationId = invitationId, iu_createdUserId = userId\<rparr>)"

text \<open>A role that no longer exists fails the foreign key, a role named twice the unique key.\<close>

definition assign_role :: "id \<Rightarrow> id option \<Rightarrow> id \<Rightarrow> unit svc" where
  "assign_role userId grantedBy roleId =
     bnd (find_unique roles r_id roleId) (\<lambda>role.
     bnd (check (role \<noteq> None) ForeignKeyViolation) (\<lambda>_.
     insert_user_role userId roleId src_patrice None grantedBy))"

definition writeAcceptActivity :: "id \<Rightarrow> id \<Rightarrow> id \<Rightarrow> id list \<Rightarrow> bool \<Rightarrow> string \<Rightarrow> unit svc" where
  "writeAcceptActivity organizationId userId invitationId grantedRoleIds isBootstrap identityProvider =
     bnd (logActivity organizationId (Some userId) ''user'' userId ''user.registered''
            [(''userId'', PId userId), (''invitationId'', PId invitationId),
             (''identityProvider'', PStr identityProvider)]) (\<lambda>_.
     bnd (logActivity organizationId (Some userId) ''invitation'' invitationId ''invite.redeemed''
            [(''invitationId'', PId invitationId), (''createdUserId'', PId userId),
             (''grantedRoleIds'', PIds grantedRoleIds)]) (\<lambda>_.
     if isBootstrap then
       logActivity organizationId (Some userId) ''user'' userId ''bootstrap.completed''
         [(''adminUserId'', PId userId), (''invitationId'', PId invitationId)]
     else ret ()))"

text \<open>The roles named by the invitation, the new config version, and the log.\<close>

definition redeem_grants :: "invitation \<Rightarrow> redemption \<Rightarrow> id \<Rightarrow> unit svc" where
  "redeem_grants invite args userId =
     bnd (for_each (i_intendedRoleIds invite) (assign_role userId (i_createdBy invite))) (\<lambda>_.
     bnd (update_row organizations organizations_update o_id (i_organizationId invite)
            (\<lambda>r. r\<lparr>o_configVersion := o_configVersion r + 1\<rparr>)) (\<lambda>_.
     writeAcceptActivity (i_organizationId invite) userId (i_id invite) (i_intendedRoleIds invite)
       (i_createdBy invite = None) (spec_name (rd_identity args))))"

definition redeem_tx :: "invitation \<Rightarrow> redemption \<Rightarrow> id svc" where
  "redeem_tx invite args =
     transaction (
       bnd (consume_use (i_id invite)) (\<lambda>_.
       bnd (insert_user invite args) (\<lambda>userId.
       bnd (insert_identity userId (rd_identity args) (i_createdBy invite = None)) (\<lambda>_.
       bnd (insert_use (i_id invite) userId) (\<lambda>_.
       bnd (redeem_grants invite args userId) (\<lambda>_.
       ret userId))))))"

text \<open>The commit on the row read before it, the dropped policy cache, and a verification mail whose
  failure nobody sees.\<close>

definition redeem_commit ::
  "token_hash \<Rightarrow> mailer \<Rightarrow> string \<Rightarrow> redemption \<Rightarrow> invitation \<Rightarrow> (id \<times> bool) svc" where
  "redeem_commit hashToken mail mailToken args invite =
     bnd (redeem_tx invite args) (\<lambda>userId.
     bnd invalidate (\<lambda>_.
     bnd (case (i_createdBy invite, rd_identity args, truthy (rd_email args)) of
            (Some _, PasswordIdentity _, Some e) \<Rightarrow>
              swallow (issueVerification hashToken mail mailToken userId e)
          | _ \<Rightarrow> ret ()) (\<lambda>_.
     ret (userId, i_createdBy invite = None))))"

definition redeem ::
  "cedar_engine \<Rightarrow> token_hash \<Rightarrow> (string \<Rightarrow> string) \<Rightarrow> mailer \<Rightarrow> string \<Rightarrow> redemption \<Rightarrow> (id \<times> bool) svc" where
  "redeem isAuthorized hashToken passcodeHash mail mailToken args =
     bnd (redeem_checks isAuthorized hashToken passcodeHash args)
       (redeem_commit hashToken mail mailToken args)"

definition accept_invitation ::
  "cedar_engine \<Rightarrow> token_hash \<Rightarrow> (string \<Rightarrow> string) \<Rightarrow> (string \<Rightarrow> string) \<Rightarrow> mailer \<Rightarrow> string \<Rightarrow>
   string \<Rightarrow> string option \<Rightarrow> string \<Rightarrow> string \<Rightarrow> string \<Rightarrow> (id \<times> bool) svc" where
  "accept_invitation isAuthorized hashToken passcodeHash hashPassword mail mailToken
       token passcode email password displayName =
     redeem isAuthorized hashToken passcodeHash mail mailToken
       \<lparr>rd_token = token, rd_passcode = passcode, rd_email = Some email,
        rd_displayName = displayName, rd_identity = PasswordIdentity (hashPassword password)\<rparr>"

definition acceptWithDiscord ::
  "cedar_engine \<Rightarrow> token_hash \<Rightarrow> (string \<Rightarrow> string) \<Rightarrow> mailer \<Rightarrow> string \<Rightarrow>
   string \<Rightarrow> string option \<Rightarrow> string option \<Rightarrow> string \<Rightarrow> string \<Rightarrow> (id \<times> bool) svc" where
  "acceptWithDiscord isAuthorized hashToken passcodeHash mail mailToken
       token passcode email displayName discordUserId =
     redeem isAuthorized hashToken passcodeHash mail mailToken
       \<lparr>rd_token = token, rd_passcode = passcode, rd_email = email,
        rd_displayName = displayName, rd_identity = DiscordIdentity discordUserId\<rparr>"

section \<open>Bootstrap\<close>

definition ADMIN_ROLE_NAME :: string where
  "ADMIN_ROLE_NAME = ''Admin''"

definition BOOTSTRAP_EXPIRY_MS :: int where
  "BOOTSTRAP_EXPIRY_MS = 365 * 24 * 60 * 60 * 1000"

definition admin_role :: "id \<Rightarrow> state \<Rightarrow> role option" where
  "admin_role organizationId s =
     List.find (\<lambda>r. r_organizationId r = organizationId \<and> r_kind r = standalone \<and>
       r_name r = ADMIN_ROLE_NAME) (roles s)"

definition ensure_org :: "id svc" where
  "ensure_org =
     bnd (gets organizations) (\<lambda>orgs.
     case orgs of
       org # _ \<Rightarrow> ret (o_id org)
     | [] \<Rightarrow>
         bnd fresh_id (\<lambda>i.
         bnd (create_row organizations_update
                \<lparr>o_id = i, o_settings = Map.empty, o_configVersion = 0\<rparr>) (\<lambda>_.
         ret i)))"

definition ensure_admin_role :: "id \<Rightarrow> id svc" where
  "ensure_admin_role organizationId =
     bnd (gets (admin_role organizationId)) (\<lambda>found.
     case found of
       Some r \<Rightarrow> ret (r_id r)
     | None \<Rightarrow>
         bnd fresh_id (\<lambda>i.
         bnd (create_row roles_update
                \<lparr>r_id = i, r_organizationId = organizationId, r_name = ADMIN_ROLE_NAME,
                 r_kind = standalone, r_divisionId = None, r_teamId = None,
                 r_lifecycleState = active, r_retiredAt = None, r_version = 0\<rparr>) (\<lambda>_.
         ret i)))"

definition seed_grant :: "id \<Rightarrow> id \<Rightarrow> string \<Rightarrow> unit svc" where
  "seed_grant organizationId roleId action =
     bnd fresh_id (\<lambda>i.
     create_row grants_update
       \<lparr>g_id = i, g_organizationId = organizationId, g_roleId = roleId, g_action = action,
        g_effect = Permit, g_scopeKind = scope_global, g_scopeDivisionId = None,
        g_scopeTeamId = None, g_scopeRoleId = None, g_lifecycleState = active,
        g_retiredAt = None, g_version = 0\<rparr>)"

definition missing_seed_actions :: "id \<Rightarrow> state \<Rightarrow> string list" where
  "missing_seed_actions roleId s =
     (let have = map g_action (filter (\<lambda>g. g_roleId g = roleId \<and> g_scopeKind g = scope_global) (grants s))
      in filter (\<lambda>a. a \<notin> set have) ADMIN_SEED_ACTIONS)"

definition ensureSeed :: "id svc" where
  "ensureSeed =
     transaction (
       bnd ensure_org (\<lambda>organizationId.
       bnd (ensure_admin_role organizationId) (\<lambda>roleId.
       bnd (gets (missing_seed_actions roleId)) (\<lambda>missing.
       bnd (for_each missing (seed_grant organizationId roleId)) (\<lambda>_.
       ret organizationId)))))"

definition system_invite :: "id \<Rightarrow> invitation \<Rightarrow> bool" where
  "system_invite organizationId invite \<longleftrightarrow>
     i_organizationId invite = organizationId \<and> i_createdBy invite = None \<and> i_revokedAt invite = None"

definition closeBootstrap :: "id \<Rightarrow> unit svc" where
  "closeBootstrap organizationId =
     bnd now (\<lambda>t.
     update_many invitations_update (system_invite organizationId) (\<lambda>r. r\<lparr>i_revokedAt := Some t\<rparr>))"

text \<open>An unrevoked system invitation gets a new passcode, token and expiry; its uses stay as they are.\<close>

definition rotate_invite :: "string \<Rightarrow> string \<Rightarrow> time \<Rightarrow> invitation \<Rightarrow> unit svc" where
  "rotate_invite passcode token t invite =
     bnd (gets (\<lambda>s. \<exists>r \<in> set (invitations s). i_id r \<noteq> i_id invite \<and> i_tokenHash r = token)) (\<lambda>taken.
     bnd (check (\<not> taken) UniqueViolation) (\<lambda>_.
     bnd (update_row invitations invitations_update i_id (i_id invite)
            (\<lambda>r. r\<lparr>i_passcodeHash := Some passcode, i_tokenHash := token,
                    i_expiresAt := t + BOOTSTRAP_EXPIRY_MS\<rparr>)) (\<lambda>_.
     ret ())))"

definition mint_invite :: "string \<Rightarrow> string \<Rightarrow> time \<Rightarrow> id \<Rightarrow> id \<Rightarrow> unit svc" where
  "mint_invite passcode token t organizationId adminRoleId =
     bnd fresh_id (\<lambda>i.
     insert_invitation
       \<lparr>i_id = i, i_organizationId = organizationId, i_tokenHash = token, i_email = None,
        i_intendedRoleIds = [adminRoleId], i_passcodeHash = Some passcode, i_maxUses = 1,
        i_useCount = 0, i_createdBy = None, i_createdAt = t,
        i_expiresAt = t + BOOTSTRAP_EXPIRY_MS, i_revokedAt = None\<rparr>)"

text \<open>The result is the token kept in the process, \<open>liveInviteToken\<close>.\<close>

definition refreshBootstrap ::
  "token_hash \<Rightarrow> (string \<Rightarrow> string) \<Rightarrow> string \<Rightarrow> string \<Rightarrow> id \<Rightarrow> string option svc" where
  "refreshBootstrap hashToken passcodeHash key token organizationId =
     bnd (gets (effectiveAdminExists organizationId)) (\<lambda>hasAdmin.
     if hasAdmin then bnd (closeBootstrap organizationId) (\<lambda>_. ret None)
     else
       bnd (gets (admin_role organizationId)) (\<lambda>found.
       bnd (need found RecordNotFound) (\<lambda>adminRole.
       bnd now (\<lambda>t.
       bnd (gets (\<lambda>s. List.find (system_invite organizationId) (invitations s))) (\<lambda>existing.
       bnd (case existing of
              Some invite \<Rightarrow> rotate_invite (passcodeHash key) (hashToken token) t invite
            | None \<Rightarrow> mint_invite (passcodeHash key) (hashToken token) t organizationId (r_id adminRole)) (\<lambda>_.
       ret (Some token)))))))"

definition onApplicationBootstrap ::
  "token_hash \<Rightarrow> (string \<Rightarrow> string) \<Rightarrow> string \<Rightarrow> string \<Rightarrow> string option svc" where
  "onApplicationBootstrap hashToken passcodeHash key token =
     bnd ensureSeed (refreshBootstrap hashToken passcodeHash key token)"

record bootstrap_status =
  bs_open :: bool
  bs_inviteToken :: "string option"

definition bootstrap_getStatus :: "string option \<Rightarrow> state \<Rightarrow> bootstrap_status" where
  "bootstrap_getStatus liveInviteToken s =
     (case organizations s of
        [] \<Rightarrow> \<lparr>bs_open = False, bs_inviteToken = None\<rparr>
      | org # _ \<Rightarrow>
          let hasAdmin = effectiveAdminExists (o_id org) s in
          \<lparr>bs_open = (\<not> hasAdmin), bs_inviteToken = (if hasAdmin then None else liveInviteToken)\<rparr>)"

end
