(* ===== verification/Invitation_Properties.thy ===== *)
theory Invitation_Properties
  imports Invitations Examples
begin

text \<open>
  What holds of invitations under any interleaving: uses, accounts and the counter agree and stay
  within the limit, although a redemption decides on a row that may be out of date. What a
  redemption does, and why the bootstrap invitation cannot always be used again.
\<close>

section \<open>Accounting of uses\<close>

definition uses_of :: "id \<Rightarrow> state \<Rightarrow> nat" where
  "uses_of k s = count_where (\<lambda>u. iu_invitationId u = k) (invitation_uses s)"

definition accounts_of :: "id \<Rightarrow> state \<Rightarrow> nat" where
  "accounts_of k s = count_where (\<lambda>u. u_createdViaInvitationId u = Some k) (users s)"

text \<open>The counters, up to uses and accounts that a transaction in progress still owes; and the ids of
  invitations that rows or debts refer to, none of which is still to be drawn.\<close>

definition counted :: "(id \<Rightarrow> nat) \<Rightarrow> (id \<Rightarrow> nat) \<Rightarrow> state \<Rightarrow> bool" where
  "counted f g s \<longleftrightarrow> distinct (map i_id (invitations s)) \<and>
     (\<forall>r \<in> set (invitations s). i_useCount r \<le> i_maxUses r \<and>
        i_useCount r = int (uses_of (i_id r) s + f (i_id r)) \<and>
        i_useCount r = int (accounts_of (i_id r) s + g (i_id r)))"

definition referred :: "(id \<Rightarrow> nat) \<Rightarrow> (id \<Rightarrow> nat) \<Rightarrow> state \<Rightarrow> id set" where
  "referred f g s = i_id ` set (invitations s) \<union> iu_invitationId ` set (invitation_uses s) \<union>
     {k. Some k \<in> u_createdViaInvitationId ` set (users s)} \<union> {k. 0 < f k + g k}"

definition owing :: "(id \<Rightarrow> nat) \<Rightarrow> (id \<Rightarrow> nat) \<Rightarrow> state \<Rightarrow> bool" where
  "owing f g s \<longleftrightarrow> counted f g s \<and> referred f g s \<subseteq> {..<next_id s}"

abbreviation nothing :: "id \<Rightarrow> nat" where
  "nothing \<equiv> \<lambda>_. 0"

abbreviation one_use :: "id \<Rightarrow> id \<Rightarrow> nat" where
  "one_use k \<equiv> \<lambda>i. if i = k then 1 else 0"

definition uses_ok :: "state \<Rightarrow> bool" where
  "uses_ok s \<longleftrightarrow> owing nothing nothing s"

lemmas owing_defs = owing_def counted_def referred_def uses_of_def accounts_of_def

lemma counted_cong:
  assumes "counted f g s" and "invitations t = invitations s"
    and "\<And>k. uses_of k t + f' k = uses_of k s + f k" "\<And>k. accounts_of k t + g' k = accounts_of k s + g k"
  shows "counted f' g' t"
  using assms(1) unfolding counted_def assms(2) assms(3) assms(4) .

lemma owing_frame [simp]:
  "owing f g (identities_update h1 s) = owing f g s" "owing f g (user_roles_update h2 s) = owing f g s"
  "owing f g (organizations_update h3 s) = owing f g s" "owing f g (auth_tokens_update h4 s) = owing f g s"
  "owing f g (roles_update h5 s) = owing f g s" "owing f g (grants_update h6 s) = owing f g s"
  "owing f g (policy_cache_update h7 s) = owing f g s" "owing f g (activities_update h8 s) = owing f g s"
  "owing f g (notifications_update h9 s) = owing f g s" "owing f g (pings_update h10 s) = owing f g s"
  "counted f g (next_id_update h11 s) = counted f g s" "referred f g (next_id_update h11 s) = referred f g s"
  by (simp_all add: owing_defs)

interpretation owing_inv: invariant "owing f g" for f g
proof unfold_locales
  fix s n assume "next_id s \<le> n" "owing f g s"
  then show "owing f g (s\<lparr>next_id := n\<rparr>)" by (auto simp: owing_def)
qed simp_all

lemma owing_upd:
  assumes "\<And>r. i_id (f r) = i_id r" "\<And>r. i_useCount (f r) = i_useCount r" "\<And>r. i_maxUses (f r) = i_maxUses r"
    and "owing g h s"
  shows "owing g h (invitations_update (upd_where Q f) s)"
  using assms(4)
  by (auto simp: owing_defs ball_upd_where map_upd_where image_upd_where assms(1-3))

lemma consumable_row:
  assumes "uses_ok s" and "r \<in> set (invitations s)" "consumable k t r" and "q \<in> set (invitations s)"
  shows "i_id q = k \<longleftrightarrow> consumable k t q"
proof
  assume "i_id q = k"
  then have "i_id q = i_id r" using assms(3) by (simp add: consumable_def)
  then have "q = r" using assms(1,2,4) by (metis distinct_map inj_onD uses_ok_def owing_def counted_def)
  then show "consumable k t q" using assms(3) by simp
qed (simp add: consumable_def)

lemma consume_owes:
  assumes "consume_use k s = (Inr x, t)" and "uses_ok s"
  shows "owing (one_use k) (one_use k) t"
proof -
  let ?inc = "\<lambda>r. r\<lparr>i_useCount := i_useCount r + 1\<rparr>"
  have t: "t = invitations_update (upd_where (consumable k (clock s)) ?inc) s"
    and "\<exists>r \<in> set (invitations s). consumable k (clock s) r"
    using assms(1) by (auto simp: consume_use_def op_simps check_def split: if_splits)
  then obtain r where r: "r \<in> set (invitations s)" "consumable k (clock s) r" by blast
  have old: "counted nothing nothing s" "referred nothing nothing s \<subseteq> {..<next_id s}"
    using assms(2) by (simp_all add: uses_ok_def owing_def)
  have "i_useCount q' \<le> i_maxUses q' \<and>
      i_useCount q' = int (uses_of (i_id q') t + one_use k (i_id q')) \<and>
      i_useCount q' = int (accounts_of (i_id q') t + one_use k (i_id q'))"
    if found: "q' \<in> set (invitations t)" for q'
  proof -
    obtain q where q: "q \<in> set (invitations s)" "q' = (if consumable k (clock s) q then ?inc q else q)"
      using found by (auto simp: t in_upd_where)
    then have "i_useCount q \<le> i_maxUses q" "i_useCount q = int (uses_of (i_id q) t)"
      "i_useCount q = int (accounts_of (i_id q) t)"
      using old(1) by (auto simp: counted_def t uses_of_def accounts_of_def)
    note counts = this
    show ?thesis
    proof (cases "consumable k (clock s) q")
      case True
      then have "i_id q = k" "i_useCount q < i_maxUses q" by (simp_all add: consumable_def)
      then show ?thesis using counts True unfolding q(2) by simp
    next
      case False
      then have "i_id q \<noteq> k" using consumable_row [OF assms(2) r q(1)] by simp
      then show ?thesis using counts False unfolding q(2) by simp
    qed
  qed
  moreover have "distinct (map i_id (invitations t))"
    using old(1) by (simp only: counted_def t) (simp add: map_upd_where)
  ultimately have "counted (one_use k) (one_use k) t"
    unfolding counted_def by blast
  moreover have "referred (one_use k) (one_use k) t \<subseteq> referred nothing nothing s"
    using r by (auto simp: referred_def t image_upd_where consumable_def)
  moreover have "next_id t = next_id s" by (simp add: t)
  ultimately show ?thesis using old(2) by (simp add: owing_def)
qed

lemma account_paid:
  assumes "insert_user invite args s = (Inr u, t)" and "owing f (one_use (i_id invite)) s"
  shows "owing f nothing t"
proof -
  have "owing f nothing (users_update (\<lambda>us. us @ [row]) (s\<lparr>next_id := Suc (next_id s)\<rparr>))"
    if "u_createdViaInvitationId row = Some (i_id invite)" for row
  proof -
    have "counted f nothing (users_update (\<lambda>us. us @ [row]) (s\<lparr>next_id := Suc (next_id s)\<rparr>))"
      by (rule counted_cong [of f "one_use (i_id invite)" s])
        (use assms(2) that in \<open>simp_all add: owing_def uses_of_def accounts_of_def\<close>)
    moreover have "referred f nothing (users_update (\<lambda>us. us @ [row]) (s\<lparr>next_id := Suc (next_id s)\<rparr>))
        \<subseteq> referred f (one_use (i_id invite)) s"
      using that by (auto simp: referred_def)
    ultimately show ?thesis using assms(2) by (auto simp: owing_def)
  qed
  with assms(1) show ?thesis by (auto simp: insert_user_def op_simps split: if_splits)
qed

lemma use_paid:
  assumes "insert_use k u s = (Inr x, t)" and "owing (one_use k) g s"
  shows "owing nothing g t"
proof -
  have t: "t = invitation_uses_update
      (\<lambda>us. us @ [\<lparr>iu_id = next_id s, iu_invitationId = k, iu_createdUserId = u\<rparr>])
      (s\<lparr>next_id := Suc (next_id s)\<rparr>)"
    using assms(1) by (simp add: insert_use_def op_simps)
  have "counted nothing g t"
    unfolding t by (rule counted_cong [of "one_use k" g s])
      (use assms(2) in \<open>simp_all add: owing_def uses_of_def accounts_of_def\<close>)
  moreover have "referred nothing g t \<subseteq> referred (one_use k) g s"
    unfolding t by (auto simp: referred_def)
  ultimately show ?thesis using assms(2) unfolding t by (auto simp: owing_def)
qed

section \<open>Every operation keeps the accounts\<close>

lemma keeps_owing_inserts [keeps_intros]:
  "keeps (owing f g) (insert_identity u spec b)" "keeps (owing f g) (assign_role u by roleId)"
  "keeps (owing f g) (writeAcceptActivity org u k rs b n)"
  "keeps (owing f g) (update_row organizations organizations_update o_id org h)"
  unfolding insert_identity_def assign_role_def insert_user_role_def writeAcceptActivity_def
  by (intro keeps_intros keeps_create_row keeps_update_row; simp)+

lemma keeps_owing_grants: "keeps (owing f g) (redeem_grants invite args u)"
  unfolding redeem_grants_def by (intro keeps_intros)

lemma redeem_steps:
  assumes "redeem_tx invite args s = (Inr u, t)"
  obtains s1 s2 s3 s4 where "consume_use (i_id invite) s = (Inr (), s1)"
    and "insert_user invite args s1 = (Inr u, s2)"
    and "insert_identity u (rd_identity args) (i_createdBy invite = None) s2 = (Inr (), s3)"
    and "insert_use (i_id invite) u s3 = (Inr (), s4)" and "redeem_grants invite args u s4 = (Inr (), t)"
  using assms unfolding redeem_tx_def transaction_Inr
  by (elim bnd_InrE) (auto simp: op_simps)

lemma redeem_tx_uses: "keeps uses_ok (redeem_tx invite args)"
proof (rule keepsI)
  fix s r t assume ok: "uses_ok s" and run: "redeem_tx invite args s = (r, t)"
  show "uses_ok t"
  proof (cases r)
    case (Inl e)
    then show ?thesis
      using run ok by (auto simp: redeem_tx_def transaction_def uses_ok_def split: prod.splits sum.splits)
  next
    case (Inr u)
    with run have "redeem_tx invite args s = (Inr u, t)" by simp
    then show ?thesis
    proof (rule redeem_steps)
      fix s1 s2 s3 s4
      assume step: "consume_use (i_id invite) s = (Inr (), s1)" "insert_user invite args s1 = (Inr u, s2)"
        "insert_identity u (rd_identity args) (i_createdBy invite = None) s2 = (Inr (), s3)"
        "insert_use (i_id invite) u s3 = (Inr (), s4)" "redeem_grants invite args u s4 = (Inr (), t)"
      have "owing (one_use (i_id invite)) nothing s2"
        using account_paid [OF step(2) consume_owes [OF step(1) ok]] .
      then have "owing (one_use (i_id invite)) nothing s3"
        using keepsD [OF keeps_owing_inserts(1) _ step(3)] by blast
      then have "owing nothing nothing s4" by (rule use_paid [OF step(4)])
      then show "uses_ok t"
        unfolding uses_ok_def by (rule keepsD [OF keeps_owing_grants _ step(5)])
    qed
  qed
qed

lemma uses_ok_frame [simp]: "uses_ok (auth_tokens_update h s) = uses_ok s" "uses_ok (policy_cache_update g s) = uses_ok s"
  "uses_ok (clock_update k s) = uses_ok s"
  by (simp_all add: uses_ok_def owing_defs)

lemma keeps_uses_issue [keeps_intros]: "keeps uses_ok (issueVerification h mail tok u e)"
  unfolding issueVerification_def issueToken_def send_mail_def uses_ok_def
  by (intro keeps_intros keeps_create_row) simp_all

lemma redeem_uses: "keeps uses_ok (redeem_commit h mail tok args invite)"
  unfolding redeem_commit_def invalidate_def
  by (intro keeps_intros redeem_tx_uses keeps_modify)
     (auto intro!: keeps_intros keeps_swallow split: option.split identity_spec.split)

lemma uses_new_invitation:
  assumes "uses_ok s" and "i_useCount row = 0" "0 \<le> i_maxUses row" "i_id row = next_id s"
  shows "uses_ok (invitations_update (\<lambda>rs. rs @ [row]) (s\<lparr>next_id := Suc (next_id s)\<rparr>))"
proof -
  let ?t = "invitations_update (\<lambda>rs. rs @ [row]) (s\<lparr>next_id := Suc (next_id s)\<rparr>)"
  have old: "counted nothing nothing s" "referred nothing nothing s \<subseteq> {..<next_id s}"
    using assms(1) by (simp_all add: uses_ok_def owing_def)
  have "next_id s \<notin> referred nothing nothing s" using old(2) by auto
  then have fresh: "next_id s \<notin> i_id ` set (invitations s)"
      "next_id s \<notin> iu_invitationId ` set (invitation_uses s)"
      "Some (next_id s) \<notin> u_createdViaInvitationId ` set (users s)"
    by (simp_all add: referred_def)
  have same: "uses_of k ?t = uses_of k s" "accounts_of k ?t = accounts_of k s" for k
    by (simp_all add: uses_of_def accounts_of_def)
  have "uses_of (next_id s) s = 0" "accounts_of (next_id s) s = 0"
    using fresh(2,3) by (auto simp: uses_of_def accounts_of_def count_where_0_iff image_iff)
  note zero = this
  have "counted nothing nothing ?t"
  proof -
    have "\<forall>r \<in> set (invitations ?t). i_useCount r \<le> i_maxUses r \<and>
        i_useCount r = int (uses_of (i_id r) s + nothing (i_id r)) \<and>
        i_useCount r = int (accounts_of (i_id r) s + nothing (i_id r))"
      using old(1) assms(2-4) zero
      unfolding counted_def by (intro ballI) (elim conjE, fastforce)
    moreover have "distinct (map i_id (invitations ?t))"
      using old(1) fresh(1) assms(4) by (simp only: counted_def) simp
    ultimately show ?thesis unfolding counted_def same by blast
  qed
  moreover have "referred nothing nothing ?t \<subseteq> insert (next_id s) (referred nothing nothing s)"
    using assms(4) by (auto simp: referred_def)
  ultimately show ?thesis using old(2) by (auto simp: uses_ok_def owing_def)
qed

text \<open>The calls that touch invitations. A redemption commits on any row at all, so as to cover every
  interleaving of the reads that precede it.\<close>

datatype invite_call =
  Issue_Invitation string id id "string option" "id list" "time option"
| Revoke_Invitation id id
| Commit_Redemption string redemption invitation
| Boot string string
| Invite_Wait nat

fun serve_invite ::
  "cedar_engine \<Rightarrow> token_hash \<Rightarrow> (string \<Rightarrow> string) \<Rightarrow> mailer \<Rightarrow> invite_call \<Rightarrow> state \<Rightarrow> state" where
  "serve_invite e h ph mail (Issue_Invitation tok u org email rs x) s =
     snd (invitations_create e h tok u org email rs x s)"
| "serve_invite e h ph mail (Revoke_Invitation i u) s = snd (invitations_revoke i u s)"
| "serve_invite e h ph mail (Commit_Redemption tok args invite) s = snd (redeem_commit h mail tok args invite s)"
| "serve_invite e h ph mail (Boot key tok) s = snd (onApplicationBootstrap h ph key tok s)"
| "serve_invite e h ph mail (Invite_Wait ms) s = s\<lparr>clock := clock s + int ms\<rparr>"

definition serve_invites ::
  "cedar_engine \<Rightarrow> token_hash \<Rightarrow> (string \<Rightarrow> string) \<Rightarrow> mailer \<Rightarrow> invite_call list \<Rightarrow> state \<Rightarrow> state" where
  "serve_invites e h ph mail calls s = fold (serve_invite e h ph mail) calls s"

lemma cache_free_uses [keeps_intros]: "cache_free uses_ok"
  by (simp add: cache_free_def)

lemma holds_new_invitation:
  assumes "uses_ok s" and "\<And>i. i_useCount (row i) = 0 \<and> 0 \<le> i_maxUses (row i) \<and> i_id (row i) = i"
    and "\<And>i. keeps uses_ok (f i)"
  shows "holds uses_ok (bnd fresh_id (\<lambda>i. bnd (insert_invitation (row i)) (\<lambda>_. f i))) s"
    and "holds uses_ok (bnd fresh_id (\<lambda>i. insert_invitation (row i))) s"
proof -
  have "uses_ok (s\<lparr>next_id := Suc (next_id s)\<rparr>)"
    using assms(1) owing_inv.fresh by (simp add: uses_ok_def)
  then have new: "holds uses_ok (insert_invitation (row (next_id s))) (s\<lparr>next_id := Suc (next_id s)\<rparr>)"
    using uses_new_invitation [OF assms(1), of "row (next_id s)"] assms(2)
    by (simp add: holds_def insert_invitation_def op_simps)
  then show "holds uses_ok (bnd fresh_id (\<lambda>i. insert_invitation (row i))) s"
    by (simp add: holds_def op_simps)
  show "holds uses_ok (bnd fresh_id (\<lambda>i. bnd (insert_invitation (row i)) (\<lambda>_. f i))) s"
    using holds_bnd_keeps [OF new, of "\<lambda>_. f (next_id s)"] assms(3) by (simp add: holds_def op_simps)
qed

lemma keeps_uses_quiet [keeps_intros]:
  "keeps uses_ok (decide e u a res)" "keeps uses_ok (logActivity org actor st i v p)" "keeps uses_ok fresh_id"
  "keeps uses_ok (create_row grants_update g)" "keeps uses_ok (create_row roles_update r)"
  "keeps uses_ok (create_row organizations_update c)"
  unfolding uses_ok_def
  by (intro keeps_intros keeps_decide keeps_create_row; simp)+

lemma keeps_uses_upd:
  assumes "\<And>r. i_id (f r) = i_id r" "\<And>r. i_useCount (f r) = i_useCount r" "\<And>r. i_maxUses (f r) = i_maxUses r"
  shows "keeps uses_ok (update_row invitations invitations_update i_id k f)"
    and "keeps uses_ok (update_many invitations_update Q f)"
  unfolding uses_ok_def by (intro keeps_update_row keeps_update_many owing_upd assms; assumption)+

lemma keeps_assert [keeps_intros]: "keeps uses_ok (assertRolesGrantable e u rs)"
  unfolding assertRolesGrantable_def may_grant_def by (intro keeps_intros)

lemma keeps_uses_create: "keeps uses_ok (invitations_create e h tok u org email rs x)"
  unfolding invitations_create_def
  by (rule keepsI_holds, rule holds_bnd_pure [OF keeps_assert], assumption)
     (rule holds_bnd_pure [OF keeps_now], assumption, rule holds_new_invitation(1); simp add: keeps_intros)

lemma keeps_uses_revoke: "keeps uses_ok (invitations_revoke i u)"
  unfolding invitations_revoke_def by (intro keeps_intros keeps_uses_upd) simp_all

lemma keeps_uses_boot: "keeps uses_ok (onApplicationBootstrap h ph key tok)"
proof -
  have seed: "keeps uses_ok ensureSeed"
    unfolding ensureSeed_def ensure_org_def ensure_admin_role_def seed_grant_def
    by (auto intro!: keeps_intros split: list.split)
  have "keeps uses_ok (mint_invite pc tok' t org r)" for pc tok' t org r
    unfolding mint_invite_def by (rule keepsI_holds, rule holds_new_invitation(2) [where f = "\<lambda>_. ret ()"]) (simp_all add: keeps_intros)
  moreover have "keeps uses_ok (rotate_invite pc tok' t invite)" for pc tok' t invite
    unfolding rotate_invite_def by (intro keeps_intros keeps_uses_upd) simp_all
  moreover have "keeps uses_ok (closeBootstrap org)" for org
    unfolding closeBootstrap_def by (intro keeps_intros keeps_uses_upd) simp_all
  ultimately have "keeps uses_ok (refreshBootstrap h ph key tok org)" for org
    unfolding refreshBootstrap_def by (auto intro!: keeps_intros split: option.split)
  with seed show ?thesis unfolding onApplicationBootstrap_def by (intro keeps_intros)
qed

lemma uses_ok_serve: "uses_ok s \<Longrightarrow> uses_ok (serve_invite e h ph mail c s)"
  using keepsD_snd [OF keeps_uses_create] keepsD_snd [OF keeps_uses_revoke] keepsD_snd [OF redeem_uses]
    keepsD_snd [OF keeps_uses_boot]
  by (cases c) simp_all

section \<open>Properties\<close>

text \<open>C24: However redemptions, each deciding on an arbitrarily old reading of its invitation,
  interleave with issuing, revoking, restarts and time, no invitation is ever used more often than
  it allows: its counter, the rows of uses and the accounts created through it agree, and stay
  within the limit.\<close>

theorem invitation_uses_bounded:
  assumes "uses_ok s" and "r \<in> set (invitations (serve_invites e h ph mail calls s))"
  shows "i_useCount r \<le> i_maxUses r \<and>
    i_useCount r = int (uses_of (i_id r) (serve_invites e h ph mail calls s)) \<and>
    i_useCount r = int (accounts_of (i_id r) (serve_invites e h ph mail calls s))"
proof -
  have "uses_ok (serve_invites e h ph mail calls s)"
    using assms(1) unfolding serve_invites_def
    by (induction calls arbitrary: s) (simp_all add: uses_ok_serve)
  then have "counted nothing nothing (serve_invites e h ph mail calls s)"
    by (simp add: uses_ok_def owing_def)
  then show ?thesis using assms(2) unfolding counted_def by fastforce
qed

definition demo_invite :: invitation where
  "demo_invite = \<lparr>i_id = 85, i_organizationId = 1, i_tokenHash = ''tok'', i_email = Some ''a@b'',
     i_intendedRoleIds = [40], i_passcodeHash = None, i_maxUses = 1, i_useCount = 0,
     i_createdBy = Some 10, i_createdAt = 0, i_expiresAt = 5000, i_revokedAt = None\<rparr>"

definition demo_invited :: state where
  "demo_invited = demo\<lparr>invitations := [demo_invite]\<rparr>"

definition permit_engine :: cedar_engine where
  "permit_engine _ _ = Some True"

definition same_hash :: token_hash where
  "same_hash x = x"

definition no_mail :: mailer where
  "no_mail _ _ = None"

definition demo_redemption :: redemption where
  "demo_redemption = \<lparr>rd_token = ''tok'', rd_passcode = None, rd_email = Some ''A@b'',
     rd_displayName = ''Ann'', rd_identity = PasswordIdentity ''h''\<rparr>"

definition demo_race :: state where
  "demo_race = serve_invites permit_engine same_hash rev no_mail
     [Commit_Redemption ''m1'' demo_redemption demo_invite,
      Commit_Redemption ''m2'' (demo_redemption\<lparr>rd_email := None\<rparr>) demo_invite] demo_invited"

lemma demo_uses: "uses_ok demo_invited"
  by (simp add: uses_ok_def owing_defs demo_invited_def demo_invite_def demo_defs)

text \<open>Two redemptions that both read the invitation unused: one account.\<close>

theorem invitation_uses_bounded_witness:
  "invitations demo_race = [demo_invite\<lparr>i_useCount := 1\<rparr>] \<and> accounts_of 85 demo_race = 1"
proof
  show inv: "invitations demo_race = [demo_invite\<lparr>i_useCount := 1\<rparr>]" by code_simp
  have "demo_invite\<lparr>i_useCount := 1\<rparr> \<in> set (invitations demo_race)" by (simp add: inv)
  from invitation_uses_bounded [OF demo_uses this [unfolded demo_race_def]]
  show "accounts_of 85 demo_race = 1" by (simp add: demo_race_def demo_invite_def)
qed

section \<open>What a redemption does\<close>

text \<open>The state up to the policy cache, which the checks may fill; and the three tables an account
  consists of.\<close>

definition same_but_cache :: "state \<Rightarrow> state \<Rightarrow> bool" where
  "same_but_cache s t \<longleftrightarrow> t\<lparr>policy_cache := None\<rparr> = s\<lparr>policy_cache := None\<rparr>"

definition account_tables :: "state \<Rightarrow> app_user list \<times> user_identity list \<times> user_role list" where
  "account_tables s = (users s, identities s, user_roles s)"

lemma account_tables_frame [simp]:
  "account_tables (invitations_update h1 s) = account_tables s"
  "account_tables (invitation_uses_update h2 s) = account_tables s"
  "account_tables (organizations_update h3 s) = account_tables s"
  "account_tables (activities_update h4 s) = account_tables s"
  "account_tables (next_id_update h5 s) = account_tables s"
  "account_tables (policy_cache_update h6 s) = account_tables s"
  "account_tables (auth_tokens_update h7 s) = account_tables s"
  "account_tables (notifications_update h8 s) = account_tables s"
  "account_tables (pings_update h9 s) = account_tables s"
  by (simp_all add: account_tables_def)

interpretation tables_inv: invariant "\<lambda>x. account_tables x = v" for v
  by unfold_locales simp_all

lemma checks_read_only:
  assumes "redeem_checks e h ph args s = (r, t)"
  shows "same_but_cache s t"
proof -
  have "keeps (same_but_cache s) (redeem_checks e h ph args)"
    unfolding redeem_checks_def check_passcode_def safeEqualHex_def assertRolesGrantable_def may_grant_def
      check_identity_def check_email_def Let_def
    by (auto intro!: keeps_intros keeps_decide simp: same_but_cache_def
        split: option.split identity_spec.split)
  then show ?thesis by (rule keepsD) (use assms in \<open>simp_all add: same_but_cache_def\<close>)
qed

lemma passcode_reads: "check_passcode ph pc invite s = (r, t) \<Longrightarrow> t = s"
  by (auto simp: check_passcode_def safeEqualHex_def op_simps Let_def check_def split: option.splits if_splits)

lemma checks_passed:
  assumes "redeem_checks e h ph args s = (Inr invite, t)"
  shows "findByToken h (rd_token args) s = Some invite"
    and "deriveInvitationStatus (clock s) invite = inv_pending"
    and "email_matches invite (rd_email args)"
    and "i_createdBy invite = Some issuer \<Longrightarrow>
      fst (assertRolesGrantable e issuer (i_intendedRoleIds invite) s) = Inr ()"
proof -
  have checks: "findByToken h (rd_token args) s = Some invite \<and>
      deriveInvitationStatus (clock s) invite = inv_pending \<and> email_matches invite (rd_email args) \<and>
      (\<forall>issuer. i_createdBy invite = Some issuer \<longrightarrow>
        fst (assertRolesGrantable e issuer (i_intendedRoleIds invite) s) = Inr ())"
    using assms unfolding redeem_checks_def
    by (auto simp: op_simps bnd_Inr_iff split: option.splits if_splits dest!: passcode_reads)
  then show "findByToken h (rd_token args) s = Some invite"
    "deriveInvitationStatus (clock s) invite = inv_pending" "email_matches invite (rd_email args)" by blast+
  show "fst (assertRolesGrantable e issuer (i_intendedRoleIds invite) s) = Inr ()"
    if "i_createdBy invite = Some issuer"
    using checks that by blast
qed

definition granted_row :: "id \<Rightarrow> id \<Rightarrow> id option \<Rightarrow> id \<Rightarrow> user_role" where
  "granted_row i u by_user r =
     \<lparr>ur_id = i, ur_userId = u, ur_roleId = r, ur_source = src_patrice,
      ur_sourceConnectionId = None, ur_grantedBy = by_user\<rparr>"

lemma assign_one:
  "assign_role u b r s = (Inr (), t) \<Longrightarrow>
   account_tables t = (users s, identities s, user_roles s @ [granted_row (next_id s) u b r])"
  by (auto simp: assign_role_def insert_user_role_def op_simps account_tables_def granted_row_def
      split: if_splits option.splits)

lemma assigned_roles:
  "for_each rs (assign_role u b) s = (Inr (), t) \<Longrightarrow>
   \<exists>is. length is = length rs \<and> account_tables t =
     (users s, identities s, user_roles s @ map2 (\<lambda>i r. granted_row i u b r) is rs)"
proof (induction rs arbitrary: s)
  case Nil
  then show ?case by (auto simp: op_simps account_tables_def)
next
  case (Cons r rs)
  then obtain s' where one: "assign_role u b r s = (Inr (), s')" and more: "for_each rs (assign_role u b) s' = (Inr (), t)"
    by (auto elim!: bnd_InrE)
  from Cons.IH [OF more] obtain ids where "length ids = length rs"
      "account_tables t = (users s', identities s', user_roles s' @ map2 (\<lambda>i r. granted_row i u b r) ids rs)"
    by blast
  then show ?case
    using assign_one [OF one] by (intro exI [of _ "next_id s # ids"]) (simp add: account_tables_def)
qed

definition new_member :: "id \<Rightarrow> invitation \<Rightarrow> redemption \<Rightarrow> app_user" where
  "new_member u invite args =
     \<lparr>u_id = u, u_organizationId = i_organizationId invite, u_email = rd_email args,
      u_displayName = rd_displayName args, u_createdViaInvitationId = Some (i_id invite),
      u_lifecycleState = active, u_deactivatedAt = None, u_retiredAt = None, u_version = 0\<rparr>"

definition new_identity :: "id \<Rightarrow> id \<Rightarrow> identity_spec \<Rightarrow> time option \<Rightarrow> user_identity" where
  "new_identity i u spec verified =
     \<lparr>ui_id = i, ui_userId = u, ui_provider = spec_provider spec,
      ui_providerSubject = (case spec of PasswordIdentity _ \<Rightarrow> None | DiscordIdentity x \<Rightarrow> Some x),
      ui_passwordHash = (case spec of PasswordIdentity p \<Rightarrow> Some p | DiscordIdentity _ \<Rightarrow> None),
      ui_verifiedAt = verified\<rparr>"

lemma redeem_tx_tables:
  assumes "redeem_tx invite args s = (Inr u, t)"
  shows "\<exists>i ids. length ids = length (i_intendedRoleIds invite) \<and> account_tables t =
    (users s @ [new_member u invite args],
     identities s @ [new_identity i u (rd_identity args)
       (if spec_provider (rd_identity args) \<noteq> prov_password \<or> i_createdBy invite = None then Some (clock s) else None)],
     user_roles s @ map2 (\<lambda>i r. granted_row i u (i_createdBy invite) r) ids (i_intendedRoleIds invite))"
  using assms
proof (rule redeem_steps)
  fix s1 s2 s3 s4
  assume step: "consume_use (i_id invite) s = (Inr (), s1)" "insert_user invite args s1 = (Inr u, s2)"
    "insert_identity u (rd_identity args) (i_createdBy invite = None) s2 = (Inr (), s3)"
    "insert_use (i_id invite) u s3 = (Inr (), s4)" "redeem_grants invite args u s4 = (Inr (), t)"
  have 1: "account_tables s1 = account_tables s" "clock s1 = clock s"
    using step(1) by (auto simp: consume_use_def op_simps check_def split: if_splits)
  have 2: "account_tables s2 = (users s1 @ [new_member u invite args], identities s1, user_roles s1)" "clock s2 = clock s1"
    using step(2) by (auto simp: insert_user_def op_simps new_member_def account_tables_def split: if_splits)
  have 3: "account_tables s3 = (users s2, identities s2 @ [new_identity (next_id s2) u (rd_identity args)
       (if spec_provider (rd_identity args) \<noteq> prov_password \<or> i_createdBy invite = None then Some (clock s2) else None)],
       user_roles s2)"
    using step(3) by (auto simp: insert_identity_def op_simps new_identity_def account_tables_def split: if_splits)
  have 4: "account_tables s4 = account_tables s3"
    using step(4) by (auto simp: insert_use_def op_simps account_tables_def)
  from step(5) obtain s5 where each: "for_each (i_intendedRoleIds invite) (assign_role u (i_createdBy invite)) s4 = (Inr (), s5)"
    and rest: "bnd (update_row organizations organizations_update o_id (i_organizationId invite)
            (\<lambda>r. r\<lparr>o_configVersion := o_configVersion r + 1\<rparr>)) (\<lambda>_.
        writeAcceptActivity (i_organizationId invite) u (i_id invite) (i_intendedRoleIds invite)
          (i_createdBy invite = None) (spec_name (rd_identity args))) s5 = (Inr (), t)"
    unfolding redeem_grants_def by (rule bnd_InrE) simp
  have "keeps (\<lambda>x. account_tables x = account_tables s5) (bnd (update_row organizations organizations_update o_id (i_organizationId invite)
            (\<lambda>r. r\<lparr>o_configVersion := o_configVersion r + 1\<rparr>)) (\<lambda>_.
        writeAcceptActivity (i_organizationId invite) u (i_id invite) (i_intendedRoleIds invite)
          (i_createdBy invite = None) (spec_name (rd_identity args))))"
    unfolding writeAcceptActivity_def by (intro keeps_intros keeps_update_row) simp_all
  from keepsD [OF this refl rest] have 5: "account_tables t = account_tables s5" .
  obtain ids where "length ids = length (i_intendedRoleIds invite)" "account_tables s5 =
     (users s4, identities s4, user_roles s4 @ map2 (\<lambda>i r. granted_row i u (i_createdBy invite) r) ids (i_intendedRoleIds invite))"
    using assigned_roles [OF each] by blast
  then show ?thesis using 1 2 3 4 5 by (auto simp: account_tables_def)
qed

lemma commit_steps:
  assumes "redeem_commit h mail tok args invite s = (Inr (u, boot), t)"
  obtains s2 where "redeem_tx invite args s = (Inr u, s2)" and "boot \<longleftrightarrow> i_createdBy invite = None"
    and "account_tables t = account_tables s2"
proof -
  let ?mail = "\<lambda>u. case (i_createdBy invite, rd_identity args, truthy (rd_email args)) of
      (Some _, PasswordIdentity _, Some e) \<Rightarrow> swallow (issueVerification h mail tok u e) | _ \<Rightarrow> ret ()"
  from assms obtain u' s2 where tx: "redeem_tx invite args s = (Inr u', s2)"
    and rest: "bnd invalidate (\<lambda>_. bnd (?mail u') (\<lambda>_. ret (u', i_createdBy invite = None))) s2 = (Inr (u, boot), t)"
    unfolding redeem_commit_def by (rule bnd_InrE)
  have "keeps (\<lambda>x. account_tables x = account_tables s2) (issueVerification h mail tok u' e)" for e
    unfolding issueVerification_def issueToken_def send_mail_def
    by (intro keeps_intros keeps_create_row) simp_all
  then have "keeps (\<lambda>x. account_tables x = account_tables s2)
      (bnd invalidate (\<lambda>_. bnd (?mail u') (\<lambda>_. ret (u', i_createdBy invite = None))))"
    unfolding invalidate_def
    by (auto intro!: keeps_intros keeps_modify keeps_swallow split: option.split identity_spec.split)
  from keepsD [OF this refl rest] have "account_tables t = account_tables s2" .
  moreover from rest have "u' = u" "boot \<longleftrightarrow> i_createdBy invite = None"
    by (auto elim!: bnd_InrE simp: op_simps)
  ultimately show ?thesis using tx that by blast
qed

lemma redeem_run:
  assumes "redeem e h ph mail tok args s = (Inr (u, boot), t)"
  shows "\<exists>invite i ids. findByToken h (rd_token args) s = Some invite \<and>
    deriveInvitationStatus (clock s) invite = inv_pending \<and> email_matches invite (rd_email args) \<and>
    (boot \<longleftrightarrow> i_createdBy invite = None) \<and>
    (\<forall>issuer. i_createdBy invite = Some issuer \<longrightarrow>
      fst (assertRolesGrantable e issuer (i_intendedRoleIds invite) s) = Inr ()) \<and>
    users t = users s @ [new_member u invite args] \<and>
    identities t = identities s @ [new_identity i u (rd_identity args)
       (if spec_provider (rd_identity args) \<noteq> prov_password \<or> boot then Some (clock s) else None)] \<and>
    length ids = length (i_intendedRoleIds invite) \<and>
    user_roles t = user_roles s @
      map2 (\<lambda>i r. granted_row i u (i_createdBy invite) r) ids (i_intendedRoleIds invite)"
proof -
  from assms obtain invite s1 where checks: "redeem_checks e h ph args s = (Inr invite, s1)"
    and commit: "redeem_commit h mail tok args invite s1 = (Inr (u, boot), t)"
    unfolding redeem_def by (rule bnd_InrE)
  have s1: "account_tables s1 = account_tables s" "clock s1 = clock s"
    using checks_read_only [OF checks]
    by (auto simp: same_but_cache_def account_tables_def dest: arg_cong [of _ _ users]
        arg_cong [of _ _ identities] arg_cong [of _ _ user_roles] arg_cong [of _ _ clock])
  obtain s2 where tx: "redeem_tx invite args s1 = (Inr u, s2)"
    and boot: "boot \<longleftrightarrow> i_createdBy invite = None" and mail: "account_tables t = account_tables s2"
    using commit by (rule commit_steps)
  show ?thesis
    using checks_passed [OF checks] redeem_tx_tables [OF tx] boot mail s1
    by (auto simp: account_tables_def)
qed

text \<open>C25: A redemption that succeeds found its invitation pending, with the email it is bound to, and
  with roles the issuer may still grant; it creates exactly one member, with one sign-in method that
  starts verified only for an account of the provider or at bootstrap, and memberships of exactly
  the roles the invitation names.\<close>

theorem redeem_effect:
  assumes "redeem e h ph mail tok args s = (Inr (u, boot), t)"
  shows "\<exists>invite i ids. findByToken h (rd_token args) s = Some invite \<and>
    deriveInvitationStatus (clock s) invite = inv_pending \<and> email_matches invite (rd_email args) \<and>
    (boot \<longleftrightarrow> i_createdBy invite = None) \<and>
    (\<forall>issuer. i_createdBy invite = Some issuer \<longrightarrow>
      fst (assertRolesGrantable e issuer (i_intendedRoleIds invite) s) = Inr ()) \<and>
    users t = users s @ [new_member u invite args] \<and>
    identities t = identities s @ [new_identity i u (rd_identity args)
       (if spec_provider (rd_identity args) \<noteq> prov_password \<or> boot then Some (clock s) else None)] \<and>
    length ids = length (i_intendedRoleIds invite) \<and>
    user_roles t = user_roles s @
      map2 (\<lambda>i r. granted_row i u (i_createdBy invite) r) ids (i_intendedRoleIds invite)"
  by (rule redeem_run [OF assms])

theorem redeem_effect_witness:
  "\<exists>u boot t. redeem permit_engine same_hash rev no_mail ''m'' demo_redemption demo_invited = (Inr (u, boot), t) \<and>
     \<not> boot \<and> length (users t) = 4"
proof -
  have "fst (redeem permit_engine same_hash rev no_mail ''m'' demo_redemption demo_invited) = Inr (100, False)"
    by code_simp
  then obtain t where run: "redeem permit_engine same_hash rev no_mail ''m'' demo_redemption demo_invited =
      (Inr (100, False), t)"
    by (metis prod.collapse)
  from redeem_effect [OF run] have "length (users t) = 4"
    by (auto simp: demo_invited_def demo_defs)
  with run show ?thesis by blast
qed

section \<open>Bootstrap\<close>

text \<open>An invitation that is used up stays the system invitation until a restart finds an administrator.
  If the next restart finds none, it gets a new key and token, bootstrap is reported open, and no
  redemption of the published token can succeed.\<close>

lemma rotated:
  assumes "rotate_invite pc x k invite s = (Inr (), t)" and "distinct (map i_id (invitations s))"
    and "invite \<in> set (invitations s)" and "r \<in> set (invitations t)" "i_tokenHash r = x"
  shows "r = invite\<lparr>i_passcodeHash := Some pc, i_tokenHash := x, i_expiresAt := k + BOOTSTRAP_EXPIRY_MS\<rparr>"
proof -
  let ?f = "\<lambda>r. r\<lparr>i_passcodeHash := Some pc, i_tokenHash := x, i_expiresAt := k + BOOTSTRAP_EXPIRY_MS\<rparr>"
  have t: "invitations t = upd_where (\<lambda>q. i_id q = i_id invite) ?f (invitations s)"
    and free: "\<forall>q \<in> set (invitations s). i_tokenHash q = x \<longrightarrow> i_id q = i_id invite"
    using assms(1) by (auto simp: rotate_invite_def op_simps split: if_splits option.splits)
  obtain q where q: "q \<in> set (invitations s)" "r = (if i_id q = i_id invite then ?f q else q)"
    using assms(4) by (auto simp: t in_upd_where)
  then have "i_id q = i_id invite" using free assms(5) by (auto split: if_splits)
  moreover from this have "q = invite" using assms(2,3) q(1) by (metis distinct_map inj_onD)
  ultimately show ?thesis using q(2) by simp
qed

lemma bootstrap_exhausted:
  assumes "\<not> effectiveAdminExists org s" and "List.find (system_invite org) (invitations s) = Some invite"
    and "i_maxUses invite \<le> i_useCount invite" and "distinct (map i_id (invitations s))"
    and run: "refreshBootstrap h ph key live org s = (Inr x, t)"
  shows "x = Some live \<and>
    fst (redeem e h ph mail tok (args\<lparr>rd_token := live\<rparr>) t) = Inl (GoneError ''INVITE_UNAVAILABLE'')"
proof -
  have mem: "invite \<in> set (invitations s)" using find_SomeD [OF assms(2)] by simp
  from run assms(1,2) have x: "x = Some live" and rot: "rotate_invite (ph key) (h live) (clock s) invite s = (Inr (), t)"
    by (auto simp: refreshBootstrap_def op_simps bnd_Inr_iff split: option.splits)
  note row = rotated [OF rot assms(4) mem]
  have "\<exists>r \<in> set (invitations t). i_tokenHash r = h live"
    using rot mem by (force simp: rotate_invite_def op_simps in_upd_where split: if_splits option.splits)
  then obtain r where r: "findByToken h live t = Some r"
    unfolding findByToken_def by (metis (mono_tags, lifting) find_None_iff not_None_eq)
  then have "r \<in> set (invitations t)" "i_tokenHash r = h live"
    unfolding findByToken_def using find_SomeD by fast+
  from row [OF this] have "deriveInvitationStatus c r \<noteq> inv_pending" for c
    using assms(3) by (simp add: deriveInvitationStatus_def)
  then show ?thesis
    using x r by (simp add: redeem_def redeem_checks_def op_simps bnd_def [of "redeem_checks e h ph a" f for a f])
qed

end
