(* ===== verification/Attachments.thy ===== *)
theory Attachments
  imports Submissions Lifecycle
begin

text \<open>
  \<open>attachments/attachments.service.ts\<close>, \<open>attachment-kind.ts\<close> and the response header of
  \<open>attachments.controller.ts\<close>: files of messages. The bytes live in an object store under a key
  (the state's \<open>blobs\<close>), the metadata in the \<open>attachment\<close> table; an upload writes the one before the
  other, which \<open>store_upload\<close> and \<open>commit_upload\<close> keep apart. The digest of the bytes and the
  failures of the store are arguments.
\<close>

section \<open>Kinds\<close>

definition ascii_lower :: "char \<Rightarrow> char" where
  "ascii_lower c = (let n = (of_char c :: nat) in if 65 \<le> n \<and> n \<le> 90 then char_of (n + 32) else c)"

definition MODEL_TYPES :: "string list" where
  "MODEL_TYPES = [''model/gltf-binary'', ''model/gltf+json'', ''model/obj'', ''model/stl'',
     ''application/octet-stream'']"

text \<open>A MIME type is ASCII: the letters outside it, which \<open>toLowerCase\<close> also folds, decide nothing.\<close>

definition attachmentKindFor :: "string \<Rightarrow> attachment_kind" where
  "attachmentKindFor contentType =
     (let ct = js_trim (takeWhile (\<lambda>c. c \<noteq> CHR '';'') (map ascii_lower contentType)) in
      if startsWith ''image/'' ct then ak_image
      else if startsWith ''audio/'' ct then ak_audio
      else if startsWith ''text/'' ct then ak_text
      else if startsWith ''model/'' ct \<or> ct \<in> set MODEL_TYPES then ak_model
      else ak_other)"

section \<open>The store\<close>

text \<open>Which keys the store refuses to write, and which to delete.\<close>

record storage_faults =
  sf_put :: "frag list \<Rightarrow> bool"
  sf_delete :: "frag list \<Rightarrow> bool"

definition storage_put :: "storage_faults \<Rightarrow> frag list \<Rightarrow> unit svc" where
  "storage_put faults key =
     (if sf_put faults key then throw (ServerError ''storage'')
      else modify (blobs_update (\<lambda>bs. if key \<in> set bs then bs else bs @ [key])))"

definition storage_delete :: "storage_faults \<Rightarrow> frag list \<Rightarrow> unit svc" where
  "storage_delete faults key =
     (if sf_delete faults key then throw (ServerError ''storage'')
      else modify (blobs_update (filter (\<lambda>k. k \<noteq> key))))"

definition storage_key :: "id \<Rightarrow> id \<Rightarrow> frag list" where
  "storage_key organizationId uuid = [Lit ''attachments/'', Ref organizationId, Lit ''/'', Ref uuid]"

section \<open>Uploading\<close>

record upload_file =
  uf_originalname :: string
  uf_mimetype :: string
  uf_size :: int
  uf_buffer :: string

record attachment_meta_view =
  am_id :: id
  am_messageId :: "id option"
  am_filename :: string
  am_contentType :: string
  am_byteSize :: int
  am_kind :: attachment_kind
  am_checksum :: "string option"
  am_uploaderUserId :: id
  am_lifecycleState :: lifecycle
  am_retiredAt :: "time option"
  am_createdAt :: time

definition toMeta :: "attachment \<Rightarrow> attachment_meta_view" where
  "toMeta a =
     \<lparr>am_id = at_id a, am_messageId = at_messageId a, am_filename = at_filename a,
      am_contentType = at_contentType a, am_byteSize = at_byteSize a, am_kind = at_kind a,
      am_checksum = at_checksum a, am_uploaderUserId = at_uploaderUserId a,
      am_lifecycleState = at_lifecycleState a, am_retiredAt = at_retiredAt a,
      am_createdAt = at_createdAt a\<rparr>"

text \<open>The checks, and the bytes put under a new key: the organization and the key.\<close>

definition store_upload :: "storage_faults \<Rightarrow> int \<Rightarrow> id \<Rightarrow> upload_file option \<Rightarrow> (upload_file \<times> id \<times> frag list) svc" where
  "store_upload faults maxBytes messageId upload =
     bnd (need upload (UnprocessableError ''NO_FILE'' [])) (\<lambda>f.
     bnd (check (uf_size f \<le> maxBytes) (UnprocessableError ''FILE_TOO_LARGE'' [])) (\<lambda>_.
     bnd (find_unique messages m_id messageId) (\<lambda>found.
     bnd (need found (NotFoundError ''MESSAGE_NOT_FOUND'')) (\<lambda>m.
     bnd (check (m_lifecycleState m \<noteq> retired) (ConflictError ''MESSAGE_RETIRED'')) (\<lambda>_.
     bnd (find_unique_or_throw tasks t_id (m_taskId m)) (\<lambda>task.
     bnd fresh_id (\<lambda>uuid.
     let key = storage_key (t_organizationId task) uuid in
     bnd (storage_put faults key) (\<lambda>_.
     ret (f, t_organizationId task, key)))))))))"

text \<open>The row and its log entry; when they fail the bytes are deleted again. The message may be gone
  by then.\<close>

definition insert_attachment ::
  "(string \<Rightarrow> string) \<Rightarrow> id \<Rightarrow> id \<Rightarrow> upload_file \<Rightarrow> id \<Rightarrow> frag list \<Rightarrow> attachment svc" where
  "insert_attachment sha256 messageId uploaderUserId f organizationId key =
     transaction (
       bnd (find_unique messages m_id messageId) (\<lambda>owner.
       bnd (check (owner \<noteq> None) ForeignKeyViolation) (\<lambda>_.
       bnd fresh_id (\<lambda>i.
       bnd now (\<lambda>t.
       let row = \<lparr>at_id = i, at_organizationId = organizationId, at_messageId = Some messageId,
                  at_answerId = None, at_uploaderUserId = uploaderUserId, at_storageKey = key,
                  at_filename = uf_originalname f, at_contentType = uf_mimetype f,
                  at_byteSize = uf_size f, at_kind = attachmentKindFor (uf_mimetype f),
                  at_checksum = Some (sha256 (uf_buffer f)), at_lifecycleState = active,
                  at_retiredAt = None, at_createdAt = t\<rparr> in
       bnd (create_row attachments_update row) (\<lambda>_.
       bnd (logActivity organizationId (Some uploaderUserId) ''attachment'' i ''attachment.created''
              [(''attachmentId'', PId i), (''messageId'', PId messageId)]) (\<lambda>_.
       ret row)))))))"

text \<open>\<open>try ... catch (err) { cleanup; throw err }\<close>.\<close>

definition on_error :: "'a svc \<Rightarrow> unit svc \<Rightarrow> 'a svc" where
  "on_error m cleanup = (\<lambda>s. case m s of
     (Inl e, t) \<Rightarrow> (Inl e, snd (cleanup t)) | (Inr x, t) \<Rightarrow> (Inr x, t))"

definition commit_upload ::
  "storage_faults \<Rightarrow> (string \<Rightarrow> string) \<Rightarrow> id \<Rightarrow> id \<Rightarrow> upload_file \<times> id \<times> frag list \<Rightarrow>
   attachment_meta_view svc" where
  "commit_upload faults sha256 messageId uploaderUserId stored =
     (case stored of (f, organizationId, key) \<Rightarrow>
        on_error
          (bnd (insert_attachment sha256 messageId uploaderUserId f organizationId key) (\<lambda>row.
           ret (toMeta row)))
          (swallow (storage_delete faults key)))"

definition upload ::
  "storage_faults \<Rightarrow> (string \<Rightarrow> string) \<Rightarrow> int \<Rightarrow> id \<Rightarrow> id \<Rightarrow> upload_file option \<Rightarrow>
   attachment_meta_view svc" where
  "upload faults sha256 maxBytes messageId uploaderUserId upload_arg =
     bnd (store_upload faults maxBytes messageId upload_arg) (\<lambda>stored.
     commit_upload faults sha256 messageId uploaderUserId stored)"

section \<open>Lifecycle\<close>

definition loadLifecycle :: "id \<Rightarrow> attachment svc" where
  "loadLifecycle i =
     bnd (find_unique attachments at_id i) (\<lambda>found.
     need found (NotFoundError ''ATTACHMENT_NOT_FOUND''))"

definition write_attachment :: "attachment \<Rightarrow> id \<Rightarrow> string \<Rightarrow> (attachment \<Rightarrow> attachment) \<Rightarrow> attachment_meta_view svc" where
  "write_attachment att actorUserId verb f =
     bnd (transaction (
       bnd (update_row attachments attachments_update at_id (at_id att) f) (\<lambda>updated.
       bnd (logActivity (at_organizationId att) (Some actorUserId) ''attachment'' (at_id att) verb
              [(''attachmentId'', PId (at_id att))]) (\<lambda>_.
       ret updated)))) (\<lambda>row.
     ret (toMeta row))"

definition attachments_retire :: "id \<Rightarrow> id \<Rightarrow> attachment_meta_view svc" where
  "attachments_retire i actorUserId =
     bnd (loadLifecycle i) (\<lambda>att.
     bnd (check (at_lifecycleState att \<noteq> retired) (ConflictError ''ALREADY_RETIRED'')) (\<lambda>_.
     bnd now (\<lambda>t.
     write_attachment att actorUserId ''attachment.retired''
       (\<lambda>a. a\<lparr>at_lifecycleState := retired, at_retiredAt := Some t\<rparr>))))"

definition attachments_revive :: "id \<Rightarrow> id \<Rightarrow> attachment_meta_view svc" where
  "attachments_revive i actorUserId =
     bnd (loadLifecycle i) (\<lambda>att.
     bnd (windowMs (at_organizationId att)) (\<lambda>graceMs.
     bnd now (\<lambda>t.
     bnd (check (isRevivable (at_lifecycleState att) (at_retiredAt att) graceMs t)
            (ConflictError ''NOT_REVIVABLE'')) (\<lambda>_.
     write_attachment att actorUserId ''attachment.revived''
       (\<lambda>a. a\<lparr>at_lifecycleState := active, at_retiredAt := None\<rparr>)))))"

record download_target =
  dt_storageKey :: "frag list"
  dt_filename :: string
  dt_contentType :: string

definition resolveDownload :: "id \<Rightarrow> download_target svc" where
  "resolveDownload i =
     bnd (find_unique attachments at_id i) (\<lambda>found.
     case found of
       None \<Rightarrow> throw (NotFoundError ''ATTACHMENT_NOT_FOUND'')
     | Some a \<Rightarrow>
         bnd (check (at_lifecycleState a \<noteq> retired) (NotFoundError ''ATTACHMENT_NOT_FOUND'')) (\<lambda>_.
         ret \<lparr>dt_storageKey = at_storageKey a, dt_filename = at_filename a,
              dt_contentType = at_contentType a\<rparr>))"

section \<open>The download header\<close>

definition printable :: "char \<Rightarrow> bool" where
  "printable c \<longleftrightarrow> 32 \<le> (of_char c :: nat) \<and> (of_char c :: nat) \<le> 126"

definition unreserved :: "char \<Rightarrow> bool" where
  "unreserved c \<longleftrightarrow>
     (let n = (of_char c :: nat) in
      (48 \<le> n \<and> n \<le> 57) \<or> (65 \<le> n \<and> n \<le> 90) \<or> (97 \<le> n \<and> n \<le> 122) \<or>
      c \<in> set ''-_.!~*'' \<or> n = 39 \<or> c \<in> set ''()'')"

definition upper_hex :: "nat \<Rightarrow> char" where
  "upper_hex n = char_of (if n < 10 then 48 + n else 55 + n)"

definition percent_byte :: "nat \<Rightarrow> string" where
  "percent_byte n = [CHR ''%'', upper_hex (n div 16), upper_hex (n mod 16)]"

text \<open>\<open>encodeURIComponent\<close> on one code point below 256: as is, or its UTF-8 bytes.\<close>

definition encode_char :: "char \<Rightarrow> string" where
  "encode_char c =
     (let n = (of_char c :: nat) in
      if unreserved c then [c]
      else if n < 128 then percent_byte n
      else percent_byte (192 + n div 64) @ percent_byte (128 + n mod 64))"

definition encodeURIComponent :: "string \<Rightarrow> string" where
  "encodeURIComponent x = concat (map encode_char x)"

definition ascii_filename :: "string \<Rightarrow> string" where
  "ascii_filename x =
     filter (\<lambda>c. of_char c \<noteq> (34 :: nat) \<and> of_char c \<noteq> (92 :: nat))
       (map (\<lambda>c. if printable c then c else CHR ''_'') x)"

definition contentDisposition :: "string \<Rightarrow> string" where
  "contentDisposition filename =
     ''attachment; filename='' @ [CHR 0x22] @ ascii_filename filename @ [CHR 0x22] @
     ''; filename*=UTF-8'' @ [CHR 0x27, CHR 0x27] @ encodeURIComponent filename"

end
