(* ===== verification/Gc.thy ===== *)
theory Gc
  imports Attachments Auth
begin

text \<open>
  \<open>gc/gc.service.ts\<close>: the sweep that deletes what was retired longer than the grace period ago.
  Deletions run against the foreign keys of the schema: a row something still refers to makes the
  transaction fail with a foreign key violation, which the sweep records and leaves for the next
  one; deleting submissions cascades to their answers, templates to their questions.
\<close>

section \<open>The report\<close>

record gc_report =
  gr_tasks :: "id list"
  gr_divisions :: "id list"
  gr_teams :: "id list"
  gr_roles :: "id list"
  gr_usersScrubbed :: "id list"
  gr_usersDeleted :: "id list"
  gr_integrationConnections :: "id list"
  gr_blocked :: "(string \<times> id) list"
  gr_orphanedBlobs :: nat

definition emptyReport :: gc_report where
  "emptyReport =
     \<lparr>gr_tasks = [], gr_divisions = [], gr_teams = [], gr_roles = [], gr_usersScrubbed = [],
      gr_usersDeleted = [], gr_integrationConnections = [], gr_blocked = [], gr_orphanedBlobs = 0\<rparr>"

section \<open>Candidates\<close>

definition sweepContext :: "(id \<times> time) svc" where
  "sweepContext =
     bnd readOrg (\<lambda>org.
     bnd now (\<lambda>t.
     ret (o_id org, date_of (of_int t - windowMsFromSettings (Some (o_settings org))))))"

definition past_grace :: "time \<Rightarrow> lifecycle \<Rightarrow> time option \<Rightarrow> bool" where
  "past_grace cutoff st retiredAt \<longleftrightarrow>
     st = retired \<and> (case retiredAt of None \<Rightarrow> False | Some t \<Rightarrow> t < cutoff)"

definition roleUnreferenced :: "id \<Rightarrow> state \<Rightarrow> bool" where
  "roleUnreferenced roleId s \<longleftrightarrow>
     count_where (\<lambda>ur. ur_roleId ur = roleId) (user_roles s) = 0 \<and>
     count_where (\<lambda>g. g_roleId g = roleId) (grants s) = 0 \<and>
     count_where (\<lambda>m. mp_roleId m = roleId) (mappings s) = 0"

definition inherent_collectable :: "role option \<Rightarrow> state \<Rightarrow> bool" where
  "inherent_collectable inherentRole s \<longleftrightarrow>
     (case inherentRole of None \<Rightarrow> True | Some r \<Rightarrow> roleUnreferenced (r_id r) s)"

definition divisionCollectable :: "id \<Rightarrow> role option \<Rightarrow> state \<Rightarrow> bool" where
  "divisionCollectable divisionId inherentRole s \<longleftrightarrow>
     count_where (\<lambda>t. t_divisionId t = divisionId) (tasks s) = 0 \<and> inherent_collectable inherentRole s"

definition teamCollectable :: "id \<Rightarrow> role option \<Rightarrow> state \<Rightarrow> bool" where
  "teamCollectable teamId inherentRole s \<longleftrightarrow>
     count_where (\<lambda>t. t_teamId t = Some teamId) (tasks s) = 0 \<and> inherent_collectable inherentRole s"

record collectables =
  co_tasks :: "id list"
  co_divisions :: "id list"
  co_teams :: "id list"
  co_roles :: "id list"

definition collectable :: "id \<Rightarrow> time \<Rightarrow> state \<Rightarrow> collectables" where
  "collectable orgId cutoff s =
     \<lparr>co_tasks = map t_id (filter (\<lambda>t. t_organizationId t = orgId \<and>
        past_grace cutoff (t_lifecycleState t) (t_retiredAt t)) (tasks s)),
      co_divisions = map d_id (filter (\<lambda>d. d_organizationId d = orgId \<and>
        past_grace cutoff (d_lifecycleState d) (d_retiredAt d) \<and>
        divisionCollectable (d_id d) (List.find (\<lambda>r. r_divisionId r = Some (d_id d)) (roles s)) s) (divisions s)),
      co_teams = map tm_id (filter (\<lambda>t. tm_organizationId t = orgId \<and>
        past_grace cutoff (tm_lifecycleState t) (tm_retiredAt t) \<and>
        teamCollectable (tm_id t) (List.find (\<lambda>r. r_teamId r = Some (tm_id t)) (roles s)) s) (teams s)),
      co_roles = map r_id (filter (\<lambda>r. r_organizationId r = orgId \<and> r_kind r = standalone \<and>
        past_grace cutoff (r_lifecycleState r) (r_retiredAt r) \<and> roleUnreferenced (r_id r) s) (roles s))\<rparr>"

definition collectableConnections :: "id \<Rightarrow> time \<Rightarrow> state \<Rightarrow> id list" where
  "collectableConnections orgId cutoff s =
     map cn_id (filter (\<lambda>c. cn_organizationId c = orgId \<and>
       past_grace cutoff (cn_lifecycleState c) (cn_retiredAt c) \<and>
       count_where (\<lambda>e. ei_connectionId e = cn_id c) (external_identities s) = 0 \<and>
       count_where (\<lambda>m. mp_connectionId m = cn_id c) (mappings s) = 0) (connections s))"

definition userHasHistory :: "id \<Rightarrow> state \<Rightarrow> bool" where
  "userHasHistory userId s \<longleftrightarrow>
     count_where (\<lambda>m. m_senderUserId m = Some userId) (messages s) +
     count_where (\<lambda>b. s_claimantUserId b = userId) (submissions s) +
     count_where (\<lambda>t. t_requesterUserId t = userId) (tasks s) +
     count_where (\<lambda>a. at_uploaderUserId a = userId) (attachments s) +
     count_where (\<lambda>c. c_userId c = userId) (claimants s) > 0"

text \<open>The users to scrub and the users to delete.\<close>

definition collectableUsers :: "id \<Rightarrow> time \<Rightarrow> state \<Rightarrow> id list \<times> id list" where
  "collectableUsers orgId cutoff s =
     (let ids = map u_id (filter (\<lambda>u. u_organizationId u = orgId \<and>
            past_grace cutoff (u_lifecycleState u) (u_retiredAt u)) (users s))
      in (filter (\<lambda>i. userHasHistory i s) ids, filter (\<lambda>i. \<not> userHasHistory i s) ids))"

definition dryRun :: "gc_report svc" where
  "dryRun =
     bnd sweepContext (\<lambda>(orgId, cutoff).
     bnd (gets (collectable orgId cutoff)) (\<lambda>c.
     bnd (gets (collectableUsers orgId cutoff)) (\<lambda>u.
     bnd (gets (collectableConnections orgId cutoff)) (\<lambda>conns.
     ret (emptyReport\<lparr>gr_tasks := co_tasks c, gr_divisions := co_divisions c, gr_teams := co_teams c,
            gr_roles := co_roles c, gr_usersScrubbed := fst u, gr_usersDeleted := snd u,
            gr_integrationConnections := conns\<rparr>)))))"

section \<open>Deleting against the foreign keys\<close>

text \<open>\<open>deleteMany\<close>, and \<open>delete\<close> of one row, when something may refer to the rows.\<close>

definition delete_restricted :: "(state \<Rightarrow> bool) \<Rightarrow> 'r putter \<Rightarrow> ('r \<Rightarrow> bool) \<Rightarrow> unit svc" where
  "delete_restricted referred put P =
     bnd (gets referred) (\<lambda>b.
     bnd (check (\<not> b) ForeignKeyViolation) (\<lambda>_.
     delete_many put P))"

definition delete_one ::
  "(state \<Rightarrow> 'r list) \<Rightarrow> (state \<Rightarrow> bool) \<Rightarrow> 'r putter \<Rightarrow> ('r \<Rightarrow> id) \<Rightarrow> id \<Rightarrow> unit svc" where
  "delete_one rows referred put key k =
     bnd (find_unique rows key k) (\<lambda>found.
     bnd (check (found \<noteq> None) RecordNotFound) (\<lambda>_.
     delete_restricted referred put (\<lambda>r. key r = k)))"

text \<open>What still refers to a task's messages, its submissions and their answers, the questions of its
  template, the task itself, once its own self-references are gone.\<close>

definition message_referred :: "id \<Rightarrow> state \<Rightarrow> bool" where
  "message_referred taskId s \<longleftrightarrow>
     (\<exists>m \<in> set (messages s). m_taskId m = taskId \<and>
        ((\<exists>a \<in> set (attachments s). at_messageId a = Some (m_id m)) \<or>
         (\<exists>c \<in> set (messages s). m_parentMessageId c = Some (m_id m))))"

definition answer_of_task :: "id \<Rightarrow> state \<Rightarrow> answer_row \<Rightarrow> bool" where
  "answer_of_task taskId s a \<longleftrightarrow>
     (\<exists>b \<in> set (submissions s). s_taskId b = taskId \<and> an_submissionId a = s_id b)"

definition submission_referred :: "id \<Rightarrow> state \<Rightarrow> bool" where
  "submission_referred taskId s \<longleftrightarrow>
     (\<exists>b \<in> set (submissions s). s_taskId b = taskId \<and>
        ((\<exists>m \<in> set (messages s). m_submissionId m = Some (s_id b)) \<or>
         (\<exists>c \<in> set (submissions s). s_prevSubmissionId c = Some (s_id b)))) \<or>
     (\<exists>a \<in> set (answers s). answer_of_task taskId s a \<and>
        (\<exists>x \<in> set (attachments s). at_answerId x = Some (an_id a)))"

definition question_referred :: "(request_template \<Rightarrow> bool) \<Rightarrow> state \<Rightarrow> bool" where
  "question_referred P s \<longleftrightarrow>
     (\<exists>rt \<in> set (templates s). P rt \<and>
        (\<exists>q \<in> set (questions s). qn_requestTemplateId q = rt_id rt \<and>
           (\<exists>a \<in> set (answers s). an_questionId a = qn_id q)))"

definition task_referred :: "id \<Rightarrow> state \<Rightarrow> bool" where
  "task_referred taskId s \<longleftrightarrow>
     (\<exists>m \<in> set (messages s). m_taskId m = taskId) \<or> (\<exists>b \<in> set (submissions s). s_taskId b = taskId) \<or>
     (\<exists>c \<in> set (claimants s). c_taskId c = taskId) \<or>
     (\<exists>rt \<in> set (templates s). rt_ownerTaskId rt = Some taskId)"

definition role_referred :: "(role \<Rightarrow> bool) \<Rightarrow> state \<Rightarrow> bool" where
  "role_referred P s \<longleftrightarrow> (\<exists>r \<in> set (roles s). P r \<and> \<not> roleUnreferenced (r_id r) s)"

definition user_referred :: "id \<Rightarrow> state \<Rightarrow> bool" where
  "user_referred userId s \<longleftrightarrow>
     (\<exists>i \<in> set (identities s). ui_userId i = userId) \<or> (\<exists>e \<in> set (sessions s). se_userId e = userId) \<or>
     (\<exists>k \<in> set (auth_tokens s). tk_userId k = userId) \<or>
     (\<exists>u \<in> set (invitation_uses s). iu_createdUserId u = userId) \<or>
     (\<exists>ur \<in> set (user_roles s). ur_userId ur = userId) \<or>
     (\<exists>n \<in> set (notifications s). n_recipientUserId n = userId) \<or>
     (\<exists>e \<in> set (external_identities s). ei_userId e = userId) \<or> userHasHistory userId s"

definition delete_templates :: "(request_template \<Rightarrow> bool) \<Rightarrow> unit svc" where
  "delete_templates P =
     bnd (gets (\<lambda>s. map rt_id (filter P (templates s)))) (\<lambda>gone.
     bnd (delete_restricted (question_referred P) templates_update P) (\<lambda>_.
     delete_many questions_update (\<lambda>q. qn_requestTemplateId q \<in> set gone)))"

definition delete_submissions :: "id \<Rightarrow> unit svc" where
  "delete_submissions taskId =
     bnd (gets (\<lambda>s. map an_id (filter (answer_of_task taskId s) (answers s)))) (\<lambda>gone.
     bnd (delete_restricted (submission_referred taskId) submissions_update (\<lambda>b. s_taskId b = taskId)) (\<lambda>_.
     delete_many answers_update (\<lambda>a. an_id a \<in> set gone)))"

definition log_gc :: "id \<Rightarrow> string \<Rightarrow> id \<Rightarrow> string \<Rightarrow> payload \<Rightarrow> unit svc" where
  "log_gc orgId subjectType subjectId verb p =
     log_activity orgId None subjectType subjectId verb p src_system None"

definition handleDeleteFailure :: "id \<Rightarrow> string \<Rightarrow> id \<Rightarrow> err \<Rightarrow> gc_report \<Rightarrow> gc_report svc" where
  "handleDeleteFailure orgId entityType entityId e report =
     (if e \<noteq> ForeignKeyViolation then throw e
      else
        bnd (swallow (log_gc orgId entityType entityId ''gc.blocked''
               [(''entityType'', PStr entityType), (''entityId'', PId entityId)])) (\<lambda>_.
        ret (report\<lparr>gr_blocked := gr_blocked report @ [(entityType, entityId)]\<rparr>)))"

text \<open>One entity: what its transaction returns goes into the report, a violation among the blocked.\<close>

definition collect_one ::
  "id \<Rightarrow> string \<Rightarrow> id \<Rightarrow> 'a svc \<Rightarrow> ('a \<Rightarrow> gc_report \<Rightarrow> gc_report svc) \<Rightarrow> gc_report \<Rightarrow> gc_report svc" where
  "collect_one orgId entityType entityId m done_with report =
     (\<lambda>s. case transaction m s of
        (Inl e, t) \<Rightarrow> handleDeleteFailure orgId entityType entityId e report t
      | (Inr x, t) \<Rightarrow> done_with x report t)"

primrec collect_each :: "id list \<Rightarrow> (id \<Rightarrow> gc_report \<Rightarrow> gc_report svc) \<Rightarrow> gc_report \<Rightarrow> gc_report svc" where
  "collect_each [] f report = ret report"
| "collect_each (i # ids) f report = bnd (f i report) (collect_each ids f)"

section \<open>Task aggregates\<close>

definition of_task :: "id \<Rightarrow> state \<Rightarrow> attachment \<Rightarrow> bool" where
  "of_task taskId s a \<longleftrightarrow>
     (\<exists>m \<in> set (messages s). at_messageId a = Some (m_id m) \<and> m_taskId m = taskId) \<or>
     (\<exists>an \<in> set (answers s). at_answerId a = Some (an_id an) \<and> answer_of_task taskId s an)"

definition task_aggregate :: "id \<Rightarrow> id \<Rightarrow> frag list list svc" where
  "task_aggregate orgId taskId =
     bnd (gets (\<lambda>s. filter (of_task taskId s) (attachments s))) (\<lambda>found.
     bnd (update_many messages_update (\<lambda>m. m_taskId m = taskId) (\<lambda>m. m\<lparr>m_parentMessageId := None\<rparr>)) (\<lambda>_.
     bnd (update_many submissions_update (\<lambda>b. s_taskId b = taskId) (\<lambda>b. b\<lparr>s_prevSubmissionId := None\<rparr>)) (\<lambda>_.
     bnd (delete_many attachments_update (\<lambda>a. at_id a \<in> at_id ` set found)) (\<lambda>_.
     bnd (delete_restricted (message_referred taskId) messages_update (\<lambda>m. m_taskId m = taskId)) (\<lambda>_.
     bnd (delete_submissions taskId) (\<lambda>_.
     bnd (delete_many claimants_update (\<lambda>c. c_taskId c = taskId)) (\<lambda>_.
     bnd (delete_templates (\<lambda>rt. rt_ownerTaskId rt = Some taskId)) (\<lambda>_.
     bnd (delete_one tasks (task_referred taskId) tasks_update t_id taskId) (\<lambda>_.
     bnd (log_gc orgId ''task'' taskId ''gc.task_collected'' [(''taskId'', PId taskId)]) (\<lambda>_.
     ret (map at_storageKey found)))))))))))"

definition deleteTaskAggregate :: "storage_faults \<Rightarrow> id \<Rightarrow> id \<Rightarrow> gc_report \<Rightarrow> gc_report svc" where
  "deleteTaskAggregate faults orgId taskId =
     collect_one orgId ''task'' taskId (task_aggregate orgId taskId) (\<lambda>blobKeys report.
       bnd (for_each blobKeys (\<lambda>key. swallow (storage_delete faults key))) (\<lambda>_.
       ret (report\<lparr>gr_tasks := gr_tasks report @ [taskId]\<rparr>)))"

section \<open>Units, roles and connections\<close>

definition division_referred :: "id \<Rightarrow> state \<Rightarrow> bool" where
  "division_referred divisionId s \<longleftrightarrow>
     (\<exists>t \<in> set (tasks s). t_divisionId t = divisionId) \<or>
     (\<exists>r \<in> set (roles s). r_divisionId r = Some divisionId) \<or>
     (\<exists>rt \<in> set (templates s). rt_ownerDivisionId rt = Some divisionId)"

definition team_referred :: "id \<Rightarrow> state \<Rightarrow> bool" where
  "team_referred teamId s \<longleftrightarrow>
     (\<exists>t \<in> set (tasks s). t_teamId t = Some teamId) \<or> (\<exists>r \<in> set (roles s). r_teamId r = Some teamId)"

definition connection_referred :: "id \<Rightarrow> state \<Rightarrow> bool" where
  "connection_referred k s \<longleftrightarrow>
     (\<exists>e \<in> set (external_identities s). ei_connectionId e = k) \<or>
     (\<exists>m \<in> set (mappings s). mp_connectionId m = k)"

definition deleteDivision :: "id \<Rightarrow> id \<Rightarrow> gc_report \<Rightarrow> gc_report svc" where
  "deleteDivision orgId divisionId =
     collect_one orgId ''division'' divisionId
       (bnd (delete_templates (\<lambda>rt. rt_ownerDivisionId rt = Some divisionId)) (\<lambda>_.
        bnd (delete_restricted (role_referred (\<lambda>r. r_divisionId r = Some divisionId)) roles_update
               (\<lambda>r. r_divisionId r = Some divisionId)) (\<lambda>_.
        bnd (delete_one divisions (division_referred divisionId) divisions_update d_id divisionId) (\<lambda>_.
        log_gc orgId ''division'' divisionId ''gc.division_collected'' [(''divisionId'', PId divisionId)]))))
       (\<lambda>_ report. ret (report\<lparr>gr_divisions := gr_divisions report @ [divisionId]\<rparr>))"

definition deleteTeam :: "id \<Rightarrow> id \<Rightarrow> gc_report \<Rightarrow> gc_report svc" where
  "deleteTeam orgId teamId =
     collect_one orgId ''team'' teamId
       (bnd (delete_restricted (role_referred (\<lambda>r. r_teamId r = Some teamId)) roles_update
               (\<lambda>r. r_teamId r = Some teamId)) (\<lambda>_.
        bnd (delete_one teams (team_referred teamId) teams_update tm_id teamId) (\<lambda>_.
        log_gc orgId ''team'' teamId ''gc.team_collected'' [(''teamId'', PId teamId)])))
       (\<lambda>_ report. ret (report\<lparr>gr_teams := gr_teams report @ [teamId]\<rparr>))"

definition deleteStandaloneRole :: "id \<Rightarrow> id \<Rightarrow> gc_report \<Rightarrow> gc_report svc" where
  "deleteStandaloneRole orgId roleId =
     collect_one orgId ''role'' roleId
       (bnd (delete_one roles (role_referred (\<lambda>r. r_id r = roleId)) roles_update r_id roleId) (\<lambda>_.
        log_gc orgId ''role'' roleId ''gc.role_collected'' [(''roleId'', PId roleId)]))
       (\<lambda>_ report. ret (report\<lparr>gr_roles := gr_roles report @ [roleId]\<rparr>))"

text \<open>A connection takes its stored sync baseline with it.\<close>

definition deleteIntegrationConnection :: "id \<Rightarrow> id \<Rightarrow> gc_report \<Rightarrow> gc_report svc" where
  "deleteIntegrationConnection orgId connectionId =
     collect_one orgId ''integration_connection'' connectionId
       (bnd (delete_one connections (connection_referred connectionId) connections_update cn_id connectionId) (\<lambda>_.
        bnd (delete_many baselines_update (\<lambda>b. sb_connectionId b = connectionId)) (\<lambda>_.
        log_gc orgId ''integration_connection'' connectionId ''gc.integration_connection_collected''
          [(''connectionId'', PId connectionId)])))
       (\<lambda>_ report. ret (report\<lparr>gr_integrationConnections := gr_integrationConnections report @ [connectionId]\<rparr>))"

section \<open>Users\<close>

definition issued_open :: "id \<Rightarrow> invitation \<Rightarrow> bool" where
  "issued_open userId r \<longleftrightarrow> i_createdBy r = Some userId \<and> i_revokedAt r = None"

definition revokeIssuedInvitations :: "id \<Rightarrow> id \<Rightarrow> unit svc" where
  "revokeIssuedInvitations orgId userId =
     bnd (gets (\<lambda>s. map i_id (filter (issued_open userId) (invitations s)))) (\<lambda>issued.
     bnd now (\<lambda>t.
     if issued = [] then ret ()
     else
       bnd (update_many invitations_update (issued_open userId) (\<lambda>r. r\<lparr>i_revokedAt := Some t\<rparr>)) (\<lambda>_.
       for_each issued (\<lambda>i.
         log_gc orgId ''invitation'' i ''invite.auto_revoked_on_issuer_retired''
           [(''invitationId'', PId i), (''issuerUserId'', PId userId)]))))"

definition nullReceivedInvitationEmails :: "id \<Rightarrow> unit svc" where
  "nullReceivedInvitationEmails userId =
     bnd (gets (\<lambda>s. map iu_invitationId (filter (\<lambda>u. iu_createdUserId u = userId) (invitation_uses s)))) (\<lambda>uses.
     if uses = [] then ret ()
     else update_many invitations_update (\<lambda>r. i_id r \<in> set uses) (\<lambda>r. r\<lparr>i_email := None\<rparr>))"

definition purgeUserSatellites :: "id \<Rightarrow> unit svc" where
  "purgeUserSatellites userId =
     bnd (delete_many identities_update (\<lambda>i. ui_userId i = userId)) (\<lambda>_.
     bnd (delete_many sessions_update (\<lambda>e. se_userId e = userId)) (\<lambda>_.
     bnd (delete_many auth_tokens_update (\<lambda>k. tk_userId k = userId)) (\<lambda>_.
     bnd (delete_many notifications_update (\<lambda>n. n_recipientUserId n = userId)) (\<lambda>_.
     bnd (delete_many user_roles_update (\<lambda>ur. ur_userId ur = userId)) (\<lambda>_.
     bnd (gets (\<lambda>s. filter (\<lambda>e. ei_userId e = userId) (external_identities s))) (\<lambda>linked.
     bnd (delete_many external_identities_update (\<lambda>e. ei_userId e = userId)) (\<lambda>_.
     for_each linked (\<lambda>e.
       delete_many baselines_update (\<lambda>b. sb_connectionId b = ei_connectionId e \<and>
         sb_externalUserId b = ei_externalUserId e)))))))))"

definition scrubUser :: "id \<Rightarrow> id \<Rightarrow> gc_report \<Rightarrow> gc_report svc" where
  "scrubUser orgId userId =
     collect_one orgId ''user'' userId
       (bnd (revokeIssuedInvitations orgId userId) (\<lambda>_.
        bnd (nullReceivedInvitationEmails userId) (\<lambda>_.
        bnd (purgeUserSatellites userId) (\<lambda>_.
        bnd (update_row users users_update u_id userId
               (\<lambda>u. u\<lparr>u_email := None, u_version := u_version u + 1\<rparr>)) (\<lambda>_.
        log_gc orgId ''user'' userId ''gc.user_scrubbed'' [(''userId'', PId userId)])))))
       (\<lambda>_ report. ret (report\<lparr>gr_usersScrubbed := gr_usersScrubbed report @ [userId]\<rparr>))"

definition deleteUser :: "id \<Rightarrow> id \<Rightarrow> gc_report \<Rightarrow> gc_report svc" where
  "deleteUser orgId userId =
     collect_one orgId ''user'' userId
       (bnd (revokeIssuedInvitations orgId userId) (\<lambda>_.
        bnd (nullReceivedInvitationEmails userId) (\<lambda>_.
        bnd (delete_many invitation_uses_update (\<lambda>u. iu_createdUserId u = userId)) (\<lambda>_.
        bnd (purgeUserSatellites userId) (\<lambda>_.
        bnd (delete_one users (user_referred userId) users_update u_id userId) (\<lambda>_.
        log_gc orgId ''user'' userId ''gc.user_collected'' [(''userId'', PId userId)]))))))
       (\<lambda>_ report. ret (report\<lparr>gr_usersDeleted := gr_usersDeleted report @ [userId]\<rparr>))"

section \<open>Orphaned blobs\<close>

definition under_org :: "id \<Rightarrow> frag list \<Rightarrow> bool" where
  "under_org orgId key \<longleftrightarrow> take 3 key = [Lit ''attachments/'', Ref orgId, Lit ''/'']"

text \<open>The keys with no attachment row.\<close>

definition orphans :: "id \<Rightarrow> state \<Rightarrow> frag list list" where
  "orphans orgId s = filter (\<lambda>k. k \<notin> at_storageKey ` set (attachments s)) (filter (under_org orgId) (blobs s))"

definition reconcileOrphanedBlobs :: "storage_faults \<Rightarrow> id \<Rightarrow> nat svc" where
  "reconcileOrphanedBlobs faults orgId =
     bnd (gets (orphans orgId)) (\<lambda>found.
     bnd (for_each found (\<lambda>key. swallow (storage_delete faults key))) (\<lambda>_.
     bnd (if found = [] then ret ()
          else swallow (log_gc orgId ''organization'' orgId ''gc.blob_reconciled''
                 [(''blobCount'', PInt (int (length found)))])) (\<lambda>_.
     ret (length found))))"

section \<open>The sweep\<close>

definition sweep_units :: "id \<Rightarrow> time \<Rightarrow> gc_report \<Rightarrow> gc_report svc" where
  "sweep_units orgId cutoff report =
     bnd (gets (collectable orgId cutoff)) (\<lambda>fresh.
     bnd (collect_each (co_divisions fresh) (deleteDivision orgId) report) (\<lambda>report.
     bnd (collect_each (co_teams fresh) (deleteTeam orgId) report) (\<lambda>report.
     collect_each (co_roles fresh) (deleteStandaloneRole orgId) report)))"

definition sweep_users :: "id \<Rightarrow> time \<Rightarrow> gc_report \<Rightarrow> gc_report svc" where
  "sweep_users orgId cutoff report =
     bnd (gets (collectableUsers orgId cutoff)) (\<lambda>fresh.
     bnd (collect_each (fst fresh) (scrubUser orgId) report) (\<lambda>report.
     collect_each (snd fresh) (deleteUser orgId) report))"

definition sweep :: "storage_faults \<Rightarrow> gc_report svc" where
  "sweep faults =
     bnd sweepContext (\<lambda>(orgId, cutoff).
     bnd (gets (collectable orgId cutoff)) (\<lambda>c.
     bnd (collect_each (co_tasks c) (deleteTaskAggregate faults orgId) emptyReport) (\<lambda>report.
     bnd (sweep_units orgId cutoff report) (\<lambda>report.
     bnd (sweep_users orgId cutoff report) (\<lambda>report.
     bnd (gets (collectableConnections orgId cutoff)) (\<lambda>conns.
     bnd (collect_each conns (deleteIntegrationConnection orgId) report) (\<lambda>report.
     bnd (reconcileOrphanedBlobs faults orgId) (\<lambda>n.
     ret (report\<lparr>gr_orphanedBlobs := n\<rparr>)))))))))"

end
