(* ===== verification/Gc_Facts.thy ===== *)
theory Gc_Facts
  imports Gc Auth_Properties
begin

text \<open>
  What every invariant of the garbage collector needs once: the locale \<open>swept\<close> takes an invariant
  through a whole sweep from what each entity's deletion does to it, and two rules run the entities
  of a list one after the other to the end.
\<close>

section \<open>Invariants through one entity and through a list\<close>

context unlogged
begin

lemma keeps_log_gc [keeps_intros]: "keeps P (log_gc orgId subjectType i verb p)"
  unfolding log_gc_def by (intro keeps_intros)

lemma keeps_failure [keeps_intros]: "keeps P (handleDeleteFailure orgId entityType i e report)"
  unfolding handleDeleteFailure_def by (intro keeps_intros keeps_swallow)

lemma keeps_collect_one:
  assumes "keeps P m" and "\<And>x report. keeps P (done_with x report)"
  shows "keeps P (collect_one orgId entityType i m done_with report)"
proof (rule keepsI)
  fix s r t
  assume "P s" and run: "collect_one orgId entityType i m done_with report s = (r, t)"
  obtain x u where x: "transaction m s = (x, u)" by fastforce
  then have "P u" using keeps_transaction [OF free_of_cache assms(1)] \<open>P s\<close> by (rule keepsD [rotated 2])
  then show "P t"
  proof (cases x)
    case (Inl e)
    then have "handleDeleteFailure orgId entityType i e report u = (r, t)"
      using run x by (simp add: collect_one_def)
    then show ?thesis using keeps_failure \<open>P u\<close> by (blast intro: keepsD)
  next
    case (Inr y)
    then have "done_with y report u = (r, t)" using run x by (simp add: collect_one_def)
    then show ?thesis using assms(2) \<open>P u\<close> by (blast intro: keepsD)
  qed
qed

end

lemma keeps_collect_each:
  assumes "\<And>i report. i \<in> set ids \<Longrightarrow> keeps P (f i report)"
  shows "keeps P (collect_each ids f report)"
  using assms by (induction ids arbitrary: report) (auto intro: keeps_intros)

section \<open>Invariants through the sweep\<close>

text \<open>The ids each kind of entity is deleted under come from the candidates of a state that satisfies
  the invariant.\<close>

locale swept = unlogged P for P :: "state \<Rightarrow> bool" +
  fixes faults :: storage_faults and orgId :: id and cutoff :: time
    and Ts :: "id set" and Ds :: "id set" and Ms :: "id set" and Rs :: "id set" and Us :: "id set"
    and Cs :: "id set"
  assumes candidates: "P s \<Longrightarrow> set (co_tasks (collectable orgId cutoff s)) \<subseteq> Ts"
    "P s \<Longrightarrow> set (co_divisions (collectable orgId cutoff s)) \<subseteq> Ds"
    "P s \<Longrightarrow> set (co_teams (collectable orgId cutoff s)) \<subseteq> Ms"
    "P s \<Longrightarrow> set (co_roles (collectable orgId cutoff s)) \<subseteq> Rs"
    "P s \<Longrightarrow> set (fst (collectableUsers orgId cutoff s)) \<subseteq> Us"
    "P s \<Longrightarrow> set (snd (collectableUsers orgId cutoff s)) \<subseteq> Us"
    "P s \<Longrightarrow> set (collectableConnections orgId cutoff s) \<subseteq> Cs"
    and tasks: "i \<in> Ts \<Longrightarrow> keeps P (deleteTaskAggregate faults orgId i report)"
    and divisions: "i \<in> Ds \<Longrightarrow> keeps P (deleteDivision orgId i report)"
    and teams: "i \<in> Ms \<Longrightarrow> keeps P (deleteTeam orgId i report)"
    and roles: "i \<in> Rs \<Longrightarrow> keeps P (deleteStandaloneRole orgId i report)"
    and scrubs: "i \<in> Us \<Longrightarrow> keeps P (scrubUser orgId i report)"
    and users: "i \<in> Us \<Longrightarrow> keeps P (deleteUser orgId i report)"
    and connections: "i \<in> Cs \<Longrightarrow> keeps P (deleteIntegrationConnection orgId i report)"
    and orphaned: "keeps P (reconcileOrphanedBlobs faults orgId)"
begin

lemma keeps_units: "keeps P (sweep_units orgId cutoff report)"
  unfolding sweep_units_def
  by (rule keepsI_holds, rule holds_gets, rule holds_keeps)
     (intro keeps_intros keeps_collect_each; use candidates divisions teams roles in blast)+

lemma keeps_users: "keeps P (sweep_users orgId cutoff report)"
  unfolding sweep_users_def
  by (rule keepsI_holds, rule holds_gets, rule holds_keeps)
     (intro keeps_intros keeps_collect_each; use candidates scrubs users in blast)+

lemma keeps_connections:
  assumes "\<And>x. keeps P (g x)"
  shows "keeps P (bnd (gets (collectableConnections orgId cutoff)) (\<lambda>conns.
     bnd (collect_each conns (deleteIntegrationConnection orgId) report) g))"
  by (rule keepsI_holds, rule holds_gets, rule holds_keeps)
     (intro keeps_intros keeps_collect_each assms; use candidates connections in blast)+

theorem through_sweep:
  assumes "P s" and "sweepContext s = (Inr (orgId, cutoff), s)"
  shows "P (snd (sweep faults s))"
proof -
  have "keeps P (collect_each (co_tasks (collectable orgId cutoff s)) (deleteTaskAggregate faults orgId) report)" for report
    using candidates(1) [OF assms(1)] tasks by (intro keeps_collect_each) blast
  then have "keeps P (bnd (collect_each (co_tasks (collectable orgId cutoff s)) (deleteTaskAggregate faults orgId) emptyReport) (\<lambda>report.
     bnd (sweep_units orgId cutoff report) (\<lambda>report.
     bnd (sweep_users orgId cutoff report) (\<lambda>report.
     bnd (gets (collectableConnections orgId cutoff)) (\<lambda>conns.
     bnd (collect_each conns (deleteIntegrationConnection orgId) report) (\<lambda>report.
     bnd (reconcileOrphanedBlobs faults orgId) (\<lambda>n.
     ret (report\<lparr>gr_orphanedBlobs := n\<rparr>))))))))"
    by (intro keeps_intros keeps_units keeps_users keeps_connections orphaned)
  then show ?thesis
    using assms by (simp add: sweep_def bnd_def [of sweepContext] assms(2) op_simps keepsD_snd)
qed

end

end
