(* ===== verification/Gc_Spares.thy ===== *)
theory Gc_Spares
  imports Gc_Facts
begin

text \<open>
  What a sweep leaves alone: everything outside the rows retired past the grace period and what
  hangs on them. \<open>doomed\<close> holds the ids of those, table by table, \<open>untouched\<close> compares two states
  on all the other rows.
\<close>

section \<open>The rows a sweep may delete or change\<close>

record doomed =
  do_tasks :: "id set"
  do_divisions :: "id set"
  do_teams :: "id set"
  do_roles :: "id set"
  do_users :: "id set"
  do_connections :: "id set"
  do_answers :: "id set"
  do_attachments :: "id set"
  do_templates :: "id set"
  do_invitations :: "id set"

definition owned_by_doomed :: "id set \<Rightarrow> id set \<Rightarrow> request_template \<Rightarrow> bool" where
  "owned_by_doomed Ts Ds rt \<longleftrightarrow> rt_ownerTaskId rt \<in> Some ` Ts \<or> rt_ownerDivisionId rt \<in> Some ` Ds"

definition confined :: "('r \<Rightarrow> id) \<Rightarrow> ('r \<Rightarrow> bool) \<Rightarrow> 'r list \<Rightarrow> id set \<Rightarrow> bool" where
  "confined key P rs D \<longleftrightarrow> (\<forall>r \<in> set rs. P r \<longrightarrow> key r \<in> D)"

definition expired :: "id \<Rightarrow> time \<Rightarrow> ('r \<Rightarrow> id) \<Rightarrow> ('r \<Rightarrow> lifecycle) \<Rightarrow> ('r \<Rightarrow> time option) \<Rightarrow> 'r \<Rightarrow> bool" where
  "expired orgId cutoff org st ra r \<longleftrightarrow> org r = orgId \<and> past_grace cutoff (st r) (ra r)"

text \<open>\<open>bounded D s\<close>: the rows of \<open>s\<close> that are past the grace period, and the answers, attachments,
  templates and invitations that hang on them, are among \<open>D\<close>.\<close>

definition bounded :: "doomed \<Rightarrow> id \<Rightarrow> time \<Rightarrow> state \<Rightarrow> bool" where
  "bounded D orgId cutoff s \<longleftrightarrow>
     confined t_id (expired orgId cutoff t_organizationId t_lifecycleState t_retiredAt) (tasks s) (do_tasks D) \<and>
     confined d_id (expired orgId cutoff d_organizationId d_lifecycleState d_retiredAt) (divisions s) (do_divisions D) \<and>
     confined tm_id (expired orgId cutoff tm_organizationId tm_lifecycleState tm_retiredAt) (teams s) (do_teams D) \<and>
     confined r_id (\<lambda>r. r_kind r = standalone \<and> expired orgId cutoff r_organizationId r_lifecycleState r_retiredAt r)
       (roles s) (do_roles D) \<and>
     confined u_id (expired orgId cutoff u_organizationId u_lifecycleState u_retiredAt) (users s) (do_users D) \<and>
     confined cn_id (expired orgId cutoff cn_organizationId cn_lifecycleState cn_retiredAt) (connections s)
       (do_connections D) \<and>
     confined an_id (\<lambda>a. \<exists>k \<in> do_tasks D. answer_of_task k s a) (answers s) (do_answers D) \<and>
     confined at_id (\<lambda>a. \<exists>k \<in> do_tasks D. of_task k s a) (attachments s) (do_attachments D) \<and>
     confined rt_id (owned_by_doomed (do_tasks D) (do_divisions D)) (templates s) (do_templates D) \<and>
     confined iu_invitationId (\<lambda>u. iu_createdUserId u \<in> do_users D) (invitation_uses s) (do_invitations D)"

definition doomed_of :: "id \<Rightarrow> time \<Rightarrow> state \<Rightarrow> doomed" where
  "doomed_of orgId cutoff s =
     (let Ts = t_id ` {t \<in> set (tasks s). expired orgId cutoff t_organizationId t_lifecycleState t_retiredAt t};
          Ds = d_id ` {d \<in> set (divisions s). expired orgId cutoff d_organizationId d_lifecycleState d_retiredAt d};
          Us = u_id ` {u \<in> set (users s). expired orgId cutoff u_organizationId u_lifecycleState u_retiredAt u}
      in \<lparr>do_tasks = Ts, do_divisions = Ds,
          do_teams = tm_id ` {t \<in> set (teams s). expired orgId cutoff tm_organizationId tm_lifecycleState tm_retiredAt t},
          do_roles = r_id ` {r \<in> set (roles s). r_kind r = standalone \<and>
            expired orgId cutoff r_organizationId r_lifecycleState r_retiredAt r},
          do_users = Us,
          do_connections = cn_id ` {c \<in> set (connections s).
            expired orgId cutoff cn_organizationId cn_lifecycleState cn_retiredAt c},
          do_answers = an_id ` {a \<in> set (answers s). \<exists>k \<in> Ts. answer_of_task k s a},
          do_attachments = at_id ` {a \<in> set (attachments s). \<exists>k \<in> Ts. of_task k s a},
          do_templates = rt_id ` {rt \<in> set (templates s). owned_by_doomed Ts Ds rt},
          do_invitations = iu_invitationId ` {u \<in> set (invitation_uses s). iu_createdUserId u \<in> Us}\<rparr>)"

lemma confined_image: "confined key P rs (key ` {r \<in> set rs. P r})"
  by (auto simp: confined_def)

lemma bounded_doomed: "bounded (doomed_of orgId cutoff s) orgId cutoff s"
  by (simp add: bounded_def doomed_of_def Let_def confined_image)

section \<open>Everything else\<close>

definition untouched :: "doomed \<Rightarrow> state \<Rightarrow> state \<Rightarrow> bool" where
  "untouched D s t \<longleftrightarrow>
     organizations t = organizations s \<and> grants t = grants s \<and> mappings t = mappings s \<and>
     filter (\<lambda>r. t_id r \<notin> do_tasks D) (tasks t) = filter (\<lambda>r. t_id r \<notin> do_tasks D) (tasks s) \<and>
     filter (\<lambda>r. m_taskId r \<notin> do_tasks D) (messages t) = filter (\<lambda>r. m_taskId r \<notin> do_tasks D) (messages s) \<and>
     filter (\<lambda>r. s_taskId r \<notin> do_tasks D) (submissions t) = filter (\<lambda>r. s_taskId r \<notin> do_tasks D) (submissions s) \<and>
     filter (\<lambda>r. c_taskId r \<notin> do_tasks D) (claimants t) = filter (\<lambda>r. c_taskId r \<notin> do_tasks D) (claimants s) \<and>
     filter (\<lambda>r. an_id r \<notin> do_answers D) (answers t) = filter (\<lambda>r. an_id r \<notin> do_answers D) (answers s) \<and>
     filter (\<lambda>r. at_id r \<notin> do_attachments D) (attachments t) = filter (\<lambda>r. at_id r \<notin> do_attachments D) (attachments s) \<and>
     filter (\<lambda>r. \<not> owned_by_doomed (do_tasks D) (do_divisions D) r) (templates t) =
       filter (\<lambda>r. \<not> owned_by_doomed (do_tasks D) (do_divisions D) r) (templates s) \<and>
     filter (\<lambda>r. qn_requestTemplateId r \<notin> do_templates D) (questions t) =
       filter (\<lambda>r. qn_requestTemplateId r \<notin> do_templates D) (questions s) \<and>
     filter (\<lambda>r. d_id r \<notin> do_divisions D) (divisions t) = filter (\<lambda>r. d_id r \<notin> do_divisions D) (divisions s) \<and>
     filter (\<lambda>r. tm_id r \<notin> do_teams D) (teams t) = filter (\<lambda>r. tm_id r \<notin> do_teams D) (teams s) \<and>
     filter (\<lambda>r. r_id r \<notin> do_roles D \<and> r_divisionId r \<notin> Some ` do_divisions D \<and> r_teamId r \<notin> Some ` do_teams D) (roles t) =
       filter (\<lambda>r. r_id r \<notin> do_roles D \<and> r_divisionId r \<notin> Some ` do_divisions D \<and> r_teamId r \<notin> Some ` do_teams D) (roles s) \<and>
     filter (\<lambda>r. u_id r \<notin> do_users D) (users t) = filter (\<lambda>r. u_id r \<notin> do_users D) (users s) \<and>
     filter (\<lambda>r. ui_userId r \<notin> do_users D) (identities t) = filter (\<lambda>r. ui_userId r \<notin> do_users D) (identities s) \<and>
     filter (\<lambda>r. se_userId r \<notin> do_users D) (sessions t) = filter (\<lambda>r. se_userId r \<notin> do_users D) (sessions s) \<and>
     filter (\<lambda>r. tk_userId r \<notin> do_users D) (auth_tokens t) = filter (\<lambda>r. tk_userId r \<notin> do_users D) (auth_tokens s) \<and>
     filter (\<lambda>r. n_recipientUserId r \<notin> do_users D) (notifications t) =
       filter (\<lambda>r. n_recipientUserId r \<notin> do_users D) (notifications s) \<and>
     filter (\<lambda>r. ur_userId r \<notin> do_users D) (user_roles t) = filter (\<lambda>r. ur_userId r \<notin> do_users D) (user_roles s) \<and>
     filter (\<lambda>r. ei_userId r \<notin> do_users D) (external_identities t) =
       filter (\<lambda>r. ei_userId r \<notin> do_users D) (external_identities s) \<and>
     filter (\<lambda>r. iu_createdUserId r \<notin> do_users D) (invitation_uses t) =
       filter (\<lambda>r. iu_createdUserId r \<notin> do_users D) (invitation_uses s) \<and>
     filter (\<lambda>r. i_createdBy r \<notin> Some ` do_users D \<and> i_id r \<notin> do_invitations D) (invitations t) =
       filter (\<lambda>r. i_createdBy r \<notin> Some ` do_users D \<and> i_id r \<notin> do_invitations D) (invitations s) \<and>
     filter (\<lambda>r. cn_id r \<notin> do_connections D) (connections t) = filter (\<lambda>r. cn_id r \<notin> do_connections D) (connections s)"

definition spared :: "doomed \<Rightarrow> id \<Rightarrow> time \<Rightarrow> state \<Rightarrow> state \<Rightarrow> bool" where
  "spared D orgId cutoff s t \<longleftrightarrow> untouched D s t \<and> bounded D orgId cutoff t"

lemma filter_del_where: "(\<And>r. r \<in> set rs \<Longrightarrow> P r \<Longrightarrow> \<not> K r) \<Longrightarrow> filter K (del_where P rs) = filter K rs"
  by (induction rs) (auto simp: del_where_def)

lemma filter_upd_where_dropped:
  "(\<And>r. r \<in> set rs \<Longrightarrow> P r \<Longrightarrow> \<not> K r) \<Longrightarrow> (\<And>r. r \<in> set rs \<Longrightarrow> P r \<Longrightarrow> \<not> K (f r)) \<Longrightarrow>
   filter K (upd_where P f rs) = filter K rs"
  by (induction rs) auto

lemma filter_del_key: "i \<in> D \<Longrightarrow> filter (\<lambda>r. key r \<notin> D) (del_where (\<lambda>r. key r = i) rs) = filter (\<lambda>r. key r \<notin> D) rs"
  by (rule filter_del_where) simp

lemma filter_upd_key:
  "i \<in> D \<Longrightarrow> (\<And>r. key (f r) = key r) \<Longrightarrow>
   filter (\<lambda>r. key r \<notin> D) (upd_where (\<lambda>r. key r = i) f rs) = filter (\<lambda>r. key r \<notin> D) rs"
  by (rule filter_upd_where_dropped) simp_all

lemma set_del_where [simp]: "set (del_where P rs) = {r \<in> set rs. \<not> P r}"
  by (simp add: del_where_def)

section \<open>Each table\<close>

lemma confined_del [simp]: "confined key P rs D \<Longrightarrow> confined key P (del_where Q rs) D"
  by (auto simp: confined_def)

lemma confined_weaken: "confined key P rs D \<Longrightarrow> (\<And>r. P' r \<Longrightarrow> P r) \<Longrightarrow> confined key P' rs D"
  by (auto simp: confined_def)

text \<open>What belongs to a task by way of its submissions and messages: cutting the references among
  them changes nothing.\<close>

lemma bex_upd_where:
  "(\<exists>r \<in> set (upd_where P f rs). Q r) \<longleftrightarrow> (\<exists>r \<in> set rs. Q (if P r then f r else r))"
  by (auto simp: upd_where_def)

lemma belongs_frame [simp]:
  "answer_of_task k (messages_update f1 s) = answer_of_task k s"
  "answer_of_task k (users_update f2 s) = answer_of_task k s" "of_task k (users_update f2 s) = of_task k s"
  "answer_of_task k (submissions_update (upd_where Q1 (\<lambda>b. b\<lparr>s_prevSubmissionId := None\<rparr>)) s) = answer_of_task k s"
  "of_task k (submissions_update (upd_where Q1 (\<lambda>b. b\<lparr>s_prevSubmissionId := None\<rparr>)) s) = of_task k s"
  "of_task k (messages_update (upd_where Q2 (\<lambda>m. m\<lparr>m_parentMessageId := None\<rparr>)) s) = of_task k s"
  by (simp_all add: fun_eq_iff of_task_def answer_of_task_def bex_upd_where if_distrib [of s_taskId]
      if_distrib [of s_id] if_distrib [of m_id] if_distrib [of m_taskId] cong: if_cong)

lemma untouched_deletes:
  assumes "untouched D s t"
  shows "(\<And>r. r \<in> set (tasks t) \<Longrightarrow> Q1 r \<Longrightarrow> t_id r \<in> do_tasks D) \<Longrightarrow> untouched D s (tasks_update (del_where Q1) t)"
    "(\<And>r. r \<in> set (messages t) \<Longrightarrow> Q2 r \<Longrightarrow> m_taskId r \<in> do_tasks D) \<Longrightarrow> untouched D s (messages_update (del_where Q2) t)"
    "(\<And>r. r \<in> set (submissions t) \<Longrightarrow> Q3 r \<Longrightarrow> s_taskId r \<in> do_tasks D) \<Longrightarrow>
      untouched D s (submissions_update (del_where Q3) t)"
    "(\<And>r. r \<in> set (claimants t) \<Longrightarrow> Q4 r \<Longrightarrow> c_taskId r \<in> do_tasks D) \<Longrightarrow>
      untouched D s (claimants_update (del_where Q4) t)"
    "(\<And>r. r \<in> set (answers t) \<Longrightarrow> Q5 r \<Longrightarrow> an_id r \<in> do_answers D) \<Longrightarrow> untouched D s (answers_update (del_where Q5) t)"
    "(\<And>r. r \<in> set (attachments t) \<Longrightarrow> Q6 r \<Longrightarrow> at_id r \<in> do_attachments D) \<Longrightarrow>
      untouched D s (attachments_update (del_where Q6) t)"
    "(\<And>r. r \<in> set (templates t) \<Longrightarrow> Q7 r \<Longrightarrow> owned_by_doomed (do_tasks D) (do_divisions D) r) \<Longrightarrow>
      untouched D s (templates_update (del_where Q7) t)"
    "(\<And>r. r \<in> set (questions t) \<Longrightarrow> Q8 r \<Longrightarrow> qn_requestTemplateId r \<in> do_templates D) \<Longrightarrow>
      untouched D s (questions_update (del_where Q8) t)"
    "(\<And>r. r \<in> set (divisions t) \<Longrightarrow> Q9 r \<Longrightarrow> d_id r \<in> do_divisions D) \<Longrightarrow>
      untouched D s (divisions_update (del_where Q9) t)"
    "(\<And>r. r \<in> set (teams t) \<Longrightarrow> Q10 r \<Longrightarrow> tm_id r \<in> do_teams D) \<Longrightarrow> untouched D s (teams_update (del_where Q10) t)"
    "(\<And>r. r \<in> set (roles t) \<Longrightarrow> Q11 r \<Longrightarrow> r_id r \<in> do_roles D \<or> r_divisionId r \<in> Some ` do_divisions D \<or>
        r_teamId r \<in> Some ` do_teams D) \<Longrightarrow> untouched D s (roles_update (del_where Q11) t)"
    "(\<And>r. r \<in> set (connections t) \<Longrightarrow> Q12 r \<Longrightarrow> cn_id r \<in> do_connections D) \<Longrightarrow>
      untouched D s (connections_update (del_where Q12) t)"
  using assms by (auto simp: untouched_def filter_del_where)

lemma untouched_satellites:
  assumes "untouched D s t" and "i \<in> do_users D"
  shows "untouched D s (identities_update (del_where (\<lambda>r. ui_userId r = i)) t)"
    "untouched D s (sessions_update (del_where (\<lambda>r. se_userId r = i)) t)"
    "untouched D s (auth_tokens_update (del_where (\<lambda>r. tk_userId r = i)) t)"
    "untouched D s (notifications_update (del_where (\<lambda>r. n_recipientUserId r = i)) t)"
    "untouched D s (user_roles_update (del_where (\<lambda>r. ur_userId r = i)) t)"
    "untouched D s (external_identities_update (del_where (\<lambda>r. ei_userId r = i)) t)"
    "untouched D s (invitation_uses_update (del_where (\<lambda>r. iu_createdUserId r = i)) t)"
    "untouched D s (users_update (del_where (\<lambda>r. u_id r = i)) t)"
  using assms by (auto simp: untouched_def filter_del_key)

lemma untouched_updates:
  assumes "untouched D s t"
  shows "k \<in> do_tasks D \<Longrightarrow> untouched D s (messages_update (upd_where (\<lambda>m. m_taskId m = k) (\<lambda>m. m\<lparr>m_parentMessageId := None\<rparr>)) t)"
    "k \<in> do_tasks D \<Longrightarrow> untouched D s (submissions_update (upd_where (\<lambda>b. s_taskId b = k) (\<lambda>b. b\<lparr>s_prevSubmissionId := None\<rparr>)) t)"
    "(\<And>r. r \<in> set (invitations t) \<Longrightarrow> Q1 r \<Longrightarrow> i_createdBy r \<in> Some ` do_users D) \<Longrightarrow>
      untouched D s (invitations_update (upd_where Q1 (\<lambda>r. r\<lparr>i_revokedAt := x\<rparr>)) t)"
    "(\<And>r. r \<in> set (invitations t) \<Longrightarrow> Q2 r \<Longrightarrow> i_id r \<in> do_invitations D) \<Longrightarrow>
      untouched D s (invitations_update (upd_where Q2 (\<lambda>r. r\<lparr>i_email := None\<rparr>)) t)"
    "i \<in> do_users D \<Longrightarrow> untouched D s (users_update (upd_where (\<lambda>u. u_id u = i) (\<lambda>u. u\<lparr>u_email := None, u_version := Suc (u_version u)\<rparr>)) t)"
    "untouched D s (baselines_update f t)" "untouched D s (blobs_update g t)"
  using assms by (auto simp: untouched_def filter_upd_key filter_upd_where_dropped)

lemma bounded_deletes:
  assumes "bounded D orgId cutoff t"
  shows "bounded D orgId cutoff (tasks_update (del_where Q1) t)" "bounded D orgId cutoff (messages_update (del_where Q2) t)"
    "bounded D orgId cutoff (submissions_update (del_where Q3) t)" "bounded D orgId cutoff (claimants_update f4 t)"
    "bounded D orgId cutoff (answers_update (del_where Q5) t)" "bounded D orgId cutoff (attachments_update (del_where Q6) t)"
    "bounded D orgId cutoff (templates_update (del_where Q7) t)" "bounded D orgId cutoff (questions_update f8 t)"
    "bounded D orgId cutoff (divisions_update (del_where Q9) t)" "bounded D orgId cutoff (teams_update (del_where Q10) t)"
    "bounded D orgId cutoff (roles_update (del_where Q11) t)" "bounded D orgId cutoff (connections_update (del_where Q12) t)"
    "bounded D orgId cutoff (identities_update f13 t)" "bounded D orgId cutoff (sessions_update f14 t)"
    "bounded D orgId cutoff (auth_tokens_update f15 t)" "bounded D orgId cutoff (notifications_update f16 t)"
    "bounded D orgId cutoff (user_roles_update f17 t)" "bounded D orgId cutoff (external_identities_update f18 t)"
    "bounded D orgId cutoff (invitation_uses_update (del_where Q19) t)" "bounded D orgId cutoff (users_update (del_where Q20) t)"
    "bounded D orgId cutoff (invitations_update f21 t)" "bounded D orgId cutoff (baselines_update f22 t)"
    "bounded D orgId cutoff (blobs_update f23 t)"
  using assms unfolding bounded_def
  by (auto elim!: confined_weaken simp: of_task_def answer_of_task_def) (metis+)?

lemma bounded_updates:
  assumes "bounded D orgId cutoff t"
  shows "bounded D orgId cutoff (messages_update (upd_where Q1 (\<lambda>m. m\<lparr>m_parentMessageId := None\<rparr>)) t)"
    "bounded D orgId cutoff (submissions_update (upd_where Q2 (\<lambda>b. b\<lparr>s_prevSubmissionId := None\<rparr>)) t)"
    "bounded D orgId cutoff (users_update (upd_where Q3 (\<lambda>u. u\<lparr>u_email := None, u_version := Suc (u_version u)\<rparr>)) t)"
  using assms
  by (simp_all add: bounded_def) (simp_all add: confined_def ball_upd_where expired_def)

section \<open>Each entity\<close>

lemma keeps_restricted: "keeps P (delete_many put Q) \<Longrightarrow> keeps P (delete_restricted referred put Q)"
  unfolding delete_restricted_def by (intro keeps_intros)

lemma keeps_delete_one: "keeps P (delete_many put (\<lambda>r. key r = k)) \<Longrightarrow> keeps P (delete_one rows referred put key k)"
  unfolding delete_one_def by (intro keeps_intros keeps_restricted)

interpretation spare: unlogged "spared D orgId cutoff s"
  by unfold_locales (auto simp: spared_def untouched_def bounded_def of_task_def answer_of_task_def)

lemma keeps_spared_blob [keeps_intros]: "keeps (spared D orgId cutoff s) (swallow (storage_delete faults key))"
  unfolding storage_delete_def
  by (intro keeps_swallow keeps_intros keeps_modify) (simp add: spared_def untouched_updates bounded_deletes)

text \<open>The rows a delete takes may be named by what was read before it.\<close>

lemma keeps_after_read:
  assumes "\<And>t. P t \<Longrightarrow> keeps P (f (g t))"
  shows "keeps P (bnd (gets g) f)"
  using assms by (auto simp: keeps_def op_simps)

lemma spared_answers:
  "spared D orgId cutoff s t \<Longrightarrow> k \<in> do_tasks D \<Longrightarrow> a \<in> set (answers t) \<Longrightarrow> answer_of_task k t a \<Longrightarrow> an_id a \<in> do_answers D"
  "spared D orgId cutoff s t \<Longrightarrow> k \<in> do_tasks D \<Longrightarrow> b \<in> set (attachments t) \<Longrightarrow> of_task k t b \<Longrightarrow> at_id b \<in> do_attachments D"
  "spared D orgId cutoff s t \<Longrightarrow> rt \<in> set (templates t) \<Longrightarrow> owned_by_doomed (do_tasks D) (do_divisions D) rt \<Longrightarrow>
     rt_id rt \<in> do_templates D"
  "spared D orgId cutoff s t \<Longrightarrow> u \<in> set (invitation_uses t) \<Longrightarrow> iu_createdUserId u \<in> do_users D \<Longrightarrow>
     iu_invitationId u \<in> do_invitations D"
  unfolding spared_def bounded_def confined_def by blast+

lemma keeps_spared_templates:
  assumes "\<And>rt. Q rt \<Longrightarrow> owned_by_doomed (do_tasks D) (do_divisions D) rt"
  shows "keeps (spared D orgId cutoff s) (delete_templates Q)"
  unfolding delete_templates_def
proof (rule keeps_after_read, goal_cases)
  case (1 t)
  then have "set (map rt_id (filter Q (templates t))) \<subseteq> do_templates D"
    using assms spared_answers(3) by fastforce
  then show ?case
    by (intro keeps_intros keeps_restricted keeps_delete_many)
       (auto simp: spared_def intro: untouched_deletes bounded_deletes assms)
qed

lemma keeps_spared_submissions:
  assumes "k \<in> do_tasks D"
  shows "keeps (spared D orgId cutoff s) (delete_submissions k)"
  unfolding delete_submissions_def
proof (rule keeps_after_read, goal_cases)
  case (1 t)
  then have "set (map an_id (filter (answer_of_task k t) (answers t))) \<subseteq> do_answers D"
    using assms spared_answers(1) by fastforce
  then show ?case
    using assms by (intro keeps_intros keeps_restricted keeps_delete_many)
       (auto simp: spared_def intro: untouched_deletes bounded_deletes)
qed

lemma keeps_spared_task:
  assumes "k \<in> do_tasks D"
  shows "keeps (spared D orgId cutoff s) (task_aggregate org k)"
  unfolding task_aggregate_def
proof (rule keeps_after_read, goal_cases)
  case (1 t)
  then have found: "at_id ` set (filter (of_task k t) (attachments t)) \<subseteq> do_attachments D"
    using assms spared_answers(2) by fastforce
  have a: "keeps (spared D orgId cutoff s) (delete_many attachments_update
      (\<lambda>a. at_id a \<in> at_id ` set (filter (of_task k t) (attachments t))))"
    using found by (intro keeps_delete_many) (auto simp: spared_def intro!: untouched_deletes bounded_deletes)
  show ?case
    using assms
    by (intro keeps_intros a keeps_spared_submissions keeps_spared_templates keeps_restricted keeps_delete_one
        keeps_delete_many keeps_update_many)
       (auto simp: spared_def owned_by_doomed_def intro: untouched_deletes bounded_deletes untouched_updates bounded_updates)
qed

lemma keeps_spared_units:
  "k \<in> do_divisions D \<Longrightarrow> keeps (spared D orgId cutoff s) (deleteDivision org k report)"
  "k \<in> do_teams D \<Longrightarrow> keeps (spared D orgId cutoff s) (deleteTeam org k report)"
  "k \<in> do_roles D \<Longrightarrow> keeps (spared D orgId cutoff s) (deleteStandaloneRole org k report)"
  "k \<in> do_connections D \<Longrightarrow> keeps (spared D orgId cutoff s) (deleteIntegrationConnection org k report)"
  unfolding deleteDivision_def deleteTeam_def deleteStandaloneRole_def deleteIntegrationConnection_def
  by (intro spare.keeps_collect_one keeps_intros keeps_spared_templates keeps_restricted keeps_delete_one keeps_delete_many;
      auto simp: spared_def owned_by_doomed_def intro: untouched_deletes bounded_deletes untouched_updates)+

lemma keeps_spared_satellites:
  "i \<in> do_users D \<Longrightarrow> keeps (spared D orgId cutoff s) (purgeUserSatellites i)"
  unfolding purgeUserSatellites_def
  by (intro keeps_intros keeps_delete_many;
      auto simp: spared_def intro: untouched_satellites untouched_updates bounded_deletes)

lemma keeps_spared_issued:
  "i \<in> do_users D \<Longrightarrow> keeps (spared D orgId cutoff s) (revokeIssuedInvitations org i)"
  unfolding revokeIssuedInvitations_def
  by (intro keeps_intros keeps_update_many;
      auto simp: spared_def issued_open_def intro!: untouched_updates bounded_deletes)

lemma keeps_spared_received:
  assumes "i \<in> do_users D"
  shows "keeps (spared D orgId cutoff s) (nullReceivedInvitationEmails i)"
  unfolding nullReceivedInvitationEmails_def
proof (rule keeps_after_read, goal_cases)
  case (1 t)
  then have "set (map iu_invitationId (filter (\<lambda>u. iu_createdUserId u = i) (invitation_uses t))) \<subseteq> do_invitations D"
    using assms spared_answers(4) by fastforce
  then show ?case
    by (intro keeps_intros keeps_update_many) (auto simp: spared_def intro!: untouched_updates bounded_deletes)
qed

lemma keeps_spared_users:
  assumes "i \<in> do_users D"
  shows "keeps (spared D orgId cutoff s) (scrubUser org i report)" "keeps (spared D orgId cutoff s) (deleteUser org i report)"
proof -
  show "keeps (spared D orgId cutoff s) (scrubUser org i report)"
    unfolding scrubUser_def using assms
    by (intro spare.keeps_collect_one keeps_intros keeps_spared_issued keeps_spared_received keeps_spared_satellites keeps_update_row)
       (auto simp: spared_def untouched_updates bounded_updates)
  show "keeps (spared D orgId cutoff s) (deleteUser org i report)"
    unfolding deleteUser_def using assms
    by (intro spare.keeps_collect_one keeps_intros keeps_spared_issued keeps_spared_received keeps_spared_satellites
          keeps_delete_many keeps_delete_one)
       (auto simp: spared_def untouched_satellites bounded_deletes)
qed

section \<open>The sweep\<close>

lemma keeps_spared_orphans: "keeps (spared D orgId cutoff s) (reconcileOrphanedBlobs faults org)"
  unfolding reconcileOrphanedBlobs_def by (intro keeps_intros keeps_swallow)

lemma keeps_spared_aggregate:
  "k \<in> do_tasks D \<Longrightarrow> keeps (spared D orgId cutoff s) (deleteTaskAggregate faults org k report)"
  unfolding deleteTaskAggregate_def by (intro spare.keeps_collect_one keeps_intros keeps_spared_task)

lemma candidates_bounded:
  assumes "spared D orgId cutoff s t"
  shows "set (co_tasks (collectable orgId cutoff t)) \<subseteq> do_tasks D"
    "set (co_divisions (collectable orgId cutoff t)) \<subseteq> do_divisions D"
    "set (co_teams (collectable orgId cutoff t)) \<subseteq> do_teams D"
    "set (co_roles (collectable orgId cutoff t)) \<subseteq> do_roles D"
    "set (fst (collectableUsers orgId cutoff t)) \<subseteq> do_users D"
    "set (snd (collectableUsers orgId cutoff t)) \<subseteq> do_users D"
    "set (collectableConnections orgId cutoff t) \<subseteq> do_connections D"
  using assms
  by (auto simp: spared_def bounded_def confined_def expired_def collectable_def collectableUsers_def
      collectableConnections_def Let_def)

interpretation spare: swept "spared D orgId cutoff s" faults orgId cutoff "do_tasks D" "do_divisions D"
  "do_teams D" "do_roles D" "do_users D" "do_connections D"
  by unfold_locales
     (rule candidates_bounded keeps_spared_aggregate keeps_spared_units keeps_spared_users keeps_spared_orphans; assumption?)+

lemma sweep_untouched:
  assumes "sweepContext s = (Inr (orgId, cutoff), s)"
  shows "untouched (doomed_of orgId cutoff s) s (snd (sweep faults s))"
proof -
  have "spared (doomed_of orgId cutoff s) orgId cutoff s s"
    by (simp add: spared_def untouched_def bounded_doomed)
  then show ?thesis using spare.through_sweep [OF _ assms] by (simp add: spared_def)
qed

lemma sweepContext_run:
  "organizations s = org # orgs \<Longrightarrow> sweepContext s =
     (Inr (o_id org, date_of (of_int (clock s) - windowMsFromSettings (Some (o_settings org)))), s)"
  by (simp add: sweepContext_def readOrg_def op_simps)

text \<open>Nothing that may still be revived is past the cutoff.\<close>

lemma date_of_le: "0 \<le> q \<Longrightarrow> of_int (date_of q) \<le> q"
  by (simp add: date_of_def)

lemma revivable_not_past:
  assumes "isRevivable st ra g n" and "g \<le> of_int n"
  shows "\<not> past_grace (date_of (of_int n - g)) st ra"
proof
  assume "past_grace (date_of (of_int n - g)) st ra"
  then obtain t where t: "ra = Some t" "t < date_of (of_int n - g)"
    by (auto simp: past_grace_def split: option.splits)
  have "of_int (date_of (of_int n - g)) \<le> of_int n - g" using assms(2) by (intro date_of_le) simp
  moreover have "(of_int t :: rat) < of_int (date_of (of_int n - g))" using t(2) by simp
  ultimately show False using assms(1) t(1) by (simp add: isRevivable_iff)
qed

end
