(* ===== verification/Gc_Erase.thy ===== *)
theory Gc_Erase
  imports Gc_Spares
begin

text \<open>
  A sweep always comes to its end, and what it does to the retired users: the exact effect of each
  transaction on its own table, and \<open>erased\<close>, what is left of a member afterwards.
\<close>

section \<open>Running the transactions\<close>

lemma delete_restricted_run [op_simps]:
  "delete_restricted referred put Q s =
     (if referred s then (Inl ForeignKeyViolation, s) else (Inr (), put (del_where Q) s))"
  "bnd (delete_restricted referred put Q) f s =
     (if referred s then (Inl ForeignKeyViolation, s) else f () (put (del_where Q) s))"
  by (simp_all add: delete_restricted_def op_simps)

lemma delete_one_run [op_simps]:
  "delete_one rows referred put key k s =
     (if lookup key k (rows s) = None then (Inl RecordNotFound, s)
      else if referred s then (Inl ForeignKeyViolation, s) else (Inr (), put (del_where (\<lambda>r. key r = k)) s))"
  "bnd (delete_one rows referred put key k) f s =
     (if lookup key k (rows s) = None then (Inl RecordNotFound, s)
      else if referred s then (Inl ForeignKeyViolation, s) else f () (put (del_where (\<lambda>r. key r = k)) s))"
  by (simp_all add: delete_one_def op_simps)

text \<open>A log entry of the collector, whose payload is in the schema, is always written.\<close>

lemma log_gc_run:
  "payload_ok verb p \<Longrightarrow> log_gc org st i verb p s = (Inr (), s\<lparr>next_id := Suc (next_id s),
     activities := activities s @ [activity_row s org None st i verb p src_system None]\<rparr>)"
  "payload_ok verb p \<Longrightarrow> bnd (log_gc org st i verb p) f s = f () (s\<lparr>next_id := Suc (next_id s),
     activities := activities s @ [activity_row s org None st i verb p src_system None]\<rparr>)"
  by (simp_all add: log_gc_def log_activity_run bnd_def)

lemma swallow_run [op_simps]: "swallow m s = (Inr (), snd (m s))" "bnd (swallow m) f s = f () (snd (m s))"
  by (simp_all add: swallow_def bnd_def)

text \<open>\<open>quiet s t\<close>: only the log has changed.\<close>

definition quiet :: "state \<Rightarrow> state \<Rightarrow> bool" where
  "quiet s t \<longleftrightarrow> t = s\<lparr>policy_cache := policy_cache t, next_id := next_id t, activities := activities t\<rparr>"

lemma quietI: "quiet s (s\<lparr>policy_cache := c, next_id := n, activities := as\<rparr>)"
  by (simp add: quiet_def)

lemma quiet_rows:
  assumes "quiet s t"
  shows "tasks t = tasks s" "divisions t = divisions s" "teams t = teams s" "roles t = roles s" "users t = users s"
    "connections t = connections s"
  by (subst assms [unfolded quiet_def], simp)+

text \<open>A transaction that fails with nothing but foreign keys leaves its entity to the next sweep.\<close>

lemma collect_one_ends:
  assumes "\<And>e u. m s = (Inl e, u) \<Longrightarrow> e = ForeignKeyViolation"
    and "\<And>x u. m s = (Inr x, u) \<Longrightarrow> \<exists>r' t. done_with x report u = (Inr r', t) \<and> Q t"
    and "\<And>t. quiet s t \<Longrightarrow> Q t"
  shows "\<exists>r' t. collect_one org ty i m done_with report s = (Inr r', t) \<and> Q t"
proof (cases "m s")
  case (Pair x u)
  show ?thesis
  proof (cases x)
    case (Inr y)
    then show ?thesis using Pair assms(2) by (simp add: collect_one_def op_simps)
  next
    case (Inl e)
    then have "e = ForeignKeyViolation" using Pair assms(1) by simp
    moreover have "quiet s (s\<lparr>policy_cache := policy_cache u,
        next_id := Suc (next_id s), activities := activities s @ [a]\<rparr>)" for a by (rule quietI)
    ultimately show ?thesis using Pair Inl assms(3)
      by (simp add: collect_one_def op_simps handleDeleteFailure_def log_gc_run)
  qed
qed

lemma collect_each_ends:
  assumes "\<And>i rest r s. I (i # rest) s \<Longrightarrow> \<exists>r' t. f i r s = (Inr r', t) \<and> I rest t"
  shows "I ids s \<Longrightarrow> \<exists>r' t. collect_each ids f r s = (Inr r', t) \<and> I [] t"
proof (induction ids arbitrary: r s)
  case (Cons i ids)
  then obtain r' t where "f i r s = (Inr r', t)" "I ids t" using assms by blast
  then show ?case using Cons.IH [of t r'] by (simp add: bnd_Inr)
qed (simp add: op_simps)

text \<open>The entities still to come are there, each once.\<close>

definition queued :: "('r \<Rightarrow> id) \<Rightarrow> (state \<Rightarrow> 'r list) \<Rightarrow> id list \<Rightarrow> state \<Rightarrow> bool" where
  "queued key rows ids s \<longleftrightarrow> distinct ids \<and> set ids \<subseteq> key ` set (rows s)"

lemma queued_next:
  "queued key rows (k # ids) s \<Longrightarrow> rows t = del_where (\<lambda>r. key r = k) (rows s) \<Longrightarrow> queued key rows ids t"
  unfolding queued_def by (fastforce simp: image_iff)

lemma queued_same: "queued key rows (k # ids) s \<Longrightarrow> rows t = rows s \<Longrightarrow> queued key rows ids t"
  by (auto simp: queued_def)

lemma queued_found: "queued key rows (k # ids) s \<Longrightarrow> lookup key k (rows s) \<noteq> None"
  by (auto simp: queued_def lookup_None_iff)

section \<open>Every phase ends\<close>

lemma task_aggregate_result:
  assumes "lookup t_id k (tasks s) \<noteq> None" and "task_aggregate org k s = (x, t)"
  shows "case x of Inl e \<Rightarrow> e = ForeignKeyViolation | Inr ks \<Rightarrow> tasks t = del_where (\<lambda>r. t_id r = k) (tasks s)"
  using assms by (auto simp: task_aggregate_def op_simps delete_submissions_def delete_templates_def log_gc_run
      Let_def split: if_splits)

lemma deletes_run:
  "for_each ks (\<lambda>key. swallow (storage_delete faults key)) s =
     (Inr (), s\<lparr>blobs := filter (\<lambda>b. b \<in> set ks \<longrightarrow> sf_delete faults b) (blobs s)\<rparr>)"
proof (induction ks arbitrary: s)
  case (Cons k ks)
  have "swallow (storage_delete faults k) s =
      (Inr (), s\<lparr>blobs := filter (\<lambda>b. b = k \<longrightarrow> sf_delete faults b) (blobs s)\<rparr>)"
    by (auto simp: swallow_def storage_delete_def op_simps intro!: filter_cong)
  then have "for_each (k # ks) (\<lambda>key. swallow (storage_delete faults key)) s =
      (Inr (), s\<lparr>blobs := filter (\<lambda>b. b \<in> set ks \<longrightarrow> sf_delete faults b)
         (filter (\<lambda>b. b = k \<longrightarrow> sf_delete faults b) (blobs s))\<rparr>)"
    using Cons.IH [of "s\<lparr>blobs := filter (\<lambda>b. b = k \<longrightarrow> sf_delete faults b) (blobs s)\<rparr>"]
    by (simp only: for_each.simps bnd_Inr) simp
  moreover have "filter (\<lambda>b. b \<in> set ks \<longrightarrow> sf_delete faults b) (filter (\<lambda>b. b = k \<longrightarrow> sf_delete faults b) (blobs s)) =
      filter (\<lambda>b. b \<in> set (k # ks) \<longrightarrow> sf_delete faults b) (blobs s)"
    by (simp only: filter_filter) (rule filter_cong; auto)
  ultimately show ?case by (simp only:)
qed (simp add: op_simps)

lemma aggregate_ends:
  assumes "queued t_id tasks (k # ids) s"
  shows "\<exists>r' t. deleteTaskAggregate faults org k r s = (Inr r', t) \<and> queued t_id tasks ids t"
  unfolding deleteTaskAggregate_def
proof (rule collect_one_ends)
  show "\<And>e u. task_aggregate org k s = (Inl e, u) \<Longrightarrow> e = ForeignKeyViolation"
    using task_aggregate_result [OF queued_found [OF assms]] by fastforce
  show "queued t_id tasks ids t" if "quiet s t" for t
    using quiet_rows [OF that] by (intro queued_same [OF assms])
  fix x u
  assume "task_aggregate org k s = (Inr x, u)"
  then have "tasks u = del_where (\<lambda>r. t_id r = k) (tasks s)"
    using task_aggregate_result [OF queued_found [OF assms]] by fastforce
  then have "queued t_id tasks ids (u\<lparr>blobs := bs\<rparr>)" for bs
    using queued_next [OF assms] by simp
  then show "\<exists>r' t. bnd (for_each x (\<lambda>key. swallow (storage_delete faults key)))
      (\<lambda>_. ret (r\<lparr>gr_tasks := gr_tasks r @ [k]\<rparr>)) u = (Inr r', t) \<and> queued t_id tasks ids t"
    by (simp add: bnd_Inr [OF deletes_run] op_simps)
qed

section \<open>Invariants that survive losing rows\<close>

locale shrinking = unlogged P for P :: "state \<Rightarrow> bool" +
  assumes task_rows: "P s \<Longrightarrow> P (tasks_update (del_where Q1) s)" "P s \<Longrightarrow> P (messages_update (del_where Q2) s)"
      "P s \<Longrightarrow> P (submissions_update (del_where Q3) s)" "P s \<Longrightarrow> P (claimants_update (del_where Q4) s)"
      "P s \<Longrightarrow> P (answers_update (del_where Q5) s)" "P s \<Longrightarrow> P (attachments_update (del_where Q6) s)"
      "P s \<Longrightarrow> P (templates_update (del_where Q7) s)" "P s \<Longrightarrow> P (questions_update (del_where Q8) s)"
    and unit_rows: "P s \<Longrightarrow> P (divisions_update (del_where Q9) s)" "P s \<Longrightarrow> P (teams_update (del_where Q10) s)"
      "P s \<Longrightarrow> P (roles_update (del_where Q11) s)" "P s \<Longrightarrow> P (connections_update (del_where Q12) s)"
      "P s \<Longrightarrow> P (baselines_update f1 s)" "P s \<Longrightarrow> P (blobs_update f2 s)"
    and user_rows: "P s \<Longrightarrow> P (identities_update (del_where Q13) s)" "P s \<Longrightarrow> P (sessions_update (del_where Q14) s)"
      "P s \<Longrightarrow> P (auth_tokens_update (del_where Q15) s)" "P s \<Longrightarrow> P (notifications_update (del_where Q16) s)"
      "P s \<Longrightarrow> P (user_roles_update (del_where Q17) s)" "P s \<Longrightarrow> P (external_identities_update (del_where Q18) s)"
      "P s \<Longrightarrow> P (invitation_uses_update (del_where Q19) s)" "P s \<Longrightarrow> P (users_update (del_where Q20) s)"
    and changes: "P s \<Longrightarrow> P (messages_update (upd_where Q21 (\<lambda>m. m\<lparr>m_parentMessageId := None\<rparr>)) s)"
      "P s \<Longrightarrow> P (submissions_update (upd_where Q22 (\<lambda>b. b\<lparr>s_prevSubmissionId := None\<rparr>)) s)"
      "P s \<Longrightarrow> P (invitations_update (upd_where Q23 (\<lambda>r. r\<lparr>i_revokedAt := Some time\<rparr>)) s)"
      "P s \<Longrightarrow> P (invitations_update (upd_where Q24 (\<lambda>r. r\<lparr>i_email := None\<rparr>)) s)"
      "P s \<Longrightarrow> P (users_update (upd_where Q25 (\<lambda>u. u\<lparr>u_email := None, u_version := u_version u + 1\<rparr>)) s)"
begin

lemmas table_steps = keeps_restricted keeps_delete_one keeps_delete_many keeps_update_many keeps_update_row keeps_swallow
  keeps_modify keeps_collect_one task_rows unit_rows user_rows changes

lemma keeps_blob [keeps_intros]: "keeps P (swallow (storage_delete faults key))"
  unfolding storage_delete_def by (intro keeps_intros table_steps)

lemma keeps_gc:
  "keeps P (deleteTaskAggregate faults org i report)" "keeps P (deleteDivision org i report)"
  "keeps P (deleteTeam org i report)" "keeps P (deleteStandaloneRole org i report)"
  "keeps P (deleteIntegrationConnection org i report)" "keeps P (reconcileOrphanedBlobs faults org)"
  unfolding deleteTaskAggregate_def task_aggregate_def deleteDivision_def deleteTeam_def deleteStandaloneRole_def
    deleteIntegrationConnection_def reconcileOrphanedBlobs_def delete_templates_def delete_submissions_def
  by (intro keeps_intros table_steps; assumption)+

lemma keeps_received: "keeps P (nullReceivedInvitationEmails i)"
  unfolding nullReceivedInvitationEmails_def by (intro keeps_intros table_steps; assumption)

lemma keeps_purge: "keeps P (purgeUserSatellites i)"
  unfolding purgeUserSatellites_def by (intro keeps_intros table_steps; assumption)

lemma keeps_gc_users: "keeps P (scrubUser org i report)" "keeps P (deleteUser org i report)"
  unfolding scrubUser_def deleteUser_def revokeIssuedInvitations_def
  by (intro keeps_intros keeps_received keeps_purge table_steps; assumption)+

end

sublocale shrinking \<subseteq> swept P faults orgId cutoff UNIV UNIV UNIV UNIV UNIV UNIV for faults orgId cutoff
  by unfold_locales (auto intro: keeps_gc keeps_gc_users)

text \<open>What is left of a member: at most a row without an address; no way to log in, no membership,
  notification or linked account; no invitation they issued open, none they redeemed with an address.\<close>

definition no_address :: "id \<Rightarrow> state \<Rightarrow> bool" where
  "no_address i s \<longleftrightarrow> (\<forall>u \<in> set (users s). u_id u = i \<longrightarrow> u_email u = None)"

definition unlinked :: "id \<Rightarrow> state \<Rightarrow> bool" where
  "unlinked i s \<longleftrightarrow>
     (\<forall>q \<in> set (identities s). ui_userId q \<noteq> i) \<and> (\<forall>e \<in> set (sessions s). se_userId e \<noteq> i) \<and>
     (\<forall>k \<in> set (auth_tokens s). tk_userId k \<noteq> i) \<and> (\<forall>n \<in> set (notifications s). n_recipientUserId n \<noteq> i) \<and>
     (\<forall>ur \<in> set (user_roles s). ur_userId ur \<noteq> i) \<and> (\<forall>e \<in> set (external_identities s). ei_userId e \<noteq> i)"

definition issued_closed :: "id \<Rightarrow> state \<Rightarrow> bool" where
  "issued_closed i s \<longleftrightarrow> (\<forall>r \<in> set (invitations s). i_createdBy r = Some i \<longrightarrow> i_revokedAt r \<noteq> None)"

definition received_blank :: "id \<Rightarrow> state \<Rightarrow> bool" where
  "received_blank i s \<longleftrightarrow> (\<forall>u \<in> set (invitation_uses s). iu_createdUserId u = i \<longrightarrow>
     (\<forall>r \<in> set (invitations s). i_id r = iu_invitationId u \<longrightarrow> i_email r = None))"

definition erased :: "id \<Rightarrow> state \<Rightarrow> bool" where
  "erased i s \<longleftrightarrow> no_address i s \<and> unlinked i s \<and> issued_closed i s \<and> received_blank i s"

definition keys_ok :: "state \<Rightarrow> bool" where
  "keys_ok s \<longleftrightarrow> distinct (map t_id (tasks s)) \<and> distinct (map d_id (divisions s)) \<and>
     distinct (map tm_id (teams s)) \<and> distinct (map r_id (roles s)) \<and> distinct (map u_id (users s)) \<and>
     distinct (map cn_id (connections s)) \<and>
     (\<forall>r \<in> set (roles s). r_kind r = standalone \<longrightarrow> r_divisionId r = None \<and> r_teamId r = None)"

interpretation erase: shrinking "erased i"
  by unfold_locales
     (auto simp: erased_def no_address_def unlinked_def issued_closed_def received_blank_def ball_upd_where)

interpretation closed: shrinking "issued_closed i"
  by unfold_locales (auto simp: issued_closed_def ball_upd_where)

interpretation blank: shrinking "received_blank i"
  by unfold_locales (auto simp: received_blank_def ball_upd_where)

interpretation unlinked: shrinking "unlinked i"
  by unfold_locales (auto simp: unlinked_def)

lemma distinct_del_where: "distinct (map key rs) \<Longrightarrow> distinct (map key (del_where Q rs))"
  by (simp add: del_where_def distinct_map_filter)

interpretation keys: shrinking keys_ok
  by unfold_locales (auto simp: keys_ok_def distinct_del_where map_upd_where)

section \<open>Units, roles and connections\<close>

text \<open>The divisions, teams and standalone roles still to come.\<close>

definition units_queued :: "id list \<Rightarrow> id list \<Rightarrow> id list \<Rightarrow> state \<Rightarrow> bool" where
  "units_queued ds tms rls s \<longleftrightarrow> queued d_id divisions ds s \<and> queued tm_id teams tms s \<and> distinct rls \<and>
     set rls \<subseteq> r_id ` {r \<in> set (roles s). r_divisionId r = None \<and> r_teamId r = None}"

lemma loose_kept:
  assumes "set rls \<subseteq> r_id ` {r \<in> set rs. r_divisionId r = None \<and> r_teamId r = None}"
  shows "set rls \<subseteq> r_id ` {r \<in> set (del_where (\<lambda>r. r_divisionId r = Some k) rs). r_divisionId r = None \<and> r_teamId r = None}"
    "set rls \<subseteq> r_id ` {r \<in> set (del_where (\<lambda>r. r_teamId r = Some k) rs). r_divisionId r = None \<and> r_teamId r = None}"
    "k \<notin> set rls \<Longrightarrow>
     set rls \<subseteq> r_id ` {r \<in> set (del_where (\<lambda>r. r_id r = k) rs). r_divisionId r = None \<and> r_teamId r = None}"
  using assms by (fastforce simp: image_iff)+

lemma units_queued_next:
  "units_queued (k # ds) tms rls s \<Longrightarrow> divisions t = del_where (\<lambda>d. d_id d = k) (divisions s) \<Longrightarrow>
   teams t = teams s \<Longrightarrow> roles t = del_where (\<lambda>r. r_divisionId r = Some k) (roles s) \<Longrightarrow> units_queued ds tms rls t"
  "units_queued ds (k # tms) rls s \<Longrightarrow> divisions t = divisions s \<Longrightarrow>
   teams t = del_where (\<lambda>d. tm_id d = k) (teams s) \<Longrightarrow>
   roles t = del_where (\<lambda>r. r_teamId r = Some k) (roles s) \<Longrightarrow> units_queued ds tms rls t"
  "units_queued ds tms (k # rls) s \<Longrightarrow> divisions t = divisions s \<Longrightarrow> teams t = teams s \<Longrightarrow>
   roles t = del_where (\<lambda>r. r_id r = k) (roles s) \<Longrightarrow> units_queued ds tms rls t"
  using loose_kept [of rls "roles s" k] queued_next [of d_id divisions k ds s t] queued_next [of tm_id teams k tms s t]
  unfolding units_queued_def by (simp_all add: queued_def)

lemma units_queued_quiet:
  "units_queued (k # ds) tms rls s \<Longrightarrow> quiet s t \<Longrightarrow> units_queued ds tms rls t"
  "units_queued ds (k # tms) rls s \<Longrightarrow> quiet s t \<Longrightarrow> units_queued ds tms rls t"
  "units_queued ds tms (k # rls) s \<Longrightarrow> quiet s t \<Longrightarrow> units_queued ds tms rls t"
  by (simp_all add: units_queued_def queued_def quiet_rows)

lemma units_queued_found:
  "units_queued (k # ds) tms rls s \<Longrightarrow> lookup d_id k (divisions s) \<noteq> None"
  "units_queued ds (k # tms) rls s \<Longrightarrow> lookup tm_id k (teams s) \<noteq> None"
  "units_queued ds tms (k # rls) s \<Longrightarrow> lookup r_id k (roles s) \<noteq> None"
  unfolding units_queued_def by (blast dest: queued_found, blast dest: queued_found, auto simp: lookup_None_iff)

lemma division_step:
  assumes "units_queued (k # ds) tms rls s"
  shows "\<exists>r' t. deleteDivision org k r s = (Inr r', t) \<and> units_queued ds tms rls t"
  unfolding deleteDivision_def
  by (rule collect_one_ends [OF _ _ units_queued_quiet(1) [OF assms]])
     (use units_queued_found(1) [OF assms] in \<open>auto simp: op_simps delete_templates_def log_gc_run split: if_splits
        intro!: units_queued_next(1) [OF assms]\<close>)

lemma team_step:
  assumes "units_queued ds (k # tms) rls s"
  shows "\<exists>r' t. deleteTeam org k r s = (Inr r', t) \<and> units_queued ds tms rls t"
  unfolding deleteTeam_def
  by (rule collect_one_ends [OF _ _ units_queued_quiet(2) [OF assms]])
     (use units_queued_found(2) [OF assms] in \<open>auto simp: op_simps log_gc_run split: if_splits
        intro!: units_queued_next(2) [OF assms]\<close>)

lemma role_step:
  assumes "units_queued ds tms (k # rls) s"
  shows "\<exists>r' t. deleteStandaloneRole org k r s = (Inr r', t) \<and> units_queued ds tms rls t"
  unfolding deleteStandaloneRole_def
  by (rule collect_one_ends [OF _ _ units_queued_quiet(3) [OF assms]])
     (use units_queued_found(3) [OF assms] in \<open>auto simp: op_simps log_gc_run split: if_splits
        intro!: units_queued_next(3) [OF assms]\<close>)

lemma connection_step:
  assumes "queued cn_id connections (k # ids) s"
  shows "\<exists>r' t. deleteIntegrationConnection org k r s = (Inr r', t) \<and> queued cn_id connections ids t"
  unfolding deleteIntegrationConnection_def
  by (rule collect_one_ends [OF _ _ queued_same [OF assms quiet_rows(6)]])
     (use queued_found [OF assms] in \<open>auto simp: op_simps log_gc_run split: if_splits
        intro!: queued_next [OF assms]\<close>)

section \<open>Users\<close>

text \<open>Computations that always return.\<close>

definition returns :: "'a svc \<Rightarrow> bool" where
  "returns m \<longleftrightarrow> (\<forall>s. \<exists>x t. m s = (Inr x, t))"

lemma returns_bnd: "returns m \<Longrightarrow> (\<And>x. returns (f x)) \<Longrightarrow> returns (bnd m f)"
  unfolding returns_def by (metis bnd_Inr)

lemma returns_primitive:
  "returns (ret x)" "returns (gets g)" "returns now" "returns (update_many put Q h)" "returns (delete_many put Q)"
  "returns (swallow m)" "payload_ok verb p \<Longrightarrow> returns (log_gc org st i verb p)"
  "returns m \<Longrightarrow> returns n \<Longrightarrow> returns (if b then m else n)"
  by (simp_all add: returns_def op_simps log_gc_run now_def)

lemma returns_for_each: "(\<And>x. returns (f x)) \<Longrightarrow> returns (for_each xs f)"
  by (induction xs) (auto intro: returns_primitive returns_bnd)

lemmas returns_intros = returns_bnd returns_for_each returns_primitive

lemma returns_user_steps:
  "returns (revokeIssuedInvitations org i)" "returns (nullReceivedInvitationEmails i)" "returns (purgeUserSatellites i)"
  unfolding revokeIssuedInvitations_def nullReceivedInvitationEmails_def purgeUserSatellites_def
  by (intro returns_intros; simp add: op_simps)+

text \<open>They leave the tables alone that decide whether a member has a history.\<close>

definition past :: "state \<Rightarrow> app_user list \<times> message list \<times> submission list \<times> task list \<times> attachment list \<times> task_claimant list" where
  "past s = (users s, messages s, submissions s, tasks s, attachments s, claimants s)"

interpretation past: unlogged "\<lambda>s. past s = v"
  by unfold_locales (auto simp: past_def)

lemma keeps_past:
  "keeps (\<lambda>s. past s = v) (revokeIssuedInvitations org i)" "keeps (\<lambda>s. past s = v) (nullReceivedInvitationEmails i)"
  "keeps (\<lambda>s. past s = v) (purgeUserSatellites i)"
  unfolding revokeIssuedInvitations_def nullReceivedInvitationEmails_def purgeUserSatellites_def
  by (intro keeps_intros keeps_delete_many keeps_update_many; simp add: past_def)+

text \<open>What each step establishes.\<close>

lemma issued_post: "revokeIssuedInvitations org i s = (Inr (), t) \<Longrightarrow> issued_closed i t"
proof (cases "map i_id (filter (issued_open i) (invitations s)) = []")
  case True
  moreover assume "revokeIssuedInvitations org i s = (Inr (), t)"
  ultimately show ?thesis
    by (auto simp: revokeIssuedInvitations_def op_simps issued_closed_def issued_open_def filter_empty_conv)
next
  case False
  let ?u = "invitations_update (upd_where (issued_open i) (\<lambda>r. r\<lparr>i_revokedAt := Some (clock s)\<rparr>)) s"
  let ?log = "for_each (map i_id (filter (issued_open i) (invitations s))) (\<lambda>k. log_gc org ''invitation'' k
    ''invite.auto_revoked_on_issuer_retired'' [(''invitationId'', PId k), (''issuerUserId'', PId i)])"
  assume "revokeIssuedInvitations org i s = (Inr (), t)"
  then have "?log ?u = (Inr (), t)" using False by (simp add: revokeIssuedInvitations_def op_simps)
  moreover have "issued_closed i ?u" by (auto simp: issued_closed_def ball_upd_where issued_open_def)
  moreover have "keeps (issued_closed i) ?log" by (intro keeps_intros)
  ultimately show ?thesis by (blast intro: keepsD)
qed

lemma received_post:
  assumes "nullReceivedInvitationEmails i s = (Inr (), t)"
  shows "received_blank i t"
proof (cases "filter (\<lambda>u. iu_createdUserId u = i) (invitation_uses s) = []")
  case True
  then have "t = s" using assms by (simp add: nullReceivedInvitationEmails_def op_simps)
  then show ?thesis using True by (simp add: received_blank_def filter_empty_conv)
next
  case False
  then have "t = invitations_update (upd_where (\<lambda>r. i_id r \<in> iu_invitationId ` {u \<in> set (invitation_uses s).
      iu_createdUserId u = i}) (\<lambda>r. r\<lparr>i_email := None\<rparr>)) s"
    using assms by (simp add: nullReceivedInvitationEmails_def op_simps)
  then show ?thesis by (simp add: received_blank_def ball_upd_where) blast
qed

lemma purge_post:
  assumes "purgeUserSatellites i s = (Inr (), t)"
  shows "unlinked i t"
proof -
  let ?u = "external_identities_update (del_where (\<lambda>e. ei_userId e = i)) (user_roles_update (del_where (\<lambda>r. ur_userId r = i))
    (notifications_update (del_where (\<lambda>n. n_recipientUserId n = i)) (auth_tokens_update (del_where (\<lambda>k. tk_userId k = i))
    (sessions_update (del_where (\<lambda>e. se_userId e = i)) (identities_update (del_where (\<lambda>q. ui_userId q = i)) s)))))"
  let ?rest = "for_each (filter (\<lambda>e. ei_userId e = i) (external_identities s)) (\<lambda>e.
    delete_many baselines_update (\<lambda>b. sb_connectionId b = ei_connectionId e \<and> sb_externalUserId b = ei_externalUserId e))"
  have "?rest ?u = (Inr (), t)" using assms by (simp add: purgeUserSatellites_def op_simps)
  moreover have "keeps (unlinked i) ?rest" by (intro keeps_intros unlinked.table_steps)
  moreover have "unlinked i ?u" by (simp add: unlinked_def)
  ultimately show ?thesis by (blast intro: keepsD)
qed

text \<open>The parts both have in common, and the two transactions.\<close>

lemma invitations_run:
  assumes "\<And>t. past t = past s \<Longrightarrow> issued_closed i t \<Longrightarrow> received_blank i t \<Longrightarrow> \<exists>x u. f t = (Inr x, u) \<and> Q u"
  shows "\<exists>x u. bnd (revokeIssuedInvitations org i) (\<lambda>_. bnd (nullReceivedInvitationEmails i) (\<lambda>_. f)) s = (Inr x, u) \<and> Q u"
proof -
  obtain s1 where 1: "revokeIssuedInvitations org i s = (Inr (), s1)"
    using returns_user_steps(1) [of org i] unfolding returns_def by (metis (full_types) old.unit.exhaust)
  obtain s2 where 2: "nullReceivedInvitationEmails i s1 = (Inr (), s2)"
    using returns_user_steps(2) [of i] unfolding returns_def by (metis (full_types) old.unit.exhaust)
  have "past s2 = past s" using keepsD [OF keeps_past(1) refl 1] keepsD [OF keeps_past(2) refl 2] by simp
  moreover have "issued_closed i s2" using closed.keeps_received issued_post [OF 1] 2 by (rule keepsD)
  ultimately show ?thesis using assms [of s2] received_post [OF 2] by (simp add: bnd_def 1 2)
qed

lemma purge_run:
  assumes "issued_closed i s" and "received_blank i s"
    and "\<And>t. past t = past s \<Longrightarrow> issued_closed i t \<Longrightarrow> received_blank i t \<Longrightarrow> unlinked i t \<Longrightarrow>
       invitation_uses t = invitation_uses s \<Longrightarrow> \<exists>x u. f t = (Inr x, u) \<and> Q u"
  shows "\<exists>x u. bnd (purgeUserSatellites i) (\<lambda>_. f) s = (Inr x, u) \<and> Q u"
proof -
  obtain t where t: "purgeUserSatellites i s = (Inr (), t)"
    using returns_user_steps(3) [of i] unfolding returns_def by (metis (full_types) old.unit.exhaust)
  have "keeps (\<lambda>x. invitation_uses x = invitation_uses s) (purgeUserSatellites i)"
    unfolding purgeUserSatellites_def by (intro keeps_intros keeps_delete_many; simp)
  from keepsD [OF this refl t] have "invitation_uses t = invitation_uses s" .
  moreover have "issued_closed i t" using closed.keeps_purge assms(1) t by (rule keepsD)
  moreover have "received_blank i t" using blank.keeps_purge assms(2) t by (rule keepsD)
  moreover have "past t = past s" using keepsD [OF keeps_past(3) refl t] by simp
  ultimately show ?thesis using assms(3) [of t] purge_post [OF t] by (simp add: bnd_def t)
qed

lemma collect_one_success:
  assumes "\<exists>x u. m s = (Inr x, u) \<and> Q u" and "\<And>x report. \<exists>r'. done_with x report = ret r'"
  shows "\<exists>r' t. collect_one org ty i m done_with report s = (Inr r', t) \<and> Q t"
  using assms(1) assms(2) by (auto simp: collect_one_def op_simps) (metis ret_run)

definition users_queued :: "id list \<Rightarrow> id list \<Rightarrow> state \<Rightarrow> bool" where
  "users_queued ids fresh s \<longleftrightarrow> queued u_id users ids s \<and> (\<forall>i \<in> set ids \<inter> set fresh. \<not> userHasHistory i s)"

lemma past_history: "past t = past s \<Longrightarrow> userHasHistory i t = userHasHistory i s"
  by (simp add: past_def userHasHistory_def)

lemma user_frame [simp]:
  "userHasHistory i (users_update f s) = userHasHistory i s" "issued_closed i (users_update f s) = issued_closed i s"
  "received_blank i (users_update f s) = received_blank i s" "unlinked i (users_update f s) = unlinked i s"
  "userHasHistory i (s\<lparr>next_id := n, activities := as\<rparr>) = userHasHistory i s"
  "issued_closed i (s\<lparr>next_id := n, activities := as\<rparr>) = issued_closed i s"
  "received_blank i (s\<lparr>next_id := n, activities := as\<rparr>) = received_blank i s"
  "unlinked i (s\<lparr>next_id := n, activities := as\<rparr>) = unlinked i s"
  "no_address i (s\<lparr>next_id := n, activities := as\<rparr>) = no_address i s"
  "users_queued ids fresh (s\<lparr>next_id := n, activities := as\<rparr>) = users_queued ids fresh s"
  "userHasHistory i (invitation_uses_update g s) = userHasHistory i s"
  by (simp_all add: userHasHistory_def issued_closed_def received_blank_def unlinked_def no_address_def users_queued_def
      queued_def)

lemma users_queued_next:
  assumes "users_queued (i # ids) fresh s" and "past t = past s"
  shows "users_queued ids fresh (users_update (upd_where (\<lambda>u. u_id u = i) (\<lambda>u. u\<lparr>u_email := None, u_version := v u\<rparr>)) t)"
    "users_queued ids fresh (users_update (del_where (\<lambda>u. u_id u = i)) t)"
proof -
  have same: "users t = users s" "\<And>k. userHasHistory k t = userHasHistory k s"
    using assms(2) by (simp add: past_def, rule past_history)
  have "queued u_id users ids t" and left: "\<forall>k \<in> set ids \<inter> set fresh. \<not> userHasHistory k t"
    using assms(1) same by (simp_all add: users_queued_def queued_def)
  then show "users_queued ids fresh (users_update (upd_where (\<lambda>u. u_id u = i) (\<lambda>u. u\<lparr>u_email := None, u_version := v u\<rparr>)) t)"
    by (simp add: users_queued_def queued_def image_upd_where)
  have "queued u_id users ids (users_update (del_where (\<lambda>u. u_id u = i)) t)"
    using assms(1) same(1) unfolding users_queued_def by (intro queued_next [of u_id users i ids s]) simp_all
  then show "users_queued ids fresh (users_update (del_where (\<lambda>u. u_id u = i)) t)"
    using left by (simp add: users_queued_def)
qed

lemma users_queued_found:
  assumes "users_queued (i # ids) fresh s" and "past t = past s"
  shows "\<exists>u. lookup u_id i (users t) = Some u"
proof -
  have "users t = users s" using assms(2) by (simp add: past_def)
  moreover have "lookup u_id i (users s) \<noteq> None"
    using assms(1) unfolding users_queued_def by (blast dest: queued_found)
  ultimately show ?thesis by simp
qed

lemma scrub_step:
  assumes q: "users_queued (i # ids) fresh s"
  shows "\<exists>r' t. scrubUser org i r s = (Inr r', t) \<and> users_queued ids fresh t \<and> erased i t"
  unfolding scrubUser_def
proof (rule collect_one_success, rule invitations_run, rule purge_run, assumption, assumption, goal_cases)
  case (1 t' t)
  then have past: "past t = past s" by simp
  obtain u where "lookup u_id i (users t) = Some u" using users_queued_found [OF q past] by blast
  moreover have "no_address i (users_update (upd_where (\<lambda>u. u_id u = i) (\<lambda>u. u\<lparr>u_email := None, u_version := Suc (u_version u)\<rparr>)) t)"
    by (simp add: no_address_def ball_upd_where)
  ultimately show ?case
    using users_queued_next(1) [OF q past] 1 by (simp add: op_simps log_gc_run erased_def)
qed auto

text \<open>A member with no history has nothing left that could hold their row back.\<close>

lemma delete_step:
  assumes q: "users_queued (i # ids) fresh s" and "i \<in> set fresh"
  shows "\<exists>r' t. deleteUser org i r s = (Inr r', t) \<and> users_queued ids fresh t \<and> erased i t"
  unfolding deleteUser_def
proof (rule collect_one_success, rule invitations_run, goal_cases)
  case (1 t)
  let ?t = "invitation_uses_update (del_where (\<lambda>u. iu_createdUserId u = i)) t"
  have "\<exists>x u. bnd (purgeUserSatellites i) (\<lambda>_. bnd (delete_one users (user_referred i) users_update u_id i) (\<lambda>_.
      log_gc org ''user'' i ''gc.user_collected'' [(''userId'', PId i)])) ?t = (Inr x, u) \<and>
    users_queued ids fresh u \<and> erased i u"
  proof (rule purge_run, goal_cases)
    case 1
    then show ?case using \<open>issued_closed i t\<close> by (simp add: issued_closed_def)
  next
    case 2
    then show ?case using \<open>received_blank i t\<close> by (auto simp: received_blank_def)
  next
    case (3 u)
    have past: "past u = past s" using 3(1) 1(1) by (simp add: past_def)
    have "\<not> userHasHistory i s" using assms unfolding users_queued_def by simp
    then have "\<not> user_referred i u"
      using 3(4,5) past_history [OF past] by (simp add: user_referred_def unlinked_def)
    moreover have "no_address i (users_update (del_where (\<lambda>u. u_id u = i)) u)" by (simp add: no_address_def)
    moreover obtain w where "lookup u_id i (users u) = Some w" using users_queued_found [OF q past] by blast
    ultimately show ?case
      using users_queued_next(2) [OF q past] 3 by (simp add: op_simps log_gc_run erased_def)
  qed
  then show ?case by (simp add: op_simps)
qed auto

end
