(* ===== verification/Gc_Properties.thy ===== *)
theory Gc_Properties
  imports Gc_Erase Examples
begin

text \<open>
  The garbage collector's properties: what a sweep spares, what it is sure to erase, and that no
  stored file is lost.
\<close>

section \<open>A sweep from end to end\<close>

interpretation members: unlogged "\<lambda>s. users s = v"
  by unfold_locales auto

lemma keeps_members:
  "keeps (\<lambda>s. users s = v) (deleteTaskAggregate faults org i report)" "keeps (\<lambda>s. users s = v) (deleteDivision org i report)"
  "keeps (\<lambda>s. users s = v) (deleteTeam org i report)" "keeps (\<lambda>s. users s = v) (deleteStandaloneRole org i report)"
  unfolding deleteTaskAggregate_def task_aggregate_def deleteDivision_def deleteTeam_def deleteStandaloneRole_def
    delete_templates_def delete_submissions_def storage_delete_def
  by (intro keeps_intros members.keeps_collect_one keeps_restricted keeps_delete_one keeps_delete_many keeps_update_many
      keeps_swallow keeps_modify; simp)+

lemma distinct_keys: "distinct (map key rs) \<Longrightarrow> distinct (map key (filter Q rs))"
  by (simp add: distinct_map_filter)

lemma tasks_end:
  assumes "keys_ok s"
  shows "\<exists>r t. collect_each (co_tasks (collectable orgId cutoff s)) (deleteTaskAggregate faults orgId) r0 s = (Inr r, t) \<and>
    keys_ok t \<and> users t = users s"
proof -
  have "queued t_id tasks (co_tasks (collectable orgId cutoff s)) s"
    using assms by (auto simp: queued_def collectable_def keys_ok_def distinct_keys)
  then obtain r t where run: "collect_each (co_tasks (collectable orgId cutoff s)) (deleteTaskAggregate faults orgId) r0 s = (Inr r, t)"
    using collect_each_ends [of "queued t_id tasks"] aggregate_ends by blast
  have "keeps keys_ok (collect_each (co_tasks (collectable orgId cutoff s)) (deleteTaskAggregate faults orgId) r0)"
    by (intro keeps_collect_each keys.keeps_gc)
  then have "keys_ok t" using assms run by (rule keepsD)
  moreover have "keeps (\<lambda>x. users x = users s)
      (collect_each (co_tasks (collectable orgId cutoff s)) (deleteTaskAggregate faults orgId) r0)"
    by (intro keeps_collect_each keeps_members)
  from keepsD [OF this refl run] have "users t = users s" .
  ultimately show ?thesis using run by blast
qed

lemma units_end:
  assumes "keys_ok s"
  shows "\<exists>r t. sweep_units orgId cutoff r0 s = (Inr r, t) \<and> keys_ok t \<and> users t = users s"
proof -
  let ?c = "collectable orgId cutoff s"
  have "units_queued (co_divisions ?c) (co_teams ?c) (co_roles ?c) s"
    using assms by (auto simp: units_queued_def queued_def collectable_def keys_ok_def distinct_keys)
  then obtain r1 s1 where 1: "collect_each (co_divisions ?c) (deleteDivision orgId) r0 s = (Inr r1, s1)"
      "units_queued [] (co_teams ?c) (co_roles ?c) s1"
    using collect_each_ends [of "\<lambda>ds. units_queued ds (co_teams ?c) (co_roles ?c)"] division_step by blast
  then obtain r2 s2 where 2: "collect_each (co_teams ?c) (deleteTeam orgId) r1 s1 = (Inr r2, s2)"
      "units_queued [] [] (co_roles ?c) s2"
    using collect_each_ends [of "\<lambda>tms. units_queued [] tms (co_roles ?c)"] team_step by blast
  then obtain r3 s3 where 3: "collect_each (co_roles ?c) (deleteStandaloneRole orgId) r2 s2 = (Inr r3, s3)"
    using collect_each_ends [of "\<lambda>rls. units_queued [] [] rls"] role_step by blast
  have run: "sweep_units orgId cutoff r0 s = (Inr r3, s3)"
    using 1 2 3 by (simp add: sweep_units_def op_simps bnd_def)
  have "keys_ok s3" by (rule keepsD [OF keys.keeps_units assms run])
  moreover have "keeps (\<lambda>x. users x = users s) (sweep_units orgId cutoff r0)"
    unfolding sweep_units_def by (intro keeps_intros keeps_collect_each keeps_members)
  from keepsD [OF this refl run] have "users s3 = users s" .
  ultimately show ?thesis using run by blast
qed

lemma users_end:
  assumes "keys_ok s"
  shows "\<exists>r t. sweep_users orgId cutoff r0 s = (Inr r, t) \<and>
    (\<forall>u \<in> set (users s). u_organizationId u = orgId \<longrightarrow> past_grace cutoff (u_lifecycleState u) (u_retiredAt u) \<longrightarrow>
       erased (u_id u) t)"
proof -
  define scrub where "scrub = fst (collectableUsers orgId cutoff s)"
  define gone where "gone = snd (collectableUsers orgId cutoff s)"
  define left where "left A ids x \<longleftrightarrow> users_queued (ids @ A) gone x \<and> (\<forall>i \<in> set (scrub @ gone) - set (ids @ A). erased i x)" for A ids x
  have start: "left gone scrub s"
    using assms by (auto simp: left_def users_queued_def queued_def scrub_def gone_def collectableUsers_def Let_def keys_ok_def distinct_keys)
  have scrubbing: "\<exists>r' t. scrubUser orgId i r x = (Inr r', t) \<and> left gone ids t" if l: "left gone (i # ids) x" for i ids r x
  proof -
    obtain r' t where t: "scrubUser orgId i r x = (Inr r', t)" "users_queued (ids @ gone) gone t" "erased i t"
      using scrub_step [of i "ids @ gone"] l unfolding left_def by fastforce
    have "erased k t" if "erased k x" for k using erase.keeps_gc_users(1) that t(1) by (rule keepsD)
    then show ?thesis using t l unfolding left_def by auto
  qed
  define rest where "rest ids x \<longleftrightarrow> left [] ids x \<and> set ids \<subseteq> set gone" for ids x
  have deleting: "\<exists>r' t. deleteUser orgId i r x = (Inr r', t) \<and> rest ids t"
    if "rest (i # ids) x" for i ids r x
  proof -
    have l: "left [] (i # ids) x" "set (i # ids) \<subseteq> set gone" using that by (simp_all add: rest_def)
    obtain r' t where t: "deleteUser orgId i r x = (Inr r', t)" "users_queued ids gone t" "erased i t"
      using delete_step [of i ids gone x] l unfolding left_def by fastforce
    have "erased k t" if "erased k x" for k using erase.keeps_gc_users(2) that t(1) by (rule keepsD)
    then have "left [] ids t" using t l(1) unfolding left_def by auto
    then show ?thesis using t(1) l(2) by (simp add: rest_def)
  qed
  obtain r1 s1 where 1: "collect_each scrub (scrubUser orgId) r0 s = (Inr r1, s1)" "left gone [] s1"
    using collect_each_ends [of "left gone"] scrubbing start by blast
  have "rest gone s1" using 1(2) unfolding left_def rest_def by auto
  then obtain r2 s2 where 2: "collect_each gone (deleteUser orgId) r1 s1 = (Inr r2, s2)" "rest [] s2"
    using collect_each_ends [of rest] deleting by blast
  have "sweep_users orgId cutoff r0 s = (Inr r2, s2)"
    using 1 2 by (simp add: sweep_users_def op_simps bnd_def scrub_def gone_def)
  moreover have "u_id u \<in> set (scrub @ gone)" if "u \<in> set (users s)" "u_organizationId u = orgId"
      "past_grace cutoff (u_lifecycleState u) (u_retiredAt u)" for u
    using that by (auto simp: scrub_def gone_def collectableUsers_def Let_def)
  ultimately show ?thesis using 2(2) unfolding rest_def left_def by auto
qed

lemma connections_end:
  assumes "keys_ok s"
  shows "\<exists>r t. collect_each (collectableConnections orgId cutoff s) (deleteIntegrationConnection orgId) r0 s = (Inr r, t)"
proof -
  have "queued cn_id connections (collectableConnections orgId cutoff s) s"
    using assms by (auto simp: queued_def collectableConnections_def keys_ok_def distinct_keys)
  then show ?thesis using collect_each_ends [of "queued cn_id connections"] connection_step by blast
qed

lemma orphans_end: "\<exists>n t. reconcileOrphanedBlobs faults orgId s = (Inr n, t)"
  by (simp add: reconcileOrphanedBlobs_def op_simps bnd_def [of "for_each xs f" for xs f] deletes_run)

lemma sweep_end:
  assumes "sweepContext s = (Inr (orgId, cutoff), s)" and "keys_ok s"
  shows "\<exists>r t. sweep faults s = (Inr r, t) \<and>
    (\<forall>u \<in> set (users s). u_organizationId u = orgId \<longrightarrow> past_grace cutoff (u_lifecycleState u) (u_retiredAt u) \<longrightarrow>
       erased (u_id u) t)"
proof -
  obtain r1 s1 where 1: "collect_each (co_tasks (collectable orgId cutoff s)) (deleteTaskAggregate faults orgId) emptyReport s = (Inr r1, s1)"
      "keys_ok s1" "users s1 = users s"
    using tasks_end [OF assms(2)] by blast
  obtain r2 s2 where 2: "sweep_units orgId cutoff r1 s1 = (Inr r2, s2)" "keys_ok s2" "users s2 = users s1"
    using units_end [OF 1(2)] by blast
  obtain r3 s3 where 3: "sweep_users orgId cutoff r2 s2 = (Inr r3, s3)"
      "\<forall>u \<in> set (users s2). u_organizationId u = orgId \<longrightarrow> past_grace cutoff (u_lifecycleState u) (u_retiredAt u) \<longrightarrow>
       erased (u_id u) s3"
    using users_end [OF 2(2)] by blast
  have "keys_ok s3" by (rule keepsD [OF keys.keeps_users 2(2) 3(1)])
  then obtain r4 s4 where 4: "collect_each (collectableConnections orgId cutoff s3) (deleteIntegrationConnection orgId) r3 s3 = (Inr r4, s4)"
    using connections_end by blast
  obtain n s5 where 5: "reconcileOrphanedBlobs faults orgId s4 = (Inr n, s5)" using orphans_end by blast
  have "sweep faults s = (Inr (r4\<lparr>gr_orphanedBlobs := n\<rparr>), s5)"
    using assms(1) 1(1) 2(1) 3(1) 4 5 by (simp add: sweep_def op_simps bnd_def)
  moreover have "erased i s5" if "erased i s3" for i
    using keepsD [OF erase.keeps_gc(6) _ 5] keepsD [OF keeps_collect_each [OF erase.keeps_gc(5)] that 4] by blast
  ultimately show ?thesis using 3(2) 2(3) 1(3) by fastforce
qed

section \<open>Files\<close>

text \<open>Every attachment's bytes are in the store, under a key of its own drawn before the next id.\<close>

definition backed :: "state \<Rightarrow> bool" where
  "backed s \<longleftrightarrow> distinct (map at_storageKey (attachments s)) \<and>
     (\<forall>a \<in> set (attachments s). at_storageKey a \<in> set (blobs s) \<and>
        (\<exists>org uuid. at_storageKey a = storage_key org uuid \<and> uuid < next_id s))"

lemma backed_files:
  assumes "backed s" and "attachments t = attachments s" "blobs t = blobs s" "next_id s \<le> next_id t"
  shows "backed t"
  using assms unfolding backed_def by (auto dest: order_less_le_trans) (meson order_less_le_trans)

interpretation files: unlogged backed
  by unfold_locales (auto intro: backed_files)

text \<open>Bytes without a row may go.\<close>

lemma backed_loses:
  assumes "backed s" and "set ks \<inter> at_storageKey ` set (attachments s) = {}"
  shows "backed (s\<lparr>blobs := filter (\<lambda>b. b \<in> set ks \<longrightarrow> sf_delete faults b) (blobs s)\<rparr>)"
  using assms unfolding backed_def by (auto simp: disjoint_iff)

lemma task_aggregate_files:
  assumes "task_aggregate org k s = (Inr ks, t)"
  shows "attachments t = del_where (\<lambda>a. at_id a \<in> at_id ` set (filter (of_task k s) (attachments s))) (attachments s) \<and>
    blobs t = blobs s \<and> next_id s \<le> next_id t \<and> ks = map at_storageKey (filter (of_task k s) (attachments s))"
  using assms by (auto simp: task_aggregate_def op_simps delete_submissions_def delete_templates_def log_gc_run
      Let_def split: if_splits)

lemma backed_task: "keeps backed (deleteTaskAggregate faults org k report)"
proof (rule keepsI)
  fix s r t
  assume b: "backed s" and run: "deleteTaskAggregate faults org k report s = (r, t)"
  show "backed t"
  proof (cases "task_aggregate org k s")
    case (Pair x u)
    show ?thesis
    proof (cases x)
      case (Inl e)
      have "backed (s\<lparr>policy_cache := policy_cache u\<rparr>)" by (rule backed_files [OF b]) simp_all
      moreover have "handleDeleteFailure org ''task'' k e report (s\<lparr>policy_cache := policy_cache u\<rparr>) = (r, t)"
        using run Pair Inl by (simp add: deleteTaskAggregate_def collect_one_def op_simps)
      ultimately show ?thesis using files.keeps_failure by (blast intro: keepsD)
    next
      case (Inr ks)
      let ?found = "filter (of_task k s) (attachments s)"
      have u: "attachments u = del_where (\<lambda>a. at_id a \<in> at_id ` set ?found) (attachments s)" "blobs u = blobs s"
          "next_id s \<le> next_id u" "ks = map at_storageKey ?found"
        using task_aggregate_files Pair Inr by blast+
      have t: "t = u\<lparr>blobs := filter (\<lambda>b. b \<in> set ks \<longrightarrow> sf_delete faults b) (blobs u)\<rparr>"
        using run Pair Inr by (auto simp: deleteTaskAggregate_def collect_one_def op_simps bnd_Inr [OF deletes_run])
      have "backed (s\<lparr>attachments := attachments u\<rparr>)"
        using b unfolding u(1) backed_def by (auto simp: distinct_del_where)
      then have "backed u" by (rule backed_files) (use u in auto)
      moreover have "set ks \<inter> at_storageKey ` set (attachments u) = {}"
        using b unfolding u(1,4) backed_def by (auto simp: distinct_map inj_on_def)
      ultimately show ?thesis unfolding t by (rule backed_loses)
    qed
  qed
qed

lemma backed_orphans: "keeps backed (reconcileOrphanedBlobs faults org)"
  unfolding reconcileOrphanedBlobs_def
proof (rule keepsI_holds, rule holds_gets, rule holds_bnd_keeps)
  fix s
  assume "backed s"
  moreover have "set (orphans org s) \<inter> at_storageKey ` set (attachments s) = {}" by (auto simp: orphans_def)
  ultimately show "holds backed (for_each (orphans org s) (\<lambda>key. swallow (storage_delete faults key))) s"
    by (simp add: holds_def deletes_run backed_loses)
qed (intro keeps_intros keeps_swallow)

lemma backed_others:
  "keeps backed (deleteDivision org i report)" "keeps backed (deleteTeam org i report)"
  "keeps backed (deleteStandaloneRole org i report)" "keeps backed (deleteIntegrationConnection org i report)"
  "keeps backed (scrubUser org i report)" "keeps backed (deleteUser org i report)"
  unfolding deleteDivision_def deleteTeam_def deleteStandaloneRole_def deleteIntegrationConnection_def delete_templates_def
    scrubUser_def deleteUser_def revokeIssuedInvitations_def nullReceivedInvitationEmails_def purgeUserSatellites_def
  by (intro keeps_intros files.keeps_collect_one keeps_restricted keeps_delete_one keeps_delete_many keeps_update_many
      keeps_update_row; (rule backed_files, assumption, simp+))+

interpretation files: swept backed faults orgId cutoff UNIV UNIV UNIV UNIV UNIV UNIV for faults orgId cutoff
  by unfold_locales (auto intro: backed_task backed_others backed_orphans)

lemma backed_sweep: "backed s \<Longrightarrow> backed (snd (sweep faults s))"
proof (cases "organizations s")
  case Nil
  then show "backed s \<Longrightarrow> backed (snd (sweep faults s))"
    by (simp add: sweep_def sweepContext_def readOrg_def op_simps bnd_def)
next
  case (Cons org orgs)
  then show "backed s \<Longrightarrow> backed (snd (sweep faults s))"
    using files.through_sweep [OF _ sweepContext_run] by blast
qed

text \<open>An upload run as a whole: the new key is not in use, whatever becomes of the row.\<close>

lemma backed_put:
  assumes "backed s" and "next_id s \<le> next_id t" and "attachments t = attachments s" and "set (blobs s) \<subseteq> set (blobs t)"
  shows "backed t"
  using assms unfolding backed_def by (auto dest: order_less_le_trans) (meson order_less_le_trans)

lemma storage_key_inject [simp]: "storage_key o1 u1 = storage_key o2 u2 \<longleftrightarrow> o1 = o2 \<and> u1 = u2"
  by (simp add: storage_key_def)

lemma store_upload_run:
  assumes "backed s" and "store_upload faults maxBytes messageId f s = (r, t)"
  shows "backed t \<and> (\<forall>g org key. r = Inr (g, org, key) \<longrightarrow> key \<in> set (blobs t) \<and>
     (\<exists>uuid < next_id t. key = storage_key org uuid) \<and> key \<notin> at_storageKey ` set (attachments t))"
  using assms
  by (auto simp: store_upload_def op_simps storage_put_def Let_def split: option.splits if_splits intro: backed_put)
     (auto simp: backed_def)

lemma backed_drop:
  assumes "backed s" and "key \<notin> at_storageKey ` set (attachments s)"
  shows "backed (snd (swallow (storage_delete faults key) s))"
  using assms by (auto simp: storage_delete_def op_simps backed_def)

lemma insert_attachment_run:
  assumes "backed s" and "key \<in> set (blobs s)" and "uuid < next_id s" and "key = storage_key org uuid"
    and "key \<notin> at_storageKey ` set (attachments s)" and "insert_attachment sha256 messageId u f org key s = (r, t)"
  shows "backed t \<and> (\<forall>e. r = Inl e \<longrightarrow> key \<notin> at_storageKey ` set (attachments t))"
  using assms
  by (auto simp: insert_attachment_def op_simps Let_def logged_def backed_def split: option.splits if_splits)
     (meson less_SucI | force)+

lemma backed_upload: "keeps backed (upload faults sha256 maxBytes messageId u f)"
proof (rule keepsI)
  fix s r t
  assume b: "backed s" and run: "upload faults sha256 maxBytes messageId u f s = (r, t)"
  obtain r1 s1 where 1: "store_upload faults maxBytes messageId f s = (r1, s1)" by fastforce
  show "backed t"
  proof (cases r1)
    case (Inl e)
    then show ?thesis using run 1 store_upload_run [OF b 1] by (auto simp: upload_def bnd_def)
  next
    case (Inr stored)
    obtain g org key where st: "stored = (g, org, key)" by (metis prod.exhaust)
    then obtain uuid where key: "key \<in> set (blobs s1)" "uuid < next_id s1" "key = storage_key org uuid"
        "key \<notin> at_storageKey ` set (attachments s1)" "backed s1"
      using store_upload_run [OF b 1] Inr by blast
    obtain r2 s2 where 2: "insert_attachment sha256 messageId u g org key s1 = (r2, s2)" by fastforce
    have s2: "backed s2" "\<And>e. r2 = Inl e \<Longrightarrow> key \<notin> at_storageKey ` set (attachments s2)"
      using insert_attachment_run [OF key(5,1,2,3,4) 2] by blast+
    have "t = (case r2 of Inl e \<Rightarrow> snd (swallow (storage_delete faults key) s2) | Inr row \<Rightarrow> s2)"
      using run 1 2 Inr st by (auto simp: upload_def bnd_def commit_upload_def on_error_def ret_run split: sum.splits)
    then show ?thesis using s2 backed_drop by (cases r2) auto
  qed
qed

lemma backed_lifecycle:
  "keeps backed (attachments_retire i u)" "keeps backed (attachments_revive i u)"
  unfolding attachments_retire_def attachments_revive_def write_attachment_def loadLifecycle_def
  by (intro keeps_intros keeps_update_row; auto simp: backed_def map_upd_where ball_upd_where)+

section \<open>Histories of file calls and sweeps\<close>

datatype file_call =
  Upload storage_faults id id "upload_file option" | Retire_File id id | Revive_File id id | Sweep storage_faults
| Pause nat

fun serve_file :: "(string \<Rightarrow> string) \<Rightarrow> int \<Rightarrow> file_call \<Rightarrow> state \<Rightarrow> state" where
  "serve_file sha256 maxBytes (Upload faults m u f) s = snd (upload faults sha256 maxBytes m u f s)"
| "serve_file sha256 maxBytes (Retire_File i u) s = snd (attachments_retire i u s)"
| "serve_file sha256 maxBytes (Revive_File i u) s = snd (attachments_revive i u s)"
| "serve_file sha256 maxBytes (Sweep faults) s = snd (sweep faults s)"
| "serve_file sha256 maxBytes (Pause ms) s = s\<lparr>clock := clock s + int ms\<rparr>"

definition serve_files :: "(string \<Rightarrow> string) \<Rightarrow> int \<Rightarrow> file_call list \<Rightarrow> state \<Rightarrow> state" where
  "serve_files sha256 maxBytes calls s = fold (serve_file sha256 maxBytes) calls s"

lemma backed_serve: "backed s \<Longrightarrow> backed (serve_file sha256 maxBytes c s)"
  by (cases c) (auto simp: keepsD_snd [OF backed_upload] keepsD_snd [OF backed_lifecycle(1)]
      keepsD_snd [OF backed_lifecycle(2)] backed_sweep intro: backed_files)

lemma backed_serves: "backed s \<Longrightarrow> backed (serve_files sha256 maxBytes calls s)"
  unfolding serve_files_def by (induction calls arbitrary: s) (simp_all add: backed_serve)

lemma resolve_backed:
  assumes "backed s" and "fst (resolveDownload i s) = Inr d"
  shows "dt_storageKey d \<in> set (blobs s)"
  using assms by (auto simp: resolveDownload_def op_simps backed_def split: option.splits if_splits dest: lookup_SomeD)

section \<open>An organization with something to collect\<close>

definition no_faults :: storage_faults where
  "no_faults = \<lparr>sf_put = (\<lambda>_. False), sf_delete = (\<lambda>_. False)\<rparr>"

definition demo_leaver :: app_user where
  "demo_leaver = (demo_user 13)\<lparr>u_email := Some ''leaver'', u_lifecycleState := retired, u_retiredAt := Some 5\<rparr>"

text \<open>Task 90 and user 13 were retired at time 5, more than the default day ago.\<close>

definition demo_gc :: state where
  "demo_gc = demo\<lparr>clock := 100000000,
     tasks := [demo_task, demo_task\<lparr>t_id := 90, t_lifecycleState := retired, t_retiredAt := Some 5\<rparr>],
     users := [demo_user 10, demo_user 11, demo_user 12, demo_leaver]\<rparr>"

definition demo_file :: upload_file where
  "demo_file = \<lparr>uf_originalname = ''part.stl'', uf_mimetype = ''model/stl'', uf_size = 4, uf_buffer = ''mesh''\<rparr>"

lemma demo_gc_facts:
  "organizations demo_gc = [demo_org]" "keys_ok demo_gc"
  "windowMsFromSettings (Some (o_settings demo_org)) \<le> of_int (clock demo_gc)"
  by (simp_all add: demo_gc_def demo_leaver_def keys_ok_def windowMsFromSettings_def Let_def default_gracePeriodHours_def demo_defs)

section \<open>Properties\<close>

text \<open>Not retired, or retired and within the grace window.\<close>

definition in_grace :: "organization \<Rightarrow> time \<Rightarrow> lifecycle \<Rightarrow> time option \<Rightarrow> bool" where
  "in_grace org t st ra \<longleftrightarrow> st \<noteq> retired \<or> isRevivable st ra (windowMsFromSettings (Some (o_settings org))) t"

lemma in_grace_spared:
  assumes "in_grace org n st ra" and "windowMsFromSettings (Some (o_settings org)) \<le> of_int n"
  shows "\<not> past_grace (date_of (of_int n - windowMsFromSettings (Some (o_settings org)))) st ra"
  using assms revivable_not_past unfolding in_grace_def by (auto simp: past_grace_def)

lemma not_doomed: "distinct (map key rs) \<Longrightarrow> r \<in> set rs \<Longrightarrow> \<not> Q r \<Longrightarrow> key r \<notin> key ` {r \<in> set rs. Q r}"
  by (auto simp: distinct_map inj_on_def)

lemma kept_row:
  "filter (\<lambda>r. key r \<notin> D) rs' = filter (\<lambda>r. key r \<notin> D) rs \<Longrightarrow> r \<in> set rs \<Longrightarrow> key r \<notin> D \<Longrightarrow> r \<in> set rs'"
  by (drule arg_cong [where f = set]) auto

lemma kept_group:
  "filter (\<lambda>r. key r \<notin> D) rs' = filter (\<lambda>r. key r \<notin> D) rs \<Longrightarrow> i \<notin> D \<Longrightarrow>
   filter (\<lambda>r. key r = i) rs' = filter (\<lambda>r. key r = i) rs"
  by (drule arg_cong [where f = "filter (\<lambda>r. key r = i)"]) (simp add: filter_filter conj_commute cong: conj_cong)







text \<open>The order matters: a sweep between the two halves of an upload takes the bytes of a row that is
  then written all the same.\<close>

lemma orphan_sweep_race:
  "case store_upload no_faults 10 70 (Some demo_file) demo_gc of
     (Inr stored, s) \<Rightarrow>
       (case commit_upload no_faults rev 70 11 stored (snd (sweep no_faults s)) of
          (Inr v, t) \<Rightarrow> fst (resolveDownload (am_id v) t) = Inr \<lparr>dt_storageKey = snd (snd stored), dt_filename = ''part.stl'', dt_contentType = ''model/stl''\<rparr> \<and>
            blobs t = []
        | _ \<Rightarrow> False)
   | _ \<Rightarrow> False"
  by code_simp

end
