(* ===== verification/Integrations.thy ===== *)
theory Integrations
  imports Sync Roles Js_Values
begin

text \<open>
  \<open>integrations/integrations.service.ts\<close> with its request schemas: connections to the provider and
  the mappings of roles to its groups. The cipher that turns a bot token into a stored handle is an
  argument; \<open>None\<close> is its exception (no key configured). Neither the configuration nor the handle is
  part of what a request gets back.
\<close>

section \<open>What leaves the server\<close>

record connection_response =
  cr_id :: id
  cr_organizationId :: id
  cr_externalWorkspaceId :: string
  cr_displayName :: string
  cr_status :: conn_status
  cr_lifecycleState :: lifecycle
  cr_retiredAt :: "time option"
  cr_gatewayState :: gateway_column
  cr_gatewayLastConnectedAt :: "time option"
  cr_gatewayLastEventAt :: "time option"
  cr_syncState :: sync_state
  cr_lastSyncStartedAt :: "time option"
  cr_lastSyncAt :: "time option"
  cr_lastSyncGranted :: nat
  cr_lastSyncRevoked :: nat
  cr_lastError :: "sync_error option"
  cr_createdAt :: time
  cr_updatedAt :: time

definition toConnectionResponse :: "connection \<Rightarrow> connection_response" where
  "toConnectionResponse c =
     \<lparr>cr_id = cn_id c, cr_organizationId = cn_organizationId c,
      cr_externalWorkspaceId = cn_externalWorkspaceId c, cr_displayName = cn_displayName c,
      cr_status = cn_status c, cr_lifecycleState = cn_lifecycleState c, cr_retiredAt = cn_retiredAt c,
      cr_gatewayState = cn_gatewayState c, cr_gatewayLastConnectedAt = cn_gatewayLastConnectedAt c,
      cr_gatewayLastEventAt = cn_gatewayLastEventAt c, cr_syncState = cn_syncState c,
      cr_lastSyncStartedAt = cn_lastSyncStartedAt c, cr_lastSyncAt = cn_lastSyncAt c,
      cr_lastSyncGranted = cn_lastSyncGranted c, cr_lastSyncRevoked = cn_lastSyncRevoked c,
      cr_lastError = cn_lastError c, cr_createdAt = cn_createdAt c, cr_updatedAt = cn_updatedAt c\<rparr>"

definition FLOOR_HEALTHY_MS :: int where
  "FLOOR_HEALTHY_MS = 6 * 60 * 60 * 1000"

definition FLOOR_DEGRADED_MS :: int where
  "FLOOR_DEGRADED_MS = 30 * 60 * 1000"

definition computeNextReconcileAt :: "connection \<Rightarrow> time option" where
  "computeNextReconcileAt c =
     map_option (\<lambda>t. t + (if cn_gatewayState c = gw_connected then FLOOR_HEALTHY_MS else FLOOR_DEGRADED_MS))
       (cn_lastSyncAt c)"

section \<open>The bot token\<close>

type_synonym token_cipher = "string \<Rightarrow> string option"

definition config_token :: "(string \<rightharpoonup> json) \<Rightarrow> string" where
  "config_token config = (case config ''botToken'' of Some (JStr t) \<Rightarrow> js_trim t | _ \<Rightarrow> [])"

definition secureBotToken ::
  "token_cipher \<Rightarrow> (string \<rightharpoonup> json) \<Rightarrow> string option \<Rightarrow> (string \<rightharpoonup> json) \<times> string option" where
  "secureBotToken encrypt config credentialsRef =
     (if config_token config = [] then (config, credentialsRef)
      else
        let rest = config(''botToken'' := None) in
        if truthy credentialsRef \<noteq> None then (rest, credentialsRef)
        else case encrypt (config_token config) of
               Some ref \<Rightarrow> (rest, Some ref)
             | None \<Rightarrow> (config, credentialsRef))"

section \<open>Connections\<close>

record connect_dto =
  cd_externalWorkspaceId :: string
  cd_displayName :: string
  cd_config :: "string \<rightharpoonup> json"
  cd_credentialsRef :: "string option"

record update_dto =
  ud_displayName :: "string option"
  ud_config :: "(string \<rightharpoonup> json) option"
  ud_credentialsRef :: "string option"

definition connect_valid :: "connect_dto \<Rightarrow> bool" where
  "connect_valid dto \<longleftrightarrow>
     cd_externalWorkspaceId dto \<noteq> [] \<and> cd_displayName dto \<noteq> [] \<and> length (cd_displayName dto) \<le> 200"

definition integrations_list :: "id \<Rightarrow> bool \<Rightarrow> state \<Rightarrow> (connection_response \<times> time option) list" where
  "integrations_list organizationId includeRetired s =
     map (\<lambda>c. (toConnectionResponse c, computeNextReconcileAt c))
       (sort_key cn_createdAt
         (filter (\<lambda>c. cn_organizationId c = organizationId \<and> activeFilter includeRetired (cn_lifecycleState c))
           (connections s)))"

definition same_workspace :: "id \<Rightarrow> string \<Rightarrow> connection \<Rightarrow> bool" where
  "same_workspace organizationId workspace c \<longleftrightarrow>
     cn_organizationId c = organizationId \<and> cn_externalWorkspaceId c = workspace"

text \<open>The unique key of the table covers retired rows too, the check before it does not.\<close>

definition integrations_connect ::
  "token_cipher \<Rightarrow> id \<Rightarrow> id \<Rightarrow> connect_dto \<Rightarrow> connection_response svc" where
  "integrations_connect encrypt organizationId actorUserId dto =
     bnd (gets (\<lambda>s. List.find (\<lambda>c. same_workspace organizationId (cd_externalWorkspaceId dto) c \<and>
                            cn_lifecycleState c \<noteq> retired) (connections s))) (\<lambda>existing.
     bnd (check (existing = None) (ConflictError ''DUPLICATE_CONNECTION'')) (\<lambda>_.
     let secured = secureBotToken encrypt (cd_config dto) (cd_credentialsRef dto) in
     bnd (gets (\<lambda>s. List.find (same_workspace organizationId (cd_externalWorkspaceId dto)) (connections s))) (\<lambda>clash.
     bnd (check (clash = None) UniqueViolation) (\<lambda>_.
     bnd fresh_id (\<lambda>i.
     bnd now (\<lambda>t.
     let row = \<lparr>cn_id = i, cn_organizationId = organizationId,
                cn_externalWorkspaceId = cd_externalWorkspaceId dto, cn_displayName = cd_displayName dto,
                cn_config = fst secured, cn_credentialsRef = snd secured, cn_status = conn_active,
                cn_lifecycleState = active, cn_retiredAt = None, cn_gatewayState = gw_down,
                cn_gatewayLastConnectedAt = None, cn_gatewayLastEventAt = None,
                cn_syncState = sync_idle, cn_lastSyncStartedAt = None, cn_lastSyncAt = None,
                cn_lastSyncGranted = 0, cn_lastSyncRevoked = 0, cn_lastError = None,
                cn_createdAt = t, cn_updatedAt = t\<rparr> in
     bnd (create_row connections_update row) (\<lambda>_.
     bnd (logActivity organizationId (Some actorUserId) ''integration_connection'' i ''integration.connected''
            [(''connectionId'', PId i)]) (\<lambda>_.
     ret (toConnectionResponse row)))))))))"

definition loadActive :: "id \<Rightarrow> connection svc" where
  "loadActive i =
     bnd (find_unique connections cn_id i) (\<lambda>found.
     bnd (need found (NotFoundError ''CONNECTION_NOT_FOUND'')) (\<lambda>c.
     bnd (check (cn_lifecycleState c = active) (NotFoundError ''CONNECTION_NOT_FOUND'')) (\<lambda>_.
     ret c)))"

text \<open>Every change of a connection: the row, its time of change, the log.\<close>

definition write_connection ::
  "connection \<Rightarrow> id \<Rightarrow> string \<Rightarrow> (connection \<Rightarrow> connection) \<Rightarrow> connection_response svc" where
  "write_connection conn actorUserId verb f =
     bnd now (\<lambda>t.
     bnd (update_row connections connections_update cn_id (cn_id conn) (\<lambda>c. (f c)\<lparr>cn_updatedAt := t\<rparr>)) (\<lambda>updated.
     bnd (logActivity (cn_organizationId conn) (Some actorUserId) ''integration_connection'' (cn_id conn) verb
            [(''connectionId'', PId (cn_id conn))]) (\<lambda>_.
     ret (toConnectionResponse updated))))"

definition patched_connection :: "token_cipher \<Rightarrow> update_dto \<Rightarrow> connection \<Rightarrow> connection" where
  "patched_connection encrypt dto c =
     (let named = (case ud_displayName dto of None \<Rightarrow> c | Some n \<Rightarrow> c\<lparr>cn_displayName := n\<rparr>);
          keyed = (case ud_credentialsRef dto of None \<Rightarrow> named | Some r \<Rightarrow> named\<lparr>cn_credentialsRef := Some r\<rparr>)
      in case ud_config dto of
           None \<Rightarrow> keyed
         | Some config \<Rightarrow>
             (case secureBotToken encrypt config (ud_credentialsRef dto) of
                (safe, None) \<Rightarrow> keyed\<lparr>cn_config := safe\<rparr>
              | (safe, Some r) \<Rightarrow> keyed\<lparr>cn_config := safe, cn_credentialsRef := Some r\<rparr>))"

definition integrations_update :: "token_cipher \<Rightarrow> id \<Rightarrow> id \<Rightarrow> update_dto \<Rightarrow> connection_response svc" where
  "integrations_update encrypt i actorUserId dto =
     bnd (loadActive i) (\<lambda>conn.
     write_connection conn actorUserId ''integration.updated'' (patched_connection encrypt dto))"

definition rotateToken :: "token_cipher \<Rightarrow> id \<Rightarrow> id \<Rightarrow> string \<Rightarrow> connection_response svc" where
  "rotateToken encrypt i actorUserId botToken =
     bnd (loadActive i) (\<lambda>conn.
     bnd (need (encrypt botToken) (ServerError ''cipher'')) (\<lambda>ref.
     write_connection conn actorUserId ''integration.token_rotated''
       (\<lambda>c. c\<lparr>cn_credentialsRef := Some ref, cn_config := (cn_config conn)(''botToken'' := None)\<rparr>)))"

definition integrations_retire :: "id \<Rightarrow> id \<Rightarrow> connection_response svc" where
  "integrations_retire i actorUserId =
     bnd (find_unique connections cn_id i) (\<lambda>found.
     bnd (need found (NotFoundError ''CONNECTION_NOT_FOUND'')) (\<lambda>conn.
     bnd (check (cn_lifecycleState conn \<noteq> retired) (ConflictError ''ALREADY_RETIRED'')) (\<lambda>_.
     bnd now (\<lambda>t.
     write_connection conn actorUserId ''integration.retired''
       (\<lambda>c. c\<lparr>cn_lifecycleState := retired, cn_retiredAt := Some t\<rparr>)))))"

definition integrations_revive :: "id \<Rightarrow> id \<Rightarrow> connection_response svc" where
  "integrations_revive i actorUserId =
     bnd (find_unique connections cn_id i) (\<lambda>found.
     bnd (need found (NotFoundError ''CONNECTION_NOT_FOUND'')) (\<lambda>conn.
     bnd (windowMs (cn_organizationId conn)) (\<lambda>graceMs.
     bnd now (\<lambda>t.
     bnd (check (isRevivable (cn_lifecycleState conn) (cn_retiredAt conn) graceMs t)
            (ConflictError ''NOT_REVIVABLE'')) (\<lambda>_.
     write_connection conn actorUserId ''integration.revived''
       (\<lambda>c. c\<lparr>cn_lifecycleState := active, cn_retiredAt := None\<rparr>))))))"

definition requestManualSync :: "id \<Rightarrow> id \<Rightarrow> unit svc" where
  "requestManualSync i actorUserId =
     bnd (loadActive i) (\<lambda>conn.
     logActivity (cn_organizationId conn) (Some actorUserId) ''integration_connection'' i
       ''integration.reconcile_scheduled'' [(''connectionId'', PId i), (''reason'', PStr ''manual'')])"

section \<open>Mappings\<close>

record mapping_dto =
  md_roleId :: id
  md_externalGroupId :: string
  md_syncDirection :: sync_direction

record mapping_patch =
  pm_syncDirection :: "sync_direction option"
  pm_conflictWinner :: "conflict_winner option"
  pm_externalGroupId :: "string option"

definition listMappings :: "id \<Rightarrow> group_mapping list svc" where
  "listMappings connectionId =
     bnd (loadActive connectionId) (\<lambda>_.
     gets (\<lambda>s. sort_key mp_createdAt (filter (\<lambda>m. mp_connectionId m = connectionId) (mappings s))))"

definition carved_out :: "id \<Rightarrow> grant \<Rightarrow> bool" where
  "carved_out roleId g \<longleftrightarrow>
     g_roleId g = roleId \<and> g_effect g = Permit \<and> g_scopeKind g = scope_global \<and>
     g_lifecycleState g = active \<and> g_action g \<in> set EFFECTIVE_ADMIN_ACTIONS"

definition assertNotGovernanceRole :: "id \<Rightarrow> unit svc" where
  "assertNotGovernanceRole roleId =
     bnd (gets (\<lambda>s. List.find (carved_out roleId) (grants s))) (\<lambda>found.
     check (found = None) (UnprocessableError ''GOVERNANCE_ROLE_NOT_MAPPABLE'' []))"

definition same_mapping :: "id \<Rightarrow> id \<Rightarrow> string \<Rightarrow> group_mapping \<Rightarrow> bool" where
  "same_mapping roleId connectionId groupId m \<longleftrightarrow>
     mp_roleId m = roleId \<and> mp_connectionId m = connectionId \<and> mp_externalGroupId m = groupId"

definition log_mapping :: "connection \<Rightarrow> id \<Rightarrow> id \<Rightarrow> string \<Rightarrow> id \<Rightarrow> unit svc" where
  "log_mapping conn actorUserId mappingId verb roleId =
     logActivity (cn_organizationId conn) (Some actorUserId) ''external_group_mapping'' mappingId verb
       [(''mappingId'', PId mappingId), (''connectionId'', PId (cn_id conn)), (''roleId'', PId roleId)]"

definition createMapping :: "id \<Rightarrow> id \<Rightarrow> mapping_dto \<Rightarrow> group_mapping svc" where
  "createMapping connectionId actorUserId dto =
     bnd (loadActive connectionId) (\<lambda>conn.
     bnd (find_unique roles r_id (md_roleId dto)) (\<lambda>found.
     bnd (need found (NotFoundError ''ROLE_NOT_FOUND'')) (\<lambda>role.
     bnd (check (r_lifecycleState role \<noteq> retired) (UnprocessableError ''ROLE_RETIRED'' [])) (\<lambda>_.
     bnd (assertNotGovernanceRole (md_roleId dto)) (\<lambda>_.
     bnd (gets (\<lambda>s. List.find (same_mapping (md_roleId dto) connectionId (md_externalGroupId dto)) (mappings s))) (\<lambda>existing.
     bnd (check (existing = None) (ConflictError ''DUPLICATE_MAPPING'')) (\<lambda>_.
     bnd fresh_id (\<lambda>i.
     bnd now (\<lambda>t.
     let row = \<lparr>mp_id = i, mp_roleId = md_roleId dto, mp_connectionId = connectionId,
                mp_externalGroupId = md_externalGroupId dto, mp_syncDirection = md_syncDirection dto,
                mp_isBroken = False, mp_conflictWinner = patrice_wins, mp_createdAt = t\<rparr> in
     bnd (create_row mappings_update row) (\<lambda>_.
     bnd (log_mapping conn actorUserId i ''external_group_mapping.created'' (md_roleId dto)) (\<lambda>_.
     ret row)))))))))))"

definition load_mapping :: "id \<Rightarrow> id \<Rightarrow> (connection \<times> group_mapping) svc" where
  "load_mapping connectionId mappingId =
     bnd (loadActive connectionId) (\<lambda>conn.
     bnd (find_unique mappings mp_id mappingId) (\<lambda>found.
     bnd (need found (NotFoundError ''MAPPING_NOT_FOUND'')) (\<lambda>m.
     bnd (check (mp_connectionId m = connectionId) (NotFoundError ''MAPPING_NOT_FOUND'')) (\<lambda>_.
     ret (conn, m)))))"

definition patched_mapping :: "mapping_patch \<Rightarrow> group_mapping \<Rightarrow> group_mapping" where
  "patched_mapping dto m =
     m\<lparr>mp_syncDirection := (case pm_syncDirection dto of None \<Rightarrow> mp_syncDirection m | Some d \<Rightarrow> d),
       mp_conflictWinner := (case pm_conflictWinner dto of None \<Rightarrow> mp_conflictWinner m | Some w \<Rightarrow> w),
       mp_externalGroupId := (case pm_externalGroupId dto of None \<Rightarrow> mp_externalGroupId m | Some g \<Rightarrow> g),
       mp_isBroken := (if pm_externalGroupId dto = None then mp_isBroken m else False)\<rparr>"

definition updateMapping :: "id \<Rightarrow> id \<Rightarrow> id \<Rightarrow> mapping_patch \<Rightarrow> group_mapping svc" where
  "updateMapping connectionId mappingId actorUserId dto =
     bnd (load_mapping connectionId mappingId) (\<lambda>(conn, m).
     bnd (gets (\<lambda>s. List.find (\<lambda>q. mp_id q \<noteq> mappingId \<and>
            same_mapping (mp_roleId m) connectionId (mp_externalGroupId (patched_mapping dto m)) q) (mappings s))) (\<lambda>clash.
     bnd (check (clash = None) UniqueViolation) (\<lambda>_.
     bnd (update_row mappings mappings_update mp_id mappingId (patched_mapping dto)) (\<lambda>updated.
     bnd (log_mapping conn actorUserId mappingId ''external_group_mapping.updated'' (mp_roleId m)) (\<lambda>_.
     ret updated)))))"

text \<open>Its baseline rows go with a mapping.\<close>

definition deleteMapping :: "id \<Rightarrow> id \<Rightarrow> id \<Rightarrow> unit svc" where
  "deleteMapping connectionId mappingId actorUserId =
     bnd (load_mapping connectionId mappingId) (\<lambda>(conn, m).
     bnd (delete_many mappings_update (\<lambda>q. mp_id q = mappingId)) (\<lambda>_.
     bnd (delete_many baselines_update (\<lambda>b. sb_mappingId b = mappingId)) (\<lambda>_.
     log_mapping conn actorUserId mappingId ''external_group_mapping.retired'' (mp_roleId m))))"

definition retryMapping :: "id \<Rightarrow> id \<Rightarrow> id \<Rightarrow> group_mapping svc" where
  "retryMapping connectionId mappingId actorUserId =
     bnd (load_mapping connectionId mappingId) (\<lambda>(conn, m).
     bnd (update_row mappings mappings_update mp_id mappingId (\<lambda>q. q\<lparr>mp_isBroken := False\<rparr>)) (\<lambda>updated.
     bnd (log_mapping conn actorUserId mappingId ''integration.mapping_retried'' (mp_roleId m)) (\<lambda>_.
     ret updated)))"

end
