(* ===== verification/Schedule.thy ===== *)
theory Schedule
  imports Integrations
begin

text \<open>
  \<open>integrations/sync/sync.service.ts\<close> and the publishing half of \<open>queue/queue.service.ts\<close>: which
  synchronization jobs are put on the queue, when, and what a worker does with one. The queue itself
  is outside; the jobs it is handed are the results. What the event socket last said of each
  connection's health is an argument, as is the configured delay.
\<close>

section \<open>Jobs\<close>

record job =
  jb_connectionId :: id
  jb_externalUserId :: "string option"
  jb_singletonKey :: "frag list"
  jb_startAfter :: "nat option"

text \<open>\<open>QueueService.publish\<close>: nothing is sent when the queue did not start; a delay of zero is no delay.\<close>

definition publish_job :: "bool \<Rightarrow> job \<Rightarrow> job list" where
  "publish_job up j =
     (if up then [j\<lparr>jb_startAfter := (case jb_startAfter j of Some 0 \<Rightarrow> None | x \<Rightarrow> x)\<rparr>] else [])"

definition enqueue :: "bool \<Rightarrow> id \<Rightarrow> job list" where
  "enqueue up connectionId =
     publish_job up \<lparr>jb_connectionId = connectionId, jb_externalUserId = None,
       jb_singletonKey = [Lit ''sync-'', Ref connectionId], jb_startAfter = None\<rparr>"

definition enqueueSoon :: "bool \<Rightarrow> nat \<Rightarrow> id \<Rightarrow> job list" where
  "enqueueSoon up delay connectionId =
     publish_job up \<lparr>jb_connectionId = connectionId, jb_externalUserId = None,
       jb_singletonKey = [Lit ''sync-'', Ref connectionId], jb_startAfter = Some delay\<rparr>"

definition enqueueUserSoon :: "bool \<Rightarrow> nat \<Rightarrow> id \<Rightarrow> string \<Rightarrow> job list" where
  "enqueueUserSoon up delay connectionId externalUserId =
     publish_job up \<lparr>jb_connectionId = connectionId, jb_externalUserId = Some externalUserId,
       jb_singletonKey = [Lit ''sync-'', Ref connectionId, Lit ''-'', Lit externalUserId],
       jb_startAfter = Some delay\<rparr>"

section \<open>Role changes\<close>

definition mapped_connections :: "id \<Rightarrow> state \<Rightarrow> id list" where
  "mapped_connections roleId s =
     remdups (map mp_connectionId (filter (\<lambda>m. mp_roleId m = roleId) (mappings s)))"

definition notifyUserRoleChange :: "bool \<Rightarrow> nat \<Rightarrow> id \<Rightarrow> id \<Rightarrow> state \<Rightarrow> job list" where
  "notifyUserRoleChange up delay userId roleId s =
     (let conns = mapped_connections roleId s in
      if conns = [] then []
      else concat (map (\<lambda>e. enqueueUserSoon up delay (ei_connectionId e) (ei_externalUserId e))
             (filter (\<lambda>e. ei_userId e = userId \<and> ei_connectionId e \<in> set conns) (external_identities s))))"

definition notifyRoleChange :: "bool \<Rightarrow> nat \<Rightarrow> id \<Rightarrow> state \<Rightarrow> job list" where
  "notifyRoleChange up delay roleId s =
     concat (map (enqueueSoon up delay) (mapped_connections roleId s))"

section \<open>Sweeps and the floor\<close>

definition swept_connections :: "state \<Rightarrow> connection list" where
  "swept_connections s =
     filter (\<lambda>c. cn_lifecycleState c = active \<and> cn_status c \<noteq> conn_disabled) (connections s)"

definition sweepAllConnections :: "bool \<Rightarrow> state \<Rightarrow> job list" where
  "sweepAllConnections up s = concat (map (\<lambda>c. enqueue up (cn_id c)) (swept_connections s))"

definition FLOOR_HEALTHY_HOURS :: rat where
  "FLOOR_HEALTHY_HOURS = 6"

definition FLOOR_DEGRADED_HOURS :: rat where
  "FLOOR_DEGRADED_HOURS = 1 / 2"

definition gateway_healthy :: "(id \<rightharpoonup> bool) \<Rightarrow> id \<Rightarrow> bool" where
  "gateway_healthy health i = (case health i of None \<Rightarrow> False | Some b \<Rightarrow> b)"

text \<open>The age of a connection is taken from the last change of its row.\<close>

definition floor_due :: "(id \<rightharpoonup> bool) \<Rightarrow> time \<Rightarrow> connection \<Rightarrow> bool" where
  "floor_due health t c \<longleftrightarrow>
     (if gateway_healthy health (cn_id c) then FLOOR_HEALTHY_HOURS else FLOOR_DEGRADED_HOURS) * 60 * 60 * 1000
       \<le> of_int (t - cn_updatedAt c)"

definition reconcileFloorTick :: "bool \<Rightarrow> (id \<rightharpoonup> bool) \<Rightarrow> state \<Rightarrow> job list" where
  "reconcileFloorTick up health s =
     concat (map (\<lambda>c. if floor_due health (clock s) c then enqueue up (cn_id c) else []) (swept_connections s))"

section \<open>Working a job\<close>

text \<open>\<open>runSync\<close> and \<open>runSyncUser\<close>: one member's edges or the whole connection; what goes wrong is
  logged. An empty external id runs the whole connection.\<close>

definition work_job :: "(id \<Rightarrow> unit svc) \<Rightarrow> (id \<Rightarrow> string \<Rightarrow> unit svc) \<Rightarrow> job \<Rightarrow> unit svc" where
  "work_job sync_all sync_user j =
     (case truthy (jb_externalUserId j) of
        Some externalUserId \<Rightarrow> swallow (sync_user (jb_connectionId j) externalUserId)
      | None \<Rightarrow> swallow (sync_all (jb_connectionId j)))"

section \<open>The requests that enqueue\<close>

text \<open>\<open>IntegrationsController.retryMapping\<close> and \<open>triggerSync\<close>.\<close>

definition post_retry :: "bool \<Rightarrow> id \<Rightarrow> id \<Rightarrow> id \<Rightarrow> (group_mapping \<times> job list) svc" where
  "post_retry up connectionId mappingId actorUserId =
     bnd (retryMapping connectionId mappingId actorUserId) (\<lambda>m.
     ret (m, enqueue up connectionId))"

definition post_sync :: "bool \<Rightarrow> id \<Rightarrow> id \<Rightarrow> job list svc" where
  "post_sync up connectionId actorUserId =
     bnd (requestManualSync connectionId actorUserId) (\<lambda>_.
     ret (enqueue up connectionId))"

end
