(* ===== verification/Discord_Link.thy ===== *)
theory Discord_Link
  imports Schedule
begin

text \<open>
  \<open>integrations/discord-link.service.ts\<close>: a member connects or disconnects the provider's account,
  as a way to sign in and as the identity synchronized on every active connection. Neither runs in a
  transaction.
\<close>

record oauth_user =
  ou_id :: string
  ou_username :: string
  ou_globalName :: "string option"
  ou_avatar :: "string option"
  ou_email :: "string option"

section \<open>Connecting\<close>

text \<open>An account belongs to one member, a member has one account: two unique keys, of which only the
  first is looked up before the row is written.\<close>

definition discord_identity :: "string \<Rightarrow> user_identity \<Rightarrow> bool" where
  "discord_identity subject q \<longleftrightarrow> ui_provider q = prov_discord \<and> ui_providerSubject q = Some subject"

definition link_sign_in :: "id \<Rightarrow> id \<Rightarrow> oauth_user \<Rightarrow> unit svc" where
  "link_sign_in organizationId userId du =
     bnd (gets (\<lambda>s. List.find (discord_identity (ou_id du)) (identities s))) (\<lambda>existing.
     case existing of
       Some q \<Rightarrow> check (ui_userId q = userId) (ConflictError ''DISCORD_ALREADY_LINKED'')
     | None \<Rightarrow>
         bnd (gets (\<lambda>s. List.find (\<lambda>q. ui_userId q = userId \<and> ui_provider q = prov_discord) (identities s))) (\<lambda>other.
         bnd (check (other = None) UniqueViolation) (\<lambda>_.
         bnd fresh_id (\<lambda>i.
         bnd now (\<lambda>t.
         bnd (create_row identities_update
                \<lparr>ui_id = i, ui_userId = userId, ui_provider = prov_discord,
                 ui_providerSubject = Some (ou_id du), ui_passwordHash = None, ui_verifiedAt = Some t\<rparr>) (\<lambda>_.
         logActivity organizationId (Some userId) ''user'' userId ''auth.discord_linked''
           [(''userId'', PId userId)]))))))"

definition link_handle :: "oauth_user \<Rightarrow> string option" where
  "link_handle du = (case ou_globalName du of Some n \<Rightarrow> Some n | None \<Rightarrow> Some (ou_username du))"

text \<open>\<open>upsert\<close> by member and connection: what exists keeps its external id.\<close>

definition upsert_link :: "id \<Rightarrow> id \<Rightarrow> oauth_user \<Rightarrow> id svc" where
  "upsert_link userId connectionId du =
     bnd (gets (\<lambda>s. List.find (\<lambda>e. ei_userId e = userId \<and> ei_connectionId e = connectionId)
                     (external_identities s))) (\<lambda>existing.
     case existing of
       Some e \<Rightarrow>
         bnd (update_many external_identities_update (\<lambda>q. ei_userId q = userId \<and> ei_connectionId q = connectionId)
                (\<lambda>q. q\<lparr>ei_externalHandle := link_handle du, ei_externalAvatarHash := ou_avatar du\<rparr>)) (\<lambda>_.
         ret (ei_id e))
     | None \<Rightarrow>
         bnd fresh_id (\<lambda>i.
         bnd (create_row external_identities_update
                \<lparr>ei_id = i, ei_userId = userId, ei_connectionId = connectionId,
                 ei_externalUserId = ou_id du, ei_externalHandle = link_handle du,
                 ei_externalAvatarHash = ou_avatar du, ei_lastSyncedAt = None\<rparr>) (\<lambda>_.
         ret i)))"

definition link_connection :: "id \<Rightarrow> id \<Rightarrow> oauth_user \<Rightarrow> id \<Rightarrow> unit svc" where
  "link_connection organizationId userId du connectionId =
     bnd (gets (\<lambda>s. List.find (\<lambda>e. ei_connectionId e = connectionId \<and> ei_externalUserId e = ou_id du)
                     (external_identities s))) (\<lambda>clash.
     bnd (check (case clash of Some e \<Rightarrow> ei_userId e = userId | None \<Rightarrow> True)
            (ConflictError ''DISCORD_ALREADY_LINKED'')) (\<lambda>_.
     bnd (upsert_link userId connectionId du) (\<lambda>i.
     logActivity organizationId (Some userId) ''external_identity'' i ''external_identity.linked''
       [(''connectionId'', PId connectionId), (''userId'', PId userId), (''externalIdentityId'', PId i)])))"

text \<open>The jobs the linked connections get; of a run that ends in a clash, the jobs of the connections before
  it are not in the result.\<close>

definition completeLink :: "bool \<Rightarrow> id \<Rightarrow> oauth_user \<Rightarrow> job list svc" where
  "completeLink up userId du =
     bnd (find_unique users u_id userId) (\<lambda>found.
     bnd (need found (UnprocessableError ''USER_NOT_FOUND'' [])) (\<lambda>user.
     bnd (link_sign_in (u_organizationId user) userId du) (\<lambda>_.
     bnd (gets (\<lambda>s. map cn_id (filter (\<lambda>c. cn_lifecycleState c = active) (connections s)))) (\<lambda>conns.
     bnd (for_each conns (link_connection (u_organizationId user) userId du)) (\<lambda>_.
     ret (concat (map (enqueue up) conns)))))))"

section \<open>Disconnecting\<close>

definition unlink_role :: "id \<Rightarrow> id \<Rightarrow> id \<Rightarrow> id \<Rightarrow> unit svc" where
  "unlink_role organizationId userId connectionId roleId =
     bnd (gets (\<lambda>s. List.find (\<lambda>r. ur_userId r = userId \<and> ur_roleId r = roleId) (user_roles s))) (\<lambda>found.
     bnd (check (found \<noteq> None) RecordNotFound) (\<lambda>_.
     bnd (delete_many user_roles_update (\<lambda>r. ur_userId r = userId \<and> ur_roleId r = roleId)) (\<lambda>_.
     log_activity organizationId (Some userId) ''user_role'' userId ''integration.removed''
       [(''connectionId'', PId connectionId), (''userId'', PId userId), (''roleId'', PId roleId)]
       src_integration (Some connectionId))))"

definition granted_by_link :: "id \<Rightarrow> id \<Rightarrow> user_role \<Rightarrow> bool" where
  "granted_by_link userId connectionId r \<longleftrightarrow>
     ur_userId r = userId \<and> ur_source r = src_integration \<and> ur_sourceConnectionId r = Some connectionId"

definition unlink_connection :: "id \<Rightarrow> id \<Rightarrow> external_identity \<Rightarrow> unit svc" where
  "unlink_connection organizationId userId link =
     bnd (gets (\<lambda>s. map ur_roleId (filter (granted_by_link userId (ei_connectionId link)) (user_roles s)))) (\<lambda>held.
     bnd (for_each held (unlink_role organizationId userId (ei_connectionId link))) (\<lambda>_.
     bnd (delete_many baselines_update (\<lambda>b. sb_connectionId b = ei_connectionId link \<and>
            sb_externalUserId b = ei_externalUserId link)) (\<lambda>_.
     bnd (gets (\<lambda>s. lookup ei_id (ei_id link) (external_identities s))) (\<lambda>found.
     bnd (check (found \<noteq> None) RecordNotFound) (\<lambda>_.
     bnd (delete_many external_identities_update (\<lambda>e. ei_id e = ei_id link)) (\<lambda>_.
     logActivity organizationId (Some userId) ''external_identity'' (ei_id link) ''external_identity.unlinked''
       [(''connectionId'', PId (ei_connectionId link)), (''userId'', PId userId),
        (''externalIdentityId'', PId (ei_id link))]))))))"

definition unlink_sign_in :: "id \<Rightarrow> id \<Rightarrow> user_identity \<Rightarrow> unit svc" where
  "unlink_sign_in organizationId userId q =
     bnd (delete_many identities_update (\<lambda>r. ui_id r = ui_id q)) (\<lambda>_.
     logActivity organizationId (Some userId) ''user'' userId ''auth.discord_unlinked''
       [(''userId'', PId userId)])"

definition unlink :: "id \<Rightarrow> unit svc" where
  "unlink userId =
     bnd (find_unique users u_id userId) (\<lambda>found.
     bnd (need found (UnprocessableError ''USER_NOT_FOUND'' [])) (\<lambda>user.
     bnd (gets (\<lambda>s. filter (\<lambda>q. ui_userId q = userId) (identities s))) (\<lambda>methods.
     let discord = List.find (\<lambda>q. ui_provider q = prov_discord) methods in
     bnd (gets (\<lambda>s. filter (\<lambda>e. ei_userId e = userId) (external_identities s))) (\<lambda>links.
     bnd (check (discord \<noteq> None \<or> links \<noteq> []) (UnprocessableError ''NOT_LINKED'' [])) (\<lambda>_.
     bnd (check (discord = None \<or> length methods \<noteq> 1) (ConflictError ''LAST_AUTH_METHOD'')) (\<lambda>_.
     bnd (for_each links (unlink_connection (u_organizationId user) userId)) (\<lambda>_.
     case discord of None \<Rightarrow> ret () | Some q \<Rightarrow> unlink_sign_in (u_organizationId user) userId q)))))))"

end
