(* ===== verification/Gateway_Service.thy ===== *)
theory Gateway_Service
  imports Gateway Schedule
begin

text \<open>
  \<open>integrations/gateway/integration-gateway.service.ts\<close>: the sessions kept with the provider's event
  socket, one per connection. Sessions are objects that timers and sockets go on pointing to after
  they have left the map of sessions, so they live in a store and are named by their place in it, as
  sockets are. What the sockets and timers do comes as inputs; what is sent to a socket and what is
  put on the queue is recorded. Writes to the database are fire and forget. The data of a dispatched
  event is the id of the user it names, empty when it names none.
\<close>

section \<open>State\<close>

record gateway_session =
  gs_connectionId :: id
  gs_organizationId :: id
  gs_botToken :: string
  gs_ws :: "nat option"
  gs_ctx :: gateway_context
  gs_heartbeatTimer :: "int option"
  gs_reconnectTimer :: "rat option"
  gs_healthy :: bool
  gs_lastPersistedState :: "gateway_column option"

datatype outgoing = Identify string | Resume string string int | Beat "int option"

record socket =
  sk_session :: nat
  sk_url :: string
  sk_open :: bool
  sk_sent :: "outgoing list"

record gateway_service =
  gv_store :: "gateway_session list"
  gv_sessions :: "id \<rightharpoonup> nat"
  gv_sockets :: "socket list"
  gv_health :: "id \<rightharpoonup> bool"
  gv_jobs :: "job list"
  gv_db :: state

text \<open>The fields of a frame, those of its data by the operations that read them.\<close>

record frame =
  fr_op :: nat
  fr_s :: "int option"
  fr_t :: "string option"
  fr_heartbeat_interval :: int
  fr_resumable :: bool
  fr_session_id :: string
  fr_resume_gateway_url :: string
  fr_user :: string

definition DISCORD_GATEWAY_URL :: string where
  "DISCORD_GATEWAY_URL = ''wss://gateway.discord.gg/?v=10&encoding=json''"

definition at_session :: "nat \<Rightarrow> (gateway_session \<Rightarrow> gateway_session) \<Rightarrow> gateway_service \<Rightarrow> gateway_service" where
  "at_session n f gv = gv\<lparr>gv_store := (gv_store gv)[n := f (gv_store gv ! n)]\<rparr>"

definition at_socket :: "nat \<Rightarrow> (socket \<Rightarrow> socket) \<Rightarrow> gateway_service \<Rightarrow> gateway_service" where
  "at_socket k f gv = gv\<lparr>gv_sockets := (gv_sockets gv)[k := f (gv_sockets gv ! k)]\<rparr>"

definition in_db :: "'a svc \<Rightarrow> gateway_service \<Rightarrow> gateway_service" where
  "in_db m gv = gv\<lparr>gv_db := snd (m (gv_db gv))\<rparr>"

definition on_queue :: "job list \<Rightarrow> gateway_service \<Rightarrow> gateway_service" where
  "on_queue js gv = gv\<lparr>gv_jobs := gv_jobs gv @ js\<rparr>"

text \<open>\<open>session.ws?.send(...)\<close>; what is sent to a socket that is not open is lost.\<close>

definition socket_open :: "gateway_service \<Rightarrow> nat option \<Rightarrow> bool" where
  "socket_open gv ws = (case ws of None \<Rightarrow> False | Some k \<Rightarrow> sk_open (gv_sockets gv ! k))"

definition send :: "nat \<Rightarrow> outgoing \<Rightarrow> gateway_service \<Rightarrow> gateway_service" where
  "send n x gv =
     (case gs_ws (gv_store gv ! n) of
        None \<Rightarrow> gv
      | Some k \<Rightarrow> at_socket k (\<lambda>sk. if sk_open sk then sk\<lparr>sk_sent := sk_sent sk @ [x]\<rparr> else sk) gv)"

section \<open>The state of a connection, for the admins\<close>

definition gateway_write :: "gateway_column \<Rightarrow> bool \<Rightarrow> time \<Rightarrow> connection \<Rightarrow> connection" where
  "gateway_write st event t c =
     c\<lparr>cn_gatewayState := st,
       cn_gatewayLastConnectedAt := (if st = gw_connected then Some t else cn_gatewayLastConnectedAt c),
       cn_gatewayLastEventAt := (if event then Some t else cn_gatewayLastEventAt c),
       cn_updatedAt := t\<rparr>"

definition gateway_verb :: "gateway_column \<Rightarrow> string option" where
  "gateway_verb st =
     (case st of gw_connected \<Rightarrow> Some ''integration.gateway_connected''
      | gw_degraded \<Rightarrow> Some ''integration.gateway_degraded''
      | gw_down \<Rightarrow> Some ''integration.gateway_disconnected''
      | gw_connecting \<Rightarrow> None)"

definition persist_row :: "id \<Rightarrow> gateway_column \<Rightarrow> bool \<Rightarrow> unit svc" where
  "persist_row connectionId st event =
     bnd now (\<lambda>t.
     bnd (update_row connections connections_update cn_id connectionId (gateway_write st event t)) (\<lambda>_.
     ret ()))"

definition persist_log :: "gateway_session \<Rightarrow> string \<Rightarrow> unit svc" where
  "persist_log g verb =
     log_activity (gs_organizationId g) None ''integration_connection'' (gs_connectionId g) verb
       [(''connectionId'', PId (gs_connectionId g))] src_integration (Some (gs_connectionId g))"

definition persistGateway :: "nat \<Rightarrow> gateway_column \<Rightarrow> bool \<Rightarrow> gateway_service \<Rightarrow> gateway_service" where
  "persistGateway n st event gv =
     (let g = gv_store gv ! n;
          written = in_db (persist_row (gs_connectionId g) st event) gv in
      if gs_lastPersistedState g = Some st then written
      else
        let noted = at_session n (\<lambda>g. g\<lparr>gs_lastPersistedState := Some st\<rparr>) written in
        case gateway_verb st of
          None \<Rightarrow> noted
        | Some verb \<Rightarrow> in_db (persist_log g verb) noted)"

section \<open>Sockets, actions, frames\<close>

definition connect :: "nat \<Rightarrow> gateway_service \<Rightarrow> gateway_service" where
  "connect n gv =
     (let url = (case gx_resumeGatewayUrl (gs_ctx (gv_store gv ! n)) of
                   None \<Rightarrow> DISCORD_GATEWAY_URL | Some u \<Rightarrow> u);
          gv = persistGateway n gw_connecting False gv;
          k = length (gv_sockets gv)
      in at_session n (\<lambda>g. g\<lparr>gs_ws := Some k\<rparr>)
           (gv\<lparr>gv_sockets := gv_sockets gv @
              [\<lparr>sk_session = n, sk_url = url, sk_open = False, sk_sent = []\<rparr>]\<rparr>))"

definition memberIdFromEvent :: "string \<Rightarrow> string \<Rightarrow> string option" where
  "memberIdFromEvent eventName userId =
     (if startsWith ''GUILD_MEMBER_'' eventName then truthy (Some userId) else None)"

fun execute :: "bool \<Rightarrow> nat \<Rightarrow> nat \<Rightarrow> gateway_action \<Rightarrow> gateway_service \<Rightarrow> gateway_service" where
  "execute up delay n (SEND_IDENTIFY token) gv = send n (Identify token) gv"
| "execute up delay n (SEND_RESUME token sid sq) gv = send n (Resume token sid sq) gv"
| "execute up delay n (SEND_HEARTBEAT sq) gv = send n (Beat sq) gv"
| "execute up delay n (START_HEARTBEAT ms) gv = at_session n (\<lambda>g. g\<lparr>gs_heartbeatTimer := Some ms\<rparr>) gv"
| "execute up delay n (SCHEDULE_RECONNECT ms) gv =
     at_session n (\<lambda>g. g\<lparr>gs_reconnectTimer := Some ms\<rparr>)
       (persistGateway n gw_down False (at_session n (\<lambda>g. g\<lparr>gs_ws := None\<rparr>) gv))"
| "execute up delay n (EMIT_MEMBER_EVENT name data) gv =
     (let gv = persistGateway n gw_connected True gv;
          i = gs_connectionId (gv_store gv ! n)
      in on_queue (case memberIdFromEvent name data of
                     Some x \<Rightarrow> enqueueUserSoon up delay i x
                   | None \<Rightarrow> enqueueSoon up delay i) gv)"
| "execute up delay n TRIGGER_RECONCILE gv = on_queue (enqueue up (gs_connectionId (gv_store gv ! n))) gv"
| "execute up delay n (EMIT_HEALTH okay) gv =
     (let gv = at_session n (\<lambda>g. g\<lparr>gs_healthy := okay\<rparr>) gv;
          gv = gv\<lparr>gv_health := (gv_health gv)(gs_connectionId (gv_store gv ! n) \<mapsto> okay)\<rparr>
      in persistGateway n (if okay then gw_connected else gw_degraded) False gv)"

definition dispatch :: "bool \<Rightarrow> nat \<Rightarrow> rat \<Rightarrow> nat \<Rightarrow> gateway_event \<Rightarrow> gateway_service \<Rightarrow> gateway_service" where
  "dispatch up delay random n e gv =
     (let g = gv_store gv ! n;
          r = handle (gs_botToken g) random (gs_ctx g) e
      in fold (execute up delay n) (snd r) (at_session n (\<lambda>g. g\<lparr>gs_ctx := fst r\<rparr>) gv))"

definition handlePayload :: "bool \<Rightarrow> nat \<Rightarrow> rat \<Rightarrow> nat \<Rightarrow> frame \<Rightarrow> gateway_service \<Rightarrow> gateway_service" where
  "handlePayload up delay random n p gv =
     (let go = (\<lambda>e. dispatch up delay random n e gv) in
      if fr_op p = 10 then go (HELLO (fr_heartbeat_interval p))
      else if fr_op p = 11 then go HEARTBEAT_ACK
      else if fr_op p = 1 then send n (Beat (gx_sequenceNumber (gs_ctx (gv_store gv ! n)))) gv
      else if fr_op p = 9 then go (INVALID_SESSION (fr_resumable p))
      else if fr_op p = 0 then
        (case (truthy (fr_t p), fr_s p) of
           (Some t, Some sq) \<Rightarrow>
             if t = ''READY'' then go (READY (fr_session_id p) (fr_resume_gateway_url p))
             else if t = ''RESUMED'' then go RESUMED
             else go (DISPATCH sq t (fr_user p))
         | _ \<Rightarrow> gv)
      else gv)"

section \<open>Sessions\<close>

definition closeSession :: "nat \<Rightarrow> gateway_service \<Rightarrow> gateway_service" where
  "closeSession n gv =
     (let shut = (case gs_ws (gv_store gv ! n) of
                    None \<Rightarrow> gv | Some k \<Rightarrow> at_socket k (\<lambda>sk. sk\<lparr>sk_open := False\<rparr>) gv)
      in at_session n (\<lambda>g. g\<lparr>gs_heartbeatTimer := None, gs_reconnectTimer := None, gs_ws := None\<rparr>) shut)"

definition closeSessionById :: "id \<Rightarrow> gateway_service \<Rightarrow> gateway_service" where
  "closeSessionById connectionId gv =
     (case gv_sessions gv connectionId of
        None \<Rightarrow> gv
      | Some n \<Rightarrow> (let gv = closeSession n gv in gv\<lparr>gv_sessions := (gv_sessions gv)(connectionId := None)\<rparr>))"

definition startSession :: "id \<Rightarrow> string \<Rightarrow> id \<Rightarrow> gateway_service \<Rightarrow> gateway_service" where
  "startSession connectionId botToken organizationId gv =
     (let gv = closeSessionById connectionId gv;
          n = length (gv_store gv);
          g = \<lparr>gs_connectionId = connectionId, gs_organizationId = organizationId, gs_botToken = botToken,
               gs_ws = None, gs_ctx = initialContext, gs_heartbeatTimer = None, gs_reconnectTimer = None,
               gs_healthy = False, gs_lastPersistedState = None\<rparr>
      in connect n (gv\<lparr>gv_store := gv_store gv @ [g], gv_sessions := (gv_sessions gv)(connectionId \<mapsto> n)\<rparr>))"

text \<open>The cipher's failure to decrypt is \<open>None\<close>, as is a token that is absent.\<close>

definition resolveToken :: "(string \<Rightarrow> bool) \<Rightarrow> (string \<Rightarrow> string option) \<Rightarrow> connection \<Rightarrow> string option" where
  "resolveToken canHandle decrypt conn =
     (case truthy (cn_credentialsRef conn) of
        Some ref \<Rightarrow>
          if canHandle ref then decrypt ref
          else (case cn_config conn ''botToken'' of Some (JStr t) \<Rightarrow> Some t | _ \<Rightarrow> None)
      | None \<Rightarrow> (case cn_config conn ''botToken'' of Some (JStr t) \<Rightarrow> Some t | _ \<Rightarrow> None))"

definition openSession :: "(string \<Rightarrow> bool) \<Rightarrow> (string \<Rightarrow> string option) \<Rightarrow> id \<Rightarrow> gateway_service \<Rightarrow> gateway_service" where
  "openSession canHandle decrypt connectionId gv =
     (case lookup cn_id connectionId (connections (gv_db gv)) of
        None \<Rightarrow> gv
      | Some conn \<Rightarrow>
          if cn_lifecycleState conn \<noteq> active then gv
          else case truthy (resolveToken canHandle decrypt conn) of
                 None \<Rightarrow> gv
               | Some tok \<Rightarrow> startSession connectionId tok (cn_organizationId conn) gv)"

definition openAllSessions :: "(string \<Rightarrow> bool) \<Rightarrow> (string \<Rightarrow> string option) \<Rightarrow> gateway_service \<Rightarrow> gateway_service" where
  "openAllSessions canHandle decrypt gv =
     fold (\<lambda>conn gv. case truthy (resolveToken canHandle decrypt conn) of
             None \<Rightarrow> gv
           | Some tok \<Rightarrow> startSession (cn_id conn) tok (cn_organizationId conn) gv)
       (filter (\<lambda>c. cn_lifecycleState c = active) (connections (gv_db gv))) gv"

definition isHealthy :: "id \<Rightarrow> gateway_service \<Rightarrow> bool" where
  "isHealthy connectionId gv =
     (case gv_sessions gv connectionId of None \<Rightarrow> False | Some n \<Rightarrow> gs_healthy (gv_store gv ! n))"

section \<open>What happens\<close>

text \<open>The events of a socket, the timers firing, sessions opened and closed, the clock. A timer that
  was cleared does not fire; a socket's error closes it, its close event follows.\<close>

datatype gateway_input =
  Socket_open nat | Socket_frame nat frame | Socket_close nat nat | Socket_error nat
| Heartbeat_due nat | Reconnect_due nat | Open_Session_For id | Close_Session_For id | Lapse nat

fun gateway_step ::
  "bool \<Rightarrow> nat \<Rightarrow> (string \<Rightarrow> bool) \<Rightarrow> (string \<Rightarrow> string option) \<Rightarrow> gateway_input \<times> rat \<Rightarrow> gateway_service \<Rightarrow>
   gateway_service" where
  "gateway_step up delay can dec (Socket_open k, random) gv =
     (if k < length (gv_sockets gv)
      then dispatch up delay random (sk_session (gv_sockets gv ! k)) OPEN (at_socket k (\<lambda>sk. sk\<lparr>sk_open := True\<rparr>) gv)
      else gv)"
| "gateway_step up delay can dec (Socket_frame k p, random) gv =
     (if k < length (gv_sockets gv) then handlePayload up delay random (sk_session (gv_sockets gv ! k)) p gv else gv)"
| "gateway_step up delay can dec (Socket_close k code, random) gv =
     (if k < length (gv_sockets gv)
      then dispatch up delay random (sk_session (gv_sockets gv ! k)) (CLOSE code)
             (at_socket k (\<lambda>sk. sk\<lparr>sk_open := False\<rparr>) gv)
      else gv)"
| "gateway_step up delay can dec (Socket_error k, random) gv =
     (if k < length (gv_sockets gv) then at_socket k (\<lambda>sk. sk\<lparr>sk_open := False\<rparr>) gv else gv)"
| "gateway_step up delay can dec (Heartbeat_due n, random) gv =
     (if n < length (gv_store gv) \<and> gs_heartbeatTimer (gv_store gv ! n) \<noteq> None then
        if socket_open gv (gs_ws (gv_store gv ! n))
        then send n (Beat (gx_sequenceNumber (gs_ctx (gv_store gv ! n)))) gv
        else dispatch up delay random n HEARTBEAT_MISSED gv
      else gv)"
| "gateway_step up delay can dec (Reconnect_due n, random) gv =
     (if n < length (gv_store gv) \<and> gs_reconnectTimer (gv_store gv ! n) \<noteq> None then
        (let gv = at_session n (\<lambda>g. g\<lparr>gs_reconnectTimer := None\<rparr>) gv in
         if gv_sessions gv (gs_connectionId (gv_store gv ! n)) \<noteq> None then connect n gv else gv)
      else gv)"
| "gateway_step up delay can dec (Open_Session_For i, random) gv = openSession can dec i gv"
| "gateway_step up delay can dec (Close_Session_For i, random) gv = closeSessionById i gv"
| "gateway_step up delay can dec (Lapse ms, random) gv =
     gv\<lparr>gv_db := (gv_db gv)\<lparr>clock := clock (gv_db gv) + int ms\<rparr>\<rparr>"

definition gateway_run ::
  "bool \<Rightarrow> nat \<Rightarrow> (string \<Rightarrow> bool) \<Rightarrow> (string \<Rightarrow> string option) \<Rightarrow> (gateway_input \<times> rat) list \<Rightarrow> gateway_service \<Rightarrow>
   gateway_service" where
  "gateway_run up delay can dec inputs gv = fold (gateway_step up delay can dec) inputs gv"

end
