(* ===== verification/Integration_Properties.thy ===== *)
theory Integration_Properties
  imports Discord_Link Gateway_Service Grants Sync_Properties
begin

text \<open>
  The secrets of a connection, the carve-out for governance roles, and disconnecting an account.
\<close>

section \<open>Histories of integration calls\<close>

datatype integration_call =
  Connect id id connect_dto | Patch_Connection id id update_dto | Rotate_Token id id string
| Retire_Connection id id | Revive_Connection id id | Manual_Sync id id
| Create_Mapping id id mapping_dto | Update_Mapping id id id mapping_patch | Delete_Mapping id id id
| Retry_Mapping id id id

fun serve_integration :: "token_cipher \<Rightarrow> integration_call \<Rightarrow> state \<Rightarrow> state" where
  "serve_integration e (Connect org u dto) s = snd (integrations_connect e org u dto s)"
| "serve_integration e (Patch_Connection i u dto) s = snd (integrations_update e i u dto s)"
| "serve_integration e (Rotate_Token i u tok) s = snd (rotateToken e i u tok s)"
| "serve_integration e (Retire_Connection i u) s = snd (integrations_retire i u s)"
| "serve_integration e (Revive_Connection i u) s = snd (integrations_revive i u s)"
| "serve_integration e (Manual_Sync i u) s = snd (requestManualSync i u s)"
| "serve_integration e (Create_Mapping i u dto) s = snd (createMapping i u dto s)"
| "serve_integration e (Update_Mapping i m u dto) s = snd (updateMapping i m u dto s)"
| "serve_integration e (Delete_Mapping i m u) s = snd (deleteMapping i m u s)"
| "serve_integration e (Retry_Mapping i m u) s = snd (retryMapping i m u s)"

definition serve_integrations :: "token_cipher \<Rightarrow> integration_call list \<Rightarrow> state \<Rightarrow> state" where
  "serve_integrations e calls s = fold (serve_integration e) calls s"

section \<open>Sealed tokens\<close>

definition sealed :: "state \<Rightarrow> bool" where
  "sealed s \<longleftrightarrow> (\<forall>c \<in> set (connections s). config_token (cn_config c) = [])"

interpretation seal: unlogged sealed
  by unfold_locales (simp_all add: sealed_def)

lemma config_token_dropped [simp]: "config_token (m(''botToken'' := None)) = []"
  by (simp add: config_token_def)

lemma secured_sealed:
  assumes "\<And>t. e t \<noteq> None"
  shows "config_token (fst (secureBotToken e config ref)) = []"
  using assms [of "config_token config"] by (auto simp: secureBotToken_def Let_def)

lemma sealed_write:
  assumes "\<And>c. c \<in> set (connections s) \<Longrightarrow> config_token (cn_config c) = [] \<Longrightarrow> config_token (cn_config (f c)) = []" and "sealed s"
  shows "sealed (connections_update (upd_where Q f) s)"
  using assms by (auto simp: sealed_def ball_upd_where)

lemma keeps_sealed_write:
  assumes "\<And>c. config_token (cn_config c) = [] \<Longrightarrow> config_token (cn_config (f c)) = []"
  shows "keeps sealed (write_connection conn u verb f)"
  unfolding write_connection_def
  by (intro keeps_intros keeps_update_row sealed_write) (simp_all add: assms)

lemma patched_sealed:
  assumes "\<And>t. e t \<noteq> None" and "config_token (cn_config c) = []"
  shows "config_token (cn_config (patched_connection e dto c)) = []"
  using assms(2) secured_sealed [of e, OF assms(1)]
  by (auto simp: patched_connection_def Let_def split: option.split prod.split) (metis fst_conv)+

lemma keeps_loadActive [keeps_intros]: "keeps P (loadActive i)"
  unfolding loadActive_def by (intro keeps_intros)

lemma keeps_load_mapping [keeps_intros]: "keeps P (load_mapping i k)"
  unfolding load_mapping_def by (intro keeps_intros)

lemma sealed_connections:
  assumes "\<And>t. e t \<noteq> None"
  shows "keeps sealed (integrations_connect e org u dto)" "keeps sealed (integrations_update e i u dto2)"
    "keeps sealed (rotateToken e i u tok)" "keeps sealed (integrations_retire i u)" "keeps sealed (integrations_revive i u)"
proof -
  show "keeps sealed (integrations_connect e org u dto)"
    unfolding integrations_connect_def Let_def
    by (intro keeps_intros keeps_create_row) (auto simp: sealed_def secured_sealed [OF assms])
  show "keeps sealed (integrations_update e i u dto2)"
    unfolding integrations_update_def by (intro keeps_intros keeps_sealed_write patched_sealed assms)
  show "keeps sealed (rotateToken e i u tok)"
    unfolding rotateToken_def by (intro keeps_intros keeps_sealed_write) simp
  show "keeps sealed (integrations_retire i u)" "keeps sealed (integrations_revive i u)"
    unfolding integrations_retire_def integrations_revive_def by (intro keeps_intros keeps_sealed_write; simp)+
qed

lemma sealed_mappings:
  "keeps sealed (createMapping i u dto)" "keeps sealed (updateMapping i m u dto2)" "keeps sealed (deleteMapping i m u)"
  "keeps sealed (retryMapping i m u)" "keeps sealed (requestManualSync i u)"
  unfolding createMapping_def updateMapping_def deleteMapping_def retryMapping_def requestManualSync_def
    assertNotGovernanceRole_def log_mapping_def
  by (intro keeps_intros keeps_table; simp add: sealed_def)+

lemma sealed_serve:
  assumes "\<And>t. e t \<noteq> None"
  shows "sealed s \<Longrightarrow> sealed (serve_integration e c s)"
  by (cases c) (simp_all add: keepsD_snd sealed_connections [OF assms] sealed_mappings)

lemma sealed_serves: "(\<And>t. e t \<noteq> None) \<Longrightarrow> sealed s \<Longrightarrow> sealed (serve_integrations e calls s)"
  unfolding serve_integrations_def by (induction calls arbitrary: s) (simp_all add: sealed_serve)

lemma rotate_run:
  assumes "rotateToken e i u tok s = (Inr v, t)"
  shows "\<exists>c q. lookup cn_id i (connections s) = Some c \<and> cn_lifecycleState c = active \<and>
    lookup cn_id i (connections t) = Some q \<and> cn_credentialsRef q = e tok \<and>
    cn_config q = (cn_config c)(''botToken'' := None) \<and> v = toConnectionResponse q"
  using assms
  by (auto simp: rotateToken_def loadActive_def write_connection_def op_simps lookup_upd_same
      split: option.splits if_splits dest: lookup_SomeD)

section \<open>Disconnecting an account\<close>

lemma only_one: "distinct xs \<Longrightarrow> x \<in> set xs \<Longrightarrow> (\<And>y. y \<in> set xs \<Longrightarrow> y = x) \<Longrightarrow> xs = [x]"
proof (cases xs rule: remdups_adj.cases)
  case (3 y z zs)
  assume "distinct xs" "\<And>y. y \<in> set xs \<Longrightarrow> y = x"
  then have "y = x" "z = x" by (simp_all add: 3)
  with \<open>distinct xs\<close> show ?thesis by (simp add: 3)
qed auto

text \<open>\<open>left_by u ls s t\<close>: the links \<open>ls\<close> of member \<open>u\<close> are gone with the memberships they brought.\<close>

definition brought :: "id \<Rightarrow> external_identity list \<Rightarrow> user_role \<Rightarrow> bool" where
  "brought u ls r \<longleftrightarrow> (\<exists>l \<in> set ls. granted_by_link u (ei_connectionId l) r)"

definition left_by :: "id \<Rightarrow> external_identity list \<Rightarrow> state \<Rightarrow> state \<Rightarrow> bool" where
  "left_by u ls s t \<longleftrightarrow>
     t = s\<lparr>user_roles := filter (\<lambda>r. \<not> brought u ls r) (user_roles s),
           external_identities := filter (\<lambda>e. ei_id e \<notin> ei_id ` set ls) (external_identities s),
           baselines := baselines t, next_id := next_id t, activities := activities t\<rparr>"

lemma payload_unlink [op_simps]:
  "payload_ok ''external_identity.unlinked'' [(''connectionId'', PId a), (''userId'', PId b), (''externalIdentityId'', PId c)]"
  "payload_ok ''auth.discord_unlinked'' [(''userId'', PId a)]"
  by code_simp+

lemma unlink_roles_run:
  assumes "distinct rs" and "\<And>k. k \<in> set rs \<Longrightarrow> \<exists>r \<in> set (user_roles s). ur_userId r = u \<and> ur_roleId r = k"
  shows "\<exists>n as. for_each rs (unlink_role org u c) s = (Inr (), s\<lparr>user_roles :=
      filter (\<lambda>r. \<not> (ur_userId r = u \<and> ur_roleId r \<in> set rs)) (user_roles s), next_id := n, activities := as\<rparr>)"
  using assms
proof (induction rs arbitrary: s)
  case Nil
  show ?case by (intro exI [of _ "next_id s"] exI [of _ "activities s"]) (simp add: op_simps)
next
  case (Cons k rs)
  obtain r where r: "List.find (\<lambda>r. ur_userId r = u \<and> ur_roleId r = k) (user_roles s) = Some r"
    using Cons.prems(2) [of k] by (cases "List.find (\<lambda>r. ur_userId r = u \<and> ur_roleId r = k) (user_roles s)") (auto simp: find_None_iff)
  define s1 where "s1 = s\<lparr>user_roles := filter (\<lambda>r. \<not> (ur_userId r = u \<and> ur_roleId r = k)) (user_roles s),
    next_id := Suc (next_id s), activities := activities s @ [activity_row s org (Some u) ''user_role'' u ''integration.removed''
      [(''connectionId'', PId c), (''userId'', PId u), (''roleId'', PId k)] src_integration (Some c)]\<rparr>"
  have run: "unlink_role org u c k s = (Inr (), s1)"
    by (simp add: unlink_role_def op_simps r log_activity_run s1_def del_where_def activity_row_def)
  obtain n as where rest: "for_each rs (unlink_role org u c) s1 = (Inr (), s1\<lparr>user_roles :=
      filter (\<lambda>r. \<not> (ur_userId r = u \<and> ur_roleId r \<in> set rs)) (user_roles s1), next_id := n, activities := as\<rparr>)"
    using Cons.IH [of s1] Cons.prems unfolding s1_def by fastforce
  have "filter (\<lambda>r. \<not> (ur_userId r = u \<and> ur_roleId r \<in> set rs)) (user_roles s1) =
      filter (\<lambda>r. \<not> (ur_userId r = u \<and> ur_roleId r \<in> set (k # rs))) (user_roles s)"
    by (auto simp: s1_def intro: filter_cong)
  then show ?case using rest by (simp add: bnd_def [of "unlink_role org u c k"] run) (auto simp: s1_def)
qed

definition one_each :: "state \<Rightarrow> bool" where
  "one_each s \<longleftrightarrow> distinct (map (\<lambda>r. (ur_userId r, ur_roleId r)) (user_roles s)) \<and>
     distinct (map ei_id (external_identities s)) \<and> distinct (map ui_id (identities s)) \<and>
     distinct (map (\<lambda>q. (ui_userId q, ui_provider q)) (identities s))"

lemma linked_roles:
  assumes "distinct (map (\<lambda>r. (ur_userId r, ur_roleId r)) rs)"
  shows "distinct (map ur_roleId (filter (granted_by_link u c) rs))"
    and "filter (\<lambda>r. \<not> (ur_userId r = u \<and> ur_roleId r \<in> set (map ur_roleId (filter (granted_by_link u c) rs)))) rs =
      filter (\<lambda>r. \<not> granted_by_link u c r) rs"
proof -
  have i: "r = q" if "r \<in> set rs" "q \<in> set rs" "ur_userId r = ur_userId q" "ur_roleId r = ur_roleId q" for r q
    using assms that by (auto simp: distinct_map inj_on_def)
  show "distinct (map ur_roleId (filter (granted_by_link u c) rs))"
    using assms i by (auto simp: distinct_map inj_on_def granted_by_link_def)
  show "filter (\<lambda>r. \<not> (ur_userId r = u \<and> ur_roleId r \<in> set (map ur_roleId (filter (granted_by_link u c) rs)))) rs =
      filter (\<lambda>r. \<not> granted_by_link u c r) rs"
  proof (intro filter_cong refl)
    fix r
    assume "r \<in> set rs"
    then show "(\<not> (ur_userId r = u \<and> ur_roleId r \<in> set (map ur_roleId (filter (granted_by_link u c) rs)))) \<longleftrightarrow>
        \<not> granted_by_link u c r"
      using i [of r] by (fastforce simp: granted_by_link_def)
  qed
qed

lemma unlink_connection_run:
  assumes "one_each s" and "l \<in> set (external_identities s)"
  shows "\<exists>t. unlink_connection org u l s = (Inr (), t) \<and> left_by u [l] s t"
proof -
  let ?held = "map ur_roleId (filter (granted_by_link u (ei_connectionId l)) (user_roles s))"
  have keys: "distinct (map (\<lambda>r. (ur_userId r, ur_roleId r)) (user_roles s))" using assms(1) by (simp add: one_each_def)
  obtain n as where run: "for_each ?held (unlink_role org u (ei_connectionId l)) s =
      (Inr (), s\<lparr>user_roles := filter (\<lambda>r. \<not> granted_by_link u (ei_connectionId l) r) (user_roles s),
        next_id := n, activities := as\<rparr>)"
    using unlink_roles_run [where s = s and u = u and c = "ei_connectionId l" and org = org, OF linked_roles(1) [OF keys], of u "ei_connectionId l"]
    unfolding linked_roles(2) [OF keys] by (fastforce simp: granted_by_link_def)
  have "lookup ei_id (ei_id l) (external_identities s) \<noteq> None" using assms(2) by (auto simp: lookup_None_iff)
  then show ?thesis
    by (auto simp: unlink_connection_def op_simps bnd_def [of "for_each xs f" for xs f] run left_by_def brought_def logged_def del_where_def)
qed

lemma left_by_iff:
  "left_by u ls s t \<longleftrightarrow> (\<exists>b n a. t = s\<lparr>user_roles := filter (\<lambda>r. \<not> brought u ls r) (user_roles s),
     external_identities := filter (\<lambda>e. ei_id e \<notin> ei_id ` set ls) (external_identities s),
     baselines := b, next_id := n, activities := a\<rparr>)"
  proof
  assume "left_by u ls s t"
  then show "\<exists>b n a. t = s\<lparr>user_roles := filter (\<lambda>r. \<not> brought u ls r) (user_roles s),
     external_identities := filter (\<lambda>e. ei_id e \<notin> ei_id ` set ls) (external_identities s),
     baselines := b, next_id := n, activities := a\<rparr>" unfolding left_by_def by blast
qed (auto simp: left_by_def)

lemma one_each_left: "one_each s \<Longrightarrow> left_by u ls s t \<Longrightarrow> one_each t"
  unfolding left_by_iff by (auto simp: one_each_def distinct_map_filter)

lemma left_by_step:
  assumes "left_by u [l] s t" and "left_by u ls t w"
  shows "left_by u (l # ls) s w"
  using assms unfolding left_by_iff
proof (elim exE, goal_cases)
  case (1 b b' n n' a a')
  then show ?case
    by (intro exI [of _ b'] exI [of _ n'] exI [of _ a']) (simp add: brought_def conj_ac)
qed

lemma unlink_links_run:
  assumes "one_each s" and "distinct (map ei_id ls)" and "set ls \<subseteq> set (external_identities s)"
  shows "\<exists>t. for_each ls (unlink_connection org u) s = (Inr (), t) \<and> left_by u ls s t"
  using assms
proof (induction ls arbitrary: s)
  case Nil
  then show ?case by (simp add: op_simps left_by_def brought_def)
next
  case (Cons l ls)
  obtain t where t: "unlink_connection org u l s = (Inr (), t)" "left_by u [l] s t"
    using unlink_connection_run Cons.prems by (metis list.set_intros(1) subsetD)
  have ext: "external_identities t = filter (\<lambda>e. ei_id e \<noteq> ei_id l) (external_identities s)"
    using t(2) by (auto simp: left_by_iff)
  have "set ls \<subseteq> set (external_identities t)" using Cons.prems(2,3) by (auto simp: ext) (metis image_eqI)
  then obtain w where w: "for_each ls (unlink_connection org u) t = (Inr (), w)" "left_by u ls t w"
    using Cons.IH [OF one_each_left [OF Cons.prems(1) t(2)]] Cons.prems(2) by auto
  show ?case using t(1) w(1) left_by_step [OF t(2) w(2)] by (simp add: bnd_def)
qed

text \<open>C29: Disconnecting either refuses and changes nothing (nothing is connected, or the account is the
  only way the member can sign in), or succeeds: no link and no sign-in with the provider remains,
  exactly the memberships the links brought are gone, every other one is kept, and a member who
  could sign in with the provider still has another way to.\<close>

theorem unlink_effect:
  assumes "one_each s" and "lookup u_id u (users s) = Some user"
  shows "let methods = filter (\<lambda>q. ui_userId q = u) (identities s);
             links = filter (\<lambda>e. ei_userId e = u) (external_identities s);
             discord = (\<exists>q \<in> set methods. ui_provider q = prov_discord) in
    if \<not> discord \<and> links = [] then unlink u s = (Inl (UnprocessableError ''NOT_LINKED'' []), s)
    else if discord \<and> length methods = 1 then unlink u s = (Inl (ConflictError ''LAST_AUTH_METHOD''), s)
    else \<exists>t. unlink u s = (Inr (), t) \<and>
      (\<forall>e \<in> set (external_identities t). ei_userId e \<noteq> u) \<and>
      (\<forall>q \<in> set (identities t). ui_userId q = u \<longrightarrow> ui_provider q \<noteq> prov_discord) \<and>
      user_roles t = filter (\<lambda>r. \<not> brought u links r) (user_roles s) \<and>
      (discord \<longrightarrow> (\<exists>q \<in> set (identities t). ui_userId q = u)) \<and> users t = users s"
proof -
  let ?methods = "filter (\<lambda>q. ui_userId q = u) (identities s)"
  let ?links = "filter (\<lambda>e. ei_userId e = u) (external_identities s)"
  have "distinct (map ei_id ?links)" using assms(1) by (simp add: one_each_def distinct_map_filter)
  then obtain w where w: "for_each ?links (unlink_connection (u_organizationId user) u) s = (Inr (), w)" "left_by u ?links s w"
    using unlink_links_run [OF assms(1)] by force
  have left: "\<forall>e \<in> set (external_identities w). ei_userId e \<noteq> u" "identities w = identities s" "users w = users s"
      "user_roles w = filter (\<lambda>r. \<not> brought u ?links r) (user_roles s)"
    using w(2) by (auto simp: left_by_iff)
  show ?thesis
  proof (cases "List.find (\<lambda>q. ui_provider q = prov_discord) ?methods")
    case None
    then have "\<not> (\<exists>q \<in> set ?methods. ui_provider q = prov_discord)" by (simp add: find_None_iff)
    then show ?thesis
      using None left w(1) assms(2) by (auto simp: Let_def unlink_def op_simps bnd_def [of "for_each xs f" for xs f])
  next
    case (Some d)
    have d: "d \<in> set (identities s)" "ui_userId d = u" "ui_provider d = prov_discord"
      using find_SomeD [OF Some] by auto
    have only: "q = d" if "q \<in> set (identities s)" "ui_userId q = u" "ui_provider q = prov_discord" for q
      using assms(1) d that by (auto simp: one_each_def distinct_map inj_on_def)
    have other: "\<exists>q \<in> set (identities s). ui_userId q = u \<and> ui_id q \<noteq> ui_id d" if "length ?methods \<noteq> 1"
    proof (rule ccontr)
      assume none: "\<not> ?thesis"
      have ids: "distinct (map ui_id (identities s))" using assms(1) by (simp add: one_each_def)
      then have "q = d" if "q \<in> set ?methods" for q
        using that none d(1) by (auto simp: distinct_map inj_on_def)
      moreover have "distinct ?methods" using ids by (simp add: distinct_map)
      moreover have "d \<in> set ?methods" using d by simp
      ultimately have "?methods = [d]" by (intro only_one) blast+
      then show False using that by simp
    qed
    have held: "\<exists>q \<in> set ?methods. ui_provider q = prov_discord" using d by auto
    show ?thesis
    proof (cases "length ?methods = 1")
      case True
      then show ?thesis using Some held assms(2) by (auto simp: Let_def unlink_def op_simps)
    next
      case False
      define t where "t = snd (unlink_sign_in (u_organizationId user) u d w)"
      have t: "unlink_sign_in (u_organizationId user) u d w = (Inr (), t)"
          "identities t = filter (\<lambda>q. ui_id q \<noteq> ui_id d) (identities s)" "users t = users s"
          "user_roles t = user_roles w" "external_identities t = external_identities w"
        by (simp_all add: t_def unlink_sign_in_def op_simps left del_where_def logged_def)
      have run: "unlink u s = (Inr (), t)"
        using Some False assms(2) by (simp add: unlink_def op_simps bnd_def [of "for_each xs f" for xs f] w(1) t(1))
      show ?thesis
        using other [OF False] left held False only t by (auto simp: Let_def run)
    qed
  qed
qed

definition demo_linked :: state where
  "demo_linked = demo_sync\<lparr>user_roles := [demo_held, demo_row, demo_row\<lparr>ur_id := 1, ur_userId := 11\<rparr>],
     identities := [\<lparr>ui_id = 93, ui_userId = 12, ui_provider = prov_discord, ui_providerSubject = Some ''x12'',
       ui_passwordHash = None, ui_verifiedAt = Some 0\<rparr>, \<lparr>ui_id = 94, ui_userId = 12, ui_provider = prov_password,
       ui_providerSubject = None, ui_passwordHash = Some ''h'', ui_verifiedAt = Some 0\<rparr>]\<rparr>"

theorem unlink_effect_witness:
  "\<exists>t. unlink 12 demo_linked = (Inr (), t) \<and> user_roles t = [demo_held, demo_row\<lparr>ur_id := 1, ur_userId := 11\<rparr>]"
proof -
  have "one_each demo_linked" "lookup u_id 12 (users demo_linked) = Some (demo_user 12)"
    by (simp_all add: one_each_def demo_linked_def demo_sync_def demo_row_def demo_identity_def demo_defs)
  from unlink_effect [OF this] show ?thesis
    by (fastforce simp: Let_def brought_def granted_by_link_def demo_linked_def demo_sync_def demo_row_def demo_identity_def demo_held_def)
qed

section \<open>Tokens\<close>

text \<open>C30: With a cipher that does not fail, no history of calls of the integration service leaves a bot
  token readable in a connection's configuration; and rotating the token answers with nothing secret
  but stores a handle from which the synchronizer reads exactly the new token, when the cipher
  recognises and decrypts its own handles.\<close>

theorem bot_token_sealed:
  assumes "\<And>tok. encrypt tok \<noteq> None" and "sealed s"
    and "\<And>tok ref. encrypt tok = Some ref \<Longrightarrow> ref \<noteq> [] \<and> bc_canHandle cipher ref \<and> bc_decrypt cipher ref = tok"
  shows "sealed (serve_integrations encrypt calls s) \<and>
    (rotateToken encrypt i u tok (serve_integrations encrypt calls s) = (Inr v, t) \<longrightarrow>
      (\<exists>c. lookup cn_id i (connections t) = Some c \<and> resolveBotToken cipher c = tok \<and> v = toConnectionResponse c))"
proof (intro conjI impI)
  show "sealed (serve_integrations encrypt calls s)" using sealed_serves assms(1,2) by blast
  assume "rotateToken encrypt i u tok (serve_integrations encrypt calls s) = (Inr v, t)"
  then obtain q where q: "lookup cn_id i (connections t) = Some q" "cn_credentialsRef q = encrypt tok" "v = toConnectionResponse q"
    using rotate_run by blast
  obtain ref where ref: "encrypt tok = Some ref" using assms(1) by blast
  then show "\<exists>c. lookup cn_id i (connections t) = Some c \<and> resolveBotToken cipher c = tok \<and> v = toConnectionResponse c"
    using q assms(3) [OF ref] by (auto simp: resolveBotToken_def truthy_def split: list.split)
qed

definition tagged :: token_cipher where
  "tagged tok = Some (''v1:'' @ tok)"

definition untagged :: bot_cipher where
  "untagged = \<lparr>bc_canHandle = (\<lambda>ref. take 3 ref = ''v1:''), bc_decrypt = drop 3\<rparr>"

definition plain_patch :: update_dto where
  "plain_patch = \<lparr>ud_displayName = None, ud_config = Some [''botToken'' \<mapsto> JStr ''t2''], ud_credentialsRef = None\<rparr>"

definition demo_sealed :: state where
  "demo_sealed = demo_sync\<lparr>connections := [demo_connection\<lparr>cn_config := Map.empty\<rparr>]\<rparr>"

theorem bot_token_sealed_witness:
  "sealed (serve_integrations tagged [Patch_Connection 90 10 plain_patch] demo_sealed) \<and>
   map (resolveBotToken untagged) (connections (serve_integrations tagged
     [Patch_Connection 90 10 plain_patch, Rotate_Token 90 10 ''t3''] demo_sealed)) = [''t3'']"
proof
  have "sealed demo_sealed" by (simp add: sealed_def demo_sealed_def config_token_def)
  then show "sealed (serve_integrations tagged [Patch_Connection 90 10 plain_patch] demo_sealed)"
    using bot_token_sealed [of tagged demo_sealed untagged] by (simp add: tagged_def untagged_def)
  show "map (resolveBotToken untagged) (connections (serve_integrations tagged
     [Patch_Connection 90 10 plain_patch, Rotate_Token 90 10 ''t3''] demo_sealed)) = [''t3'']"
    by code_simp
qed

section \<open>The carve-out\<close>

text \<open>A role that governs cannot be mapped, but a mapped role can be made to govern: after that the
  synchronizer makes a member an effective administrator, which the carve-out is meant to exclude.\<close>

lemma carve_out_lost:
  fixes dto :: mapping_dto
  defines "dto \<equiv> \<lparr>md_roleId = 40, md_externalGroupId = ''g'', md_syncDirection = inbound\<rparr>"
  defines "s0 \<equiv> demo_sync\<lparr>mappings := []\<rparr>"
  defines "s1 \<equiv> snd (createMapping 90 10 (dto\<lparr>md_roleId := 41\<rparr>) s0)"
  defines "s2 \<equiv> snd (grants_create (\<lambda>_. True) 7 1 10 41 \<lparr>gf_action = ''grant:create'', gf_effect = Permit,
    gf_scopeKind = scope_global, gf_scopeDivisionId = None, gf_scopeTeamId = None, gf_scopeRoleId = None\<rparr> s1)"
  defines "s3 \<equiv> snd (sync no_cipher accepts (Inr ([(''x12'', [''g''])], [''g''])) 90 s2)"
  shows "fst (createMapping 90 10 dto s0) = Inl (UnprocessableError ''GOVERNANCE_ROLE_NOT_MAPPABLE'' []) \<and>
    effectiveAdminIds 1 s0 = [10] \<and> effectiveAdminIds 1 s2 = [10] \<and> effectiveAdminIds 1 s3 = [10, 12]"
  unfolding assms by code_simp

end
