(* ===== verification/Doorbell_Properties.thy ===== *)
theory Doorbell_Properties
  imports Gateway_Service Sync_Properties
begin

text \<open>
  The event socket is a doorbell: whatever sockets and timers do, the database changes only in what
  the admins see of the socket's state and in the log, and only synchronizations of connections the
  service may open are asked for. And what that state does to the reconcile floor.
\<close>

section \<open>What the socket may change\<close>

text \<open>A connection without the columns the socket service writes.\<close>

definition offline :: "connection \<Rightarrow> connection" where
  "offline c = c\<lparr>cn_gatewayState := gw_down, cn_gatewayLastConnectedAt := None, cn_gatewayLastEventAt := None,
     cn_updatedAt := 0\<rparr>"

definition beside_gateway :: "state \<Rightarrow> state" where
  "beside_gateway s = s\<lparr>connections := map offline (connections s), activities := [], next_id := 0, clock := 0,
     policy_cache := None\<rparr>"

definition undisturbed :: "state \<Rightarrow> state \<Rightarrow> bool" where
  "undisturbed s t \<longleftrightarrow> beside_gateway t = beside_gateway s"

interpretation door: unlogged "undisturbed s" for s
  by unfold_locales (simp_all add: undisturbed_def beside_gateway_def)

lemma offline_write [simp]: "offline (gateway_write st event t c) = offline c"
  by (simp add: offline_def gateway_write_def)

lemma offline_upd: "map offline (upd_where P (gateway_write st event t) cs) = map offline cs"
  by (simp add: upd_where_def)

lemma keeps_persist_row: "keeps (undisturbed s) (persist_row i st event)"
  unfolding persist_row_def
  by (intro keeps_intros keeps_update_row) (simp add: undisturbed_def beside_gateway_def offline_upd)

lemma keeps_persist_log: "keeps (undisturbed s) (persist_log g verb)"
  unfolding persist_log_def by (intro keeps_intros)

section \<open>A doorbell\<close>

text \<open>The connections the service may open a session for.\<close>

definition openable :: "(string \<Rightarrow> bool) \<Rightarrow> (string \<Rightarrow> string option) \<Rightarrow> state \<Rightarrow> id \<Rightarrow> bool" where
  "openable can dec s i \<longleftrightarrow>
     (\<exists>c \<in> set (connections s). cn_id c = i \<and> cn_lifecycleState c = active \<and>
        truthy (resolveToken can dec c) \<noteq> None)"

definition rings :: "(id \<Rightarrow> bool) \<Rightarrow> state \<Rightarrow> gateway_service \<Rightarrow> bool" where
  "rings may s gv \<longleftrightarrow>
     undisturbed s (gv_db gv) \<and> (\<forall>g \<in> set (gv_store gv). may (gs_connectionId g)) \<and>
     (\<forall>j \<in> set (gv_jobs gv). may (jb_connectionId j)) \<and>
     (\<forall>sk \<in> set (gv_sockets gv). sk_session sk < length (gv_store gv)) \<and>
     (\<forall>i n. gv_sessions gv i = Some n \<longrightarrow> n < length (gv_store gv))"

definition rings_at :: "nat \<Rightarrow> (id \<Rightarrow> bool) \<Rightarrow> state \<Rightarrow> gateway_service \<Rightarrow> bool" where
  "rings_at n may s gv \<longleftrightarrow> rings may s gv \<and> n < length (gv_store gv)"

named_theorems rings_intros

lemma rings_at_session [rings_intros]:
  assumes "rings may s gv" and "\<And>g. gs_connectionId (f g) = gs_connectionId g"
  shows "rings may s (at_session n f gv)"
proof (cases "n < length (gv_store gv)")
  case True
  then have "may (gs_connectionId (f (gv_store gv ! n)))" using assms by (simp add: rings_def)
  with assms(1) show ?thesis
    unfolding rings_def at_session_def by (auto dest!: set_update_subset_insert [THEN subsetD])
qed (use assms(1) in \<open>simp add: rings_def at_session_def list_update_beyond linorder_not_less\<close>)

lemma rings_at_socket [rings_intros]:
  assumes "rings may s gv" and "\<And>k. sk_session (f k) = sk_session k"
  shows "rings may s (at_socket k f gv)"
proof (cases "k < length (gv_sockets gv)")
  case True
  then have "sk_session (f (gv_sockets gv ! k)) < length (gv_store gv)" using assms by (simp add: rings_def)
  with assms(1) show ?thesis
    unfolding rings_def at_socket_def by (auto dest!: set_update_subset_insert [THEN subsetD])
qed (use assms(1) in \<open>simp add: rings_def at_socket_def list_update_beyond linorder_not_less\<close>)

lemma rings_in_db [rings_intros]:
  "rings may s gv \<Longrightarrow> keeps (undisturbed s) m \<Longrightarrow> rings may s (in_db m gv)"
  by (simp add: rings_def in_db_def keepsD_snd)

lemma lengths [simp]:
  "length (gv_store (at_session n f gv)) = length (gv_store gv)"
  "gv_store (at_socket k h gv) = gv_store gv" "gv_store (in_db m gv) = gv_store gv"
  "gv_store (on_queue js gv) = gv_store gv" "gv_store (send n x gv) = gv_store gv"
  by (simp_all add: at_session_def at_socket_def in_db_def on_queue_def send_def split: option.split)

lemma rings_persist [rings_intros]: "rings may s gv \<Longrightarrow> rings may s (persistGateway n st event gv)"
  by (auto simp: persistGateway_def Let_def keeps_persist_row keeps_persist_log intro!: rings_intros split: option.split)

lemma length_persist [simp]: "length (gv_store (persistGateway n st event gv)) = length (gv_store gv)"
  by (simp add: persistGateway_def Let_def split: option.split)

lemma rings_send [rings_intros]: "rings may s gv \<Longrightarrow> rings may s (send n x gv)"
  by (auto simp: send_def intro!: rings_intros split: option.split)

lemma rings_connect [rings_intros]:
  assumes "rings may s gv" and "n < length (gv_store gv)"
  shows "rings may s (connect n gv)"
proof -
  have "rings may s (persistGateway n gw_connecting False gv)" by (intro rings_intros assms)
  then show ?thesis unfolding connect_def Let_def
    by (intro rings_intros) (use assms(2) in \<open>auto simp: rings_def\<close>)
qed

lemma length_connect [simp]: "length (gv_store (connect n gv)) = length (gv_store gv)"
  by (simp add: connect_def Let_def)

lemma job_connections [simp]:
  "j \<in> set (enqueue up i) \<Longrightarrow> jb_connectionId j = i"
  "j \<in> set (enqueueSoon up delay i) \<Longrightarrow> jb_connectionId j = i"
  "j \<in> set (enqueueUserSoon up delay i x) \<Longrightarrow> jb_connectionId j = i"
  by (auto simp: enqueue_def enqueueSoon_def enqueueUserSoon_def publish_job_def split: if_splits option.splits nat.splits)

lemma rings_queue:
  assumes "rings may s gv" and "n < length (gv_store gv)"
    and "\<And>j. j \<in> set js \<Longrightarrow> jb_connectionId j = gs_connectionId (gv_store gv ! n)"
  shows "rings may s (on_queue js gv)"
  using assms by (auto simp: rings_def on_queue_def)

lemma rings_health [rings_intros]: "rings may s gv \<Longrightarrow> rings may s (gv\<lparr>gv_health := h\<rparr>)"
  by (simp add: rings_def)

lemma rings_execute:
  assumes "rings may s gv" and "n < length (gv_store gv)"
  shows "rings may s (execute up delay n a gv) \<and> length (gv_store (execute up delay n a gv)) = length (gv_store gv)"
  using assms
proof (cases a)
  case (EMIT_MEMBER_EVENT name data)
  have "rings may s (persistGateway n gw_connected True gv)" by (intro rings_intros assms)
  then show ?thesis unfolding EMIT_MEMBER_EVENT execute.simps Let_def
    by (intro conjI rings_queue [where n = n]) (use assms(2) in \<open>auto split: option.splits\<close>)
qed (auto simp: Let_def intro!: rings_intros rings_queue [where n = n])

lemma rings_dispatch:
  assumes "rings may s gv" and "n < length (gv_store gv)"
  shows "rings may s (dispatch up delay random n e gv)"
proof -
  have acts: "rings may s gv \<Longrightarrow> n < length (gv_store gv) \<Longrightarrow> rings may s (fold (execute up delay n) as gv)" for as gv
    by (induction as arbitrary: gv) (simp_all add: rings_execute)
  show ?thesis unfolding dispatch_def Let_def by (intro acts rings_intros) (use assms in simp_all)
qed

lemma rings_payload: "rings may s gv \<Longrightarrow> n < length (gv_store gv) \<Longrightarrow> rings may s (handlePayload up delay random n p gv)"
  by (auto simp: handlePayload_def Let_def intro!: rings_dispatch rings_intros split: option.split)

lemma rings_close [rings_intros]: "rings may s gv \<Longrightarrow> rings may s (closeSession n gv)"
  by (auto simp: closeSession_def Let_def intro!: rings_intros split: option.split)

lemma rings_closeById [rings_intros]:
  assumes "rings may s gv"
  shows "rings may s (closeSessionById i gv)"
proof (cases "gv_sessions gv i")
  case (Some n)
  have "rings may s (closeSession n gv)" by (intro rings_intros assms)
  then show ?thesis using Some by (auto simp: closeSessionById_def Let_def rings_def)
qed (simp add: closeSessionById_def assms)

lemma rings_start:
  assumes "rings may s gv" and "may i"
  shows "rings may s (startSession i tok org gv)"
proof -
  have "rings may s (closeSessionById i gv)" by (intro rings_intros assms)
  then show ?thesis unfolding startSession_def Let_def
    by (intro rings_connect) (use assms(2) in \<open>auto simp: rings_def less_Suc_eq\<close>)
qed

lemma offline_fields [simp]:
  "cn_id (offline c) = cn_id c" "cn_lifecycleState (offline c) = cn_lifecycleState c"
  "cn_config (offline c) = cn_config c" "cn_credentialsRef (offline c) = cn_credentialsRef c"
  by (simp_all add: offline_def)

lemma resolveToken_offline: "resolveToken can dec (offline c) = resolveToken can dec c"
  unfolding resolveToken_def offline_fields ..

lemma openable_offline:
  "openable can dec s i \<longleftrightarrow> (\<exists>c \<in> set (map offline (connections s)). cn_id c = i \<and> cn_lifecycleState c = active \<and>
     truthy (resolveToken can dec c) \<noteq> None)"
  by (simp add: openable_def resolveToken_offline)

lemma openable_undisturbed: "undisturbed s t \<Longrightarrow> openable can dec t i \<Longrightarrow> openable can dec s i"
proof -
  assume "undisturbed s t"
  then have "connections (beside_gateway t) = connections (beside_gateway s)" by (simp add: undisturbed_def)
  then have "map offline (connections t) = map offline (connections s)" by (simp add: beside_gateway_def)
  then show "openable can dec t i \<Longrightarrow> openable can dec s i" unfolding openable_offline by argo
qed

lemma rings_openable:
  assumes "rings (openable can dec s) s gv" and "c \<in> set (connections (gv_db gv))" "cn_lifecycleState c = active"
    and "truthy (resolveToken can dec c) = Some tok"
  shows "rings (openable can dec s) s (startSession (cn_id c) tok org gv)"
proof -
  have "openable can dec (gv_db gv) (cn_id c)" using assms(2-4) by (auto simp: openable_def)
  moreover have "undisturbed s (gv_db gv)" using assms(1) by (simp add: rings_def)
  ultimately show ?thesis using assms(1) openable_undisturbed rings_start by blast
qed

lemma rings_step:
  assumes "rings (openable can dec s) s gv"
  shows "rings (openable can dec s) s (gateway_step up delay can dec (x, random) gv)"
proof -
  have sess: "sk_session (gv_sockets gv ! k) < length (gv_store gv)" if "k < length (gv_sockets gv)" for k
    using assms that by (simp add: rings_def)
  show ?thesis
  proof (cases x)
    case (Open_Session_For i)
    then show ?thesis
      using assms by (auto simp: openSession_def dest!: lookup_SomeD intro!: rings_openable split: option.split)
  next
    case (Lapse ms)
    then show ?thesis using assms by (simp add: rings_def undisturbed_def beside_gateway_def)
  qed (use assms sess in \<open>auto simp: Let_def intro!: rings_intros rings_dispatch rings_payload\<close>)
qed

lemma rings_run: "rings (openable can dec s) s gv \<Longrightarrow> rings (openable can dec s) s (gateway_run up delay can dec inputs gv)"
  unfolding gateway_run_def by (induction inputs arbitrary: gv) (auto simp: rings_step)

definition idle_service :: "state \<Rightarrow> gateway_service" where
  "idle_service s = \<lparr>gv_store = [], gv_sessions = Map.empty, gv_sockets = [], gv_health = Map.empty,
     gv_jobs = [], gv_db = s\<rparr>"


definition ready_frame :: "nat \<Rightarrow> string \<Rightarrow> string \<Rightarrow> frame" where
  "ready_frame op t user = \<lparr>fr_op = op, fr_s = Some 1, fr_t = Some t, fr_heartbeat_interval = 41250,
     fr_resumable = False, fr_session_id = ''sess'', fr_resume_gateway_url = ''wss:r'', fr_user = user\<rparr>"

definition first_contact :: "(gateway_input \<times> rat) list" where
  "first_contact = [(Socket_open 0, 0), (Socket_frame 0 (ready_frame 10 [] []), 0),
     (Socket_frame 0 (ready_frame 0 ''READY'' []), 0),
     (Socket_frame 0 (ready_frame 0 ''GUILD_MEMBER_UPDATE'' ''x12''), 0)]"


section \<open>The floor\<close>

definition shown :: "connection list \<Rightarrow> time \<Rightarrow> state \<Rightarrow> bool" where
  "shown cs t s \<longleftrightarrow> connections s = cs \<and> clock s = t"

interpretation still: unlogged "shown cs t" for cs t
  by unfold_locales (simp_all add: shown_def)

lemma log_shows: "connections (snd (persist_log g verb s)) = connections s" "clock (snd (persist_log g verb s)) = clock s"
proof -
  have "keeps (shown (connections s) (clock s)) (persist_log g verb)"
    unfolding persist_log_def by (intro keeps_intros)
  then show "connections (snd (persist_log g verb s)) = connections s" "clock (snd (persist_log g verb s)) = clock s"
    using keepsD_snd [of "shown (connections s) (clock s)" "persist_log g verb" s] by (simp_all add: shown_def)
qed

lemma persist_row_shows:
  assumes "lookup cn_id i (connections s) = Some c"
  shows "lookup cn_id i (connections (snd (persist_row i st event s))) = Some (gateway_write st event (clock s) c)"
    "clock (snd (persist_row i st event s)) = clock s"
  using assms by (auto simp: persist_row_def op_simps lookup_upd_same gateway_write_def)

lemma persist_effect:
  assumes "lookup cn_id (gs_connectionId (gv_store gv ! n)) (connections (gv_db gv)) = Some c"
  shows "lookup cn_id (gs_connectionId (gv_store gv ! n)) (connections (gv_db (persistGateway n st event gv))) =
      Some (gateway_write st event (clock (gv_db gv)) c)"
  and "clock (gv_db (persistGateway n st event gv)) = clock (gv_db gv)"
  using persist_row_shows [OF assms]
  by (auto simp: persistGateway_def Let_def in_db_def at_session_def log_shows split: option.split)

lemma persist_sessions [simp]:
  "gv_health (persistGateway n st event gv) = gv_health gv"
  "gs_reconnectTimer (gv_store (persistGateway n st event gv) ! n) = gs_reconnectTimer (gv_store gv ! n)"
  "gs_connectionId (gv_store (persistGateway n st event gv) ! n) = gs_connectionId (gv_store gv ! n)"
  by (cases "n < length (gv_store gv)";
      simp add: persistGateway_def Let_def in_db_def at_session_def list_update_beyond split: option.split)+

lemma undisturbed_ids:
  assumes "undisturbed s t"
  shows "map cn_id (connections t) = map cn_id (connections s)"
proof -
  have "connections (beside_gateway t) = connections (beside_gateway s)" using assms by (simp add: undisturbed_def)
  then have "map cn_id (map offline (connections t)) = map cn_id (map offline (connections s))" by (simp add: beside_gateway_def)
  then show ?thesis by (simp add: comp_def)
qed

lemma persist_undisturbed: "undisturbed (gv_db gv) (gv_db (persistGateway n st event gv))"
proof -
  have "undisturbed s (gv_db gv) \<Longrightarrow> undisturbed s (gv_db (persistGateway n st event gv))" for s
    by (simp add: persistGateway_def Let_def in_db_def at_session_def keepsD_snd keeps_persist_row keeps_persist_log
        split: option.split)
  then show ?thesis by (simp add: undisturbed_def)
qed

text \<open>A session is dropped: the timer, the health, the row.\<close>

lemma dropped:
  fixes up :: bool and delay :: nat and ms :: rat
  assumes "n < length (gv_store gv)" "i = gs_connectionId (gv_store gv ! n)"
    and "lookup cn_id i (connections (gv_db gv)) = Some c"
  defines "t \<equiv> execute up delay n (EMIT_HEALTH False) (execute up delay n (SCHEDULE_RECONNECT ms) gv)"
  shows "gv_health t i = Some False" "gs_reconnectTimer (gv_store t ! n) = Some ms"
    "clock (gv_db t) = clock (gv_db gv)" "map cn_id (connections (gv_db t)) = map cn_id (connections (gv_db gv))"
    "\<exists>c'. lookup cn_id i (connections (gv_db t)) = Some c' \<and> cn_updatedAt c' = clock (gv_db gv)"
proof -
  define gv1 where "gv1 = at_session n (\<lambda>g. g\<lparr>gs_ws := None\<rparr>) gv"
  define gv2 where "gv2 = at_session n (\<lambda>g. g\<lparr>gs_reconnectTimer := Some ms\<rparr>) (persistGateway n gw_down False gv1)"
  define gv3 where "gv3 = (let g = at_session n (\<lambda>g. g\<lparr>gs_healthy := False\<rparr>) gv2 in g\<lparr>gv_health := (gv_health g)(gs_connectionId (gv_store g ! n) \<mapsto> False)\<rparr>)"
  have t: "t = persistGateway n gw_degraded False gv3"
    by (simp add: t_def gv3_def gv2_def gv1_def Let_def)
  have n1: "n < length (gv_store gv1)" "gs_connectionId (gv_store gv1 ! n) = i" "gv_db gv1 = gv_db gv"
    using assms(1,2) by (simp_all add: gv1_def at_session_def)
  have n2: "n < length (gv_store gv2)" "gs_connectionId (gv_store gv2 ! n) = i" "gs_reconnectTimer (gv_store gv2 ! n) = Some ms"
      "gv_db gv2 = gv_db (persistGateway n gw_down False gv1)"
    using n1 by (simp_all add: gv2_def) (simp_all add: at_session_def)
  have n3: "gs_connectionId (gv_store gv3 ! n) = i" "gs_reconnectTimer (gv_store gv3 ! n) = Some ms"
      "gv_db gv3 = gv_db gv2" "gv_health gv3 i = Some False"
    using n2(1-3) by (simp_all add: gv3_def Let_def at_session_def)
  show "gv_health t i = Some False" "gs_reconnectTimer (gv_store t ! n) = Some ms" by (simp_all add: t n3)
  have e2: "lookup cn_id i (connections (gv_db gv2)) = Some (gateway_write gw_down False (clock (gv_db gv)) c)"
      "clock (gv_db gv2) = clock (gv_db gv)"
    using persist_effect [of gv1 n c gw_down False] assms(3) n1 n2(4) by simp_all
  then show "clock (gv_db t) = clock (gv_db gv)"
      "\<exists>c'. lookup cn_id i (connections (gv_db t)) = Some c' \<and> cn_updatedAt c' = clock (gv_db gv)"
    using persist_effect [of gv3 n _ gw_degraded False] n3 by (simp_all add: t gateway_write_def)
  show "map cn_id (connections (gv_db t)) = map cn_id (connections (gv_db gv))"
    using undisturbed_ids [OF persist_undisturbed [of gv1 n gw_down False]]
      undisturbed_ids [OF persist_undisturbed [of gv3 n gw_degraded False]] n1(3) n2(4) n3(3) by (simp add: t)
qed

text \<open>When a socket closes, its connection is unhealthy and a reconnection is at most half a minute
  away, but the floor tick of a connection that is down, which is meant to synchronize it always,
  passes it over for the next half hour: the age is taken from the row, which the socket
  service has just written.\<close>

lemma floor_starved:
  assumes "k < length (gv_sockets gv)" and "n = sk_session (gv_sockets gv ! k)" "n < length (gv_store gv)"
    and "i = gs_connectionId (gv_store gv ! n)" "lookup cn_id i (connections (gv_db gv)) = Some c"
    and "distinct (map cn_id (connections (gv_db gv)))" and "ms < 30 * 60 * 1000"
  shows "let later = gateway_run up delay can dec [(Socket_close k code, random), (Lapse ms, 0)] gv in
    gv_health later i = Some False \<and> (\<exists>d. gs_reconnectTimer (gv_store later ! n) = Some d \<and> d \<le> MAX_RECONNECT_MS) \<and>
    (\<forall>j \<in> set (reconcileFloorTick up (gv_health later) (gv_db later)). jb_connectionId j \<noteq> i)"
proof -
  obtain ctx d where h: "handle (gs_botToken (gv_store gv ! n)) random (gs_ctx (gv_store gv ! n)) (CLOSE code) =
      (ctx, [SCHEDULE_RECONNECT d, EMIT_HEALTH False])" and d: "d \<le> MAX_RECONNECT_MS"
    by (auto simp: drop_connection_def reconnectDelay_def)
  define gv1 where "gv1 = at_session n (\<lambda>g. g\<lparr>gs_ctx := ctx\<rparr>) (at_socket k (\<lambda>sk. sk\<lparr>sk_open := False\<rparr>) gv)"
  define t where "t = execute up delay n (EMIT_HEALTH False) (execute up delay n (SCHEDULE_RECONNECT d) gv1)"
  have "dispatch up delay random n (CLOSE code) (at_socket k (\<lambda>sk. sk\<lparr>sk_open := False\<rparr>) gv) = t"
    unfolding dispatch_def lengths h gv1_def t_def Let_def by simp
  then have run: "gateway_run up delay can dec [(Socket_close k code, random), (Lapse ms, 0)] gv =
      t\<lparr>gv_db := (gv_db t)\<lparr>clock := clock (gv_db t) + int ms\<rparr>\<rparr>"
    using assms(1,2) by (simp add: gateway_run_def)
  have g1: "n < length (gv_store gv1)" "i = gs_connectionId (gv_store gv1 ! n)" "gv_db gv1 = gv_db gv"
    using assms(3,4) by (simp_all add: gv1_def at_session_def) (simp_all add: at_socket_def)
  note drop = dropped [where up = up and delay = delay and ms = d, OF g1(1,2), unfolded g1(3), OF assms(5), folded t_def]
  obtain c' where c': "lookup cn_id i (connections (gv_db t)) = Some c'" "cn_updatedAt c' = clock (gv_db gv)"
    using drop(5) by blast
  have "distinct (map cn_id (connections (gv_db t)))" using assms(6) drop(4) by simp
  then have one: "q = c'" if "q \<in> set (connections (gv_db t))" "cn_id q = i" for q
    using that lookup_SomeD [OF c'(1)] by (auto simp: distinct_map inj_on_def)
  have "\<not> floor_due (gv_health t) (clock (gv_db t) + int ms) c'"
    using drop(1,3) c' lookup_SomeD [OF c'(1)] assms(7)
    by (simp add: floor_due_def gateway_healthy_def FLOOR_DEGRADED_HOURS_def)
  then have "\<forall>j \<in> set (reconcileFloorTick up (gv_health t) ((gv_db t)\<lparr>clock := clock (gv_db t) + int ms\<rparr>)). jb_connectionId j \<noteq> i"
    using one by (auto simp: reconcileFloorTick_def swept_connections_def split: if_splits)
  then show ?thesis using drop(1,2) d by (simp add: run Let_def)
qed

definition demo_service :: gateway_service where
  "demo_service = gateway_run True 5 (\<lambda>_. False) Some first_contact
     (openAllSessions (\<lambda>_. False) Some (idle_service demo_sync))"

lemma floor_starved_witness:
  "let later = gateway_run True 5 (\<lambda>_. False) Some [(Socket_close 0 1006, 0), (Lapse 1799999, 0)] demo_service in
   gv_health later 90 = Some False \<and>
   (\<forall>j \<in> set (reconcileFloorTick True (gv_health later) (gv_db later)). jb_connectionId j \<noteq> 90)"
proof -
  have "length (gv_sockets demo_service) = 1" "sk_session (gv_sockets demo_service ! 0) = 0" "length (gv_store demo_service) = 1"
      "gs_connectionId (gv_store demo_service ! 0) = 90" "map cn_id (connections (gv_db demo_service)) = [90]"
    by code_simp+
  moreover from this(5) obtain c where "lookup cn_id 90 (connections (gv_db demo_service)) = Some c" by (auto simp: map_eq_Cons_conv)
  ultimately show ?thesis
    using floor_starved [of 0 demo_service 0 90 c 1799999 True 5 "\<lambda>_. False" Some 1006 0] by (simp add: Let_def)
qed

section \<open>Heartbeats\<close>

text \<open>Heartbeats that are never acknowledged go unnoticed: as long as the socket stays open, any number
  of beats is sent without one being counted as missed, the session stays as it is, healthy if it
  was, and nothing is asked for. The machine's three missed heartbeats are only counted while there is no
  open socket.\<close>

lemma unanswered_heartbeats:
  assumes "n < length (gv_store gv)" and "gs_heartbeatTimer (gv_store gv ! n) \<noteq> None"
    and "gs_ws (gv_store gv ! n) = Some k" "k < length (gv_sockets gv)" "sk_open (gv_sockets gv ! k)"
  shows "gateway_run up delay can dec (replicate m (Heartbeat_due n, random)) gv =
    gv\<lparr>gv_sockets := (gv_sockets gv)[k := (gv_sockets gv ! k)
         \<lparr>sk_sent := sk_sent (gv_sockets gv ! k) @ replicate m (Beat (gx_sequenceNumber (gs_ctx (gv_store gv ! n))))\<rparr>]\<rparr>"
  using assms
proof (induction m arbitrary: gv)
  case (Suc m)
  let ?beat = "Beat (gx_sequenceNumber (gs_ctx (gv_store gv ! n)))"
  define gv1 where "gv1 = at_socket k (\<lambda>sk. sk\<lparr>sk_sent := sk_sent sk @ [?beat]\<rparr>) gv"
  have "gateway_step up delay can dec (Heartbeat_due n, random) gv = gv1"
    using Suc.prems by (simp add: socket_open_def send_def at_socket_def gv1_def)
  then show ?case
    using Suc.IH [of gv1] Suc.prems by (simp add: gateway_run_def gv1_def at_socket_def)
qed (simp add: gateway_run_def)

lemma unanswered_heartbeats_witness:
  "gv_health (gateway_run True 5 (\<lambda>_. False) Some (replicate 1000 (Heartbeat_due 0, 0)) demo_service) 90 = Some True"
proof -
  have "length (gv_store demo_service) = 1" "gs_heartbeatTimer (gv_store demo_service ! 0) = Some 41250"
      "gs_ws (gv_store demo_service ! 0) = Some 0" "length (gv_sockets demo_service) = 1" "sk_open (gv_sockets demo_service ! 0)"
      "gv_health demo_service 90 = Some True"
    by code_simp+
  then show ?thesis
    using unanswered_heartbeats [of 0 demo_service 0 True 5 "\<lambda>_. False" Some 1000 0] by simp
qed

end
