(* ===== verification/Dto.thy ===== *)
theory Dto
  imports Templates Org_Units Grants Org_Config Invitations Integrations Submissions Messages Activity Tasks
begin

text \<open>
  The schemas of request bodies and queries (\<open>*.dto.ts\<close>): what they accept and what the handler gets.
  A body is the parsed JSON, an object's keys distinct; a query is an object of strings. What the
  schema library's formats accept (uuid, email, the coercion to a date) is an argument; a uuid stands
  for the row id it denotes. \<open>None\<close> is a validation failure.
\<close>

section \<open>Bodies\<close>

datatype body = BNull | BBool bool | BNum jsnum | BStr string | BArr "body list" | BObj "(string \<times> body) list"

record formats =
  fm_uuid :: "string \<Rightarrow> id option"
  fm_email :: "string \<Rightarrow> bool"
  fm_date :: "body \<Rightarrow> time option"

type_synonym 'a shape = "body \<Rightarrow> 'a option"

type_synonym fields = "string \<Rightarrow> body option"

fun z_string :: "(string \<Rightarrow> bool) \<Rightarrow> string shape" where
  "z_string P (BStr x) = (if P x then Some x else None)"
| "z_string P _ = None"

definition sized :: "nat \<Rightarrow> nat \<Rightarrow> string \<Rightarrow> bool" where
  "sized lo hi x \<longleftrightarrow> lo \<le> length x \<and> length x \<le> hi"

text \<open>\<open>z.string().trim().min(lo).max(hi)\<close>.\<close>

fun z_trimmed :: "nat \<Rightarrow> nat \<Rightarrow> string shape" where
  "z_trimmed lo hi (BStr x) = (if sized lo hi (js_trim x) then Some (js_trim x) else None)"
| "z_trimmed lo hi _ = None"

fun z_uuid :: "formats \<Rightarrow> id shape" where
  "z_uuid fm (BStr x) = fm_uuid fm x"
| "z_uuid fm _ = None"

fun z_bool :: "bool shape" where
  "z_bool (BBool b) = Some b"
| "z_bool _ = None"

fun z_number :: "rat shape" where
  "z_number (BNum (Fin r)) = Some r"
| "z_number _ = None"

definition z_int :: "(int \<Rightarrow> bool) \<Rightarrow> int shape" where
  "z_int P v = Option.bind (z_number v) (\<lambda>r. if of_int \<lfloor>r\<rfloor> = r \<and> P \<lfloor>r\<rfloor> then Some \<lfloor>r\<rfloor> else None)"

fun z_enum :: "(string \<times> 'a) list \<Rightarrow> 'a shape" where
  "z_enum vs (BStr x) = map_of vs x"
| "z_enum vs _ = None"

fun z_array :: "'a shape \<Rightarrow> 'a list shape" where
  "z_array p (BArr xs) = those (map p xs)"
| "z_array p _ = None"

definition at_most_items :: "nat \<Rightarrow> 'a list option \<Rightarrow> 'a list option" where
  "at_most_items n r = Option.bind r (\<lambda>xs. if length xs \<le> n then Some xs else None)"

text \<open>\<open>.strict()\<close> refuses unknown keys, \<open>.strip()\<close> (the default) drops them.\<close>

fun z_strip :: "fields shape" where
  "z_strip (BObj kvs) = Some (map_of kvs)"
| "z_strip _ = None"

fun z_strict :: "string list \<Rightarrow> fields shape" where
  "z_strict ks (BObj kvs) = (if set (map fst kvs) \<subseteq> set ks then Some (map_of kvs) else None)"
| "z_strict ks _ = None"

definition must :: "fields \<Rightarrow> string \<Rightarrow> 'a shape \<Rightarrow> 'a option" where
  "must f k p = (case f k of None \<Rightarrow> None | Some v \<Rightarrow> p v)"

definition maybe :: "fields \<Rightarrow> string \<Rightarrow> 'a shape \<Rightarrow> 'a option option" where
  "maybe f k p = (case f k of None \<Rightarrow> Some None | Some v \<Rightarrow> map_option Some (p v))"

definition opt_default :: "fields \<Rightarrow> string \<Rightarrow> 'a shape \<Rightarrow> 'a \<Rightarrow> 'a option" where
  "opt_default f k p d = (case f k of None \<Rightarrow> Some d | Some v \<Rightarrow> p v)"

text \<open>\<open>.nullish()\<close>: absent and null are kept apart.\<close>

definition nullish :: "fields \<Rightarrow> string \<Rightarrow> 'a shape \<Rightarrow> 'a option option option" where
  "nullish f k p =
     (case f k of None \<Rightarrow> Some None | Some BNull \<Rightarrow> Some (Some None) | Some v \<Rightarrow> map_option (\<lambda>x. Some (Some x)) (p v))"

definition given_value :: "'a option option \<Rightarrow> 'a option" where
  "given_value x = (case x of Some (Some y) \<Rightarrow> Some y | _ \<Rightarrow> None)"

text \<open>\<open>z.coerce.number().int().min(1).max(100)\<close> over a query's value, one value or one in a list.\<close>

fun z_limit :: "nat shape" where
  "z_limit (BStr x) =
     (case js_Number_string x of
        Fin r \<Rightarrow> if of_int \<lfloor>r\<rfloor> = r \<and> 1 \<le> \<lfloor>r\<rfloor> \<and> \<lfloor>r\<rfloor> \<le> 100 then Some (nat \<lfloor>r\<rfloor>) else None
      | _ \<Rightarrow> None)"
| "z_limit (BArr [BStr x]) = z_limit (BStr x)"
| "z_limit _ = None"

section \<open>Organization\<close>

text \<open>\<open>roles.dto.ts\<close>.\<close>

definition createRoleSchema :: "string shape" where
  "createRoleSchema b = Option.bind (z_strict [''name''] b) (\<lambda>f. must f ''name'' (z_trimmed 1 120))"

definition updateRoleSchema :: "string shape" where
  "updateRoleSchema b = Option.bind (z_strict [''name''] b) (\<lambda>f. must f ''name'' (z_trimmed 1 120))"

text \<open>\<open>divisions.dto.ts\<close>; the patch's fields after the name of a creation.\<close>

definition z_openings :: "int shape" where
  "z_openings = z_int (\<lambda>n. 0 \<le> n \<and> n \<le> 10000)"

definition division_fields :: "string option \<Rightarrow> fields \<Rightarrow> division_input option" where
  "division_fields nm f =
     Option.bind (maybe f ''defaultOpenings'' z_openings) (\<lambda>d.
     Option.bind (maybe f ''openingsLocked'' z_bool) (\<lambda>l.
     Option.bind (maybe f ''restrictClaims'' z_bool) (\<lambda>r.
     Some \<lparr>di_name = nm, di_defaultOpenings = d, di_openingsLocked = l, di_restrictClaims = r\<rparr>)))"

definition division_keys :: "string list" where
  "division_keys = [''name'', ''defaultOpenings'', ''openingsLocked'', ''restrictClaims'']"

definition createDivisionSchema :: "(string \<times> division_input) shape" where
  "createDivisionSchema b =
     Option.bind (z_strict division_keys b) (\<lambda>f.
     Option.bind (must f ''name'' (z_trimmed 1 120)) (\<lambda>n.
     Option.bind (division_fields (Some n) f) (\<lambda>d. Some (n, d))))"

definition updateDivisionSchema :: "division_input shape" where
  "updateDivisionSchema b =
     Option.bind (z_strict division_keys b) (\<lambda>f.
     Option.bind (maybe f ''name'' (z_trimmed 1 120)) (\<lambda>n. division_fields n f))"

text \<open>\<open>teams.dto.ts\<close>.\<close>

definition createTeamSchema :: "(string \<times> bool option) shape" where
  "createTeamSchema b =
     Option.bind (z_strict [''name'', ''restrictClaims''] b) (\<lambda>f.
     Option.bind (must f ''name'' (z_trimmed 1 120)) (\<lambda>n.
     Option.bind (maybe f ''restrictClaims'' z_bool) (\<lambda>r. Some (n, r))))"

definition updateTeamSchema :: "(string option \<times> bool option) shape" where
  "updateTeamSchema b =
     Option.bind (z_strict [''name'', ''restrictClaims''] b) (\<lambda>f.
     Option.bind (maybe f ''name'' (z_trimmed 1 120)) (\<lambda>n.
     Option.bind (maybe f ''restrictClaims'' z_bool) (\<lambda>r. Some (n, r))))"

text \<open>\<open>grants.dto.ts\<close>.\<close>

definition scopeKindSchema :: "scope_kind shape" where
  "scopeKindSchema = z_enum
     [(''global'', scope_global), (''specific_division'', scope_specific_division),
      (''specific_team'', scope_specific_team), (''own_division'', scope_own_division),
      (''own_team'', scope_own_team), (''own'', scope_own), (''role'', scope_role)]"

definition effectSchema :: "effect shape" where
  "effectSchema = z_enum [(''permit'', Permit), (''forbid'', Forbid)]"

definition grant_keys :: "string list" where
  "grant_keys = [''action'', ''effect'', ''scopeKind'', ''scopeDivisionId'', ''scopeTeamId'', ''scopeRoleId'']"

definition createGrantSchema :: "formats \<Rightarrow> (id \<times> grant_fields) shape" where
  "createGrantSchema fm b =
     Option.bind (z_strict (''roleId'' # grant_keys) b) (\<lambda>f.
     Option.bind (must f ''roleId'' (z_uuid fm)) (\<lambda>r.
     Option.bind (must f ''action'' (z_string (\<lambda>x. x \<noteq> []))) (\<lambda>a.
     Option.bind (opt_default f ''effect'' effectSchema Permit) (\<lambda>e.
     Option.bind (must f ''scopeKind'' scopeKindSchema) (\<lambda>k.
     Option.bind (nullish f ''scopeDivisionId'' (z_uuid fm)) (\<lambda>d.
     Option.bind (nullish f ''scopeTeamId'' (z_uuid fm)) (\<lambda>t.
     Option.bind (nullish f ''scopeRoleId'' (z_uuid fm)) (\<lambda>sr.
     Some (r, \<lparr>gf_action = a, gf_effect = e, gf_scopeKind = k, gf_scopeDivisionId = given_value d,
               gf_scopeTeamId = given_value t, gf_scopeRoleId = given_value sr\<rparr>)))))))))"

definition updateGrantSchema :: "formats \<Rightarrow> grant_patch shape" where
  "updateGrantSchema fm b =
     Option.bind (z_strict grant_keys b) (\<lambda>f.
     Option.bind (maybe f ''action'' (z_string (\<lambda>x. x \<noteq> []))) (\<lambda>a.
     Option.bind (maybe f ''effect'' effectSchema) (\<lambda>e.
     Option.bind (maybe f ''scopeKind'' scopeKindSchema) (\<lambda>k.
     Option.bind (nullish f ''scopeDivisionId'' (z_uuid fm)) (\<lambda>d.
     Option.bind (nullish f ''scopeTeamId'' (z_uuid fm)) (\<lambda>t.
     Option.bind (nullish f ''scopeRoleId'' (z_uuid fm)) (\<lambda>sr.
     Some \<lparr>gp_action = a, gp_effect = e, gp_scopeKind = k, gp_scopeDivisionId = d, gp_scopeTeamId = t,
           gp_scopeRoleId = sr\<rparr>)))))))"

text \<open>\<open>users.dto.ts\<close>. Every setting is a boolean, a number or a string, so a list or an object among the
  values is refused.\<close>

definition updateUserSchema :: "string shape" where
  "updateUserSchema b = Option.bind (z_strict [''displayName''] b) (\<lambda>f. must f ''displayName'' (z_trimmed 1 200))"

definition grantRoleSchema :: "formats \<Rightarrow> id shape" where
  "grantRoleSchema fm b = Option.bind (z_strict [''roleId''] b) (\<lambda>f. must f ''roleId'' (z_uuid fm))"

fun scalar :: "body \<Rightarrow> json" where
  "scalar (BBool b) = JBool b"
| "scalar (BNum n) = JNum n"
| "scalar (BStr x) = JStr x"
| "scalar _ = JNull"

fun updateConfig_dto :: "config_patch shape" where
  "updateConfig_dto (BObj kvs) =
     (let dto = map (\<lambda>(k, v). (k, scalar v)) kvs in if config_patch_ok dto then Some dto else None)"
| "updateConfig_dto _ = None"

section \<open>Entry\<close>

text \<open>\<open>auth.dto.ts\<close>.\<close>

definition newPassword :: "string shape" where
  "newPassword = z_string (\<lambda>x. sized 8 200 x \<and> 8 \<le> length (js_trim x))"

definition emailSchema :: "formats \<Rightarrow> string shape" where
  "emailSchema fm = z_string (\<lambda>x. sized 1 320 x \<and> fm_email fm x)"

definition loginSchema :: "formats \<Rightarrow> (string \<times> string) shape" where
  "loginSchema fm b =
     Option.bind (z_strip b) (\<lambda>f.
     Option.bind (must f ''email'' (emailSchema fm)) (\<lambda>e.
     Option.bind (must f ''password'' (z_string (sized 1 200))) (\<lambda>p. Some (e, p))))"

definition acceptInviteSchema :: "formats \<Rightarrow> (string option \<times> string \<times> string \<times> string) shape" where
  "acceptInviteSchema fm b =
     Option.bind (z_strip b) (\<lambda>f.
     Option.bind (maybe f ''passcode'' (z_string (sized 1 200))) (\<lambda>k.
     Option.bind (must f ''email'' (emailSchema fm)) (\<lambda>e.
     Option.bind (must f ''password'' newPassword) (\<lambda>p.
     Option.bind (must f ''displayName'' (z_trimmed 1 200)) (\<lambda>n. Some (k, e, p, n))))))"

definition resendVerificationSchema :: "formats \<Rightarrow> string shape" where
  "resendVerificationSchema fm b = Option.bind (z_strip b) (\<lambda>f. must f ''email'' (emailSchema fm))"

definition confirmVerificationSchema :: "string shape" where
  "confirmVerificationSchema b = Option.bind (z_strip b) (\<lambda>f. must f ''token'' (z_string (\<lambda>x. x \<noteq> [])))"

definition passwordResetRequestSchema :: "formats \<Rightarrow> string shape" where
  "passwordResetRequestSchema fm b = Option.bind (z_strip b) (\<lambda>f. must f ''email'' (emailSchema fm))"

definition passwordResetConfirmSchema :: "(string \<times> string) shape" where
  "passwordResetConfirmSchema b =
     Option.bind (z_strip b) (\<lambda>f.
     Option.bind (must f ''token'' (z_string (\<lambda>x. x \<noteq> []))) (\<lambda>t.
     Option.bind (must f ''password'' newPassword) (\<lambda>p. Some (t, p))))"

definition createInvitationSchema :: "formats \<Rightarrow> (string option \<times> id list option \<times> time option) shape" where
  "createInvitationSchema fm b =
     Option.bind (z_strip b) (\<lambda>f.
     Option.bind (maybe f ''email'' (emailSchema fm)) (\<lambda>e.
     Option.bind (maybe f ''intendedRoleIds'' (z_array (z_uuid fm))) (\<lambda>r.
     Option.bind (maybe f ''expiresAt'' (fm_date fm)) (\<lambda>x. Some (e, r, x)))))"

section \<open>Work\<close>

text \<open>\<open>tasks.dto.ts\<close>.\<close>

definition createTaskSchema :: "formats \<Rightarrow> (string \<times> string option \<times> id \<times> id option) shape" where
  "createTaskSchema fm b =
     Option.bind (z_strict [''name'', ''description'', ''divisionId'', ''teamId''] b) (\<lambda>f.
     Option.bind (must f ''name'' (z_trimmed 1 200)) (\<lambda>n.
     Option.bind (maybe f ''description'' (z_string (sized 0 20000))) (\<lambda>d.
     Option.bind (must f ''divisionId'' (z_uuid fm)) (\<lambda>k.
     Option.bind (maybe f ''teamId'' (z_uuid fm)) (\<lambda>t. Some (n, d, k, t))))))"

definition updateTaskSchema :: "(string option \<times> string option) shape" where
  "updateTaskSchema b =
     Option.bind (z_strict [''name'', ''description''] b) (\<lambda>f.
     Option.bind (maybe f ''name'' (z_trimmed 1 200)) (\<lambda>n.
     Option.bind (maybe f ''description'' (z_string (sized 0 20000))) (\<lambda>d.
     if n = None \<and> d = None then None else Some (n, d))))"

fun js_split :: "char \<Rightarrow> string \<Rightarrow> string list" where
  "js_split c [] = [[]]"
| "js_split c (x # xs) =
     (if x = c then [] # js_split c xs
      else (case js_split c xs of [] \<Rightarrow> [[x]] | y # ys \<Rightarrow> (x # y) # ys))"

fun multiFacet :: "'a shape \<Rightarrow> 'a list shape" where
  "multiFacet item (BStr v) =
     those (map (\<lambda>x. item (BStr x)) (if take 3 v = ''in:'' then js_split CHR '','' (drop 3 v) else [v]))"
| "multiFacet item _ = None"

definition statusValue :: "status shape" where
  "statusValue = z_enum [(''open'', st_open), (''claimed'', st_claimed), (''review'', st_review),
     (''revising'', st_revising), (''approved'', st_approved)]"

definition includeSchema :: "bool shape" where
  "includeSchema = z_enum [(''retired'', True)]"

definition listTasksQuerySchema :: "formats \<Rightarrow> list_tasks_query shape" where
  "listTasksQuerySchema fm b =
     Option.bind (z_strip b) (\<lambda>f.
     Option.bind (maybe f ''division'' (multiFacet (z_uuid fm))) (\<lambda>d.
     Option.bind (maybe f ''team'' (multiFacet (z_uuid fm))) (\<lambda>t.
     Option.bind (maybe f ''status'' (multiFacet statusValue)) (\<lambda>st.
     Option.bind (maybe f ''requester'' (multiFacet (z_uuid fm))) (\<lambda>r.
     Option.bind (maybe f ''claimant'' (multiFacet (z_uuid fm))) (\<lambda>c.
     Option.bind (maybe f ''after'' (z_uuid fm)) (\<lambda>a.
     Option.bind (opt_default f ''limit'' z_limit 20) (\<lambda>l.
     Option.bind (opt_default f ''include'' includeSchema False) (\<lambda>i.
     Some \<lparr>lq_division = d, lq_team = t, lq_status = st, lq_requester = r, lq_claimant = c, lq_after = a,
           lq_limit = l, lq_includeRetired = i\<rparr>)))))))))"

definition manageClaimsSchema :: "(int option \<times> bool option) shape" where
  "manageClaimsSchema b =
     Option.bind (z_strict [''openingsDelta'', ''claimsClosed''] b) (\<lambda>f.
     Option.bind (maybe f ''openingsDelta'' (z_int (\<lambda>n. - 10000 \<le> n \<and> n \<le> 10000))) (\<lambda>d.
     Option.bind (maybe f ''claimsClosed'' z_bool) (\<lambda>c.
     if d = None \<and> c = None then None else Some (d, c))))"

definition changeRequesterSchema :: "formats \<Rightarrow> id shape" where
  "changeRequesterSchema fm b = Option.bind (z_strict [''userId''] b) (\<lambda>f. must f ''userId'' (z_uuid fm))"

text \<open>\<open>messages.dto.ts\<close> and the other paged queries.\<close>

definition createMessageSchema :: "formats \<Rightarrow> (string \<times> id option) shape" where
  "createMessageSchema fm b =
     Option.bind (z_strict [''body'', ''parentMessageId''] b) (\<lambda>f.
     Option.bind (must f ''body'' (z_trimmed 1 50000)) (\<lambda>t.
     Option.bind (maybe f ''parentMessageId'' (z_uuid fm)) (\<lambda>p. Some (t, p))))"

definition updateMessageSchema :: "string shape" where
  "updateMessageSchema b = Option.bind (z_strict [''body''] b) (\<lambda>f. must f ''body'' (z_trimmed 1 50000))"

definition page_query :: "formats \<Rightarrow> fields \<Rightarrow> (id option \<times> nat) option" where
  "page_query fm f =
     Option.bind (maybe f ''after'' (z_uuid fm)) (\<lambda>a.
     Option.bind (opt_default f ''limit'' z_limit 50) (\<lambda>l. Some (a, l)))"

definition listMessagesQuerySchema :: "formats \<Rightarrow> (id option \<times> nat) shape" where
  "listMessagesQuerySchema fm b = Option.bind (z_strip b) (page_query fm)"

definition listNotificationsQuerySchema :: "formats \<Rightarrow> (id option \<times> nat) shape" where
  "listNotificationsQuerySchema fm b = Option.bind (z_strip b) (page_query fm)"

definition sourceSchema :: "source shape" where
  "sourceSchema = z_enum [(''patrice'', src_patrice), (''integration'', src_integration), (''system'', src_system)]"

definition listActivityQuerySchema :: "formats \<Rightarrow> activity_filters shape" where
  "listActivityQuerySchema fm b =
     Option.bind (z_strip b) (\<lambda>f.
     Option.bind (page_query fm f) (\<lambda>(a, l).
     Option.bind (maybe f ''verb'' (z_string (sized 1 100))) (\<lambda>v.
     Option.bind (maybe f ''verbPrefix'' (z_string (sized 1 100))) (\<lambda>vp.
     Option.bind (maybe f ''actorUserId'' (z_uuid fm)) (\<lambda>u.
     Option.bind (maybe f ''subjectType'' (z_string (sized 1 50))) (\<lambda>ty.
     Option.bind (maybe f ''subjectId'' (z_uuid fm)) (\<lambda>i.
     Option.bind (maybe f ''source'' sourceSchema) (\<lambda>src.
     Option.bind (maybe f ''from'' (fm_date fm)) (\<lambda>x.
     Option.bind (maybe f ''to'' (fm_date fm)) (\<lambda>y.
     Some \<lparr>af_after = a, af_limit = l, af_verb = v, af_verbPrefix = vp, af_actorUserId = u, af_subjectType = ty,
           af_subjectId = i, af_source = src, af_from = x, af_to = y\<rparr>))))))))))"

text \<open>\<open>submissions.dto.ts\<close>.\<close>

fun answer_value :: "dto_value shape" where
  "answer_value (BStr x) = Some (VStr x)"
| "answer_value (BNum (Fin r)) = Some (VNum (Fin r))"
| "answer_value (BArr xs) = map_option VArr (those (map (z_string (\<lambda>_. True)) xs))"
| "answer_value _ = None"

definition answerSchema :: "formats \<Rightarrow> dto_answer shape" where
  "answerSchema fm b =
     Option.bind (z_strict [''questionId'', ''value'', ''attachmentIds''] b) (\<lambda>f.
     Option.bind (must f ''questionId'' (z_uuid fm)) (\<lambda>q.
     Option.bind (nullish f ''value'' answer_value) (\<lambda>v.
     Option.bind (maybe f ''attachmentIds'' (\<lambda>x. at_most_items 50 (z_array (z_uuid fm) x))) (\<lambda>as.
     Some \<lparr>da_questionId = q, da_value = given_value v, da_attachmentIds = as\<rparr>))))"

definition submitSchema :: "formats \<Rightarrow> dto_answer list shape" where
  "submitSchema fm b =
     Option.bind (z_strict [''answers''] b) (\<lambda>f.
     must f ''answers'' (\<lambda>x. at_most_items 200 (z_array (answerSchema fm) x)))"

definition reviewSchema :: "(decision \<times> string option) shape" where
  "reviewSchema b =
     Option.bind (z_strict [''decision'', ''comment''] b) (\<lambda>f.
     Option.bind (must f ''decision'' (z_enum [(''approve'', d_approve), (''return'', d_return), (''reject'', d_reject)])) (\<lambda>d.
     Option.bind (maybe f ''comment'' (z_string (sized 0 20000))) (\<lambda>c. Some (d, c))))"

definition retireSubmissionSchema :: "string shape" where
  "retireSubmissionSchema b = Option.bind (z_strict [''reason''] b) (\<lambda>f. must f ''reason'' (z_trimmed 5 500))"

section \<open>Request templates\<close>

text \<open>\<open>request-templates.dto.ts\<close>. The bound on an attachment's bytes is checked and not kept: nothing
  reads it.\<close>

definition no_constraints :: constraints where
  "no_constraints = \<lparr>k_minChars = None, k_maxChars = None, k_integer = False, k_min = None, k_max = None,
     k_multi = False, k_options = [], k_minSelect = None, k_maxSelect = None, k_allowedTypes = [], k_maxFiles = None\<rparr>"

definition ordered :: "'a::linorder option \<Rightarrow> 'a option \<Rightarrow> bool" where
  "ordered lo hi = (case (lo, hi) of (Some x, Some y) \<Rightarrow> x \<le> y | _ \<Rightarrow> True)"

definition textConstraints :: "constraints shape" where
  "textConstraints b =
     Option.bind (z_strict [''maxChars'', ''minChars''] b) (\<lambda>f.
     Option.bind (maybe f ''maxChars'' (z_int (\<lambda>n. 0 < n))) (\<lambda>hi.
     Option.bind (maybe f ''minChars'' (z_int (\<lambda>n. 0 \<le> n))) (\<lambda>lo.
     if ordered lo hi then Some (no_constraints\<lparr>k_minChars := lo, k_maxChars := hi\<rparr>) else None)))"

definition numericConstraints :: "constraints shape" where
  "numericConstraints b =
     Option.bind (z_strict [''kind'', ''min'', ''max''] b) (\<lambda>f.
     Option.bind (must f ''kind'' (z_enum [(''integer'', True), (''float'', False)])) (\<lambda>int_only.
     Option.bind (maybe f ''min'' z_number) (\<lambda>lo.
     Option.bind (maybe f ''max'' z_number) (\<lambda>hi.
     if ordered lo hi then Some (no_constraints\<lparr>k_integer := int_only, k_min := lo, k_max := hi\<rparr>) else None))))"

definition choiceOption :: "(string \<times> string) shape" where
  "choiceOption b =
     Option.bind (z_strict [''value'', ''label''] b) (\<lambda>f.
     Option.bind (must f ''value'' (z_string (\<lambda>x. x \<noteq> []))) (\<lambda>v.
     Option.bind (must f ''label'' (z_string (\<lambda>x. x \<noteq> []))) (\<lambda>l. Some (v, l))))"

definition choiceConstraints :: "constraints shape" where
  "choiceConstraints b =
     Option.bind (z_strict [''multi'', ''options'', ''minSelect'', ''maxSelect''] b) (\<lambda>f.
     Option.bind (must f ''multi'' z_bool) (\<lambda>m.
     Option.bind (must f ''options'' (z_array choiceOption)) (\<lambda>os.
     Option.bind (maybe f ''minSelect'' (z_int (\<lambda>n. 0 \<le> n))) (\<lambda>lo.
     Option.bind (maybe f ''maxSelect'' (z_int (\<lambda>n. 0 < n))) (\<lambda>hi.
     if os \<noteq> [] \<and> distinct (map fst os) \<and> ordered lo hi
     then Some (no_constraints\<lparr>k_multi := m, k_options := os, k_minSelect := lo, k_maxSelect := hi\<rparr>) else None)))))"

definition attachmentConstraints :: "constraints shape" where
  "attachmentConstraints b =
     Option.bind (z_strict [''allowedTypes'', ''maxBytes'', ''maxFiles''] b) (\<lambda>f.
     Option.bind (must f ''allowedTypes'' (z_array (z_string (\<lambda>x. x \<noteq> [])))) (\<lambda>ts.
     Option.bind (maybe f ''maxBytes'' (z_int (\<lambda>n. 0 < n))) (\<lambda>_.
     Option.bind (maybe f ''maxFiles'' (z_int (\<lambda>n. 0 < n))) (\<lambda>n.
     Some (no_constraints\<lparr>k_allowedTypes := ts, k_maxFiles := n\<rparr>)))))"

definition questionOf :: "question_type \<Rightarrow> constraints shape \<Rightarrow> question_input shape" where
  "questionOf ty constraints b =
     Option.bind (z_strict [''type'', ''prompt'', ''required'', ''constraints''] b) (\<lambda>f.
     Option.bind (must f ''prompt'' (z_trimmed 1 2000)) (\<lambda>p.
     Option.bind (opt_default f ''required'' z_bool False) (\<lambda>r.
     Option.bind (must f ''constraints'' constraints) (\<lambda>c.
     Some \<lparr>qi_type = ty, qi_prompt = p, qi_required = r, qi_constraints = c\<rparr>))))"

definition question_shapes :: "(string \<times> question_input shape) list" where
  "question_shapes =
     [(''detail_text'', questionOf detail_text textConstraints), (''multiline'', questionOf multiline textConstraints),
      (''text'', questionOf text_q textConstraints), (''numeric'', questionOf numeric numericConstraints),
      (''dropdown'', questionOf dropdown choiceConstraints), (''radio'', questionOf radio choiceConstraints),
      (''attachment'', questionOf attachment_q attachmentConstraints)]"

definition questionSchema :: "question_input shape" where
  "questionSchema b =
     Option.bind (z_strip b) (\<lambda>f.
     Option.bind (must f ''type'' (z_enum question_shapes)) (\<lambda>p. p b))"

definition putRequestTemplateSchema :: "question_input list shape" where
  "putRequestTemplateSchema b =
     Option.bind (z_strict [''questions''] b) (\<lambda>f.
     must f ''questions'' (\<lambda>x. at_most_items 200 (z_array questionSchema x)))"

section \<open>Integrations\<close>

text \<open>\<open>integrations.dto.ts\<close>. Of a stored configuration the model keeps what the services read, scalars.\<close>

fun z_record :: "(string \<rightharpoonup> json) shape" where
  "z_record (BObj kvs) = Some (map_option scalar \<circ> map_of kvs)"
| "z_record _ = None"

definition any_string :: "string shape" where
  "any_string = z_string (\<lambda>_. True)"

definition connectIntegrationSchema :: "connect_dto shape" where
  "connectIntegrationSchema b =
     Option.bind (z_strip b) (\<lambda>f.
     Option.bind (must f ''provider'' (z_enum [(''discord'', ())])) (\<lambda>_.
     Option.bind (must f ''externalWorkspaceId'' (z_string (\<lambda>x. x \<noteq> []))) (\<lambda>w.
     Option.bind (must f ''displayName'' (z_string (sized 1 200))) (\<lambda>n.
     Option.bind (opt_default f ''config'' z_record Map.empty) (\<lambda>c.
     Option.bind (maybe f ''credentialsRef'' any_string) (\<lambda>r.
     Some \<lparr>cd_externalWorkspaceId = w, cd_displayName = n, cd_config = c, cd_credentialsRef = r\<rparr>))))))"

definition updateIntegrationSchema :: "update_dto shape" where
  "updateIntegrationSchema b =
     Option.bind (z_strip b) (\<lambda>f.
     Option.bind (maybe f ''displayName'' (z_string (sized 1 200))) (\<lambda>n.
     Option.bind (maybe f ''config'' z_record) (\<lambda>c.
     Option.bind (maybe f ''credentialsRef'' any_string) (\<lambda>r.
     Some \<lparr>ud_displayName = n, ud_config = c, ud_credentialsRef = r\<rparr>))))"

definition directionSchema :: "sync_direction shape" where
  "directionSchema = z_enum [(''inbound'', inbound), (''outbound'', outbound), (''bidirectional'', bidirectional)]"

definition createMappingSchema :: "formats \<Rightarrow> mapping_dto shape" where
  "createMappingSchema fm b =
     Option.bind (z_strip b) (\<lambda>f.
     Option.bind (must f ''roleId'' (z_uuid fm)) (\<lambda>r.
     Option.bind (must f ''externalGroupId'' (z_string (\<lambda>x. x \<noteq> []))) (\<lambda>g.
     Option.bind (must f ''syncDirection'' directionSchema) (\<lambda>d.
     Some \<lparr>md_roleId = r, md_externalGroupId = g, md_syncDirection = d\<rparr>))))"

definition updateMappingSchema :: "mapping_patch shape" where
  "updateMappingSchema b =
     Option.bind (z_strip b) (\<lambda>f.
     Option.bind (maybe f ''syncDirection'' directionSchema) (\<lambda>d.
     Option.bind (maybe f ''conflictWinner'' (z_enum [(''patrice'', patrice_wins), (''external'', external_wins)])) (\<lambda>w.
     Option.bind (maybe f ''externalGroupId'' (z_string (\<lambda>x. x \<noteq> []))) (\<lambda>g.
     Some \<lparr>pm_syncDirection = d, pm_conflictWinner = w, pm_externalGroupId = g\<rparr>))))"

definition rotateTokenSchema :: "string shape" where
  "rotateTokenSchema b = Option.bind (z_strip b) (\<lambda>f. must f ''botToken'' (z_string (\<lambda>x. x \<noteq> [])))"

end
