(* ===== verification/Template_Properties.thy ===== *)
theory Template_Properties
  imports Dto Validate
begin

text \<open>
  What the template schema promises the validator of submissions: which templates that were accepted
  can be answered at all.
\<close>

section \<open>What an accepted question satisfies\<close>

definition consistent :: "question_type \<Rightarrow> constraints \<Rightarrow> bool" where
  "consistent ty c \<longleftrightarrow>
     (is_text ty \<longrightarrow> ordered (k_minChars c) (k_maxChars c) \<and> (\<forall>n. k_maxChars c = Some n \<longrightarrow> 0 < n)) \<and>
     (ty = numeric \<longrightarrow> ordered (k_min c) (k_max c)) \<and>
     (is_choice ty \<longrightarrow> k_options c \<noteq> [] \<and> ordered (k_minSelect c) (k_maxSelect c) \<and>
        (\<forall>n. k_maxSelect c = Some n \<longrightarrow> 0 < n)) \<and>
     (ty = attachment_q \<longrightarrow> (\<forall>n. k_maxFiles c = Some n \<longrightarrow> 0 < n))"

lemma opt_int: "maybe f k (z_int P) = Some (Some n) \<Longrightarrow> P n"
  by (auto simp: maybe_def z_int_def bind_eq_Some_conv split: option.splits if_splits)

lemma shapes_consistent:
  "textConstraints b = Some c \<Longrightarrow> consistent detail_text c \<and> consistent multiline c \<and> consistent text_q c"
  "numericConstraints b = Some c \<Longrightarrow> consistent numeric c"
  "choiceConstraints b = Some c \<Longrightarrow> consistent dropdown c \<and> consistent radio c"
  "attachmentConstraints b = Some c \<Longrightarrow> consistent attachment_q c"
  by (auto simp: textConstraints_def numericConstraints_def choiceConstraints_def attachmentConstraints_def
      bind_eq_Some_conv no_constraints_def is_text_def is_choice_def consistent_def dest: opt_int split: if_splits)

lemma z_enum_Some: "z_enum vs v = Some p \<Longrightarrow> \<exists>x. v = BStr x \<and> map_of vs x = Some p"
  by (cases v) auto

lemma question_consistent:
  assumes "questionSchema b = Some q" shows "consistent (qi_type q) (qi_constraints q)"
proof -
  from assms obtain t p where "map_of question_shapes t = Some p" and "p b = Some q"
    by (auto simp: questionSchema_def bind_eq_Some_conv must_def split: option.splits dest!: z_enum_Some)
  then show ?thesis
    by (auto simp: question_shapes_def questionOf_def bind_eq_Some_conv must_def is_text_def is_choice_def
        split: if_splits option.splits dest!: shapes_consistent)
qed

lemma those_all: "those ys = Some xs \<Longrightarrow> x \<in> set xs \<Longrightarrow> Some x \<in> set ys"
  by (induction ys arbitrary: xs) (auto split: option.splits)

lemma template_consistent:
  assumes "putRequestTemplateSchema b = Some qs" and "q \<in> set qs"
  shows "consistent (qi_type q) (qi_constraints q)"
proof -
  obtain v where "at_most_items 200 (z_array questionSchema v) = Some qs"
    using assms(1) by (auto simp: putRequestTemplateSchema_def bind_eq_Some_conv must_def split: option.splits)
  then obtain xs where "those (map questionSchema xs) = Some qs"
    by (cases v) (auto simp: at_most_items_def bind_eq_Some_conv split: if_splits)
  from those_all [OF this assms(2)] obtain y where "questionSchema y = Some q" by (auto simp: eq_commute [of "Some _"])
  then show ?thesis by (rule question_consistent)
qed

section \<open>Which questions have an answer\<close>

definition answerable :: "(id \<Rightarrow> attachment_meta option) \<Rightarrow> question \<Rightarrow> bool" where
  "answerable att q \<longleftrightarrow>
     (let c = qn_constraints q in
      (qn_type q = numeric \<and> k_integer c \<longrightarrow>
         (\<exists>z :: int. (\<forall>m. k_min c = Some m \<longrightarrow> m \<le> of_int z) \<and> (\<forall>m. k_max c = Some m \<longrightarrow> of_int z \<le> m))) \<and>
      (is_choice (qn_type q) \<and> \<not> k_multi c \<longrightarrow> at_least (k_minSelect c) 1) \<and>
      (qn_type q = attachment_q \<longrightarrow>
         (\<exists>i ct k. att i = Some (ct, k) \<and>
            (k_allowedTypes c = [] \<or> ct \<in> set (k_allowedTypes c) \<or> kind_name k \<in> set (k_allowedTypes c)))))"

definition blank :: "id \<Rightarrow> answer" where
  "blank k = \<lparr>aw_questionId = k, aw_text = None, aw_number = None, aw_selected = None, aw_attachmentIds = None\<rparr>"

lemma trim_as: "js_trim (replicate n CHR ''a'') = replicate n CHR ''a''"
proof -
  have "dropWhile js_space (replicate n CHR ''a'') = replicate n CHR ''a''"
    by (cases n) (simp_all add: js_space_def)
  then show ?thesis by (simp add: js_trim_def)
qed

lemma text_answer:
  assumes "consistent (qn_type q) (qn_constraints q)" and "is_text (qn_type q)"
  shows "\<exists>a. aw_questionId a = qn_id q \<and> \<not> isEmpty q (Some a) \<and> well_answered att q a"
proof -
  let ?c = "qn_constraints q"
  let ?n = "max 1 (case k_minChars ?c of None \<Rightarrow> 0 | Some m \<Rightarrow> m)"
  let ?a = "(blank (qn_id q))\<lparr>aw_text := Some (replicate (nat ?n) CHR ''a'')\<rparr>"
  have "at_least (k_minChars ?c) ?n" and "at_most (k_maxChars ?c) ?n"
    using assms by (auto simp: consistent_def at_least_def at_most_def ordered_def split: option.splits)
  moreover have "int (nat ?n) = ?n" by simp
  ultimately have "well_answered att q ?a" using assms(2) by (simp add: well_answered_def Let_def del: int_nat_eq)
  moreover have "\<not> isEmpty q (Some ?a)" using assms(2) by (simp add: trim_as)
  ultimately show ?thesis by (intro exI [of _ ?a]) (simp add: blank_def)
qed

lemma number_answer:
  assumes "consistent numeric (qn_constraints q)" and "qn_type q = numeric" and "answerable att q"
  shows "\<exists>a. aw_questionId a = qn_id q \<and> \<not> isEmpty q (Some a) \<and> well_answered att q a"
proof -
  let ?c = "qn_constraints q"
  have "\<exists>x. (k_integer ?c \<longrightarrow> x \<in> \<int>) \<and> (\<forall>m. k_min ?c = Some m \<longrightarrow> m \<le> x) \<and> (\<forall>m. k_max ?c = Some m \<longrightarrow> x \<le> m)"
  proof (cases "k_integer ?c")
    case True
    then show ?thesis using assms(2,3) unfolding answerable_def Let_def by (meson Ints_of_int)
  next
    case False
    then show ?thesis using assms(1)
      by (cases "k_min ?c"; cases "k_max ?c") (auto simp: consistent_def ordered_def)
  qed
  then obtain x where x: "(k_integer ?c \<longrightarrow> x \<in> \<int>) \<and> (\<forall>m. k_min ?c = Some m \<longrightarrow> m \<le> x) \<and> (\<forall>m. k_max ?c = Some m \<longrightarrow> x \<le> m)" ..
  let ?a = "(blank (qn_id q))\<lparr>aw_number := Some (Fin x)\<rparr>"
  have "well_answered att q ?a" "\<not> isEmpty q (Some ?a)"
    using x assms(2) by (simp_all add: well_answered_def is_text_def)
  then show ?thesis by (intro exI [of _ ?a]) (simp add: blank_def)
qed

lemma choice_answer:
  assumes "consistent (qn_type q) (qn_constraints q)" and "is_choice (qn_type q)" and "answerable att q"
  shows "\<exists>a. aw_questionId a = qn_id q \<and> \<not> isEmpty q (Some a) \<and> well_answered att q a"
proof -
  let ?c = "qn_constraints q"
  let ?n = "max 1 (case k_minSelect ?c of None \<Rightarrow> 0 | Some m \<Rightarrow> m)"
  let ?v = "fst (hd (k_options ?c))"
  let ?a = "(blank (qn_id q))\<lparr>aw_selected := Some (replicate (nat ?n) ?v)\<rparr>"
  have kinds: "qn_type q \<noteq> numeric" "\<not> is_text (qn_type q)" using assms(2) by (auto simp: is_choice_def is_text_def)
  have "?v \<in> fst ` set (k_options ?c)" using assms(1,2) by (auto simp: consistent_def intro!: imageI)
  then have "set (replicate (nat ?n) ?v) \<subseteq> fst ` set (k_options ?c)" by (auto split: if_splits)
  moreover have "at_least (k_minSelect ?c) ?n" and "at_most (k_maxSelect ?c) ?n"
    using assms by (auto simp: consistent_def at_least_def at_most_def ordered_def split: option.splits)
  moreover have "k_multi ?c \<or> nat ?n \<le> 1"
    using assms(2,3) by (auto simp: answerable_def Let_def at_least_def split: option.splits)
  moreover have "int (nat ?n) = ?n" by simp
  ultimately have "well_answered att q ?a" using assms(2) kinds by (simp add: well_answered_def Let_def del: int_nat_eq)
  moreover have "\<not> isEmpty q (Some ?a)" using assms(2) kinds by simp
  ultimately show ?thesis by (intro exI [of _ ?a]) (simp add: blank_def)
qed

lemma file_answer:
  assumes "consistent (qn_type q) (qn_constraints q)" and "qn_type q = attachment_q" and "answerable att q"
  shows "\<exists>a. aw_questionId a = qn_id q \<and> \<not> isEmpty q (Some a) \<and> well_answered att q a"
proof -
  let ?c = "qn_constraints q"
  obtain i ct k where i: "att i = Some (ct, k)"
      "k_allowedTypes ?c = [] \<or> ct \<in> set (k_allowedTypes ?c) \<or> kind_name k \<in> set (k_allowedTypes ?c)"
    using assms(2,3) by (auto simp: answerable_def Let_def)
  let ?a = "(blank (qn_id q))\<lparr>aw_attachmentIds := Some [i]\<rparr>"
  have "at_most (k_maxFiles ?c) 1" using assms(1,2) by (auto simp: consistent_def at_most_def)
  then have "well_answered att q ?a" "\<not> isEmpty q (Some ?a)"
    using i assms(2) by (auto simp: well_answered_def is_text_def is_choice_def)
  then show ?thesis by (intro exI [of _ ?a]) (simp add: blank_def)
qed

lemma answerable_iff:
  assumes "consistent (qn_type q) (qn_constraints q)"
  shows "(\<exists>a. aw_questionId a = qn_id q \<and> \<not> isEmpty q (Some a) \<and> well_answered att q a) \<longleftrightarrow> answerable att q"
proof
  assume "answerable att q"
  then show "\<exists>a. aw_questionId a = qn_id q \<and> \<not> isEmpty q (Some a) \<and> well_answered att q a"
    using question_kinds(1) [of "qn_type q"] text_answer [OF assms] number_answer [of q att]
      choice_answer [OF assms] file_answer [OF assms] assms by (metis (no_types))
next
  assume "\<exists>a. aw_questionId a = qn_id q \<and> \<not> isEmpty q (Some a) \<and> well_answered att q a"
  then obtain a where a: "\<not> isEmpty q (Some a)" "well_answered att q a" by blast
  have "\<exists>z :: int. (\<forall>m. k_min (qn_constraints q) = Some m \<longrightarrow> m \<le> of_int z) \<and>
      (\<forall>m. k_max (qn_constraints q) = Some m \<longrightarrow> of_int z \<le> m)"
    if "qn_type q = numeric" "k_integer (qn_constraints q)"
    using a(2) that by (auto simp: well_answered_def is_text_def Let_def elim!: Ints_cases)
  moreover have "at_least (k_minSelect (qn_constraints q)) 1" if "is_choice (qn_type q)" "\<not> k_multi (qn_constraints q)"
    using a that by (auto simp: well_answered_def is_text_def is_choice_def Let_def at_least_def)
  moreover have "\<exists>i ct k. att i = Some (ct, k) \<and> (k_allowedTypes (qn_constraints q) = [] \<or>
      ct \<in> set (k_allowedTypes (qn_constraints q)) \<or> kind_name k \<in> set (k_allowedTypes (qn_constraints q)))"
    if ty: "qn_type q = attachment_q"
  proof -
    obtain ids where ids: "aw_attachmentIds a = Some ids" "ids \<noteq> []"
      using a(1) ty by (auto simp: is_text_def is_choice_def split: option.splits)
    moreover have "\<forall>i \<in> set ids. \<exists>ct k. att i = Some (ct, k) \<and> (k_allowedTypes (qn_constraints q) = [] \<or>
      ct \<in> set (k_allowedTypes (qn_constraints q)) \<or> kind_name k \<in> set (k_allowedTypes (qn_constraints q)))"
      using a(2) ty ids(1) by (auto simp: well_answered_def is_text_def is_choice_def Let_def)
    ultimately show ?thesis by (metis hd_in_set)
  qed
  ultimately show "answerable att q" by (simp add: answerable_def Let_def)
qed

section \<open>Templates that can be answered\<close>

definition as_input :: "question \<Rightarrow> question_input" where
  "as_input q = \<lparr>qi_type = qn_type q, qi_prompt = qn_prompt q, qi_required = qn_required q,
     qi_constraints = qn_constraints q\<rparr>"

lemma find_mapped:
  "inj_on k (set qs) \<Longrightarrow> (\<And>q. q \<in> set qs \<Longrightarrow> g (f q) = k q) \<Longrightarrow> q \<in> set qs \<Longrightarrow>
   List.find (\<lambda>a. g a = k q) (map f qs) = Some (f q)"
  by (induction qs) (auto simp: inj_on_def)

lemma find_none_mapped:
  "(\<And>q. q \<in> set qs \<Longrightarrow> g (f q) \<noteq> v) \<Longrightarrow> List.find (\<lambda>a. g a = v) (map f qs) = None"
  by (induction qs) auto

lemma acceptable_answer:
  assumes "acceptable att q (byQuestion aws (qn_id q))" and "qn_required q"
  shows "\<exists>a. aw_questionId a = qn_id q \<and> \<not> isEmpty q (Some a) \<and> well_answered att q a"
proof (cases "byQuestion aws (qn_id q)")
  case None
  then show ?thesis using assms by (simp add: acceptable_def)
next
  case (Some a)
  then have "aw_questionId a = qn_id q" using find_SomeD [OF Some [unfolded byQuestion_def]] by simp
  moreover have "\<not> isEmpty q (Some a) \<and> well_answered att q a"
    using assms Some by (simp add: acceptable_def del: isEmpty.simps split: if_splits)
  ultimately show ?thesis by blast
qed

text \<open>C5: Of a template the schema accepted, whatever its text and choice bounds, some set of answers passes
  the validation exactly when each required question can be answered: a whole number lies between the
  bounds of an integer question, a single-choice question does not ask for two selections, and a
  fitting file exists for an attachment question. The schema does not exclude the other templates.\<close>

theorem template_answerable:
  assumes "putRequestTemplateSchema b = Some inputs" and "map as_input qs = inputs" and "distinct (map qn_id qs)"
  shows "(\<exists>aws. validateSubmission qs aws att = []) \<longleftrightarrow> (\<forall>q \<in> set qs. qn_required q \<longrightarrow> answerable att q)"
proof
  have ok: "consistent (qn_type q) (qn_constraints q)" if "q \<in> set qs" for q
    using template_consistent [OF assms(1), of "as_input q"] assms(2) that by (auto simp: as_input_def)
  {
    assume "\<exists>aws. validateSubmission qs aws att = []"
    then obtain aws where "\<forall>q \<in> set qs. acceptable att q (byQuestion aws (qn_id q))"
      by (auto simp: validateSubmission_iff)
    then have "\<exists>a. aw_questionId a = qn_id q \<and> \<not> isEmpty q (Some a) \<and> well_answered att q a"
      if "q \<in> set qs" "qn_required q" for q
      using that by (intro acceptable_answer) blast+
    then show "\<forall>q \<in> set qs. qn_required q \<longrightarrow> answerable att q" using answerable_iff [OF ok] by blast
  }
  assume "\<forall>q \<in> set qs. qn_required q \<longrightarrow> answerable att q"
  then have "\<forall>q \<in> set (filter qn_required qs). \<exists>a. aw_questionId a = qn_id q \<and> \<not> isEmpty q (Some a) \<and> well_answered att q a"
    using answerable_iff [OF ok] by auto
  then obtain f where f: "\<forall>q \<in> set (filter qn_required qs). aw_questionId (f q) = qn_id q \<and> \<not> isEmpty q (Some (f q)) \<and> well_answered att q (f q)"
    by metis
  let ?rs = "rev (filter qn_required qs)"
  have inj: "inj_on qn_id (set qs)" using assms(3) by (simp add: distinct_map)
  have "acceptable att q (byQuestion (map f (filter qn_required qs)) (qn_id q))" if q: "q \<in> set qs" for q
  proof (cases "qn_required q")
    case True
    have "List.find (\<lambda>a. aw_questionId a = qn_id q) (map f ?rs) = Some (f q)"
      by (rule find_mapped) (use inj f q True in \<open>auto simp: inj_on_def\<close>)
    then show ?thesis using f q True by (simp add: byQuestion_def rev_map acceptable_def del: isEmpty.simps)
  next
    case False
    have "List.find (\<lambda>a. aw_questionId a = qn_id q) (map f ?rs) = None"
      by (rule find_none_mapped) (use inj f q False in \<open>auto simp: inj_on_def\<close>)
    then show ?thesis using False by (simp add: byQuestion_def rev_map acceptable_def)
  qed
  then have "validateSubmission qs (map f (filter qn_required qs)) att = []"
    using f by (auto simp: validateSubmission_iff)
  then show "\<exists>aws. validateSubmission qs aws att = []" ..
qed

text \<open>An accepted template with a required single-choice question that asks for two selections.\<close>

definition two_of_one :: body where
  "two_of_one = BObj [(''questions'', BArr [BObj
     [(''type'', BStr ''radio''), (''prompt'', BStr ''Which?''), (''required'', BBool True),
      (''constraints'', BObj [(''multi'', BBool False),
         (''options'', BArr [BObj [(''value'', BStr ''a''), (''label'', BStr ''A'')], BObj [(''value'', BStr ''b''), (''label'', BStr ''B'')]]),
         (''minSelect'', BNum (Fin 2))])]])]"

definition two_of_one_question :: question where
  "two_of_one_question = \<lparr>qn_id = 7, qn_requestTemplateId = 5, qn_ordinal = 0, qn_type = radio, qn_prompt = ''Which?'',
     qn_required = True,
     qn_constraints = no_constraints\<lparr>k_options := [(''a'', ''A''), (''b'', ''B'')], k_minSelect := Some 2\<rparr>\<rparr>"

theorem template_answerable_witness:
  "putRequestTemplateSchema two_of_one = Some [as_input two_of_one_question] \<and>
   (\<nexists>aws. validateSubmission [two_of_one_question] aws (\<lambda>_. None) = [])"
proof -
  have p: "putRequestTemplateSchema two_of_one = Some [as_input two_of_one_question]" by code_simp
  have "\<not> answerable (\<lambda>_. None) two_of_one_question"
    by (simp add: answerable_def two_of_one_question_def no_constraints_def is_choice_def at_least_def)
  then show ?thesis
    using template_answerable [OF p, of "[two_of_one_question]" "\<lambda>_. None"] p
    by (simp add: two_of_one_question_def)
qed

end
