(* ===== verification/Http.thy ===== *)
theory Http
  imports Histories Admin_Calls Integration_Properties Invitations Gc Attachments
begin

text \<open>
  The HTTP boundary of the API: what a controller declares for a route (its method and path, the
  action it requires and how the resource is found, the handler), and the guards every request goes
  through before it (\<open>auth/session.guard.ts\<close>, \<open>access/authorize.guard.ts\<close>, in the order of
  \<open>app.module.ts\<close>). A body or query arrives as what its schema makes of it, \<open>None\<close> when the schema
  refuses it; the pipe runs after the guards (\<open>common/zod.pipe.ts\<close>). What a handler answers is the
  result of the service it calls and is not kept; cookies are not part of the state.
\<close>

section \<open>Routes\<close>

datatype seg = Seg string | Arg id | Tok string

type_synonym requirement = "string \<times> (id option \<Rightarrow> resource_ref svc)"

record handler =
  ha_method :: string
  ha_path :: "seg list"
  ha_guard :: "requirement option"
  ha_run :: "resolved_session option \<Rightarrow> unit svc"

definition route :: "string \<Rightarrow> seg list \<Rightarrow> requirement option \<Rightarrow> (resolved_session option \<Rightarrow> unit svc) \<Rightarrow> handler" where
  "route method path guard answer = \<lparr>ha_method = method, ha_path = path, ha_guard = guard, ha_run = answer\<rparr>"

text \<open>\<open>@Authorize(action, resolver)\<close>, the resolver with and without the acting user.\<close>

definition Authorize :: "string \<Rightarrow> resource_ref svc \<Rightarrow> requirement option" where
  "Authorize action resource = Some (action, \<lambda>_. resource)"

definition AuthorizeActor :: "string \<Rightarrow> (id option \<Rightarrow> resource_ref svc) \<Rightarrow> requirement option" where
  "AuthorizeActor action resource = Some (action, resource)"

text \<open>\<open>if (!req.user) throw new UnauthenticatedError()\<close>, then the service with the user and organization.\<close>

definition authed :: "(id \<Rightarrow> id \<Rightarrow> 'a svc) \<Rightarrow> resolved_session option \<Rightarrow> unit svc" where
  "authed m session =
     (case session of
        None \<Rightarrow> throw UnauthenticatedError
      | Some r \<Rightarrow> bnd (m (rs_userId r) (rs_organizationId r)) (\<lambda>_. ret ()))"

definition ungated :: "'a svc \<Rightarrow> resolved_session option \<Rightarrow> unit svc" where
  "ungated m session = bnd m (\<lambda>_. ret ())"

definition parsed :: "'b option \<Rightarrow> ('b \<Rightarrow> resolved_session option \<Rightarrow> unit svc) \<Rightarrow> resolved_session option \<Rightarrow> unit svc" where
  "parsed body f session = (case body of None \<Rightarrow> throw (ValidationError ''body'') | Some x \<Rightarrow> f x session)"

section \<open>A request\<close>

definition handle_http :: "token_hash \<Rightarrow> cedar_engine \<Rightarrow> http_request \<Rightarrow> handler \<Rightarrow> unit svc" where
  "handle_http hashToken isAuthorized req h =
     bnd (session_canActivate hashToken req) (\<lambda>session.
     bnd (case ha_guard h of
            None \<Rightarrow> ret True
          | Some (action, resource) \<Rightarrow>
              canActivate isAuthorized action (resource (map_option rs_userId session)) (map_option rs_userId session)) (\<lambda>_.
     ha_run h session))"

section \<open>What a request can do before its handler runs\<close>

text \<open>Two states that differ at most in the sessions' activity and the policy cache.\<close>

definition apart_from_session :: "state \<Rightarrow> state \<Rightarrow> bool" where
  "apart_from_session s t \<longleftrightarrow> t\<lparr>sessions := sessions s, policy_cache := policy_cache s\<rparr> = s"

end
