(* ===== verification/Discord_Auth.thy ===== *)
theory Discord_Auth
  imports Discord_Link Invitations
begin

text \<open>
  Signing in with the provider: \<open>auth/oauth-state.ts\<close>, \<open>auth/discord-oauth.service.ts\<close>,
  \<open>discord-auth/discord-auth.service.ts\<close> and its controller. The message authentication code, the
  encoding of the state's payload (JSON in base64url), the decryption of the stored client secret, and
  what the provider answers to a code are arguments; \<open>None\<close> is an exception of theirs. A redirect is the
  path in the web tier.
\<close>

section \<open>The signed state\<close>

datatype intent = intent_login | intent_register | intent_link

record oauth_state =
  os_intent :: intent
  os_inviteToken :: "string option"
  os_userId :: "id option"
  os_nonce :: string
  os_iat :: "time option"

record state_codec =
  sc_encode :: "oauth_state \<Rightarrow> string"
  sc_decode :: "string \<Rightarrow> oauth_state option"
  sc_sign :: "string \<Rightarrow> string"

definition signOAuthState ::
  "state_codec \<Rightarrow> string \<Rightarrow> time \<Rightarrow> intent \<Rightarrow> string option \<Rightarrow> id option \<Rightarrow> string" where
  "signOAuthState codec nonce t intent inviteToken userId =
     (let body = sc_encode codec \<lparr>os_intent = intent, os_inviteToken = inviteToken, os_userId = userId,
                   os_nonce = nonce, os_iat = Some t\<rparr>
      in body @ ''.'' @ sc_sign codec body)"

text \<open>\<open>lastIndexOf('.')\<close>: what stands before and after the last dot.\<close>

fun split_last :: "string \<Rightarrow> (string \<times> string) option" where
  "split_last [] = None"
| "split_last (c # cs) =
     (case split_last cs of
        Some (a, b) \<Rightarrow> Some (c # a, b)
      | None \<Rightarrow> if c = CHR ''.'' then Some ([], cs) else None)"

definition verifyOAuthState :: "state_codec \<Rightarrow> time \<Rightarrow> string \<Rightarrow> int \<Rightarrow> oauth_state option" where
  "verifyOAuthState codec t raw maxAgeMs =
     (case split_last raw of
        None \<Rightarrow> None
      | Some (body, sig) \<Rightarrow>
          if sig \<noteq> sc_sign codec body then None
          else case sc_decode codec body of
                 None \<Rightarrow> None
               | Some payload \<Rightarrow>
                   (case os_iat payload of
                      None \<Rightarrow> None
                    | Some iat \<Rightarrow> if maxAgeMs < t - iat then None else Some payload))"

section \<open>The OAuth application\<close>

record provider_oauth =
  po_decrypt :: "string \<Rightarrow> string option"
  po_exchange :: "string \<times> string \<Rightarrow> string \<Rightarrow> string option"
  po_fetch :: "string \<Rightarrow> oauth_user option"

definition string_setting :: "string \<Rightarrow> organization \<Rightarrow> string option" where
  "string_setting k org = (case o_settings org k of Some (JStr v) \<Rightarrow> truthy (Some v) | _ \<Rightarrow> None)"

definition loadCreds :: "provider_oauth \<Rightarrow> state \<Rightarrow> (string \<times> string) option" where
  "loadCreds po s =
     (case organizations s of
        [] \<Rightarrow> None
      | org # _ \<Rightarrow>
          (case (string_setting ''discordClientId'' org, string_setting ''discordClientSecret'' org) of
             (Some clientId, Some stored) \<Rightarrow> map_option (Pair clientId) (po_decrypt po stored)
           | _ \<Rightarrow> None))"

definition isConfigured :: "provider_oauth \<Rightarrow> state \<Rightarrow> bool" where
  "isConfigured po s \<longleftrightarrow> loadCreds po s \<noteq> None"

text \<open>The parameters of the provider's authorization page.\<close>

definition authorizeUrl :: "provider_oauth \<Rightarrow> string \<Rightarrow> string \<Rightarrow> (string \<times> string) list svc" where
  "authorizeUrl po oauthState scope =
     bnd (gets (loadCreds po)) (\<lambda>found.
     bnd (need found (ServerError ''oauth'')) (\<lambda>creds.
     ret [(''client_id'', fst creds), (''redirect_uri'', ''/api/auth/discord/callback''),
          (''response_type'', ''code''), (''scope'', scope), (''state'', oauthState)]))"

definition exchangeCode :: "provider_oauth \<Rightarrow> string \<Rightarrow> string svc" where
  "exchangeCode po code =
     bnd (gets (loadCreds po)) (\<lambda>found.
     bnd (need found (ServerError ''oauth'')) (\<lambda>creds.
     need (po_exchange po creds code) (ServerError ''oauth'')))"

definition fetchUser :: "provider_oauth \<Rightarrow> string \<Rightarrow> oauth_user svc" where
  "fetchUser po accessToken = need (po_fetch po accessToken) (ServerError ''oauth'')"

section \<open>The three intents\<close>

definition startUrl ::
  "provider_oauth \<Rightarrow> state_codec \<Rightarrow> string \<Rightarrow> intent \<Rightarrow> string option \<Rightarrow> id option \<Rightarrow>
   (string \<times> string) list svc" where
  "startUrl po codec nonce intent inviteToken userId =
     bnd (gets (isConfigured po)) (\<lambda>configured.
     bnd (check configured (UnprocessableError ''DISCORD_NOT_CONFIGURED'' [])) (\<lambda>_.
     bnd now (\<lambda>t.
     authorizeUrl po (signOAuthState codec nonce t intent inviteToken userId)
       (if intent = intent_register then ''identify email'' else ''identify''))))"

text \<open>\<open>None\<close> is the exception with the code \<open>DISCORD_NO_ACCOUNT\<close>.\<close>

definition completeLogin :: "oauth_user \<Rightarrow> id option svc" where
  "completeLogin du =
     bnd (gets (\<lambda>s. List.find (discord_identity (ou_id du)) (identities s))) (\<lambda>found.
     case found of
       None \<Rightarrow> ret None
     | Some q \<Rightarrow>
         bnd (find_unique_or_throw users u_id (ui_userId q)) (\<lambda>user.
         ret (if u_lifecycleState user = active then Some (ui_userId q) else None)))"

definition completeRegister ::
  "cedar_engine \<Rightarrow> token_hash \<Rightarrow> (string \<Rightarrow> string) \<Rightarrow> mailer \<Rightarrow> string \<Rightarrow> string \<Rightarrow> oauth_user \<Rightarrow> id svc" where
  "completeRegister isAuthorized hashToken passcodeHash mail mailToken inviteToken du =
     bnd (acceptWithDiscord isAuthorized hashToken passcodeHash mail mailToken inviteToken None (ou_email du)
            (case ou_globalName du of Some n \<Rightarrow> n | None \<Rightarrow> ou_username du) (ou_id du)) (\<lambda>(userId, _).
     ret userId)"

section \<open>The routes\<close>

definition STATE_MAX_AGE_MS :: int where
  "STATE_MAX_AGE_MS = 10 * 60 * 1000"

text \<open>\<open>codeOf\<close>: the code of a coded exception, in lower case.\<close>

fun codeOf :: "err \<Rightarrow> string" where
  "codeOf (NotFoundError c) = toLowerCase c"
| "codeOf (ConflictError c) = toLowerCase c"
| "codeOf (UnprocessableError c d) = toLowerCase c"
| "codeOf (DeniedError c) = toLowerCase c"
| "codeOf (GoneError c) = toLowerCase c"
| "codeOf (ValidationError m) = ''validation_failed''"
| "codeOf UnauthenticatedError = ''unauthenticated''"
| "codeOf _ = ''discord_error''"

definition or_redirect :: "string svc \<Rightarrow> (err \<Rightarrow> string) \<Rightarrow> string svc" where
  "or_redirect m f s = (case m s of (Inl e, t) \<Rightarrow> (Inr (f e), t) | out \<Rightarrow> out)"

text \<open>The collaborators of the callback.\<close>

record sign_in =
  si_engine :: cedar_engine
  si_hashToken :: token_hash
  si_passcodeHash :: "string \<Rightarrow> string"
  si_mail :: mailer
  si_mailToken :: string
  si_sessionToken :: string
  si_oauth :: provider_oauth
  si_codec :: state_codec
  si_queueUp :: bool

definition issueSession :: "sign_in \<Rightarrow> id \<Rightarrow> unit svc" where
  "issueSession si userId =
     bnd (sessions_create (si_hashToken si) (si_sessionToken si) userId prov_discord) (\<lambda>_. ret ())"

definition by_intent :: "sign_in \<Rightarrow> oauth_state \<Rightarrow> id option \<Rightarrow> oauth_user \<Rightarrow> string svc" where
  "by_intent si payload acting du =
     (case (os_intent payload, truthy (os_inviteToken payload), os_userId payload) of
        (intent_login, _, _) \<Rightarrow>
          bnd (completeLogin du) (\<lambda>found.
          case found of
            None \<Rightarrow> ret ''/login?error=discord_no_account''
          | Some userId \<Rightarrow> bnd (issueSession si userId) (\<lambda>_. ret ''/home''))
      | (intent_register, Some invite, _) \<Rightarrow>
          bnd (completeRegister (si_engine si) (si_hashToken si) (si_passcodeHash si) (si_mail si) (si_mailToken si)
                 invite du) (\<lambda>userId.
          bnd (issueSession si userId) (\<lambda>_. ret ''/home''))
      | (intent_link, _, Some userId) \<Rightarrow>
          if acting \<noteq> Some userId then ret ''/account?error=discord_session''
          else bnd (completeLink (si_queueUp si) userId du) (\<lambda>_. ret ''/account?linked=1'')
      | _ \<Rightarrow> ret ''/login?error=discord_unsupported'')"

definition callback ::
  "sign_in \<Rightarrow> string option \<Rightarrow> string option \<Rightarrow> string option \<Rightarrow> id option \<Rightarrow> string svc" where
  "callback si code raw error acting =
     (case (truthy error, truthy code, truthy raw) of
        (None, Some c, Some st) \<Rightarrow>
          bnd now (\<lambda>t.
          case verifyOAuthState (si_codec si) t st STATE_MAX_AGE_MS of
            None \<Rightarrow> ret ''/login?error=discord_state''
          | Some payload \<Rightarrow>
              or_redirect
                (bnd (exchangeCode (si_oauth si) c) (\<lambda>accessToken.
                 bnd (fetchUser (si_oauth si) accessToken) (\<lambda>du.
                 by_intent si payload acting du)))
                (\<lambda>e. (if os_intent payload = intent_link then ''/account'' else ''/login'') @ ''?error='' @ codeOf e))
      | _ \<Rightarrow> ret ''/login?error=discord_denied'')"

text \<open>The three ways in; \<open>Inl\<close> is a page of the web tier, \<open>Inr\<close> the provider's page.\<close>

definition start_or ::
  "sign_in \<Rightarrow> string \<Rightarrow> intent \<Rightarrow> string option \<Rightarrow> id option \<Rightarrow> string \<Rightarrow>
   (string + (string \<times> string) list) svc" where
  "start_or si nonce intent inviteToken userId failed s =
     (case startUrl (si_oauth si) (si_codec si) nonce intent inviteToken userId s of
        (Inl e, t) \<Rightarrow> (Inr (Inl failed), t)
      | (Inr url, t) \<Rightarrow> (Inr (Inr url), t))"

definition get_login :: "sign_in \<Rightarrow> string \<Rightarrow> (string + (string \<times> string) list) svc" where
  "get_login si nonce = start_or si nonce intent_login None None ''/login?error=discord_not_configured''"

definition get_register :: "sign_in \<Rightarrow> string \<Rightarrow> string option \<Rightarrow> (string + (string \<times> string) list) svc" where
  "get_register si nonce invite =
     (case truthy invite of
        None \<Rightarrow> ret (Inl ''/login?error=discord_invite_required'')
      | Some tok \<Rightarrow> start_or si nonce intent_register (Some tok) None ''/login?error=discord_not_configured'')"

definition get_link :: "sign_in \<Rightarrow> string \<Rightarrow> id option \<Rightarrow> (string + (string \<times> string) list) svc" where
  "get_link si nonce acting =
     (case acting of
        None \<Rightarrow> ret (Inl ''/login'')
      | Some userId \<Rightarrow> start_or si nonce intent_link None (Some userId) ''/account?error=discord_not_configured'')"

end
