(* ===== verification/Controllers.thy ===== *)
theory Controllers
  imports Http Discord_Auth
begin

text \<open>
  The controllers of the API: for every endpoint its route, the action it declares and what it runs.
  The arguments of an endpoint are its path parameters and what the schema makes of its body or query
  (\<open>None\<close> when it refuses); where the resource of a route is read from the raw body, that comes
  as a further argument. \<open>env\<close> holds what the services are given from outside: the engine,
  hashes, ciphers, the mailer, the store, whether the queue is up, the tokens drawn for this request.
\<close>

record env =
  ev_engine :: cedar_engine
  ev_validates :: cedar_validator
  ev_uuid :: id
  ev_hashToken :: token_hash
  ev_passcodeHash :: "string \<Rightarrow> string"
  ev_hashPassword :: "string \<Rightarrow> string"
  ev_verify :: password_check
  ev_mail :: mailer
  ev_sessionToken :: string
  ev_mailToken :: string
  ev_inviteToken :: string
  ev_liveInviteToken :: "string option"
  ev_oauthCipher :: secret_cipher
  ev_tokenCipher :: token_cipher
  ev_faults :: storage_faults
  ev_sha256 :: "string \<Rightarrow> string"
  ev_maxBytes :: int
  ev_queueUp :: bool
  ev_oauth :: provider_oauth
  ev_codec :: state_codec
  ev_nonce :: string

section \<open>Work\<close>

datatype tasks_endpoint =
  Tasks_List "list_tasks_query option"
| Tasks_Create "id option" "id option" "(string \<times> string option \<times> id \<times> id option) option"
| Tasks_Get id
| Tasks_Update id "(string option \<times> string option) option"
| Tasks_Retire id | Tasks_Revive id | Tasks_Claim id | Tasks_Leave id
| Tasks_RemoveClaimant id id
| Tasks_ManageClaims id "(int option \<times> bool option) option"
| Tasks_ChangeRequester id "id option"
| Tasks_Complete id
| Tasks_GetTemplate id
| Tasks_PutTemplate id "question_input list option"

fun tasks_controller :: "tasks_endpoint \<Rightarrow> handler" where
  "tasks_controller (Tasks_List query) =
     route ''GET'' [Seg ''tasks''] None
       (parsed query (\<lambda>q. authed (\<lambda>u org. gets (tasks_list org q))))"
| "tasks_controller (Tasks_Create division team body) =
     route ''POST'' [Seg ''tasks''] (AuthorizeActor ''task:create'' (taskCreateResource division team))
       (parsed body (\<lambda>(n, d, k, tm). authed (\<lambda>u org. tasks_create org u n d k tm)))"
| "tasks_controller (Tasks_Get i) =
     route ''GET'' [Seg ''tasks'', Arg i] None (authed (\<lambda>u org. tasks_get i))"
| "tasks_controller (Tasks_Update i body) =
     route ''PATCH'' [Seg ''tasks'', Arg i] (Authorize ''task:update'' (taskResource i))
       (parsed body (\<lambda>(n, d). authed (\<lambda>u org. tasks_edit i u n d)))"
| "tasks_controller (Tasks_Retire i) =
     route ''POST'' [Seg ''tasks'', Arg i, Seg ''retire''] (Authorize ''task:retire'' (taskResource i))
       (authed (\<lambda>u org. tasks_retire i u))"
| "tasks_controller (Tasks_Revive i) =
     route ''POST'' [Seg ''tasks'', Arg i, Seg ''revive''] (Authorize ''task:revive'' (taskReviveResource i))
       (authed (\<lambda>u org. tasks_revive i u))"
| "tasks_controller (Tasks_Claim i) =
     route ''POST'' [Seg ''tasks'', Arg i, Seg ''claim''] (Authorize ''task:assign'' (taskResource i))
       (authed (\<lambda>u org. claim i u))"
| "tasks_controller (Tasks_Leave i) =
     route ''POST'' [Seg ''tasks'', Arg i, Seg ''leave''] (Authorize ''task:assign'' (taskResource i))
       (authed (\<lambda>u org. leave i u))"
| "tasks_controller (Tasks_RemoveClaimant i v) =
     route ''DELETE'' [Seg ''tasks'', Arg i, Seg ''claimants'', Arg v]
       (Authorize ''task:manage_claims'' (taskResource i))
       (authed (\<lambda>u org. removeClaimant i u v))"
| "tasks_controller (Tasks_ManageClaims i body) =
     route ''POST'' [Seg ''tasks'', Arg i, Seg ''claims''] (Authorize ''task:manage_claims'' (taskResource i))
       (parsed body (\<lambda>(d, b). authed (\<lambda>u org. manageClaims i u d b)))"
| "tasks_controller (Tasks_ChangeRequester i body) =
     route ''POST'' [Seg ''tasks'', Arg i, Seg ''requester'']
       (Authorize ''task:change_requester'' (taskResource i))
       (parsed body (\<lambda>v. authed (\<lambda>u org. changeRequester i u v)))"
| "tasks_controller (Tasks_Complete i) =
     route ''POST'' [Seg ''tasks'', Arg i, Seg ''complete''] (Authorize ''task:complete'' (taskResource i))
       (authed (\<lambda>u org. complete i u))"
| "tasks_controller (Tasks_GetTemplate i) =
     route ''GET'' [Seg ''tasks'', Arg i, Seg ''request-template''] None
       (authed (\<lambda>u org. bnd (gets (getForTask i)) (\<lambda>rt. need rt (NotFoundError ''REQUEST_TEMPLATE_NOT_FOUND''))))"
| "tasks_controller (Tasks_PutTemplate i body) =
     route ''PUT'' [Seg ''tasks'', Arg i, Seg ''request-template'']
       (Authorize ''task:configure_request_template'' (taskResource i))
       (parsed body (\<lambda>qs. authed (\<lambda>u org. putForTask i u qs)))"

datatype templates_endpoint = Templates_Get id | Templates_Put id "question_input list option"

fun templates_controller :: "templates_endpoint \<Rightarrow> handler" where
  "templates_controller (Templates_Get i) =
     route ''GET'' [Seg ''divisions'', Arg i, Seg ''request-template''] None
       (authed (\<lambda>u org. bnd (gets (getForDivision i)) (\<lambda>rt. need rt (NotFoundError ''REQUEST_TEMPLATE_NOT_FOUND''))))"
| "templates_controller (Templates_Put i body) =
     route ''PUT'' [Seg ''divisions'', Arg i, Seg ''request-template'']
       (Authorize ''division:update'' (divisionResource i))
       (parsed body (\<lambda>qs. authed (\<lambda>u org. putForDivision org i u qs)))"

datatype submissions_endpoint =
  Submissions_Submit id "dto_answer list option" | Submissions_List id | Submissions_Get id
| Submissions_Review id "(decision \<times> string option) option" | Submissions_Retire id "string option"

fun submissions_controller :: "submissions_endpoint \<Rightarrow> handler" where
  "submissions_controller (Submissions_Submit i body) =
     route ''POST'' [Seg ''tasks'', Arg i, Seg ''submissions'']
       (AuthorizeActor ''task:submit'' (taskSubmitResource i))
       (parsed body (\<lambda>answers. authed (\<lambda>u org. submit i u answers)))"
| "submissions_controller (Submissions_List i) =
     route ''GET'' [Seg ''tasks'', Arg i, Seg ''submissions''] None
       (authed (\<lambda>u org. submissions_listForTask i))"
| "submissions_controller (Submissions_Get i) =
     route ''GET'' [Seg ''submissions'', Arg i] None (authed (\<lambda>u org. submissions_get i))"
| "submissions_controller (Submissions_Review i body) =
     route ''POST'' [Seg ''submissions'', Arg i, Seg ''review'']
       (Authorize ''task:review'' (submissionResource i))
       (parsed body (\<lambda>(d, c). authed (\<lambda>u org. review i u d c)))"
| "submissions_controller (Submissions_Retire i body) =
     route ''POST'' [Seg ''submissions'', Arg i, Seg ''retire'']
       (Authorize ''task:retire_submission'' (submissionResource i))
       (parsed body (\<lambda>reason. authed (\<lambda>u org. retireSubmission i u reason)))"

datatype messages_endpoint =
  Messages_List id "(id option \<times> nat) option" | Messages_Create id "(string \<times> id option) option"
| Messages_Update id "string option" | Messages_Retire id | Messages_Revive id

fun messages_controller :: "messages_endpoint \<Rightarrow> handler" where
  "messages_controller (Messages_List i query) =
     route ''GET'' [Seg ''tasks'', Arg i, Seg ''messages''] None
       (parsed query (\<lambda>(after, limit). authed (\<lambda>u org. messages_listForTask i after limit)))"
| "messages_controller (Messages_Create i body) =
     route ''POST'' [Seg ''tasks'', Arg i, Seg ''messages'']
       (AuthorizeActor ''message:create'' (messageCreateResource i))
       (parsed body (\<lambda>(b, p). authed (\<lambda>u org. messages_create i u b p)))"
| "messages_controller (Messages_Update i body) =
     route ''PATCH'' [Seg ''messages'', Arg i] (Authorize ''message:update'' (messageResource i))
       (parsed body (\<lambda>b. authed (\<lambda>u org. messages_update_body i u b)))"
| "messages_controller (Messages_Retire i) =
     route ''POST'' [Seg ''messages'', Arg i, Seg ''retire''] (Authorize ''message:retire'' (messageResource i))
       (authed (\<lambda>u org. messages_retire i u))"
| "messages_controller (Messages_Revive i) =
     route ''POST'' [Seg ''messages'', Arg i, Seg ''revive''] (Authorize ''message:revive'' (messageReviveResource i))
       (authed (\<lambda>u org. messages_revive i u))"

text \<open>The event stream only subscribes.\<close>

datatype notifications_endpoint =
  Notifications_Stream | Notifications_List "(id option \<times> nat) option" | Notifications_Read id | Notifications_ReadAll

fun notifications_controller :: "notifications_endpoint \<Rightarrow> handler" where
  "notifications_controller Notifications_Stream =
     route ''GET'' [Seg ''notifications'', Seg ''stream''] None (authed (\<lambda>u org. ret ()))"
| "notifications_controller (Notifications_List query) =
     route ''GET'' [Seg ''notifications''] None
       (parsed query (\<lambda>(after, limit). authed (\<lambda>u org. gets (notifications_listForUser u after limit))))"
| "notifications_controller (Notifications_Read i) =
     route ''POST'' [Seg ''notifications'', Arg i, Seg ''read''] None (authed (\<lambda>u org. markRead u i))"
| "notifications_controller Notifications_ReadAll =
     route ''POST'' [Seg ''notifications'', Seg ''read-all''] None (authed (\<lambda>u org. markAllRead u))"

datatype attachments_endpoint =
  Attachments_Upload id "upload_file option" | Attachments_Retire id | Attachments_Revive id | Attachments_Download id

fun attachments_controller :: "env \<Rightarrow> attachments_endpoint \<Rightarrow> handler" where
  "attachments_controller e (Attachments_Upload i file) =
     route ''POST'' [Seg ''messages'', Arg i, Seg ''attachments'']
       (AuthorizeActor ''attachment:create'' (attachmentCreateResource i))
       (authed (\<lambda>u org. upload (ev_faults e) (ev_sha256 e) (ev_maxBytes e) i u file))"
| "attachments_controller e (Attachments_Retire i) =
     route ''POST'' [Seg ''attachments'', Arg i, Seg ''retire'']
       (Authorize ''attachment:retire'' (attachmentResource i))
       (authed (\<lambda>u org. attachments_retire i u))"
| "attachments_controller e (Attachments_Revive i) =
     route ''POST'' [Seg ''attachments'', Arg i, Seg ''revive'']
       (Authorize ''attachment:revive'' (attachmentReviveResource i))
       (authed (\<lambda>u org. attachments_revive i u))"
| "attachments_controller e (Attachments_Download i) =
     route ''GET'' [Seg ''attachments'', Arg i] None (authed (\<lambda>u org. resolveDownload i))"

section \<open>Administration\<close>

datatype roles_endpoint =
  Roles_List bool | Roles_Create "string option" | Roles_Update id "string option" | Roles_Retire id | Roles_Revive id

fun roles_controller :: "roles_endpoint \<Rightarrow> handler" where
  "roles_controller (Roles_List retd) =
     route ''GET'' [Seg ''roles''] (Authorize ''role:create'' orgResource)
       (authed (\<lambda>u org. gets (roles_list org retd)))"
| "roles_controller (Roles_Create body) =
     route ''POST'' [Seg ''roles''] (Authorize ''role:create'' orgResource)
       (parsed body (\<lambda>n. authed (\<lambda>u org. roles_create org u n)))"
| "roles_controller (Roles_Update i body) =
     route ''PATCH'' [Seg ''roles'', Arg i] (Authorize ''role:update'' orgResource)
       (parsed body (\<lambda>n. authed (\<lambda>u org. roles_edit i u n)))"
| "roles_controller (Roles_Retire i) =
     route ''POST'' [Seg ''roles'', Arg i, Seg ''retire''] (Authorize ''role:retire'' orgResource)
       (authed (\<lambda>u org. roles_retire i u))"
| "roles_controller (Roles_Revive i) =
     route ''POST'' [Seg ''roles'', Arg i, Seg ''revive''] (Authorize ''role:revive'' orgResource)
       (authed (\<lambda>u org. roles_revive i u))"

datatype divisions_endpoint =
  Divisions_List bool | Divisions_Create "(string \<times> division_input) option"
| Divisions_Update id "division_input option" | Divisions_Retire id | Divisions_Revive id

fun divisions_controller :: "divisions_endpoint \<Rightarrow> handler" where
  "divisions_controller (Divisions_List retd) =
     route ''GET'' [Seg ''divisions''] (Authorize ''division:create'' orgResource)
       (authed (\<lambda>u org. divisions_list org retd))"
| "divisions_controller (Divisions_Create body) =
     route ''POST'' [Seg ''divisions''] (Authorize ''division:create'' orgResource)
       (parsed body (\<lambda>(n, d). authed (\<lambda>u org. divisions_create org u n d)))"
| "divisions_controller (Divisions_Update i body) =
     route ''PATCH'' [Seg ''divisions'', Arg i] (Authorize ''division:update'' (divisionResource i))
       (parsed body (\<lambda>d. authed (\<lambda>u org. divisions_edit i u d)))"
| "divisions_controller (Divisions_Retire i) =
     route ''POST'' [Seg ''divisions'', Arg i, Seg ''retire''] (Authorize ''division:retire'' orgResource)
       (authed (\<lambda>u org. divisions_retire i u))"
| "divisions_controller (Divisions_Revive i) =
     route ''POST'' [Seg ''divisions'', Arg i, Seg ''revive''] (Authorize ''division:revive'' orgResource)
       (authed (\<lambda>u org. divisions_revive i u))"

datatype teams_endpoint =
  Teams_List bool | Teams_Create "(string \<times> bool option) option"
| Teams_Update id "(string option \<times> bool option) option" | Teams_Retire id | Teams_Revive id

fun teams_controller :: "teams_endpoint \<Rightarrow> handler" where
  "teams_controller (Teams_List retd) =
     route ''GET'' [Seg ''teams''] (Authorize ''team:create'' orgResource) (authed (\<lambda>u org. teams_list org retd))"
| "teams_controller (Teams_Create body) =
     route ''POST'' [Seg ''teams''] (Authorize ''team:create'' orgResource)
       (parsed body (\<lambda>(n, rc). authed (\<lambda>u org. teams_create org u n rc)))"
| "teams_controller (Teams_Update i body) =
     route ''PATCH'' [Seg ''teams'', Arg i] (Authorize ''team:update'' orgResource)
       (parsed body (\<lambda>(n, rc). authed (\<lambda>u org. teams_edit i u n rc)))"
| "teams_controller (Teams_Retire i) =
     route ''POST'' [Seg ''teams'', Arg i, Seg ''retire''] (Authorize ''team:retire'' orgResource)
       (authed (\<lambda>u org. teams_retire i u))"
| "teams_controller (Teams_Revive i) =
     route ''POST'' [Seg ''teams'', Arg i, Seg ''revive''] (Authorize ''team:revive'' orgResource)
       (authed (\<lambda>u org. teams_revive i u))"

datatype grants_endpoint =
  Grants_Actions | Grants_List bool | Grants_Create "(id \<times> grant_fields) option"
| Grants_Update id "grant_patch option" | Grants_Retire id | Grants_Revive id

fun grants_controller :: "env \<Rightarrow> grants_endpoint \<Rightarrow> handler" where
  "grants_controller e Grants_Actions =
     route ''GET'' [Seg ''actions''] (Authorize ''grant:create'' orgResource) (ungated (ret ALL_ACTION_STRINGS))"
| "grants_controller e (Grants_List retd) =
     route ''GET'' [Seg ''grants''] (Authorize ''grant:create'' orgResource)
       (authed (\<lambda>u org. gets (grants_list org retd)))"
| "grants_controller e (Grants_Create body) =
     route ''POST'' [Seg ''grants''] (Authorize ''grant:create'' orgResource)
       (parsed body (\<lambda>(r, x). authed (\<lambda>u org. grants_create (ev_validates e) (ev_uuid e) org u r x)))"
| "grants_controller e (Grants_Update i body) =
     route ''PATCH'' [Seg ''grants'', Arg i] (Authorize ''grant:update'' orgResource)
       (parsed body (\<lambda>x. authed (\<lambda>u org. grants_edit (ev_validates e) i u x)))"
| "grants_controller e (Grants_Retire i) =
     route ''POST'' [Seg ''grants'', Arg i, Seg ''retire''] (Authorize ''grant:retire'' orgResource)
       (authed (\<lambda>u org. grants_retire i u))"
| "grants_controller e (Grants_Revive i) =
     route ''POST'' [Seg ''grants'', Arg i, Seg ''revive''] (Authorize ''grant:revive'' orgResource)
       (authed (\<lambda>u org. grants_revive i u))"

text \<open>For the role to grant the raw body is read; a missing one is the empty string, no role's id.\<close>

datatype users_endpoint =
  Users_List bool | Users_Update id "string option" | Users_Deactivate id | Users_Reactivate id
| Users_Retire id | Users_Revive id | Users_GrantRole id id "id option" | Users_RevokeRole id id

fun users_controller :: "env \<Rightarrow> users_endpoint \<Rightarrow> handler" where
  "users_controller e (Users_List retd) =
     route ''GET'' [Seg ''users''] (Authorize ''user:update'' orgResource) (authed (\<lambda>u org. users_list org retd))"
| "users_controller e (Users_Update i body) =
     route ''PATCH'' [Seg ''users'', Arg i] (Authorize ''user:update'' (targetUser i))
       (parsed body (\<lambda>n. authed (\<lambda>u org. users_edit org i u n)))"
| "users_controller e (Users_Deactivate i) =
     route ''POST'' [Seg ''users'', Arg i, Seg ''deactivate''] (Authorize ''user:deactivate'' (targetUser i))
       (authed (\<lambda>u org. users_deactivate org i u))"
| "users_controller e (Users_Reactivate i) =
     route ''POST'' [Seg ''users'', Arg i, Seg ''reactivate''] (Authorize ''user:reactivate'' (targetUser i))
       (authed (\<lambda>u org. users_reactivate org i u))"
| "users_controller e (Users_Retire i) =
     route ''POST'' [Seg ''users'', Arg i, Seg ''retire''] (Authorize ''user:retire'' (targetUser i))
       (authed (\<lambda>u org. users_retire org i u))"
| "users_controller e (Users_Revive i) =
     route ''POST'' [Seg ''users'', Arg i, Seg ''revive''] (Authorize ''user:revive'' (reviveUser i))
       (authed (\<lambda>u org. users_revive org i u))"
| "users_controller e (Users_GrantRole i rawRole body) =
     route ''POST'' [Seg ''users'', Arg i, Seg ''roles'']
       (Authorize ''user:grant_role'' (userWithTargetRole rawRole i))
       (parsed body (\<lambda>r. authed (\<lambda>u org. grantRole (ev_engine e) org i r u)))"
| "users_controller e (Users_RevokeRole i r) =
     route ''DELETE'' [Seg ''users'', Arg i, Seg ''roles'', Arg r]
       (Authorize ''user:revoke_role'' (userWithTargetRole r i))
       (authed (\<lambda>u org. revokeRole (ev_engine e) org i r u))"

datatype config_endpoint = Config_Get | Config_Update "config_patch option"

fun config_controller :: "env \<Rightarrow> config_endpoint \<Rightarrow> handler" where
  "config_controller e Config_Get =
     route ''GET'' [Seg ''config''] (Authorize ''config:update'' orgResource) (authed (\<lambda>u org. config_get org))"
| "config_controller e (Config_Update body) =
     route ''PATCH'' [Seg ''config''] (Authorize ''config:update'' orgResource)
       (parsed body (\<lambda>p. authed (\<lambda>u org. config_update (ev_oauthCipher e) org u p)))"

datatype gc_endpoint = Gc_Sweep | Gc_DryRun

fun gc_controller :: "env \<Rightarrow> gc_endpoint \<Rightarrow> handler" where
  "gc_controller e Gc_Sweep =
     route ''POST'' [Seg ''gc'', Seg ''sweep''] (Authorize ''config:update'' orgResource)
       (authed (\<lambda>u org. sweep (ev_faults e)))"
| "gc_controller e Gc_DryRun =
     route ''POST'' [Seg ''gc'', Seg ''sweep'', Seg ''dry-run''] (Authorize ''config:update'' orgResource)
       (authed (\<lambda>u org. dryRun))"

definition activity_controller :: "activity_filters option \<Rightarrow> handler" where
  "activity_controller query =
     route ''GET'' [Seg ''activity''] (Authorize ''config:update'' orgResource)
       (parsed query (\<lambda>q. authed (\<lambda>u org. gets (activity_list org q))))"

definition health_controller :: handler where
  "health_controller = route ''GET'' [Seg ''health''] None (ungated (ret ()))"

datatype integrations_endpoint =
  Integrations_List bool | Integrations_Connect "connect_dto option" | Integrations_Update id "update_dto option"
| Integrations_RotateToken id "string option" | Integrations_Retire id | Integrations_Revive id
| Integrations_Mappings id | Integrations_CreateMapping id "mapping_dto option"
| Integrations_UpdateMapping id id "mapping_patch option" | Integrations_DeleteMapping id id
| Integrations_RetryMapping id id | Integrations_Sync id

fun integrations_controller :: "env \<Rightarrow> integrations_endpoint \<Rightarrow> handler" where
  "integrations_controller e (Integrations_List retd) =
     route ''GET'' [Seg ''integrations''] (Authorize ''integration:create'' orgResource)
       (authed (\<lambda>u org. gets (integrations_list org retd)))"
| "integrations_controller e (Integrations_Connect body) =
     route ''POST'' [Seg ''integrations''] (Authorize ''integration:create'' orgResource)
       (parsed body (\<lambda>dto. authed (\<lambda>u org. integrations_connect (ev_tokenCipher e) org u dto)))"
| "integrations_controller e (Integrations_Update i body) =
     route ''PATCH'' [Seg ''integrations'', Arg i] (Authorize ''integration:update'' orgResource)
       (parsed body (\<lambda>dto. authed (\<lambda>u org. integrations_update (ev_tokenCipher e) i u dto)))"
| "integrations_controller e (Integrations_RotateToken i body) =
     route ''POST'' [Seg ''integrations'', Arg i, Seg ''rotate-token''] (Authorize ''integration:update'' orgResource)
       (parsed body (\<lambda>tok. authed (\<lambda>u org. rotateToken (ev_tokenCipher e) i u tok)))"
| "integrations_controller e (Integrations_Retire i) =
     route ''POST'' [Seg ''integrations'', Arg i, Seg ''retire''] (Authorize ''integration:retire'' orgResource)
       (authed (\<lambda>u org. integrations_retire i u))"
| "integrations_controller e (Integrations_Revive i) =
     route ''POST'' [Seg ''integrations'', Arg i, Seg ''revive''] (Authorize ''integration:revive'' orgResource)
       (authed (\<lambda>u org. integrations_revive i u))"
| "integrations_controller e (Integrations_Mappings i) =
     route ''GET'' [Seg ''integrations'', Arg i, Seg ''mappings''] (Authorize ''integration:update'' orgResource)
       (authed (\<lambda>u org. listMappings i))"
| "integrations_controller e (Integrations_CreateMapping i body) =
     route ''POST'' [Seg ''integrations'', Arg i, Seg ''mappings''] (Authorize ''integration:update'' orgResource)
       (parsed body (\<lambda>dto. authed (\<lambda>u org. createMapping i u dto)))"
| "integrations_controller e (Integrations_UpdateMapping i m body) =
     route ''PATCH'' [Seg ''integrations'', Arg i, Seg ''mappings'', Arg m] (Authorize ''integration:update'' orgResource)
       (parsed body (\<lambda>dto. authed (\<lambda>u org. updateMapping i m u dto)))"
| "integrations_controller e (Integrations_DeleteMapping i m) =
     route ''DELETE'' [Seg ''integrations'', Arg i, Seg ''mappings'', Arg m] (Authorize ''integration:update'' orgResource)
       (authed (\<lambda>u org. deleteMapping i m u))"
| "integrations_controller e (Integrations_RetryMapping i m) =
     route ''POST'' [Seg ''integrations'', Arg i, Seg ''mappings'', Arg m, Seg ''retry'']
       (Authorize ''integration:update'' orgResource)
       (authed (\<lambda>u org. post_retry (ev_queueUp e) i m u))"
| "integrations_controller e (Integrations_Sync i) =
     route ''POST'' [Seg ''integrations'', Arg i, Seg ''sync''] (Authorize ''integration:update'' orgResource)
       (authed (\<lambda>u org. post_sync (ev_queueUp e) i u))"

section \<open>Entry\<close>

text \<open>\<open>acceptInviteSchema\<close>'s body: passcode, email, password, display name. The invitation named by a
  revocation need not exist for the guard.\<close>

datatype invitations_endpoint =
  Bootstrap_Status | Invite_View string | Invite_Accept string "(string option \<times> string \<times> string \<times> string) option"
| Invitations_Create "(string option \<times> id list option \<times> time option) option" | Invitations_List | Invitations_Revoke id

fun invitations_controller :: "env \<Rightarrow> invitations_endpoint \<Rightarrow> handler" where
  "invitations_controller e Bootstrap_Status =
     route ''GET'' [Seg ''bootstrap''] None (ungated (gets (bootstrap_getStatus (ev_liveInviteToken e))))"
| "invitations_controller e (Invite_View tok) =
     route ''GET'' [Seg ''invite'', Tok tok] None (ungated (invitations_view (ev_hashToken e) tok))"
| "invitations_controller e (Invite_Accept tok body) =
     route ''POST'' [Seg ''invite'', Tok tok, Seg ''accept''] None
       (parsed body (\<lambda>(passcode, email, password, name). ungated (
          bnd (accept_invitation (ev_engine e) (ev_hashToken e) (ev_passcodeHash e) (ev_hashPassword e) (ev_mail e)
                 (ev_mailToken e) tok passcode email password name) (\<lambda>(userId, _).
          bnd (sessions_create (ev_hashToken e) (ev_sessionToken e) userId prov_password) (\<lambda>_.
          getMe (ev_engine e) userId)))))"
| "invitations_controller e (Invitations_Create body) =
     route ''POST'' [Seg ''invitations''] (Authorize ''invite:create'' orgResource)
       (parsed body (\<lambda>(email, roleIds, expires). authed (\<lambda>u org.
          invitations_create (ev_engine e) (ev_hashToken e) (ev_inviteToken e) u org email
            (case roleIds of None \<Rightarrow> [] | Some rs \<Rightarrow> rs) expires)))"
| "invitations_controller e Invitations_List =
     route ''GET'' [Seg ''invitations''] (Authorize ''invite:create'' orgResource)
       (authed (\<lambda>u org. gets (invitations_list org)))"
| "invitations_controller e (Invitations_Revoke i) =
     route ''POST'' [Seg ''invitations'', Arg i, Seg ''revoke'']
       (Authorize ''invite:retire'' (ret (Invitation, Eid i, [(''retired'', VBool False)])))
       (authed (\<lambda>u org. invitations_revoke i u))"

datatype auth_endpoint =
  Auth_Login "(string \<times> string) option" | Auth_Logout | Auth_Me
| Auth_ResendVerification "string option" | Auth_ConfirmVerification "string option"
| Auth_RequestReset "string option" | Auth_ConfirmReset "(string \<times> string) option"

fun auth_controller :: "env \<Rightarrow> http_request \<Rightarrow> auth_endpoint \<Rightarrow> handler" where
  "auth_controller e req (Auth_Login body) =
     route ''POST'' [Seg ''auth'', Seg ''login''] None
       (parsed body (\<lambda>(email, password). ungated (
          bnd (verifyPassword (ev_verify e) email password) (\<lambda>userId.
          bnd (sessions_create (ev_hashToken e) (ev_sessionToken e) userId prov_password) (\<lambda>_.
          getMe (ev_engine e) userId)))))"
| "auth_controller e req Auth_Logout =
     route ''POST'' [Seg ''auth'', Seg ''logout''] None
       (ungated (case truthy (hr_sessionCookie req) of None \<Rightarrow> ret () | Some tok \<Rightarrow> revokeByToken (ev_hashToken e) tok))"
| "auth_controller e req Auth_Me =
     route ''GET'' [Seg ''me''] None (authed (\<lambda>u org. getMe (ev_engine e) u))"
| "auth_controller e req (Auth_ResendVerification body) =
     route ''POST'' [Seg ''auth'', Seg ''verify-email'', Seg ''resend''] None
       (parsed body (\<lambda>email. ungated (resendVerification (ev_hashToken e) (ev_mail e) (ev_mailToken e) email)))"
| "auth_controller e req (Auth_ConfirmVerification body) =
     route ''POST'' [Seg ''auth'', Seg ''verify-email'', Seg ''confirm''] None
       (parsed body (\<lambda>tok. ungated (confirmVerification (ev_hashToken e) tok)))"
| "auth_controller e req (Auth_RequestReset body) =
     route ''POST'' [Seg ''auth'', Seg ''password-reset''] None
       (parsed body (\<lambda>email. ungated (requestPasswordReset (ev_hashToken e) (ev_mail e) (ev_mailToken e) email)))"
| "auth_controller e req (Auth_ConfirmReset body) =
     route ''POST'' [Seg ''auth'', Seg ''password-reset'', Seg ''confirm''] None
       (parsed body (\<lambda>(tok, password). ungated (confirmPasswordReset (ev_hashToken e) (ev_hashPassword e) tok password)))"

definition sign_in_of :: "env \<Rightarrow> sign_in" where
  "sign_in_of e =
     \<lparr>si_engine = ev_engine e, si_hashToken = ev_hashToken e, si_passcodeHash = ev_passcodeHash e,
      si_mail = ev_mail e, si_mailToken = ev_mailToken e, si_sessionToken = ev_sessionToken e,
      si_oauth = ev_oauth e, si_codec = ev_codec e, si_queueUp = ev_queueUp e\<rparr>"

datatype discord_endpoint =
  Discord_Login | Discord_Register "string option" | Discord_Start_Link | Discord_Unlink
| Discord_Callback "string option" "string option" "string option"

fun discord_controller :: "env \<Rightarrow> discord_endpoint \<Rightarrow> handler" where
  "discord_controller e Discord_Login =
     route ''GET'' [Seg ''auth'', Seg ''discord'', Seg ''login''] None
       (ungated (get_login (sign_in_of e) (ev_nonce e)))"
| "discord_controller e (Discord_Register invite) =
     route ''GET'' [Seg ''auth'', Seg ''discord'', Seg ''register''] None
       (ungated (get_register (sign_in_of e) (ev_nonce e) invite))"
| "discord_controller e Discord_Start_Link =
     route ''GET'' [Seg ''auth'', Seg ''discord'', Seg ''link''] None
       (\<lambda>session. ungated (get_link (sign_in_of e) (ev_nonce e) (map_option rs_userId session)) session)"
| "discord_controller e Discord_Unlink =
     route ''DELETE'' [Seg ''auth'', Seg ''discord''] None
       (authed (\<lambda>u org. bnd (unlink u) (\<lambda>_. getMe (ev_engine e) u)))"
| "discord_controller e (Discord_Callback code raw error) =
     route ''GET'' [Seg ''auth'', Seg ''discord'', Seg ''callback''] None
       (\<lambda>session. ungated (callback (sign_in_of e) code raw error (map_option rs_userId session)) session)"

section \<open>All of them\<close>

datatype endpoint =
  E_Tasks tasks_endpoint | E_Templates templates_endpoint | E_Submissions submissions_endpoint
| E_Messages messages_endpoint | E_Notifications notifications_endpoint | E_Attachments attachments_endpoint
| E_Roles roles_endpoint | E_Divisions divisions_endpoint | E_Teams teams_endpoint | E_Grants grants_endpoint
| E_Users users_endpoint | E_Config config_endpoint | E_Gc gc_endpoint | E_Activity "activity_filters option"
| E_Health | E_Integrations integrations_endpoint | E_Invitations invitations_endpoint | E_Auth auth_endpoint
| E_Discord discord_endpoint

fun handler_of :: "env \<Rightarrow> http_request \<Rightarrow> endpoint \<Rightarrow> handler" where
  "handler_of e req (E_Tasks x) = tasks_controller x"
| "handler_of e req (E_Templates x) = templates_controller x"
| "handler_of e req (E_Submissions x) = submissions_controller x"
| "handler_of e req (E_Messages x) = messages_controller x"
| "handler_of e req (E_Notifications x) = notifications_controller x"
| "handler_of e req (E_Attachments x) = attachments_controller e x"
| "handler_of e req (E_Roles x) = roles_controller x"
| "handler_of e req (E_Divisions x) = divisions_controller x"
| "handler_of e req (E_Teams x) = teams_controller x"
| "handler_of e req (E_Grants x) = grants_controller e x"
| "handler_of e req (E_Users x) = users_controller e x"
| "handler_of e req (E_Config x) = config_controller e x"
| "handler_of e req (E_Gc x) = gc_controller e x"
| "handler_of e req (E_Activity x) = activity_controller x"
| "handler_of e req E_Health = health_controller"
| "handler_of e req (E_Integrations x) = integrations_controller e x"
| "handler_of e req (E_Invitations x) = invitations_controller e x"
| "handler_of e req (E_Auth x) = auth_controller e req x"
| "handler_of e req (E_Discord x) = discord_controller e x"

text \<open>A request to an endpoint: the method is the route's.\<close>

definition serve_http :: "env \<Rightarrow> http_request \<Rightarrow> endpoint \<Rightarrow> unit svc" where
  "serve_http e req ep =
     handle_http (ev_hashToken e) (ev_engine e) (req\<lparr>hr_method := ha_method (handler_of e req ep)\<rparr>) (handler_of e req ep)"

end
