(* ===== verification/Web_Client.thy ===== *)
theory Web_Client
  imports Controllers Dto
begin

text \<open>
  The web client's calls (\<open>web/src/app/core/api.service.ts\<close>), as the request each of them sends, the
  credentials interceptor (\<open>http.interceptors.ts\<close>), and how the API reads a request: the route a
  controller declares and the schema or raw field behind each argument of an endpoint. An id in a
  path is one segment; in a body or query it is the string \<open>sh\<close> makes of it.
\<close>

section \<open>Requests\<close>

record web_request =
  wr_method :: string
  wr_path :: "seg list"
  wr_query :: "(string \<times> string) list"
  wr_body :: body
  wr_file :: "upload_file option"

definition sends :: "string \<Rightarrow> seg list \<Rightarrow> body \<Rightarrow> web_request" where
  "sends method path content =
     \<lparr>wr_method = method, wr_path = path, wr_query = [], wr_body = content, wr_file = None\<rparr>"

definition asks :: "seg list \<Rightarrow> (string \<times> string) list \<Rightarrow> web_request" where
  "asks path query = \<lparr>wr_method = ''GET'', wr_path = path, wr_query = query, wr_body = BNull, wr_file = None\<rparr>"

text \<open>\<open>?include=retired\<close>.\<close>

definition retiredQuery :: "bool \<Rightarrow> (string \<times> string) list" where
  "retiredQuery includeRetired = (if includeRetired then [(''include'', ''retired'')] else [])"

text \<open>\<open>if (v) params.set(k, v)\<close>: an absent, empty or zero value is left out.\<close>

definition param :: "string \<Rightarrow> string option \<Rightarrow> (string \<times> string) list" where
  "param k v = (case v of None \<Rightarrow> [] | Some x \<Rightarrow> if x = [] then [] else [(k, x)])"

definition page_params :: "(id \<Rightarrow> string) \<Rightarrow> id option \<Rightarrow> nat option \<Rightarrow> (string \<times> string) list" where
  "page_params sh after limit =
     param ''after'' (map_option sh after) @
     (case limit of None \<Rightarrow> [] | Some n \<Rightarrow> if n = 0 then [] else [(''limit'', int_string (int n))])"

text \<open>An optional property of an object literal.\<close>

definition field :: "string \<Rightarrow> ('a \<Rightarrow> body) \<Rightarrow> 'a option \<Rightarrow> (string \<times> body) list" where
  "field k enc v = (case v of None \<Rightarrow> [] | Some x \<Rightarrow> [(k, enc x)])"

definition num :: "int \<Rightarrow> body" where
  "num n = BNum (Fin (of_int n))"

section \<open>The calls\<close>

record task_filters =
  tf_division :: "id option"
  tf_team :: "id option"
  tf_status :: "status option"
  tf_requester :: "id option"
  tf_claimant :: "id option"

record audit_filters =
  qf_verb :: "string option"
  qf_verbPrefix :: "string option"
  qf_actorUserId :: "id option"
  qf_subjectType :: "string option"
  qf_subjectId :: "id option"
  qf_source :: "source option"
  qf_from :: "string option"
  qf_to :: "string option"

text \<open>Where the client's type admits further properties of a row (\<open>Partial<Division>\<close>, \<open>Partial<Team>\<close>),
  they are the last argument; \<open>color?: string | null\<close> is an option of an option.\<close>

datatype entry_call =
  Call_bootstrapStatus | Call_me | Call_login string string | Call_logout | Call_viewInvite string
| Call_acceptInvite string "string option" string string string | Call_createInvitation "string option"
| Call_listInvitations | Call_revokeInvitation id | Call_requestPasswordReset string
| Call_confirmPasswordReset string string | Call_confirmVerification string | Call_resendVerification string
| Call_unlinkDiscord

datatype org_call =
  Call_listRoles bool | Call_createRole string | Call_updateRole id "string option" "string option option"
| Call_retireRole id | Call_reviveRole id | Call_listDivisions bool
| Call_createDivision string division_input "(string \<times> body) list"
| Call_updateDivision id division_input "(string \<times> body) list" | Call_retireDivision id
| Call_reviveDivision id | Call_listTeams bool | Call_createTeam string "bool option"
| Call_updateTeam id "string option" "bool option" "(string \<times> body) list" | Call_retireTeam id
| Call_reviveTeam id

datatype member_call =
  Call_listActions | Call_listGrants bool
| Call_createGrant id string scope_kind "id option" "id option" "id option" | Call_retireGrant id
| Call_listUsers bool | Call_grantUserRole id id | Call_revokeUserRole id id | Call_deactivateUser id
| Call_reactivateUser id | Call_retireUser id | Call_reviveUser id | Call_getRequestTemplate id
| Call_putRequestTemplate id "body list" | Call_getConfig | Call_updateConfig "(string \<times> body) list"
| Call_listActivity audit_filters "id option" "nat option"

datatype task_call =
  Call_listTasks task_filters "id option" "nat option" | Call_getTask id
| Call_createTask string "string option" id "id option" | Call_updateTask id "string option" "string option"
| Call_retireTask id | Call_claimTask id | Call_leaveTask id | Call_removeClaimant id id
| Call_manageClaims id "int option" | Call_changeRequester id id | Call_getTaskRequestTemplate id
| Call_completeTask id

datatype work_call =
  Call_listMessages id "id option" "nat option" | Call_createMessage id string "id option"
| Call_updateMessage id string | Call_retireMessage id | Call_uploadAttachment id upload_file
| Call_attachmentUrl id | Call_listSubmissions id | Call_getSubmission id | Call_submit id "dto_answer list"
| Call_reviewSubmission id decision "string option" | Call_retireSubmission id string
| Call_notificationStream | Call_listNotifications "id option" "nat option" | Call_markNotificationRead id
| Call_markAllNotificationsRead

datatype integration_call =
  Call_listIntegrations bool | Call_connectIntegration string string "(string \<times> body) list option"
| Call_updateIntegration id "string option" "(string \<times> body) list option" | Call_retireIntegration id
| Call_reviveIntegration id | Call_listMappings id | Call_createMapping id id string sync_direction
| Call_deleteMapping id id | Call_retryMapping id id | Call_triggerSync id

datatype api_call =
  To_Entry entry_call | To_Org org_call | To_Members member_call | To_Tasks task_call | To_Work work_call | To_Integrations integration_call

fun direction_name :: "sync_direction \<Rightarrow> string" where
  "direction_name inbound = ''inbound''"
| "direction_name outbound = ''outbound''"
| "direction_name bidirectional = ''bidirectional''"

fun scope_kind_name :: "scope_kind \<Rightarrow> string" where
  "scope_kind_name scope_global = ''global''"
| "scope_kind_name scope_specific_division = ''specific_division''"
| "scope_kind_name scope_specific_team = ''specific_team''"
| "scope_kind_name scope_own_division = ''own_division''"
| "scope_kind_name scope_own_team = ''own_team''"
| "scope_kind_name scope_own = ''own''"
| "scope_kind_name scope_role = ''role''"

fun source_name :: "source \<Rightarrow> string" where
  "source_name src_patrice = ''patrice''"
| "source_name src_integration = ''integration''"
| "source_name src_system = ''system''"

fun value_body :: "dto_value \<Rightarrow> body" where
  "value_body (VStr x) = BStr x"
| "value_body (VNum n) = BNum n"
| "value_body (VArr xs) = BArr (map BStr xs)"

definition answer_body :: "(id \<Rightarrow> string) \<Rightarrow> dto_answer \<Rightarrow> body" where
  "answer_body sh a = BObj ([(''questionId'', BStr (sh (da_questionId a)))] @ field ''value'' value_body (da_value a) @
     field ''attachmentIds'' (\<lambda>is. BArr (map (BStr \<circ> sh) is)) (da_attachmentIds a))"

definition division_body :: "division_input \<Rightarrow> (string \<times> body) list" where
  "division_body d = field ''defaultOpenings'' num (di_defaultOpenings d) @
     field ''openingsLocked'' BBool (di_openingsLocked d) @ field ''restrictClaims'' BBool (di_restrictClaims d)"

definition task_params :: "(id \<Rightarrow> string) \<Rightarrow> task_filters \<Rightarrow> (string \<times> string) list" where
  "task_params sh f =
     param ''division'' (map_option sh (tf_division f)) @ param ''team'' (map_option sh (tf_team f)) @
     param ''status'' (map_option status_name (tf_status f)) @ param ''requester'' (map_option sh (tf_requester f)) @
     param ''claimant'' (map_option sh (tf_claimant f))"

definition audit_params :: "(id \<Rightarrow> string) \<Rightarrow> audit_filters \<Rightarrow> (string \<times> string) list" where
  "audit_params sh f =
     param ''verb'' (qf_verb f) @ param ''verbPrefix'' (qf_verbPrefix f) @
     param ''actorUserId'' (map_option sh (qf_actorUserId f)) @ param ''subjectType'' (qf_subjectType f) @
     param ''subjectId'' (map_option sh (qf_subjectId f)) @ param ''source'' (map_option source_name (qf_source f)) @
     param ''from'' (qf_from f) @ param ''to'' (qf_to f)"

definition empty_body :: body where
  "empty_body = BObj []"

definition post_to :: "seg list \<Rightarrow> web_request" where
  "post_to path = sends ''POST'' path empty_body"

text \<open>The request of each call, the global prefix of the API left out of the path.\<close>

primrec entry_request :: "(id \<Rightarrow> string) \<Rightarrow> entry_call \<Rightarrow> web_request" where
  "entry_request sh Call_bootstrapStatus = asks [Seg ''bootstrap''] []"
| "entry_request sh Call_me = asks [Seg ''me''] []"
| "entry_request sh (Call_login email password) =      sends ''POST'' [Seg ''auth'', Seg ''login''] (BObj [(''email'', BStr email), (''password'', BStr password)])"
| "entry_request sh Call_logout = post_to [Seg ''auth'', Seg ''logout'']"
| "entry_request sh (Call_viewInvite tok) = asks [Seg ''invite'', Tok tok] []"
| "entry_request sh (Call_acceptInvite tok passcode email password name) =      sends ''POST'' [Seg ''invite'', Tok tok, Seg ''accept'']
       (BObj (field ''passcode'' BStr passcode @
         [(''email'', BStr email), (''password'', BStr password), (''displayName'', BStr name)]))"
| "entry_request sh (Call_createInvitation email) = sends ''POST'' [Seg ''invitations''] (BObj (field ''email'' BStr email))"
| "entry_request sh Call_listInvitations = asks [Seg ''invitations''] []"
| "entry_request sh (Call_revokeInvitation i) = post_to [Seg ''invitations'', Arg i, Seg ''revoke'']"
| "entry_request sh (Call_requestPasswordReset email) =      sends ''POST'' [Seg ''auth'', Seg ''password-reset''] (BObj [(''email'', BStr email)])"
| "entry_request sh (Call_confirmPasswordReset tok password) =      sends ''POST'' [Seg ''auth'', Seg ''password-reset'', Seg ''confirm'']
       (BObj [(''token'', BStr tok), (''password'', BStr password)])"
| "entry_request sh (Call_confirmVerification tok) =      sends ''POST'' [Seg ''auth'', Seg ''verify-email'', Seg ''confirm''] (BObj [(''token'', BStr tok)])"
| "entry_request sh (Call_resendVerification email) =      sends ''POST'' [Seg ''auth'', Seg ''verify-email'', Seg ''resend''] (BObj [(''email'', BStr email)])"
| "entry_request sh Call_unlinkDiscord = sends ''DELETE'' [Seg ''auth'', Seg ''discord''] BNull"

primrec org_request :: "(id \<Rightarrow> string) \<Rightarrow> org_call \<Rightarrow> web_request" where
  "org_request sh (Call_listRoles retd) = asks [Seg ''roles''] (retiredQuery retd)"
| "org_request sh (Call_createRole n) = sends ''POST'' [Seg ''roles''] (BObj [(''name'', BStr n)])"
| "org_request sh (Call_updateRole i n color) =      sends ''PATCH'' [Seg ''roles'', Arg i]
       (BObj (field ''name'' BStr n @ field ''color'' (\<lambda>c. case c of None \<Rightarrow> BNull | Some x \<Rightarrow> BStr x) color))"
| "org_request sh (Call_retireRole i) = post_to [Seg ''roles'', Arg i, Seg ''retire'']"
| "org_request sh (Call_reviveRole i) = post_to [Seg ''roles'', Arg i, Seg ''revive'']"
| "org_request sh (Call_listDivisions retd) = asks [Seg ''divisions''] (retiredQuery retd)"
| "org_request sh (Call_createDivision n d extra) =      sends ''POST'' [Seg ''divisions''] (BObj ([(''name'', BStr n)] @ division_body d @ extra))"
| "org_request sh (Call_updateDivision i d extra) =      sends ''PATCH'' [Seg ''divisions'', Arg i] (BObj (field ''name'' BStr (di_name d) @ division_body d @ extra))"
| "org_request sh (Call_retireDivision i) = post_to [Seg ''divisions'', Arg i, Seg ''retire'']"
| "org_request sh (Call_reviveDivision i) = post_to [Seg ''divisions'', Arg i, Seg ''revive'']"
| "org_request sh (Call_listTeams retd) = asks [Seg ''teams''] (retiredQuery retd)"
| "org_request sh (Call_createTeam n rc) =      sends ''POST'' [Seg ''teams''] (BObj ([(''name'', BStr n)] @ field ''restrictClaims'' BBool rc))"
| "org_request sh (Call_updateTeam i n rc extra) =      sends ''PATCH'' [Seg ''teams'', Arg i] (BObj (field ''name'' BStr n @ field ''restrictClaims'' BBool rc @ extra))"
| "org_request sh (Call_retireTeam i) = post_to [Seg ''teams'', Arg i, Seg ''retire'']"
| "org_request sh (Call_reviveTeam i) = post_to [Seg ''teams'', Arg i, Seg ''revive'']"

primrec member_request :: "(id \<Rightarrow> string) \<Rightarrow> member_call \<Rightarrow> web_request" where
  "member_request sh Call_listActions = asks [Seg ''actions''] []"
| "member_request sh (Call_listGrants retd) = asks [Seg ''grants''] (retiredQuery retd)"
| "member_request sh (Call_createGrant r a k d t sr) =      sends ''POST'' [Seg ''grants'']
       (BObj ([(''roleId'', BStr (sh r)), (''action'', BStr a), (''scopeKind'', BStr (scope_kind_name k))] @
         field ''scopeDivisionId'' (BStr \<circ> sh) d @ field ''scopeTeamId'' (BStr \<circ> sh) t @ field ''scopeRoleId'' (BStr \<circ> sh) sr))"
| "member_request sh (Call_retireGrant i) = post_to [Seg ''grants'', Arg i, Seg ''retire'']"
| "member_request sh (Call_listUsers retd) = asks [Seg ''users''] (retiredQuery retd)"
| "member_request sh (Call_grantUserRole i r) =      sends ''POST'' [Seg ''users'', Arg i, Seg ''roles''] (BObj [(''roleId'', BStr (sh r))])"
| "member_request sh (Call_revokeUserRole i r) = sends ''DELETE'' [Seg ''users'', Arg i, Seg ''roles'', Arg r] BNull"
| "member_request sh (Call_deactivateUser i) = post_to [Seg ''users'', Arg i, Seg ''deactivate'']"
| "member_request sh (Call_reactivateUser i) = post_to [Seg ''users'', Arg i, Seg ''reactivate'']"
| "member_request sh (Call_retireUser i) = post_to [Seg ''users'', Arg i, Seg ''retire'']"
| "member_request sh (Call_reviveUser i) = post_to [Seg ''users'', Arg i, Seg ''revive'']"
| "member_request sh (Call_getRequestTemplate i) = asks [Seg ''divisions'', Arg i, Seg ''request-template''] []"
| "member_request sh (Call_putRequestTemplate i qs) =      sends ''PUT'' [Seg ''divisions'', Arg i, Seg ''request-template''] (BObj [(''questions'', BArr qs)])"
| "member_request sh Call_getConfig = asks [Seg ''config''] []"
| "member_request sh (Call_updateConfig kvs) = sends ''PATCH'' [Seg ''config''] (BObj kvs)"
| "member_request sh (Call_listActivity f after limit) = asks [Seg ''activity''] (audit_params sh f @ page_params sh after limit)"

primrec task_request :: "(id \<Rightarrow> string) \<Rightarrow> task_call \<Rightarrow> web_request" where
  "task_request sh (Call_listTasks f after limit) = asks [Seg ''tasks''] (task_params sh f @ page_params sh after limit)"
| "task_request sh (Call_getTask i) = asks [Seg ''tasks'', Arg i] []"
| "task_request sh (Call_createTask n d k tm) =      sends ''POST'' [Seg ''tasks'']
       (BObj ([(''name'', BStr n)] @ field ''description'' BStr d @ [(''divisionId'', BStr (sh k))] @
         field ''teamId'' (BStr \<circ> sh) tm))"
| "task_request sh (Call_updateTask i n d) =      sends ''PATCH'' [Seg ''tasks'', Arg i] (BObj (field ''name'' BStr n @ field ''description'' BStr d))"
| "task_request sh (Call_retireTask i) = post_to [Seg ''tasks'', Arg i, Seg ''retire'']"
| "task_request sh (Call_claimTask i) = post_to [Seg ''tasks'', Arg i, Seg ''claim'']"
| "task_request sh (Call_leaveTask i) = post_to [Seg ''tasks'', Arg i, Seg ''leave'']"
| "task_request sh (Call_removeClaimant i u) = sends ''DELETE'' [Seg ''tasks'', Arg i, Seg ''claimants'', Arg u] BNull"
| "task_request sh (Call_manageClaims i delta) =      sends ''POST'' [Seg ''tasks'', Arg i, Seg ''claims''] (BObj (field ''openingsDelta'' num delta))"
| "task_request sh (Call_changeRequester i u) =      sends ''POST'' [Seg ''tasks'', Arg i, Seg ''requester''] (BObj [(''userId'', BStr (sh u))])"
| "task_request sh (Call_getTaskRequestTemplate i) = asks [Seg ''tasks'', Arg i, Seg ''request-template''] []"
| "task_request sh (Call_completeTask i) = post_to [Seg ''tasks'', Arg i, Seg ''complete'']"

primrec work_request :: "(id \<Rightarrow> string) \<Rightarrow> work_call \<Rightarrow> web_request" where
  "work_request sh (Call_listMessages i after limit) = asks [Seg ''tasks'', Arg i, Seg ''messages''] (page_params sh after limit)"
| "work_request sh (Call_createMessage i b parent) =      sends ''POST'' [Seg ''tasks'', Arg i, Seg ''messages'']
       (BObj ([(''body'', BStr b)] @ field ''parentMessageId'' (BStr \<circ> sh) parent))"
| "work_request sh (Call_updateMessage i b) = sends ''PATCH'' [Seg ''messages'', Arg i] (BObj [(''body'', BStr b)])"
| "work_request sh (Call_retireMessage i) = post_to [Seg ''messages'', Arg i, Seg ''retire'']"
| "work_request sh (Call_uploadAttachment i file) =      (sends ''POST'' [Seg ''messages'', Arg i, Seg ''attachments''] BNull)\<lparr>wr_file := Some file\<rparr>"
| "work_request sh (Call_attachmentUrl i) = asks [Seg ''attachments'', Arg i] []"
| "work_request sh (Call_listSubmissions i) = asks [Seg ''tasks'', Arg i, Seg ''submissions''] []"
| "work_request sh (Call_getSubmission i) = asks [Seg ''submissions'', Arg i] []"
| "work_request sh (Call_submit i aws) =      sends ''POST'' [Seg ''tasks'', Arg i, Seg ''submissions''] (BObj [(''answers'', BArr (map (answer_body sh) aws))])"
| "work_request sh (Call_reviewSubmission i d c) =      sends ''POST'' [Seg ''submissions'', Arg i, Seg ''review'']
       (BObj ([(''decision'', BStr (decision_name d))] @ field ''comment'' BStr c))"
| "work_request sh (Call_retireSubmission i r) =      sends ''POST'' [Seg ''submissions'', Arg i, Seg ''retire''] (BObj [(''reason'', BStr r)])"
| "work_request sh Call_notificationStream = asks [Seg ''notifications'', Seg ''stream''] []"
| "work_request sh (Call_listNotifications after limit) = asks [Seg ''notifications''] (page_params sh after limit)"
| "work_request sh (Call_markNotificationRead i) = post_to [Seg ''notifications'', Arg i, Seg ''read'']"
| "work_request sh Call_markAllNotificationsRead = post_to [Seg ''notifications'', Seg ''read-all'']"

primrec integration_request :: "(id \<Rightarrow> string) \<Rightarrow> integration_call \<Rightarrow> web_request" where
  "integration_request sh (Call_listIntegrations retd) = asks [Seg ''integrations''] (retiredQuery retd)"
| "integration_request sh (Call_connectIntegration w n c) =      sends ''POST'' [Seg ''integrations'']
       (BObj ([(''provider'', BStr ''discord''), (''externalWorkspaceId'', BStr w), (''displayName'', BStr n)] @
         field ''config'' BObj c))"
| "integration_request sh (Call_updateIntegration i n c) =      sends ''PATCH'' [Seg ''integrations'', Arg i] (BObj (field ''displayName'' BStr n @ field ''config'' BObj c))"
| "integration_request sh (Call_retireIntegration i) = post_to [Seg ''integrations'', Arg i, Seg ''retire'']"
| "integration_request sh (Call_reviveIntegration i) = post_to [Seg ''integrations'', Arg i, Seg ''revive'']"
| "integration_request sh (Call_listMappings i) = asks [Seg ''integrations'', Arg i, Seg ''mappings''] []"
| "integration_request sh (Call_createMapping i r g d) =      sends ''POST'' [Seg ''integrations'', Arg i, Seg ''mappings'']
       (BObj [(''roleId'', BStr (sh r)), (''externalGroupId'', BStr g), (''syncDirection'', BStr (direction_name d))])"
| "integration_request sh (Call_deleteMapping i m) = sends ''DELETE'' [Seg ''integrations'', Arg i, Seg ''mappings'', Arg m] BNull"
| "integration_request sh (Call_retryMapping i m) = post_to [Seg ''integrations'', Arg i, Seg ''mappings'', Arg m, Seg ''retry'']"
| "integration_request sh (Call_triggerSync i) = post_to [Seg ''integrations'', Arg i, Seg ''sync'']"

primrec api_request :: "(id \<Rightarrow> string) \<Rightarrow> api_call \<Rightarrow> web_request" where
  "api_request sh (To_Entry c) = entry_request sh c"
| "api_request sh (To_Org c) = org_request sh c"
| "api_request sh (To_Members c) = member_request sh c"
| "api_request sh (To_Tasks c) = task_request sh c"
| "api_request sh (To_Work c) = work_request sh c"
| "api_request sh (To_Integrations c) = integration_request sh c"

text \<open>\<open>credentialsInterceptor\<close>: the browser's cookies, and the token's header on a writing method when its
  cookie is there and not empty.\<close>

definition credentialsInterceptor :: "string option \<Rightarrow> string option \<Rightarrow> web_request \<Rightarrow> http_request" where
  "credentialsInterceptor sessionCookie csrfCookie rq =
     \<lparr>hr_method = wr_method rq, hr_sessionCookie = sessionCookie, hr_csrfCookie = csrfCookie,
      hr_csrfHeader = (if wr_method rq \<in> set MUTATING then truthy csrfCookie else None)\<rparr>"

section \<open>How the API reads a request\<close>

definition query_body :: "web_request \<Rightarrow> body" where
  "query_body rq = BObj (map (\<lambda>(k, v). (k, BStr v)) (wr_query rq))"

definition query_value :: "string \<Rightarrow> web_request \<Rightarrow> string option" where
  "query_value k rq = map_of (wr_query rq) k"

definition wants_retired :: "web_request \<Rightarrow> bool" where
  "wants_retired rq \<longleftrightarrow> query_value ''include'' rq = Some ''retired''"

text \<open>An id a guard reads off the body before the schema does.\<close>

fun raw_id :: "formats \<Rightarrow> string \<Rightarrow> body \<Rightarrow> id option" where
  "raw_id fm k (BObj kvs) = (case map_of kvs k of Some (BStr x) \<Rightarrow> fm_uuid fm x | _ \<Rightarrow> None)"
| "raw_id fm k _ = None"

text \<open>The arguments of an endpoint that are not in its path.\<close>

definition tasks_args :: "formats \<Rightarrow> web_request \<Rightarrow> tasks_endpoint \<Rightarrow> bool" where
  "tasks_args fm rq ep \<longleftrightarrow>
     (case ep of
        Tasks_List q \<Rightarrow> q = listTasksQuerySchema fm (query_body rq)
      | Tasks_Create d t b \<Rightarrow> b = createTaskSchema fm (wr_body rq) \<and> d = raw_id fm ''divisionId'' (wr_body rq) \<and> t = raw_id fm ''teamId'' (wr_body rq)
      | Tasks_Update i b \<Rightarrow> b = updateTaskSchema (wr_body rq)
      | Tasks_ManageClaims i b \<Rightarrow> b = manageClaimsSchema (wr_body rq)
      | Tasks_ChangeRequester i b \<Rightarrow> b = changeRequesterSchema fm (wr_body rq)
      | Tasks_PutTemplate i b \<Rightarrow> b = putRequestTemplateSchema (wr_body rq)
      | _ \<Rightarrow> True)"

definition templates_args :: "formats \<Rightarrow> web_request \<Rightarrow> templates_endpoint \<Rightarrow> bool" where
  "templates_args fm rq ep \<longleftrightarrow>
     (case ep of
        Templates_Put i b \<Rightarrow> b = putRequestTemplateSchema (wr_body rq)
      | _ \<Rightarrow> True)"

definition submissions_args :: "formats \<Rightarrow> web_request \<Rightarrow> submissions_endpoint \<Rightarrow> bool" where
  "submissions_args fm rq ep \<longleftrightarrow>
     (case ep of
        Submissions_Submit i b \<Rightarrow> b = submitSchema fm (wr_body rq)
      | Submissions_Review i b \<Rightarrow> b = reviewSchema (wr_body rq)
      | Submissions_Retire i b \<Rightarrow> b = retireSubmissionSchema (wr_body rq)
      | _ \<Rightarrow> True)"

definition messages_args :: "formats \<Rightarrow> web_request \<Rightarrow> messages_endpoint \<Rightarrow> bool" where
  "messages_args fm rq ep \<longleftrightarrow>
     (case ep of
        Messages_List i q \<Rightarrow> q = listMessagesQuerySchema fm (query_body rq)
      | Messages_Create i b \<Rightarrow> b = createMessageSchema fm (wr_body rq)
      | Messages_Update i b \<Rightarrow> b = updateMessageSchema (wr_body rq)
      | _ \<Rightarrow> True)"

definition notifications_args :: "formats \<Rightarrow> web_request \<Rightarrow> notifications_endpoint \<Rightarrow> bool" where
  "notifications_args fm rq ep \<longleftrightarrow>
     (case ep of
        Notifications_List q \<Rightarrow> q = listNotificationsQuerySchema fm (query_body rq)
      | _ \<Rightarrow> True)"

definition attachments_args :: "formats \<Rightarrow> web_request \<Rightarrow> attachments_endpoint \<Rightarrow> bool" where
  "attachments_args fm rq ep \<longleftrightarrow>
     (case ep of
        Attachments_Upload i file \<Rightarrow> file = wr_file rq
      | _ \<Rightarrow> True)"

definition roles_args :: "formats \<Rightarrow> web_request \<Rightarrow> roles_endpoint \<Rightarrow> bool" where
  "roles_args fm rq ep \<longleftrightarrow>
     (case ep of
        Roles_List retd \<Rightarrow> retd = wants_retired rq
      | Roles_Create b \<Rightarrow> b = createRoleSchema (wr_body rq)
      | Roles_Update i b \<Rightarrow> b = updateRoleSchema (wr_body rq)
      | _ \<Rightarrow> True)"

definition divisions_args :: "formats \<Rightarrow> web_request \<Rightarrow> divisions_endpoint \<Rightarrow> bool" where
  "divisions_args fm rq ep \<longleftrightarrow>
     (case ep of
        Divisions_List retd \<Rightarrow> retd = wants_retired rq
      | Divisions_Create b \<Rightarrow> b = createDivisionSchema (wr_body rq)
      | Divisions_Update i b \<Rightarrow> b = updateDivisionSchema (wr_body rq)
      | _ \<Rightarrow> True)"

definition teams_args :: "formats \<Rightarrow> web_request \<Rightarrow> teams_endpoint \<Rightarrow> bool" where
  "teams_args fm rq ep \<longleftrightarrow>
     (case ep of
        Teams_List retd \<Rightarrow> retd = wants_retired rq
      | Teams_Create b \<Rightarrow> b = createTeamSchema (wr_body rq)
      | Teams_Update i b \<Rightarrow> b = updateTeamSchema (wr_body rq)
      | _ \<Rightarrow> True)"

definition grants_args :: "formats \<Rightarrow> web_request \<Rightarrow> grants_endpoint \<Rightarrow> bool" where
  "grants_args fm rq ep \<longleftrightarrow>
     (case ep of
        Grants_List retd \<Rightarrow> retd = wants_retired rq
      | Grants_Create b \<Rightarrow> b = createGrantSchema fm (wr_body rq)
      | Grants_Update i b \<Rightarrow> b = updateGrantSchema fm (wr_body rq)
      | _ \<Rightarrow> True)"

definition users_args :: "formats \<Rightarrow> web_request \<Rightarrow> users_endpoint \<Rightarrow> bool" where
  "users_args fm rq ep \<longleftrightarrow>
     (case ep of
        Users_List retd \<Rightarrow> retd = wants_retired rq
      | Users_Update i b \<Rightarrow> b = updateUserSchema (wr_body rq)
      | Users_GrantRole i raw b \<Rightarrow> b = grantRoleSchema fm (wr_body rq) \<and> (\<forall>r. raw_id fm ''roleId'' (wr_body rq) = Some r \<longrightarrow> raw = r)
      | _ \<Rightarrow> True)"

definition config_args :: "formats \<Rightarrow> web_request \<Rightarrow> config_endpoint \<Rightarrow> bool" where
  "config_args fm rq ep \<longleftrightarrow>
     (case ep of
        Config_Update b \<Rightarrow> b = updateConfig_dto (wr_body rq)
      | _ \<Rightarrow> True)"

definition integrations_args :: "formats \<Rightarrow> web_request \<Rightarrow> integrations_endpoint \<Rightarrow> bool" where
  "integrations_args fm rq ep \<longleftrightarrow>
     (case ep of
        Integrations_List retd \<Rightarrow> retd = wants_retired rq
      | Integrations_Connect b \<Rightarrow> b = connectIntegrationSchema (wr_body rq)
      | Integrations_Update i b \<Rightarrow> b = updateIntegrationSchema (wr_body rq)
      | Integrations_RotateToken i b \<Rightarrow> b = rotateTokenSchema (wr_body rq)
      | Integrations_CreateMapping i b \<Rightarrow> b = createMappingSchema fm (wr_body rq)
      | Integrations_UpdateMapping i m b \<Rightarrow> b = updateMappingSchema (wr_body rq)
      | _ \<Rightarrow> True)"

definition invitations_args :: "formats \<Rightarrow> web_request \<Rightarrow> invitations_endpoint \<Rightarrow> bool" where
  "invitations_args fm rq ep \<longleftrightarrow>
     (case ep of
        Invite_Accept tok b \<Rightarrow> b = acceptInviteSchema fm (wr_body rq)
      | Invitations_Create b \<Rightarrow> b = createInvitationSchema fm (wr_body rq)
      | _ \<Rightarrow> True)"

definition auth_args :: "formats \<Rightarrow> web_request \<Rightarrow> auth_endpoint \<Rightarrow> bool" where
  "auth_args fm rq ep \<longleftrightarrow>
     (case ep of
        Auth_Login b \<Rightarrow> b = loginSchema fm (wr_body rq)
      | Auth_ResendVerification b \<Rightarrow> b = resendVerificationSchema fm (wr_body rq)
      | Auth_ConfirmVerification b \<Rightarrow> b = confirmVerificationSchema (wr_body rq)
      | Auth_RequestReset b \<Rightarrow> b = passwordResetRequestSchema fm (wr_body rq)
      | Auth_ConfirmReset b \<Rightarrow> b = passwordResetConfirmSchema (wr_body rq)
      | _ \<Rightarrow> True)"

definition discord_args :: "formats \<Rightarrow> web_request \<Rightarrow> discord_endpoint \<Rightarrow> bool" where
  "discord_args fm rq ep \<longleftrightarrow>
     (case ep of
        Discord_Register tok \<Rightarrow> tok = query_value ''invite'' rq
      | Discord_Callback code st er \<Rightarrow> code = query_value ''code'' rq \<and> st = query_value ''state'' rq \<and> er = query_value ''error'' rq
      | _ \<Rightarrow> True)"

primrec args_match :: "formats \<Rightarrow> web_request \<Rightarrow> endpoint \<Rightarrow> bool" where
  "args_match fm rq (E_Tasks x) \<longleftrightarrow> tasks_args fm rq x"
| "args_match fm rq (E_Templates x) \<longleftrightarrow> templates_args fm rq x"
| "args_match fm rq (E_Submissions x) \<longleftrightarrow> submissions_args fm rq x"
| "args_match fm rq (E_Messages x) \<longleftrightarrow> messages_args fm rq x"
| "args_match fm rq (E_Notifications x) \<longleftrightarrow> notifications_args fm rq x"
| "args_match fm rq (E_Attachments x) \<longleftrightarrow> attachments_args fm rq x"
| "args_match fm rq (E_Roles x) \<longleftrightarrow> roles_args fm rq x"
| "args_match fm rq (E_Divisions x) \<longleftrightarrow> divisions_args fm rq x"
| "args_match fm rq (E_Teams x) \<longleftrightarrow> teams_args fm rq x"
| "args_match fm rq (E_Grants x) \<longleftrightarrow> grants_args fm rq x"
| "args_match fm rq (E_Users x) \<longleftrightarrow> users_args fm rq x"
| "args_match fm rq (E_Config x) \<longleftrightarrow> config_args fm rq x"
| "args_match fm rq (E_Gc x) \<longleftrightarrow> True"
| "args_match fm rq (E_Activity q) \<longleftrightarrow> q = listActivityQuerySchema fm (query_body rq)"
| "args_match fm rq E_Health \<longleftrightarrow> True"
| "args_match fm rq (E_Integrations x) \<longleftrightarrow> integrations_args fm rq x"
| "args_match fm rq (E_Invitations x) \<longleftrightarrow> invitations_args fm rq x"
| "args_match fm rq (E_Auth x) \<longleftrightarrow> auth_args fm rq x"
| "args_match fm rq (E_Discord x) \<longleftrightarrow> discord_args fm rq x"

definition routed :: "env \<Rightarrow> formats \<Rightarrow> http_request \<Rightarrow> web_request \<Rightarrow> endpoint \<Rightarrow> bool" where
  "routed e fm hq rq ep \<longleftrightarrow>
     wr_method rq = ha_method (handler_of e hq ep) \<and> wr_path rq = ha_path (handler_of e hq ep) \<and> args_match fm rq ep"

end
