(* ===== verification/Routes.thy ===== *)
theory Routes
  imports Web_Client
begin

text \<open>
  No two endpoints of the API answer the same request: the first segment tells most controllers apart,
  the rest of the path and the method their routes. And where a guard reads the raw body, it sees what
  the schema will make of it.
\<close>

section \<open>What a guard reads off the body is what the schema makes of it\<close>

lemma strict_fields: "z_strict ks b = Some f \<Longrightarrow> \<exists>kvs. b = BObj kvs \<and> f = map_of kvs"
  by (cases b) (auto split: if_splits)

lemma uuid_text: "z_uuid fm v = Some r \<Longrightarrow> \<exists>x. v = BStr x \<and> fm_uuid fm x = Some r"
  by (cases v) auto

lemma raw_role: "grantRoleSchema fm b = Some r \<Longrightarrow> raw_id fm ''roleId'' b = Some r"
  by (auto simp: grantRoleSchema_def bind_eq_Some_conv must_def dest!: strict_fields uuid_text split: option.splits)

lemma raw_division: "createTaskSchema fm b = Some (n, d, k, t) \<Longrightarrow> raw_id fm ''divisionId'' b = Some k"
  by (auto simp: createTaskSchema_def bind_eq_Some_conv must_def dest!: strict_fields uuid_text split: option.splits)

lemma raw_team: "createTaskSchema fm b = Some (n, d, k, t) \<Longrightarrow> raw_id fm ''teamId'' b = t"
  by (auto simp: createTaskSchema_def bind_eq_Some_conv maybe_def dest!: strict_fields uuid_text split: option.splits)

section \<open>Routes\<close>

text \<open>The first segments of a controller's routes.\<close>

primrec firsts :: "endpoint \<Rightarrow> string set" where
  "firsts (E_Tasks x) = {''tasks''}"
| "firsts (E_Templates x) = {''divisions''}"
| "firsts (E_Submissions x) = {''tasks'', ''submissions''}"
| "firsts (E_Messages x) = {''tasks'', ''messages''}"
| "firsts (E_Notifications x) = {''notifications''}"
| "firsts (E_Attachments x) = {''messages'', ''attachments''}"
| "firsts (E_Roles x) = {''roles''}"
| "firsts (E_Divisions x) = {''divisions''}"
| "firsts (E_Teams x) = {''teams''}"
| "firsts (E_Grants x) = {''actions'', ''grants''}"
| "firsts (E_Users x) = {''users''}"
| "firsts (E_Config x) = {''config''}"
| "firsts (E_Gc x) = {''gc''}"
| "firsts (E_Activity x) = {''activity''}"
| "firsts E_Health = {''health''}"
| "firsts (E_Integrations x) = {''integrations''}"
| "firsts (E_Invitations x) = {''bootstrap'', ''invite'', ''invitations''}"
| "firsts (E_Auth x) = {''auth'', ''me''}"
| "firsts (E_Discord x) = {''auth''}"

lemma first_segments:
  "routed e fm hq rq (E_Tasks x0) \<Longrightarrow> hd (wr_path rq) \<in> Seg ` firsts (E_Tasks x0)"
  "routed e fm hq rq (E_Templates x1) \<Longrightarrow> hd (wr_path rq) \<in> Seg ` firsts (E_Templates x1)"
  "routed e fm hq rq (E_Submissions x2) \<Longrightarrow> hd (wr_path rq) \<in> Seg ` firsts (E_Submissions x2)"
  "routed e fm hq rq (E_Messages x3) \<Longrightarrow> hd (wr_path rq) \<in> Seg ` firsts (E_Messages x3)"
  "routed e fm hq rq (E_Notifications x4) \<Longrightarrow> hd (wr_path rq) \<in> Seg ` firsts (E_Notifications x4)"
  "routed e fm hq rq (E_Attachments x5) \<Longrightarrow> hd (wr_path rq) \<in> Seg ` firsts (E_Attachments x5)"
  "routed e fm hq rq (E_Roles x6) \<Longrightarrow> hd (wr_path rq) \<in> Seg ` firsts (E_Roles x6)"
  "routed e fm hq rq (E_Divisions x7) \<Longrightarrow> hd (wr_path rq) \<in> Seg ` firsts (E_Divisions x7)"
  "routed e fm hq rq (E_Teams x8) \<Longrightarrow> hd (wr_path rq) \<in> Seg ` firsts (E_Teams x8)"
  "routed e fm hq rq (E_Grants x9) \<Longrightarrow> hd (wr_path rq) \<in> Seg ` firsts (E_Grants x9)"
  "routed e fm hq rq (E_Users x10) \<Longrightarrow> hd (wr_path rq) \<in> Seg ` firsts (E_Users x10)"
  "routed e fm hq rq (E_Config x11) \<Longrightarrow> hd (wr_path rq) \<in> Seg ` firsts (E_Config x11)"
  "routed e fm hq rq (E_Gc x12) \<Longrightarrow> hd (wr_path rq) \<in> Seg ` firsts (E_Gc x12)"
  "routed e fm hq rq (E_Activity x13) \<Longrightarrow> hd (wr_path rq) \<in> Seg ` firsts (E_Activity x13)"
  "routed e fm hq rq E_Health \<Longrightarrow> hd (wr_path rq) \<in> Seg ` firsts E_Health"
  "routed e fm hq rq (E_Integrations x15) \<Longrightarrow> hd (wr_path rq) \<in> Seg ` firsts (E_Integrations x15)"
  "routed e fm hq rq (E_Invitations x16) \<Longrightarrow> hd (wr_path rq) \<in> Seg ` firsts (E_Invitations x16)"
  "routed e fm hq rq (E_Auth x17) \<Longrightarrow> hd (wr_path rq) \<in> Seg ` firsts (E_Auth x17)"
  "routed e fm hq rq (E_Discord x18) \<Longrightarrow> hd (wr_path rq) \<in> Seg ` firsts (E_Discord x18)"
  subgoal by (cases x0) (auto simp: routed_def route_def)
  subgoal by (cases x1) (auto simp: routed_def route_def)
  subgoal by (cases x2) (auto simp: routed_def route_def)
  subgoal by (cases x3) (auto simp: routed_def route_def)
  subgoal by (cases x4) (auto simp: routed_def route_def)
  subgoal by (cases x5) (auto simp: routed_def route_def)
  subgoal by (cases x6) (auto simp: routed_def route_def)
  subgoal by (cases x7) (auto simp: routed_def route_def)
  subgoal by (cases x8) (auto simp: routed_def route_def)
  subgoal by (cases x9) (auto simp: routed_def route_def)
  subgoal by (cases x10) (auto simp: routed_def route_def)
  subgoal by (cases x11) (auto simp: routed_def route_def)
  subgoal by (cases x12) (auto simp: routed_def route_def)
  subgoal by (auto simp: routed_def route_def activity_controller_def)
  subgoal by (auto simp: routed_def route_def health_controller_def)
  subgoal by (cases x15) (auto simp: routed_def route_def)
  subgoal by (cases x16) (auto simp: routed_def route_def)
  subgoal by (cases x17) (auto simp: routed_def route_def)
  subgoal by (cases x18) (auto simp: routed_def route_def)
  done

lemma first_segment: "routed e fm hq rq ep \<Longrightarrow> hd (wr_path rq) \<in> Seg ` firsts ep"
  by (cases ep; hypsubst; rule first_segments; assumption)

text \<open>The role a guard reads off a body without one is not determined.\<close>

definition same_endpoint :: "endpoint \<Rightarrow> endpoint \<Rightarrow> bool" where
  "same_endpoint ep ep' \<longleftrightarrow> ep = ep' \<or>
     (\<exists>i raw raw'. ep = E_Users (Users_GrantRole i raw None) \<and> ep' = E_Users (Users_GrantRole i raw' None))"

lemma same_sym: "same_endpoint ep ep' \<Longrightarrow> same_endpoint ep' ep"
  by (auto simp: same_endpoint_def)

lemma same_controller:
  "routed e fm hq rq (E_Tasks x0) \<Longrightarrow> routed e fm hq rq (E_Tasks y0) \<Longrightarrow> same_endpoint (E_Tasks x0) (E_Tasks y0)"
  "routed e fm hq rq (E_Templates x1) \<Longrightarrow> routed e fm hq rq (E_Templates y1) \<Longrightarrow> same_endpoint (E_Templates x1) (E_Templates y1)"
  "routed e fm hq rq (E_Submissions x2) \<Longrightarrow> routed e fm hq rq (E_Submissions y2) \<Longrightarrow> same_endpoint (E_Submissions x2) (E_Submissions y2)"
  "routed e fm hq rq (E_Messages x3) \<Longrightarrow> routed e fm hq rq (E_Messages y3) \<Longrightarrow> same_endpoint (E_Messages x3) (E_Messages y3)"
  "routed e fm hq rq (E_Notifications x4) \<Longrightarrow> routed e fm hq rq (E_Notifications y4) \<Longrightarrow> same_endpoint (E_Notifications x4) (E_Notifications y4)"
  "routed e fm hq rq (E_Attachments x5) \<Longrightarrow> routed e fm hq rq (E_Attachments y5) \<Longrightarrow> same_endpoint (E_Attachments x5) (E_Attachments y5)"
  "routed e fm hq rq (E_Roles x6) \<Longrightarrow> routed e fm hq rq (E_Roles y6) \<Longrightarrow> same_endpoint (E_Roles x6) (E_Roles y6)"
  "routed e fm hq rq (E_Divisions x7) \<Longrightarrow> routed e fm hq rq (E_Divisions y7) \<Longrightarrow> same_endpoint (E_Divisions x7) (E_Divisions y7)"
  "routed e fm hq rq (E_Teams x8) \<Longrightarrow> routed e fm hq rq (E_Teams y8) \<Longrightarrow> same_endpoint (E_Teams x8) (E_Teams y8)"
  "routed e fm hq rq (E_Grants x9) \<Longrightarrow> routed e fm hq rq (E_Grants y9) \<Longrightarrow> same_endpoint (E_Grants x9) (E_Grants y9)"
  "routed e fm hq rq (E_Users x10) \<Longrightarrow> routed e fm hq rq (E_Users y10) \<Longrightarrow> same_endpoint (E_Users x10) (E_Users y10)"
  "routed e fm hq rq (E_Config x11) \<Longrightarrow> routed e fm hq rq (E_Config y11) \<Longrightarrow> same_endpoint (E_Config x11) (E_Config y11)"
  "routed e fm hq rq (E_Gc x12) \<Longrightarrow> routed e fm hq rq (E_Gc y12) \<Longrightarrow> same_endpoint (E_Gc x12) (E_Gc y12)"
  "routed e fm hq rq (E_Activity x13) \<Longrightarrow> routed e fm hq rq (E_Activity y13) \<Longrightarrow> same_endpoint (E_Activity x13) (E_Activity y13)"
  "routed e fm hq rq E_Health \<Longrightarrow> routed e fm hq rq E_Health \<Longrightarrow> same_endpoint E_Health E_Health"
  "routed e fm hq rq (E_Integrations x15) \<Longrightarrow> routed e fm hq rq (E_Integrations y15) \<Longrightarrow> same_endpoint (E_Integrations x15) (E_Integrations y15)"
  "routed e fm hq rq (E_Invitations x16) \<Longrightarrow> routed e fm hq rq (E_Invitations y16) \<Longrightarrow> same_endpoint (E_Invitations x16) (E_Invitations y16)"
  "routed e fm hq rq (E_Auth x17) \<Longrightarrow> routed e fm hq rq (E_Auth y17) \<Longrightarrow> same_endpoint (E_Auth x17) (E_Auth y17)"
  "routed e fm hq rq (E_Discord x18) \<Longrightarrow> routed e fm hq rq (E_Discord y18) \<Longrightarrow> same_endpoint (E_Discord x18) (E_Discord y18)"
  subgoal by (cases x0; cases y0) (auto simp: routed_def route_def same_endpoint_def tasks_args_def)
  subgoal by (cases x1; cases y1) (auto simp: routed_def route_def same_endpoint_def templates_args_def)
  subgoal by (cases x2; cases y2) (auto simp: routed_def route_def same_endpoint_def submissions_args_def)
  subgoal by (cases x3; cases y3) (auto simp: routed_def route_def same_endpoint_def messages_args_def)
  subgoal by (cases x4; cases y4) (auto simp: routed_def route_def same_endpoint_def notifications_args_def)
  subgoal by (cases x5; cases y5) (auto simp: routed_def route_def same_endpoint_def attachments_args_def)
  subgoal by (cases x6; cases y6) (auto simp: routed_def route_def same_endpoint_def roles_args_def)
  subgoal by (cases x7; cases y7) (auto simp: routed_def route_def same_endpoint_def divisions_args_def)
  subgoal by (cases x8; cases y8) (auto simp: routed_def route_def same_endpoint_def teams_args_def)
  subgoal by (cases x9; cases y9) (auto simp: routed_def route_def same_endpoint_def grants_args_def)
  subgoal by (cases x10; cases y10) (auto simp: routed_def route_def same_endpoint_def users_args_def dest: raw_role)
  subgoal by (cases x11; cases y11) (auto simp: routed_def route_def same_endpoint_def config_args_def)
  subgoal by (cases x12; cases y12) (auto simp: routed_def route_def same_endpoint_def)
  subgoal by (auto simp: routed_def same_endpoint_def)
  subgoal by (simp add: same_endpoint_def)
  subgoal by (cases x15; cases y15) (auto simp: routed_def route_def same_endpoint_def integrations_args_def)
  subgoal by (cases x16; cases y16) (auto simp: routed_def route_def same_endpoint_def invitations_args_def)
  subgoal by (cases x17; cases y17) (auto simp: routed_def route_def same_endpoint_def auth_args_def)
  subgoal by (cases x18; cases y18) (auto simp: routed_def route_def same_endpoint_def discord_args_def)
  done

lemma other_controller:
  "routed e fm hq rq (E_Tasks a0) \<Longrightarrow> routed e fm hq rq (E_Submissions b2) \<Longrightarrow> same_endpoint (E_Tasks a0) (E_Submissions b2)"
  "routed e fm hq rq (E_Tasks a0) \<Longrightarrow> routed e fm hq rq (E_Messages b3) \<Longrightarrow> same_endpoint (E_Tasks a0) (E_Messages b3)"
  "routed e fm hq rq (E_Templates a1) \<Longrightarrow> routed e fm hq rq (E_Divisions b7) \<Longrightarrow> same_endpoint (E_Templates a1) (E_Divisions b7)"
  "routed e fm hq rq (E_Submissions a2) \<Longrightarrow> routed e fm hq rq (E_Messages b3) \<Longrightarrow> same_endpoint (E_Submissions a2) (E_Messages b3)"
  "routed e fm hq rq (E_Messages a3) \<Longrightarrow> routed e fm hq rq (E_Attachments b5) \<Longrightarrow> same_endpoint (E_Messages a3) (E_Attachments b5)"
  "routed e fm hq rq (E_Auth a17) \<Longrightarrow> routed e fm hq rq (E_Discord b18) \<Longrightarrow> same_endpoint (E_Auth a17) (E_Discord b18)"
  subgoal by (cases a0; cases b2) (auto simp: routed_def route_def)
  subgoal by (cases a0; cases b3) (auto simp: routed_def route_def)
  subgoal by (cases a1; cases b7) (auto simp: routed_def route_def)
  subgoal by (cases a2; cases b3) (auto simp: routed_def route_def)
  subgoal by (cases a3; cases b5) (auto simp: routed_def route_def)
  subgoal by (cases a17; cases b18) (auto simp: routed_def route_def)
  done

lemma matching_pairs:
  "firsts ep \<inter> firsts ep' \<noteq> {} \<Longrightarrow> routed e fm hq rq ep \<Longrightarrow> routed e fm hq rq ep' \<Longrightarrow> same_endpoint ep ep'"
  by (cases ep; cases ep'; hypsubst; (simp; fail)?;
      (erule (1) same_controller | erule (1) other_controller | rule same_sym, erule (1) other_controller))

lemma one_endpoint:
  assumes "routed e fm hq rq ep" and "routed e fm hq rq ep'"
  shows "same_endpoint ep ep'"
proof (rule matching_pairs [OF _ assms])
  show "firsts ep \<inter> firsts ep' \<noteq> {}" using first_segment [OF assms(1)] first_segment [OF assms(2)] by auto
qed

end
