(* ===== verification/Sign_In_Properties.thy ===== *)
theory Sign_In_Properties
  imports Discord_Auth Invitation_Properties Auth_Properties
begin

text \<open>
  Signing in with the provider: what the signed state lets through, and what the provider's callback
  may do to sessions and accounts.
\<close>

section \<open>The signed state\<close>

lemma split_last_none: "split_last raw = None \<longleftrightarrow> CHR ''.'' \<notin> set raw"
  by (induction raw) (auto split: option.splits)

lemma split_last_sig: "split_last raw = Some (body, sig) \<Longrightarrow> raw = body @ ''.'' @ sig \<and> CHR ''.'' \<notin> set sig"
  by (induction raw arbitrary: body) (auto simp: split_last_none split: option.splits if_splits)

lemma last_dot:
  "CHR ''.'' \<notin> set b \<Longrightarrow> CHR ''.'' \<notin> set d \<Longrightarrow> a @ CHR ''.'' # b = c @ CHR ''.'' # d \<Longrightarrow> a = c \<and> b = d"
  by (induction a arbitrary: c) (auto simp: Cons_eq_append_conv)

lemma split_last_some:
  "split_last raw = Some (body, sig) \<longleftrightarrow> raw = body @ ''.'' @ sig \<and> CHR ''.'' \<notin> set sig"
proof
  assume "raw = body @ ''.'' @ sig \<and> CHR ''.'' \<notin> set sig"
  moreover from this obtain p where "split_last raw = Some p" using split_last_none [of raw] by (cases "split_last raw") auto
  ultimately show "split_last raw = Some (body, sig)" using split_last_sig [of raw "fst p" "snd p"] last_dot by (cases p) auto
qed (rule split_last_sig)
text \<open>C35: A state this server signed is accepted, with the intent, invitation and member it was signed for,
  exactly for ten minutes; and whatever is accepted is a body followed by the server's signature of
  that body, signed no longer ago than that: a changed body or signature is refused.\<close>

theorem state_roundtrip:
  assumes "payload = \<lparr>os_intent = intent, os_inviteToken = invite, os_userId = user, os_nonce = nonce, os_iat = Some t0\<rparr>"
    and "sc_decode codec (sc_encode codec payload) = Some payload"
    and "\<And>b. CHR ''.'' \<notin> set (sc_sign codec b)"
  shows "verifyOAuthState codec t (signOAuthState codec nonce t0 intent invite user) STATE_MAX_AGE_MS =
      (if t \<le> t0 + 600000 then Some payload else None) \<and>
    (\<forall>raw p. verifyOAuthState codec t raw STATE_MAX_AGE_MS = Some p \<longleftrightarrow>
      (\<exists>body iat. raw = body @ ''.'' @ sc_sign codec body \<and> sc_decode codec body = Some p \<and>
         os_iat p = Some iat \<and> t \<le> iat + 600000))"
proof (intro conjI allI)
  have os_iat: "os_iat payload = Some t0" by (simp add: assms(1))
  have "split_last (signOAuthState codec nonce t0 intent invite user) =
      Some (sc_encode codec payload, sc_sign codec (sc_encode codec payload))"
    using assms(1,3) by (simp add: split_last_some signOAuthState_def Let_def)
  then show "verifyOAuthState codec t (signOAuthState codec nonce t0 intent invite user) STATE_MAX_AGE_MS =
      (if t \<le> t0 + 600000 then Some payload else None)"
    by (auto simp: verifyOAuthState_def assms(2) os_iat STATE_MAX_AGE_MS_def)
next
  fix raw p
  show "verifyOAuthState codec t raw STATE_MAX_AGE_MS = Some p \<longleftrightarrow>
      (\<exists>body iat. raw = body @ ''.'' @ sc_sign codec body \<and> sc_decode codec body = Some p \<and>
         os_iat p = Some iat \<and> t \<le> iat + 600000)"
  proof (cases "split_last raw")
    case None
    then have "CHR ''.'' \<notin> set raw" by (simp add: split_last_none)
    then show ?thesis using None by (auto simp: verifyOAuthState_def)
  next
    case (Some q)
    obtain body sig where q: "q = (body, sig)" by (cases q)
    have raw: "raw = body' @ ''.'' @ sc_sign codec body' \<longleftrightarrow> body' = body \<and> sig = sc_sign codec body" for body'
      using split_last_some [of raw body sig] split_last_some [of raw body' "sc_sign codec body'"] assms(3) Some q
      by auto
    show ?thesis unfolding raw using Some q
      by (auto simp: verifyOAuthState_def STATE_MAX_AGE_MS_def split: option.splits)
  qed
qed

text \<open>A codec good for one payload, and a signature that is the body backwards.\<close>

definition toy_codec :: "oauth_state \<Rightarrow> state_codec" where
  "toy_codec p = \<lparr>sc_encode = (\<lambda>x. if x = p then ''p'' else ''q''), sc_decode = (\<lambda>b. if b = ''p'' then Some p else None),
     sc_sign = (\<lambda>b. rev (filter (\<lambda>c. c \<noteq> CHR ''.'') b))\<rparr>"

definition toy_login :: oauth_state where
  "toy_login = \<lparr>os_intent = intent_login, os_inviteToken = None, os_userId = None, os_nonce = ''n'', os_iat = Some 400\<rparr>"

theorem state_roundtrip_witness:
  "verifyOAuthState (toy_codec toy_login) 1000 (signOAuthState (toy_codec toy_login) ''n'' 400 intent_login None None)
     STATE_MAX_AGE_MS = Some toy_login"
  using state_roundtrip [where payload = toy_login and codec = "toy_codec toy_login" and t = 1000 and t0 = 400
      and intent = intent_login and invite = None and user = None and nonce = "''n''"]
  by (simp add: toy_login_def toy_codec_def)

section \<open>The provider's callback\<close>

text \<open>What neither linking nor redeeming touches.\<close>

interpretation sessions_inv: invariant "\<lambda>x. sessions x = v" for v
  by unfold_locales simp_all

lemma link_sessions: "keeps (\<lambda>x. sessions x = v) (completeLink up u du)"
  unfolding completeLink_def link_sign_in_def link_connection_def upsert_link_def
  by (intro keeps_intros keeps_create_row keeps_update_many) simp_all

lemma bnd_ret_eta: "bnd m (\<lambda>p. bnd (ret (f p)) g) = bnd m (\<lambda>p. g (f p))"
  by (simp add: bnd_def ret_def)

lemma same_but_cache_sessions: "same_but_cache s t \<Longrightarrow> sessions t = sessions s"
  unfolding same_but_cache_def by (drule arg_cong [of _ _ sessions]) simp

lemma redeem_sessions: "keeps (\<lambda>x. sessions x = v) (redeem eng h ph mail tok args)"
proof -
  have checks: "keeps (\<lambda>x. sessions x = v) (redeem_checks eng h ph args)"
    by (rule keepsI) (metis checks_read_only same_but_cache_sessions)
  have tx: "keeps (\<lambda>x. sessions x = v) (redeem_tx invite args)" for invite
    unfolding redeem_tx_def consume_use_def insert_user_def insert_identity_def insert_use_def redeem_grants_def
      assign_role_def insert_user_role_def writeAcceptActivity_def
    by (intro keeps_intros keeps_create_row keeps_update_many keeps_update_row) simp_all
  have mails: "keeps (\<lambda>x. sessions x = v) (issueVerification h mail tok u e)" for u e
    unfolding issueVerification_def issueToken_def send_mail_def
    by (intro keeps_intros keeps_create_row) simp_all
  have "keeps (\<lambda>x. sessions x = v) (redeem_commit h mail tok args invite)" for invite
    unfolding redeem_commit_def invalidate_def
    by (intro keeps_bnd tx)
       (auto intro!: keeps_intros keeps_modify keeps_swallow mails split: option.split identity_spec.split)
  then show ?thesis unfolding redeem_def by (intro keeps_bnd checks)
qed

lemma opened_session:
  assumes "issueSession si u s = (Inr (), t)"
  shows "\<exists>row. sessions t = sessions s @ [row] \<and> se_userId row = u \<and> se_authMethod row = prov_discord \<and>
    se_tokenHash row = si_hashToken si (si_sessionToken si) \<and> account_tables t = account_tables s"
  using assms
  by (auto simp: issueSession_def sessions_create_def op_simps bnd_Inr_iff account_tables_def split: list.splits if_splits)

lemma refused_session: "issueSession si u s = (Inl e, t) \<Longrightarrow> sessions t = sessions s"
  by (auto simp: issueSession_def sessions_create_def op_simps bnd_Inl_iff split: list.splits if_splits)

lemma run_Inr: "bnd m f s = (r, t) \<Longrightarrow> m s = (Inr x, u) \<Longrightarrow> f x u = (r, t)"
  by (simp add: bnd_def)

text \<open>A session of the member who holds the profile's account, opened for the state's intent.\<close>

definition signed_in :: "sign_in \<Rightarrow> oauth_state \<Rightarrow> oauth_user \<Rightarrow> state \<Rightarrow> state \<Rightarrow> bool" where
  "signed_in si payload du s t \<longleftrightarrow>
     (\<exists>row q. sessions t = sessions s @ [row] \<and> se_authMethod row = prov_discord \<and>
        se_tokenHash row = si_hashToken si (si_sessionToken si) \<and>
        q \<in> set (identities t) \<and> discord_identity (ou_id du) q \<and> ui_userId q = se_userId row \<and>
        ((os_intent payload = intent_login \<and> account_tables t = account_tables s \<and>
            (\<exists>m. lookup u_id (se_userId row) (users s) = Some m \<and> u_lifecycleState m = active)) \<or>
         (os_intent payload = intent_register \<and>
            (\<exists>token invite args. os_inviteToken payload = Some token \<and>
               findByToken (si_hashToken si) token s = Some invite \<and>
               deriveInvitationStatus (clock s) invite = inv_pending \<and>
               users t = users s @ [new_member (se_userId row) invite args]))))"

lemma login_run:
  "completeLogin du s =
     (case List.find (discord_identity (ou_id du)) (identities s) of
        None \<Rightarrow> (Inr None, s)
      | Some q \<Rightarrow>
          (case lookup u_id (ui_userId q) (users s) of
             None \<Rightarrow> (Inl RecordNotFound, s)
           | Some m \<Rightarrow> (Inr (if u_lifecycleState m = active then Some (ui_userId q) else None), s)))"
  by (simp add: completeLogin_def op_simps split: option.split)

lemma login_signs_in:
  assumes "os_intent payload = intent_login" and "by_intent si payload acting du s = (r, t)"
  shows "sessions t = sessions s \<or> (r = Inr ''/home'' \<and> signed_in si payload du s t)"
proof (cases "completeLogin du s")
  case (Pair a s')
  then have s': "s' = s" by (auto simp: login_run split: option.splits)
  have run: "bnd (completeLogin du) (\<lambda>found. case found of None \<Rightarrow> ret ''/login?error=discord_no_account''
      | Some userId \<Rightarrow> bnd (issueSession si userId) (\<lambda>_. ret ''/home'')) s = (r, t)"
    using assms by (simp add: by_intent_def)
  show ?thesis
  proof (cases "\<exists>u. a = Inr (Some u)")
    case False
    then show ?thesis using run Pair s' by (auto simp: bnd_def op_simps split: sum.splits option.splits)
  next
    case True
    then obtain u where a: "a = Inr (Some u)" by blast
    then obtain q m where q: "List.find (discord_identity (ou_id du)) (identities s) = Some q"
        "lookup u_id (ui_userId q) (users s) = Some m" "u_lifecycleState m = active" "u = ui_userId q"
      using Pair by (auto simp: login_run split: option.splits if_splits)
    have q': "q \<in> set (identities s)" "discord_identity (ou_id du) q" using find_SomeD [OF q(1)] by simp_all
    from run_Inr [OF run Pair [unfolded a]] s'
    have go: "bnd (issueSession si u) (\<lambda>_. ret ''/home'') s = (r, t)" by simp
    show ?thesis
    proof (cases "issueSession si u s")
      case (Pair b w)
      show ?thesis
      proof (cases b)
        case (Inl x) then show ?thesis using go Pair refused_session by (auto simp: bnd_def)
      next
        case (Inr y)
        then have "issueSession si u s = (Inr (), t)" "r = Inr ''/home''" using go Pair by (auto simp: bnd_def ret_def)
        from opened_session [OF this(1)] this(2) show ?thesis
          using q q' assms(1) unfolding signed_in_def by (auto simp: account_tables_def intro!: bexI [of _ q])
      qed
    qed
  qed
qed

lemma truthy_Some: "truthy x = Some y \<Longrightarrow> x = Some y"
  by (auto simp: truthy_def split: option.splits list.splits)

lemma register_signs_in:
  assumes "os_intent payload = intent_register" and "truthy (os_inviteToken payload) = Some token"
    and "by_intent si payload acting du s = (r, t)"
  shows "sessions t = sessions s \<or> (r = Inr ''/home'' \<and> signed_in si payload du s t)"
proof -
  let ?args = "\<lparr>rd_token = token, rd_passcode = None, rd_email = ou_email du,
      rd_displayName = (case ou_globalName du of Some n \<Rightarrow> n | None \<Rightarrow> ou_username du),
      rd_identity = DiscordIdentity (ou_id du)\<rparr>"
  have run: "bnd (redeem (si_engine si) (si_hashToken si) (si_passcodeHash si) (si_mail si) (si_mailToken si) ?args)
      (\<lambda>p. bnd (issueSession si (fst p)) (\<lambda>_. ret ''/home'')) s = (r, t)"
    using assms by (simp add: by_intent_def completeRegister_def acceptWithDiscord_def bnd_assoc case_prod_beta bnd_ret_eta)
  obtain a s' where red: "redeem (si_engine si) (si_hashToken si) (si_passcodeHash si) (si_mail si) (si_mailToken si) ?args s = (a, s')"
    by fastforce
  have same: "sessions s' = sessions s" by (rule keepsD [OF redeem_sessions refl red])
  show ?thesis
  proof (cases a)
    case (Inl x) then show ?thesis using run red same by (auto simp: bnd_def)
  next
    case (Inr p)
    obtain u boot where p: "p = (u, boot)" by (cases p)
    note facts = redeem_run [OF red [unfolded Inr p]]
    from run_Inr [OF run red [unfolded Inr p]]
    have go: "bnd (issueSession si u) (\<lambda>_. ret ''/home'') s' = (r, t)" by simp
    show ?thesis
    proof (cases "issueSession si u s'")
      case (Pair b w)
      show ?thesis
      proof (cases b)
        case (Inl x) then show ?thesis using go Pair refused_session same by (auto simp: bnd_def)
      next
        case (Inr y)
        then have o: "issueSession si u s' = (Inr (), t)" "r = Inr ''/home''" using go Pair by (auto simp: bnd_def ret_def)
        obtain row where row: "sessions t = sessions s @ [row]" "se_userId row = u" "se_authMethod row = prov_discord"
            "se_tokenHash row = si_hashToken si (si_sessionToken si)" "account_tables t = account_tables s'"
          using opened_session [OF o(1)] same by auto
        obtain invite q where i: "findByToken (si_hashToken si) token s = Some invite"
            "deriveInvitationStatus (clock s) invite = inv_pending" "users s' = users s @ [new_member u invite ?args]"
            "q \<in> set (identities s')" "discord_identity (ou_id du) q" "ui_userId q = u"
          using facts by (fastforce simp: discord_identity_def new_identity_def)
        show ?thesis
          using row i assms(1) truthy_Some [OF assms(2)] o(2) unfolding signed_in_def
          by (intro disjI2 conjI exI [of _ row] exI [of _ q]) (auto simp: account_tables_def)
      qed
    qed
  qed
qed

lemma other_intents:
  assumes "by_intent si payload acting du s = (r, t)"
    and "os_intent payload = intent_link \<or> (os_intent payload = intent_register \<and> truthy (os_inviteToken payload) = None)"
  shows "sessions t = sessions s"
proof -
  have "keeps (\<lambda>x. sessions x = sessions s) (by_intent si payload acting du)"
    using assms(2) unfolding by_intent_def
    by (auto intro!: keeps_intros link_sessions split: option.split)
  from keepsD [OF this refl assms(1)] show ?thesis .
qed

lemma intent_signs_in:
  assumes "by_intent si payload acting du s = (r, t)"
  shows "sessions t = sessions s \<or> (r = Inr ''/home'' \<and> signed_in si payload du s t)"
proof (cases "os_intent payload")
  case intent_login
  then show ?thesis by (rule login_signs_in [OF _ assms])
next
  case intent_register
  then show ?thesis using register_signs_in [OF _ _ assms] other_intents [OF assms]
    by (cases "truthy (os_inviteToken payload)") auto
next
  case intent_link
  then show ?thesis using other_intents [OF assms] by simp
qed

text \<open>C34: The provider's callback, whatever its caller sends, opens a session only on a state this server
  signed within ten minutes and a profile the provider returned for the code; the session is of the
  member holding that provider account. For the login intent the account existed, the member is
  active and no account changes; for the registering intent a pending invitation, named by the state,
  was redeemed for exactly that new member. In every other case, errors included, no session changes.\<close>

theorem callback_sessions:
  assumes "callback si code raw error acting s = (r, t)"
  shows "sessions t = sessions s \<or>
    (\<exists>c st payload creds accessToken du. r = Inr ''/home'' \<and> truthy code = Some c \<and> truthy raw = Some st \<and>
       verifyOAuthState (si_codec si) (clock s) st STATE_MAX_AGE_MS = Some payload \<and>
       loadCreds (si_oauth si) s = Some creds \<and>
       po_exchange (si_oauth si) creds c = Some accessToken \<and> po_fetch (si_oauth si) accessToken = Some du \<and>
       signed_in si payload du s t)"
proof (cases "\<exists>c st payload. truthy error = None \<and> truthy code = Some c \<and> truthy raw = Some st \<and>
    verifyOAuthState (si_codec si) (clock s) st STATE_MAX_AGE_MS = Some payload")
  case False
  then have "t = s" using assms by (auto simp: callback_def op_simps split: option.splits)
  then show ?thesis by simp
next
  case True
  then obtain c st payload where v: "truthy error = None" "truthy code = Some c" "truthy raw = Some st"
      "verifyOAuthState (si_codec si) (clock s) st STATE_MAX_AGE_MS = Some payload" by blast
  let ?rest = "bnd (exchangeCode (si_oauth si) c) (\<lambda>accessToken.
      bnd (fetchUser (si_oauth si) accessToken) (\<lambda>du. by_intent si payload acting du))"
  obtain a where rest: "?rest s = (a, t)" and r: "\<And>x. a = Inr x \<Longrightarrow> r = Inr x"
    using assms v by (auto simp: callback_def op_simps or_redirect_def split: prod.splits sum.splits)
  show ?thesis
  proof (cases "sessions t = sessions s")
    case False
    have "\<exists>creds accessToken du. loadCreds (si_oauth si) s = Some creds \<and>
       po_exchange (si_oauth si) creds c = Some accessToken \<and> po_fetch (si_oauth si) accessToken = Some du \<and>
       by_intent si payload acting du s = (a, t)"
      using rest False by (auto simp: exchangeCode_def fetchUser_def op_simps split: option.splits)
    then show ?thesis using intent_signs_in False r v by blast
  qed simp
qed

text \<open>Member 11 holds the provider's account \<open>d1\<close>; the organization has set up sign-in.\<close>

definition toy_oauth :: provider_oauth where
  "toy_oauth = \<lparr>po_decrypt = Some, po_exchange = (\<lambda>_ c. Some c),
     po_fetch = (\<lambda>_. Some \<lparr>ou_id = ''d1'', ou_username = ''name'', ou_globalName = None, ou_avatar = None, ou_email = None\<rparr>)\<rparr>"

definition toy_sign_in :: sign_in where
  "toy_sign_in = \<lparr>si_engine = permit_engine, si_hashToken = same_hash, si_passcodeHash = rev, si_mail = no_mail,
     si_mailToken = ''m'', si_sessionToken = ''fresh'', si_oauth = toy_oauth, si_codec = toy_codec toy_login,
     si_queueUp = True\<rparr>"

definition demo_provider :: state where
  "demo_provider = demo
     \<lparr>organizations := [demo_org\<lparr>o_settings := [''discordClientId'' \<mapsto> JStr ''id'', ''discordClientSecret'' \<mapsto> JStr ''key'']\<rparr>],
      identities := [\<lparr>ui_id = 81, ui_userId = 11, ui_provider = prov_discord, ui_providerSubject = Some ''d1'',
        ui_passwordHash = None, ui_verifiedAt = Some 5\<rparr>]\<rparr>"

theorem callback_sessions_witness:
  "\<exists>t row. callback toy_sign_in (Some ''code'') (Some ''p.p'') None None demo_provider = (Inr ''/home'', t) \<and>
     sessions t = [row] \<and> se_userId row = 11 \<and> identities t = identities demo_provider"
proof -
  have "length (sessions (snd (callback toy_sign_in (Some ''code'') (Some ''p.p'') None None demo_provider))) = 1"
    by code_simp
  then obtain r t where run: "callback toy_sign_in (Some ''code'') (Some ''p.p'') None None demo_provider = (r, t)"
    and one: "length (sessions t) = 1" by (metis prod.collapse)
  have none: "sessions demo_provider = []" by (simp add: demo_provider_def demo_defs)
  from callback_sessions [OF run] one none
  obtain payload du where home: "r = Inr ''/home''"
    and v: "verifyOAuthState (toy_codec toy_login) (clock demo_provider) ''p.p'' STATE_MAX_AGE_MS = Some payload"
    and si: "signed_in toy_sign_in payload du demo_provider t"
    by (auto simp: toy_sign_in_def truthy_def)
  have "payload = toy_login"
    using v by (auto simp: verifyOAuthState_def toy_codec_def split: option.splits if_splits)
  then have i: "os_intent payload = intent_login" by (simp add: toy_login_def)
  from si obtain row q where row: "sessions t = [row]" "ui_userId q = se_userId row" "q \<in> set (identities demo_provider)"
      "identities t = identities demo_provider"
    using i none unfolding signed_in_def by (auto simp: account_tables_def)
  then have "se_userId row = 11" by (auto simp: demo_provider_def)
  then show ?thesis using run home row by blast
qed

end
