(* ===== verification/Http_Properties.thy ===== *)
theory Http_Properties
  imports Controllers Access_Properties Sign_In_Properties
begin

text \<open>
  What holds of every request to the API, whatever its endpoint: what the guards let through, what a
  stranger can do, and what a forged request can do.
\<close>

section \<open>Reading\<close>

text \<open>A computation that reads keeps every predicate; one that only decides keeps those that do not
  look at the policy cache; one that only resolves a session those that look at neither.\<close>

definition pure_read :: "'a svc \<Rightarrow> bool" where
  "pure_read m \<longleftrightarrow> (\<forall>P. keeps P m)"

lemma pure_readI: "(\<And>P. keeps P m) \<Longrightarrow> pure_read m"
  by (simp add: pure_read_def)

lemma pure_read_state: "pure_read m \<Longrightarrow> snd (m s) = s"
  unfolding pure_read_def using keepsD_snd [of "\<lambda>t. t = s"] by blast

lemma apart_refl [simp]: "apart_from_session s s"
  by (simp add: apart_from_session_def)

lemma apart_sessions [simp]: "apart_from_session s (sessions_update f t) = apart_from_session s t"
  by (simp add: apart_from_session_def)

lemma apart_cache [simp]: "apart_from_session s (policy_cache_update f t) = apart_from_session s t"
  by (simp add: apart_from_session_def)

lemma cache_free_apart [keeps_intros]: "cache_free (apart_from_session s)"
  by (simp add: cache_free_def)

lemma keeps_readOrg [keeps_intros]: "keeps P readOrg"
  unfolding readOrg_def by (auto intro!: keeps_intros split: list.split)

lemma keeps_resolve: "keeps (apart_from_session s) (resolve h tok)"
  unfolding resolve_def durations_def
  by (intro keeps_intros keeps_update_row) simp_all

lemma keeps_session_guard: "keeps (apart_from_session s) (session_canActivate h req)"
  unfolding session_canActivate_def enforceCsrf_def by (intro keeps_intros keeps_resolve)

lemma pure_read_ret: "pure_read (ret x)"
  by (rule pure_readI) (rule keeps_ret)

lemma resources_read:
  "pure_read orgResource" "\<And>i. pure_read (divisionResource i)" "\<And>a b c. pure_read (taskCreateResource a b c)"
  "\<And>i. pure_read (taskResource i)" "\<And>i. pure_read (taskReviveResource i)" "\<And>i u. pure_read (taskSubmitResource i u)"
  "\<And>i. pure_read (submissionResource i)" "\<And>i u. pure_read (messageCreateResource i u)"
  "\<And>i. pure_read (messageResource i)" "\<And>i. pure_read (messageReviveResource i)"
  "\<And>i u. pure_read (attachmentCreateResource i u)" "\<And>i. pure_read (attachmentResource i)"
  "\<And>i. pure_read (attachmentReviveResource i)" "\<And>i. pure_read (targetUser i)" "\<And>i. pure_read (reviveUser i)"
  "\<And>r i. pure_read (userWithTargetRole r i)"
  by (rule pure_readI; unfold orgResource_def divisionResource_def taskCreateResource_def find_task_def taskResource_def
    taskReviveResource_def taskSubmitResource_def submissionResource_def messageCreateResource_def find_message_def
    messageResource_def messageReviveResource_def attachmentCreateResource_def attachmentResource_def
    attachmentReviveResource_def targetUser_def reviveUser_def userWithTargetRole_def; intro keeps_intros)+

lemmas guard_simps = route_def Authorize_def AuthorizeActor_def resources_read pure_read_ret

lemma guards_read:
  "ha_guard (tasks_controller a) = Some (action, resource) \<Longrightarrow> pure_read (resource u)"
  "ha_guard (templates_controller b) = Some (action, resource) \<Longrightarrow> pure_read (resource u)"
  "ha_guard (submissions_controller c) = Some (action, resource) \<Longrightarrow> pure_read (resource u)"
  "ha_guard (messages_controller d) = Some (action, resource) \<Longrightarrow> pure_read (resource u)"
  "ha_guard (notifications_controller f) = Some (action, resource) \<Longrightarrow> pure_read (resource u)"
  "ha_guard (attachments_controller e g) = Some (action, resource) \<Longrightarrow> pure_read (resource u)"
  "ha_guard (roles_controller h) = Some (action, resource) \<Longrightarrow> pure_read (resource u)"
  "ha_guard (divisions_controller i) = Some (action, resource) \<Longrightarrow> pure_read (resource u)"
  "ha_guard (teams_controller j) = Some (action, resource) \<Longrightarrow> pure_read (resource u)"
  "ha_guard (grants_controller e k) = Some (action, resource) \<Longrightarrow> pure_read (resource u)"
  "ha_guard (users_controller e l) = Some (action, resource) \<Longrightarrow> pure_read (resource u)"
  "ha_guard (config_controller e m) = Some (action, resource) \<Longrightarrow> pure_read (resource u)"
  "ha_guard (gc_controller e n) = Some (action, resource) \<Longrightarrow> pure_read (resource u)"
  "ha_guard (activity_controller p) = Some (action, resource) \<Longrightarrow> pure_read (resource u)"
  "ha_guard health_controller = Some (action, resource) \<Longrightarrow> pure_read (resource u)"
  "ha_guard (integrations_controller e q) = Some (action, resource) \<Longrightarrow> pure_read (resource u)"
  "ha_guard (invitations_controller e r) = Some (action, resource) \<Longrightarrow> pure_read (resource u)"
  "ha_guard (auth_controller e req v) = Some (action, resource) \<Longrightarrow> pure_read (resource u)"
  "ha_guard (discord_controller e w) = Some (action, resource) \<Longrightarrow> pure_read (resource u)"
  subgoal by (cases a) (auto simp: guard_simps)
  subgoal by (cases b) (auto simp: guard_simps)
  subgoal by (cases c) (auto simp: guard_simps)
  subgoal by (cases d) (auto simp: guard_simps)
  subgoal by (cases f) (auto simp: guard_simps)
  subgoal by (cases g) (auto simp: guard_simps)
  subgoal by (cases h) (auto simp: guard_simps)
  subgoal by (cases i) (auto simp: guard_simps)
  subgoal by (cases j) (auto simp: guard_simps)
  subgoal by (cases k) (auto simp: guard_simps)
  subgoal by (cases l) (auto simp: guard_simps)
  subgoal by (cases m) (auto simp: guard_simps)
  subgoal by (cases n) (auto simp: guard_simps)
  subgoal by (auto simp: guard_simps activity_controller_def)
  subgoal by (auto simp: guard_simps health_controller_def)
  subgoal by (cases q) (auto simp: guard_simps)
  subgoal by (cases r) (auto simp: guard_simps)
  subgoal by (cases v) (auto simp: guard_simps)
  subgoal by (cases w) (auto simp: guard_simps)
  done

lemma resource_reads:
  "ha_guard (handler_of e req ep) = Some (action, resource) \<Longrightarrow> pure_read (resource u)"
  by (cases ep) (auto intro: guards_read)

section \<open>The guards\<close>

lemma decide_apart: "keeps (apart_from_session s) (decide eng u a res)"
  by (rule keeps_decide) simp

lemma guard_apart:
  assumes "pure_read m"
  shows "keeps (apart_from_session s) (canActivate eng a m u)"
  using assms unfolding canActivate_def pure_read_def by (auto intro!: keeps_intros decide_apart split: option.split)

text \<open>What the session guard resolved when it let a request through, and what it refuses.\<close>

lemma enforceCsrf_run:
  "enforceCsrf c h s =
     (if truthy c \<noteq> None \<and> truthy c = truthy h then Inr () else Inl (DeniedError ''CSRF_FAILED''), s)"
  using enforceCsrf_iff [of c h s]
  by (auto simp: enforceCsrf_def op_simps timingEqual_iff split: option.split)

lemma session_guard_none:
  "truthy (hr_sessionCookie req) = None \<Longrightarrow> session_canActivate h req s = (Inr None, s)"
  by (simp add: session_canActivate_def op_simps)

lemma session_guard_run:
  assumes "truthy (hr_sessionCookie req) = Some tok"
  shows "session_canActivate h req s =
    (case resolve h tok s of
       (Inl x, t) \<Rightarrow> (Inl x, t)
     | (Inr None, t) \<Rightarrow> (Inr None, t)
     | (Inr (Some r), t) \<Rightarrow>
         (if hr_method req \<in> set MUTATING \<and>
             \<not> (truthy (hr_csrfCookie req) \<noteq> None \<and> truthy (hr_csrfCookie req) = truthy (hr_csrfHeader req))
          then Inl (DeniedError ''CSRF_FAILED'') else Inr (Some r), t))"
  by (auto simp: session_canActivate_def assms bnd_def ret_def enforceCsrf_run split: prod.splits sum.split option.split)

lemma get_not_mutating: "''GET'' \<notin> set MUTATING"
  by (simp add: MUTATING_def)

section \<open>Reading endpoints\<close>

lemma keeps_ungated: "keeps P m \<Longrightarrow> keeps P (ungated m session)"
  unfolding ungated_def by (intro keeps_intros)

lemma keeps_authed: "(\<And>u org. keeps P (m u org)) \<Longrightarrow> keeps P (authed m session)"
  unfolding authed_def by (intro keeps_intros)

lemma keeps_parsed: "(\<And>x. keeps P (f x session)) \<Longrightarrow> keeps P (parsed body f session)"
  unfolding parsed_def by (intro keeps_intros)

lemma keeps_start_or [keeps_intros]: "keeps P (start_or si nonce intent token user failed)"
proof -
  have "keeps P (startUrl (si_oauth si) (si_codec si) nonce intent token user)"
    unfolding startUrl_def authorizeUrl_def by (intro keeps_intros)
  then show ?thesis by (auto intro!: keepsI dest: keepsD simp: start_or_def split: prod.splits sum.splits)
qed

lemma readers:
  "keeps P (tasks_get i)" "keeps P (submissions_listForTask i)" "keeps P (submissions_get i)"
  "keeps P (messages_listForTask i after limit)" "keeps P (resolveDownload i)" "keeps P (divisions_list org b)"
  "keeps P (teams_list org b)" "keeps P (users_list org b)" "keeps P (config_get org)" "keeps P (listMappings i)"
  "keeps P (invitations_view h tok)" "keeps P (get_login si nonce)" "keeps P (get_register si nonce token)"
  "keeps P (get_link si nonce user)"
  unfolding tasks_get_def view_with_claimants_def submissions_listForTask_def submissions_get_def
    messages_listForTask_def load_active_task_def resolveDownload_def divisions_list_def teams_list_def users_list_def
    config_get_def getRaw_def listMappings_def loadActive_def invitations_view_def get_login_def get_register_def
    get_link_def
  by (intro keeps_intros)+

lemma getMe_apart: "keeps (apart_from_session s) (getMe eng u)"
  unfolding getMe_def by (intro keeps_intros decide_apart)

lemmas read_intros = keeps_ungated keeps_authed keeps_parsed keeps_case_prod readers getMe_apart
  keeps_ret keeps_gets keeps_bnd keeps_need

lemma get_reads:
  "ha_method (tasks_controller a) = ''GET'' \<Longrightarrow> keeps (apart_from_session s) (ha_run (tasks_controller a) session)"
  "ha_method (templates_controller b) = ''GET'' \<Longrightarrow> keeps (apart_from_session s) (ha_run (templates_controller b) session)"
  "ha_method (submissions_controller c) = ''GET'' \<Longrightarrow> keeps (apart_from_session s) (ha_run (submissions_controller c) session)"
  "ha_method (messages_controller d) = ''GET'' \<Longrightarrow> keeps (apart_from_session s) (ha_run (messages_controller d) session)"
  "ha_method (notifications_controller f) = ''GET'' \<Longrightarrow> keeps (apart_from_session s) (ha_run (notifications_controller f) session)"
  "ha_method (attachments_controller e g) = ''GET'' \<Longrightarrow> keeps (apart_from_session s) (ha_run (attachments_controller e g) session)"
  "ha_method (roles_controller h) = ''GET'' \<Longrightarrow> keeps (apart_from_session s) (ha_run (roles_controller h) session)"
  "ha_method (divisions_controller i) = ''GET'' \<Longrightarrow> keeps (apart_from_session s) (ha_run (divisions_controller i) session)"
  "ha_method (teams_controller j) = ''GET'' \<Longrightarrow> keeps (apart_from_session s) (ha_run (teams_controller j) session)"
  "ha_method (grants_controller e k) = ''GET'' \<Longrightarrow> keeps (apart_from_session s) (ha_run (grants_controller e k) session)"
  "ha_method (users_controller e l) = ''GET'' \<Longrightarrow> keeps (apart_from_session s) (ha_run (users_controller e l) session)"
  "ha_method (config_controller e m) = ''GET'' \<Longrightarrow> keeps (apart_from_session s) (ha_run (config_controller e m) session)"
  "ha_method (gc_controller e n) = ''GET'' \<Longrightarrow> keeps (apart_from_session s) (ha_run (gc_controller e n) session)"
  "ha_method (activity_controller p) = ''GET'' \<Longrightarrow> keeps (apart_from_session s) (ha_run (activity_controller p) session)"
  "ha_method (health_controller) = ''GET'' \<Longrightarrow> keeps (apart_from_session s) (ha_run (health_controller) session)"
  "ha_method (integrations_controller e q) = ''GET'' \<Longrightarrow> keeps (apart_from_session s) (ha_run (integrations_controller e q) session)"
  "ha_method (invitations_controller e r) = ''GET'' \<Longrightarrow> keeps (apart_from_session s) (ha_run (invitations_controller e r) session)"
  "ha_method (auth_controller e req v) = ''GET'' \<Longrightarrow> keeps (apart_from_session s) (ha_run (auth_controller e req v) session)"
  "\<forall>code st er. w \<noteq> Discord_Callback code st er \<Longrightarrow> ha_method (discord_controller e w) = ''GET'' \<Longrightarrow> keeps (apart_from_session s) (ha_run (discord_controller e w) session)"
  subgoal by (cases a) (auto simp: route_def intro!: read_intros)
  subgoal by (cases b) (auto simp: route_def intro!: read_intros)
  subgoal by (cases c) (auto simp: route_def intro!: read_intros)
  subgoal by (cases d) (auto simp: route_def intro!: read_intros)
  subgoal by (cases f) (auto simp: route_def intro!: read_intros)
  subgoal by (cases g) (auto simp: route_def intro!: read_intros)
  subgoal by (cases h) (auto simp: route_def intro!: read_intros)
  subgoal by (cases i) (auto simp: route_def intro!: read_intros)
  subgoal by (cases j) (auto simp: route_def intro!: read_intros)
  subgoal by (cases k) (auto simp: route_def intro!: read_intros)
  subgoal by (cases l) (auto simp: route_def intro!: read_intros)
  subgoal by (cases m) (auto simp: route_def intro!: read_intros)
  subgoal by (cases n) (auto simp: route_def intro!: read_intros)
  subgoal by (auto simp: route_def activity_controller_def intro!: read_intros)
  subgoal by (auto simp: route_def health_controller_def intro!: read_intros)
  subgoal by (cases q) (auto simp: route_def intro!: read_intros)
  subgoal by (cases r) (auto simp: route_def intro!: read_intros)
  subgoal by (cases v) (auto simp: route_def intro!: read_intros)
  subgoal by (cases w) (auto simp: route_def intro!: read_intros)
  done

lemma get_reads_all:
  assumes "ha_method (handler_of e req ep) = ''GET''" and "\<And>code st er. ep \<noteq> E_Discord (Discord_Callback code st er)"
  shows "keeps (apart_from_session s) (ha_run (handler_of e req ep) session)"
  using assms by (cases ep) (auto intro: get_reads)

text \<open>The endpoints that do something for a caller without a session: signing in and out, the mailed
  tokens, accepting an invitation, and the provider's callback.\<close>

fun entry :: "endpoint \<Rightarrow> bool" where
  "entry (E_Invitations (Invite_Accept tok body)) = True"
| "entry (E_Auth Auth_Me) = False"
| "entry (E_Auth x) = True"
| "entry (E_Discord (Discord_Callback code st er)) = True"
| "entry ep = False"

lemmas closed_intros = keeps_parsed keeps_case_prod keeps_throw

lemma authed_none [simp]: "authed m None = throw UnauthenticatedError"
  by (simp add: authed_def)

lemma closed_unguarded:
  assumes "\<not> entry ep" and "ha_method (handler_of e req ep) \<noteq> ''GET''" and "ha_guard (handler_of e req ep) = None"
  shows "keeps P (ha_run (handler_of e req ep) None)"
proof (cases ep)
  case (E_Tasks x) then show ?thesis using assms by (cases x) (auto simp: guard_simps intro!: closed_intros)
next
  case (E_Templates x) then show ?thesis using assms by (cases x) (auto simp: guard_simps)
next
  case (E_Submissions x) then show ?thesis using assms by (cases x) (auto simp: guard_simps)
next
  case (E_Messages x) then show ?thesis using assms by (cases x) (auto simp: guard_simps)
next
  case (E_Notifications x) then show ?thesis using assms by (cases x) (auto simp: guard_simps intro!: closed_intros)
next
  case (E_Attachments x) then show ?thesis using assms by (cases x) (auto simp: guard_simps)
next
  case (E_Roles x) then show ?thesis using assms by (cases x) (auto simp: guard_simps)
next
  case (E_Divisions x) then show ?thesis using assms by (cases x) (auto simp: guard_simps)
next
  case (E_Teams x) then show ?thesis using assms by (cases x) (auto simp: guard_simps)
next
  case (E_Grants x) then show ?thesis using assms by (cases x) (auto simp: guard_simps)
next
  case (E_Users x) then show ?thesis using assms by (cases x) (auto simp: guard_simps)
next
  case (E_Config x) then show ?thesis using assms by (cases x) (auto simp: guard_simps)
next
  case (E_Gc x) then show ?thesis using assms by (cases x) (auto simp: guard_simps)
next
  case (E_Activity x) then show ?thesis using assms by (auto simp: guard_simps activity_controller_def)
next
  case E_Health then show ?thesis using assms by (auto simp: guard_simps health_controller_def)
next
  case (E_Integrations x) then show ?thesis using assms by (cases x) (auto simp: guard_simps)
next
  case (E_Invitations x) then show ?thesis using assms by (cases x) (auto simp: guard_simps)
next
  case (E_Auth x) then show ?thesis using assms by (cases x) (auto simp: guard_simps)
next
  case (E_Discord x) then show ?thesis using assms by (cases x) (auto simp: guard_simps intro!: closed_intros)
qed

lemma method_get:
  "ha_method (handler_of e req ep) \<notin> set MUTATING \<Longrightarrow> ha_method (handler_of e req ep) = ''GET''"
proof (cases ep)
  case (E_Tasks x)
  then show "ha_method (handler_of e req ep) \<notin> set MUTATING \<Longrightarrow> ?thesis" by (cases x) (auto simp: route_def MUTATING_def)
next
  case (E_Templates x)
  then show "ha_method (handler_of e req ep) \<notin> set MUTATING \<Longrightarrow> ?thesis" by (cases x) (auto simp: route_def MUTATING_def)
next
  case (E_Submissions x)
  then show "ha_method (handler_of e req ep) \<notin> set MUTATING \<Longrightarrow> ?thesis" by (cases x) (auto simp: route_def MUTATING_def)
next
  case (E_Messages x)
  then show "ha_method (handler_of e req ep) \<notin> set MUTATING \<Longrightarrow> ?thesis" by (cases x) (auto simp: route_def MUTATING_def)
next
  case (E_Notifications x)
  then show "ha_method (handler_of e req ep) \<notin> set MUTATING \<Longrightarrow> ?thesis" by (cases x) (auto simp: route_def MUTATING_def)
next
  case (E_Attachments x)
  then show "ha_method (handler_of e req ep) \<notin> set MUTATING \<Longrightarrow> ?thesis" by (cases x) (auto simp: route_def MUTATING_def)
next
  case (E_Roles x)
  then show "ha_method (handler_of e req ep) \<notin> set MUTATING \<Longrightarrow> ?thesis" by (cases x) (auto simp: route_def MUTATING_def)
next
  case (E_Divisions x)
  then show "ha_method (handler_of e req ep) \<notin> set MUTATING \<Longrightarrow> ?thesis" by (cases x) (auto simp: route_def MUTATING_def)
next
  case (E_Teams x)
  then show "ha_method (handler_of e req ep) \<notin> set MUTATING \<Longrightarrow> ?thesis" by (cases x) (auto simp: route_def MUTATING_def)
next
  case (E_Grants x)
  then show "ha_method (handler_of e req ep) \<notin> set MUTATING \<Longrightarrow> ?thesis" by (cases x) (auto simp: route_def MUTATING_def)
next
  case (E_Users x)
  then show "ha_method (handler_of e req ep) \<notin> set MUTATING \<Longrightarrow> ?thesis" by (cases x) (auto simp: route_def MUTATING_def)
next
  case (E_Config x)
  then show "ha_method (handler_of e req ep) \<notin> set MUTATING \<Longrightarrow> ?thesis" by (cases x) (auto simp: route_def MUTATING_def)
next
  case (E_Gc x)
  then show "ha_method (handler_of e req ep) \<notin> set MUTATING \<Longrightarrow> ?thesis" by (cases x) (auto simp: route_def MUTATING_def)
next
  case (E_Activity x)
  then show "ha_method (handler_of e req ep) \<notin> set MUTATING \<Longrightarrow> ?thesis" by (auto simp: route_def MUTATING_def activity_controller_def)
next
  case E_Health
  then show "ha_method (handler_of e req ep) \<notin> set MUTATING \<Longrightarrow> ?thesis" by (auto simp: route_def MUTATING_def health_controller_def)
next
  case (E_Integrations x)
  then show "ha_method (handler_of e req ep) \<notin> set MUTATING \<Longrightarrow> ?thesis" by (cases x) (auto simp: route_def MUTATING_def)
next
  case (E_Invitations x)
  then show "ha_method (handler_of e req ep) \<notin> set MUTATING \<Longrightarrow> ?thesis" by (cases x) (auto simp: route_def MUTATING_def)
next
  case (E_Auth x)
  then show "ha_method (handler_of e req ep) \<notin> set MUTATING \<Longrightarrow> ?thesis" by (cases x) (auto simp: route_def MUTATING_def)
next
  case (E_Discord x)
  then show "ha_method (handler_of e req ep) \<notin> set MUTATING \<Longrightarrow> ?thesis" by (cases x) (auto simp: route_def MUTATING_def)
qed

section \<open>A request, step by step\<close>

lemma apart_trans: "apart_from_session s t \<Longrightarrow> apart_from_session t u \<Longrightarrow> apart_from_session s u"
  unfolding apart_from_session_def by (cases s; cases t; cases u) simp

abbreviation sent :: "env \<Rightarrow> http_request \<Rightarrow> endpoint \<Rightarrow> http_request" where
  "sent e req ep \<equiv> req\<lparr>hr_method := ha_method (handler_of e req ep)\<rparr>"

lemma serve_refused:
  "session_canActivate (ev_hashToken e) (sent e req ep) s = (Inl x, t) \<Longrightarrow> serve_http e req ep s = (Inl x, t)"
  by (simp add: serve_http_def handle_http_def bnd_def)

lemma serve_open:
  "session_canActivate (ev_hashToken e) (sent e req ep) s = (Inr session, t) \<Longrightarrow>
   ha_guard (handler_of e req ep) = None \<Longrightarrow>
   serve_http e req ep s = ha_run (handler_of e req ep) session t"
  by (simp add: serve_http_def handle_http_def bnd_def ret_def)

lemma serve_guarded:
  "session_canActivate (ev_hashToken e) (sent e req ep) s = (Inr session, t) \<Longrightarrow>
   ha_guard (handler_of e req ep) = Some (action, resource) \<Longrightarrow>
   serve_http e req ep s =
     bnd (canActivate (ev_engine e) action (resource (map_option rs_userId session)) (map_option rs_userId session))
       (\<lambda>_. ha_run (handler_of e req ep) session) t"
  by (simp add: serve_http_def handle_http_def bnd_def [of "session_canActivate _ _"])

lemma session_apart:
  "session_canActivate h req s = (x, t) \<Longrightarrow> apart_from_session s t"
  using keepsD [OF keeps_session_guard apart_refl] .

text \<open>A session is resolved for the request and the pair of tokens, where the method needs it, matches.\<close>

definition csrf_ok :: "http_request \<Rightarrow> bool" where
  "csrf_ok req \<longleftrightarrow> truthy (hr_csrfCookie req) \<noteq> None \<and> truthy (hr_csrfCookie req) = truthy (hr_csrfHeader req)"

definition stranger :: "token_hash \<Rightarrow> http_request \<Rightarrow> state \<Rightarrow> bool" where
  "stranger h req s \<longleftrightarrow>
     (case truthy (hr_sessionCookie req) of
        None \<Rightarrow> True
      | Some tok \<Rightarrow> (case fst (resolve h tok s) of Inr (Some r) \<Rightarrow> False | _ \<Rightarrow> True))"

lemma stranger_guard:
  assumes "stranger h req s"
  shows "\<exists>t. apart_from_session s t \<and>
    (session_canActivate h req s = (Inr None, t) \<or> (\<exists>x. session_canActivate h req s = (Inl x, t)))"
proof -
  obtain o' t where g: "session_canActivate h req s = (o', t)" by fastforce
  have "o' = Inr None \<or> (\<exists>x. o' = Inl x)"
    using assms g session_guard_none [of req h s] session_guard_run [of req _ h s]
    by (cases "truthy (hr_sessionCookie req)") (auto simp: stranger_def split: prod.splits sum.splits option.splits)
  then show ?thesis using g session_apart [OF g] by blast
qed

lemma guarded_apart:
  assumes "ha_guard (handler_of e req ep) = Some (action, resource)"
    and "session_canActivate (ev_hashToken e) (sent e req ep) s = (Inr session, t)"
    and "canActivate (ev_engine e) action (resource (map_option rs_userId session)) (map_option rs_userId session) t = (x, v)"
  shows "apart_from_session s v"
  using session_apart [OF assms(2)] keepsD [OF guard_apart [OF resource_reads [OF assms(1)]] apart_refl assms(3)]
  by (rule apart_trans)

lemma stranger_apart:
  assumes "stranger (ev_hashToken e) req s" and "\<not> entry ep"
  shows "apart_from_session s (snd (serve_http e req ep s))"
proof -
  have "stranger (ev_hashToken e) (sent e req ep) s" using assms(1) by (simp add: stranger_def)
  then obtain t where t: "apart_from_session s t"
    and g: "session_canActivate (ev_hashToken e) (sent e req ep) s = (Inr None, t) \<or>
      (\<exists>x. session_canActivate (ev_hashToken e) (sent e req ep) s = (Inl x, t))"
    using stranger_guard by blast
  show ?thesis
  proof (cases "\<exists>x. session_canActivate (ev_hashToken e) (sent e req ep) s = (Inl x, t)")
    case True then show ?thesis using t serve_refused by fastforce
  next
    case False
    then have g: "session_canActivate (ev_hashToken e) (sent e req ep) s = (Inr None, t)" using g by blast
    show ?thesis
    proof (cases "ha_guard (handler_of e req ep)")
      case None
      have "keeps (apart_from_session t) (ha_run (handler_of e req ep) None)"
      proof (cases "ha_method (handler_of e req ep) = ''GET''")
        case True then show ?thesis using assms(2) by (intro get_reads_all) auto
      next
        case False then show ?thesis by (rule closed_unguarded [OF assms(2) _ None])
      qed
      then show ?thesis using serve_open [OF g None] apart_trans [OF t] by (simp add: keepsD_snd)
    next
      case (Some ar)
      then obtain action resource where ar: "ha_guard (handler_of e req ep) = Some (action, resource)" by (cases ar) simp
      show ?thesis using serve_guarded [OF g ar] t by (simp add: canActivate_def op_simps)
    qed
  qed
qed

section \<open>Example requests\<close>

text \<open>The administrator signed in, with a grant to create roles, and a server with the reference engine.\<close>

definition demo_signed_in :: state where
  "demo_signed_in = demo\<lparr>sessions := [demo_login\<lparr>se_userId := 10\<rparr>], grants := [demo_grant\<lparr>g_action := ''role:create''\<rparr>]\<rparr>"

definition demo_env :: env where
  "demo_env = \<lparr>ev_engine = reference_engine, ev_validates = (\<lambda>_. True), ev_uuid = 99, ev_hashToken = plain_hash,
     ev_passcodeHash = plain_hash, ev_hashPassword = plain_hash, ev_verify = (\<lambda>_ _. False), ev_mail = (\<lambda>_ _. None),
     ev_sessionToken = ''new'', ev_mailToken = ''mail'', ev_inviteToken = ''invite'', ev_liveInviteToken = None,
     ev_oauthCipher = rev, ev_tokenCipher = (\<lambda>x. Some (rev x)),
     ev_faults = \<lparr>sf_put = (\<lambda>_. False), sf_delete = (\<lambda>_. False)\<rparr>, ev_sha256 = plain_hash,
     ev_maxBytes = 10, ev_queueUp = True, ev_oauth = toy_oauth, ev_codec = toy_codec toy_login, ev_nonce = ''n''\<rparr>"

definition demo_post :: "string option \<Rightarrow> string option \<Rightarrow> http_request" where
  "demo_post cookie header =
     \<lparr>hr_method = ''POST'', hr_sessionCookie = cookie, hr_csrfCookie = Some ''csrf'', hr_csrfHeader = header\<rparr>"

lemma demo_resolves:
  "\<exists>t. resolve plain_hash ''tok'' demo_signed_in =
     (Inr (Some \<lparr>rs_sessionId = 80, rs_userId = 10, rs_organizationId = 1\<rparr>), t)"
  by (simp add: resolve_def session_by_token_def plain_hash_def session_live_def demo_signed_in_def demo_login_def
      durations_def readOrg_def op_simps demo_defs)

section \<open>A caller without a session\<close>

text \<open>C33: A caller for whom no live session resolves changes nothing but what resolving touches (a
  session's activity, the policy cache) at any endpoint that is not one of the entries: signing in
  or out, the mailed tokens, accepting an invitation, the provider's callback. And an endpoint that
  declares an action answers such a caller that he is not authenticated, or fails.\<close>

theorem stranger_changes_nothing:
  assumes "stranger (ev_hashToken e) req s" and "\<not> entry ep"
  shows "apart_from_session s (snd (serve_http e req ep s)) \<and>
    (ha_guard (handler_of e req ep) \<noteq> None \<longrightarrow> (\<exists>x. fst (serve_http e req ep s) = Inl x))"
proof (intro conjI impI stranger_apart [OF assms])
  assume "ha_guard (handler_of e req ep) \<noteq> None"
  then obtain action resource where ar: "ha_guard (handler_of e req ep) = Some (action, resource)" by auto
  have "stranger (ev_hashToken e) (sent e req ep) s" using assms(1) by (simp add: stranger_def)
  then show "\<exists>x. fst (serve_http e req ep s) = Inl x"
    using stranger_guard [of "ev_hashToken e" "sent e req ep" s] serve_refused [of e req ep s]
      serve_guarded [OF _ ar, of s] by (fastforce simp: canActivate_def op_simps)
qed

theorem stranger_changes_nothing_witness:
  "apart_from_session demo_signed_in (snd (serve_http demo_env (demo_post None None) (E_Roles (Roles_Create (Some ''Staff''))) demo_signed_in)) \<and>
   (\<exists>x. fst (serve_http demo_env (demo_post None None) (E_Roles (Roles_Create (Some ''Staff''))) demo_signed_in) = Inl x)"
proof -
  have "stranger (ev_hashToken demo_env) (demo_post None None) demo_signed_in"
    by (simp add: stranger_def demo_post_def truthy_def)
  from stranger_changes_nothing [OF this, of "E_Roles (Roles_Create (Some ''Staff''))"] show ?thesis
    by (simp add: route_def Authorize_def)
qed

section \<open>A forged request\<close>

text \<open>C17: A request that carries a member's live session but not the matching pair of tokens (one that
  another site made his browser send) changes nothing but the session's activity and the policy
  cache, at every endpoint but the provider's callback; if the method is one that writes it is refused.\<close>

theorem forged_request:
  assumes "truthy (hr_sessionCookie req) = Some tok" and "fst (resolve (ev_hashToken e) tok s) = Inr (Some r)"
    and "\<not> csrf_ok req" and "\<And>code st er. ep \<noteq> E_Discord (Discord_Callback code st er)"
  shows "apart_from_session s (snd (serve_http e req ep s)) \<and>
    (ha_method (handler_of e req ep) \<in> set MUTATING \<longrightarrow>
       fst (serve_http e req ep s) = Inl (DeniedError ''CSRF_FAILED''))"
proof -
  let ?h = "handler_of e req ep"
  obtain t where t: "resolve (ev_hashToken e) tok s = (Inr (Some r), t)"
    using assms(2) by (cases "resolve (ev_hashToken e) tok s") auto
  have g: "session_canActivate (ev_hashToken e) (sent e req ep) s =
      (if ha_method ?h \<in> set MUTATING then Inl (DeniedError ''CSRF_FAILED'') else Inr (Some r), t)"
    using session_guard_run [of "sent e req ep" tok "ev_hashToken e" s] assms(1,3) t by (auto simp: csrf_ok_def)
  show ?thesis
  proof (cases "ha_method ?h \<in> set MUTATING")
    case True
    then show ?thesis using serve_refused [of e req ep s] g session_apart [OF g] by simp
  next
    case False
    have get: "ha_method ?h = ''GET''" using False by (rule method_get)
    have run: "apart_from_session t (snd (ha_run ?h (Some r) v))" if "apart_from_session t v" for v
      by (rule keepsD_snd [OF get_reads_all [OF get assms(4)] that])
    have g: "session_canActivate (ev_hashToken e) (sent e req ep) s = (Inr (Some r), t)" using g False by simp
    have "apart_from_session s (snd (serve_http e req ep s))"
    proof (cases "ha_guard ?h")
      case None
      then show ?thesis using serve_open [OF g None] run [of t] apart_trans [OF session_apart [OF g]] by simp
    next
      case (Some ar)
      then obtain action resource where ar: "ha_guard ?h = Some (action, resource)" by (cases ar) simp
      show ?thesis
        unfolding serve_guarded [OF g ar]
        by (rule apart_trans [OF session_apart [OF g]],
            rule keepsD_snd [OF keeps_bnd [OF guard_apart [OF resource_reads [OF ar]]
               get_reads_all [OF get assms(4)]] apart_refl])
    qed
    then show ?thesis using False by simp
  qed
qed

theorem forged_request_witness:
  "apart_from_session demo_signed_in (snd (serve_http demo_env (demo_post (Some ''tok'') None) (E_Roles (Roles_Create (Some ''Staff''))) demo_signed_in)) \<and>
   fst (serve_http demo_env (demo_post (Some ''tok'') None) (E_Roles (Roles_Create (Some ''Staff''))) demo_signed_in) =
     Inl (DeniedError ''CSRF_FAILED'')"
proof -
  let ?r = "\<lparr>rs_sessionId = 80, rs_userId = 10, rs_organizationId = 1\<rparr>" and ?q = "demo_post (Some ''tok'') None"
  have "truthy (hr_sessionCookie ?q) = Some ''tok''" and "fst (resolve (ev_hashToken demo_env) ''tok'' demo_signed_in) = Inr (Some ?r)"
    and "\<not> csrf_ok ?q"
    using demo_resolves by (auto simp: demo_post_def demo_env_def csrf_ok_def truthy_def)
  from forged_request [OF this, of "E_Roles (Roles_Create (Some ''Staff''))"] show ?thesis
    by (simp add: route_def MUTATING_def)
qed

section \<open>A permitted request\<close>

lemma projectable_sessions [simp]: "projectable k (sessions_update f s) = projectable k s"
  by (simp add: projectable_def role_active_def)

lemma session_frame [simp]:
  "cache_ok (sessions_update f s) = cache_ok s" "fresh_policies (sessions_update f s) = fresh_policies s"
  "make_request u a res (sessions_update f s) = make_request u a res s"
  by (simp_all add: cache_ok_def fresh_policies_def version_of_def make_request_def
      buildPrincipalEntities_def roles_held_def cong: list.case_cong)

lemma resolve_sessions:
  assumes "resolve h tok s = (x, t)" shows "t = s\<lparr>sessions := sessions t\<rparr>"
proof -
  have "keeps (\<lambda>t. t\<lparr>sessions := []\<rparr> = s\<lparr>sessions := []\<rparr>) (resolve h tok)"
    unfolding resolve_def durations_def by (intro keeps_intros keeps_update_row) auto
  from keepsD [OF this refl assms] show ?thesis by (cases s; cases t) simp
qed

lemma guard_allows:
  assumes "canActivate eng a m (Some u) t = (Inr x, v)" and "pure_read m"
  shows "\<exists>res. fst (m t) = Inr res \<and> fst (decide eng u a res t) = Inr True"
  using assms(1) pure_read_state [OF assms(2), of t]
  by (auto simp: canActivate_def op_simps bnd_Inr_iff split: if_splits)

text \<open>C16: With an engine that decides as documented and a coherent policy cache: when a request to an
  endpoint that declares an action changed anything but a session's activity and the policy cache,
  a live session was resolved, the tokens match if the method writes, and some active grant of an
  active role of that member permits the declared action on the resource the route resolves to (or
  it is the member's own profile), and nothing forbids it.\<close>

theorem http_permitted:
  assumes "ha_guard (handler_of e req ep) = Some (action, resource)"
    and "cedar_documented (ev_engine e)" and "cache_ok s" and "organizations s = org # rest"
    and "fresh_policies s = Some ps"
    and "\<not> apart_from_session s (snd (serve_http e req ep s))"
  shows "\<exists>tok r t res. truthy (hr_sessionCookie req) = Some tok \<and>
    resolve (ev_hashToken e) tok s = (Inr (Some r), t) \<and>
    (ha_method (handler_of e req ep) \<in> set MUTATING \<longrightarrow> csrf_ok req) \<and>
    fst (resource (Some (rs_userId r)) t) = Inr res \<and>
    permitted (make_request (rs_userId r) action res s) (projectable (o_id org) s) \<and>
    \<not> forbidden (make_request (rs_userId r) action res s) (selfReviewAllowed org) (projectable (o_id org) s)"
proof -
  let ?h = "handler_of e req ep" and ?r = "sent e req ep"
  obtain x t where g: "session_canActivate (ev_hashToken e) ?r s = (x, t)" by fastforce
  have "\<exists>session. x = Inr session"
    using serve_refused [of e req ep s] g session_apart [OF g] assms(6) by (cases x) auto
  then obtain session where x: "x = Inr session" by blast
  note run = serve_guarded [OF g [unfolded x] assms(1)]
  obtain y v where c: "canActivate (ev_engine e) action (resource (map_option rs_userId session)) (map_option rs_userId session) t = (y, v)"
    by fastforce
  have "apart_from_session s v" by (rule guarded_apart [OF assms(1) g [unfolded x] c])
  then obtain z where y: "y = Inr z" using run c assms(6) by (cases y) (auto simp: bnd_def)
  then obtain r where r: "session = Some r" using c by (cases session) (auto simp: canActivate_def op_simps)
  obtain tok where tok: "truthy (hr_sessionCookie req) = Some tok"
    using g session_guard_none [of ?r] x r by (cases "truthy (hr_sessionCookie req)") auto
  have res: "resolve (ev_hashToken e) tok s = (Inr (Some r), t)"
    and csrf: "ha_method ?h \<in> set MUTATING \<longrightarrow> csrf_ok req"
    using session_guard_run [of ?r tok "ev_hashToken e" s] g x r tok
    by (auto simp: csrf_ok_def split: prod.splits sum.splits option.splits if_splits) metis+
  have c': "canActivate (ev_engine e) action (resource (Some (rs_userId r))) (Some (rs_userId r)) t = (Inr z, v)"
    using c r y by simp
  obtain k where k: "fst (resource (Some (rs_userId r)) t) = Inr k"
    and d: "fst (decide (ev_engine e) (rs_userId r) action k t) = Inr True"
    using guard_allows [OF c' resource_reads [OF assms(1)]] by blast
  obtain rows where t: "t = s\<lparr>sessions := rows\<rparr>" using resolve_sessions [OF res] by blast
  have "fst (decide (ev_engine e) (rs_userId r) action k t) =
      Inr (permitted (make_request (rs_userId r) action k t) (projectable (o_id org) t) \<and>
        \<not> forbidden (make_request (rs_userId r) action k t) (selfReviewAllowed org) (projectable (o_id org) t))"
    by (rule decide_iff [OF assms(2)]) (simp_all add: t assms(3-5))
  then show ?thesis using tok res csrf k d by (intro exI [of _ tok] exI [of _ r] exI [of _ t] exI [of _ k]) (simp add: t)
qed

lemma demo_role_created:
  "roles (snd (serve_http demo_env (demo_post (Some ''tok'') (Some ''csrf'')) (E_Roles (Roles_Create (Some ''Staff''))) demo_signed_in))
     \<noteq> roles demo_signed_in"
  by code_simp

theorem http_permitted_witness:
  "\<exists>r t res. resolve plain_hash ''tok'' demo_signed_in = (Inr (Some r), t) \<and> rs_userId r = 10 \<and>
     permitted (make_request 10 ''role:create'' res demo_signed_in) (projectable 1 demo_signed_in)"
proof -
  let ?q = "demo_post (Some ''tok'') (Some ''csrf'')" and ?ep = "E_Roles (Roles_Create (Some ''Staff''))"
  have guard: "ha_guard (handler_of demo_env ?q ?ep) = Some (''role:create'', \<lambda>_. orgResource)"
    by (simp add: route_def Authorize_def)
  have state: "cedar_documented (ev_engine demo_env)" "cache_ok demo_signed_in"
      "organizations demo_signed_in = demo_org # []"
    by (simp_all add: demo_env_def reference_engine_documented cache_ok_def demo_signed_in_def demo_defs)
  obtain ps where ps: "fresh_policies demo_signed_in = Some ps"
    by (simp add: fresh_policies_def project_def projectable_def role_active_def grantToPolicy_def scopeCondition_def
        demo_signed_in_def demo_defs)
  have "\<not> apart_from_session demo_signed_in (snd (serve_http demo_env ?q ?ep demo_signed_in))"
    using demo_role_created by (auto simp: apart_from_session_def dest: arg_cong [of _ _ roles])
  from http_permitted [OF guard state ps this] obtain tok r t res where
      r: "truthy (hr_sessionCookie ?q) = Some tok" "resolve (ev_hashToken demo_env) tok demo_signed_in = (Inr (Some r), t)"
        "permitted (make_request (rs_userId r) ''role:create'' res demo_signed_in) (projectable (o_id demo_org) demo_signed_in)"
    by blast
  then have "resolve plain_hash ''tok'' demo_signed_in = (Inr (Some r), t)"
    by (simp add: demo_post_def truthy_def demo_env_def)
  moreover from this have "rs_userId r = 10" using demo_resolves by auto
  moreover have "o_id demo_org = 1" by (simp add: demo_org_def)
  ultimately show ?thesis using r(3) by metis
qed

end
