(* ===== verification/Numerals.thy ===== *)
theory Numerals
  imports Js_Values
begin

text \<open>The decimal numeral of a number, read back by the language's conversion of strings to numbers.\<close>

definition digit_char :: "char \<Rightarrow> bool" where
  "digit_char c \<longleftrightarrow> (\<exists>d < 10. c = char_of (48 + d :: nat))"

lemma less_10: "d < 10 \<Longrightarrow> d \<in> {0, 1, 2, 3, 4, 5, 6, 7, 8, 9 :: nat}"
  by auto

lemma digit_val_char: "d < 10 \<Longrightarrow> digit_val (char_of (48 + d)) = Some d"
  by (simp add: digit_val_def Let_def)

lemma digit_char_code: "digit_char c \<Longrightarrow> 48 \<le> (of_char c :: nat) \<and> (of_char c :: nat) \<le> 57"
  by (auto simp: digit_char_def)

lemma nat_digits_chars: "\<forall>c \<in> set (nat_digits n). digit_char c"
proof (induction n rule: nat_digits.induct)
  case (1 n)
  then show ?case
    by (subst nat_digits.simps) (auto simp: digit_char_def intro: exI [of _ n] exI [of _ "n mod 10"])
qed

lemma nat_digits_nonempty: "nat_digits n \<noteq> []"
  by (subst nat_digits.simps) simp

lemma digits_append:
  "digits 10 xs acc len = (v, m, []) \<Longrightarrow> digits 10 (xs @ ys) acc len = digits 10 ys v m"
  by (induction "10 :: nat" xs acc len rule: digits.induct) (auto split: option.splits if_splits)

lemma digits_nat: "\<exists>k > 0. digits 10 (nat_digits n) 0 0 = (n, k, [])"
proof (induction n rule: nat_digits.induct)
  case (1 n)
  show ?case
  proof (cases "n < 10")
    case True
    then have "nat_digits n = [char_of (48 + n)]" by (subst nat_digits.simps) simp
    then show ?thesis using True by (simp add: digit_val_char)
  next
    case False
    then have s: "nat_digits n = nat_digits (n div 10) @ [char_of (48 + n mod 10)]" by (subst nat_digits.simps) simp
    obtain k where "digits 10 (nat_digits (n div 10)) 0 0 = (n div 10, k, [])" using 1 False by blast
    then have "digits 10 (nat_digits n) 0 0 = digits 10 [char_of (48 + n mod 10)] (n div 10) k"
      unfolding s by (rule digits_append)
    then show ?thesis by (simp add: digit_val_char)
  qed
qed

lemma trim_digits:
  assumes "\<forall>c \<in> set xs. digit_char c" shows "js_trim xs = xs"
proof -
  have no: "\<not> js_space c" if "c \<in> set xs" for c
    using digit_char_code [of c] assms that by (auto simp: js_space_def Let_def)
  have keep: "dropWhile js_space ys = ys" if "set ys \<subseteq> set xs" for ys
    using that no by (cases ys) auto
  show ?thesis by (simp add: js_trim_def keep)
qed

lemma js_Number_numeral: "js_Number_string (int_string (int n)) = Fin (of_nat n)"
proof -
  let ?x = "nat_digits n"
  have all: "\<forall>c \<in> set ?x. digit_char c" by (rule nat_digits_chars)
  obtain c cs where x: "?x = c # cs" using nat_digits_nonempty by (cases ?x) auto
  have c: "48 \<le> (of_char c :: nat)" "(of_char c :: nat) \<le> 57" using all digit_char_code [of c] by (auto simp: x)
  obtain k where k: "0 < k" "digits 10 ?x 0 0 = (n, k, [])" using digits_nat by blast
  have "c2 \<notin> {CHR ''x'', CHR ''X'', CHR ''o'', CHR ''O'', CHR ''b'', CHR ''B''}" if "c2 \<in> set ?x" for c2
    using digit_char_code [of c2] all that by auto
  then have prefix: "take 2 ?x \<notin> {''0x'', ''0X'', ''0o'', ''0O'', ''0b'', ''0B''}"
    unfolding x by (cases cs) auto
  have sign: "sign_of ?x = (False, ?x)"
    using c by (auto simp: x sign_of_def split: char.split bool.split)
  have inf: "?x \<noteq> ''Infinity''" using c by (auto simp: x)
  show ?thesis
    using prefix sign inf k x trim_digits [OF all]
    by (auto simp: int_string_def js_Number_string_def Let_def unsigned_decimal_def exponent_part_def pow10_def)
qed

end
