(* ===== verification/Web_Properties.thy ===== *)
theory Web_Properties
  imports Routes Http_Properties Numerals
begin

text \<open>
  The web client against the API: the endpoint each call is meant to reach with the arguments it was
  given, when the API accepts them, and that the request sent is read as exactly that.
\<close>

section \<open>What a call means\<close>

text \<open>An id written into a body or query is read back.\<close>

definition renders :: "formats \<Rightarrow> (id \<Rightarrow> string) \<Rightarrow> bool" where
  "renders fm sh \<longleftrightarrow> (\<forall>i. fm_uuid fm (sh i) = Some i \<and> sh i \<noteq> [] \<and> take 3 (sh i) \<noteq> ''in:'')"

definition good_email :: "formats \<Rightarrow> string \<Rightarrow> bool" where
  "good_email fm x \<longleftrightarrow> sized 1 320 x \<and> fm_email fm x"

definition good_password :: "string \<Rightarrow> bool" where
  "good_password x \<longleftrightarrow> sized 8 200 x \<and> 8 \<le> length (js_trim x)"

definition good_limit :: "nat option \<Rightarrow> bool" where
  "good_limit l \<longleftrightarrow> (\<forall>n. l = Some n \<longrightarrow> n \<le> 100)"

definition limit_or :: "nat \<Rightarrow> nat option \<Rightarrow> nat" where
  "limit_or d l = (case l of None \<Rightarrow> d | Some n \<Rightarrow> if n = 0 then d else n)"

definition given_as :: "('a \<Rightarrow> bool) \<Rightarrow> 'a option \<Rightarrow> bool" where
  "given_as P v \<longleftrightarrow> (\<forall>x. v = Some x \<longrightarrow> P x)"

abbreviation named :: "nat \<Rightarrow> nat \<Rightarrow> string \<Rightarrow> bool" where
  "named lo hi n \<equiv> sized lo hi (js_trim n)"

primrec entry_ok :: "formats \<Rightarrow> entry_call \<Rightarrow> bool" where
  "entry_ok fm Call_bootstrapStatus \<longleftrightarrow> True"
| "entry_ok fm Call_me \<longleftrightarrow> True"
| "entry_ok fm (Call_login email password) \<longleftrightarrow> good_email fm email \<and> sized 1 200 password"
| "entry_ok fm Call_logout \<longleftrightarrow> True"
| "entry_ok fm (Call_viewInvite tok) \<longleftrightarrow> True"
| "entry_ok fm (Call_acceptInvite tok passcode email password name) \<longleftrightarrow>
     given_as (sized 1 200) passcode \<and> good_email fm email \<and> good_password password \<and> named 1 200 name"
| "entry_ok fm (Call_createInvitation email) \<longleftrightarrow> given_as (good_email fm) email"
| "entry_ok fm Call_listInvitations \<longleftrightarrow> True"
| "entry_ok fm (Call_revokeInvitation i) \<longleftrightarrow> True"
| "entry_ok fm (Call_requestPasswordReset email) \<longleftrightarrow> good_email fm email"
| "entry_ok fm (Call_confirmPasswordReset tok password) \<longleftrightarrow> tok \<noteq> [] \<and> good_password password"
| "entry_ok fm (Call_confirmVerification tok) \<longleftrightarrow> tok \<noteq> []"
| "entry_ok fm (Call_resendVerification email) \<longleftrightarrow> good_email fm email"
| "entry_ok fm Call_unlinkDiscord \<longleftrightarrow> True"

primrec entry_meant :: "formats \<Rightarrow> entry_call \<Rightarrow> endpoint" where
  "entry_meant fm Call_bootstrapStatus = E_Invitations Bootstrap_Status"
| "entry_meant fm Call_me = E_Auth Auth_Me"
| "entry_meant fm (Call_login email password) = E_Auth (Auth_Login (Some (email, password)))"
| "entry_meant fm Call_logout = E_Auth Auth_Logout"
| "entry_meant fm (Call_viewInvite tok) = E_Invitations (Invite_View tok)"
| "entry_meant fm (Call_acceptInvite tok passcode email password name) =
     E_Invitations (Invite_Accept tok (Some (passcode, email, password, js_trim name)))"
| "entry_meant fm (Call_createInvitation email) = E_Invitations (Invitations_Create (Some (email, None, None)))"
| "entry_meant fm Call_listInvitations = E_Invitations Invitations_List"
| "entry_meant fm (Call_revokeInvitation i) = E_Invitations (Invitations_Revoke i)"
| "entry_meant fm (Call_requestPasswordReset email) = E_Auth (Auth_RequestReset (Some email))"
| "entry_meant fm (Call_confirmPasswordReset tok password) = E_Auth (Auth_ConfirmReset (Some (tok, password)))"
| "entry_meant fm (Call_confirmVerification tok) = E_Auth (Auth_ConfirmVerification (Some tok))"
| "entry_meant fm (Call_resendVerification email) = E_Auth (Auth_ResendVerification (Some email))"
| "entry_meant fm Call_unlinkDiscord = E_Discord Discord_Unlink"

text \<open>A division or team update may carry further properties only where there are none; a role must be
  given its name and no colour; the integer bounds are the schema's.\<close>

primrec org_ok :: "org_call \<Rightarrow> bool" where
  "org_ok (Call_listRoles retd) \<longleftrightarrow> True"
| "org_ok (Call_createRole n) \<longleftrightarrow> named 1 120 n"
| "org_ok (Call_updateRole i n color) \<longleftrightarrow> n \<noteq> None \<and> given_as (named 1 120) n \<and> color = None"
| "org_ok (Call_retireRole i) \<longleftrightarrow> True"
| "org_ok (Call_reviveRole i) \<longleftrightarrow> True"
| "org_ok (Call_listDivisions retd) \<longleftrightarrow> True"
| "org_ok (Call_createDivision n d extra) \<longleftrightarrow>
     named 1 120 n \<and> given_as (\<lambda>k. 0 \<le> k \<and> k \<le> 10000) (di_defaultOpenings d) \<and> extra = []"
| "org_ok (Call_updateDivision i d extra) \<longleftrightarrow>
     given_as (named 1 120) (di_name d) \<and> given_as (\<lambda>k. 0 \<le> k \<and> k \<le> 10000) (di_defaultOpenings d) \<and> extra = []"
| "org_ok (Call_retireDivision i) \<longleftrightarrow> True"
| "org_ok (Call_reviveDivision i) \<longleftrightarrow> True"
| "org_ok (Call_listTeams retd) \<longleftrightarrow> True"
| "org_ok (Call_createTeam n rc) \<longleftrightarrow> named 1 120 n"
| "org_ok (Call_updateTeam i n rc extra) \<longleftrightarrow> given_as (named 1 120) n \<and> extra = []"
| "org_ok (Call_retireTeam i) \<longleftrightarrow> True"
| "org_ok (Call_reviveTeam i) \<longleftrightarrow> True"

primrec org_meant :: "org_call \<Rightarrow> endpoint" where
  "org_meant (Call_listRoles retd) = E_Roles (Roles_List retd)"
| "org_meant (Call_createRole n) = E_Roles (Roles_Create (Some (js_trim n)))"
| "org_meant (Call_updateRole i n color) = E_Roles (Roles_Update i (map_option js_trim n))"
| "org_meant (Call_retireRole i) = E_Roles (Roles_Retire i)"
| "org_meant (Call_reviveRole i) = E_Roles (Roles_Revive i)"
| "org_meant (Call_listDivisions retd) = E_Divisions (Divisions_List retd)"
| "org_meant (Call_createDivision n d extra) =
     E_Divisions (Divisions_Create (Some (js_trim n, d\<lparr>di_name := Some (js_trim n)\<rparr>)))"
| "org_meant (Call_updateDivision i d extra) =
     E_Divisions (Divisions_Update i (Some (d\<lparr>di_name := map_option js_trim (di_name d)\<rparr>)))"
| "org_meant (Call_retireDivision i) = E_Divisions (Divisions_Retire i)"
| "org_meant (Call_reviveDivision i) = E_Divisions (Divisions_Revive i)"
| "org_meant (Call_listTeams retd) = E_Teams (Teams_List retd)"
| "org_meant (Call_createTeam n rc) = E_Teams (Teams_Create (Some (js_trim n, rc)))"
| "org_meant (Call_updateTeam i n rc extra) = E_Teams (Teams_Update i (Some (map_option js_trim n, rc)))"
| "org_meant (Call_retireTeam i) = E_Teams (Teams_Retire i)"
| "org_meant (Call_reviveTeam i) = E_Teams (Teams_Revive i)"

primrec member_ok :: "formats \<Rightarrow> member_call \<Rightarrow> bool" where
  "member_ok fm Call_listActions \<longleftrightarrow> True"
| "member_ok fm (Call_listGrants retd) \<longleftrightarrow> True"
| "member_ok fm (Call_createGrant r a k d t sr) \<longleftrightarrow> a \<noteq> []"
| "member_ok fm (Call_retireGrant i) \<longleftrightarrow> True"
| "member_ok fm (Call_listUsers retd) \<longleftrightarrow> True"
| "member_ok fm (Call_grantUserRole i r) \<longleftrightarrow> True"
| "member_ok fm (Call_revokeUserRole i r) \<longleftrightarrow> True"
| "member_ok fm (Call_deactivateUser i) \<longleftrightarrow> True"
| "member_ok fm (Call_reactivateUser i) \<longleftrightarrow> True"
| "member_ok fm (Call_retireUser i) \<longleftrightarrow> True"
| "member_ok fm (Call_reviveUser i) \<longleftrightarrow> True"
| "member_ok fm (Call_getRequestTemplate i) \<longleftrightarrow> True"
| "member_ok fm (Call_putRequestTemplate i qs) \<longleftrightarrow> True"
| "member_ok fm Call_getConfig \<longleftrightarrow> True"
| "member_ok fm (Call_updateConfig kvs) \<longleftrightarrow> config_patch_ok (map (\<lambda>(k, v). (k, scalar v)) kvs)"
| "member_ok fm (Call_listActivity f after limit) \<longleftrightarrow>
     given_as (sized 1 100) (qf_verb f) \<and> given_as (sized 1 100) (qf_verbPrefix f) \<and>
     given_as (sized 1 50) (qf_subjectType f) \<and> given_as (\<lambda>x. x \<noteq> [] \<and> fm_date fm (BStr x) \<noteq> None) (qf_from f) \<and>
     given_as (\<lambda>x. x \<noteq> [] \<and> fm_date fm (BStr x) \<noteq> None) (qf_to f) \<and> good_limit limit"

definition audit_meant :: "formats \<Rightarrow> audit_filters \<Rightarrow> id option \<Rightarrow> nat option \<Rightarrow> activity_filters" where
  "audit_meant fm f after limit =
     \<lparr>af_after = after, af_limit = limit_or 50 limit, af_verb = qf_verb f, af_verbPrefix = qf_verbPrefix f,
      af_actorUserId = qf_actorUserId f, af_subjectType = qf_subjectType f, af_subjectId = qf_subjectId f,
      af_source = qf_source f, af_from = map_option (\<lambda>x. the (fm_date fm (BStr x))) (qf_from f),
      af_to = map_option (\<lambda>x. the (fm_date fm (BStr x))) (qf_to f)\<rparr>"

primrec member_meant :: "formats \<Rightarrow> member_call \<Rightarrow> endpoint" where
  "member_meant fm Call_listActions = E_Grants Grants_Actions"
| "member_meant fm (Call_listGrants retd) = E_Grants (Grants_List retd)"
| "member_meant fm (Call_createGrant r a k d t sr) =
     E_Grants (Grants_Create (Some (r, \<lparr>gf_action = a, gf_effect = Permit, gf_scopeKind = k, gf_scopeDivisionId = d,
       gf_scopeTeamId = t, gf_scopeRoleId = sr\<rparr>)))"
| "member_meant fm (Call_retireGrant i) = E_Grants (Grants_Retire i)"
| "member_meant fm (Call_listUsers retd) = E_Users (Users_List retd)"
| "member_meant fm (Call_grantUserRole i r) = E_Users (Users_GrantRole i r (Some r))"
| "member_meant fm (Call_revokeUserRole i r) = E_Users (Users_RevokeRole i r)"
| "member_meant fm (Call_deactivateUser i) = E_Users (Users_Deactivate i)"
| "member_meant fm (Call_reactivateUser i) = E_Users (Users_Reactivate i)"
| "member_meant fm (Call_retireUser i) = E_Users (Users_Retire i)"
| "member_meant fm (Call_reviveUser i) = E_Users (Users_Revive i)"
| "member_meant fm (Call_getRequestTemplate i) = E_Templates (Templates_Get i)"
| "member_meant fm (Call_putRequestTemplate i qs) =
     E_Templates (Templates_Put i (putRequestTemplateSchema (BObj [(''questions'', BArr qs)])))"
| "member_meant fm Call_getConfig = E_Config Config_Get"
| "member_meant fm (Call_updateConfig kvs) = E_Config (Config_Update (Some (map (\<lambda>(k, v). (k, scalar v)) kvs)))"
| "member_meant fm (Call_listActivity f after limit) = E_Activity (Some (audit_meant fm f after limit))"

primrec task_ok :: "task_call \<Rightarrow> bool" where
  "task_ok (Call_listTasks f after limit) \<longleftrightarrow> good_limit limit"
| "task_ok (Call_getTask i) \<longleftrightarrow> True"
| "task_ok (Call_createTask n d k tm) \<longleftrightarrow> named 1 200 n \<and> given_as (sized 0 20000) d"
| "task_ok (Call_updateTask i n d) \<longleftrightarrow>
     given_as (named 1 200) n \<and> given_as (sized 0 20000) d \<and> (n \<noteq> None \<or> d \<noteq> None)"
| "task_ok (Call_retireTask i) \<longleftrightarrow> True"
| "task_ok (Call_claimTask i) \<longleftrightarrow> True"
| "task_ok (Call_leaveTask i) \<longleftrightarrow> True"
| "task_ok (Call_removeClaimant i u) \<longleftrightarrow> True"
| "task_ok (Call_manageClaims i delta) \<longleftrightarrow> delta \<noteq> None \<and> given_as (\<lambda>n. - 10000 \<le> n \<and> n \<le> 10000) delta"
| "task_ok (Call_changeRequester i u) \<longleftrightarrow> True"
| "task_ok (Call_getTaskRequestTemplate i) \<longleftrightarrow> True"
| "task_ok (Call_completeTask i) \<longleftrightarrow> True"

definition list_meant :: "task_filters \<Rightarrow> id option \<Rightarrow> nat option \<Rightarrow> list_tasks_query" where
  "list_meant f after limit =
     \<lparr>lq_division = map_option (\<lambda>x. [x]) (tf_division f), lq_team = map_option (\<lambda>x. [x]) (tf_team f),
       lq_status = map_option (\<lambda>x. [x]) (tf_status f), lq_requester = map_option (\<lambda>x. [x]) (tf_requester f),
       lq_claimant = map_option (\<lambda>x. [x]) (tf_claimant f), lq_after = after, lq_limit = limit_or 20 limit,
       lq_includeRetired = False\<rparr>"

primrec task_meant :: "task_call \<Rightarrow> endpoint" where
  "task_meant (Call_listTasks f after limit) = E_Tasks (Tasks_List (Some (list_meant f after limit)))"
| "task_meant (Call_getTask i) = E_Tasks (Tasks_Get i)"
| "task_meant (Call_createTask n d k tm) = E_Tasks (Tasks_Create (Some k) tm (Some (js_trim n, d, k, tm)))"
| "task_meant (Call_updateTask i n d) = E_Tasks (Tasks_Update i (Some (map_option js_trim n, d)))"
| "task_meant (Call_retireTask i) = E_Tasks (Tasks_Retire i)"
| "task_meant (Call_claimTask i) = E_Tasks (Tasks_Claim i)"
| "task_meant (Call_leaveTask i) = E_Tasks (Tasks_Leave i)"
| "task_meant (Call_removeClaimant i u) = E_Tasks (Tasks_RemoveClaimant i u)"
| "task_meant (Call_manageClaims i delta) = E_Tasks (Tasks_ManageClaims i (Some (delta, None)))"
| "task_meant (Call_changeRequester i u) = E_Tasks (Tasks_ChangeRequester i (Some u))"
| "task_meant (Call_getTaskRequestTemplate i) = E_Tasks (Tasks_GetTemplate i)"
| "task_meant (Call_completeTask i) = E_Tasks (Tasks_Complete i)"

definition answer_ok :: "dto_answer \<Rightarrow> bool" where
  "answer_ok a \<longleftrightarrow> given_as (\<lambda>v. \<forall>n. v = VNum n \<longrightarrow> (\<exists>r. n = Fin r)) (da_value a) \<and>
     given_as (\<lambda>is. length is \<le> 50) (da_attachmentIds a)"

primrec work_ok :: "work_call \<Rightarrow> bool" where
  "work_ok (Call_listMessages i after limit) \<longleftrightarrow> good_limit limit"
| "work_ok (Call_createMessage i b parent) \<longleftrightarrow> named 1 50000 b"
| "work_ok (Call_updateMessage i b) \<longleftrightarrow> named 1 50000 b"
| "work_ok (Call_retireMessage i) \<longleftrightarrow> True"
| "work_ok (Call_uploadAttachment i file) \<longleftrightarrow> True"
| "work_ok (Call_attachmentUrl i) \<longleftrightarrow> True"
| "work_ok (Call_listSubmissions i) \<longleftrightarrow> True"
| "work_ok (Call_getSubmission i) \<longleftrightarrow> True"
| "work_ok (Call_submit i aws) \<longleftrightarrow> length aws \<le> 200 \<and> (\<forall>a \<in> set aws. answer_ok a)"
| "work_ok (Call_reviewSubmission i d c) \<longleftrightarrow> given_as (sized 0 20000) c"
| "work_ok (Call_retireSubmission i r) \<longleftrightarrow> named 5 500 r"
| "work_ok Call_notificationStream \<longleftrightarrow> True"
| "work_ok (Call_listNotifications after limit) \<longleftrightarrow> good_limit limit"
| "work_ok (Call_markNotificationRead i) \<longleftrightarrow> True"
| "work_ok Call_markAllNotificationsRead \<longleftrightarrow> True"

primrec work_meant :: "work_call \<Rightarrow> endpoint" where
  "work_meant (Call_listMessages i after limit) = E_Messages (Messages_List i (Some (after, limit_or 50 limit)))"
| "work_meant (Call_createMessage i b parent) = E_Messages (Messages_Create i (Some (js_trim b, parent)))"
| "work_meant (Call_updateMessage i b) = E_Messages (Messages_Update i (Some (js_trim b)))"
| "work_meant (Call_retireMessage i) = E_Messages (Messages_Retire i)"
| "work_meant (Call_uploadAttachment i file) = E_Attachments (Attachments_Upload i (Some file))"
| "work_meant (Call_attachmentUrl i) = E_Attachments (Attachments_Download i)"
| "work_meant (Call_listSubmissions i) = E_Submissions (Submissions_List i)"
| "work_meant (Call_getSubmission i) = E_Submissions (Submissions_Get i)"
| "work_meant (Call_submit i aws) = E_Submissions (Submissions_Submit i (Some aws))"
| "work_meant (Call_reviewSubmission i d c) = E_Submissions (Submissions_Review i (Some (d, c)))"
| "work_meant (Call_retireSubmission i r) = E_Submissions (Submissions_Retire i (Some (js_trim r)))"
| "work_meant Call_notificationStream = E_Notifications Notifications_Stream"
| "work_meant (Call_listNotifications after limit) = E_Notifications (Notifications_List (Some (after, limit_or 50 limit)))"
| "work_meant (Call_markNotificationRead i) = E_Notifications (Notifications_Read i)"
| "work_meant Call_markAllNotificationsRead = E_Notifications Notifications_ReadAll"

primrec integration_ok :: "integration_call \<Rightarrow> bool" where
  "integration_ok (Call_listIntegrations retd) \<longleftrightarrow> True"
| "integration_ok (Call_connectIntegration w n c) \<longleftrightarrow> w \<noteq> [] \<and> sized 1 200 n"
| "integration_ok (Call_updateIntegration i n c) \<longleftrightarrow> given_as (sized 1 200) n"
| "integration_ok (Call_retireIntegration i) \<longleftrightarrow> True"
| "integration_ok (Call_reviveIntegration i) \<longleftrightarrow> True"
| "integration_ok (Call_listMappings i) \<longleftrightarrow> True"
| "integration_ok (Call_createMapping i r g d) \<longleftrightarrow> g \<noteq> []"
| "integration_ok (Call_deleteMapping i m) \<longleftrightarrow> True"
| "integration_ok (Call_retryMapping i m) \<longleftrightarrow> True"
| "integration_ok (Call_triggerSync i) \<longleftrightarrow> True"

definition config_of :: "(string \<times> body) list \<Rightarrow> string \<rightharpoonup> json" where
  "config_of kvs = map_option scalar \<circ> map_of kvs"

primrec integration_meant :: "integration_call \<Rightarrow> endpoint" where
  "integration_meant (Call_listIntegrations retd) = E_Integrations (Integrations_List retd)"
| "integration_meant (Call_connectIntegration w n c) =
     E_Integrations (Integrations_Connect (Some \<lparr>cd_externalWorkspaceId = w, cd_displayName = n,
       cd_config = (case c of None \<Rightarrow> Map.empty | Some kvs \<Rightarrow> config_of kvs), cd_credentialsRef = None\<rparr>))"
| "integration_meant (Call_updateIntegration i n c) =
     E_Integrations (Integrations_Update i (Some \<lparr>ud_displayName = n, ud_config = map_option config_of c, ud_credentialsRef = None\<rparr>))"
| "integration_meant (Call_retireIntegration i) = E_Integrations (Integrations_Retire i)"
| "integration_meant (Call_reviveIntegration i) = E_Integrations (Integrations_Revive i)"
| "integration_meant (Call_listMappings i) = E_Integrations (Integrations_Mappings i)"
| "integration_meant (Call_createMapping i r g d) =
     E_Integrations (Integrations_CreateMapping i (Some \<lparr>md_roleId = r, md_externalGroupId = g, md_syncDirection = d\<rparr>))"
| "integration_meant (Call_deleteMapping i m) = E_Integrations (Integrations_DeleteMapping i m)"
| "integration_meant (Call_retryMapping i m) = E_Integrations (Integrations_RetryMapping i m)"
| "integration_meant (Call_triggerSync i) = E_Integrations (Integrations_Sync i)"

primrec call_ok :: "formats \<Rightarrow> api_call \<Rightarrow> bool" where
  "call_ok fm (To_Entry c) \<longleftrightarrow> entry_ok fm c"
| "call_ok fm (To_Org c) \<longleftrightarrow> org_ok c"
| "call_ok fm (To_Members c) \<longleftrightarrow> member_ok fm c"
| "call_ok fm (To_Tasks c) \<longleftrightarrow> task_ok c"
| "call_ok fm (To_Work c) \<longleftrightarrow> work_ok c"
| "call_ok fm (To_Integrations c) \<longleftrightarrow> integration_ok c"

primrec meant :: "formats \<Rightarrow> api_call \<Rightarrow> endpoint" where
  "meant fm (To_Entry c) = entry_meant fm c"
| "meant fm (To_Org c) = org_meant c"
| "meant fm (To_Members c) = member_meant fm c"
| "meant fm (To_Tasks c) = task_meant c"
| "meant fm (To_Work c) = work_meant c"
| "meant fm (To_Integrations c) = integration_meant c"

section \<open>Reading back what was written\<close>

lemma map_of_field [simp]:
  "map_of (field k enc v @ r) k' = (if k = k' then (case v of None \<Rightarrow> map_of r k' | Some x \<Rightarrow> Some (enc x)) else map_of r k')"
  "map_of (field k enc v) k' = (if k = k' then map_option enc v else None)"
  by (simp_all add: field_def split: option.split)

lemma keys_field [simp]: "fst ` set (field k enc v) = (if v = None then {} else {k})"
  by (cases v) (simp_all add: field_def)

lemma case_map_option [simp]: "(case v of None \<Rightarrow> None | Some x \<Rightarrow> Some (enc x)) = map_option enc v"
  by (cases v) simp_all

lemma opt_given:
  assumes "f k = map_option enc v" and "\<And>x. v = Some x \<Longrightarrow> p (enc x) = Some (g x)"
  shows "maybe f k p = Some (map_option g v)"
  using assms by (cases v) (simp_all add: maybe_def)

lemma opt_absent [simp]: "f k = None \<Longrightarrow> maybe f k p = Some None"
  by (simp add: maybe_def)

lemma req_given [simp]: "f k = Some v \<Longrightarrow> must f k p = p v"
  by (simp add: must_def)

lemmas route_simps = routed_def route_def sends_def asks_def post_to_def

lemma entry_reaches:
  assumes "renders fm sh" and "entry_ok fm c"
  shows "routed e fm hq (entry_request sh c) (entry_meant fm c)"
  using assms
  by (cases c)
    (auto simp: route_simps auth_args_def invitations_args_def discord_args_def loginSchema_def emailSchema_def
      good_email_def good_password_def given_as_def acceptInviteSchema_def newPassword_def createInvitationSchema_def
      resendVerificationSchema_def confirmVerificationSchema_def passwordResetRequestSchema_def passwordResetConfirmSchema_def
      maybe_def field_def split: option.splits)

lemma retd_query [simp]: "wants_retired (asks p (retiredQuery retd)) = retd"
  by (simp add: wants_retired_def query_value_def asks_def retiredQuery_def)

lemma org_reaches:
  assumes "org_ok c"
  shows "routed e fm hq (org_request sh c) (org_meant c)"
  using assms
  by (cases c)
    (auto simp: route_simps roles_args_def divisions_args_def teams_args_def createRoleSchema_def updateRoleSchema_def
      createDivisionSchema_def updateDivisionSchema_def division_keys_def division_fields_def division_body_def
      z_openings_def z_int_def num_def createTeamSchema_def updateTeamSchema_def given_as_def wants_retired_def
      query_value_def retiredQuery_def maybe_def field_def split: option.splits)

lemma direction_read: "directionSchema (BStr (direction_name d)) = Some d"
  by (cases d) (simp_all add: directionSchema_def)

lemma integration_reaches:
  assumes "renders fm sh" and "integration_ok c"
  shows "routed e fm hq (integration_request sh c) (integration_meant c)"
  using assms
  by (cases c)
    (auto simp: route_simps integrations_args_def connectIntegrationSchema_def updateIntegrationSchema_def
      createMappingSchema_def direction_read renders_def given_as_def wants_retired_def config_of_def
      query_value_def retiredQuery_def maybe_def opt_default_def field_def split: option.splits)

section \<open>Queries\<close>

lemma query_body_get: "z_strip (query_body rq) = Some (\<lambda>k. map_option BStr (map_of (wr_query rq) k))"
  by (simp add: query_body_def comp_def map_of_map)

text \<open>A parameter that is never the empty string is there exactly when its value is.\<close>

abbreviation shown :: "string option \<Rightarrow> bool" where
  "shown v \<equiv> given_as (\<lambda>x. x \<noteq> []) v"

lemma rendered_ids: "renders fm sh \<Longrightarrow> shown (map_option sh v)"
  by (auto simp: renders_def given_as_def)

lemma int_string_shown: "int_string (int n) \<noteq> []"
  by (simp add: int_string_def nat_digits_nonempty)

definition limit_param :: "nat option \<Rightarrow> string option" where
  "limit_param l = (case l of None \<Rightarrow> None | Some n \<Rightarrow> if n = 0 then None else Some (int_string (int n)))"

lemma limit_shown: "shown (limit_param l)"
  by (auto simp: limit_param_def given_as_def int_string_shown split: option.split)

lemma page_fields: "page_params sh after limit = param ''after'' (map_option sh after) @ param ''limit'' (limit_param limit)"
  by (auto simp: page_params_def param_def limit_param_def int_string_shown split: option.split)

lemma limit_read:
  "good_limit l \<Longrightarrow> f k = map_option BStr (limit_param l) \<Longrightarrow> opt_default f k z_limit d = Some (limit_or d l)"
  by (cases l) (auto simp: good_limit_def limit_param_def opt_default_def limit_or_def js_Number_numeral)

lemma id_read:
  "renders fm sh \<Longrightarrow> f k = map_option (BStr \<circ> sh) v \<Longrightarrow> maybe f k (z_uuid fm) = Some v"
  by (cases v) (simp_all add: maybe_def renders_def)

lemma facet_read:
  "renders fm sh \<Longrightarrow> f k = map_option (BStr \<circ> sh) v \<Longrightarrow>
   maybe f k (multiFacet (z_uuid fm)) = Some (map_option (\<lambda>x. [x]) v)"
  by (cases v) (simp_all add: maybe_def renders_def)

lemma page_read:
  assumes "renders fm sh" and "good_limit limit"
    and "f ''after'' = map_option (BStr \<circ> sh) after" and "f ''limit'' = map_option BStr (limit_param limit)"
  shows "page_query fm f = Some (after, limit_or 50 limit)"
  using id_read [of fm sh f "''after''" after] limit_read [of limit f "''limit''" 50] assms by (simp add: page_query_def)

lemma name_shown: "shown (map_option status_name st)" "shown (map_option source_name src)"
proof -
  show "shown (map_option status_name st)" by (cases st; cases "the st") (auto simp: given_as_def)
  show "shown (map_option source_name src)" by (cases src; cases "the src") (auto simp: given_as_def)
qed

text \<open>Reading the value of one parameter among others.\<close>

definition looked_up :: "(string \<times> string) list \<Rightarrow> fields" where
  "looked_up q k = map_option BStr (map_of q k)"

lemma query_fields: "z_strip (query_body (asks p q)) = Some (looked_up q)"
  by (rule ext option.inject [THEN iffD2] | simp add: query_body_get asks_def looked_up_def fun_eq_iff)+

lemma looked_up_param [simp]:
  "shown v \<Longrightarrow> looked_up (param k v @ r) k' = (if k = k' \<and> v \<noteq> None then map_option BStr v else looked_up r k')"
  "shown v \<Longrightarrow> looked_up (param k v) k' = (if k = k' then map_option BStr v else None)"
  by (auto simp: looked_up_def param_def given_as_def split: option.split)

lemma tasks_read:
  assumes "renders fm sh" and "good_limit limit"
  shows "listTasksQuerySchema fm (query_body (asks p (task_params sh f @ page_params sh after limit))) =
    Some (list_meant f after limit)"
proof -
  define g where "g = looked_up (task_params sh f @ page_params sh after limit)"
  note seen = rendered_ids [OF assms(1)] limit_shown name_shown
  have st: "maybe g ''status'' (multiFacet statusValue) = Some (map_option (\<lambda>x. [x]) v)"
    if "g ''status'' = map_option BStr (map_option status_name v)" for v
    using that by (cases v; cases "the v") (simp_all add: maybe_def statusValue_def)
  have "g ''division'' = map_option BStr (map_option sh (tf_division f))"
    "g ''team'' = map_option BStr (map_option sh (tf_team f))"
    "g ''status'' = map_option BStr (map_option status_name (tf_status f))"
    "g ''requester'' = map_option BStr (map_option sh (tf_requester f))"
    "g ''claimant'' = map_option BStr (map_option sh (tf_claimant f))"
    "g ''after'' = map_option BStr (map_option sh after)"
    "g ''limit'' = map_option BStr (limit_param limit)" "g ''include'' = None"
    by (simp_all add: g_def task_params_def page_fields seen)
  then show ?thesis
    using facet_read [OF assms(1)] id_read [OF assms(1)] limit_read [OF assms(2)] st
    by (simp add: listTasksQuerySchema_def query_fields g_def [symmetric] option.map_comp
        opt_default_def [of _ "''include''"] list_meant_def)
qed

lemma pages_read:
  assumes "renders fm sh" and "good_limit limit"
  shows "listMessagesQuerySchema fm (query_body (asks p (page_params sh after limit))) = Some (after, limit_or 50 limit)"
    and "listNotificationsQuerySchema fm (query_body (asks p (page_params sh after limit))) = Some (after, limit_or 50 limit)"
proof -
  have "page_query fm (looked_up (page_params sh after limit)) = Some (after, limit_or 50 limit)"
    by (rule page_read [OF assms]) (simp_all add: page_fields rendered_ids [OF assms(1)] limit_shown option.map_comp)
  then show "listMessagesQuerySchema fm (query_body (asks p (page_params sh after limit))) = Some (after, limit_or 50 limit)"
    "listNotificationsQuerySchema fm (query_body (asks p (page_params sh after limit))) = Some (after, limit_or 50 limit)"
    by (simp_all add: listMessagesQuerySchema_def listNotificationsQuerySchema_def query_fields)
qed

lemma word_read:
  "g k = map_option BStr v \<Longrightarrow> given_as P v \<Longrightarrow> maybe g k (z_string P) = Some v"
  by (cases v) (simp_all add: maybe_def given_as_def)

lemma date_read:
  "g k = map_option BStr v \<Longrightarrow> given_as (\<lambda>x. x \<noteq> [] \<and> fm_date fm (BStr x) \<noteq> None) v \<Longrightarrow>
   maybe g k (fm_date fm) = Some (map_option (\<lambda>x. the (fm_date fm (BStr x))) v)"
  by (cases v) (auto simp: maybe_def given_as_def)

lemma source_read: "g k = map_option BStr (map_option source_name v) \<Longrightarrow> maybe g k sourceSchema = Some v"
  by (cases v; cases "the v") (simp_all add: maybe_def sourceSchema_def)

lemma audit_read:
  assumes "renders fm sh" and "member_ok fm (Call_listActivity f after limit)"
  shows "listActivityQuerySchema fm (query_body (asks p (audit_params sh f @ page_params sh after limit))) =
    Some (audit_meant fm f after limit)"
proof -
  define g where "g = looked_up (audit_params sh f @ page_params sh after limit)"
  have ok: "given_as (sized 1 100) (qf_verb f)" "given_as (sized 1 100) (qf_verbPrefix f)" "given_as (sized 1 50) (qf_subjectType f)"
    "given_as (\<lambda>x. x \<noteq> [] \<and> fm_date fm (BStr x) \<noteq> None) (qf_from f)"
    "given_as (\<lambda>x. x \<noteq> [] \<and> fm_date fm (BStr x) \<noteq> None) (qf_to f)" "good_limit limit"
    using assms(2) by simp_all
  have words: "shown (qf_verb f)" "shown (qf_verbPrefix f)" "shown (qf_subjectType f)" "shown (qf_from f)" "shown (qf_to f)"
    using ok by (auto simp: given_as_def sized_def)
  have g: "g ''verb'' = map_option BStr (qf_verb f)" "g ''verbPrefix'' = map_option BStr (qf_verbPrefix f)"
    "g ''actorUserId'' = map_option BStr (map_option sh (qf_actorUserId f))"
    "g ''subjectType'' = map_option BStr (qf_subjectType f)" "g ''subjectId'' = map_option BStr (map_option sh (qf_subjectId f))"
    "g ''source'' = map_option BStr (map_option source_name (qf_source f))"
    "g ''from'' = map_option BStr (qf_from f)" "g ''to'' = map_option BStr (qf_to f)"
    "g ''after'' = map_option BStr (map_option sh after)" "g ''limit'' = map_option BStr (limit_param limit)"
    by (simp_all add: g_def audit_params_def page_fields rendered_ids [OF assms(1)] limit_shown name_shown words)
  have "page_query fm g = Some (after, limit_or 50 limit)"
    by (rule page_read [OF assms(1) ok(6)]) (simp_all add: g option.map_comp)
  then show ?thesis
    using word_read [of g, OF g(1) ok(1)] word_read [of g, OF g(2) ok(2)] word_read [of g, OF g(4) ok(3)] date_read [of g, OF g(7) ok(4)]
      date_read [of g, OF g(8) ok(5)] source_read [of g, OF g(6)] id_read [OF assms(1), of g] g(3,5)
    by (simp add: listActivityQuerySchema_def query_fields g_def [symmetric] option.map_comp audit_meant_def del: One_nat_def)
qed

section \<open>The other calls\<close>

lemma member_reaches:
  assumes "renders fm sh" and "member_ok fm c"
  shows "routed e fm hq (member_request sh c) (member_meant fm c)"
proof (cases "\<exists>f after limit. c = Call_listActivity f after limit")
  case True
  then show ?thesis using audit_read [OF assms(1)] assms(2)
    by (auto simp: routed_def activity_controller_def route_def asks_def)
next
  case False
  have kind: "scopeKindSchema (BStr (scope_kind_name k)) = Some k" for k
    by (cases k) (simp_all add: scopeKindSchema_def)
  show ?thesis
    using assms False
    by (cases c)
      (auto simp: route_simps grants_args_def users_args_def config_args_def templates_args_def createGrantSchema_def
        grant_keys_def kind grantRoleSchema_def renders_def wants_retired_def query_value_def retiredQuery_def
        opt_default_def nullish_def given_value_def field_def split: option.splits)
qed

lemma task_reaches:
  assumes "renders fm sh" and "task_ok c"
  shows "routed e fm hq (task_request sh c) (task_meant c)"
proof (cases "\<exists>f after limit. c = Call_listTasks f after limit")
  case True
  then show ?thesis using tasks_read [OF assms(1)] assms(2)
    by (auto simp: routed_def route_def asks_def tasks_args_def)
next
  case False
  then show ?thesis
    using assms
    by (cases c)
      (auto simp: route_simps tasks_args_def createTaskSchema_def updateTaskSchema_def manageClaimsSchema_def
        changeRequesterSchema_def renders_def given_as_def z_int_def num_def maybe_def field_def split: option.splits)
qed

lemma those_map_Some: "(\<And>x. x \<in> set xs \<Longrightarrow> f x = Some (g x)) \<Longrightarrow> those (map f xs) = Some (map g xs)"
  by (induction xs) auto

lemma nullish_given: "f k = Some v \<Longrightarrow> v \<noteq> BNull \<Longrightarrow> nullish f k p = map_option (\<lambda>x. Some (Some x)) (p v)"
  by (cases v) (simp_all add: nullish_def)

lemma answer_read:
  assumes "renders fm sh" and "answer_ok a"
  shows "answerSchema fm (answer_body sh a) = Some a"
proof -
  have ids: "those (map (z_uuid fm \<circ> (BStr \<circ> sh)) is) = Some is" for "is"
    using those_map_Some [of "is" "z_uuid fm \<circ> (BStr \<circ> sh)" "\<lambda>x. x"] assms(1) by (simp add: renders_def)
  have strings: "those (map (z_string (\<lambda>_. True) \<circ> BStr) xs) = Some xs" for xs
    using those_map_Some [of xs "z_string (\<lambda>_. True) \<circ> BStr" "\<lambda>x. x"] by simp
  have v: "answer_value (value_body v) = Some v \<and> value_body v \<noteq> BNull" if "\<forall>n. v = VNum n \<longrightarrow> (\<exists>r. n = Fin r)" for v
    using that strings by (cases v) auto
  have "nullish f ''value'' answer_value = Some (map_option Some (da_value a))"
    if f: "f ''value'' = map_option value_body (da_value a)" for f
  proof (cases "da_value a")
    case None
    then show ?thesis using f by (simp add: nullish_def)
  next
    case (Some x)
    have "answer_value (value_body x) = Some x \<and> value_body x \<noteq> BNull"
      using v assms(2) Some by (simp add: answer_ok_def given_as_def)
    then show ?thesis using f Some by (simp add: nullish_given)
  qed
  then show ?thesis
    using assms ids
    by (cases a; cases "da_value a"; cases "da_attachmentIds a")
      (auto simp: answerSchema_def answer_body_def field_def maybe_def answer_ok_def given_as_def renders_def
        at_most_items_def given_value_def)
qed

lemma review_read:
  "reviewSchema (BObj [(''decision'', BStr (decision_name d))]) = Some (d, None)"
  "sized 0 20000 r \<Longrightarrow> reviewSchema (BObj [(''decision'', BStr (decision_name d)), (''comment'', BStr r)]) = Some (d, Some r)"
  by (cases d; simp add: reviewSchema_def maybe_def)+

lemma work_reaches:
  assumes "renders fm sh" and "work_ok c"
  shows "routed e fm hq (work_request sh c) (work_meant c)"
proof (cases "\<exists>i aws. c = Call_submit i aws")
  case True
  then obtain i aws where c: "c = Call_submit i aws" by blast
  have "those (map (answerSchema fm \<circ> answer_body sh) aws) = Some aws"
    using those_map_Some [of aws "answerSchema fm \<circ> answer_body sh" "\<lambda>x. x"] answer_read [OF assms(1)] assms(2) c by simp
  then show ?thesis
    using assms(2) c by (simp add: route_simps submissions_args_def submitSchema_def at_most_items_def)
next
  case False
  note pages = pages_read [OF assms(1), unfolded asks_def]
  show ?thesis
    using assms False
    by (cases c)
      (auto simp: review_read pages routed_def route_def sends_def post_to_def asks_def messages_args_def submissions_args_def notifications_args_def
        attachments_args_def createMessageSchema_def updateMessageSchema_def
        retireSubmissionSchema_def renders_def given_as_def maybe_def field_def split: option.splits)
qed

section \<open>The contract\<close>

lemma call_reaches:
  assumes "renders fm sh" and "call_ok fm c"
  shows "routed e fm hq (api_request sh c) (meant fm c)"
  using assms entry_reaches org_reaches member_reaches task_reaches work_reaches integration_reaches by (cases c) auto

lemma role_meant: "meant fm c \<noteq> E_Users (Users_GrantRole i raw None)"
proof (cases c)
  case (To_Entry x) then show ?thesis by (cases x) simp_all
next
  case (To_Org x) then show ?thesis by (cases x) simp_all
next
  case (To_Members x) then show ?thesis by (cases x) simp_all
next
  case (To_Tasks x) then show ?thesis by (cases x) simp_all
next
  case (To_Work x) then show ?thesis by (cases x) simp_all
next
  case (To_Integrations x) then show ?thesis by (cases x) simp_all
qed


text \<open>Formats good for the examples: an id is its unary numeral, every address an email, no dates.\<close>

definition demo_formats :: formats where
  "demo_formats = \<lparr>fm_uuid = (\<lambda>x. if set x \<subseteq> {CHR ''1''} then (if x = [] then None else Some (length x - 1)) else None),
     fm_email = (\<lambda>_. True), fm_date = (\<lambda>_. None)\<rparr>"

definition unary :: "id \<Rightarrow> string" where
  "unary i = replicate (Suc i) CHR ''1''"

lemma unary_renders: "renders demo_formats unary"
proof -
  have "take 3 (unary i) \<noteq> ''in:''" for i by (cases i) (simp_all add: unary_def)
  moreover have "fm_uuid demo_formats (unary i) = Some i" for i
    by (auto simp: demo_formats_def unary_def set_replicate_conv_if)
  ultimately show ?thesis by (simp add: renders_def unary_def)
qed


section \<open>What is authorized is what is written\<close>

text \<open>Where the resource of a route is read off the body before the schema has seen it, it is the one the
  handler acts on: a task is created in the division, and for the team, that the creation was
  authorized for, and the role granted to a member is the one whose granting was.\<close>

lemma guard_sees_body:
  assumes "routed e fm hq rq ep"
  shows "(\<forall>d t n x k tm. ep = E_Tasks (Tasks_Create d t (Some (n, x, k, tm))) \<longrightarrow>
        ha_guard (handler_of e hq ep) = Some (''task:create'', taskCreateResource (Some k) tm)) \<and>
    (\<forall>i raw r. ep = E_Users (Users_GrantRole i raw (Some r)) \<longrightarrow>
        ha_guard (handler_of e hq ep) = Some (''user:grant_role'', \<lambda>_. userWithTargetRole r i))"
proof (intro conjI allI impI)
  fix d t n x k tm
  assume ep: "ep = E_Tasks (Tasks_Create d t (Some (n, x, k, tm)))"
  then have "createTaskSchema fm (wr_body rq) = Some (n, x, k, tm)"
      "d = raw_id fm ''divisionId'' (wr_body rq)" "t = raw_id fm ''teamId'' (wr_body rq)"
    using assms by (simp_all add: routed_def tasks_args_def)
  then show "ha_guard (handler_of e hq ep) = Some (''task:create'', taskCreateResource (Some k) tm)"
    using ep raw_division raw_team by (simp add: route_def AuthorizeActor_def)
next
  fix i raw r
  assume ep: "ep = E_Users (Users_GrantRole i raw (Some r))"
  then have "grantRoleSchema fm (wr_body rq) = Some r" "\<forall>r. raw_id fm ''roleId'' (wr_body rq) = Some r \<longrightarrow> raw = r"
    using assms by (simp_all add: routed_def users_args_def)
  then have "raw = r" using raw_role by blast
  then show "ha_guard (handler_of e hq ep) = Some (''user:grant_role'', \<lambda>_. userWithTargetRole r i)"
    using ep by (simp add: route_def Authorize_def)
qed

lemma guard_sees_body_witness:
  "ha_guard (handler_of demo_env (demo_post None None) (E_Users (Users_GrantRole 12 40 (Some 40)))) =
     Some (''user:grant_role'', \<lambda>_. userWithTargetRole 40 12)"
proof -
  have "routed demo_env demo_formats (demo_post None None) (api_request unary (To_Members (Call_grantUserRole 12 40)))
      (E_Users (Users_GrantRole 12 40 (Some 40)))"
    using member_reaches [OF unary_renders, of "Call_grantUserRole 12 40"] by simp
  from guard_sees_body [OF this] show ?thesis by blast
qed

section \<open>Role colours\<close>

lemma refused_body:
  assumes "ha_run (handler_of e req ep) = parsed None f"
  shows "(\<exists>x. fst (serve_http e req ep s) = Inl x) \<and> apart_from_session s (snd (serve_http e req ep s))"
proof -
  let ?h = "handler_of e req ep"
  have run: "ha_run ?h session t = (Inl (ValidationError ''body''), t)" for session t
    by (simp add: assms parsed_def op_simps)
  obtain x t where g: "session_canActivate (ev_hashToken e) (sent e req ep) s = (x, t)" by fastforce
  show ?thesis
  proof (cases x)
    case (Inl y) then show ?thesis using serve_refused [of e req ep s] g session_apart [OF g] by simp
  next
    case (Inr session)
    show ?thesis
    proof (cases "ha_guard ?h")
      case None
      then show ?thesis using serve_open [OF g [unfolded Inr]] run session_apart [OF g] by simp
    next
      case (Some ar)
      then obtain action resource where ar: "ha_guard ?h = Some (action, resource)" by (cases ar) simp
      obtain y v where c: "canActivate (ev_engine e) action (resource (map_option rs_userId session)) (map_option rs_userId session) t = (y, v)"
        by fastforce
      have "apart_from_session s v" by (rule guarded_apart [OF ar g [unfolded Inr] c])
      then show ?thesis using serve_guarded [OF g [unfolded Inr] ar] c run by (cases y) (simp_all add: bnd_def)
    qed
  qed
qed

text \<open>The client's call to set or clear the colour of a role, which the roles page makes without a name, is
  always refused: the API's schema for a role's update knows no colour and requires the name. No
  state changes, whoever calls.\<close>

lemma role_colour_refused:
  assumes "n = None \<or> color \<noteq> None" and "routed e fm req (api_request sh (To_Org (Call_updateRole i n color))) ep"
  shows "(\<exists>x. fst (serve_http e req ep s) = Inl x) \<and> apart_from_session s (snd (serve_http e req ep s))"
proof -
  let ?rq = "api_request sh (To_Org (Call_updateRole i n color))"
  have "updateRoleSchema (wr_body ?rq) = None"
    using assms(1)
    by (cases n; cases color) (simp_all add: sends_def updateRoleSchema_def field_def must_def)
  then have "routed e fm req ?rq (E_Roles (Roles_Update i None))"
    by (simp add: routed_def route_def sends_def roles_args_def)
  from one_endpoint [OF this assms(2)] have "ep = E_Roles (Roles_Update i None)" by (auto simp: same_endpoint_def)
  then show ?thesis by (intro refused_body) (simp add: route_def)
qed

lemma role_colour_refused_witness:
  "\<exists>x. fst (serve_http demo_env (demo_post (Some ''tok'') (Some ''csrf'')) (E_Roles (Roles_Update 40 None)) demo_signed_in) = Inl x"
proof -
  have "routed demo_env demo_formats (demo_post (Some ''tok'') (Some ''csrf''))
      (api_request unary (To_Org (Call_updateRole 40 None (Some (Some ''#fff''))))) (E_Roles (Roles_Update 40 None))"
    by (simp add: routed_def route_def sends_def roles_args_def updateRoleSchema_def field_def)
  from role_colour_refused [OF _ this] show ?thesis by simp
qed

end
