(* ===== verification/Timeline.thy ===== *)
theory Timeline
  imports Histories Auth Numerals "HOL-Library.Word"
begin

text \<open>
  What the web client makes of a task's thread: \<open>web/src/app/pages/tasks/task-presentation.ts\<close> and the
  derived values of \<open>message-thread.component.ts\<close>. Its regular expressions are written out: \<open>token\<close> is
  \<open>\S+\<close> before a character that ends it. A message arrives as its text, ids as strings. The colour of the
  n-th member (a hue in floating point) and the initials are left out.
\<close>

unbundle bit_operations_syntax

section \<open>Statuses, times and colours\<close>

definition stampStatus :: "status option \<Rightarrow> status" where
  "stampStatus st = (case st of None \<Rightarrow> st_open | Some x \<Rightarrow> x)"

definition stampClass :: "status option \<Rightarrow> string" where
  "stampClass st = ''stamp--'' @ status_name (stampStatus st)"

definition isMultiClaim :: "int \<Rightarrow> bool" where
  "isMultiClaim openings \<longleftrightarrow> 1 < openings"

text \<open>\<open>Math.round(n / d)\<close> of integers.\<close>

definition rounded :: "int \<Rightarrow> int \<Rightarrow> int" where
  "rounded n d = \<lfloor>(of_int n / of_int d :: rat) + 1 / 2\<rfloor>"

definition relativeTime :: "time option \<Rightarrow> time \<Rightarrow> string" where
  "relativeTime given t =
     (case given of
        None \<Rightarrow> []
      | Some before \<Rightarrow>
          let secs = max 0 (rounded (t - before) 1000) in
          if secs < 60 then ''just now'' else
          let mins = rounded secs 60 in
          if mins < 60 then int_string mins @ ''m'' else
          let hours = rounded mins 60 in
          if hours < 24 then int_string hours @ ''h'' else
          let days = rounded hours 24 in
          if days < 7 then int_string days @ ''d'' else
          if days < 30 then int_string (rounded days 7) @ ''w'' else
          if days < 365 then int_string (rounded days 30) @ ''mo''
          else int_string (rounded days 365) @ ''y'')"

definition DIVISION_HUES :: "(string \<times> string) list" where
  "DIVISION_HUES =
     [(''writing'', ''#3c5ba0''), (''art'', ''#b0573c''), (''scripting'', ''#2e7d5b''),
      (''testing'', ''#7e54a3''), (''leadership'', ''#a9810f'')]"

definition HUE_PALETTE :: "string list" where
  "HUE_PALETTE =
     [''#4f6d7a'', ''#6d5f7a'', ''#7a5f4f'', ''#4f7a63'', ''#7a4f5f'',
      ''#5b6eae'', ''#4e8c6a'', ''#a8763e'', ''#7e54a3'', ''#3c5ba0'']"

definition fnv :: "string \<Rightarrow> 32 word" where
  "fnv x = foldl (\<lambda>h c. (h XOR of_nat (of_char c)) * 16777619) 2166136261 x"

definition paletteColor :: "string \<Rightarrow> string" where
  "paletteColor seed = HUE_PALETTE ! (unat (fnv seed) mod length HUE_PALETTE)"

text \<open>The lookup in the object of hues also finds the lower-case properties every object inherits:
  \<open>None\<close>, not a colour.\<close>

definition divisionColor :: "string \<Rightarrow> string option" where
  "divisionColor name =
     (let k = toLowerCase (js_trim name) in
      case map_of DIVISION_HUES k of
        Some c \<Rightarrow> Some c
      | None \<Rightarrow> if k \<in> {''constructor'', ''__proto__''} then None else Some (paletteColor (''div:'' @ name)))"

definition teamColor :: "string \<Rightarrow> string" where
  "teamColor name = paletteColor (''team:'' @ name)"

definition avatarColor :: "string \<Rightarrow> string" where
  "avatarColor seed = paletteColor (''user:'' @ seed)"

section \<open>Matching\<close>

fun contains :: "string \<Rightarrow> string \<Rightarrow> bool" where
  "contains p [] \<longleftrightarrow> p = []"
| "contains p (c # cs) \<longleftrightarrow> take (length p) (c # cs) = p \<or> contains p cs"

fun after_prefix :: "string \<Rightarrow> string \<Rightarrow> string option" where
  "after_prefix [] x = Some x"
| "after_prefix (p # ps) [] = None"
| "after_prefix (p # ps) (c # cs) = (if p = c then after_prefix ps cs else None)"

definition token :: "string \<Rightarrow> (string \<times> string) option" where
  "token x =
     (let w = takeWhile (\<lambda>c. \<not> js_space c) x in
      if w = [] then None else Some (w, dropWhile (\<lambda>c. \<not> js_space c) x))"

definition is_digit :: "char \<Rightarrow> bool" where
  "is_digit c \<longleftrightarrow> 48 \<le> (of_char c :: nat) \<and> (of_char c :: nat) \<le> 57"

text \<open>\<open>\.?$\<close> and \<open>(\d+)\.?$\<close>.\<close>

definition ends :: "string \<Rightarrow> bool" where
  "ends x \<longleftrightarrow> x = [] \<or> x = ''.''"

definition version_tail :: "string \<Rightarrow> string option" where
  "version_tail x =
     (let d = takeWhile is_digit x in
      if d \<noteq> [] \<and> ends (dropWhile is_digit x) then Some d else None)"

definition user_said :: "string \<Rightarrow> string \<Rightarrow> string option" where
  "user_said phrase body =
     Option.bind (after_prefix ''User '' body) (\<lambda>r.
     Option.bind (token r) (\<lambda>(i, rest).
     Option.bind (after_prefix phrase rest) (\<lambda>e. if ends e then Some i else None)))"

definition requester_changed :: "string \<Rightarrow> string option" where
  "requester_changed body =
     Option.bind (after_prefix ''Requester changed to user '' body) (\<lambda>r.
     if r = [] \<or> (\<exists>c \<in> set r. js_space c) then None
     else Some (if 2 \<le> length r \<and> last r = CHR ''.'' then butlast r else r))"

definition user_submitted :: "string \<Rightarrow> (string \<times> string) option" where
  "user_submitted body =
     Option.bind (after_prefix ''User '' body) (\<lambda>r.
     Option.bind (token r) (\<lambda>(i, rest).
     Option.bind (after_prefix '' submitted version '' rest) (\<lambda>v.
     map_option (Pair i) (version_tail v))))"

fun verb_version :: "string list \<Rightarrow> string \<Rightarrow> (string \<times> string) option" where
  "verb_version [] x = None"
| "verb_version (v # vs) x =
     (case after_prefix ('' '' @ v @ '' version '') x of
        Some y \<Rightarrow> map_option (Pair v) (version_tail y)
      | None \<Rightarrow> verb_version vs x)"

definition reviewer_decided :: "string \<Rightarrow> (string \<times> string \<times> string) option" where
  "reviewer_decided body =
     Option.bind (after_prefix ''Reviewer '' body) (\<lambda>r.
     Option.bind (token r) (\<lambda>(i, rest).
     map_option (Pair i) (verb_version [''approved'', ''returned'', ''rejected''] rest)))"

text \<open>The fallback: every \<open>\b[Uu]ser (\S+?)([.,]?)(\s|$)\<close> is replaced.\<close>

definition word_char :: "char \<Rightarrow> bool" where
  "word_char c \<longleftrightarrow>
     (let n = (of_char c :: nat) in (48 \<le> n \<and> n \<le> 57) \<or> (65 \<le> n \<and> n \<le> 90) \<or> n = 95 \<or> (97 \<le> n \<and> n \<le> 122))"

definition punctuated :: "string \<Rightarrow> string \<times> string" where
  "punctuated w =
     (if 2 \<le> length w \<and> last w \<in> {CHR ''.'', CHR '',''} then (butlast w, [last w]) else (w, []))"

definition user_here :: "string \<Rightarrow> (string \<times> string) option" where
  "user_here x = (if take 5 x \<in> {''User '', ''user ''} then token (drop 5 x) else None)"

lemma user_here_shorter: "user_here (c # cs) = Some (w, rest) \<Longrightarrow> length rest < Suc (length cs)"
  using length_dropWhile_le [of "\<lambda>c. \<not> js_space c" "drop 5 (c # cs)"]
  by (auto simp: user_here_def token_def Let_def split: if_splits)

function named_users :: "(string \<Rightarrow> string) \<Rightarrow> bool \<Rightarrow> string \<Rightarrow> string" where
  "named_users r inside [] = []"
| "named_users r inside (c # cs) =
     (case if inside then None else user_here (c # cs) of
        None \<Rightarrow> c # named_users r (word_char c) cs
      | Some (w, rest) \<Rightarrow>
          (case punctuated w of (i, p) \<Rightarrow> r i @ p @ take 1 rest @ named_users r False (drop 1 rest)))"
  by pat_completeness auto
termination
  by (relation "measure (\<lambda>(r, i, x). length x)") (auto dest!: user_here_shorter split: if_splits)

section \<open>System messages\<close>

definition humanizeSystemBody :: "(string \<Rightarrow> string) \<Rightarrow> string \<Rightarrow> string" where
  "humanizeSystemBody r body =
     (case user_said '' claimed this task'' body of Some i \<Rightarrow> r i @ '' claimed an opening'' | None \<Rightarrow>
     (case user_said '' left this task'' body of Some i \<Rightarrow> r i @ '' left'' | None \<Rightarrow>
     (case user_said '' marked this task complete'' body of Some i \<Rightarrow> r i @ '' marked the task complete'' | None \<Rightarrow>
     (case requester_changed body of Some i \<Rightarrow> ''requester changed to '' @ r i | None \<Rightarrow>
     (case user_submitted body of Some (i, v) \<Rightarrow> r i @ '' submitted v'' @ v @ '' for review'' | None \<Rightarrow>
     (case reviewer_decided body of Some (i, d, v) \<Rightarrow> r i @ '' '' @ d @ '' v'' @ v | None \<Rightarrow>
        named_users r False body))))))"

datatype node_kind = Nk_request | Nk_claim | Nk_leave | Nk_submit | Nk_return | Nk_approve | Nk_comment | Nk_neutral

definition systemNodeKind :: "string \<Rightarrow> node_kind" where
  "systemNodeKind body =
     (let b = toLowerCase body in
      if contains ''claimed'' b then Nk_claim
      else if contains ''left this task'' b then Nk_leave
      else if contains ''submitted'' b then Nk_submit
      else if contains ''returned'' b then Nk_return
      else if contains ''approved'' b \<or> contains ''marked this task complete'' b then Nk_approve
      else if contains ''rejected'' b then Nk_return
      else Nk_neutral)"

definition parseSubmitEvent :: "string \<Rightarrow> (string \<times> jsnum) option" where
  "parseSubmitEvent body = map_option (\<lambda>(i, v). (i, js_Number_string v)) (user_submitted body)"

definition parseActorId :: "string \<Rightarrow> string option" where
  "parseActorId body =
     map_option (\<lambda>(w, _). if last w \<in> {CHR ''.'', CHR '',''} then butlast w else w)
       (if toLowerCase (take 5 body) = ''user '' then token (drop 5 body)
        else if toLowerCase (take 9 body) = ''reviewer '' then token (drop 9 body) else None)"

section \<open>The history\<close>

record web_message =
  wm_id :: string
  wm_kind :: message_kind
  wm_senderUserId :: "string option"
  wm_body :: string
  wm_createdAt :: time

record history_reply =
  hy_id :: string
  hy_kind :: message_kind
  hy_node :: node_kind
  hy_text :: string
  hy_message :: "web_message option"
  hy_createdAt :: time
  hy_actorId :: "string option"

record history_event = history_reply +
  he_submission :: "(string \<times> jsnum) option"
  he_replies :: "history_reply list"

definition history_line :: "(string option \<Rightarrow> string) \<Rightarrow> web_message \<Rightarrow> history_reply" where
  "history_line r m =
     (if wm_kind m = system_msg then
        \<lparr>hy_id = wm_id m, hy_kind = system_msg, hy_node = systemNodeKind (wm_body m),
         hy_text = humanizeSystemBody (r \<circ> Some) (wm_body m), hy_message = Some m,
         hy_createdAt = wm_createdAt m, hy_actorId = parseActorId (wm_body m)\<rparr>
      else
        \<lparr>hy_id = wm_id m, hy_kind = comment, hy_node = Nk_comment, hy_text = wm_body m, hy_message = Some m,
         hy_createdAt = wm_createdAt m, hy_actorId = wm_senderUserId m\<rparr>)"

definition requested :: "(string option \<Rightarrow> string) \<Rightarrow> string \<Rightarrow> time \<Rightarrow> history_event" where
  "requested r requester created =
     \<lparr>hy_id = ''requested'', hy_kind = system_msg, hy_node = Nk_request,
      hy_text = r (Some requester) @ '' requested this task'', hy_message = None, hy_createdAt = created,
      hy_actorId = Some requester, he_submission = None, he_replies = []\<rparr>"

definition threaded :: "(string option \<Rightarrow> string) \<Rightarrow> web_message \<times> web_message list \<Rightarrow> history_event" where
  "threaded r mt =
     (case mt of (m, replies) \<Rightarrow>
        history_reply.extend (history_line r m)
          \<lparr>he_submission = (if wm_kind m = system_msg then parseSubmitEvent (wm_body m) else None),
           he_replies = map (history_line r) replies\<rparr>)"

definition buildHistory ::
  "string \<Rightarrow> time \<Rightarrow> (web_message \<times> web_message list) list \<Rightarrow> (string option \<Rightarrow> string) \<Rightarrow> history_event list" where
  "buildHistory requester created ms r = sort_key hy_createdAt (requested r requester created # map (threaded r) ms)"

text \<open>The members of a history in the order they first appear, each event before its replies.\<close>

definition see :: "string option \<Rightarrow> string list \<Rightarrow> string list" where
  "see i seen = (case truthy i of None \<Rightarrow> seen | Some x \<Rightarrow> if x \<in> set seen then seen else seen @ [x])"

definition userOrdinals :: "history_event list \<Rightarrow> string list" where
  "userOrdinals events =
     fold (\<lambda>ev seen. fold (\<lambda>q. see (hy_actorId q)) (he_replies ev) (see (hy_actorId ev) seen)) events []"

definition canReply :: "history_event \<Rightarrow> bool" where
  "canReply ev \<longleftrightarrow> hy_message ev \<noteq> None \<and> (hy_kind ev = comment \<or> he_submission ev \<noteq> None)"

text \<open>The submission an event opens, among claimant and number of each.\<close>

definition submissionFor :: "(string \<times> int) list \<Rightarrow> history_event \<Rightarrow> (string \<times> int) option" where
  "submissionFor subs ev =
     (case he_submission ev of
        None \<Rightarrow> None
      | Some (actor, version) \<Rightarrow> List.find (\<lambda>(c, n). c = actor \<and> Fin (of_int n) = version) subs)"

end
