(* ===== verification/Timeline_Properties.thy ===== *)
theory Timeline_Properties
  imports Timeline Examples
begin

text \<open>
  The messages the API writes and the lines the web client reads them as: every body a system message
  can have over any history, and the sentence, the node, the actor and the submission the client
  derives from it.
\<close>

section \<open>Texts\<close>

definition quiet_char :: "char \<Rightarrow> bool" where
  "quiet_char c \<longleftrightarrow> (let n = (of_char c :: nat) in (48 \<le> n \<and> n \<le> 57) \<or> (97 \<le> n \<and> n \<le> 102) \<or> n = 45)"

definition id_text :: "string \<Rightarrow> bool" where
  "id_text x \<longleftrightarrow> x \<noteq> [] \<and> (\<forall>c \<in> set x. quiet_char c)"

definition body_text :: "(id \<Rightarrow> string) \<Rightarrow> frag list \<Rightarrow> string" where
  "body_text sh b = concat (map (\<lambda>f. case f of Lit x \<Rightarrow> x | Ref i \<Rightarrow> sh i) b)"

lemma id_text_chars: "id_text x \<Longrightarrow> c \<in> set x \<Longrightarrow> quiet_char c"
  by (simp add: id_text_def)

lemma quiet_no_space: "quiet_char c \<Longrightarrow> \<not> js_space c"
  by (auto simp: quiet_char_def js_space_def Let_def)

lemma quiet_lower: "quiet_char c \<Longrightarrow> lower_char c = c"
  by (auto simp: quiet_char_def lower_char_def Let_def)

lemma id_text_lower: "id_text x \<Longrightarrow> map lower_char x = x"
  by (simp add: map_idI quiet_lower id_text_chars)

lemma id_text_last: "id_text x \<Longrightarrow> last x \<notin> {CHR ''.'', CHR '',''}"
proof -
  assume "id_text x"
  then have "quiet_char (last x)" by (simp add: id_text_def)
  then show ?thesis by (auto simp: quiet_char_def)
qed

lemma token_id: "id_text x \<Longrightarrow> token (x @ CHR '' '' # y) = Some (x, CHR '' '' # y)"
  using quiet_no_space [OF id_text_chars]
  by (auto simp: token_def Let_def js_space_def takeWhile_append dropWhile_append id_text_def takeWhile_eq_all_conv)

lemma digits_quiet: "c \<in> set (nat_digits n) \<Longrightarrow> quiet_char c \<and> is_digit c"
  using nat_digits_chars [of n] digit_char_code [of c] by (auto simp: quiet_char_def is_digit_def Let_def)

lemma version_tail_digits: "version_tail (nat_digits n @ ''.'') = Some (nat_digits n)"
  using digits_quiet nat_digits_nonempty [of n]
  by (simp add: version_tail_def Let_def takeWhile_append dropWhile_append ends_def is_digit_def)

section \<open>Substrings\<close>

lemma contains_append: "contains p x \<Longrightarrow> contains p (a @ x)"
  by (induction a) simp_all

lemma contains_iff: "contains p x \<longleftrightarrow> (\<exists>a b. x = a @ p @ b)"
proof (induction x)
  case (Cons c cs)
  show ?case
  proof
    assume "contains p (c # cs)"
    then consider "take (length p) (c # cs) = p" | "contains p cs" by auto
    then show "\<exists>a b. c # cs = a @ p @ b"
    proof cases
      case 1
      then show ?thesis using append_take_drop_id [of "length p" "c # cs"] by (metis append_Nil)
    next
      case 2
      then show ?thesis using Cons by (metis append_Cons)
    qed
  next
    assume "\<exists>a b. c # cs = a @ p @ b"
    then show "contains p (c # cs)" using Cons by (fastforce simp: Cons_eq_append_conv)
  qed
qed simp

lemma contains_filter: "contains p x \<Longrightarrow> contains (filter Q p) (filter Q x)"
  by (auto simp: contains_iff) metis

text \<open>A text less what ids and numerals are made of.\<close>

definition loud :: "string \<Rightarrow> string" where
  "loud x = filter (\<lambda>c. \<not> quiet_char c) x"

lemma loud_simps:
  "loud [] = []" "loud (c # x) = (if quiet_char c then loud x else c # loud x)" "loud (x @ y) = loud x @ loud y"
  by (simp_all add: loud_def)

lemma misses: "\<not> contains (loud p) (loud x) \<Longrightarrow> \<not> contains p x"
  unfolding loud_def using contains_filter by blast

lemma loud_id: "id_text x \<Longrightarrow> loud x = []"
  by (simp add: id_text_def loud_def filter_empty_conv)

lemma loud_digits: "loud (nat_digits n) = []"
  using digits_quiet by (auto simp: loud_def filter_empty_conv)

lemma digits_lower: "map lower_char (nat_digits n) = nat_digits n"
  using digits_quiet quiet_lower by (simp add: map_idI)

section \<open>What an event reads as\<close>

fun line_of :: "(string \<Rightarrow> string) \<Rightarrow> (id \<Rightarrow> string) \<Rightarrow> timeline_event \<Rightarrow> string" where
  "line_of r sh (Tl_Claimed u) = r (sh u) @ '' claimed an opening''"
| "line_of r sh (Tl_Left u) = r (sh u) @ '' left''"
| "line_of r sh (Tl_Completed u) = r (sh u) @ '' marked the task complete''"
| "line_of r sh (Tl_Requester u) = ''requester changed to '' @ r (sh u)"
| "line_of r sh (Tl_Submitted u n) = r (sh u) @ '' submitted v'' @ int_string n @ '' for review''"
| "line_of r sh (Tl_Reviewed u d n) = r (sh u) @ '' '' @ outcome_verb d @ '' v'' @ int_string n"
| "line_of r sh (Tl_Retired x u q) = []"

fun node_of :: "timeline_event \<Rightarrow> node_kind" where
  "node_of (Tl_Claimed u) = Nk_claim"
| "node_of (Tl_Left u) = Nk_leave"
| "node_of (Tl_Completed u) = Nk_approve"
| "node_of (Tl_Requester u) = Nk_neutral"
| "node_of (Tl_Submitted u n) = Nk_submit"
| "node_of (Tl_Reviewed u d n) = (if d = d_approve then Nk_approve else Nk_return)"
| "node_of (Tl_Retired x u q) = Nk_neutral"

fun actor_of :: "(id \<Rightarrow> string) \<Rightarrow> timeline_event \<Rightarrow> string option" where
  "actor_of sh (Tl_Claimed u) = Some (sh u)"
| "actor_of sh (Tl_Left u) = Some (sh u)"
| "actor_of sh (Tl_Completed u) = Some (sh u)"
| "actor_of sh (Tl_Submitted u n) = Some (sh u)"
| "actor_of sh (Tl_Reviewed u d n) = Some (sh u)"
| "actor_of sh _ = None"

fun submits :: "(id \<Rightarrow> string) \<Rightarrow> timeline_event \<Rightarrow> (string \<times> jsnum) option" where
  "submits sh (Tl_Submitted u n) = Some (sh u, Fin (of_int n))"
| "submits sh _ = None"

definition reads :: "(string \<Rightarrow> string) \<Rightarrow> (id \<Rightarrow> string) \<Rightarrow> timeline_event \<Rightarrow> bool" where
  "reads r sh e \<longleftrightarrow>
     (let x = body_text sh (event_body e) in
      humanizeSystemBody r x = line_of r sh e \<and> systemNodeKind x = node_of e \<and>
      parseActorId x = actor_of sh e \<and> parseSubmitEvent x = submits sh e)"

lemma nat_digits_string: "0 \<le> n \<Longrightarrow> int_string n = nat_digits (nat n)"
  by (simp add: int_string_def)

lemma number_read: "0 \<le> n \<Longrightarrow> js_Number_string (nat_digits (nat n)) = Fin (of_int n)"
  using js_Number_numeral [of "nat n"] by (simp add: int_string_def)

lemma version_tail_dotted: "version_tail (nat_digits n @ [CHR ''.'']) = Some (nat_digits n)"
  using version_tail_digits by simp

lemma prefixes_lower:
  "toLowerCase ''User '' = ''user ''" "toLowerCase ''Revie'' \<noteq> ''user ''" "toLowerCase ''Reviewer '' = ''reviewer ''"
  "toLowerCase ''Reque'' \<noteq> ''user ''" "toLowerCase ''Requester'' \<noteq> ''reviewer ''"
  by code_simp+

lemmas id_simps = token_id id_text_lower loud_id

lemmas text_simps = body_text_def digits_lower loud_digits nat_digits_string

lemmas line_simps = humanizeSystemBody_def user_said_def requester_changed_def user_submitted_def
  reviewer_decided_def ends_def text_simps version_tail_dotted

lemmas node_simps = systemNodeKind_def toLowerCase_def lower_char_def Let_def contains_append text_simps misses
  loud_simps quiet_char_def

lemmas actor_simps = parseActorId_def parseSubmitEvent_def prefixes_lower
  user_submitted_def text_simps version_tail_dotted number_read

lemma lines_read:
  assumes ids: "id_text (sh u)"
  shows "humanizeSystemBody r (body_text sh (event_body (Tl_Claimed u))) = line_of r sh (Tl_Claimed u)"
     "humanizeSystemBody r (body_text sh (event_body (Tl_Left u))) = line_of r sh (Tl_Left u)"
     "humanizeSystemBody r (body_text sh (event_body (Tl_Completed u))) = line_of r sh (Tl_Completed u)"
  by (simp_all add: line_simps id_simps [OF ids])

lemma requester_read:
  assumes ids: "id_text (sh u)"
  shows "humanizeSystemBody r (body_text sh (event_body (Tl_Requester u))) = line_of r sh (Tl_Requester u)"
  using ids quiet_no_space
  by (auto simp: line_simps id_simps [OF ids] id_text_def js_space_def Let_def last_append butlast_append Suc_le_eq)

lemma submitted_read:
  assumes ids: "id_text (sh u)"
  shows "0 \<le> n \<Longrightarrow> humanizeSystemBody r (body_text sh (event_body (Tl_Submitted u n))) = line_of r sh (Tl_Submitted u n)"
  by (simp add: line_simps id_simps [OF ids])

lemma reviewed_read:
  assumes ids: "id_text (sh u)"
  shows "0 \<le> n \<Longrightarrow> humanizeSystemBody r (body_text sh (event_body (Tl_Reviewed u d n))) = line_of r sh (Tl_Reviewed u d n)"
  by (cases d) (simp_all add: line_simps id_simps [OF ids])

lemma nodes_read:
  assumes ids: "id_text (sh u)"
  shows "systemNodeKind (body_text sh (event_body (Tl_Claimed u))) = Nk_claim"
     "systemNodeKind (body_text sh (event_body (Tl_Left u))) = Nk_leave"
     "systemNodeKind (body_text sh (event_body (Tl_Completed u))) = Nk_approve"
     "systemNodeKind (body_text sh (event_body (Tl_Requester u))) = Nk_neutral"
  by (simp_all add: node_simps id_simps [OF ids])

lemma version_nodes_read:
  assumes ids: "id_text (sh u)"
  shows "0 \<le> n \<Longrightarrow> systemNodeKind (body_text sh (event_body (Tl_Submitted u n))) = Nk_submit"
     "0 \<le> n \<Longrightarrow> systemNodeKind (body_text sh (event_body (Tl_Reviewed u d n))) = node_of (Tl_Reviewed u d n)"
  by (simp add: node_simps id_simps [OF ids], cases d) (simp_all add: node_simps id_simps [OF ids])

lemma actors_read:
  assumes ids: "id_text (sh u)"
  shows "parseActorId (body_text sh (event_body (Tl_Claimed u))) = Some (sh u)"
     "parseActorId (body_text sh (event_body (Tl_Left u))) = Some (sh u)"
     "parseActorId (body_text sh (event_body (Tl_Completed u))) = Some (sh u)"
     "parseActorId (body_text sh (event_body (Tl_Requester u))) = None"
     "parseActorId (body_text sh (event_body (Tl_Submitted u n))) = Some (sh u)"
     "parseActorId (body_text sh (event_body (Tl_Reviewed u d n))) = Some (sh u)"
  using id_text_last [OF ids] by (simp_all add: actor_simps id_simps [OF ids])

lemma submits_read:
  assumes ids: "id_text (sh u)"
  shows "parseSubmitEvent (body_text sh (event_body (Tl_Claimed u))) = None"
     "parseSubmitEvent (body_text sh (event_body (Tl_Left u))) = None"
     "parseSubmitEvent (body_text sh (event_body (Tl_Completed u))) = None"
     "parseSubmitEvent (body_text sh (event_body (Tl_Requester u))) = None"
     "0 \<le> n \<Longrightarrow> parseSubmitEvent (body_text sh (event_body (Tl_Submitted u n))) = Some (sh u, Fin (of_int n))"
     "parseSubmitEvent (body_text sh (event_body (Tl_Reviewed u d n))) = None"
  by (simp_all add: actor_simps id_simps [OF ids])

fun spelled :: "timeline_event \<Rightarrow> bool" where
  "spelled (Tl_Submitted u n) \<longleftrightarrow> 0 \<le> n"
| "spelled (Tl_Reviewed u d n) \<longleftrightarrow> 0 \<le> n"
| "spelled (Tl_Retired x u q) \<longleftrightarrow> False"
| "spelled _ \<longleftrightarrow> True"

lemma event_reads:
  assumes "\<And>i. id_text (sh i)" and "spelled e"
  shows "reads r sh e"
proof (cases e)
  case (Tl_Retired x u q)
  then show ?thesis using assms(2) by simp
qed (use assms(2) lines_read [of sh, OF assms(1)] requester_read [of sh, OF assms(1)] submitted_read [of sh, OF assms(1)]
    reviewed_read [of sh, OF assms(1)] nodes_read [of sh, OF assms(1)] version_nodes_read [of sh, OF assms(1)]
    actors_read [of sh, OF assms(1)] submits_read [of sh, OF assms(1)] in \<open>simp_all add: reads_def Let_def\<close>)

section \<open>Every system message of a history\<close>

definition timeline_body :: "message_kind \<Rightarrow> frag list \<Rightarrow> bool" where
  "timeline_body k b \<longleftrightarrow> k = comment \<or> (\<exists>e. b = event_body e)"

definition timeline_ok :: "state \<Rightarrow> bool" where
  "timeline_ok s \<longleftrightarrow> (\<forall>m \<in> set (messages s). m_editedAt m = None \<longrightarrow> timeline_body (m_kind m) (m_body m))"

interpretation timeline: thread_log timeline_ok timeline_body
proof unfold_locales
  show "keeps timeline_ok (log_activity orgId actor st sid verb p src conn)" for orgId actor st sid verb p src conn
    by (rule keepsI) (auto simp: op_simps timeline_ok_def split: if_splits)
next
  fix s Q and f :: "message \<Rightarrow> message"
  assume "timeline_ok s" and "\<And>m. m_editedAt (f m) = None \<Longrightarrow> m_editedAt m = None \<and> m_body (f m) = m_body m \<and> m_kind (f m) = m_kind m"
  then show "timeline_ok (messages_update (upd_where Q f) s)" by (auto simp: timeline_ok_def upd_where_def)
qed (auto simp: timeline_ok_def timeline_body_def with_message_def new_message_def)

text \<open>C14: Whatever sequence of calls users make to tasks, submissions and threads, every system message
  nobody has edited holds one of the seven bodies the API writes, and the client's timeline reads six of
  them (a claim, a leave, a completion, a change of requester, a submission, a review) as what happened:
  its line names the member instead of the id, its node is of the right kind, the acting member is
  recognized, and of a submission the claimant and the version it opens. A retirement is the exception.\<close>

theorem timeline_understood:
  assumes "timeline_ok s" and "\<And>i. id_text (sh i)"
    and "m \<in> set (messages (serve_all cs s))" and "m_kind m = system_msg" and "m_editedAt m = None"
  shows "\<exists>e. m_body m = event_body e \<and>
    (spelled e \<longrightarrow> humanizeSystemBody r (body_text sh (m_body m)) = line_of r sh e \<and>
       systemNodeKind (body_text sh (m_body m)) = node_of e \<and>
       parseActorId (body_text sh (m_body m)) = actor_of sh e \<and>
       parseSubmitEvent (body_text sh (m_body m)) = submits sh e)"
proof -
  have "timeline_ok (serve_all cs s)" using assms(1) by (rule timeline.keeps_history)
  then obtain e where e: "m_body m = event_body e" using assms(3-5) by (auto simp: timeline_ok_def timeline_body_def)
  then show ?thesis using event_reads [OF assms(2), of e r] by (auto simp: reads_def Let_def intro!: exI [of _ e])
qed

theorem timeline_understood_witness:
  "\<exists>m \<in> set (messages (serve_all [Task_Claim 20 12] demo)). m_kind m = system_msg \<and>
     humanizeSystemBody (\<lambda>_. ''Ann'') (body_text (\<lambda>i. replicate (Suc i) CHR ''a'') (m_body m)) = ''Ann claimed an opening'' \<and>
     systemNodeKind (body_text (\<lambda>i. replicate (Suc i) CHR ''a'') (m_body m)) = Nk_claim"
proof -
  let ?m = "\<lparr>m_id = 102, m_taskId = 20, m_kind = system_msg, m_senderUserId = None, m_parentMessageId = None,
    m_submissionId = None, m_body = event_body (Tl_Claimed 12), m_lifecycleState = active, m_retiredAt = None,
    m_editedAt = None, m_version = 0, m_createdAt = 1000\<rparr>"
  let ?sh = "\<lambda>i :: id. replicate (Suc i) CHR ''a''"
  have m: "?m \<in> set (messages (serve_all [Task_Claim 20 12] demo))" by code_simp
  moreover have "timeline_ok demo" by (simp add: timeline_ok_def timeline_body_def demo_defs)
  moreover have "id_text (?sh i)" for i by (simp add: id_text_def quiet_char_def)
  ultimately obtain e where e: "m_body ?m = event_body e"
    and r: "spelled e \<longrightarrow> humanizeSystemBody (\<lambda>_. ''Ann'') (body_text ?sh (m_body ?m)) = line_of (\<lambda>_. ''Ann'') ?sh e \<and>
       systemNodeKind (body_text ?sh (m_body ?m)) = node_of e"
    using timeline_understood [of demo ?sh ?m "[Task_Claim 20 12]" "\<lambda>_. ''Ann''"] by auto
  have "e = Tl_Claimed 12" using e by (cases e) (simp_all add: retire_body_def)
  then show ?thesis using m r by (intro bexI [of _ ?m]) simp_all
qed

text \<open>A retirement is written as an object of another verb's shape: the line shows it as it is stored, ids
  and all, and its node depends on the words of the reason.\<close>

lemma retirement_raw:
  "let x = body_text (\<lambda>_. ''3f'') (event_body (Tl_Retired demo_submission 10 ''approved elsewhere'')) in
   humanizeSystemBody (\<lambda>_. ''Ann'') x = x \<and> contains ''3f'' x \<and> systemNodeKind x = Nk_approve \<and> parseActorId x = None"
  by code_simp

lemma division_named_constructor: "divisionColor ''Constructor'' = None"
  by code_simp

end
