(* ===== verification/Form_Builder.thy ===== *)
theory Form_Builder
  imports Web_Client Validate
begin

text \<open>
  The client's template editor and answer dialog: \<open>features/request-template/\<close>
  (\<open>request-template-form.service.ts\<close>, \<open>request-template-builder.component.ts\<close>) and
  \<open>pages/tasks/submit-dialog.component.ts\<close>. A form group is a record of its controls' values; a number
  control holds nothing, a string or a number. The validators the forms show hints with are left out.
\<close>

section \<open>The editor's controls\<close>

type_synonym number_control = "dto_value option"

record question_group =
  qg_type :: question_type
  qg_prompt :: string
  qg_required :: bool
  qg_minChars :: number_control
  qg_maxChars :: number_control
  qg_integer :: bool
  qg_min :: number_control
  qg_max :: number_control
  qg_multi :: bool
  qg_options :: "(string \<times> string) list"
  qg_minSelect :: number_control
  qg_maxSelect :: number_control
  qg_allowedTypes :: string
  qg_maxFiles :: number_control

definition int_control :: "int option \<Rightarrow> number_control" where
  "int_control = map_option (\<lambda>n. VNum (Fin (of_int n)))"

definition rat_control :: "rat option \<Rightarrow> number_control" where
  "rat_control = map_option (\<lambda>r. VNum (Fin r))"

text \<open>\<open>allowedTypes.join(', ')\<close>.\<close>

fun comma_list :: "string list \<Rightarrow> string" where
  "comma_list [] = ''''"
| "comma_list [x] = x"
| "comma_list (x # y # xs) = x @ '', '' @ comma_list (y # xs)"

text \<open>\<open>questionGroup\<close>: the kind of a question that is not numeric is the default.\<close>

definition questionGroup :: "question_type \<Rightarrow> string \<Rightarrow> bool \<Rightarrow> constraints \<Rightarrow> question_group" where
  "questionGroup ty p r c =
     \<lparr>qg_type = ty, qg_prompt = p, qg_required = r,
      qg_minChars = int_control (k_minChars c), qg_maxChars = int_control (k_maxChars c),
      qg_integer = (if ty = numeric then k_integer c else True),
      qg_min = rat_control (k_min c), qg_max = rat_control (k_max c),
      qg_multi = k_multi c, qg_options = k_options c,
      qg_minSelect = int_control (k_minSelect c), qg_maxSelect = int_control (k_maxSelect c),
      qg_allowedTypes = comma_list (k_allowedTypes c), qg_maxFiles = int_control (k_maxFiles c)\<rparr>"

definition authoringForm :: "question list \<Rightarrow> question_group list" where
  "authoringForm = map (\<lambda>q. questionGroup (qn_type q) (qn_prompt q) (qn_required q) (qn_constraints q))"

definition newQuestion :: question_group where
  "newQuestion = questionGroup text_q [] False no_constraints"

section \<open>The payload\<close>

fun type_name :: "question_type \<Rightarrow> string" where
  "type_name detail_text = ''detail_text''"
| "type_name multiline = ''multiline''"
| "type_name text_q = ''text''"
| "type_name numeric = ''numeric''"
| "type_name dropdown = ''dropdown''"
| "type_name radio = ''radio''"
| "type_name attachment_q = ''attachment''"

text \<open>A number in JSON: what is not finite becomes null.\<close>

fun json_number :: "jsnum \<Rightarrow> body" where
  "json_number (Fin r) = BNum (Fin r)"
| "json_number n = BNull"

definition num_of :: "number_control \<Rightarrow> jsnum option" where
  "num_of v = (case v of None \<Rightarrow> None | Some x \<Rightarrow> if x = VStr [] then None else Some (js_Number x))"

definition num_field :: "string \<Rightarrow> number_control \<Rightarrow> (string \<times> body) list" where
  "num_field k v = field k json_number (num_of v)"

definition option_body :: "string \<times> string \<Rightarrow> body" where
  "option_body vl = BObj [(''value'', BStr (js_trim (fst vl))), (''label'', BStr (js_trim (snd vl)))]"

definition type_list :: "string \<Rightarrow> string list" where
  "type_list x = filter (\<lambda>y. y \<noteq> []) (map js_trim (js_split CHR '','' x))"

definition constraintsFor :: "question_group \<Rightarrow> body" where
  "constraintsFor g =
     BObj (if is_text (qg_type g) then num_field ''minChars'' (qg_minChars g) @ num_field ''maxChars'' (qg_maxChars g)
           else if qg_type g = numeric then
             [(''kind'', BStr (if qg_integer g then ''integer'' else ''float''))] @
             num_field ''min'' (qg_min g) @ num_field ''max'' (qg_max g)
           else if is_choice (qg_type g) then
             [(''multi'', BBool (qg_multi g)), (''options'', BArr (map option_body (qg_options g)))] @
             num_field ''minSelect'' (qg_minSelect g) @ num_field ''maxSelect'' (qg_maxSelect g)
           else
             [(''allowedTypes'', BArr (map BStr (type_list (qg_allowedTypes g))))] @
             num_field ''maxFiles'' (qg_maxFiles g))"

definition serialize_question :: "question_group \<Rightarrow> body" where
  "serialize_question g =
     BObj [(''type'', BStr (type_name (qg_type g))), (''prompt'', BStr (js_trim (qg_prompt g))),
           (''required'', BBool (qg_required g)), (''constraints'', constraintsFor g)]"

definition serialize :: "question_group list \<Rightarrow> body list" where
  "serialize = map serialize_question"

section \<open>The editor's buttons\<close>

datatype rearranging = Remove_Question nat | Move_Question nat int

definition remove_at :: "nat \<Rightarrow> 'a list \<Rightarrow> 'a list" where
  "remove_at i xs = take i xs @ drop (Suc i) xs"

definition insert_at :: "nat \<Rightarrow> 'a \<Rightarrow> 'a list \<Rightarrow> 'a list" where
  "insert_at j x xs = take j xs @ x # drop j xs"

fun rearrange :: "rearranging \<Rightarrow> 'a list \<Rightarrow> 'a list" where
  "rearrange (Remove_Question i) xs = remove_at i xs"
| "rearrange (Move_Question i dir) xs =
     (let j = int i + dir in
      if j < 0 \<or> int (length xs) \<le> j \<or> length xs \<le> i then xs
      else insert_at (nat j) (xs ! i) (remove_at i xs))"

definition add_question :: "question_group list \<Rightarrow> question_group list" where
  "add_question gs = gs @ [newQuestion]"

definition save_template :: "id \<Rightarrow> question_group list \<Rightarrow> api_call" where
  "save_template division gs = To_Members (Call_putRequestTemplate division (serialize gs))"

section \<open>The answer dialog\<close>

definition dialog_questions :: "question list \<Rightarrow> question list" where
  "dialog_questions = filter (\<lambda>q. qn_type q \<noteq> attachment_q)"

definition toAnswer :: "(id \<Rightarrow> dto_value option) \<Rightarrow> question \<Rightarrow> dto_answer option" where
  "toAnswer model q =
     (case model (qn_id q) of
        None \<Rightarrow> None
      | Some raw \<Rightarrow>
          if raw = VStr [] then None
          else
            let answered = (\<lambda>v. Some \<lparr>da_questionId = qn_id q, da_value = Some v, da_attachmentIds = None\<rparr>) in
            if qn_type q = numeric then answered (VNum (js_Number raw))
            else if is_choice (qn_type q) then
              answered (case raw of VArr xs \<Rightarrow> VArr xs | v \<Rightarrow> VArr [js_String v])
            else if is_text (qn_type q) then answered (VStr (js_String raw))
            else None)"

definition dialog_answers :: "question list \<Rightarrow> (id \<Rightarrow> dto_value option) \<Rightarrow> dto_answer list" where
  "dialog_answers qs model = List.map_filter (toAnswer model) (dialog_questions qs)"

definition submit_dialog :: "id \<Rightarrow> question list \<Rightarrow> (id \<Rightarrow> dto_value option) \<Rightarrow> api_call" where
  "submit_dialog task qs model = To_Work (Call_submit task (dialog_answers qs model))"

end
