(* ===== verification/Form_Properties.thy ===== *)
theory Form_Properties
  imports Form_Builder Template_Properties Web_Properties
begin

text \<open>
  The template editor against the API's schema: a stored template that is opened and saved, rearranged
  or not, is accepted as the questions it holds. And what the answer dialog cannot submit.
\<close>

section \<open>Trimming and lists\<close>

lemma dropWhile_twice: "dropWhile P (dropWhile P x) = dropWhile P x"
  by (induction x) simp_all

lemma js_trim_ends: "js_trim x = [] \<or> (\<not> js_space (hd (js_trim x)) \<and> \<not> js_space (last (js_trim x)))"
proof -
  let ?y = "dropWhile js_space x"
  let ?z = "dropWhile js_space (rev ?y)"
  have t: "js_trim x = rev ?z" by (simp add: js_trim_def)
  {
    assume ne: "?z \<noteq> []"
    then have last: "\<not> js_space (last (js_trim x))" using hd_dropWhile [of js_space "rev ?y"] by (simp add: t last_rev)
    obtain p where p: "rev ?y = p @ ?z" using takeWhile_dropWhile_id [of js_space "rev ?y"] by metis
    then have y: "?y = rev ?z @ rev p" using rev_rev_ident [of ?y] by (metis rev_append)
    have "hd ?y = hd (rev ?z @ rev p)" using y by (rule arg_cong)
    then have "hd (rev ?z) = hd ?y" using ne by (simp del: dropWhile_eq_Nil_conv)
    moreover have "?y \<noteq> []"
    proof
      assume "?y = []"
      then have "?z = []" by (simp only: rev.simps dropWhile.simps)
      with ne show False by blast
    qed
    then have "\<not> js_space (hd ?y)" by (rule hd_dropWhile)
    ultimately have "\<not> js_space (hd (js_trim x))" by (simp add: t)
    with last have ?thesis by blast
  }
  then show ?thesis by (cases "?z = []") (simp_all add: t)
qed

lemma trimmed_fix: "x = [] \<or> (\<not> js_space (hd x) \<and> \<not> js_space (last x)) \<Longrightarrow> js_trim x = x"
proof -
  assume a: "x = [] \<or> (\<not> js_space (hd x) \<and> \<not> js_space (last x))"
  have d: "dropWhile js_space y = y" if "y = [] \<or> \<not> js_space (hd y)" for y
    using that by (cases y) auto
  show "js_trim x = x" using a d [of x] d [of "rev x"] by (auto simp: js_trim_def hd_rev)
qed

lemma js_trim_trim [simp]: "js_trim (js_trim x) = js_trim x"
  by (rule trimmed_fix [OF js_trim_ends])

lemma js_trim_space: "js_trim (CHR '' '' # x) = js_trim x"
  by (simp add: js_trim_def js_space_def)

lemma js_trim_Nil: "js_trim [] = []"
  by (simp add: js_trim_def)

lemma js_split_here: "c \<notin> set x \<Longrightarrow> js_split c (x @ c # y) = x # js_split c y"
  by (induction x) auto

lemma js_split_none: "c \<notin> set x \<Longrightarrow> js_split c x = [x]"
  by (induction x) auto

definition plain_type :: "string \<Rightarrow> bool" where
  "plain_type x \<longleftrightarrow> x \<noteq> [] \<and> js_trim x = x \<and> CHR '','' \<notin> set x"

lemma type_list_join: "\<forall>x \<in> set ts. plain_type x \<Longrightarrow> type_list (comma_list ts) = ts"
proof (induction ts rule: comma_list.induct)
  case (3 x y xs)
  have head: "type_list (CHR '' '' # z) = type_list z" for z
    by (cases "js_split CHR '','' z") (simp_all add: type_list_def js_trim_space js_trim_Nil)
  have "type_list (comma_list (x # y # xs)) = x # type_list (CHR '' '' # comma_list (y # xs))"
    using 3(2) by (simp add: type_list_def js_split_here plain_type_def)
  then show ?case using 3 by (simp add: head)
qed (auto simp: type_list_def js_split_none plain_type_def js_trim_Nil)

section \<open>Constraints survive the editor\<close>

lemmas shape_defs = must_def maybe_def z_int_def bind_eq_Some_conv

lemma num_of_int: "num_of (int_control n) = map_option (\<lambda>k. Fin (of_int k)) n"
  by (cases n) (simp_all add: num_of_def int_control_def)

lemma num_of_rat: "num_of (rat_control r) = map_option Fin r"
  by (cases r) (simp_all add: num_of_def rat_control_def)

lemmas num_of_controls = num_of_int num_of_rat

lemma z_string_Some: "z_string P v = Some x \<longleftrightarrow> v = BStr x \<and> P x"
  by (cases v) auto

lemma text_kept:
  assumes "textConstraints b = Some c" and "is_text ty"
  shows "textConstraints (constraintsFor (questionGroup ty p r c)) = Some c"
proof -
  obtain lo hi where c: "c = no_constraints\<lparr>k_minChars := lo, k_maxChars := hi\<rparr>" and "ordered lo hi"
    and "\<forall>n. hi = Some n \<longrightarrow> 0 < n" and "\<forall>n. lo = Some n \<longrightarrow> 0 \<le> n"
    using assms(1) by (auto simp: textConstraints_def bind_eq_Some_conv split: if_splits dest: opt_int)
  then show ?thesis using assms(2)
    by (cases lo; cases hi)
       (auto simp: constraintsFor_def questionGroup_def num_field_def num_of_controls field_def textConstraints_def
         no_constraints_def maybe_def z_int_def)
qed

lemma numeric_kept:
  assumes "numericConstraints b = Some c"
  shows "numericConstraints (constraintsFor (questionGroup numeric p r c)) = Some c"
proof -
  obtain k lo hi where c: "c = no_constraints\<lparr>k_integer := k, k_min := lo, k_max := hi\<rparr>" and "ordered lo hi"
    using assms(1) by (auto simp: numericConstraints_def bind_eq_Some_conv split: if_splits)
  then show ?thesis
    by (cases lo; cases hi)
       (auto simp: constraintsFor_def questionGroup_def num_field_def num_of_controls field_def numericConstraints_def
         no_constraints_def maybe_def must_def is_text_def)
qed

definition plain_option :: "string \<times> string \<Rightarrow> bool" where
  "plain_option vl \<longleftrightarrow> js_trim (fst vl) = fst vl \<and> js_trim (snd vl) = snd vl"

lemma choiceOption_kept: "plain_option vl \<Longrightarrow> fst vl \<noteq> [] \<Longrightarrow> snd vl \<noteq> [] \<Longrightarrow> choiceOption (option_body vl) = Some vl"
  by (cases vl) (simp add: choiceOption_def option_body_def plain_option_def must_def)

lemma choiceOption_filled: "choiceOption b = Some vl \<Longrightarrow> fst vl \<noteq> [] \<and> snd vl \<noteq> []"
  by (auto simp: choiceOption_def bind_eq_Some_conv must_def z_string_Some split: option.splits)

lemma options_filled:
  assumes "z_array choiceOption v = Some os" and "vl \<in> set os"
  shows "fst vl \<noteq> [] \<and> snd vl \<noteq> []"
proof -
  obtain xs where "those (map choiceOption xs) = Some os" using assms(1) by (cases v) auto
  from those_all [OF this assms(2)] obtain b where "choiceOption b = Some vl" by (auto simp: eq_commute [of "Some _"])
  then show ?thesis by (rule choiceOption_filled)
qed

lemma choice_kept:
  assumes "choiceConstraints b = Some c" and "is_choice ty" and "\<forall>vl \<in> set (k_options c). plain_option vl"
  shows "choiceConstraints (constraintsFor (questionGroup ty p r c)) = Some c"
proof -
  obtain f m os lo hi v where c: "c = no_constraints\<lparr>k_multi := m, k_options := os, k_minSelect := lo, k_maxSelect := hi\<rparr>"
    and "ordered lo hi" and "os \<noteq> []" and "distinct (map fst os)" and os: "z_array choiceOption v = Some os"
    and n: "maybe f ''minSelect'' (z_int (\<lambda>n. 0 \<le> n)) = Some lo" "maybe f ''maxSelect'' (z_int (\<lambda>n. 0 < n)) = Some hi"
    using assms(1) by (auto simp: choiceConstraints_def bind_eq_Some_conv must_def split: if_splits option.splits)
  have "\<forall>n. lo = Some n \<longrightarrow> 0 \<le> n" "\<forall>n. hi = Some n \<longrightarrow> 0 < n" using n by (auto dest: opt_int)
  have "those (map choiceOption (map option_body os)) = Some (map id os)"
    unfolding map_map using assms(3) options_filled [OF os] c
    by (intro those_map_Some) (simp add: choiceOption_kept)
  moreover have "\<not> is_text ty" "ty \<noteq> numeric" using assms(2) by (auto simp: is_choice_def is_text_def)
  ultimately show ?thesis using c assms(2) \<open>ordered lo hi\<close> \<open>os \<noteq> []\<close> \<open>distinct (map fst os)\<close>
    \<open>\<forall>n. hi = Some n \<longrightarrow> 0 < n\<close> \<open>\<forall>n. lo = Some n \<longrightarrow> 0 \<le> n\<close>
    by (cases lo; cases hi)
       (auto simp: constraintsFor_def questionGroup_def num_field_def num_of_controls field_def choiceConstraints_def
         no_constraints_def maybe_def must_def z_int_def)
qed

lemma attachment_kept:
  assumes "attachmentConstraints b = Some c" and "\<forall>x \<in> set (k_allowedTypes c). plain_type x"
  shows "attachmentConstraints (constraintsFor (questionGroup attachment_q p r c)) = Some c"
proof -
  obtain ts n where c: "c = no_constraints\<lparr>k_allowedTypes := ts, k_maxFiles := n\<rparr>"
    and n: "\<forall>k. n = Some k \<longrightarrow> 0 < k"
    using assms(1) by (auto simp: attachmentConstraints_def bind_eq_Some_conv dest: opt_int)
  have ts: "type_list (comma_list ts) = ts" using assms(2) c by (intro type_list_join) simp
  have "those (map (z_string (\<lambda>x. x \<noteq> []) \<circ> BStr) ts) = Some (map id ts)"
    using assms(2) c by (intro those_map_Some) (simp add: plain_type_def)
  then show ?thesis using c ts n
    by (cases n)
       (auto simp: constraintsFor_def questionGroup_def num_field_def num_of_controls field_def attachmentConstraints_def
         no_constraints_def maybe_def must_def z_int_def is_text_def is_choice_def)
qed

section \<open>Questions survive the editor\<close>

definition unspoiled :: "question \<Rightarrow> bool" where
  "unspoiled q \<longleftrightarrow> (\<forall>vl \<in> set (k_options (qn_constraints q)). plain_option vl) \<and>
     (\<forall>x \<in> set (k_allowedTypes (qn_constraints q)). plain_type x)"

definition shaped :: "question_type \<Rightarrow> constraints \<Rightarrow> body \<Rightarrow> bool" where
  "shaped ty c cb \<longleftrightarrow>
     (is_text ty \<and> textConstraints cb = Some c) \<or> (ty = numeric \<and> numericConstraints cb = Some c) \<or>
     (is_choice ty \<and> choiceConstraints cb = Some c) \<or> (ty = attachment_q \<and> attachmentConstraints cb = Some c)"

lemma z_trimmed_Some: "z_trimmed lo hi v = Some x \<Longrightarrow> js_trim x = x \<and> sized lo hi x"
  by (cases v) (auto split: if_splits)

lemma question_shaped:
  assumes "questionSchema b = Some q"
  shows "js_trim (qi_prompt q) = qi_prompt q \<and> sized 1 2000 (qi_prompt q) \<and> (\<exists>cb. shaped (qi_type q) (qi_constraints q) cb)"
proof -
  from assms obtain t p where "map_of question_shapes t = Some p" and "p b = Some q"
    by (auto simp: questionSchema_def bind_eq_Some_conv must_def split: option.splits dest!: z_enum_Some)
  then show ?thesis
    by (auto simp: question_shapes_def questionOf_def bind_eq_Some_conv must_def is_text_def is_choice_def shaped_def
        split: if_splits option.splits dest!: z_trimmed_Some) blast+
qed

lemma question_schema_shaped:
  assumes "shaped ty c cb" and "js_trim p = p" and "sized 1 2000 p"
  shows "questionSchema (BObj [(''type'', BStr (type_name ty)), (''prompt'', BStr p), (''required'', BBool r), (''constraints'', cb)]) =
    Some \<lparr>qi_type = ty, qi_prompt = p, qi_required = r, qi_constraints = c\<rparr>"
  using assms
  by (cases ty)
     (auto simp: questionSchema_def question_shapes_def questionOf_def must_def opt_default_def shaped_def is_text_def is_choice_def)

lemma question_kept:
  assumes "questionSchema b = Some (as_input q)" and "unspoiled q"
  shows "questionSchema (serialize_question (questionGroup (qn_type q) (qn_prompt q) (qn_required q) (qn_constraints q))) =
    Some (as_input q)"
proof -
  let ?g = "questionGroup (qn_type q) (qn_prompt q) (qn_required q) (qn_constraints q)"
  obtain cb where p: "js_trim (qn_prompt q) = qn_prompt q" "sized 1 2000 (qn_prompt q)"
    and cb: "shaped (qn_type q) (qn_constraints q) cb"
    using question_shaped [OF assms(1)] by (auto simp: as_input_def)
  have "shaped (qn_type q) (qn_constraints q) (constraintsFor ?g)"
    using cb assms(2) text_kept numeric_kept choice_kept attachment_kept unfolding shaped_def unspoiled_def by metis
  from question_schema_shaped [OF this p, of "qn_required q"] show ?thesis
    using p by (simp add: serialize_question_def as_input_def) (simp add: questionGroup_def)
qed

section \<open>Rearranging\<close>

lemma rearrange_map: "rearrange st (map f xs) = map f (rearrange st xs)"
proof (cases st)
  case (Move_Question i dir)
  then show ?thesis by (auto simp: Let_def remove_at_def insert_at_def take_map drop_map)
qed (simp add: remove_at_def take_map drop_map)

lemma fold_rearrange_map: "fold rearrange sts (map f xs) = map f (fold rearrange sts xs)"
  by (induction sts arbitrary: xs) (simp_all add: rearrange_map)

lemma remove_at_set: "set (remove_at i xs) \<subseteq> set xs"
  by (auto simp: remove_at_def dest: in_set_takeD in_set_dropD)

lemma rearrange_set: "set (rearrange st xs) \<subseteq> set xs"
proof (cases st)
  case (Move_Question i dir)
  have "set (insert_at j x ys) = insert x (set ys)" for j and x :: 'a and ys
    using append_take_drop_id [of j ys] by (metis insert_at_def set_append list.set(2) Un_insert_right)
  then show ?thesis using Move_Question remove_at_set [of i xs] by (auto simp: Let_def)
qed (simp add: remove_at_set)

lemma rearrange_length: "length (rearrange st xs) \<le> length xs"
  by (cases st) (auto simp: Let_def remove_at_def insert_at_def)

lemma fold_rearrange: "set (fold rearrange sts xs) \<subseteq> set xs \<and> length (fold rearrange sts xs) \<le> length xs"
proof (induction sts arbitrary: xs)
  case (Cons st sts)
  then show ?case using rearrange_set [of st xs] rearrange_length [of st xs] by (force intro: order_trans)
qed simp

lemma template_schema_iff:
  "putRequestTemplateSchema (BObj [(''questions'', BArr bs)]) = Some qs \<longleftrightarrow>
   those (map questionSchema bs) = Some qs \<and> length qs \<le> 200"
  by (auto simp: putRequestTemplateSchema_def must_def at_most_items_def bind_eq_Some_conv)

lemma template_accepted:
  assumes "putRequestTemplateSchema b = Some qs"
  shows "length qs \<le> 200 \<and> (\<forall>q \<in> set qs. \<exists>c. questionSchema c = Some q)"
proof -
  obtain v where v: "at_most_items 200 (z_array questionSchema v) = Some qs"
    using assms by (auto simp: putRequestTemplateSchema_def bind_eq_Some_conv must_def split: option.splits)
  then obtain xs where "those (map questionSchema xs) = Some qs"
    by (cases v) (auto simp: at_most_items_def bind_eq_Some_conv split: if_splits)
  then have "\<exists>c. questionSchema c = Some q" if "q \<in> set qs" for q
    using those_all [OF _ that] by (fastforce simp: eq_commute [of "Some _"])
  moreover have "length qs \<le> 200" using v by (auto simp: at_most_items_def bind_eq_Some_conv split: if_splits)
  ultimately show ?thesis by blast
qed

text \<open>Two questions and the body they were stored from.\<close>

definition demo_notes :: question where
  "demo_notes = two_of_one_question\<lparr>qn_id := 8, qn_type := multiline, qn_prompt := ''Notes'',
     qn_constraints := no_constraints\<lparr>k_maxChars := Some 40\<rparr>\<rparr>"

definition demo_edited :: body where
  "demo_edited = BObj [(''questions'', BArr (serialize (authoringForm [two_of_one_question, demo_notes])))]"



text \<open>The dialog offers no attachment question, so a required one refuses every submission made with it.\<close>

lemma toAnswer_id: "toAnswer model q = Some a \<Longrightarrow> da_questionId a = qn_id q"
  by (auto simp: toAnswer_def Let_def split: option.splits if_splits dto_value.splits)

lemma dialog_answer_question:
  assumes "a \<in> set (dialog_answers qs model)"
  shows "\<exists>q \<in> set qs. qn_type q \<noteq> attachment_q \<and> da_questionId a = qn_id q"
proof -
  obtain q where "q \<in> set qs" "qn_type q \<noteq> attachment_q" "toAnswer model q = Some a"
    using assms by (auto simp: dialog_answers_def dialog_questions_def List.map_filter_def)
  then show ?thesis using toAnswer_id by blast
qed

lemma validator_answer_id: "aw_questionId (toValidatorAnswer ty a) = da_questionId a"
  by (simp add: toValidatorAnswer_def Let_def split: option.split)

lemma dialog_cannot_attach:
  assumes "q \<in> set qs" and "qn_type q = attachment_q" and "qn_required q" and "distinct (map qn_id qs)"
  shows "validateSubmission qs (map (\<lambda>a. toValidatorAnswer (type_of_question qs (da_questionId a)) a) (dialog_answers qs model)) att \<noteq> []"
proof -
  let ?aws = "map (\<lambda>a. toValidatorAnswer (type_of_question qs (da_questionId a)) a) (dialog_answers qs model)"
  have "aw_questionId a \<noteq> qn_id q" if a: "a \<in> set ?aws" for a
  proof
    assume i: "aw_questionId a = qn_id q"
    obtain x where x: "x \<in> set (dialog_answers qs model)" "aw_questionId a = da_questionId x"
      using a validator_answer_id by auto
    then obtain p where "p \<in> set qs" "qn_type p \<noteq> attachment_q" "qn_id p = qn_id q"
      using dialog_answer_question [OF x(1)] i by auto
    then show False using assms by (auto simp: distinct_map dest: inj_onD)
  qed
  then have "byQuestion ?aws (qn_id q) = None" by (auto simp: byQuestion_def find_None_iff)
  then have "sync_pass ?aws q \<noteq> []" using assms(3) by (simp add: sync_pass_def)
  then show ?thesis using assms(1) by (auto simp: validateSubmission_def)
qed

end
