(* ===== verification/Rest_Client.thy ===== *)
theory Rest_Client
  imports Numerals
begin

text \<open>
  The provider's client with its rate limits, \<open>integrations/sync/discord-rest.client.ts\<close>. What answers
  on the network is an argument: the reply to the n-th request and how long it takes, \<open>None\<close> when the
  request fails. Header numbers arrive read as numbers; sleeping advances the clock; times are in
  milliseconds.
\<close>

section \<open>Requests and replies\<close>

record rate_bucket =
  rb_remaining :: int
  rb_resetAt :: int

record fetch_options =
  fo_method :: string
  fo_path :: string
  fo_reason :: "string option"

record rest_reply =
  rp_status :: nat
  rp_took :: rat
  rp_remaining :: "int option"
  rp_reset :: "rat option"
  rp_resetAfter :: "rat option"
  rp_retryAfter :: "rat option"
  rp_isGlobal :: bool
  rp_json :: "string option"

record fetch_result =
  fr_status :: nat
  fr_ok :: bool
  fr_body :: "string option"

record rest_client =
  rc_buckets :: "string \<rightharpoonup> rate_bucket"
  rc_globalResetAt :: rat
  rc_globalRemaining :: int
  rc_clock :: rat
  rc_sent :: "(string \<times> rat) list"

definition GLOBAL_LIMIT_PER_SECOND :: int where
  "GLOBAL_LIMIT_PER_SECOND = 50"

definition fresh_client :: "rat \<Rightarrow> rest_client" where
  "fresh_client t =
     \<lparr>rc_buckets = Map.empty, rc_globalResetAt = 0, rc_globalRemaining = GLOBAL_LIMIT_PER_SECOND,
      rc_clock = t, rc_sent = []\<rparr>"

section \<open>Buckets\<close>

definition decimal :: "char \<Rightarrow> bool" where
  "decimal c \<longleftrightarrow> 48 \<le> (of_char c :: nat) \<and> (of_char c :: nat) \<le> 57"

text \<open>The first \<open>prefix(\d+)\<close> of a path.\<close>

fun number_after :: "string \<Rightarrow> string \<Rightarrow> string" where
  "number_after p [] = []"
| "number_after p (c # cs) =
     (let d = takeWhile decimal (drop (length p) (c # cs)) in
      if take (length p) (c # cs) = p \<and> d \<noteq> [] then d else number_after p cs)"

text \<open>\<open>replace(/\d{17,19}/g, ':id')\<close>.\<close>

function ids_masked :: "string \<Rightarrow> string" where
  "ids_masked [] = []"
| "ids_masked (c # cs) =
     (let d = takeWhile decimal (take 19 (c # cs)) in
      if 17 \<le> length d then '':id'' @ ids_masked (drop (length d) (c # cs)) else c # ids_masked cs)"
  by pat_completeness auto
termination
  by (relation "measure length") auto

definition bucketKey :: "string \<Rightarrow> string \<Rightarrow> string" where
  "bucketKey method path =
     method @ '':'' @ number_after ''/guilds/'' path @ '':'' @ number_after ''/channels/'' path @ '':'' @ ids_masked path"

definition rest_sleep :: "rat \<Rightarrow> rest_client \<Rightarrow> rest_client" where
  "rest_sleep ms rc = rc\<lparr>rc_clock := rc_clock rc + max 0 ms\<rparr>"

definition waitForBucket :: "string \<Rightarrow> rest_client \<Rightarrow> rest_client" where
  "waitForBucket key rc =
     (let t = rc_clock rc;
          rc1 = (if rc_globalRemaining rc \<le> 0 \<and> t < rc_globalResetAt rc
                 then rest_sleep (rc_globalResetAt rc - t + 50) rc else rc)
      in case rc_buckets rc1 key of
           None \<Rightarrow> rc1
         | Some b \<Rightarrow>
             if rb_remaining b \<le> 0 \<and> rc_clock rc1 < of_int (rb_resetAt b)
             then rest_sleep (of_int (rb_resetAt b) - rc_clock rc1 + 50) rc1 else rc1)"

definition updateBucket :: "string \<Rightarrow> rest_reply \<Rightarrow> rest_client \<Rightarrow> rest_client" where
  "updateBucket key rp rc =
     (let rc1 = (case (rp_remaining rp, rp_reset rp) of
            (Some n, Some r) \<Rightarrow> rc\<lparr>rc_buckets := (rc_buckets rc)(key \<mapsto> \<lparr>rb_remaining = n, rb_resetAt = \<lceil>r * 1000\<rceil>\<rparr>)\<rparr>
          | _ \<Rightarrow> rc);
          rc2 = rc1\<lparr>rc_globalRemaining := max 0 (rc_globalRemaining rc1 - 1)\<rparr>
      in if rp_isGlobal rp then
           (case rp_resetAfter rp of
              None \<Rightarrow> rc2
            | Some a \<Rightarrow> rc2\<lparr>rc_globalResetAt := rc_clock rc2 + a * 1000, rc_globalRemaining := 0\<rparr>)
         else rc2)"

section \<open>One request with its retries\<close>

definition rest_send :: "(nat \<Rightarrow> rest_reply option) \<Rightarrow> string \<Rightarrow> rest_client \<Rightarrow> rest_reply option \<times> rest_client" where
  "rest_send network key rc =
     (let rp = network (length (rc_sent rc));
          rc1 = rc\<lparr>rc_sent := rc_sent rc @ [(key, rc_clock rc)]\<rparr>
      in (rp, case rp of None \<Rightarrow> rc1 | Some q \<Rightarrow> rc1\<lparr>rc_clock := rc_clock rc1 + max 0 (rp_took q)\<rparr>))"

definition answered :: "rest_reply \<Rightarrow> fetch_result" where
  "answered rp =
     \<lparr>fr_status = rp_status rp, fr_ok = (200 \<le> rp_status rp \<and> rp_status rp < 300),
      fr_body = (if rp_status rp = 204 then None else rp_json rp)\<rparr>"

definition retry_delay :: "rest_reply \<Rightarrow> rat" where
  "retry_delay rp = (case rp_retryAfter rp of None \<Rightarrow> 1 | Some a \<Rightarrow> a) * 1000"

definition backed_off :: "rest_reply \<Rightarrow> rest_client \<Rightarrow> rest_client" where
  "backed_off rp rc =
     rest_sleep (retry_delay rp)
       (if rp_isGlobal rp
        then rc\<lparr>rc_globalRemaining := 0, rc_globalResetAt := rc_clock rc + retry_delay rp\<rparr> else rc)"

primrec rest_fetch :: "(nat \<Rightarrow> rest_reply option) \<Rightarrow> fetch_options \<Rightarrow> nat \<Rightarrow> rest_client \<Rightarrow> fetch_result option \<times> rest_client" where
  "rest_fetch network opts 0 rc =
     (let key = bucketKey (fo_method opts) (fo_path opts) in
      case rest_send network key (waitForBucket key rc) of
        (None, rc1) \<Rightarrow> (None, rc1)
      | (Some rp, rc1) \<Rightarrow>
          (Some (if rp_status rp = 429 then \<lparr>fr_status = 429, fr_ok = False, fr_body = None\<rparr> else answered rp),
           updateBucket key rp rc1))"
| "rest_fetch network opts (Suc retries) rc =
     (let key = bucketKey (fo_method opts) (fo_path opts) in
      case rest_send network key (waitForBucket key rc) of
        (None, rc1) \<Rightarrow> (None, rc1)
      | (Some rp, rc1) \<Rightarrow>
          (let rc2 = updateBucket key rp rc1 in
           if rp_status rp = 429 then rest_fetch network opts retries (backed_off rp rc2)
           else (Some (answered rp), rc2)))"

definition member_role_path :: "string \<Rightarrow> string \<Rightarrow> string \<Rightarrow> string" where
  "member_role_path guildId userId roleId =
     ''/guilds/'' @ guildId @ ''/members/'' @ userId @ ''/roles/'' @ roleId"

definition sync_reason :: "string option \<Rightarrow> string" where
  "sync_reason roleName = ''Patrice sync'' @ (case roleName of None \<Rightarrow> [] | Some n \<Rightarrow> if n = [] then [] else '' ('' @ n @ '')'')"

definition addMemberRole ::
  "(nat \<Rightarrow> rest_reply option) \<Rightarrow> string \<Rightarrow> string \<Rightarrow> string \<Rightarrow> string option \<Rightarrow> rest_client \<Rightarrow> fetch_result option \<times> rest_client" where
  "addMemberRole network guildId userId roleId roleName =
     rest_fetch network \<lparr>fo_method = ''PUT'', fo_path = member_role_path guildId userId roleId,
       fo_reason = Some (sync_reason roleName)\<rparr> 3"

definition removeMemberRole ::
  "(nat \<Rightarrow> rest_reply option) \<Rightarrow> string \<Rightarrow> string \<Rightarrow> string \<Rightarrow> string option \<Rightarrow> rest_client \<Rightarrow> fetch_result option \<times> rest_client" where
  "removeMemberRole network guildId userId roleId roleName =
     rest_fetch network \<lparr>fo_method = ''DELETE'', fo_path = member_role_path guildId userId roleId,
       fo_reason = Some (sync_reason roleName)\<rparr> 3"

section \<open>What one call does to the network\<close>

text \<open>A request respects the limits the client knows when it sends it.\<close>

definition allowed_at :: "rest_client \<Rightarrow> string \<Rightarrow> bool" where
  "allowed_at rc key \<longleftrightarrow>
     (rc_globalRemaining rc \<le> 0 \<longrightarrow> rc_globalResetAt rc \<le> rc_clock rc) \<and>
     (\<forall>b. rc_buckets rc key = Some b \<longrightarrow> rb_remaining b \<le> 0 \<longrightarrow> of_int (rb_resetAt b) \<le> rc_clock rc)"

lemma wait_frame [simp]:
  "rc_buckets (waitForBucket key rc) = rc_buckets rc" "rc_globalResetAt (waitForBucket key rc) = rc_globalResetAt rc"
  "rc_globalRemaining (waitForBucket key rc) = rc_globalRemaining rc" "rc_sent (waitForBucket key rc) = rc_sent rc"
  by (simp_all add: waitForBucket_def rest_sleep_def Let_def split: option.split)

lemma wait_later: "rc_clock rc \<le> rc_clock (waitForBucket key rc)"
  by (simp add: waitForBucket_def rest_sleep_def Let_def split: option.split)

lemma wait_allowed: "allowed_at (waitForBucket key rc) key"
  by (auto simp: allowed_at_def waitForBucket_def rest_sleep_def Let_def not_less split: option.split)

lemma update_frame [simp]:
  "rc_clock (updateBucket key rp rc) = rc_clock rc" "rc_sent (updateBucket key rp rc) = rc_sent rc"
  by (simp_all add: updateBucket_def Let_def split: option.split)

lemma backed_off_frame [simp]:
  "rc_sent (backed_off rp rc) = rc_sent rc" "rc_buckets (backed_off rp rc) = rc_buckets rc"
  "rc_clock (backed_off rp rc) = rc_clock rc + max 0 (retry_delay rp)"
  by (simp_all add: backed_off_def rest_sleep_def)

end
