(* ===== verification/Rest_Properties.thy ===== *)
theory Rest_Properties
  imports Rest_Client
begin

text \<open>
  What a call of the provider's client does to the network: how often it asks, how long it waits, and
  what it returns. And that the client's own global limit is not one.
\<close>

text \<open>\<open>t'\<close> keeps the distance a reply to a request sent at \<open>t\<close> asks for.\<close>

definition keeps_distance :: "rest_reply \<Rightarrow> rat \<Rightarrow> rat \<Rightarrow> bool" where
  "keeps_distance rp t t' \<longleftrightarrow>
     t + max 0 (rp_took rp) + max 0 (retry_delay rp) \<le> t' \<and>
     (\<forall>n x. rp_remaining rp = Some n \<and> n \<le> 0 \<and> rp_reset rp = Some x \<longrightarrow> of_int \<lceil>x * 1000\<rceil> \<le> t')"

definition last_reply :: "(nat \<Rightarrow> rest_reply option) \<Rightarrow> rest_client \<Rightarrow> rat list \<Rightarrow> rest_reply option" where
  "last_reply network rc ts = network (length (rc_sent rc) + length ts - 1)"

definition paced :: "(nat \<Rightarrow> rest_reply option) \<Rightarrow> string \<Rightarrow> rest_client \<Rightarrow> rat list \<Rightarrow> bool" where
  "paced network key rc ts \<longleftrightarrow>
     rc_clock rc \<le> hd ts \<and> allowed_at (rc\<lparr>rc_clock := hd ts\<rparr>) key \<and>
     (\<forall>i. Suc i < length ts \<longrightarrow> (\<exists>rp. network (length (rc_sent rc) + i) = Some rp \<and> rp_status rp = 429 \<and>
        keeps_distance rp (ts ! i) (ts ! Suc i)))"

definition outcome :: "rest_reply option \<Rightarrow> bool \<Rightarrow> fetch_result option \<Rightarrow> bool" where
  "outcome rp exhausted r \<longleftrightarrow>
     (case rp of
        None \<Rightarrow> r = None
      | Some q \<Rightarrow>
          if rp_status q = 429 then exhausted \<and> r = Some \<lparr>fr_status = 429, fr_ok = False, fr_body = None\<rparr>
          else r = Some (answered q))"

lemma wait_allowed_at: "allowed_at (rc\<lparr>rc_clock := rc_clock (waitForBucket key rc)\<rparr>) key"
  using wait_allowed [of key rc] by (simp add: allowed_at_def)

lemma first_request:
  "paced network key rc [rc_clock (waitForBucket key rc)]"
  by (simp add: paced_def wait_later wait_allowed_at)

lemma distance_kept:
  assumes "allowed_at ((backed_off rp (updateBucket key rp rc))\<lparr>rc_clock := t'\<rparr>) key"
    and "rc_clock (backed_off rp (updateBucket key rp rc)) \<le> t'" and "rc_clock rc = t + max 0 (rp_took rp)"
  shows "keeps_distance rp t t'"
proof -
  have "of_int \<lceil>x * 1000\<rceil> \<le> t'" if "rp_remaining rp = Some n" "n \<le> 0" "rp_reset rp = Some x" for n x
    using assms(1) that by (auto simp: allowed_at_def updateBucket_def Let_def split: option.splits if_splits)
  then show ?thesis using assms(2,3) by (auto simp: keeps_distance_def)
qed

lemma paced_cons:
  assumes "network (length (rc_sent rc)) = Some rp" and "rp_status rp = 429"
    and "paced network key rc2 ts" and "ts \<noteq> []" and "length (rc_sent rc2) = Suc (length (rc_sent rc))"
    and "rc_clock rc \<le> t" and "allowed_at (rc\<lparr>rc_clock := t\<rparr>) key" and "keeps_distance rp t (hd ts)"
  shows "paced network key rc (t # ts)"
proof -
  have "\<exists>q. network (length (rc_sent rc) + i) = Some q \<and> rp_status q = 429 \<and> keeps_distance q ((t # ts) ! i) ((t # ts) ! Suc i)"
    if i: "Suc i < length (t # ts)" for i
  proof (cases i)
    case 0
    then show ?thesis using assms(1,2,4,8) by (simp add: hd_conv_nth)
  next
    case (Suc j)
    then have "Suc j < length ts" using i by simp
    then show ?thesis using assms(3,5) Suc by (fastforce simp: paced_def)
  qed
  then show ?thesis using assms(6,7) by (simp add: paced_def)
qed

lemma fetch_paced:
  "\<exists>ts. rc_sent (snd (rest_fetch network opts n rc)) = rc_sent rc @ map (Pair (bucketKey (fo_method opts) (fo_path opts))) ts \<and>
     ts \<noteq> [] \<and> length ts \<le> Suc n \<and> paced network (bucketKey (fo_method opts) (fo_path opts)) rc ts \<and>
     outcome (last_reply network rc ts) (length ts = Suc n) (fst (rest_fetch network opts n rc))"
proof (induction n arbitrary: rc)
  case 0
  let ?key = "bucketKey (fo_method opts) (fo_path opts)"
  let ?t = "rc_clock (waitForBucket ?key rc)"
  show ?case
    using first_request [of network ?key rc]
    by (intro exI [of _ "[?t]"])
       (auto simp: rest_send_def Let_def outcome_def last_reply_def split: option.splits)
next
  case (Suc n)
  let ?key = "bucketKey (fo_method opts) (fo_path opts)"
  let ?t = "rc_clock (waitForBucket ?key rc)"
  obtain q rc1 where send: "rest_send network ?key (waitForBucket ?key rc) = (q, rc1)"
    by (cases "rest_send network ?key (waitForBucket ?key rc)")
  then have q: "q = network (length (rc_sent rc))" and sent: "rc_sent rc1 = rc_sent rc @ [(?key, ?t)]"
    by (auto simp: rest_send_def Let_def split: option.splits)
  show ?case
  proof (cases "\<exists>rp. q = Some rp \<and> rp_status rp = 429")
    case False
    then show ?thesis
      using first_request [of network ?key rc] send q sent
      by (intro exI [of _ "[?t]"])
         (auto simp: Let_def outcome_def last_reply_def split: option.splits)
  next
    case True
    then obtain rp where rp: "q = Some rp" "rp_status rp = 429" by blast
    let ?rc2 = "backed_off rp (updateBucket ?key rp rc1)"
    have run: "rest_fetch network opts (Suc n) rc = rest_fetch network opts n ?rc2"
      using send rp by (simp add: Let_def)
    obtain ts where ts: "rc_sent (snd (rest_fetch network opts n ?rc2)) = rc_sent ?rc2 @ map (Pair ?key) ts"
        "ts \<noteq> []" "length ts \<le> Suc n" "paced network ?key ?rc2 ts"
        "outcome (last_reply network ?rc2 ts) (length ts = Suc n) (fst (rest_fetch network opts n ?rc2))"
      using Suc.IH [of ?rc2] by blast
    have net: "network (length (rc_sent rc)) = Some rp" using q rp by simp
    have clock: "rc_clock rc1 = ?t + max 0 (rp_took rp)" using send net by (auto simp: rest_send_def Let_def)
    have size: "length (rc_sent ?rc2) = Suc (length (rc_sent rc))" using sent by simp
    have "keeps_distance rp ?t (hd ts)"
      using ts(4) clock by (intro distance_kept [where key = ?key and rc = rc1]) (simp_all add: paced_def)
    then have "paced network ?key rc (?t # ts)"
      using net rp(2) ts(4,2) size wait_later [where rc = rc and key = ?key] wait_allowed_at [where rc = rc and key = ?key]
      by (intro paced_cons [where rp = rp and ?rc2.0 = ?rc2 and network = network and rc = rc and key = ?key])
    moreover have "last_reply network rc (?t # ts) = last_reply network ?rc2 ts"
      using ts(2) sent by (cases ts) (simp_all add: last_reply_def)
    ultimately show ?thesis using ts sent run by (intro exI [of _ "?t # ts"]) simp
  qed
qed


definition quick_reply :: rest_reply where
  "quick_reply = \<lparr>rp_status = 204, rp_took = 0, rp_remaining = None, rp_reset = None, rp_resetAfter = None,
     rp_retryAfter = None, rp_isGlobal = False, rp_json = None\<rparr>"

definition limited_once :: "nat \<Rightarrow> rest_reply option" where
  "limited_once n = Some (if n = 0 then quick_reply\<lparr>rp_status := 429, rp_retryAfter := Some 2\<rparr> else quick_reply)"


text \<open>The fifty requests a second the client says it tracks are never waited for: the end of the window is only
  set by a reply that carries the provider's own global limit.\<close>

lemma global_limit_inert:
  assumes "\<And>n rp. network n = Some rp \<Longrightarrow> \<not> rp_isGlobal rp"
  shows "rc_globalResetAt (snd (rest_fetch network opts n rc)) = rc_globalResetAt rc"
proof (induction n arbitrary: rc)
  case 0
  show ?case using assms by (auto simp: Let_def rest_send_def updateBucket_def split: option.splits)
next
  case (Suc n)
  have u: "rc_globalResetAt (updateBucket key rp rc') = rc_globalResetAt rc'" "rc_globalResetAt (backed_off rp rc') = rc_globalResetAt rc'"
    if "\<not> rp_isGlobal rp" for key rp rc'
    using that by (auto simp: updateBucket_def backed_off_def rest_sleep_def Let_def split: option.split)
  show ?case
  proof (cases "network (length (rc_sent rc))")
    case None
    then show ?thesis by (simp add: Let_def rest_send_def)
  next
    case (Some rp)
    then show ?thesis using assms [OF Some] u Suc.IH by (simp add: Let_def rest_send_def)
  qed
qed

lemma role_call_at_once:
  assumes "rc_buckets rc = Map.empty" and "rc_globalResetAt rc \<le> rc_clock rc"
  shows "snd (addMemberRole (\<lambda>_. Some quick_reply) g u r name rc) =
    rc\<lparr>rc_sent := rc_sent rc @ [(bucketKey ''PUT'' (member_role_path g u r), rc_clock rc)],
       rc_globalRemaining := max 0 (rc_globalRemaining rc - 1)\<rparr>"
  using assms
  by (simp add: addMemberRole_def numeral_3_eq_3 waitForBucket_def rest_send_def updateBucket_def quick_reply_def Let_def)

lemma any_number_at_once:
  assumes "0 \<le> t"
  shows "map snd (rc_sent (((\<lambda>rc. snd (addMemberRole (\<lambda>_. Some quick_reply) g u r name rc)) ^^ n) (fresh_client t))) = replicate n t"
proof -
  let ?f = "\<lambda>rc. snd (addMemberRole (\<lambda>_. Some quick_reply) g u r name rc)"
  have "rc_buckets ((?f ^^ n) (fresh_client t)) = Map.empty \<and> rc_globalResetAt ((?f ^^ n) (fresh_client t)) = 0 \<and>
      rc_clock ((?f ^^ n) (fresh_client t)) = t \<and> map snd (rc_sent ((?f ^^ n) (fresh_client t))) = replicate n t"
  proof (induction n)
    case (Suc n)
    then show ?case using assms by (simp add: role_call_at_once replicate_append_same)
  qed (simp add: fresh_client_def)
  then show ?thesis by blast
qed

end
