(* ===== verification/Pages.thy ===== *)
theory Pages
  imports Web_Client Timeline
begin

text \<open>
  The web client's stores and pages over the calls of the API: what a page keeps, what a button asks for
  and what an answer changes (\<open>core/notification.store.ts\<close>, \<open>core/lookup.store.ts\<close>, \<open>core/errors.ts\<close>, the
  pages under \<open>pages/tasks/\<close>, \<open>pages/admin/activity-admin.component.ts\<close>). An answer that fails is \<open>None\<close>;
  the markup, busy flags and toasts are left out; the ellipsis and the dash are written in ASCII.
\<close>

section \<open>Error messages\<close>

definition in_order :: "string list \<Rightarrow> string list" where
  "in_order xs = fold (\<lambda>x seen. if x \<in> set seen then seen else seen @ [x]) xs []"

fun with_newlines :: "string list \<Rightarrow> string" where
  "with_newlines [] = []"
| "with_newlines [x] = x"
| "with_newlines (x # y # xs) = x @ [CHR 0x0A] @ with_newlines (y # xs)"

text \<open>The envelope's message and details; a detail without a text counts for nothing.\<close>

definition errorMessage :: "string option \<Rightarrow> string option list \<Rightarrow> string \<Rightarrow> string" where
  "errorMessage message details fallback =
     (let unique = in_order (List.map_filter truthy details) in
      if unique \<noteq> [] then with_newlines unique
      else case message of Some m \<Rightarrow> m | None \<Rightarrow> fallback)"

section \<open>Notifications\<close>

record notification_store =
  ns_feed :: "notification list"
  ns_unread :: nat

definition disconnected_store :: notification_store where
  "disconnected_store = \<lparr>ns_feed = [], ns_unread = 0\<rparr>"

definition store_reconcile :: "(notification list \<times> nat) option \<Rightarrow> notification_store \<Rightarrow> notification_store" where
  "store_reconcile res st =
     (case res of None \<Rightarrow> st | Some (rows, unread) \<Rightarrow> \<lparr>ns_feed = rows, ns_unread = unread\<rparr>)"

definition store_markRead :: "time \<Rightarrow> id \<Rightarrow> nat \<Rightarrow> notification_store \<Rightarrow> notification_store" where
  "store_markRead t i unread st =
     \<lparr>ns_feed = map (\<lambda>n. if n_id n = i \<and> n_readAt n = None then n\<lparr>n_readAt := Some t\<rparr> else n) (ns_feed st),
      ns_unread = unread\<rparr>"

definition store_markAllRead :: "time \<Rightarrow> nat \<Rightarrow> notification_store \<Rightarrow> notification_store" where
  "store_markAllRead t unread st =
     \<lparr>ns_feed = map (\<lambda>n. if n_readAt n = None then n\<lparr>n_readAt := Some t\<rparr> else n) (ns_feed st),
      ns_unread = unread\<rparr>"

section \<open>Names\<close>

definition short_id :: "string \<Rightarrow> string" where
  "short_id i = (if 8 < length i then take 8 i @ ''...'' else i)"

record lookup_store =
  lk_divisions :: "(string \<times> string \<times> string option) list"
  lk_teams :: "(string \<times> string \<times> string option) list"
  lk_users :: "(string \<times> string \<times> string option) list"

text \<open>Each list that cannot be read counts as empty; \<open>new Map\<close> of a list keeps the last of a key.\<close>

definition lookup_load ::
  "(string \<times> string \<times> string option) list option \<Rightarrow> (string \<times> string \<times> string option) list option \<Rightarrow>
   (string \<times> string \<times> string option) list option \<Rightarrow> lookup_store" where
  "lookup_load divs tms us =
     (let given = (\<lambda>x. case x of None \<Rightarrow> [] | Some xs \<Rightarrow> xs)
      in \<lparr>lk_divisions = given divs, lk_teams = given tms, lk_users = given us\<rparr>)"

definition name_in :: "(string \<times> string \<times> string option) list \<Rightarrow> string \<Rightarrow> string" where
  "name_in rows i = (case map_of (rev rows) i of Some (n, _) \<Rightarrow> n | None \<Rightarrow> short_id i)"

definition divisionName :: "lookup_store \<Rightarrow> string \<Rightarrow> string" where
  "divisionName lk i = name_in (lk_divisions lk) i"

definition teamName :: "lookup_store \<Rightarrow> string option \<Rightarrow> string" where
  "teamName lk i = (case truthy i of None \<Rightarrow> ''-'' | Some x \<Rightarrow> name_in (lk_teams lk) x)"

definition userName :: "lookup_store \<Rightarrow> string option \<Rightarrow> string" where
  "userName lk i = (case truthy i of None \<Rightarrow> ''System'' | Some x \<Rightarrow> name_in (lk_users lk) x)"

definition userAvatar :: "lookup_store \<Rightarrow> string option \<Rightarrow> string option" where
  "userAvatar lk i =
     (case truthy i of None \<Rightarrow> None
      | Some x \<Rightarrow> (case map_of (rev (lk_users lk)) x of Some (_, a) \<Rightarrow> a | None \<Rightarrow> None))"

text \<open>\<open>None\<close> as in \<open>divisionColor\<close>: a value that is no colour.\<close>

definition lookup_divisionColor :: "lookup_store \<Rightarrow> string \<Rightarrow> string option" where
  "lookup_divisionColor lk i =
     (case map_of (lk_divisions lk) i of
        None \<Rightarrow> Some ''#a7aba3''
      | Some (n, c) \<Rightarrow> (case c of Some x \<Rightarrow> Some x | None \<Rightarrow> divisionColor n))"

definition lookup_teamColor :: "lookup_store \<Rightarrow> string option \<Rightarrow> string" where
  "lookup_teamColor lk i =
     (case truthy i of None \<Rightarrow> ''#a7aba3''
      | Some x \<Rightarrow> (case map_of (lk_teams lk) x of
            None \<Rightarrow> ''#a7aba3''
          | Some (n, c) \<Rightarrow> (case c of Some y \<Rightarrow> y | None \<Rightarrow> teamColor n)))"

section \<open>Paged lists\<close>

text \<open>The task board, the thread and the audit log page alike: a reload replaces what is shown, another page
  is appended, a failure changes nothing. Without a cursor there is no further page.\<close>

record 'r shown_list =
  sh_items :: "'r list"
  sh_cursor :: "id option"

definition page_reload :: "(id option \<Rightarrow> ('r list \<times> id option) option) \<Rightarrow> 'r shown_list \<Rightarrow> 'r shown_list" where
  "page_reload api st =
     (case api None of None \<Rightarrow> st | Some (items, c) \<Rightarrow> \<lparr>sh_items = items, sh_cursor = c\<rparr>)"

definition page_loadMore :: "(id option \<Rightarrow> ('r list \<times> id option) option) \<Rightarrow> 'r shown_list \<Rightarrow> 'r shown_list" where
  "page_loadMore api st =
     (case sh_cursor st of
        None \<Rightarrow> st
      | Some after \<Rightarrow>
          (case api (Some after) of
             None \<Rightarrow> st
           | Some (items, c) \<Rightarrow> \<lparr>sh_items = sh_items st @ items, sh_cursor = c\<rparr>))"

section \<open>The task board\<close>

definition cleanFilters :: "task_filters \<Rightarrow> task_filters" where
  "cleanFilters f = \<lparr>tf_division = tf_division f, tf_team = tf_team f, tf_status = tf_status f,
     tf_requester = None, tf_claimant = None\<rparr>"

definition board_page :: "task_filters \<Rightarrow> id option \<Rightarrow> api_call" where
  "board_page f after = To_Tasks (Call_listTasks (cleanFilters f) after (Some 20))"

definition board_create :: "string \<Rightarrow> string \<Rightarrow> id \<Rightarrow> id option \<Rightarrow> api_call" where
  "board_create name description division team =
     To_Tasks (Call_createTask (js_trim name) (truthy (Some description)) division team)"

definition emptySlots :: "task_view \<Rightarrow> nat" where
  "emptySlots t = nat (max 0 (tv_openings t - int (length (tv_claimantUserIds t))))"

text \<open>The page is dimmed when the settings it could read ask for a linked account and the member has none.\<close>

definition discordGated :: "bool option \<Rightarrow> bool option \<Rightarrow> bool" where
  "discordGated requireDiscordLink hasDiscordLink \<longleftrightarrow> requireDiscordLink = Some True \<and> hasDiscordLink = Some False"

section \<open>A task's page\<close>

record claim_row =
  cl_userId :: id
  cl_version :: "int option"
  cl_state :: "sub_state option"

definition latest_by_claimant :: "submission_view list \<Rightarrow> id \<rightharpoonup> submission_view" where
  "latest_by_claimant subs =
     fold (\<lambda>s m. case m (sv_claimantUserId s) of
                  None \<Rightarrow> m(sv_claimantUserId s \<mapsto> s)
                | Some cur \<Rightarrow> if sv_submissionNo cur < sv_submissionNo s then m(sv_claimantUserId s \<mapsto> s) else m)
       subs Map.empty"

definition claim_rows :: "task_view \<Rightarrow> submission_view list \<Rightarrow> claim_row list" where
  "claim_rows t subs =
     map (\<lambda>u. let sub = latest_by_claimant subs u in
              \<lparr>cl_userId = u, cl_version = map_option sv_submissionNo sub, cl_state = map_option sv_state sub\<rparr>)
       (tv_claimantUserIds t)"

definition allApproved :: "claim_row list \<Rightarrow> bool" where
  "allApproved cs \<longleftrightarrow> cs \<noteq> [] \<and> (\<forall>c \<in> set cs. cl_state c = Some ss_approved)"

definition openPips :: "task_view \<Rightarrow> submission_view list \<Rightarrow> nat" where
  "openPips t subs = nat (max 0 (tv_openings t - int (length (claim_rows t subs))))"

text \<open>The first eight members whose name or email contains the query.\<close>

definition filteredUsers :: "string \<Rightarrow> (id \<times> string \<times> string option) list \<Rightarrow> (id \<times> string \<times> string option) list" where
  "filteredUsers query us =
     (let q = js_trim (toLowerCase query) in
      if q = [] then take 8 us
      else take 8 (filter (\<lambda>(_, n, e). contains q (toLowerCase n) \<or>
             contains q (toLowerCase (case e of None \<Rightarrow> [] | Some x \<Rightarrow> x))) us))"

definition saveName :: "string \<Rightarrow> task_view \<Rightarrow> api_call option" where
  "saveName editName t =
     (let name = js_trim editName in
      if name = [] \<or> name = tv_name t then None else Some (To_Tasks (Call_updateTask (tv_id t) (Some name) None)))"

definition saveDesc :: "string \<Rightarrow> task_view \<Rightarrow> api_call option" where
  "saveDesc editDescription t =
     (if editDescription = tv_description t then None
      else Some (To_Tasks (Call_updateTask (tv_id t) None (Some editDescription))))"

datatype detail_button =
  Btn_Claim | Btn_Leave | Btn_Evict id | Btn_AddOpening | Btn_RemoveSlot | Btn_Complete | Btn_Retire | Btn_Requester id

fun detail_call :: "id \<Rightarrow> detail_button \<Rightarrow> api_call" where
  "detail_call t Btn_Claim = To_Tasks (Call_claimTask t)"
| "detail_call t Btn_Leave = To_Tasks (Call_leaveTask t)"
| "detail_call t (Btn_Evict u) = To_Tasks (Call_removeClaimant t u)"
| "detail_call t Btn_AddOpening = To_Tasks (Call_manageClaims t (Some 1))"
| "detail_call t Btn_RemoveSlot = To_Tasks (Call_manageClaims t (Some (- 1)))"
| "detail_call t Btn_Complete = To_Tasks (Call_completeTask t)"
| "detail_call t Btn_Retire = To_Tasks (Call_retireTask t)"
| "detail_call t (Btn_Requester u) = To_Tasks (Call_changeRequester t u)"

section \<open>The thread and the review dialog\<close>

definition post_message :: "id \<Rightarrow> string \<Rightarrow> api_call option" where
  "post_message t draft =
     (let b = js_trim draft in if b = [] then None else Some (To_Work (Call_createMessage t b None)))"

definition post_reply :: "id \<Rightarrow> string \<Rightarrow> id option \<Rightarrow> api_call option" where
  "post_reply t draft parent =
     (let b = js_trim draft in
      case parent of None \<Rightarrow> None | Some p \<Rightarrow> if b = [] then None else Some (To_Work (Call_createMessage t b (Some p))))"

definition save_edit :: "id \<Rightarrow> string \<Rightarrow> api_call" where
  "save_edit m editBody = To_Work (Call_updateMessage m (js_trim editBody))"

definition review_call :: "id \<Rightarrow> decision \<Rightarrow> string \<Rightarrow> api_call" where
  "review_call s d note = To_Work (Call_reviewSubmission s d (truthy (Some (js_trim note))))"

definition retire_call :: "id \<Rightarrow> string \<Rightarrow> api_call option" where
  "retire_call s note =
     (let reason = js_trim note in if length reason < 5 then None else Some (To_Work (Call_retireSubmission s reason)))"

section \<open>The audit log\<close>

definition CATEGORIES :: "(string \<times> string) list" where
  "CATEGORIES =
   [(''All activity'', ''''), (''Tasks'', ''task''), (''Messages'', ''message''),
    (''Submissions'', ''submission''), (''Attachments'', ''attachment''), (''Users & roles'', ''user''),
    (''Roles'', ''role''), (''Permissions (grants)'', ''grant''), (''Divisions'', ''division''),
    (''Teams'', ''team''), (''Invitations'', ''invite''), (''Request Templates'', ''request_template''),
    (''Configuration'', ''config''), (''Integrations (Discord)'', ''integration''),
    (''Account links & mappings'', ''external''), (''Discord sign-in'', ''auth''),
    (''Garbage collection'', ''gc''), (''Bootstrap'', ''bootstrap''),
    (''Security (admin guard)'', ''last_admin'')]"

definition VERB_LABELS :: "(string \<times> string) list" where
  "VERB_LABELS =
   [(''task.created'', ''created a task''), (''task.updated'', ''edited a task''),
    (''task.retired'', ''retired a task''), (''task.revived'', ''revived a task''),
    (''task.claimed'', ''claimed a task''), (''task.left'', ''left a task''),
    (''task.claims_updated'', ''updated claim openings''),
    (''task.requester_changed'', ''changed the requester''), (''task.completed'', ''completed a task''),
    (''task_request_template.updated'', ''edited a task request template''),
    (''message.created'', ''posted a comment''), (''message.updated'', ''edited a comment''),
    (''message.retired'', ''removed a comment''), (''message.revived'', ''restored a comment''),
    (''attachment.created'', ''uploaded an attachment''),
    (''attachment.retired'', ''removed an attachment''),
    (''attachment.revived'', ''restored an attachment''), (''submission.submitted'', ''submitted work''),
    (''submission.reviewed'', ''reviewed a submission''),
    (''submission.retired'', ''retired a submission''), (''user.registered'', ''registered''),
    (''user.updated'', ''updated a user''), (''user.deactivated'', ''deactivated a user''),
    (''user.reactivated'', ''reactivated a user''), (''user.retired'', ''retired a user''),
    (''user.revived'', ''revived a user''), (''user_role.granted'', ''granted a role''),
    (''user_role.revoked'', ''revoked a role''), (''role.created'', ''created a role''),
    (''role.updated'', ''edited a role''), (''role.retired'', ''retired a role''),
    (''role.revived'', ''revived a role''), (''grant.created'', ''added a permission''),
    (''grant.updated'', ''edited a permission''), (''grant.retired'', ''removed a permission''),
    (''grant.revived'', ''restored a permission''), (''division.created'', ''created a division''),
    (''division.updated'', ''edited a division''), (''division.retired'', ''retired a division''),
    (''division.revived'', ''revived a division''), (''team.created'', ''created a team''),
    (''team.updated'', ''edited a team''), (''team.retired'', ''retired a team''),
    (''team.revived'', ''revived a team''), (''invite.created'', ''created an invitation''),
    (''invite.redeemed'', ''redeemed an invitation''), (''invite.revoked'', ''revoked an invitation''),
    (''invite.auto_revoked_on_issuer_retired'', ''auto-revoked an invitation''),
    (''request_template.updated'', ''edited a division request template''),
    (''config.updated'', ''changed configuration''), (''bootstrap.completed'', ''completed bootstrap''),
    (''last_admin_refused'', ''was blocked (last-admin guard)''),
    (''gc.task_collected'', ''garbage-collected a task''),
    (''gc.role_collected'', ''garbage-collected a role''),
    (''gc.division_collected'', ''garbage-collected a division''),
    (''gc.team_collected'', ''garbage-collected a team''), (''gc.user_scrubbed'', ''scrubbed a user''),
    (''gc.user_collected'', ''deleted a user''), (''gc.blocked'', ''GC blocked (live reference)''),
    (''gc.blob_reconciled'', ''reconciled orphaned blobs''),
    (''integration.connected'', ''connected an integration''),
    (''integration.updated'', ''updated an integration''),
    (''integration.retired'', ''disconnected an integration''),
    (''integration.revived'', ''reconnected an integration''),
    (''integration.token_rotated'', ''rotated the bot token''), (''integration.synced'', ''synced roles''),
    (''integration.sync_started'', ''started a sync''),
    (''integration.reconcile_scheduled'', ''scheduled a reconcile''),
    (''integration.broken'', ''flagged a broken mapping''),
    (''integration.push_failed'', ''couldn'' @ [CHR 0x27] @ ''t update a Discord role (check the bot'' @ [CHR 0x27] @ ''s permissions)''),
    (''integration.removed'', ''removed a synced role''),
    (''integration.external_role_added'', ''added a Discord role''),
    (''integration.external_role_removed'', ''removed a Discord role''),
    (''integration.token_invalid'', ''bot token was rejected''),
    (''integration.mapping_retried'', ''retried a broken mapping''),
    (''integration.gateway_connected'', ''Gateway connected''),
    (''integration.gateway_disconnected'', ''Gateway disconnected''),
    (''integration.gateway_degraded'', ''Gateway degraded''),
    (''external_identity.linked'', ''linked a Discord account''),
    (''external_identity.unlinked'', ''unlinked a Discord account''),
    (''external_group_mapping.created'', ''added a role mapping''),
    (''external_group_mapping.updated'', ''edited a role mapping''),
    (''external_group_mapping.retired'', ''removed a role mapping''),
    (''auth.discord_linked'', ''enabled Discord sign-in''),
    (''auth.discord_unlinked'', ''removed Discord sign-in'')]"

text \<open>\<open>verb.replace(/[._]/g, ' ')\<close>.\<close>

definition verb_label :: "string \<Rightarrow> string" where
  "verb_label verb =
     (case map_of VERB_LABELS verb of
        Some l \<Rightarrow> l
      | None \<Rightarrow> map (\<lambda>c. if c = CHR ''.'' \<or> c = CHR ''_'' then CHR '' '' else c) verb)"

record audit_controls =
  ac_category :: string
  ac_actor :: "id option"
  ac_system :: bool
  ac_source :: "source option"
  ac_from :: string
  ac_to :: string

text \<open>\<open>at_time\<close> turns a local day and time into a timestamp; \<open>ac_system\<close> is the pseudo member that stands for no actor.\<close>

definition audit_filters_of :: "(string \<Rightarrow> string) \<Rightarrow> audit_controls \<Rightarrow> audit_filters" where
  "audit_filters_of at_time c =
     \<lparr>qf_verb = None, qf_verbPrefix = truthy (Some (ac_category c)),
      qf_actorUserId = (if ac_system c then None else ac_actor c), qf_subjectType = None, qf_subjectId = None,
      qf_source = ac_source c,
      qf_from = map_option (\<lambda>d. at_time (d @ ''T00:00:00'')) (truthy (Some (ac_from c))),
      qf_to = map_option (\<lambda>d. at_time (d @ ''T23:59:59'')) (truthy (Some (ac_to c)))\<rparr>"

definition audit_call :: "(string \<Rightarrow> string) \<Rightarrow> audit_controls \<Rightarrow> id option \<Rightarrow> api_call" where
  "audit_call at_time c after = To_Members (Call_listActivity (audit_filters_of at_time c) after (Some 50))"

definition system_only :: "audit_controls \<Rightarrow> ('r \<Rightarrow> id option) \<Rightarrow> 'r list \<times> id option \<Rightarrow> 'r list \<times> id option" where
  "system_only c actor pg =
     (case pg of (items, cur) \<Rightarrow> (if ac_system c then filter (\<lambda>a. actor a = None) items else items, cur))"

end
