(* ===== verification/Pages_Properties.thy ===== *)
theory Pages_Properties
  imports Pages Routes Examples Task_Facts Task_Properties Submissions
begin

text \<open>
  What the pages of the web client show against what the API holds: the strip of claims on a task's page
  against the server's slots, the bell against the notification table, the task board against the list it
  pages through, and the audit log's words against the verbs the API writes.
\<close>

section \<open>The strip of claims\<close>

abbreviation newer_first :: "submission list \<Rightarrow> submission list" where
  "newer_first \<equiv> sort_key (\<lambda>r. - s_submissionNo r)"

definition latest_step :: "submission_view \<Rightarrow> (id \<rightharpoonup> submission_view) \<Rightarrow> id \<rightharpoonup> submission_view" where
  "latest_step s m =
     (case m (sv_claimantUserId s) of
        None \<Rightarrow> m(sv_claimantUserId s \<mapsto> s)
      | Some cur \<Rightarrow> if sv_submissionNo cur < sv_submissionNo s then m(sv_claimantUserId s \<mapsto> s) else m)"

lemma latest_by_claimant_fold: "latest_by_claimant subs = fold latest_step subs Map.empty"
  unfolding latest_by_claimant_def by (rule arg_cong [where f = "\<lambda>f. fold f subs Map.empty"])
    (simp add: latest_step_def fun_eq_iff)

lemma latest_step_other: "sv_claimantUserId x \<noteq> u \<Longrightarrow> latest_step x m u = m u"
  by (simp add: latest_step_def split: option.split)

lemma latest_step_local: "m u = n u \<Longrightarrow> latest_step x m u = latest_step x n u"
  by (cases "sv_claimantUserId x = u") (auto simp: latest_step_def split: option.split)

lemma latest_fold_filter:
  "m u = n u \<Longrightarrow> fold latest_step xs m u = fold latest_step (filter (\<lambda>x. sv_claimantUserId x = u) xs) n u"
proof (induction xs arbitrary: m n)
  case (Cons x xs)
  show ?case
  proof (cases "sv_claimantUserId x = u")
    case True
    have "latest_step x m u = latest_step x n u" using Cons.prems by (rule latest_step_local)
    from Cons.IH [of "latest_step x m" "latest_step x n", OF this] show ?thesis using True by simp
  next
    case False
    then show ?thesis using Cons.IH [of "latest_step x m" n] Cons.prems by (simp add: latest_step_other)
  qed
qed simp

lemma latest_stays:
  "m u = Some x \<Longrightarrow> \<forall>y \<in> set xs. sv_claimantUserId y = u \<and> sv_submissionNo y \<le> sv_submissionNo x \<Longrightarrow>
   fold latest_step xs m u = Some x"
  by (induction xs arbitrary: m) (auto simp: latest_step_def)

lemma latest_descending:
  assumes "sorted (map (\<lambda>v. - sv_submissionNo v) vs)" and "\<forall>v \<in> set vs. sv_claimantUserId v = u"
  shows "fold latest_step vs Map.empty u = (case vs of [] \<Rightarrow> None | v # _ \<Rightarrow> Some v)"
proof (cases vs)
  case (Cons v ws)
  have "fold latest_step ws (latest_step v Map.empty) u = Some v"
    by (rule latest_stays) (use assms in \<open>auto simp: Cons latest_step_def\<close>)
  then show ?thesis by (simp add: Cons)
qed simp

lemma view_number [simp]:
  "sv_claimantUserId (submission_toView s r) = s_claimantUserId r"
  "sv_submissionNo (submission_toView s r) = s_submissionNo r"
  "sv_state (submission_toView s r) = s_state r"
  by (simp_all add: submission_toView_def)

lemma claimants_sorted:
  "filter (\<lambda>r. s_claimantUserId r = u) (sort_key s_claimantUserId (newer_first xs)) =
     newer_first (filter (\<lambda>r. s_claimantUserId r = u) xs)"
  unfolding sort_key_stable by (rule filter_sort)

lemma latest_served:
  "latest_by_claimant
     (map (submission_toView s) (sort_key s_claimantUserId (newer_first
        (filter (\<lambda>r. s_taskId r = k \<and> s_lifecycleState r = active) (submissions s))))) u =
   map_option (submission_toView s) (latest_submission s k u)"
proof -
  let ?P = "\<lambda>r. s_taskId r = k \<and> s_claimantUserId r = u \<and> s_lifecycleState r = active"
  let ?rs = "newer_first (filter ?P (submissions s))"
  have rows: "filter (\<lambda>r. s_claimantUserId r = u) (sort_key s_claimantUserId (newer_first
        (filter (\<lambda>r. s_taskId r = k \<and> s_lifecycleState r = active) (submissions s)))) = ?rs"
    unfolding claimants_sorted filter_filter by (rule arg_cong [where f = newer_first]) (rule filter_cong, auto)
  have "sorted (map (\<lambda>r. - s_submissionNo r) ?rs)" by simp
  then have "sorted (map (\<lambda>v. - sv_submissionNo v) (map (submission_toView s) ?rs))" by (simp add: o_def)
  moreover have "\<forall>v \<in> set (map (submission_toView s) ?rs). sv_claimantUserId v = u" by simp
  ultimately have "fold latest_step (map (submission_toView s) ?rs) Map.empty u =
      (case map (submission_toView s) ?rs of [] \<Rightarrow> None | v # _ \<Rightarrow> Some v)"
    by (rule latest_descending)
  then show ?thesis
    unfolding latest_by_claimant_fold
    by (subst latest_fold_filter [OF refl])
      (simp add: filter_map o_def rows latest_submission_def find_first_def split: list.split)
qed

text \<open>C9: The strip of claims a task's page puts together in the browser, from the task it was given and the
  submissions it was given, shows slot by slot the state the server itself rolls up: one row per open claim in
  the order of the claims, each with the state of that claimant's newest live submission. It offers to complete
  the task exactly when there is a claim and every one is approved, and the free places it draws are the
  openings not taken.\<close>

theorem claim_strip_agrees:
  assumes "tasks_get k s = (Inr t, s)" and "submissions_listForTask k s = (Inr subs, s)"
  shows "map cl_userId (claim_rows t subs) = activeClaimantIds k s \<and>
     map cl_state (claim_rows t subs) = slot_states k s \<and>
     (allApproved (claim_rows t subs) \<longleftrightarrow>
        slot_states k s \<noteq> [] \<and> (\<forall>x \<in> set (slot_states k s). x = Some ss_approved)) \<and>
     openPips t subs = nat (open_spots (tv_openings t) False (slot_states k s))"
proof -
  obtain r where "lookup t_id k (tasks s) = Some r"
    and t: "t = task_toView r (activeClaimantIds (t_id r) s)" and "t_id r = k"
    using assms(1)
    by (auto simp: tasks_get_def view_with_claimants_def op_simps lookup_def dest: find_key_SomeD split: option.splits)
  have subs: "subs = map (submission_toView s) (sort_key s_claimantUserId (newer_first
        (filter (\<lambda>r. s_taskId r = k \<and> s_lifecycleState r = active) (submissions s))))"
    using assms(2) by (auto simp: submissions_listForTask_def op_simps split: option.splits)
  have ids: "tv_claimantUserIds t = activeClaimantIds k s" by (simp add: t task_toView_def \<open>t_id r = k\<close>)
  have users: "map cl_userId (claim_rows t subs) = activeClaimantIds k s"
    by (simp add: claim_rows_def ids o_def Let_def)
  have states: "map cl_state (claim_rows t subs) = slot_states k s"
    by (simp add: claim_rows_def ids subs latest_served activeClaimantIds_def slot_states_def active_slots_def
        o_def Let_def option.map_comp)
  have n: "length (claim_rows t subs) = length (slot_states k s)" using states by (metis length_map)
  have e: "(claim_rows t subs = []) = (slot_states k s = [])" using n by (metis length_0_conv)
  have "(\<forall>c \<in> set (claim_rows t subs). cl_state c = Some ss_approved) =
      (\<forall>x \<in> set (slot_states k s). x = Some ss_approved)"
    unfolding states [symmetric] by simp
  then have "allApproved (claim_rows t subs) \<longleftrightarrow>
      slot_states k s \<noteq> [] \<and> (\<forall>x \<in> set (slot_states k s). x = Some ss_approved)"
    by (simp add: allApproved_def e)
  moreover have "openPips t subs = nat (open_spots (tv_openings t) False (slot_states k s))"
    by (simp add: openPips_def open_spots_def n)
  ultimately show ?thesis using users states by blast
qed

theorem claim_strip_agrees_witness:
  "case (tasks_get 20 demo_submitted, submissions_listForTask 20 demo_submitted) of
     ((Inr t, _), (Inr subs, _)) \<Rightarrow>
        map cl_state (claim_rows t subs) = [Some ss_review] \<and> \<not> allApproved (claim_rows t subs)
   | _ \<Rightarrow> False"
proof -
  obtain t where t: "tasks_get 20 demo_submitted = (Inr t, demo_submitted)"
    by (simp add: tasks_get_def view_with_claimants_def op_simps)
  obtain subs where subs: "submissions_listForTask 20 demo_submitted = (Inr subs, demo_submitted)"
    by (simp add: submissions_listForTask_def op_simps)
  have "slot_states 20 demo_submitted = [Some ss_review]"
    by (simp add: slot_states_def active_slots_def latest_submission_def find_first_def demo_defs)
  then show ?thesis using claim_strip_agrees [OF t subs] by (simp add: t subs)
qed

section \<open>The bell\<close>

text \<open>What happens while a page is open: the server works on, a ping is answered or its answer is lost, the
  member marks one notification or all of them read (the browser stamps its own time).\<close>

datatype bell_event =
    Bell_Server "state \<Rightarrow> state" | Bell_Ping | Bell_Lost | Bell_Read id time | Bell_ReadAll time

fun bell_step :: "id \<Rightarrow> bell_event \<Rightarrow> state \<times> notification_store \<Rightarrow> state \<times> notification_store" where
  "bell_step u (Bell_Server f) (s, st) = (f s, st)"
| "bell_step u Bell_Ping (s, st) =
     (s, store_reconcile (case notifications_listForUser u None 50 s of ((items, _), n) \<Rightarrow> Some (items, n)) st)"
| "bell_step u Bell_Lost (s, st) = (s, store_reconcile None st)"
| "bell_step u (Bell_Read i t) (s, st) =
     (case markRead u i s of (Inr n, s') \<Rightarrow> (s', store_markRead t i n st) | (Inl _, s') \<Rightarrow> (s', st))"
| "bell_step u (Bell_ReadAll t) (s, st) =
     (case markAllRead u s of (Inr n, s') \<Rightarrow> (s', store_markAllRead t n st) | (Inl _, s') \<Rightarrow> (s', st))"

definition same_notice :: "notification \<Rightarrow> notification \<Rightarrow> bool" where
  "same_notice n r \<longleftrightarrow> n\<lparr>n_readAt := None\<rparr> = r\<lparr>n_readAt := None\<rparr> \<and> (n_readAt n = None \<longleftrightarrow> n_readAt r = None)"

definition bell_mirrors :: "id \<Rightarrow> state \<times> notification_store \<Rightarrow> bool" where
  "bell_mirrors u c \<longleftrightarrow>
     ns_unread (snd c) = unreadCount u (fst c) \<and>
     (\<exists>rs. set rs \<subseteq> {r \<in> set (notifications (fst c)). n_recipientUserId r = u} \<and>
           list_all2 same_notice (ns_feed (snd c)) rs)"

lemma unread_first_set [simp]: "set (unread_first rows) = set rows"
  by (auto simp: unread_first_def newest_first_def)

lemma bell_ping_mirrors: "bell_mirrors u (bell_step u Bell_Ping (s, st))"
proof -
  let ?rs = "fst (fst (notifications_listForUser u None 50 s))"
  have "set ?rs \<subseteq> {r \<in> set (notifications s). n_recipientUserId r = u}"
    by (auto simp: notifications_listForUser_def page_def Let_def dest!: in_set_takeD split: if_splits)
  moreover have "list_all2 same_notice ?rs ?rs" by (simp add: list.rel_refl same_notice_def)
  ultimately show ?thesis
    by (auto simp: bell_mirrors_def store_reconcile_def split: prod.split)
      (simp add: notifications_listForUser_def Let_def)
qed

lemma bell_mark:
  assumes "bell_mirrors u (s, st)" and "\<And>n r. same_notice n r \<Longrightarrow> n_recipientUserId r = u \<Longrightarrow> P n = Q r"
    and "\<And>r. Q r \<Longrightarrow> n_recipientUserId r = u"
  shows "bell_mirrors u
     (notifications_update (upd_where (\<lambda>r. Q r \<and> n_readAt r = None) (\<lambda>r. r\<lparr>n_readAt := Some t\<rparr>)) s,
      \<lparr>ns_feed = map (\<lambda>n. if P n \<and> n_readAt n = None then n\<lparr>n_readAt := Some t'\<rparr> else n) (ns_feed st),
       ns_unread = unreadCount u (notifications_update
          (upd_where (\<lambda>r. Q r \<and> n_readAt r = None) (\<lambda>r. r\<lparr>n_readAt := Some t\<rparr>)) s)\<rparr>)"
proof -
  obtain rs where rs: "set rs \<subseteq> {r \<in> set (notifications s). n_recipientUserId r = u}"
      "list_all2 same_notice (ns_feed st) rs"
    using assms(1) by (auto simp: bell_mirrors_def)
  let ?g = "\<lambda>r. if Q r \<and> n_readAt r = None then r\<lparr>n_readAt := Some t\<rparr> else r"
  let ?f = "\<lambda>n. if P n \<and> n_readAt n = None then n\<lparr>n_readAt := Some t'\<rparr> else n"
  have "same_notice (?f n) (?g r)" if "same_notice n r" "n_recipientUserId r = u" for n r
    using that assms(2) [OF that] by (auto simp: same_notice_def)
  then have "list_all2 same_notice (map ?f (ns_feed st)) (map ?g rs)"
    using rs by (auto simp: list_all2_conv_all_nth subset_iff)
  moreover have "set (map ?g rs) \<subseteq> {r \<in> set (upd_where (\<lambda>r. Q r \<and> n_readAt r = None)
        (\<lambda>r. r\<lparr>n_readAt := Some t\<rparr>) (notifications s)). n_recipientUserId r = u}"
    using rs(1) by (auto simp: upd_where_def)
  ultimately show ?thesis
    unfolding bell_mirrors_def by (intro conjI exI [of _ "map ?g rs"]) simp_all
qed

lemma same_notice_id: "same_notice n r \<Longrightarrow> n_id n = n_id r"
  by (drule same_notice_def [THEN iffD1], drule conjunct1, drule arg_cong [where f = n_id]) simp

lemma bell_read_mirrors:
  assumes "bell_mirrors u (s, st)"
  shows "bell_mirrors u (bell_step u (Bell_Read i t) (s, st))"
  using bell_mark [OF assms, of "\<lambda>n. n_id n = i" "\<lambda>r. n_id r = i \<and> n_recipientUserId r = u" "clock s" t]
  by (simp add: markRead_def op_simps store_markRead_def same_notice_id)

lemma bell_readAll_mirrors:
  assumes "bell_mirrors u (s, st)"
  shows "bell_mirrors u (bell_step u (Bell_ReadAll t) (s, st))"
  using bell_mark [OF assms, of "\<lambda>_. True" "\<lambda>r. n_recipientUserId r = u" "clock s" t]
  by (simp add: markAllRead_def op_simps store_markAllRead_def)

lemma bell_quiet_mirrors:
  "bell_mirrors u c \<Longrightarrow> \<forall>e \<in> set es. \<forall>f. e \<noteq> Bell_Server f \<Longrightarrow> bell_mirrors u (fold (bell_step u) es c)"
proof (induction es arbitrary: c)
  case (Cons e es)
  obtain s st where c: "c = (s, st)" by (cases c)
  have "bell_mirrors u (bell_step u e c)"
  proof (cases e)
    case Bell_Lost
    then show ?thesis using Cons.prems(1) by (simp add: c store_reconcile_def)
  qed (use Cons.prems in \<open>simp_all add: c bell_ping_mirrors bell_read_mirrors bell_readAll_mirrors
        del: bell_step.simps\<close>)
  then show ?case using Cons.prems(2) by (simp add: Cons.IH)
qed simp

lemma page_bound_50: "length (fst (page 50 key (take 51 rows))) \<le> 50"
  using page_bound [of 50 key rows] by simp

lemma bell_all_read:
  "let st' = snd (bell_step u (Bell_ReadAll t) (s, st))
   in ns_unread st' = 0 \<and> (\<forall>n \<in> set (ns_feed st'). n_readAt n \<noteq> None)"
proof -
  let ?s = "notifications_update (upd_where (\<lambda>n. n_recipientUserId n = u \<and> n_readAt n = None)
      (\<lambda>n. n\<lparr>n_readAt := Some (clock s)\<rparr>)) s"
  have "bell_step u (Bell_ReadAll t) (s, st) = (?s, store_markAllRead t (unreadCount u ?s) st)"
    by (simp add: markAllRead_def op_simps)
  moreover have "unreadCount u ?s = 0"
    unfolding unreadCount_def count_where_0_iff by (simp add: ball_upd_where)
  ultimately show ?thesis by (auto simp: store_markAllRead_def Let_def simp del: bell_step.simps)
qed

text \<open>C11: The bell never drifts from the notification table on the member's own doing. Whatever the server did
  before, once a ping is answered the badge is the number of unread rows and the feed is at most fifty rows of
  the member; marking one read, marking all read and answers that get lost keep badge and feed in step with
  the table, each entry read exactly when its row is, though the browser never reads the row again. Marking all
  read leaves nothing unread.\<close>

theorem bell_in_step:
  assumes "\<forall>e \<in> set es. \<forall>f. e \<noteq> Bell_Server f"
  shows "bell_mirrors u (fold (bell_step u) (earlier @ Bell_Ping # es) c) \<and>
     length (ns_feed (snd (bell_step u Bell_Ping c))) \<le> 50 \<and>
     (let st = snd (fold (bell_step u) (earlier @ Bell_Ping # es @ [Bell_ReadAll t]) c)
      in ns_unread st = 0 \<and> (\<forall>n \<in> set (ns_feed st). n_readAt n \<noteq> None))"
proof -
  have ping: "bell_mirrors u (bell_step u Bell_Ping x)" for x
    using bell_ping_mirrors by (cases x) (simp del: bell_step.simps)
  have "bell_mirrors u (fold (bell_step u) (earlier @ Bell_Ping # es) c)"
    using bell_quiet_mirrors [OF ping assms] by simp
  moreover have "length (ns_feed (snd (bell_step u Bell_Ping c))) \<le> 50"
    by (cases c) (simp add: store_reconcile_def notifications_listForUser_def Let_def case_prod_beta page_bound_50)
  moreover have "let st = snd (bell_step u (Bell_ReadAll t) x)
      in ns_unread st = 0 \<and> (\<forall>n \<in> set (ns_feed st). n_readAt n \<noteq> None)" for x
    using bell_all_read [of u t "fst x" "snd x"] by (simp only: prod.collapse)
  ultimately show ?thesis by (simp add: Let_def del: bell_step.simps)
qed

definition demo_note :: "id \<Rightarrow> notification" where
  "demo_note i = \<lparr>n_id = i, n_organizationId = 1, n_recipientUserId = 10, n_type = ''task.claimed'',
     n_subjectType = ''task'', n_subjectId = 20, n_payload = [], n_eventSeq = i, n_readAt = None, n_createdAt = 1\<rparr>"

definition demo_bell :: state where
  "demo_bell = demo\<lparr>notifications := [demo_note 80, demo_note 81]\<rparr>"

lemma demo_bell_rows [simp]: "notifications demo_bell = [demo_note 80, demo_note 81]" "clock demo_bell = 1000"
  by (simp_all add: demo_bell_def)

lemma demo_note_fields [simp]:
  "n_id (demo_note i) = i" "n_recipientUserId (demo_note i) = 10" "n_readAt (demo_note i) = None"
  by (simp_all add: demo_note_def)

lemma demo_bell_ping:
  "bell_step 10 Bell_Ping (demo_bell, st) = (demo_bell, \<lparr>ns_feed = [demo_note 81, demo_note 80], ns_unread = 2\<rparr>)"
  by (simp add: notifications_listForUser_def unread_first_def newest_first_def page_short store_reconcile_def
      unreadCount_def)

lemma demo_bell_read:
  "bell_step 10 (Bell_Read 81 7) (demo_bell, \<lparr>ns_feed = [demo_note 81, demo_note 80], ns_unread = 2\<rparr>) =
     (demo_bell\<lparr>notifications := [demo_note 80, (demo_note 81)\<lparr>n_readAt := Some 1000\<rparr>]\<rparr>,
      \<lparr>ns_feed = [(demo_note 81)\<lparr>n_readAt := Some 7\<rparr>, demo_note 80], ns_unread = 1\<rparr>)"
  by (simp add: markRead_def op_simps store_markRead_def unreadCount_def)

theorem bell_in_step_witness:
  "let st = snd (fold (bell_step 10) ([] @ Bell_Ping # [Bell_Read 81 7]) (demo_bell, disconnected_store))
   in ns_unread st = 1 \<and> map n_id (ns_feed st) = [81, 80] \<and> map n_readAt (ns_feed st) = [Some 7, None] \<and>
      bell_mirrors 10 (demo_bell\<lparr>notifications := [demo_note 80, (demo_note 81)\<lparr>n_readAt := Some 1000\<rparr>]\<rparr>, st)"
proof -
  have f: "fold (bell_step 10) ([] @ Bell_Ping # [Bell_Read 81 7]) (demo_bell, disconnected_store) =
     (demo_bell\<lparr>notifications := [demo_note 80, (demo_note 81)\<lparr>n_readAt := Some 1000\<rparr>]\<rparr>,
      \<lparr>ns_feed = [(demo_note 81)\<lparr>n_readAt := Some 7\<rparr>, demo_note 80], ns_unread = 1\<rparr>)"
    by (simp add: demo_bell_ping demo_bell_read del: bell_step.simps)
  have "bell_mirrors 10 (fold (bell_step 10) ([] @ Bell_Ping # [Bell_Read 81 7]) (demo_bell, disconnected_store))"
    by (rule bell_in_step [THEN conjunct1]) simp
  then show ?thesis unfolding f by (simp add: Let_def)
qed

section \<open>The task board\<close>

context keyset begin

text \<open>\<open>n\<close> rows at most are still to come.\<close>

definition left_to_show :: "'q \<Rightarrow> state \<Rightarrow> nat \<Rightarrow> 'r shown_list \<Rightarrow> bool" where
  "left_to_show f s n sh \<longleftrightarrow>
     (sh_items sh = rows f s \<and> sh_cursor sh = None) \<or>
     (\<exists>xs r ys. rows f s = xs @ r # ys \<and> sh_items sh = xs @ [r] \<and> sh_cursor sh = Some (key r) \<and> length ys < n)"

lemma taken_split:
  assumes "0 < limit" and "limit < length ys"
  shows "ys = butlast (take limit ys) @ last (take limit ys) # drop limit ys"
proof -
  have "take limit ys \<noteq> []" using assms by auto
  then have "butlast (take limit ys) @ [last (take limit ys)] = take limit ys" by simp
  then show ?thesis by (metis append.assoc append_Cons append_Nil append_take_drop_id)
qed

lemma reload_shows:
  assumes "0 < limit"
  shows "left_to_show f s (length (rows f s)) (page_reload (\<lambda>a. Some (fetch f limit s a)) sh)"
proof (cases "length (rows f s) \<le> limit")
  case True
  then show ?thesis by (simp add: left_to_show_def page_reload_def fetch_page [OF assms] page_short)
next
  case False
  let ?zs = "take limit (rows f s)"
  have "page_reload (\<lambda>a. Some (fetch f limit s a)) sh = \<lparr>sh_items = ?zs, sh_cursor = Some (key (last ?zs))\<rparr>"
    using False by (simp add: page_reload_def fetch_first [OF assms])
  moreover have "rows f s = butlast ?zs @ last ?zs # drop limit (rows f s)"
    by (rule taken_split) (use assms False in simp_all)
  moreover have "?zs = butlast ?zs @ [last ?zs]"
    by (rule append_butlast_last_id [symmetric]) (use False assms in auto)
  moreover have "length (drop limit (rows f s)) < length (rows f s)" using False assms by simp
  ultimately show ?thesis unfolding left_to_show_def by (metis shown_list.select_convs)
qed

lemma more_shows:
  assumes "ok s" and "0 < limit" and "left_to_show f s (Suc n) sh"
  shows "left_to_show f s n (page_loadMore (\<lambda>a. Some (fetch f limit s a)) sh)"
proof (cases "sh_cursor sh")
  case None
  then show ?thesis using assms(3) by (simp add: left_to_show_def page_loadMore_def)
next
  case (Some c)
  then obtain xs r ys where r: "rows f s = xs @ r # ys" "sh_items sh = xs @ [r]" "c = key r" "length ys < Suc n"
    using assms(3) by (auto simp: left_to_show_def)
  have "filter (\<lambda>q. before (key r) (key q)) (rows f s) = ys" by (rule rest_after [OF assms(1) r(1)])
  then have further: "fetch f limit s (Some c) = page limit key (take (limit + 1) ys)"
    unfolding fetch_page [OF assms(2)] r(3) by (simp only: option.case)
  show ?thesis
  proof (cases "length ys \<le> limit")
    case True
    then show ?thesis
      using Some r(1,2) by (simp add: left_to_show_def page_loadMore_def further page_short)
  next
    case False
    let ?zs = "take limit ys"
    have next_page: "page_loadMore (\<lambda>a. Some (fetch f limit s a)) sh =
        \<lparr>sh_items = (xs @ [r]) @ ?zs, sh_cursor = Some (key (last ?zs))\<rparr>"
      using False Some r(2) by (simp add: page_loadMore_def further page_full)
    have zs: "?zs = butlast ?zs @ [last ?zs]"
      by (rule append_butlast_last_id [symmetric]) (use False assms(2) in auto)
    have "ys = butlast ?zs @ last ?zs # drop limit ys"
      by (rule taken_split) (use assms(2) False in simp_all)
    then have "rows f s = (xs @ r # butlast ?zs) @ last ?zs # drop limit ys" using r(1) by simp
    moreover have "(xs @ [r]) @ ?zs = (xs @ r # butlast ?zs) @ [last ?zs]" by (subst zs) simp
    moreover have "length (drop limit ys) < n" using r(4) False assms(2) by simp
    ultimately show ?thesis unfolding left_to_show_def next_page by (metis shown_list.select_convs)
  qed
qed

text \<open>Requests that fail in between only cost the click.\<close>

lemma pages_show_all:
  assumes "ok s" and "0 < limit" and "left_to_show f s n sh" and "n \<le> count_list answered True"
  shows "fold (\<lambda>a. page_loadMore (\<lambda>c. if a then Some (fetch f limit s c) else None)) answered sh =
     \<lparr>sh_items = rows f s, sh_cursor = None\<rparr>"
  using assms(3,4)
proof (induction answered arbitrary: n sh)
  case Nil
  then show ?case by (cases sh) (auto simp: left_to_show_def)
next
  case (Cons a answered)
  show ?case
  proof (cases a)
    case True
    have "left_to_show f s (Suc (n - 1)) sh" using Cons.prems(1) by (auto simp: left_to_show_def)
    from Cons.IH [OF more_shows [OF assms(1,2) this]] show ?thesis using True Cons.prems(2) by simp
  next
    case False
    have "page_loadMore (\<lambda>c. None) sh = sh" by (simp add: page_loadMore_def split: option.split)
    then show ?thesis using False Cons.IH [OF Cons.prems(1)] Cons.prems(2) by simp
  qed
qed

end

text \<open>C10: The task board ends up showing every task. After a reload and enough presses of "load more", however
  many requests fail in between, the board holds every task that matches its filters exactly once, newest
  first, and offers no further page; as many answered requests as there are tasks always suffice.\<close>

theorem board_lists_all:
  assumes "distinct (map t_id (tasks s))" and "length (task_rows q s) \<le> count_list answered True"
  shows "fold (\<lambda>a. page_loadMore (\<lambda>c. if a then Some (tasks_fetch q 20 s c) else None)) answered
       (page_reload (\<lambda>c. Some (tasks_fetch q 20 s c)) sh) =
     \<lparr>sh_items = task_rows q s, sh_cursor = None\<rparr>"
proof (rule task_pages.pages_show_all [OF assms(1) _ _ assms(2)])
  show "task_pages.left_to_show q s (length (task_rows q s)) (page_reload (\<lambda>c. Some (tasks_fetch q 20 s c)) sh)"
    by (rule task_pages.reload_shows) simp
qed simp

theorem board_lists_all_witness:
  "map tv_id (sh_items (fold (\<lambda>a. page_loadMore (\<lambda>c. if a then
        Some (tasks_fetch (1, every_task) 20 (demo\<lparr>tasks := [demo_task, demo_task\<lparr>t_id := 23\<rparr>]\<rparr>) c) else None))
      [False, True, True]
      (page_reload (\<lambda>c. Some (tasks_fetch (1, every_task) 20 (demo\<lparr>tasks := [demo_task, demo_task\<lparr>t_id := 23\<rparr>]\<rparr>) c))
        \<lparr>sh_items = [], sh_cursor = None\<rparr>))) = [23, 20]"
proof -
  have "map tv_id (task_rows (1, every_task) (demo\<lparr>tasks := [demo_task, demo_task\<lparr>t_id := 23\<rparr>]\<rparr>)) = [23, 20]"
    by (simp add: task_rows_def task_where_def every_task_def opt_in_def activeFilter_def newest_first_def
        task_toView_def demo_defs)
  then show ?thesis
    by (subst board_lists_all) (auto simp: demo_defs task_rows_def task_where_def every_task_def opt_in_def
        activeFilter_def newest_first_def)
qed

section \<open>The words of the log\<close>

text \<open>The one verb the API writes that has no words of its own.\<close>

lemma removal_shown_raw: "verb_label ''task.claimant_removed'' = ''task claimant removed''"
  by (simp add: verb_label_def VERB_LABELS_def)

end
