(* ===== verification/Spec2Isabelle.thy ===== *)
theory Spec2Isabelle
  imports Task_Properties Work_Properties Access_Properties Org_Properties Sync_Properties
    Auth_Properties Invitation_Properties Gc_Properties Integration_Properties Doorbell_Properties
    Template_Properties Web_Properties Timeline_Properties Form_Properties Rest_Properties
    Pages_Properties
begin

text \<open>
  A model of Patrice, a self-hosted work tracker: its API (\<open>src/api/src\<close>) and the logic of its web
  client (\<open>src/web/src/app\<close>). Tasks with claimant
  slots, submitted answers and their review, message threads and notifications; members, roles and
  grants decided by a Cedar engine; invitations and sessions; a synchronizer that keeps roles and the
  groups of an external provider in step; retiring, reviving and finally collecting what was retired.

  \<^bold>\<open>State and computations.\<close> \<open>Schema\<close> has one record per table of \<open>api/prisma/schema.prisma\<close> with
  the schema's field names behind a prefix, enums as datatypes, and \<open>state\<close>, the database: a list of
  rows per table, a clock in milliseconds, the next fresh id, the access engine's policy cache and the
  pings published to connected clients. A service method is a computation \<open>'a svc\<close> =
  \<open>state \<Rightarrow> (exn + 'a) \<times> state\<close> (\<open>Prelude\<close>, \<open>Store\<close>): every exception of the source is a value of
  \<open>exn\<close> (\<open>common/errors.ts\<close>), what was written before it stays written unless a \<open>transaction\<close> rolls it
  back, and unique keys and foreign keys are checked where the code can meet them. Ids are naturals;
  JavaScript numbers are integers or rationals where the code only adds and compares them, and the
  conversions of submitted values are written out (\<open>Js_Values\<close>).

  \<^bold>\<open>Parameters.\<close> What is not in the repository is an argument of the operations that use it: the Cedar
  engine and its schema check, hashes and drawn tokens, ciphers, the mailer, what the provider answers,
  the object store, random numbers. What a property relies on of them is a hypothesis of it, and its
  witness runs it on a concrete function.

  \<^bold>\<open>Components.\<close> Work: \<open>Tasks\<close>, \<open>Claims\<close>, \<open>Task_Status\<close>, \<open>Task_Facts\<close>, \<open>Templates\<close>, \<open>Validate\<close>,
  \<open>Submissions\<close>, \<open>Submission_Facts\<close>, \<open>Messages\<close>, \<open>Notify\<close>, \<open>Activity\<close>, \<open>Payloads\<close>, \<open>Paging\<close>,
  \<open>Lifecycle\<close> model \<open>tasks/\<close>, \<open>request-templates/\<close>, \<open>submissions/\<close>, \<open>messages/\<close>, \<open>notifications/\<close>,
  \<open>activity/\<close> and \<open>common/\<close>. Access: \<open>Cedar\<close>, \<open>Policies\<close>, \<open>Access\<close>, \<open>Access_Facts\<close>, \<open>Admin_Floor\<close>
  (\<open>access/\<close>). Organization: \<open>Roles\<close>, \<open>Grants\<close>, \<open>Org_Units\<close>, \<open>Users\<close>, \<open>Org_Config\<close>, \<open>Admin_Calls\<close>
  (\<open>roles/\<close>, \<open>grants/\<close>, \<open>divisions/\<close>, \<open>teams/\<close>, \<open>users/\<close>). Entry: \<open>Invitations\<close>, \<open>Auth\<close>
  (\<open>invitations/\<close>, \<open>auth/\<close>). Integrations: \<open>Reconcile\<close>, \<open>Sync\<close>, \<open>Integrations\<close>, \<open>Schedule\<close>,
  \<open>Discord_Link\<close>, \<open>Gateway\<close>, \<open>Gateway_Service\<close> (\<open>integrations/\<close>). Files and collection:
  \<open>Attachments\<close>, \<open>Gc\<close> with \<open>Gc_Facts\<close>, \<open>Gc_Spares\<close>, \<open>Gc_Erase\<close> (\<open>attachments/\<close>, \<open>gc/\<close>).
  Provider: \<open>Rest_Client\<close> (\<open>integrations/sync/discord-rest.client.ts\<close>), \<open>Discord_Auth\<close>
  (\<open>discord-auth/\<close>). HTTP: \<open>Http\<close> (a request through the session guard, the CSRF check and the access
  guard to its handler), \<open>Controllers\<close> (every controller's routes, actions and resources), \<open>Dto\<close> (the
  request schemas), \<open>Routes\<close> (which handler and argument a method, path, query and body select). Web
  client: \<open>Web_Client\<close> (the request of every call of \<open>core/api.service.ts\<close>), \<open>Timeline\<close>
  (\<open>pages/tasks/task-presentation.ts\<close>), \<open>Form_Builder\<close> (\<open>features/request-template/\<close> and the answer
  dialog), \<open>Pages\<close> (the stores under \<open>core/\<close>, the task board, a task's page, the audit log).

  \<^bold>\<open>How they interact.\<close> A task is created with a copy of its division's template; claiming, submitting
  and reviewing move slots and submissions, recompute the status kept with the task, post system
  messages and emit notifications, all in one transaction, and log. Membership changes and grants
  change what \<open>decide\<close> answers, through policies projected from the grants and cached by the
  organization's version; every change that could remove the last administrator runs under
  \<open>withAdminFloor\<close>. The synchronizer writes memberships too, outside that guard. The socket service
  and the requests that change roles only ask for synchronizations; a worker runs them. The web client
  reaches all of it through requests, and reads back what the API wrote into messages and lists.

  \<^bold>\<open>Contracts.\<close> Locales state what one part promises another, each interpreted on the model where it is
  provided: \<open>quiet_invariant\<close> and \<open>unlogged\<close>, \<open>invariant\<close> (an invariant that survives logging, system
  messages, notifications, so that it is enough to look at an operation's own writes), \<open>thread_log\<close>
  (an invariant of threads that every history keeps, over the kind of system messages it allows),
  \<open>keyset\<close> (what a paged list owes a client that follows its cursors),
  \<open>governed_op\<close> (an administrator remains, and the policies change only with their version),
  \<open>swept\<close> and \<open>shrinking\<close> (what an invariant must survive to hold through a sweep). The collections
  \<open>op_simps\<close> (running a method forward) and \<open>keeps_intros\<close> (pushing an invariant through one) carry
  most proofs.

  \<^bold>\<open>What the properties show.\<close> \<open>Task_Properties\<close>, \<open>Work_Properties\<close>: capacity of tasks under any
  history and its loss in one interleaving, the numbering of submissions, one review per submission,
  exact validation, one-level threads, a log that parses, lists that page through everything.
  \<open>Access_Properties\<close>, \<open>Org_Properties\<close>: a decision is what the active grants and static rules state,
  no server of a cluster decides by old policies once it has read the version, an administrator
  remains except where a unit is retired, settings keep their secret. \<open>Auth_Properties\<close>,
  \<open>Invitation_Properties\<close>: lifetimes of sessions, one-time tokens, uses of an invitation under
  concurrent redemptions. \<open>Sync_Properties\<close>, \<open>Integration_Properties\<close>, \<open>Doorbell_Properties\<close>: the
  reconciler settles, native memberships survive it, bot tokens are sealed, the socket only rings,
  and three ways in which integrations miss what they are documented to do. \<open>Gc_Properties\<close>: what a
  sweep spares, what it is sure to erase, and that files with rows stay. \<open>Http_Properties\<close>,
  \<open>Sign_In_Properties\<close>: no request changes anything without a session, its CSRF token and a
  permission, and what a sign-in callback can open. \<open>Template_Properties\<close>: which stored templates can be
  answered at all. \<open>Web_Properties\<close>: every call of the client arrives at its handler with its argument.
  \<open>Timeline_Properties\<close>, \<open>Form_Properties\<close>, \<open>Pages_Properties\<close>: the client reads the system messages the
  API writes, saves the templates it opens, and its claims, bell and board show what the API holds.
  \<open>Rest_Properties\<close>: how the provider client paces its requests. The root holds what spans components.

  \<^bold>\<open>Bounds.\<close> All loops of the source run over lists read before them and are structural recursions here;
  no fuel is used; the provider client's retries recurse on the number left. Concurrency is modelled where the code reads before it locks: claims, reviews,
  redemptions and the caches of a cluster are sequences of steps of several sessions.

  \<^bold>\<open>Not modelled.\<close> Of the web client the markup, busy flags, toasts and dialogs, the router's guards and
  the administration pages other than the audit log (forms over calls that are modelled), the initials
  and the floating-point hue of an avatar. Of the API rate limiting, the exception filter, cookies and
  headers of answers, streams, the event stream to clients, the drivers of storage and mail, the
  ciphers, the registration of workers and cron entries, the seeding scripts and the tests: input and
  output, or code that only calls a library.
\<close>

section \<open>Across the components\<close>

text \<open>C1: Whatever sequence of calls users make to tasks, request templates, submissions, messages
  and notifications, refused calls included, four invariants hold throughout: active slots never
  exceed a task's openings; each claimant's submissions of a task are numbered without gaps in
  the chain and only the newest can be out of revision; threads are one level deep; and every
  row of the activity log parses against its verb's schema.\<close>

theorem history_sound:
  assumes "sound s"
  shows "claims_ok (serve_all cs s) \<and> subs_ok (serve_all cs s) \<and>
    threads_ok (messages (serve_all cs s)) \<and> log_conforms (serve_all cs s)"
  using sound_serve_all [OF assms, of cs] by (simp add: sound_def)

theorem history_sound_witness:
  "claims_ok (serve_all [Task_Claim 20 12, Message_Post 20 11 ''hi'' (Some 70), Task_Leave 20 12] demo)"
  using history_sound [OF demo_sound(1)] by blast

end
